(* ===== verification/Prelude.thy ===== *)
theory Prelude
  imports Complex_Main "HOL-Library.AList" "HOL-Library.Sublist"
begin

text \<open>
  What every component of the frontend shares: JavaScript strings, sets and objects as the
  code uses them, thrown errors, and the interaction programs (\<open>io\<close>) that the event handlers of the
  pages are translated to.

  Strings are lists of \<open>char\<close>, one entry per code unit; the two glyphs above that range
  which the code prints are the constants \<open>em_dash\<close> and \<open>ellipsis\<close>, and case mapping
  is that of the ASCII letters.  A JavaScript \<open>Set\<close> iterates in insertion order, so it is a
  list without repetitions; an object keeps its keys in insertion order, so it is an
  association list updated in place.
\<close>

named_theorems js_simps \<open>equations of the JavaScript operations used by the components\<close>

section \<open>Strings\<close>

definition em_dash :: string where
  "em_dash = [CHR 0xE2, CHR 0x80, CHR 0x94]"

definition ellipsis :: string where
  "ellipsis = [CHR 0xE2, CHR 0x80, CHR 0xA6]"

abbreviation code :: "char \<Rightarrow> nat" where
  "code c \<equiv> of_char c"

definition lower_char :: "char \<Rightarrow> char" where
  "lower_char c = (if 65 \<le> code c \<and> code c \<le> 90 then char_of (code c + 32) else c)"

definition upper_char :: "char \<Rightarrow> char" where
  "upper_char c = (if 97 \<le> code c \<and> code c \<le> 122 then char_of (code c - 32) else c)"

definition to_lower :: "string \<Rightarrow> string" where
  "to_lower s = map lower_char s"

definition to_upper :: "string \<Rightarrow> string" where
  "to_upper s = map upper_char s"

definition is_space :: "char \<Rightarrow> bool" where
  "is_space c = (code c \<in> {9, 10, 11, 12, 13, 32, 160})"

definition trim :: "string \<Rightarrow> string" where
  "trim s = rev (dropWhile is_space (rev (dropWhile is_space s)))"

definition starts_with :: "string \<Rightarrow> string \<Rightarrow> bool" where
  "starts_with p s = (take (length p) s = p)"

text \<open>\<open>hay.indexOf(needle)\<close>, with \<open>None\<close> for -1.\<close>

fun index_of :: "'a list \<Rightarrow> 'a list \<Rightarrow> nat option" where
  "index_of needle [] = (if needle = [] then Some 0 else None)"
| "index_of needle (c # cs) =
     (if take (length needle) (c # cs) = needle then Some 0
      else map_option Suc (index_of needle cs))"

definition str_includes :: "string \<Rightarrow> string \<Rightarrow> bool" where
  "str_includes hay needle = (index_of needle hay \<noteq> None)"

fun join_with :: "string \<Rightarrow> string list \<Rightarrow> string" where
  "join_with sep [] = []"
| "join_with sep [s] = s"
| "join_with sep (s # ss) = s @ sep @ join_with sep ss"

fun split_at_char :: "char \<Rightarrow> string \<Rightarrow> string list" where
  "split_at_char d [] = [[]]"
| "split_at_char d (c # cs) =
     (if c = d then [] # split_at_char d cs
      else (case split_at_char d cs of [] \<Rightarrow> [[c]] | s # ss \<Rightarrow> (c # s) # ss))"

fun replace_first :: "char \<Rightarrow> char \<Rightarrow> string \<Rightarrow> string" where
  "replace_first a b [] = []"
| "replace_first a b (c # cs) = (if c = a then b # cs else c # replace_first a b cs)"

text \<open>Decimal printing, as \<open>String(n)\<close> and template literals do for integers.\<close>

definition digit_char :: "nat \<Rightarrow> char" where
  "digit_char d = char_of (48 + d)"

fun nat_str :: "nat \<Rightarrow> string" where
  "nat_str n = (if n < 10 then [digit_char n] else nat_str (n div 10) @ [digit_char (n mod 10)])"

declare nat_str.simps [simp del]

definition int_str :: "int \<Rightarrow> string" where
  "int_str i = (if i < 0 then ''-'' @ nat_str (nat (- i)) else nat_str (nat i))"

definition pad_start2 :: "string \<Rightarrow> string" where
  "pad_start2 s = (if length s < 2 then replicate (2 - length s) CHR ''0'' @ s else s)"

lemma str_includes_iff: "str_includes hay needle \<longleftrightarrow> (\<exists>xs ys. hay = xs @ needle @ ys)"
proof (induction hay)
  case Nil
  then show ?case by (simp add: str_includes_def)
next
  case (Cons c cs)
  show ?case
  proof
    assume l: "str_includes (c # cs) needle"
    show "\<exists>xs ys. c # cs = xs @ needle @ ys"
    proof (cases "take (length needle) (c # cs) = needle")
      case True
      then have "c # cs = [] @ needle @ drop (length needle) (c # cs)"
        by (metis append_Nil append_take_drop_id)
      then show ?thesis by blast
    next
      case False
      with l have "str_includes cs needle" by (auto simp: str_includes_def)
      then obtain xs ys where "cs = xs @ needle @ ys" using Cons.IH by blast
      then have "c # cs = (c # xs) @ needle @ ys" by simp
      then show ?thesis by blast
    qed
  next
    assume "\<exists>xs ys. c # cs = xs @ needle @ ys"
    then obtain xs ys where eq: "c # cs = xs @ needle @ ys" by blast
    show "str_includes (c # cs) needle"
    proof (cases xs)
      case Nil
      with eq have "take (length needle) (c # cs) = needle" by simp
      then show ?thesis by (simp add: str_includes_def)
    next
      case (Cons x xs')
      with eq have "cs = xs' @ needle @ ys" by simp
      then have "str_includes cs needle" using Cons.IH by blast
      then show ?thesis by (auto simp: str_includes_def)
    qed
  qed
qed

lemma starts_with_iff: "starts_with p s \<longleftrightarrow> (\<exists>t. s = p @ t)"
  unfolding starts_with_def by (metis append_eq_conv_conj append_take_drop_id)

lemma length_to_lower [simp]: "length (to_lower s) = length s"
  by (simp add: to_lower_def)

lemma length_to_upper [simp]: "length (to_upper s) = length s"
  by (simp add: to_upper_def)

lemma lower_char_idem [simp]: "lower_char (lower_char c) = lower_char c"
  by (auto simp: lower_char_def of_char_of)

lemma to_lower_idem [simp]: "to_lower (to_lower s) = to_lower s"
  by (simp add: to_lower_def comp_def)

lemma to_upper_idem [simp]: "to_upper (to_upper s) = to_upper s"
  by (induction s) (auto simp: to_upper_def upper_char_def of_char_of)

lemma trim_set: "set (trim s) \<subseteq> set s"
  by (auto simp: trim_def dest!: set_dropWhileD)

lemma nat_str_nonempty [simp]: "nat_str n \<noteq> []"
  by (subst nat_str.simps) simp

lemma digit_char_simps:
  "digit_char 0 = CHR ''0''" "digit_char 1 = CHR ''1''" "digit_char (Suc 0) = CHR ''1''" "digit_char 2 = CHR ''2''"
  "digit_char 3 = CHR ''3''" "digit_char 4 = CHR ''4''" "digit_char 5 = CHR ''5''" "digit_char 6 = CHR ''6''"
  "digit_char 7 = CHR ''7''" "digit_char 8 = CHR ''8''" "digit_char 9 = CHR ''9''"
  by code_simp+

text \<open>\<open>nat_str\<close> and \<open>int_str\<close> of a numeral.\<close>

lemmas str_eval = int_str_def nat_str.simps digit_char_simps

text \<open>The case and the blanks of a literal.\<close>

lemmas char_eval = to_lower_def to_upper_def lower_char_def upper_char_def char_of_def bit_0 trim_def is_space_def

text \<open>
  \<open>Math.round\<close> and \<open>toFixed\<close>, on rational numbers: the code's doubles are read as the exact
  numbers they stand for.
\<close>

definition math_round :: "rat \<Rightarrow> int" where
  "math_round x = \<lfloor>x + 1 / 2\<rfloor>"

definition pad_zeros :: "nat \<Rightarrow> string \<Rightarrow> string" where
  "pad_zeros n s = replicate (n - length s) CHR ''0'' @ s"

definition fixed_nonneg :: "nat \<Rightarrow> rat \<Rightarrow> string" where
  "fixed_nonneg d x =
     (let n = nat (math_round (x * 10 ^ d)); q = n div 10 ^ d; r = n mod 10 ^ d
      in nat_str q @ (if d = 0 then [] else CHR ''.'' # pad_zeros d (nat_str r)))"

definition to_fixed :: "nat \<Rightarrow> rat \<Rightarrow> string" where
  "to_fixed d x = (if x < 0 then CHR ''-'' # fixed_nonneg d (- x) else fixed_nonneg d x)"

section \<open>Sets, objects and arrays\<close>

type_synonym 'a jsset = "'a list"

definition set_add :: "'a \<Rightarrow> 'a jsset \<Rightarrow> 'a jsset" where
  "set_add x xs = (if x \<in> set xs then xs else xs @ [x])"

definition set_delete :: "'a \<Rightarrow> 'a jsset \<Rightarrow> 'a jsset" where
  "set_delete x xs = filter (\<lambda>y. y \<noteq> x) xs"

definition new_set :: "'a list \<Rightarrow> 'a jsset" where
  "new_set xs = fold set_add xs []"

text \<open>The common idiom \<open>next.has(x) ? next.delete(x) : next.add(x)\<close>.\<close>

definition set_toggle :: "'a \<Rightarrow> 'a jsset \<Rightarrow> 'a jsset" where
  "set_toggle x xs = (if x \<in> set xs then set_delete x xs else set_add x xs)"

type_synonym 'v jsobj = "(string \<times> 'v) list"

definition obj_keys :: "'v jsobj \<Rightarrow> string list" where
  "obj_keys ob = map fst ob"

definition obj_put :: "string \<Rightarrow> 'v \<Rightarrow> 'v jsobj \<Rightarrow> 'v jsobj" where
  "obj_put = AList.update"

text \<open>\<open>xs.slice(a, b)\<close> with \<open>0 \<le> a \<le> b\<close>.\<close>

definition slice :: "nat \<Rightarrow> nat \<Rightarrow> 'a list \<Rightarrow> 'a list" where
  "slice a b xs = take (b - a) (drop a xs)"

lemma set_set_add [simp]: "set (set_add x xs) = insert x (set xs)"
  by (auto simp: set_add_def)

lemma set_set_delete [simp]: "set (set_delete x xs) = set xs - {x}"
  by (auto simp: set_delete_def)

lemma set_set_toggle:
  "set (set_toggle x xs) = (if x \<in> set xs then set xs - {x} else insert x (set xs))"
  by (simp add: set_toggle_def)

lemma distinct_set_add [simp]: "distinct xs \<Longrightarrow> distinct (set_add x xs)"
  by (simp add: set_add_def)

lemma distinct_set_delete [simp]: "distinct xs \<Longrightarrow> distinct (set_delete x xs)"
  by (simp add: set_delete_def)

lemma distinct_set_toggle [simp]: "distinct xs \<Longrightarrow> distinct (set_toggle x xs)"
  by (simp add: set_toggle_def)

lemma set_fold_set_add [simp]: "set (fold set_add xs ys) = set xs \<union> set ys"
  by (induction xs arbitrary: ys) auto

lemma distinct_fold_set_add: "distinct ys \<Longrightarrow> distinct (fold set_add xs ys)"
  by (induction xs arbitrary: ys) auto

lemma set_new_set [simp]: "set (new_set xs) = set xs"
  by (simp add: new_set_def)

lemma distinct_new_set [simp]: "distinct (new_set xs)"
  by (simp add: new_set_def distinct_fold_set_add)

lemma new_set_Nil [simp]: "new_set [] = []"
  by (simp add: new_set_def)

lemma fold_set_add_distinct:
  "distinct (ys @ xs) \<Longrightarrow> fold set_add xs ys = ys @ xs"
  by (induction xs arbitrary: ys) (auto simp: set_add_def)

lemma new_set_distinct: "distinct xs \<Longrightarrow> new_set xs = xs"
  by (simp add: new_set_def fold_set_add_distinct)

lemma set_toggle_twice:
  "distinct xs \<Longrightarrow> set (set_toggle x (set_toggle x xs)) = set xs"
  by (auto simp: set_set_toggle)

lemma map_of_obj_put [simp]: "map_of (obj_put k v ob) = (map_of ob)(k \<mapsto> v)"
  by (simp add: obj_put_def update_conv')

lemma distinct_obj_put: "distinct (map fst ob) \<Longrightarrow> distinct (map fst (obj_put k v ob))"
  by (simp add: obj_put_def distinct_update)

lemma length_slice: "length (slice a b xs) = min (b - a) (length xs - a)"
  by (simp add: slice_def)

lemma set_slice: "set (slice a b xs) \<subseteq> set xs"
  unfolding slice_def by (meson order_trans set_drop_subset set_take_subset)

lemmas set_ops = set_add_def set_delete_def set_toggle_def new_set_def

section \<open>Thrown errors\<close>

text \<open>
  What a \<open>catch (err)\<close> clause can receive: an \<open>Error\<close> with its message, a \<open>DOMException\<close>
  with its name (also an \<open>Error\<close> in browsers), or a thrown value that is not an \<open>Error\<close>.
\<close>

datatype jserr = Error string | DOMException string string | NonError

definition type_error :: jserr where
  "type_error = Error ''TypeError''"

text \<open>\<open>err instanceof Error ? err.message : fallback\<close>.\<close>

fun message_or :: "string \<Rightarrow> jserr \<Rightarrow> string" where
  "message_or d (Error m) = m"
| "message_or d (DOMException n m) = m"
| "message_or d NonError = d"

section \<open>Interaction programs\<close>

text \<open>
  An event handler, an effect or an async function is a program over the component's state
  \<open>'s\<close>: it may set state (\<open>Update\<close>, a call of a React setter), read the state current at that
  moment (\<open>Read\<close>), do something visible outside the component (\<open>Emit\<close>), ask the user
  (\<open>Confirm\<close>) and wait for an API call (\<open>Await\<close>), whose promise is rejected with an error
  or fulfilled with a payload of type \<open>'r\<close>.  \<open>Raise\<close> is a thrown exception.  Nothing else
  runs between two \<open>Await\<close>s, as in the browser's event loop; anything may run at an \<open>Await\<close>.
\<close>

datatype http_method = GET | POST | PATCH | PUT | DELETE

datatype 'b request = Request (req_method: http_method) (req_path: string) (req_body: "'b option")

datatype 'b effect =
    Sent "'b request"
  | ToastSuccess string
  | ToastError string
  | Toast string string string
  | Navigate string
  | Invalidate "string list"
  | LocalSet string string
  | LocalRemove string
  | Download string
  | SaveFile string string
  | OpenWindow string

datatype (dead 's, dead 'r, dead 'b, 'a) io =
    Ret 'a
  | Raise jserr
  | Update "'s \<Rightarrow> 's" "('s, 'r, 'b, 'a) io"
  | Read "'s \<Rightarrow> ('s, 'r, 'b, 'a) io"
  | Emit "'b effect" "('s, 'r, 'b, 'a) io"
  | Confirm string "bool \<Rightarrow> ('s, 'r, 'b, 'a) io"
  | Await "'b request" "jserr + 'r \<Rightarrow> ('s, 'r, 'b, 'a) io"

abbreviation Done :: "('s, 'r, 'b, unit) io" where
  "Done \<equiv> Ret ()"

text \<open>Sequencing, \<open>try/catch\<close> and \<open>try/finally\<close>.\<close>

primrec andThen :: "('s, 'r, 'b, 'a) io \<Rightarrow> ('a \<Rightarrow> ('s, 'r, 'b, 'c) io) \<Rightarrow> ('s, 'r, 'b, 'c) io" where
  "andThen (Ret a) k = k a"
| "andThen (Raise e) k = Raise e"
| "andThen (Update f m) k = Update f (andThen m k)"
| "andThen (Read g) k = Read (\<lambda>s. andThen (g s) k)"
| "andThen (Emit e m) k = Emit e (andThen m k)"
| "andThen (Confirm q g) k = Confirm q (\<lambda>b. andThen (g b) k)"
| "andThen (Await r g) k = Await r (\<lambda>x. andThen (g x) k)"

primrec tryCatch :: "('s, 'r, 'b, 'a) io \<Rightarrow> (jserr \<Rightarrow> ('s, 'r, 'b, 'a) io) \<Rightarrow> ('s, 'r, 'b, 'a) io" where
  "tryCatch (Ret a) h = Ret a"
| "tryCatch (Raise e) h = h e"
| "tryCatch (Update f m) h = Update f (tryCatch m h)"
| "tryCatch (Read g) h = Read (\<lambda>s. tryCatch (g s) h)"
| "tryCatch (Emit e m) h = Emit e (tryCatch m h)"
| "tryCatch (Confirm q g) h = Confirm q (\<lambda>b. tryCatch (g b) h)"
| "tryCatch (Await r g) h = Await r (\<lambda>x. tryCatch (g x) h)"

primrec tryFinally :: "('s, 'r, 'b, 'a) io \<Rightarrow> ('s, 'r, 'b, unit) io \<Rightarrow> ('s, 'r, 'b, 'a) io" where
  "tryFinally (Ret a) f = andThen f (\<lambda>_. Ret a)"
| "tryFinally (Raise e) f = andThen f (\<lambda>_. Raise e)"
| "tryFinally (Update g m) f = Update g (tryFinally m f)"
| "tryFinally (Read g) f = Read (\<lambda>s. tryFinally (g s) f)"
| "tryFinally (Emit e m) f = Emit e (tryFinally m f)"
| "tryFinally (Confirm q g) f = Confirm q (\<lambda>b. tryFinally (g b) f)"
| "tryFinally (Await r g) f = Await r (\<lambda>x. tryFinally (g x) f)"

text \<open>\<open>await apiCall(...)\<close>: a rejected promise throws at the \<open>await\<close>.\<close>

definition call :: "'b request \<Rightarrow> ('r \<Rightarrow> ('s, 'r, 'b, 'a) io) \<Rightarrow> ('s, 'r, 'b, 'a) io" where
  "call rq k = Await rq (\<lambda>x. case x of Inl e \<Rightarrow> Raise e | Inr r \<Rightarrow> k r)"

abbreviation apiGet :: "string \<Rightarrow> ('r \<Rightarrow> ('s, 'r, 'b, 'a) io) \<Rightarrow> ('s, 'r, 'b, 'a) io" where
  "apiGet p \<equiv> call (Request GET p None)"

abbreviation apiPost :: "string \<Rightarrow> 'b \<Rightarrow> ('r \<Rightarrow> ('s, 'r, 'b, 'a) io) \<Rightarrow> ('s, 'r, 'b, 'a) io" where
  "apiPost p b \<equiv> call (Request POST p (Some b))"

abbreviation apiPatch :: "string \<Rightarrow> 'b \<Rightarrow> ('r \<Rightarrow> ('s, 'r, 'b, 'a) io) \<Rightarrow> ('s, 'r, 'b, 'a) io" where
  "apiPatch p b \<equiv> call (Request PATCH p (Some b))"

abbreviation apiPut :: "string \<Rightarrow> 'b \<Rightarrow> ('r \<Rightarrow> ('s, 'r, 'b, 'a) io) \<Rightarrow> ('s, 'r, 'b, 'a) io" where
  "apiPut p b \<equiv> call (Request PUT p (Some b))"

abbreviation apiDelete :: "string \<Rightarrow> ('r \<Rightarrow> ('s, 'r, 'b, 'a) io) \<Rightarrow> ('s, 'r, 'b, 'a) io" where
  "apiDelete p \<equiv> call (Request DELETE p None)"

text \<open>
  A payload is one value of the page's reply type; \<open>expect sel k\<close> continues with the shape the code
  reads, and a payload of another shape throws when the code reads it.  \<open>both\<close> is
  \<open>Promise.all([a, b])\<close>: both requests are sent, and it rejects when one of them did (the model
  waits for both before it continues).  \<open>all_settled\<close> is \<open>Promise.allSettled\<close>, and \<open>orElse\<close>
  is \<open>apiCall(...).catch(() => v)\<close>.
\<close>

definition expect :: "('r \<Rightarrow> 'x option) \<Rightarrow> ('x \<Rightarrow> ('s, 'r, 'b, 'a) io) \<Rightarrow> 'r \<Rightarrow> ('s, 'r, 'b, 'a) io" where
  "expect sel k r = (case sel r of Some x \<Rightarrow> k x | None \<Rightarrow> Raise type_error)"

definition both :: "'b request \<Rightarrow> 'b request \<Rightarrow> ('r \<Rightarrow> 'r \<Rightarrow> ('s, 'r, 'b, 'a) io) \<Rightarrow> ('s, 'r, 'b, 'a) io" where
  "both r1 r2 k = Await r1 (\<lambda>x1. Await r2 (\<lambda>x2. case x1 of Inl e \<Rightarrow> Raise e | Inr a \<Rightarrow>
     (case x2 of Inl e \<Rightarrow> Raise e | Inr b \<Rightarrow> k a b)))"

primrec all_settled :: "'b request list \<Rightarrow> ('s, 'r, 'b, 'a) io \<Rightarrow> ('s, 'r, 'b, 'a) io" where
  "all_settled [] k = k"
| "all_settled (r # rs) k = Await r (\<lambda>_. all_settled rs k)"

definition orElse :: "'b request \<Rightarrow> (jserr \<Rightarrow> ('s, 'r, 'b, 'a) io) \<Rightarrow> ('r \<Rightarrow> ('s, 'r, 'b, 'a) io) \<Rightarrow> ('s, 'r, 'b, 'a) io" where
  "orElse rq f k = Await rq (\<lambda>x. case x of Inl e \<Rightarrow> f e | Inr r \<Rightarrow> k r)"

subsection \<open>Running a program against a server\<close>

text \<open>
  A server is a state machine that settles each request; the user answers every question the
  same way.  \<open>run\<close> executes one program alone and returns how it ended, the server's state,
  the component's state and the effects in order, API calls included.
\<close>

type_synonym ('w, 'r, 'b) server = "'w \<Rightarrow> 'b request \<Rightarrow> (jserr + 'r) \<times> 'w"

primrec run :: "('w, 'r, 'b) server \<Rightarrow> bool \<Rightarrow> ('s, 'r, 'b, 'a) io \<Rightarrow> 'w \<Rightarrow> 's
    \<Rightarrow> (jserr + 'a) \<times> 'w \<times> 's \<times> 'b effect list" where
  "run srv yes (Ret a) w s = (Inr a, w, s, [])"
| "run srv yes (Raise e) w s = (Inl e, w, s, [])"
| "run srv yes (Update f m) w s = run srv yes m w (f s)"
| "run srv yes (Read g) w s = run srv yes (g s) w s"
| "run srv yes (Emit e m) w s =
     (let (r, w', s', l) = run srv yes m w s in (r, w', s', e # l))"
| "run srv yes (Confirm q g) w s = run srv yes (g yes) w s"
| "run srv yes (Await rq g) w s =
     (let (x, w1) = srv w rq; (r, w', s', l) = run srv yes (g x) w1 s in (r, w', s', Sent rq # l))"

text \<open>A server without a state of its own: each request has its fixed answer.\<close>

definition stateless :: "('b request \<Rightarrow> jserr + 'r) \<Rightarrow> (unit, 'r, 'b) server" where
  "stateless replies w rq = (replies rq, w)"

definition final_state :: "('w, 'r, 'b) server \<Rightarrow> bool \<Rightarrow> ('s, 'r, 'b, 'a) io \<Rightarrow> 'w \<Rightarrow> 's \<Rightarrow> 's" where
  "final_state srv yes m w s = fst (snd (snd (run srv yes m w s)))"

definition effects_of :: "('w, 'r, 'b) server \<Rightarrow> bool \<Rightarrow> ('s, 'r, 'b, 'a) io \<Rightarrow> 'w \<Rightarrow> 's \<Rightarrow> 'b effect list" where
  "effects_of srv yes m w s = snd (snd (snd (run srv yes m w s)))"

definition outcome_of :: "('w, 'r, 'b) server \<Rightarrow> bool \<Rightarrow> ('s, 'r, 'b, 'a) io \<Rightarrow> 'w \<Rightarrow> 's \<Rightarrow> jserr + 'a" where
  "outcome_of srv yes m w s = fst (run srv yes m w s)"

definition final_world :: "('w, 'r, 'b) server \<Rightarrow> bool \<Rightarrow> ('s, 'r, 'b, 'a) io \<Rightarrow> 'w \<Rightarrow> 's \<Rightarrow> 'w" where
  "final_world srv yes m w s = fst (snd (run srv yes m w s))"

definition is_request :: "'b effect \<Rightarrow> bool" where
  "is_request e = (case e of Sent _ \<Rightarrow> True | _ \<Rightarrow> False)"

definition requests_of :: "('w, 'r, 'b) server \<Rightarrow> bool \<Rightarrow> ('s, 'r, 'b, 'a) io \<Rightarrow> 'w \<Rightarrow> 's \<Rightarrow> 'b request list" where
  "requests_of srv yes m w s =
     map (\<lambda>e. case e of Sent rq \<Rightarrow> rq) (filter is_request (effects_of srv yes m w s))"

lemma final_state_simps [simp]:
  "final_state srv yes (Ret a) w s = s"
  "final_state srv yes (Raise e) w s = s"
  "final_state srv yes (Update f m) w s = final_state srv yes m w (f s)"
  "final_state srv yes (Read g) w s = final_state srv yes (g s) w s"
  "final_state srv yes (Emit ef m) w s = final_state srv yes m w s"
  "final_state srv yes (Confirm q h) w s = final_state srv yes (h yes) w s"
  "final_state srv yes (Await rq k) w s =
     final_state srv yes (k (fst (srv w rq))) (snd (srv w rq)) s"
  by (simp_all add: final_state_def Let_def split: prod.split)

lemma final_world_simps [simp]:
  "final_world srv yes (Ret a) w s = w"
  "final_world srv yes (Raise e) w s = w"
  "final_world srv yes (Update f m) w s = final_world srv yes m w (f s)"
  "final_world srv yes (Read g) w s = final_world srv yes (g s) w s"
  "final_world srv yes (Emit ef m) w s = final_world srv yes m w s"
  "final_world srv yes (Confirm q h) w s = final_world srv yes (h yes) w s"
  "final_world srv yes (Await rq k) w s =
     final_world srv yes (k (fst (srv w rq))) (snd (srv w rq)) s"
  by (simp_all add: final_world_def Let_def split: prod.split)

lemma effects_of_simps [simp]:
  "effects_of srv yes (Ret a) w s = []"
  "effects_of srv yes (Raise e) w s = []"
  "effects_of srv yes (Update f m) w s = effects_of srv yes m w (f s)"
  "effects_of srv yes (Read g) w s = effects_of srv yes (g s) w s"
  "effects_of srv yes (Emit ef m) w s = ef # effects_of srv yes m w s"
  "effects_of srv yes (Confirm q h) w s = effects_of srv yes (h yes) w s"
  "effects_of srv yes (Await rq k) w s =
     Sent rq # effects_of srv yes (k (fst (srv w rq))) (snd (srv w rq)) s"
  by (simp_all add: effects_of_def Let_def split: prod.split)

lemma outcome_of_simps [simp]:
  "outcome_of srv yes (Ret a) w s = Inr a"
  "outcome_of srv yes (Raise e) w s = Inl e"
  "outcome_of srv yes (Update f m) w s = outcome_of srv yes m w (f s)"
  "outcome_of srv yes (Read g) w s = outcome_of srv yes (g s) w s"
  "outcome_of srv yes (Emit ef m) w s = outcome_of srv yes m w s"
  "outcome_of srv yes (Confirm q h) w s = outcome_of srv yes (h yes) w s"
  "outcome_of srv yes (Await rq k) w s =
     outcome_of srv yes (k (fst (srv w rq))) (snd (srv w rq)) s"
  by (simp_all add: outcome_of_def Let_def split: prod.split)

lemma requests_of_simps [simp]:
  "requests_of srv yes (Ret a) w s = []"
  "requests_of srv yes (Raise e) w s = []"
  "requests_of srv yes (Update f m) w s = requests_of srv yes m w (f s)"
  "requests_of srv yes (Read g) w s = requests_of srv yes (g s) w s"
  "requests_of srv yes (Emit ef m) w s =
     (case ef of Sent rq \<Rightarrow> [rq] | _ \<Rightarrow> []) @ requests_of srv yes m w s"
  "requests_of srv yes (Confirm q h) w s = requests_of srv yes (h yes) w s"
  "requests_of srv yes (Await rq k) w s =
     rq # requests_of srv yes (k (fst (srv w rq))) (snd (srv w rq)) s"
  by (simp_all add: requests_of_def is_request_def split: effect.split)

text \<open>The program cannot end with an exception: every failing call is caught.\<close>

primrec no_throw :: "('s, 'r, 'b, 'a) io \<Rightarrow> bool" where
  "no_throw (Ret a) = True"
| "no_throw (Raise e) = False"
| "no_throw (Update f m) = no_throw m"
| "no_throw (Read g) = (\<forall>s. no_throw (g s))"
| "no_throw (Emit e m) = no_throw m"
| "no_throw (Confirm q g) = (\<forall>b. no_throw (g b))"
| "no_throw (Await r g) = (\<forall>x. no_throw (g x))"

text \<open>Whatever the server answers, every request the program sends satisfies \<open>Q\<close>.\<close>

primrec sends_only :: "('b request \<Rightarrow> bool) \<Rightarrow> ('s, 'r, 'b, 'a) io \<Rightarrow> bool" where
  "sends_only Q (Ret a) = True"
| "sends_only Q (Raise e) = True"
| "sends_only Q (Update f m) = sends_only Q m"
| "sends_only Q (Read g) = (\<forall>s. sends_only Q (g s))"
| "sends_only Q (Emit e m) = ((\<forall>rq. e = Sent rq \<longrightarrow> Q rq) \<and> sends_only Q m)"
| "sends_only Q (Confirm q g) = (\<forall>b. sends_only Q (g b))"
| "sends_only Q (Await r g) = (Q r \<and> (\<forall>x. sends_only Q (g x)))"

lemma no_throw_andThen:
  "no_throw m \<Longrightarrow> (\<And>a. no_throw (k a)) \<Longrightarrow> no_throw (andThen m k)"
  by (induction m) auto

lemma no_throw_tryCatch: "(\<And>e. no_throw (h e)) \<Longrightarrow> no_throw (tryCatch m h)"
  by (induction m) auto

lemma no_throw_tryFinally: "no_throw m \<Longrightarrow> no_throw f \<Longrightarrow> no_throw (tryFinally m f)"
  by (induction m) (auto intro: no_throw_andThen)

lemma no_throw_outcome: "no_throw m \<Longrightarrow> \<exists>a. outcome_of srv yes m w s = Inr a"
  by (induction m arbitrary: w s) auto

lemma sends_only_andThen:
  "sends_only Q m \<Longrightarrow> (\<And>a. sends_only Q (k a)) \<Longrightarrow> sends_only Q (andThen m k)"
  by (induction m) auto

lemma sends_only_tryCatch:
  "sends_only Q m \<Longrightarrow> (\<And>e. sends_only Q (h e)) \<Longrightarrow> sends_only Q (tryCatch m h)"
  by (induction m) auto

lemma sends_only_tryFinally:
  "sends_only Q m \<Longrightarrow> sends_only Q f \<Longrightarrow> sends_only Q (tryFinally m f)"
  by (induction m) (auto intro: sends_only_andThen)

lemma sends_only_call [simp]:
  "sends_only Q (call rq k) \<longleftrightarrow> Q rq \<and> (\<forall>r. sends_only Q (k r))"
  by (auto simp: call_def split: sum.splits)

lemma sends_only_requests:
  "sends_only Q m \<Longrightarrow> rq \<in> set (requests_of srv yes m w s) \<Longrightarrow> Q rq"
proof (induction m arbitrary: w s)
  case (Read g)
  then show ?case by simp blast
next
  case (Emit e m)
  then show ?case by (auto split: effect.splits)
next
  case (Confirm q g)
  then show ?case by simp blast
next
  case (Await r g)
  then show ?case by simp blast
qed auto

text \<open>A handler or a finaliser that calls nothing adds no request.\<close>

lemma requests_tryCatch:
  "(\<And>e w s. requests_of srv yes (h e) w s = []) \<Longrightarrow>
   requests_of srv yes (tryCatch m h) w s = requests_of srv yes m w s"
  by (induction m arbitrary: w s) auto

lemma requests_andThen:
  "(\<And>a w s. requests_of srv yes (k a) w s = []) \<Longrightarrow>
   requests_of srv yes (andThen m k) w s = requests_of srv yes m w s"
  by (induction m arbitrary: w s) auto

lemma requests_tryFinally:
  "(\<And>w s. requests_of srv yes f w s = []) \<Longrightarrow>
   requests_of srv yes (tryFinally m f) w s = requests_of srv yes m w s"
  by (induction m arbitrary: w s) (auto simp: requests_andThen)

subsection \<open>Every interleaving: invariants of a component\<close>

text \<open>
  \<open>settle\<close> runs a program up to its next \<open>Await\<close>, as the event loop does.  A component with
  state \<open>s\<close> and a pool of suspended programs moves when an event fires (its handler runs to its
  first \<open>Await\<close>) or when any one of the pending calls settles, in any order and with any answer.
\<close>

primrec settle :: "('s, 'r, 'b, unit) io \<Rightarrow> bool \<Rightarrow> 's \<Rightarrow> 's \<times> ('s, 'r, 'b, unit) io list" where
  "settle (Ret a) yes s = (s, [])"
| "settle (Raise e) yes s = (s, [])"
| "settle (Update f m) yes s = settle m yes (f s)"
| "settle (Read g) yes s = settle (g s) yes s"
| "settle (Emit e m) yes s = settle m yes s"
| "settle (Confirm q g) yes s = settle (g yes) yes s"
| "settle (Await r g) yes s = (s, [Await r g])"

type_synonym ('s, 'r, 'b) component = "'s \<times> ('s, 'r, 'b, unit) io list"

inductive moves :: "('e \<Rightarrow> 's \<Rightarrow> ('s, 'r, 'b, unit) io) \<Rightarrow> ('s, 'r, 'b) component
    \<Rightarrow> ('s, 'r, 'b) component \<Rightarrow> bool" for handler where
  fire: "settle (handler e s) yes s = (s', new) \<Longrightarrow> moves handler (s, pool) (s', pool @ new)"
| resume: "settle (g x) yes s = (s', new) \<Longrightarrow>
     moves handler (s, pre @ Await r g # post) (s', pre @ post @ new)"

inductive reachable :: "('e \<Rightarrow> 's \<Rightarrow> ('s, 'r, 'b, unit) io) \<Rightarrow> 's \<Rightarrow> ('s, 'r, 'b) component \<Rightarrow> bool"
  for handler and start where
  initially: "reachable handler start (start, [])"
| later: "reachable handler start c \<Longrightarrow> moves handler c c' \<Longrightarrow> reachable handler start c'"

lemma reach_fire:
  "reachable handler start (s, pool) \<Longrightarrow> settle (handler e s) yes s = (s', new) \<Longrightarrow>
   reachable handler start (s', pool @ new)"
  by (rule reachable.later, assumption) (rule moves.fire)

lemma reach_resume:
  "reachable handler start (s, pre @ Await r g # post) \<Longrightarrow> settle (g x) yes s = (s', new) \<Longrightarrow>
   reachable handler start (s', pre @ post @ new)"
  by (rule reachable.later, assumption) (rule moves.resume)

inductive_cases moves_elim: "moves handler c c'"

text \<open>
  \<open>keeps P m s\<close>: started in \<open>s\<close>, the program has \<open>P\<close> at its end and at every \<open>Await\<close>, where
  other programs may run and change the state to any other state with \<open>P\<close>.
\<close>

primrec keeps :: "('s \<Rightarrow> bool) \<Rightarrow> ('s, 'r, 'b, 'a) io \<Rightarrow> 's \<Rightarrow> bool" where
  "keeps P (Ret a) s = P s"
| "keeps P (Raise e) s = P s"
| "keeps P (Update f m) s = keeps P m (f s)"
| "keeps P (Read g) s = keeps P (g s) s"
| "keeps P (Emit e m) s = keeps P m s"
| "keeps P (Confirm q g) s = (\<forall>b. keeps P (g b) s)"
| "keeps P (Await r g) s = (P s \<and> (\<forall>x s'. P s' \<longrightarrow> keeps P (g x) s'))"

definition resumable :: "('s \<Rightarrow> bool) \<Rightarrow> ('s, 'r, 'b, unit) io \<Rightarrow> bool" where
  "resumable P m = (case m of Await r g \<Rightarrow> (\<forall>x s. P s \<longrightarrow> keeps P (g x) s) | _ \<Rightarrow> False)"

lemma resumable_Await: "resumable P (Await r g) = (\<forall>x s. P s \<longrightarrow> keeps P (g x) s)"
  by (simp add: resumable_def)

lemma settle_keeps:
  assumes "keeps P m s" and "settle m yes s = (s', new)"
  shows "P s' \<and> (\<forall>n \<in> set new. resumable P n)"
  using assms by (induction m arbitrary: s) (auto simp: resumable_Await)

text \<open>The contract between a component and its invariant, and what it gives.\<close>

locale component_invariant =
  fixes handler :: "'e \<Rightarrow> 's \<Rightarrow> ('s, 'r, 'b, unit) io"
    and start :: 's
    and inv :: "'s \<Rightarrow> bool"
  assumes starts: "inv start"
    and handled: "inv s \<Longrightarrow> keeps inv (handler e s) s"
begin

lemma moves_inv:
  assumes "moves handler c c'" and "inv (fst c)" and "\<forall>n \<in> set (snd c). resumable inv n"
  shows "inv (fst c') \<and> (\<forall>n \<in> set (snd c'). resumable inv n)"
  using assms(1)
proof (cases rule: moves.cases)
  case (fire e s yes s' new pool)
  then have "inv s' \<and> (\<forall>n \<in> set new. resumable inv n)"
    using assms handled by (intro settle_keeps) auto
  with fire assms show ?thesis by auto
next
  case (resume g x yes s s' new pre r post)
  then have "keeps inv (g x) s"
    using assms by (simp add: resumable_Await)
  then have "inv s' \<and> (\<forall>n \<in> set new. resumable inv n)"
    using resume by (intro settle_keeps) auto
  with resume assms show ?thesis by auto
qed

lemma reachable_all:
  "reachable handler start c \<Longrightarrow> inv (fst c) \<and> (\<forall>n \<in> set (snd c). resumable inv n)"
proof (induction rule: reachable.induct)
  case initially
  then show ?case by (simp add: starts)
next
  case (later c c')
  then show ?case using moves_inv by blast
qed

lemma reachable_inv: "reachable handler start (s, pool) \<Longrightarrow> inv s"
  using reachable_all by force

end

lemma keeps_andThen:
  assumes "keeps P m s" and "\<And>a s'. P s' \<Longrightarrow> keeps P (k a) s'"
  shows "keeps P (andThen m k) s"
  using assms by (induction m arbitrary: s) auto

lemma keeps_call [simp]:
  "keeps P (call rq k) s \<longleftrightarrow> P s \<and> (\<forall>r s'. P s' \<longrightarrow> keeps P (k r) s')"
  by (auto simp: call_def split: sum.splits)

lemma keeps_expect [simp]:
  "keeps P (expect sel k r) s \<longleftrightarrow> (case sel r of Some x \<Rightarrow> keeps P (k x) s | None \<Rightarrow> P s)"
  by (simp add: expect_def split: option.split)

lemma keeps_both [simp]:
  "keeps P (both r1 r2 k) s \<longleftrightarrow> P s \<and> (\<forall>s'. P s' \<longrightarrow> (\<forall>a b s'. P s' \<longrightarrow> keeps P (k a b) s'))"
  by (auto simp: both_def split: sum.splits)

lemma keeps_all_settled [simp]:
  "keeps P (all_settled rs k) s \<longleftrightarrow>
     (if rs = [] then keeps P k s else P s \<and> (\<forall>s'. P s' \<longrightarrow> keeps P k s'))"
  by (induction rs arbitrary: s) auto

lemma keeps_orElse [simp]:
  "keeps P (orElse rq f k) s \<longleftrightarrow>
     P s \<and> (\<forall>e s'. P s' \<longrightarrow> keeps P (f e) s') \<and> (\<forall>r s'. P s' \<longrightarrow> keeps P (k r) s')"
  by (auto simp: orElse_def split: sum.splits)

text \<open>\<open>try\<close>, \<open>catch\<close> and \<open>finally\<close> keep an invariant when their parts do.\<close>

lemma keeps_tryCatch:
  assumes "keeps P m s" and "\<And>e s'. P s' \<Longrightarrow> keeps P (h e) s'"
  shows "keeps P (tryCatch m h) s"
  using assms by (induction m arbitrary: s) auto

lemma keeps_tryFinally:
  assumes "keeps P m s" and "\<And>s'. P s' \<Longrightarrow> keeps P f s'"
  shows "keeps P (tryFinally m f) s"
  using assms by (induction m arbitrary: s) (auto intro: keeps_andThen)

subsection \<open>Weakest preconditions of a program run alone\<close>

text \<open>
  \<open>wp A Q E m s\<close>: when every request is answered as \<open>A\<close> allows, whatever the user confirms, if \<open>m\<close> is started in
  \<open>s\<close> and nothing else touches the state, then \<open>Q\<close> holds when it returns and \<open>E\<close> when it throws.
\<close>

primrec wp :: "('b request \<Rightarrow> jserr + 'r \<Rightarrow> bool) \<Rightarrow> ('a \<Rightarrow> 's \<Rightarrow> bool) \<Rightarrow> (jserr \<Rightarrow> 's \<Rightarrow> bool)
    \<Rightarrow> ('s, 'r, 'b, 'a) io \<Rightarrow> 's \<Rightarrow> bool" where
  "wp A Q E (Ret a) s = Q a s"
| "wp A Q E (Raise e) s = E e s"
| "wp A Q E (Update f m) s = wp A Q E m (f s)"
| "wp A Q E (Read g) s = wp A Q E (g s) s"
| "wp A Q E (Emit e m) s = wp A Q E m s"
| "wp A Q E (Confirm q g) s = (\<forall>b. wp A Q E (g b) s)"
| "wp A Q E (Await r g) s = (\<forall>x. A r x \<longrightarrow> wp A Q E (g x) s)"

lemma wp_ends: "wp A Q E (Ret a) = Q a" "wp A Q E (Raise e) = E e"
  by (rule ext, simp)+

lemma wp_andThen [simp]: "wp A Q E (andThen m k) s = wp A (\<lambda>a. wp A Q E (k a)) E m s"
  by (induction m arbitrary: s) auto

lemma wp_tryCatch [simp]: "wp A Q E (tryCatch m h) s = wp A Q (\<lambda>e. wp A Q E (h e)) m s"
  by (induction m arbitrary: s) auto

lemma wp_tryFinally [simp]:
  "wp A Q E (tryFinally m f) s =
     wp A (\<lambda>a. wp A (\<lambda>_. Q a) E f) (\<lambda>e. wp A (\<lambda>_. E e) E f) m s"
  by (induction m arbitrary: s) (auto simp: wp_ends)

lemma wp_call [simp]:
  "wp A Q E (call rq k) s \<longleftrightarrow> (\<forall>e. A rq (Inl e) \<longrightarrow> E e s) \<and> (\<forall>r. A rq (Inr r) \<longrightarrow> wp A Q E (k r) s)"
  by (auto simp: call_def split: sum.splits)

lemma wp_expect [simp]:
  "wp A Q E (expect sel k r) s \<longleftrightarrow>
     (case sel r of Some x \<Rightarrow> wp A Q E (k x) s | None \<Rightarrow> E type_error s)"
  by (simp add: expect_def split: option.split)

lemma wp_final:
  assumes "\<And>w rq. A rq (fst (srv w rq))"
  shows "wp A (\<lambda>_. P) (\<lambda>_. P) m s \<Longrightarrow> P (final_state srv yes m w s)"
  by (induction m arbitrary: w s) (auto simp: assms)

lemma wp_mono:
  "wp A Q E m s \<Longrightarrow> (\<And>a s. Q a s \<Longrightarrow> Q' a s) \<Longrightarrow> (\<And>e s. E e s \<Longrightarrow> E' e s) \<Longrightarrow> wp A Q' E' m s"
  by (induction m arbitrary: s) auto

lemmas io_simps = call_def expect_def both_def orElse_def Let_def

end
