(* ===== verification/Json.thy ===== *)
theory Json
  imports Prelude
begin

text \<open>
  \<open>JSON.stringify\<close> and \<open>JSON.parse\<close>, which the session record, the pinned evidence, the
  browser annotations and the API client's error messages go through.  Numbers are integers
  (a fraction or an exponent does not parse here) and characters are single-byte code units.
  The main lemma is the round trip \<open>parse_json (stringify v) = Some v\<close> for values whose objects
  have distinct keys, with fuel given by the length of the text.
\<close>

datatype jsval =
    JNull
  | JBool bool
  | JNum int
  | JStr string
  | JArr "jsval list"
  | JObj "(string \<times> jsval) list"

section \<open>Printing\<close>

definition quote_char :: char where "quote_char = CHR 0x22"
definition backslash :: char where "backslash = CHR 0x5C"

definition hex_char :: "nat \<Rightarrow> char" where
  "hex_char d = (if d < 10 then char_of (48 + d) else char_of (87 + d))"

definition escape_char :: "char \<Rightarrow> string" where
  "escape_char c =
     (if c = quote_char then [backslash, quote_char]
      else if c = backslash then [backslash, backslash]
      else if code c = (8::nat) then [backslash, CHR ''b'']
      else if code c = (9::nat) then [backslash, CHR ''t'']
      else if code c = (10::nat) then [backslash, CHR ''n'']
      else if code c = (12::nat) then [backslash, CHR ''f'']
      else if code c = (13::nat) then [backslash, CHR ''r'']
      else if code c < (32::nat)
        then [backslash, CHR ''u'', CHR ''0'', CHR ''0'', hex_char (code c div 16), hex_char (code c mod 16)]
      else [c])"

definition quoted :: "string \<Rightarrow> string" where
  "quoted s = quote_char # concat (map escape_char s) @ [quote_char]"

fun stringify :: "jsval \<Rightarrow> string"
  and elems_str :: "jsval list \<Rightarrow> string"
  and members_str :: "(string \<times> jsval) list \<Rightarrow> string" where
  "stringify JNull = ''null''"
| "stringify (JBool b) = (if b then ''true'' else ''false'')"
| "stringify (JNum i) = int_str i"
| "stringify (JStr s) = quoted s"
| "stringify (JArr vs) = CHR ''['' # elems_str vs"
| "stringify (JObj ms) = CHR ''{'' # members_str ms"
| "elems_str [] = '']''"
| "elems_str [v] = stringify v @ '']''"
| "elems_str (v # vs) = stringify v @ '','' @ elems_str vs"
| "members_str [] = ''}''"
| "members_str [(k, v)] = quoted k @ '':'' @ stringify v @ ''}''"
| "members_str ((k, v) # ms) = quoted k @ '':'' @ stringify v @ '','' @ members_str ms"

section \<open>Parsing\<close>

definition json_space :: "char \<Rightarrow> bool" where
  "json_space c = (c = CHR '' '' \<or> code c = (9::nat) \<or> code c = (10::nat) \<or> code c = (13::nat))"

definition skip :: "string \<Rightarrow> string" where
  "skip s = dropWhile json_space s"

definition is_digit :: "char \<Rightarrow> bool" where
  "is_digit c = (48 \<le> code c \<and> code c \<le> (57::nat))"

definition hex_value :: "char \<Rightarrow> nat option" where
  "hex_value c =
     (if is_digit c then Some (code c - 48)
      else if 97 \<le> code c \<and> code c \<le> (102::nat) then Some (code c - 87)
      else if 65 \<le> code c \<and> code c \<le> (70::nat) then Some (code c - 55)
      else None)"

definition hex2 :: "char \<Rightarrow> char \<Rightarrow> char option" where
  "hex2 a b = (case (hex_value a, hex_value b) of
      (Some x, Some y) \<Rightarrow> Some (char_of (16 * x + y)) | _ \<Rightarrow> None)"

fun unescape :: "char \<Rightarrow> char option" where
  "unescape e =
     (if e = quote_char \<or> e = backslash \<or> e = CHR ''/'' then Some e
      else if e = CHR ''b'' then Some (char_of (8::nat))
      else if e = CHR ''t'' then Some (char_of (9::nat))
      else if e = CHR ''n'' then Some (char_of (10::nat))
      else if e = CHR ''f'' then Some (char_of (12::nat))
      else if e = CHR ''r'' then Some (char_of (13::nat))
      else None)"

fun p_chars :: "string \<Rightarrow> (string \<times> string) option" where
  "p_chars [] = None"
| "p_chars (c # cs) =
     (if c = quote_char then Some ([], cs)
      else if c = backslash then
        (case cs of
           [] \<Rightarrow> None
         | e # ds \<Rightarrow>
             if e = CHR ''u'' then
               (case ds of
                  z1 # z2 # a # b # rest \<Rightarrow>
                    (if z1 = CHR ''0'' \<and> z2 = CHR ''0'' then
                       (case hex2 a b of None \<Rightarrow> None
                        | Some x \<Rightarrow> map_option (\<lambda>(s, r). (x # s, r)) (p_chars rest))
                     else None)
                | _ \<Rightarrow> None)
             else (case unescape e of None \<Rightarrow> None
                   | Some x \<Rightarrow> map_option (\<lambda>(s, r). (x # s, r)) (p_chars ds)))
      else if code c < (32::nat) then None
      else map_option (\<lambda>(s, r). (c # s, r)) (p_chars cs))"

definition digits_value :: "string \<Rightarrow> nat" where
  "digits_value ds = fold (\<lambda>c n. 10 * n + (code c - 48)) ds 0"

definition good_digits :: "string \<Rightarrow> bool" where
  "good_digits ds = (ds \<noteq> [] \<and> (hd ds = CHR ''0'' \<longrightarrow> ds = ''0''))"

definition number_end :: "string \<Rightarrow> bool" where
  "number_end r = (case r of [] \<Rightarrow> True | c # _ \<Rightarrow> \<not> is_digit c \<and> c \<notin> set ''.eE'')"

definition p_number :: "string \<Rightarrow> (jsval \<times> string) option" where
  "p_number s =
     (let neg = starts_with ''-'' s; body = (if neg then tl s else s);
          ds = takeWhile is_digit body; r = dropWhile is_digit body
      in if good_digits ds \<and> number_end r
         then Some (JNum (if neg then - int (digits_value ds) else int (digits_value ds)), r)
         else None)"

definition build_obj :: "(string \<times> jsval) list \<Rightarrow> (string \<times> jsval) list" where
  "build_obj ms = fold (\<lambda>(k, v) ob. obj_put k v ob) ms []"

fun p_value :: "nat \<Rightarrow> string \<Rightarrow> (jsval \<times> string) option"
  and p_elems :: "nat \<Rightarrow> string \<Rightarrow> (jsval list \<times> string) option"
  and p_members :: "nat \<Rightarrow> string \<Rightarrow> ((string \<times> jsval) list \<times> string) option" where
  "p_value 0 s = None"
| "p_value (Suc n) s =
     (case skip s of
        [] \<Rightarrow> None
      | c # cs \<Rightarrow>
          if c = CHR ''n'' then (if starts_with ''ull'' cs then Some (JNull, drop 3 cs) else None)
          else if c = CHR ''t'' then
            (if starts_with ''rue'' cs then Some (JBool True, drop 3 cs) else None)
          else if c = CHR ''f'' then
            (if starts_with ''alse'' cs then Some (JBool False, drop 4 cs) else None)
          else if c = quote_char then map_option (\<lambda>(x, r). (JStr x, r)) (p_chars cs)
          else if c = CHR ''['' then
            (if starts_with '']'' (skip cs) then Some (JArr [], tl (skip cs))
             else map_option (\<lambda>(vs, r). (JArr vs, r)) (p_elems n cs))
          else if c = CHR ''{'' then
            (if starts_with ''}'' (skip cs) then Some (JObj [], tl (skip cs))
             else map_option (\<lambda>(ms, r). (JObj (build_obj ms), r)) (p_members n cs))
          else p_number (c # cs))"
| "p_elems 0 s = None"
| "p_elems (Suc n) s =
     (case p_value n s of
        None \<Rightarrow> None
      | Some (v, r) \<Rightarrow>
          (case skip r of
             [] \<Rightarrow> None
           | c # r' \<Rightarrow>
               if c = CHR '','' then map_option (\<lambda>(vs, q). (v # vs, q)) (p_elems n r')
               else if c = CHR '']'' then Some ([v], r') else None))"
| "p_members 0 s = None"
| "p_members (Suc n) s =
     (case skip s of
        [] \<Rightarrow> None
      | q # cs \<Rightarrow>
          if q \<noteq> quote_char then None
          else (case p_chars cs of
             None \<Rightarrow> None
           | Some (k, r) \<Rightarrow>
               (case skip r of
                  [] \<Rightarrow> None
                | c # r' \<Rightarrow>
                    if c \<noteq> CHR '':'' then None
                    else (case p_value n r' of
                       None \<Rightarrow> None
                     | Some (v, t) \<Rightarrow>
                         (case skip t of
                            [] \<Rightarrow> None
                          | d # t' \<Rightarrow>
                              if d = CHR '','' then map_option (\<lambda>(ms, u). ((k, v) # ms, u)) (p_members n t')
                              else if d = CHR ''}'' then Some ([(k, v)], t') else None)))))"

definition parse_json :: "string \<Rightarrow> jsval option" where
  "parse_json s =
     (case p_value (Suc (length s)) s of
        None \<Rightarrow> None
      | Some (v, r) \<Rightarrow> if skip r = [] then Some v else None)"

section \<open>Round trip\<close>

lemma hex_char_cases:
  "d < 16 \<Longrightarrow> hex_value (hex_char d) = Some d"
  by (auto simp: hex_value_def hex_char_def is_digit_def of_char_of)

lemma hex2_hex_char:
  assumes "n < 256"
  shows "hex2 (hex_char (n div 16)) (hex_char (n mod 16)) = Some (char_of n)"
proof -
  have "n div 16 < 16" and "n mod 16 < 16" using assms by auto
  then have "hex_value (hex_char (n div 16)) = Some (n div 16)"
    and "hex_value (hex_char (n mod 16)) = Some (n mod 16)"
    using hex_char_cases by auto
  then show ?thesis by (simp add: hex2_def)
qed

lemma char_of_codeI: "code c = (n::nat) \<Longrightarrow> char_of n = c"
  by auto

lemma p_chars_escape:
  "p_chars (escape_char c @ s) = map_option (\<lambda>(x, r). (c # x, r)) (p_chars s)"
proof -
  have "hex2 (hex_char (code c div 16)) (hex_char (code c mod 16)) = Some c"
    using hex2_hex_char [of "code c"] by simp
  then show ?thesis
    by (auto simp: escape_char_def quote_char_def backslash_def dest: char_of_codeI)
qed

lemma p_chars_quoted: "p_chars (concat (map escape_char s) @ quote_char # r) = Some (s, r)"
  by (induction s) (simp_all add: p_chars_escape)

lemma is_digit_digit_char: "d < 10 \<Longrightarrow> is_digit (digit_char d)"
  by (simp add: is_digit_def digit_char_def)

lemma nat_str_digits: "\<forall>c \<in> set (nat_str n). is_digit c"
proof (induction n rule: nat_str.induct)
  case (1 n)
  then show ?case
    by (subst nat_str.simps) (auto simp: is_digit_digit_char)
qed

lemma digits_value_snoc: "digits_value (ds @ [c]) = 10 * digits_value ds + (code c - 48)"
  by (simp add: digits_value_def)

lemma digits_value_nat_str: "digits_value (nat_str n) = n"
proof (induction n rule: nat_str.induct)
  case (1 n)
  show ?case
  proof (cases "n < 10")
    case True
    then show ?thesis
      by (subst nat_str.simps) (simp add: digits_value_def digit_char_def)
  next
    case False
    have "digits_value (nat_str n) = digits_value (nat_str (n div 10) @ [digit_char (n mod 10)])"
      using False by (subst nat_str.simps) simp
    also have "\<dots> = 10 * (n div 10) + n mod 10"
      using "1.IH" [OF False] by (simp add: digits_value_snoc digit_char_def)
    finally show ?thesis by simp
  qed
qed

lemma nat_str_inject: "nat_str m = nat_str n \<Longrightarrow> m = n"
  by (metis digits_value_nat_str)

lemma nat_str_head: "0 < n \<Longrightarrow> hd (nat_str n) \<noteq> CHR ''0''"
proof (induction n rule: nat_str.induct)
  case (1 n)
  show ?case
  proof (cases "n < 10")
    case True
    then have "code (digit_char n) \<noteq> (48::nat)" using 1 by (simp add: digit_char_def)
    then have "digit_char n \<noteq> CHR ''0''" by auto
    then show ?thesis using True by (subst nat_str.simps) simp
  next
    case False
    then have "hd (nat_str (n div 10)) \<noteq> CHR ''0''" using "1.IH" by simp
    then show ?thesis using False by (subst nat_str.simps) simp
  qed
qed

lemma good_digits_nat_str: "good_digits (nat_str n)"
proof (cases "n = 0")
  case True
  then show ?thesis by (simp add: good_digits_def nat_str.simps digit_char_def)
next
  case False
  then show ?thesis using nat_str_head [of n] by (simp add: good_digits_def)
qed

lemma takeWhile_digits: "number_end r \<Longrightarrow> takeWhile is_digit (nat_str n @ r) = nat_str n"
  and dropWhile_digits: "number_end r \<Longrightarrow> dropWhile is_digit (nat_str n @ r) = r"
  using nat_str_digits [of n]
  by (cases r; simp add: number_end_def takeWhile_append2 dropWhile_append2)+

lemma nat_str_not_minus: "\<not> starts_with ''-'' (nat_str n @ r)"
proof
  assume "starts_with ''-'' (nat_str n @ r)"
  then have "hd (nat_str n) = CHR ''-''"
    by (metis starts_with_iff hd_append hd_append2 list.sel(1) nat_str_nonempty append_Cons)
  moreover have "is_digit (hd (nat_str n))" using nat_str_digits [of n] by simp
  ultimately show False by (simp add: is_digit_def)
qed

lemma p_number_int_str: "number_end r \<Longrightarrow> p_number (int_str i @ r) = Some (JNum i, r)"
  using nat_str_not_minus [of "nat i" r]
  by (cases "i < 0") (simp_all add: p_number_def int_str_def Let_def takeWhile_digits
      dropWhile_digits good_digits_nat_str digits_value_nat_str starts_with_def)

fun json_wf :: "jsval \<Rightarrow> bool" where
  "json_wf (JArr vs) = (\<forall>v \<in> set vs. json_wf v)"
| "json_wf (JObj ms) = (distinct (map fst ms) \<and> (\<forall>m \<in> set ms. json_wf (snd m)))"
| "json_wf _ = True"

lemma fold_obj_put:
  "distinct (map fst (acc @ ms)) \<Longrightarrow> fold (\<lambda>(k, v) ob. obj_put k v ob) ms acc = acc @ ms"
proof (induction ms arbitrary: acc)
  case (Cons m ms)
  obtain k v where m: "m = (k, v)" by force
  have "k \<notin> fst ` set acc" using Cons.prems by (auto simp: m)
  then have "obj_put k v acc = acc @ [(k, v)]"
    unfolding obj_put_def by (induction acc) auto
  then show ?case using Cons.IH [of "acc @ [(k, v)]"] Cons.prems by (simp add: m)
qed simp

lemma build_obj_distinct: "distinct (map fst ms) \<Longrightarrow> build_obj ms = ms"
  using fold_obj_put [of "[]" ms] by (simp add: build_obj_def)

definition value_start :: "char \<Rightarrow> bool" where
  "value_start c = (is_digit c \<or> c \<in> set ''ntf[{-'' \<or> c = quote_char)"

lemma value_start_not_space: "value_start c \<Longrightarrow> \<not> json_space c"
  by (auto simp: value_start_def json_space_def is_digit_def quote_char_def)

lemma stringify_start: "\<exists>c cs. stringify v = c # cs \<and> value_start c"
proof (cases v)
  case (JNum i)
  obtain c cs where "nat_str (nat i) = c # cs" using nat_str_nonempty by (meson list.exhaust)
  moreover have "is_digit c" using nat_str_digits [of "nat i"] calculation by simp
  ultimately show ?thesis using JNum by (auto simp: int_str_def value_start_def)
qed (auto simp: value_start_def quoted_def)

lemma skip_stringify [simp]: "skip (stringify v @ r) = stringify v @ r"
  using stringify_start [of v] value_start_not_space by (auto simp: skip_def)

lemma stringify_nonempty: "0 < length (stringify v)"
  using stringify_start [of v] by auto

lemma skip_non_space: "\<not> json_space c \<Longrightarrow> skip (c # r) = c # r"
  by (simp add: skip_def)

lemma p_value_number:
  assumes "number_end r"
  shows "p_value (Suc n) (int_str i @ r) = Some (JNum i, r)"
proof -
  obtain c cs where s: "int_str i = c # cs" and "value_start c"
    using stringify_start [of "JNum i"] by auto
  have d: "is_digit c \<or> c = CHR ''-''"
  proof (cases "i < 0")
    case True
    then show ?thesis using s by (simp add: int_str_def)
  next
    case False
    then show ?thesis using s nat_str_digits [of "nat i"] by (auto simp: int_str_def)
  qed
  have "skip (int_str i @ r) = int_str i @ r" using skip_stringify [of "JNum i" r] by simp
  then have sk: "skip (c # cs @ r) = c # cs @ r" using s by simp
  have ne: "c \<noteq> CHR ''n''" "c \<noteq> CHR ''t''" "c \<noteq> CHR ''f''" "c \<noteq> CHR ''[''" "c \<noteq> CHR ''{''"
    "c \<noteq> quote_char"
    using d by (auto simp: is_digit_def quote_char_def)
  have "p_number (c # cs @ r) = Some (JNum i, r)" using p_number_int_str [OF assms, of i] s by simp
  then show ?thesis by (simp add: s sk ne)
qed

lemma number_end_simps [simp]:
  "number_end []" "number_end (CHR '','' # r)" "number_end (CHR '']'' # r)" "number_end (CHR ''}'' # r)"
  by (simp_all add: number_end_def is_digit_def)

lemma skip_delims [simp]:
  "skip [] = []" "skip (CHR '','' # r) = CHR '','' # r" "skip (CHR '']'' # r) = CHR '']'' # r"
  "skip (CHR ''}'' # r) = CHR ''}'' # r" "skip (CHR '':'' # r) = CHR '':'' # r"
  "skip (quote_char # r) = quote_char # r" "skip (CHR ''['' # r) = CHR ''['' # r"
  "skip (CHR ''{'' # r) = CHR ''{'' # r"
  by (simp_all add: skip_def json_space_def quote_char_def)

lemma elems_str_start:
  "vs \<noteq> [] \<Longrightarrow> skip (elems_str vs @ r) = elems_str vs @ r \<and> \<not> starts_with '']'' (elems_str vs @ r)"
proof (induction vs rule: list.induct)
  case (Cons v vs)
  obtain c cs where c: "stringify v = c # cs" "value_start c" using stringify_start by blast
  then have "c \<noteq> CHR '']''" by (auto simp: value_start_def is_digit_def quote_char_def)
  then show ?case
    using c value_start_not_space by (cases vs) (auto simp: skip_def starts_with_def)
qed simp

lemma members_str_start:
  "ms \<noteq> [] \<Longrightarrow> skip (members_str ms @ r) = members_str ms @ r \<and> \<not> starts_with ''}'' (members_str ms @ r)"
proof (induction ms rule: list.induct)
  case (Cons m ms)
  then show ?case
    by (cases m; cases ms) (auto simp: quoted_def skip_def starts_with_def json_space_def quote_char_def)
qed simp

lemma p_stringify:
  "json_wf v \<Longrightarrow> length (stringify v) < n \<Longrightarrow> number_end r \<Longrightarrow>
     p_value n (stringify v @ r) = Some (v, r)"
  "vs \<noteq> [] \<Longrightarrow> \<forall>v \<in> set vs. json_wf v \<Longrightarrow> length (elems_str vs) < n \<Longrightarrow>
     p_elems n (elems_str vs @ r) = Some (vs, r)"
  "ms \<noteq> [] \<Longrightarrow> \<forall>m \<in> set ms. json_wf (snd m) \<Longrightarrow> length (members_str ms) < n \<Longrightarrow>
     p_members n (members_str ms @ r) = Some (ms, r)"
proof (induction v and vs and ms arbitrary: n r and n r and n r
    rule: stringify_elems_str_members_str.induct)
  case 1
  then show ?case by (cases n) (simp_all add: skip_def json_space_def starts_with_def)
next
  case (2 b)
  then show ?case by (cases n) (auto simp: skip_def json_space_def starts_with_def)
next
  case (3 i)
  then show ?case by (cases n) (simp_all add: p_value_number del: p_value.simps)
next
  case (4 s)
  then show ?case
    by (cases n) (simp_all add: quoted_def p_chars_quoted quote_char_def [symmetric],
        simp add: quote_char_def p_chars_quoted [unfolded quote_char_def])
next
  case (5 vs)
  obtain k where n: "n = Suc k" using "5.prems" by (cases n) auto
  show ?case
  proof (cases "vs = []")
    case True
    then show ?thesis by (simp add: n starts_with_def quote_char_def)
  next
    case False
    have "p_elems k (elems_str vs @ r) = Some (vs, r)" using "5.IH" "5.prems" False n by simp
    then show ?thesis using elems_str_start [OF False] by (simp add: n quote_char_def)
  qed
next
  case (6 ms)
  obtain k where n: "n = Suc k" using "6.prems" by (cases n) auto
  show ?case
  proof (cases "ms = []")
    case True
    then show ?thesis by (simp add: n starts_with_def quote_char_def)
  next
    case False
    have "p_members k (members_str ms @ r) = Some (ms, r)" using "6.IH" "6.prems" False n by simp
    then show ?thesis using members_str_start [OF False] "6.prems"
      by (simp add: n quote_char_def build_obj_distinct)
  qed
next
  case (8 v)
  then show ?case by (cases n) simp_all
next
  case (9 v w vs)
  obtain k where n: "n = Suc k" using "9.prems" by (cases n) auto
  have "p_value k (stringify v @ CHR '','' # elems_str (w # vs) @ r) =
      Some (v, CHR '','' # elems_str (w # vs) @ r)"
    using "9.IH"(1) "9.prems" n by simp
  moreover have "p_elems k (elems_str (w # vs) @ r) = Some (w # vs, r)"
    using "9.IH"(2) "9.prems" n by simp
  ultimately show ?case by (simp add: n)
next
  case (11 k v)
  then show ?case
    by (cases n) (simp_all add: quoted_def p_chars_quoted)
next
  case (12 key v m ms)
  obtain k where n: "n = Suc k" using "12.prems" by (cases n) auto
  have "p_value k (stringify v @ CHR '','' # members_str (m # ms) @ r) =
      Some (v, CHR '','' # members_str (m # ms) @ r)"
    using "12.IH"(1) "12.prems" n by simp
  moreover have "p_members k (members_str (m # ms) @ r) = Some (m # ms, r)"
    using "12.IH"(2) "12.prems" n by simp
  ultimately show ?case by (simp add: n quoted_def p_chars_quoted)
qed simp_all

theorem parse_stringify: "json_wf v \<Longrightarrow> parse_json (stringify v) = Some v"
  using p_stringify(1) [of v "Suc (length (stringify v))" "[]"]
  by (simp add: parse_json_def)

lemma obj_put_wf:
  "\<forall>m \<in> set ob. json_wf (snd m) \<Longrightarrow> json_wf v \<Longrightarrow> \<forall>m \<in> set (obj_put k v ob). json_wf (snd m)"
  unfolding obj_put_def by (induction ob) auto

lemma build_obj_keys:
  assumes "distinct (map fst acc)" and "\<forall>m \<in> set acc. json_wf (snd m)"
    and "\<forall>m \<in> set ms. json_wf (snd m)"
  shows "distinct (map fst (fold (\<lambda>(k, v) ob. obj_put k v ob) ms acc)) \<and>
    (\<forall>m \<in> set (fold (\<lambda>(k, v) ob. obj_put k v ob) ms acc). json_wf (snd m))"
  using assms
proof (induction ms arbitrary: acc)
  case (Cons m ms)
  obtain k v where m: "m = (k, v)" by (cases m)
  have "distinct (map fst (obj_put k v acc))" by (rule distinct_obj_put [OF Cons.prems(1)])
  moreover have "\<forall>x \<in> set (obj_put k v acc). json_wf (snd x)"
    by (rule obj_put_wf) (use Cons.prems m in auto)
  ultimately show ?case using Cons.IH [of "obj_put k v acc"] Cons.prems(3) by (simp add: m)
qed simp

lemma json_wf_build_obj: "\<forall>m \<in> set ms. json_wf (snd m) \<Longrightarrow> json_wf (JObj (build_obj ms))"
  unfolding build_obj_def json_wf.simps by (rule build_obj_keys) simp_all

lemma p_value_JArr:
  assumes "p_value (Suc n) s = Some (JArr vs, r)"
  shows "vs = [] \<or> (\<exists>cs. p_elems n cs = Some (vs, r))"
proof (cases "skip s")
  case (Cons c cs)
  then show ?thesis using assms
    by (simp add: p_number_def Let_def split: if_splits) blast+
qed (use assms in simp)

lemma p_value_JObj:
  assumes "p_value (Suc n) s = Some (JObj ob, r)"
  shows "ob = [] \<or> (\<exists>ms cs. ob = build_obj ms \<and> p_members n cs = Some (ms, r))"
proof (cases "skip s")
  case (Cons c cs)
  then show ?thesis using assms
    by (simp add: p_number_def Let_def split: if_splits) blast+
qed (use assms in simp)

text \<open>Whatever parses is well formed: duplicate keys have been merged.\<close>

lemma p_wf_all:
  "(\<forall>s v r. p_value n s = Some (v, r) \<longrightarrow> json_wf v) \<and>
   (\<forall>s vs r. p_elems n s = Some (vs, r) \<longrightarrow> (\<forall>v \<in> set vs. json_wf v)) \<and>
   (\<forall>s ms r. p_members n s = Some (ms, r) \<longrightarrow> (\<forall>m \<in> set ms. json_wf (snd m)))"
proof (induction n)
  case (Suc n)
  have "json_wf v" if "p_value (Suc n) s = Some (v, r)" for s v r
  proof -
    have obj: "p_members n cs = Some (ms, q) \<Longrightarrow> json_wf (JObj (build_obj ms))" for ms cs q
      by (rule json_wf_build_obj) (use Suc.IH in blast)
    show ?thesis
    proof (cases v)
      case (JArr vs)
      with that p_value_JArr have "vs = [] \<or> (\<exists>cs. p_elems n cs = Some (vs, r))" by blast
      then have "\<forall>x \<in> set vs. json_wf x" using Suc.IH by fastforce
      then show ?thesis by (simp add: JArr)
    next
      case (JObj ob)
      with that p_value_JObj have "ob = [] \<or> (\<exists>ms cs. ob = build_obj ms \<and> p_members n cs = Some (ms, r))"
        by blast
      then have "json_wf (JObj ob)" using obj by auto
      then show ?thesis by (simp add: JObj)
    qed simp_all
  qed
  moreover have "\<forall>v \<in> set vs. json_wf v" if "p_elems (Suc n) s = Some (vs, r)" for s vs r
    using that Suc.IH by (fastforce split: option.splits list.splits if_splits prod.splits)
  moreover have "\<forall>m \<in> set ms. json_wf (snd m)" if "p_members (Suc n) s = Some (ms, r)" for s ms r
    using that Suc.IH by (fastforce split: option.splits list.splits if_splits prod.splits)
  ultimately show ?case by blast
qed simp

lemmas p_wf = p_wf_all [THEN conjunct1, rule_format]

lemma parse_json_wf: "parse_json s = Some v \<Longrightarrow> json_wf v"
  by (auto simp: parse_json_def simp del: p_value.simps split: option.splits if_splits dest: p_wf)

lemmas json_eval = stringify.simps elems_str.simps members_str.simps quoted_def escape_char_def
  quote_char_def backslash_def int_str_def nat_str.simps digit_char_def

declare stringify.simps [simp del] elems_str.simps [simp del] members_str.simps [simp del]
  p_value.simps [simp del] p_elems.simps [simp del] p_members.simps [simp del]

end
