(* ===== verification/Browser.thy ===== *)
theory Browser
  imports Json
begin

text \<open>
  The browser state the frontend keeps data in: the two web storages and the location.  The
  interface \<open>json_store\<close> is what the components rely on when they keep a JSON value under a key;
  it is interpreted on both storages.
\<close>

record browser =
  local_items :: "string \<rightharpoonup> string"
  session_items :: "string \<rightharpoonup> string"
  pathname :: string
  location_search :: string

definition local_get :: "browser \<Rightarrow> string \<Rightarrow> string option" where
  "local_get b k = local_items b k"

definition local_put :: "string \<Rightarrow> string \<Rightarrow> browser \<Rightarrow> browser" where
  "local_put k v b = b\<lparr>local_items := (local_items b)(k \<mapsto> v)\<rparr>"

definition local_remove :: "string \<Rightarrow> browser \<Rightarrow> browser" where
  "local_remove k b = b\<lparr>local_items := (local_items b)(k := None)\<rparr>"

definition session_get :: "browser \<Rightarrow> string \<Rightarrow> string option" where
  "session_get b k = session_items b k"

definition session_put :: "string \<Rightarrow> string \<Rightarrow> browser \<Rightarrow> browser" where
  "session_put k v b = b\<lparr>session_items := (session_items b)(k \<mapsto> v)\<rparr>"

definition session_remove :: "string \<Rightarrow> browser \<Rightarrow> browser" where
  "session_remove k b = b\<lparr>session_items := (session_items b)(k := None)\<rparr>"

definition assign_location :: "string \<Rightarrow> string \<Rightarrow> browser \<Rightarrow> browser" where
  "assign_location p q b = b\<lparr>pathname := p, location_search := q\<rparr>"

definition sample_browser :: browser where
  "sample_browser = \<lparr>local_items = Map.empty, session_items = Map.empty,
     pathname = ''/devices'', location_search = []\<rparr>"

locale json_store =
  fixes fetch :: "'b \<Rightarrow> string \<Rightarrow> string option"
    and store :: "string \<Rightarrow> string \<Rightarrow> 'b \<Rightarrow> 'b"
    and forget :: "string \<Rightarrow> 'b \<Rightarrow> 'b"
  assumes fetch_store: "fetch (store k v b) k' = (if k' = k then Some v else fetch b k')"
    and fetch_forget: "fetch (forget k b) k' = (if k' = k then None else fetch b k')"
begin

lemma read_back: "json_wf v \<Longrightarrow> Option.bind (fetch (store k (stringify v) b) k) parse_json = Some v"
  by (simp add: fetch_store parse_stringify)

lemma last_write_wins: "fetch (store k v (store k u b)) k' = fetch (store k v b) k'"
  by (simp add: fetch_store)

lemma forget_store: "fetch (forget k (store k v b)) k' = fetch (forget k b) k'"
  by (simp add: fetch_store fetch_forget)

lemma other_key: "k' \<noteq> k \<Longrightarrow> fetch (store k v b) k' = fetch b k' \<and> fetch (forget k b) k' = fetch b k'"
  by (simp add: fetch_store fetch_forget)

end

interpretation local: json_store local_get local_put local_remove
  by unfold_locales (simp_all add: local_get_def local_put_def local_remove_def)

interpretation session: json_store session_get session_put session_remove
  by unfold_locales (simp_all add: session_get_def session_put_def session_remove_def)

lemma storages_independent [simp]:
  "session_get (local_put k v b) k' = session_get b k'"
  "session_get (local_remove k b) k' = session_get b k'"
  "local_get (session_put k v b) k' = local_get b k'"
  "local_get (session_remove k b) k' = local_get b k'"
  "session_get (assign_location p q b) k' = session_get b k'"
  "local_get (assign_location p q b) k' = local_get b k'"
  by (simp_all add: local_get_def local_put_def local_remove_def session_get_def session_put_def
      session_remove_def assign_location_def)

lemma location_frame [simp]:
  "pathname (local_put k v b) = pathname b" "pathname (local_remove k b) = pathname b"
  "pathname (session_put k v b) = pathname b" "pathname (session_remove k b) = pathname b"
  "pathname (assign_location p q b) = p"
  by (simp_all add: local_put_def local_remove_def session_put_def session_remove_def
      assign_location_def)

text \<open>Reading a property of a parsed value: \<open>None\<close> is \<open>undefined\<close>.\<close>

fun js_prop :: "jsval \<Rightarrow> string \<Rightarrow> jsval option" where
  "js_prop (JObj ob) k = map_of ob k"
| "js_prop _ k = None"

definition truthy :: "jsval option \<Rightarrow> bool" where
  "truthy v = (case v of None \<Rightarrow> False | Some x \<Rightarrow> x \<notin> {JNull, JBool False, JNum 0, JStr []})"

end
