(* ===== verification/Auth.thy ===== *)
theory Auth
  imports Browser
begin

text \<open>
  The session of \<open>frontend/src/lib/auth.ts\<close> (kept as JSON in the session storage) and the route
  table of \<open>frontend/src/App.tsx\<close> with its guards \<open>ProtectedRoute\<close> and \<open>RoleRoute\<close>.
  \<open>Date.parse\<close> is the argument \<open>date_parse\<close> (\<open>None\<close> is NaN) and \<open>Date.now()\<close> the argument \<open>now\<close>;
  matching a location against the patterns is React Router's and not modelled.
\<close>

section \<open>The stored session\<close>

record stored_auth =
  username :: jsval
  role :: jsval
  expires_at :: jsval

definition auth_storage_key :: string where
  "auth_storage_key = ''dfir_session''"

definition get_stored_auth :: "browser \<Rightarrow> stored_auth option" where
  "get_stored_auth b = (case session_get b auth_storage_key of
      None \<Rightarrow> None
    | Some raw \<Rightarrow>
        if raw = [] then None
        else (case parse_json raw of
          None \<Rightarrow> None
        | Some v \<Rightarrow>
            let u = js_prop v ''username''; r = js_prop v ''role''; e = js_prop v ''expiresAt''
            in if \<not> truthy u \<or> \<not> truthy r \<or> \<not> truthy e then None
               else Some \<lparr>username = the u, role = the r, expires_at = the e\<rparr>))"

definition set_stored_auth :: "string \<Rightarrow> string \<Rightarrow> string \<Rightarrow> browser \<Rightarrow> browser" where
  "set_stored_auth u r e b =
     session_put auth_storage_key
       (stringify (JObj [(''username'', JStr u), (''role'', JStr r), (''expiresAt'', JStr e)]))
       (local_remove ''dfir_auth'' b)"

definition clear_stored_auth :: "browser \<Rightarrow> browser" where
  "clear_stored_auth b =
     session_remove auth_storage_key (session_remove ''dfir_auth'' (local_remove ''dfir_auth'' b))"

definition is_session_valid :: "(jsval \<Rightarrow> int option) \<Rightarrow> int \<Rightarrow> browser \<Rightarrow> bool" where
  "is_session_valid date_parse now b = (case get_stored_auth b of
      None \<Rightarrow> False
    | Some a \<Rightarrow> (case date_parse (expires_at a) of None \<Rightarrow> False | Some t \<Rightarrow> now < t))"

definition get_stored_role :: "browser \<Rightarrow> jsval option" where
  "get_stored_role b = map_option role (get_stored_auth b)"

definition is_viewer_role :: "jsval option \<Rightarrow> bool" where
  "is_viewer_role r = (r = Some (JStr ''viewer''))"

definition logout :: "string option \<Rightarrow> browser \<Rightarrow> browser" where
  "logout reason b =
     (let b' = clear_stored_auth b
      in if pathname b' \<noteq> ''/login''
         then assign_location ''/login''
                (case reason of Some r \<Rightarrow> (if r = [] then [] else ''?reason='' @ r) | None \<Rightarrow> []) b'
         else b')"

section \<open>Routes and guards\<close>

datatype guard = Public | Protected | ProtectedRoles "string list"

record route =
  pattern :: string
  element :: string
  route_guard :: guard

definition rt :: "string \<Rightarrow> string \<Rightarrow> guard \<Rightarrow> route" where
  "rt p e g = \<lparr>pattern = p, element = e, route_guard = g\<rparr>"

definition app_routes :: "route list" where
  "app_routes = [
     rt ''/'' ''Index'' Public,
     rt ''/login'' ''Login'' Public,
     rt ''/dashboard'' ''Dashboard'' Protected,
     rt ''/incidents/create'' ''CreateIncident'' (ProtectedRoles [''admin'', ''operator'']),
     rt ''/incidents/:id'' ''IncidentHub'' Protected,
     rt ''/incidents/:id/setup'' ''CollectionSetup'' (ProtectedRoles [''admin'', ''operator'']),
     rt ''/incidents/:id/collect'' ''CollectionExecution'' (ProtectedRoles [''admin'', ''operator'']),
     rt ''/evidence'' ''EvidenceVault'' Protected,
     rt ''/evidence/:id'' ''EvidenceVault'' Protected,
     rt ''/chain-of-custody'' ''ChainOfCustody'' Protected,
     rt ''/collectors'' ''Collectors'' Protected,
     rt ''/devices'' ''Devices'' Protected,
     rt ''/incident-templates'' ''IncidentTemplates'' Protected,
     rt ''/admin/settings'' ''AdminSettings'' (ProtectedRoles [''admin'']),
     rt ''/admin/users'' ''UserManagement'' (ProtectedRoles [''admin'']),
     rt ''/incidents/:id/processing'' ''ProcessingStatus'' (ProtectedRoles [''admin'', ''operator'']),
     rt ''/incidents/:id/sigma-hits'' ''SigmaHits'' Protected,
     rt ''/incidents/:id/attack-chains'' ''AttackChains'' Protected,
     rt ''/incidents/:id/ioc-matches'' ''IOCMatches'' Protected,
     rt ''/incidents/:id/yara-matches'' ''YaraMatches'' Protected,
     rt ''/incidents/:id/super-timeline'' ''SuperTimeline'' Protected,
     rt ''/incidents/:id/report'' ''IncidentReport'' Protected,
     rt ''/incidents/:id/hypotheses'' ''HypothesisBuilder'' Protected,
     rt ''/incidents/:id/tasks'' ''IncidentTasks'' Protected,
     rt ''/incidents/:id/legal-holds'' ''LegalHolds'' Protected,
     rt ''/incidents/:id/scheduled'' ''ScheduledCollections'' Protected,
     rt ''/scheduled-collections'' ''ScheduledCollections'' Protected,
     rt ''/threat-hunt'' ''ThreatHuntLibrary'' Protected,
     rt ''/admin/custom-modules'' ''CustomModules'' Protected,
     rt ''/admin/audit-log'' ''AuditLog'' (ProtectedRoles [''admin'']),
     rt ''/correlate'' ''CorrelationView'' Protected,
     rt ''/agents/:agentId/console'' ''AgentConsole'' Protected,
     rt ''/threat-intel'' ''ThreatIntel'' (ProtectedRoles [''admin'', ''operator'']),
     rt ''/incidents/:id/siem-export'' ''SIEMExport'' Protected,
     rt ''/incidents/:id/ai-analysis'' ''AIAnalysis'' Protected,
     rt ''*'' ''NotFound'' Public]"

text \<open>What a guarded element renders: its page, or a redirect with the location it came from.\<close>

datatype rendered = Page string | Redirect string string

definition protected_route :: "(jsval \<Rightarrow> int option) \<Rightarrow> int \<Rightarrow> browser \<Rightarrow> rendered \<Rightarrow> rendered" where
  "protected_route date_parse now b children =
     (let auth = get_stored_auth b; valid = is_session_valid date_parse now b
      in if \<not> truthy (map_option username auth) \<or> \<not> valid
         then Redirect ''/login'' (pathname b @ location_search b)
         else children)"

definition role_route :: "string list \<Rightarrow> browser \<Rightarrow> rendered \<Rightarrow> rendered" where
  "role_route roles b children =
     (let r = get_stored_role b
      in if \<not> truthy r \<or> \<not> list_ex (\<lambda>x. r = Some (JStr x)) roles
         then Redirect ''/dashboard'' (pathname b)
         else children)"

definition render_route :: "(jsval \<Rightarrow> int option) \<Rightarrow> int \<Rightarrow> browser \<Rightarrow> route \<Rightarrow> rendered" where
  "render_route date_parse now b r = (case route_guard r of
      Public \<Rightarrow> Page (element r)
    | Protected \<Rightarrow> protected_route date_parse now b (Page (element r))
    | ProtectedRoles roles \<Rightarrow>
        protected_route date_parse now b (role_route roles b (Page (element r))))"

text \<open>\<open>pages/Index.tsx\<close>: the entry point sends the browser on.\<close>

definition index_redirect :: "(jsval \<Rightarrow> int option) \<Rightarrow> int \<Rightarrow> browser \<Rightarrow> browser" where
  "index_redirect date_parse now b =
     assign_location (if is_session_valid date_parse now b then ''/dashboard'' else ''/login'') [] b"

section \<open>Lemmas\<close>

lemma get_stored_auth_cong:
  "session_get b auth_storage_key = session_get b' auth_storage_key \<Longrightarrow>
   get_stored_auth b = get_stored_auth b'"
  by (simp add: get_stored_auth_def)

lemma get_after_clear [simp]: "get_stored_auth (clear_stored_auth b) = None"
  by (simp add: get_stored_auth_def clear_stored_auth_def session.fetch_forget)

lemma get_after_logout [simp]: "get_stored_auth (logout r b) = None"
proof -
  have "session_get (logout r b) auth_storage_key = None"
    by (auto simp: logout_def Let_def clear_stored_auth_def session.fetch_forget)
  then show ?thesis by (simp add: get_stored_auth_def)
qed

lemma get_stored_auth_fields:
  "get_stored_auth b = Some a \<Longrightarrow> truthy (Some (username a)) \<and> truthy (Some (role a))"
  by (auto simp: get_stored_auth_def Let_def truthy_def split: option.splits if_splits)

lemma stringify_obj_nonempty: "stringify (JObj ms) \<noteq> []"
  using stringify_nonempty by (metis length_greater_0_conv)

lemma protected_renders:
  "protected_route dp now b (Page e) = Page e' \<longleftrightarrow> e' = e \<and> is_session_valid dp now b"
proof -
  have "is_session_valid dp now b \<Longrightarrow> truthy (map_option username (get_stored_auth b))"
    by (auto simp: is_session_valid_def dest: get_stored_auth_fields split: option.splits)
  then show ?thesis by (auto simp: protected_route_def Let_def)
qed

lemma protected_invalid:
  "\<not> is_session_valid dp now b \<Longrightarrow>
   protected_route dp now b c = Redirect ''/login'' (pathname b @ location_search b)"
  by (simp add: protected_route_def Let_def)

lemma role_page_iff:
  assumes "route_guard r = ProtectedRoles roles"
  shows "render_route dp now b r = Page p \<longleftrightarrow>
    is_session_valid dp now b \<and> (\<exists>x \<in> set roles. get_stored_role b = Some (JStr x)) \<and>
    truthy (get_stored_role b) \<and> p = element r"
proof (cases "is_session_valid dp now b")
  case True
  then have "render_route dp now b r = role_route roles b (Page (element r))"
    using assms by (auto simp: render_route_def protected_route_def Let_def is_session_valid_def
        dest: get_stored_auth_fields split: option.splits)
  with True show ?thesis
    by (auto simp: role_route_def Let_def list_ex_iff)
next
  case False
  then show ?thesis using assms by (simp add: render_route_def protected_invalid)
qed

section \<open>Properties\<close>

text \<open>A session that is stored is read back with the same user, role and expiry, and storing it
  deletes the bearer token an earlier release kept in the local storage.\<close>

theorem stored_session_read_back:
  assumes "u \<noteq> []" and "r \<noteq> []" and "e \<noteq> []"
  shows "get_stored_auth (set_stored_auth u r e b) =
      Some \<lparr>username = JStr u, role = JStr r, expires_at = JStr e\<rparr> \<and>
    local_get (set_stored_auth u r e b) ''dfir_auth'' = None"
proof -
  let ?v = "JObj [(''username'', JStr u), (''role'', JStr r), (''expiresAt'', JStr e)]"
  have "parse_json (stringify ?v) = Some ?v" by (rule parse_stringify) simp
  then show ?thesis
    using assms stringify_obj_nonempty
    by (simp add: get_stored_auth_def set_stored_auth_def session.fetch_store local.fetch_forget truthy_def)
qed

theorem stored_session_read_back_witness:
  "get_stored_auth (set_stored_auth ''ana'' ''viewer'' ''2030'' sample_browser) =
      Some \<lparr>username = JStr ''ana'', role = JStr ''viewer'', expires_at = JStr ''2030''\<rparr>"
  using stored_session_read_back [of "''ana''" "''viewer''" "''2030''"] by simp

text \<open>C3. After \<open>logout\<close>, for whatever reason, every route of the application but the public ones
  redirects to the login page, and no role is left.\<close>

theorem logout_locks_every_protected_route:
  assumes "r \<in> set app_routes" and "route_guard r \<noteq> Public"
  shows "get_stored_role (logout why b) = None \<and>
    (\<exists>from. render_route dp now (logout why b) r = Redirect ''/login'' from)"
proof -
  have "\<not> is_session_valid dp now (logout why b)" by (simp add: is_session_valid_def)
  then show ?thesis
    using assms by (auto simp: render_route_def protected_invalid get_stored_role_def split: guard.split)
qed

theorem logout_locks_every_protected_route_witness:
  "\<exists>from. render_route (\<lambda>_. None) 0 (logout None sample_browser) (rt ''/devices'' ''Devices'' Protected) =
     Redirect ''/login'' from"
  using logout_locks_every_protected_route [of "rt ''/devices'' ''Devices'' Protected" None sample_browser
      "\<lambda>_. None" 0]
  by (simp add: app_routes_def rt_def)

text \<open>C24. A page behind \<open>RoleRoute\<close> renders only in a session that has not expired and whose role is
  one of the roles of its route.\<close>

theorem role_page_needs_session_and_role:
  assumes "route_guard r = ProtectedRoles roles" and "render_route dp now b r = Page p"
  shows "is_session_valid dp now b \<and> (\<exists>x \<in> set roles. get_stored_role b = Some (JStr x)) \<and> p = element r"
  using assms by (simp add: role_page_iff)

definition live_browser :: "string \<Rightarrow> browser" where
  "live_browser r = set_stored_auth ''ana'' r ''2030'' sample_browser"

lemma live_session:
  "r \<noteq> [] \<Longrightarrow> get_stored_auth (live_browser r) =
     Some \<lparr>username = JStr ''ana'', role = JStr r, expires_at = JStr ''2030''\<rparr>"
proof -
  assume "r \<noteq> []"
  let ?v = "JObj [(''username'', JStr ''ana''), (''role'', JStr r), (''expiresAt'', JStr ''2030'')]"
  have "parse_json (stringify ?v) = Some ?v" by (rule parse_stringify) simp
  then show ?thesis
    using \<open>r \<noteq> []\<close> stringify_obj_nonempty
    by (simp add: live_browser_def get_stored_auth_def set_stored_auth_def session.fetch_store truthy_def)
qed

theorem role_page_needs_session_and_role_witness:
  "is_session_valid (\<lambda>_. Some 9) 5 (live_browser ''admin'') \<and>
   get_stored_role (live_browser ''admin'') = Some (JStr ''admin'')"
proof -
  let ?r = "rt ''/admin/users'' ''UserManagement'' (ProtectedRoles [''admin''])"
  have "render_route (\<lambda>_. Some 9) 5 (live_browser ''admin'') ?r = Page ''UserManagement''"
    by (simp add: render_route_def rt_def protected_route_def role_route_def is_session_valid_def
        get_stored_role_def live_session truthy_def)
  from role_page_needs_session_and_role [OF _ this, of "[''admin'']"] show ?thesis
    by (simp add: rt_def)
qed

text \<open>With a live viewer session exactly these pages of the route table render; the pages that
  create incidents, run collections, administer users and settings or read the audit log are not
  among them.\<close>

theorem viewer_pages:
  assumes "is_session_valid dp now b" and "get_stored_role b = Some (JStr ''viewer'')"
  shows "map element (filter (\<lambda>r. render_route dp now b r = Page (element r)) app_routes) =
    [''Index'', ''Login'', ''Dashboard'', ''IncidentHub'', ''EvidenceVault'', ''EvidenceVault'',
     ''ChainOfCustody'', ''Collectors'', ''Devices'', ''IncidentTemplates'', ''SigmaHits'',
     ''AttackChains'', ''IOCMatches'', ''YaraMatches'', ''SuperTimeline'', ''IncidentReport'',
     ''HypothesisBuilder'', ''IncidentTasks'', ''LegalHolds'', ''ScheduledCollections'',
     ''ScheduledCollections'', ''ThreatHuntLibrary'', ''CustomModules'', ''CorrelationView'',
     ''AgentConsole'', ''SIEMExport'', ''AIAnalysis'', ''NotFound'']"
proof -
  have "(render_route dp now b r = Page (element r)) =
      (case route_guard r of ProtectedRoles roles \<Rightarrow> ''viewer'' \<in> set roles | _ \<Rightarrow> True)" for r
  proof (cases "route_guard r")
    case (ProtectedRoles roles)
    then show ?thesis using assms by (simp add: role_page_iff truthy_def)
  qed (use assms(1) in \<open>simp_all add: render_route_def protected_renders\<close>)
  then show ?thesis by (simp add: app_routes_def rt_def)
qed

theorem viewer_pages_witness:
  "map element (filter (\<lambda>r. render_route (\<lambda>_. Some 9) 5 (live_browser ''viewer'') r = Page (element r))
     app_routes) \<noteq> map element app_routes"
proof -
  have "is_session_valid (\<lambda>_. Some 9) 5 (live_browser ''viewer'')"
    and "get_stored_role (live_browser ''viewer'') = Some (JStr ''viewer'')"
    by (simp_all add: is_session_valid_def get_stored_role_def live_session)
  from viewer_pages [OF this] show ?thesis by (simp add: app_routes_def rt_def)
qed

end
