(* ===== verification/Hooks.thy ===== *)
theory Hooks
  imports Complex_Main Prelude
begin

text \<open>
  The shared React hooks: the toast store of \<open>hooks/use-toast.ts\<close>, pagination
  (\<open>hooks/usePagination.ts\<close> with the controls of \<open>components/TablePagination.tsx\<close>), adaptive
  polling (\<open>lib/useAdaptivePolling.ts\<close>), \<open>hooks/useDebounce.ts\<close> and \<open>hooks/use-mobile.tsx\<close>.
  Timers are part of the state; the events are what the page and the clock may do.
\<close>

section \<open>Toasts\<close>

record toast =
  toast_id :: string
  toast_title :: "string option"
  toast_description :: "string option"
  toast_open :: bool

text \<open>A \<open>Partial<ToasterToast>\<close>: \<open>None\<close> for a property that is absent.\<close>

record toast_patch =
  patch_id :: "string option"
  patch_title :: "string option option"
  patch_description :: "string option option"
  patch_open :: "bool option"

definition patched :: "toast \<Rightarrow> toast_patch \<Rightarrow> toast" where
  "patched t p = \<lparr>toast_id = case_option (toast_id t) id (patch_id p),
     toast_title = case_option (toast_title t) id (patch_title p),
     toast_description = case_option (toast_description t) id (patch_description p),
     toast_open = case_option (toast_open t) id (patch_open p)\<rparr>"

datatype toast_action =
    AddToast toast
  | UpdateToast toast_patch
  | DismissToast "string option"
  | RemoveToast "string option"

text \<open>The module's state: the counter of \<open>genId\<close>, the removal timers by toast, the memory state
  and what each mounted \<open>useToast\<close> shows.\<close>

record toaster =
  counter :: nat
  timeouts :: "string list"
  toasts :: "toast list"
  listeners :: "(nat \<times> toast list) list"

definition toast_limit :: nat where "toast_limit = 1"
definition toast_remove_delay :: nat where "toast_remove_delay = 1000000"
definition max_safe_integer :: nat where "max_safe_integer = 2 ^ 53 - 1"

definition gen_id :: "toaster \<Rightarrow> string \<times> toaster" where
  "gen_id m = (let c = (counter m + 1) mod max_safe_integer in (nat_str c, m\<lparr>counter := c\<rparr>))"

definition add_to_remove_queue :: "string \<Rightarrow> string list \<Rightarrow> string list" where
  "add_to_remove_queue i ts = (if i \<in> set ts then ts else ts @ [i])"

text \<open>\<open>reducer\<close>, with the timers its \<open>DISMISS_TOAST\<close> case arms as a second result.\<close>

definition toast_reducer :: "string list \<Rightarrow> toast list \<Rightarrow> toast_action \<Rightarrow> toast list \<times> string list" where
  "toast_reducer tm ts a = (case a of
      AddToast t \<Rightarrow> (take toast_limit (t # ts), tm)
    | UpdateToast p \<Rightarrow> (map (\<lambda>t. if Some (toast_id t) = patch_id p then patched t p else t) ts, tm)
    | DismissToast i \<Rightarrow>
        (map (\<lambda>t. if i = Some (toast_id t) \<or> i = None then t\<lparr>toast_open := False\<rparr> else t) ts,
         (case i of
            Some k \<Rightarrow> (if k \<noteq> [] then add_to_remove_queue k tm
                       else fold (\<lambda>t. add_to_remove_queue (toast_id t)) ts tm)
          | None \<Rightarrow> fold (\<lambda>t. add_to_remove_queue (toast_id t)) ts tm))
    | RemoveToast i \<Rightarrow>
        (case i of None \<Rightarrow> ([], tm) | Some k \<Rightarrow> (filter (\<lambda>t. toast_id t \<noteq> k) ts, tm)))"

definition dispatch :: "toast_action \<Rightarrow> toaster \<Rightarrow> toaster" where
  "dispatch a m =
     (let (ts, tm) = toast_reducer (timeouts m) (toasts m) a
      in m\<lparr>toasts := ts, timeouts := tm, listeners := map (\<lambda>(i, _). (i, ts)) (listeners m)\<rparr>)"

definition show_toast :: "string option \<Rightarrow> string option \<Rightarrow> toaster \<Rightarrow> toaster" where
  "show_toast title descr m =
     (let (i, m') = gen_id m
      in dispatch (AddToast \<lparr>toast_id = i, toast_title = title, toast_description = descr,
           toast_open = True\<rparr>) m')"

definition remove_timer_fires :: "string \<Rightarrow> toaster \<Rightarrow> toaster" where
  "remove_timer_fires i m =
     dispatch (RemoveToast (Some i)) (m\<lparr>timeouts := filter (\<lambda>k. k \<noteq> i) (timeouts m)\<rparr>)"

definition mount_use_toast :: "nat \<Rightarrow> toaster \<Rightarrow> toaster" where
  "mount_use_toast h m = m\<lparr>listeners := listeners m @ [(h, toasts m)]\<rparr>"

definition unmount_use_toast :: "nat \<Rightarrow> toaster \<Rightarrow> toaster" where
  "unmount_use_toast h m = m\<lparr>listeners := filter (\<lambda>l. fst l \<noteq> h) (listeners m)\<rparr>"

definition initial_toaster :: toaster where
  "initial_toaster = \<lparr>counter = 0, timeouts = [], toasts = [], listeners = []\<rparr>"

inductive toaster_step :: "toaster \<Rightarrow> toaster \<Rightarrow> bool" where
  shows_one: "toaster_step m (show_toast title descr m)"
| updates: "patch_open p \<noteq> Some False \<Longrightarrow> patch_id p = Some i \<Longrightarrow> toaster_step m (dispatch (UpdateToast p) m)"
| dismisses: "i \<noteq> Some [] \<Longrightarrow> toaster_step m (dispatch (DismissToast i) m)"
| removes: "i \<in> set (timeouts m) \<Longrightarrow> toaster_step m (remove_timer_fires i m)"
| mounts: "toaster_step m (mount_use_toast h m)"
| unmounts: "toaster_step m (unmount_use_toast h m)"

inductive toaster_reachable :: "toaster \<Rightarrow> bool" where
  toaster_start: "toaster_reachable initial_toaster"
| toaster_later: "toaster_reachable m \<Longrightarrow> toaster_step m m' \<Longrightarrow> toaster_reachable m'"

inductive_cases toaster_step_elim: "toaster_step m m'"

text \<open>At most one toast is kept; every mounted hook shows the memory state; a dismissed toast has a
  removal timer, so it does not stay closed in the list for ever.\<close>

definition toaster_ok :: "toaster \<Rightarrow> bool" where
  "toaster_ok m \<longleftrightarrow> length (toasts m) \<le> 1 \<and>
     (\<forall>l \<in> set (listeners m). snd l = toasts m) \<and>
     (\<forall>t \<in> set (toasts m). toast_open t \<or> toast_id t \<in> set (timeouts m))"

lemma set_add_to_remove_queue [simp]: "set (add_to_remove_queue i ts) = insert i (set ts)"
  by (auto simp: add_to_remove_queue_def)

lemma set_fold_queue [simp]:
  "set (fold (\<lambda>t. add_to_remove_queue (toast_id t)) ts tm) = set tm \<union> toast_id ` set ts"
  by (induction ts arbitrary: tm) auto

lemma dispatch_listeners:
  "\<forall>l \<in> set (listeners (dispatch a m)). snd l = toasts (dispatch a m)"
  by (auto simp: dispatch_def split: prod.splits)

lemma length_toasts_dispatch:
  "length (toasts m) \<le> 1 \<Longrightarrow> length (toasts (dispatch a m)) \<le> 1"
  by (auto simp: dispatch_def toast_reducer_def toast_limit_def split: prod.splits toast_action.splits
      option.splits intro: order_trans [OF length_filter_le])

lemma toaster_ok_step: "toaster_ok m \<Longrightarrow> toaster_step m m' \<Longrightarrow> toaster_ok m'"
proof (erule toaster_step_elim)
  fix title descr assume "toaster_ok m" and e: "m' = show_toast title descr m"
  then show "toaster_ok m'"
    unfolding e show_toast_def gen_id_def Let_def
    by (auto simp: toaster_ok_def dispatch_def toast_reducer_def toast_limit_def)
next
  fix p i assume "toaster_ok m" and e: "m' = dispatch (UpdateToast p) m"
    and "patch_open p \<noteq> Some False" and "patch_id p = Some i"
  then show "toaster_ok m'"
    by (auto simp: toaster_ok_def dispatch_def toast_reducer_def patched_def split: option.splits)
next
  fix i assume "toaster_ok m" and e: "m' = dispatch (DismissToast i) m" and "i \<noteq> Some []"
  then show "toaster_ok m'"
    by (auto simp: toaster_ok_def dispatch_def toast_reducer_def split: option.splits)
next
  fix i assume "toaster_ok m" and e: "m' = remove_timer_fires i m" and "i \<in> set (timeouts m)"
  then show "toaster_ok m'"
    unfolding e remove_timer_fires_def
    by (auto simp: toaster_ok_def dispatch_def toast_reducer_def intro: order_trans [OF length_filter_le])
next
  fix h assume "toaster_ok m" and "m' = mount_use_toast h m"
  then show "toaster_ok m'" by (auto simp: toaster_ok_def mount_use_toast_def)
next
  fix h assume "toaster_ok m" and "m' = unmount_use_toast h m"
  then show "toaster_ok m'" by (auto simp: toaster_ok_def unmount_use_toast_def)
qed

text \<open>In every state the toast store can reach by showing, updating, dismissing and removing
  toasts and by mounting and unmounting hooks, at most one toast is kept, every mounted hook shows
  it, and a toast that is closed has its removal timer armed.\<close>

theorem toaster_invariant:
  assumes "toaster_reachable m"
  shows "toaster_ok m"
  using assms
proof (induction rule: toaster_reachable.induct)
  case toaster_start
  show ?case by (simp add: toaster_ok_def initial_toaster_def)
next
  case (toaster_later m m')
  then show ?case by (blast intro: toaster_ok_step)
qed

theorem toaster_invariant_witness:
  "toaster_ok (dispatch (DismissToast None) (show_toast (Some ''Saved'') None initial_toaster)) \<and>
   toasts (dispatch (DismissToast None) (show_toast (Some ''Saved'') None initial_toaster)) \<noteq> []"
proof -
  have "toaster_reachable (dispatch (DismissToast None) (show_toast (Some ''Saved'') None initial_toaster))"
    by (rule toaster_later [OF toaster_later [OF toaster_start shows_one]]) (rule dismisses, simp)
  from toaster_invariant [OF this] show ?thesis
    by (simp add: show_toast_def gen_id_def dispatch_def toast_reducer_def toast_limit_def
        initial_toaster_def Let_def split: prod.split)
qed

section \<open>Pagination\<close>

record pagination =
  current_page :: int
  items_per_page :: nat

definition initial_pagination :: "nat \<Rightarrow> pagination" where
  "initial_pagination per = \<lparr>current_page = 1, items_per_page = per\<rparr>"

text \<open>\<open>Math.max(1, Math.ceil(totalItems / itemsPerPage))\<close> for a positive page size.\<close>

definition total_pages :: "nat \<Rightarrow> nat \<Rightarrow> nat" where
  "total_pages n per = max 1 ((n + per - 1) div per)"

definition page_items :: "'a list \<Rightarrow> pagination \<Rightarrow> 'a list" where
  "page_items items p =
     (let start = nat ((current_page p - 1) * int (items_per_page p))
      in slice start (start + items_per_page p) items)"

definition reset_effect :: "nat \<Rightarrow> pagination \<Rightarrow> pagination" where
  "reset_effect n p =
     (if current_page p > int (total_pages n (items_per_page p)) \<and> 0 < total_pages n (items_per_page p)
      then p\<lparr>current_page := 1\<rparr> else p)"

definition go_to_page :: "nat \<Rightarrow> int \<Rightarrow> pagination \<Rightarrow> pagination" where
  "go_to_page n page p =
     p\<lparr>current_page := max 1 (min page (int (total_pages n (items_per_page p))))\<rparr>"

definition set_per_page :: "nat \<Rightarrow> pagination \<Rightarrow> pagination" where
  "set_per_page per p = p\<lparr>items_per_page := per, current_page := 1\<rparr>"

text \<open>\<open>TablePagination\<close>: the range it prints, the page sizes it offers and its four buttons, each
  with the page it asks for and whether it is disabled.\<close>

definition items_per_page_options :: "nat list" where
  "items_per_page_options = [10, 25, 50, 100]"

definition start_item :: "pagination \<Rightarrow> int" where
  "start_item p = (current_page p - 1) * int (items_per_page p) + 1"

definition end_item :: "nat \<Rightarrow> pagination \<Rightarrow> int" where
  "end_item n p = min (current_page p * int (items_per_page p)) (int n)"

definition page_buttons :: "nat \<Rightarrow> pagination \<Rightarrow> (int \<times> bool) list" where
  "page_buttons n p =
     (let cur = current_page p; total = int (total_pages n (items_per_page p))
      in [(1, cur = 1), (cur - 1, cur = 1), (cur + 1, cur = total), (total, cur = total)])"

definition page_ok :: "nat \<Rightarrow> pagination \<Rightarrow> bool" where
  "page_ok n p \<longleftrightarrow> 0 < items_per_page p \<and> 1 \<le> current_page p \<and>
     current_page p \<le> int (total_pages n (items_per_page p))"

lemma page_ok_reset: "0 < items_per_page p \<Longrightarrow> 1 \<le> current_page p \<Longrightarrow> page_ok n (reset_effect n p)"
  by (auto simp: page_ok_def reset_effect_def total_pages_def)

lemma page_ok_go: "0 < items_per_page p \<Longrightarrow> page_ok n (go_to_page n k p)"
  by (auto simp: page_ok_def go_to_page_def total_pages_def)

lemma page_ok_per: "per \<in> set items_per_page_options \<Longrightarrow> page_ok n (set_per_page per p)"
  by (auto simp: page_ok_def set_per_page_def total_pages_def items_per_page_options_def)

lemma total_pages_cover: "0 < per \<Longrightarrow> n \<le> total_pages n per * per"
proof -
  assume per: "0 < per"
  have "n + per - 1 < ((n + per - 1) div per) * per + per"
    using per by (metis add.commute div_mult_mod_eq mod_less_divisor nat_add_left_cancel_less)
  then have "n \<le> ((n + per - 1) div per) * per" using per by linarith
  also have "\<dots> \<le> total_pages n per * per" by (simp add: total_pages_def)
  finally show ?thesis .
qed

lemma pages_prefix:
  "concat (map (\<lambda>k. page_items items \<lparr>current_page = int k, items_per_page = per\<rparr>) [1..<Suc m]) =
   take (m * per) items"
proof (induction m)
  case (Suc m)
  have "concat (map (\<lambda>k. page_items items \<lparr>current_page = int k, items_per_page = per\<rparr>) [1..<Suc (Suc m)]) =
      take (m * per) items @ take per (drop (m * per) items)"
    using Suc.IH by (simp add: page_items_def slice_def nat_mult_distrib)
  also have "\<dots> = take (m * per + per) items" by (simp add: take_add)
  finally show ?case by (simp add: add.commute)
qed simp

text \<open>The pages, in order, hold every item exactly once and in the order of the list, for every
  positive page size.\<close>

theorem pages_partition_items:
  assumes "0 < per"
  shows "concat (map (\<lambda>k. page_items items \<lparr>current_page = int k, items_per_page = per\<rparr>)
      [1..<Suc (total_pages (length items) per)]) = items"
  using total_pages_cover [OF assms, of "length items"] by (simp only: pages_prefix) simp

theorem pages_partition_items_witness:
  "concat (map (\<lambda>k. page_items ''abcde'' \<lparr>current_page = int k, items_per_page = 2\<rparr>)
      [1..<Suc (total_pages (length ''abcde'') 2)]) = ''abcde''"
  using pages_partition_items [of 2 "''abcde''"] by simp

text \<open>On a valid page of a list that is not empty the printed range is the page: it starts and
  ends inside the list and its length is the number of items shown; and no enabled button asks for a
  page outside the list.\<close>

theorem pagination_controls_agree:
  assumes "page_ok (length items) p" and "items \<noteq> []"
  shows "1 \<le> start_item p \<and> end_item (length items) p \<le> int (length items) \<and>
    end_item (length items) p - start_item p + 1 = int (length (page_items items p)) \<and>
    (\<forall>(k, off) \<in> set (page_buttons (length items) p). \<not> off \<longrightarrow> page_ok (length items) (p\<lparr>current_page := k\<rparr>))"
proof -
  let ?n = "length items" and ?per = "items_per_page p"
  have per: "0 < ?per" and cur: "1 \<le> current_page p" and up: "current_page p \<le> int (total_pages ?n ?per)"
    using assms(1) by (auto simp: page_ok_def)
  have "current_page p = int (Suc (nat (current_page p - 1)))" using cur by simp
  then obtain c where c: "current_page p = int (Suc c)" by blast
  have "Suc c \<le> total_pages ?n ?per" using up c by linarith
  moreover have "0 < ?n" using assms(2) by simp
  ultimately have start: "c * ?per < ?n"
  proof (cases "(?n + ?per - 1) div ?per = 0")
    case False
    assume "Suc c \<le> total_pages ?n ?per"
    then have "Suc c \<le> (?n + ?per - 1) div ?per" using False by (auto simp: total_pages_def)
    then have "Suc c * ?per \<le> ?n + ?per - 1" using per by (simp add: less_eq_div_iff_mult_less_eq)
    then show ?thesis using per by simp
  qed (auto simp: total_pages_def)
  have len: "length (page_items items p) = min ?per (?n - c * ?per)"
    by (simp add: page_items_def length_slice c nat_mult_distrib Let_def)
  have e: "end_item ?n p = int (min (Suc c * ?per) ?n)" and s: "start_item p = int (c * ?per) + 1"
    by (simp_all add: end_item_def start_item_def c of_nat_min distrib_right)
  have "end_item ?n p - start_item p + 1 = int (length (page_items items p))"
    unfolding e s len using start by (cases "Suc c * ?per \<le> ?n") (auto simp: min_def)
  moreover have "end_item ?n p \<le> int ?n" by (simp add: end_item_def)
  moreover have "1 \<le> start_item p" using s by simp
  ultimately show ?thesis
    using per cur up by (auto simp: page_buttons_def Let_def page_ok_def)
qed

theorem pagination_controls_agree_witness:
  "end_item 23 \<lparr>current_page = 3, items_per_page = 10\<rparr> - start_item \<lparr>current_page = 3, items_per_page = 10\<rparr> + 1 = 3"
  using pagination_controls_agree [of "replicate 23 ()" "\<lparr>current_page = 3, items_per_page = 10\<rparr>"]
  by (simp add: page_ok_def total_pages_def page_items_def slice_def)

section \<open>Adaptive polling\<close>

text \<open>
  One run of the second effect of \<open>useAdaptivePolling\<close>, from its start to its cleanup.  A poll is a
  call of the caller's \<open>onPoll\<close>; \<open>in_flight\<close> counts the polls whose promise has not settled, and
  \<open>poll_timer\<close> is the delay of the armed timer.  A number that is not finite is \<open>None\<close>; a
  fingerprint of \<open>None\<close> is \<open>undefined\<close>.
\<close>

record 'f poller =
  cancelled :: bool
  poll_timer :: "rat option"
  in_flight :: nat
  previous_fingerprint :: "'f option"
  poll_interval :: rat

definition poll_initial :: "rat option \<Rightarrow> rat" where
  "poll_initial i = (case i of Some x \<Rightarrow> max 1000 x | None \<Rightarrow> 5000)"

definition poll_maximum :: "rat option \<Rightarrow> rat option \<Rightarrow> rat" where
  "poll_maximum i m = (case m of Some x \<Rightarrow> max (poll_initial i) x | None \<Rightarrow> 30000)"

definition poll_factor :: "rat option \<Rightarrow> rat" where
  "poll_factor f = (case f of Some x \<Rightarrow> max 1 x | None \<Rightarrow> 2)"

definition start_polling :: "rat option \<Rightarrow> 'f poller" where
  "start_polling i = \<lparr>cancelled = False, poll_timer = None, in_flight = 1,
     previous_fingerprint = None, poll_interval = poll_initial i\<rparr>"

definition schedule :: "'f poller \<Rightarrow> 'f poller" where
  "schedule p = (if \<not> cancelled p then p\<lparr>poll_timer := Some (poll_interval p)\<rparr> else p)"

definition poll_fulfilled :: "rat option \<Rightarrow> rat option \<Rightarrow> rat option \<Rightarrow> 'f option \<Rightarrow> 'f poller \<Rightarrow> 'f poller" where
  "poll_fulfilled i m f fp p =
     (let p1 = p\<lparr>in_flight := in_flight p - 1\<rparr>
      in if cancelled p1 then p1
         else schedule (p1\<lparr>poll_interval :=
                  (if fp = previous_fingerprint p1 then min (poll_maximum i m) (poll_interval p1 * poll_factor f)
                   else poll_initial i),
                previous_fingerprint := fp\<rparr>))"

definition poll_rejected :: "rat option \<Rightarrow> rat option \<Rightarrow> rat option \<Rightarrow> 'f poller \<Rightarrow> 'f poller" where
  "poll_rejected i m f p =
     (let p1 = p\<lparr>in_flight := in_flight p - 1\<rparr>
      in if cancelled p1 then p1
         else schedule (p1\<lparr>poll_interval := min (poll_maximum i m) (poll_interval p1 * poll_factor f)\<rparr>))"

definition poll_timer_fires :: "'f poller \<Rightarrow> 'f poller" where
  "poll_timer_fires p = p\<lparr>poll_timer := None, in_flight := in_flight p + 1\<rparr>"

definition stop_polling :: "'f poller \<Rightarrow> 'f poller" where
  "stop_polling p = p\<lparr>cancelled := True, poll_timer := None\<rparr>"

inductive poller_step :: "rat option \<Rightarrow> rat option \<Rightarrow> rat option \<Rightarrow> 'f poller \<Rightarrow> 'f poller \<Rightarrow> bool"
  for i m f where
  fulfils: "0 < in_flight p \<Longrightarrow> poller_step i m f p (poll_fulfilled i m f fp p)"
| rejects: "0 < in_flight p \<Longrightarrow> poller_step i m f p (poll_rejected i m f p)"
| ticks: "poll_timer p \<noteq> None \<Longrightarrow> poller_step i m f p (poll_timer_fires p)"
| stops: "poller_step i m f p (stop_polling p)"

inductive poller_reachable :: "rat option \<Rightarrow> rat option \<Rightarrow> rat option \<Rightarrow> 'f poller \<Rightarrow> bool" for i m f where
  poller_start: "poller_reachable i m f (start_polling i)"
| poller_later: "poller_reachable i m f p \<Longrightarrow> poller_step i m f p p' \<Longrightarrow> poller_reachable i m f p'"

inductive_cases poller_step_elim: "poller_step i m f p p'"

definition poller_ok :: "rat option \<Rightarrow> rat option \<Rightarrow> 'f poller \<Rightarrow> bool" where
  "poller_ok i m p \<longleftrightarrow>
     in_flight p + (if poll_timer p = None then 0 else 1) \<le> 1 \<and>
     (\<not> cancelled p \<longrightarrow> in_flight p + (if poll_timer p = None then 0 else 1) = 1) \<and>
     (cancelled p \<longrightarrow> poll_timer p = None) \<and>
     min (poll_initial i) (poll_maximum i m) \<le> poll_interval p \<and> poll_interval p \<le> max (poll_initial i) (poll_maximum i m)"

lemma poll_initial_pos: "1000 \<le> poll_initial i"
  by (simp add: poll_initial_def split: option.split)

lemma poll_factor_ge: "1 \<le> poll_factor f"
  by (simp add: poll_factor_def split: option.split)

lemma poll_step_bounds:
  assumes "min (poll_initial i) (poll_maximum i m) \<le> x"
  shows "min (poll_initial i) (poll_maximum i m) \<le> min (poll_maximum i m) (x * poll_factor f)"
proof -
  have "0 \<le> x" using assms poll_initial_pos [of i] by (auto simp: poll_maximum_def split: option.splits)
  then have "x * 1 \<le> x * poll_factor f" using poll_factor_ge [of f] by (intro mult_left_mono) auto
  then show ?thesis using assms by simp
qed

lemmas poller_defs = poll_fulfilled_def poll_rejected_def poll_timer_fires_def stop_polling_def
  schedule_def start_polling_def Let_def

lemma poller_ok_step:
  assumes ok: "poller_ok i m p" and st: "poller_step i m f p p'"
  shows "poller_ok i m p'"
proof -
  have b: "min (poll_initial i) (poll_maximum i m) \<le> min (poll_maximum i m) (poll_interval p * poll_factor f)"
    using ok by (intro poll_step_bounds) (simp add: poller_ok_def)
  have "min (poll_maximum i m) x \<le> max (poll_initial i) (poll_maximum i m)" for x by simp
  with st ok b show ?thesis
    by (cases rule: poller_step.cases) (auto simp: poller_ok_def poller_defs simp del: min_le_iff_disj split: if_splits)
qed

lemma poller_ok_start: "poller_ok i m (start_polling i)"
  by (simp add: poller_ok_def start_polling_def)

lemma poller_reachable_ok: "poller_reachable i m f p \<Longrightarrow> poller_ok i m p"
  by (induction rule: poller_reachable.induct) (auto intro: poller_ok_start poller_ok_step)

text \<open>
  The hook: the runs of its effect, each with its options, the last one at the end.  A run is cancelled by its cleanup,
  when polling is disabled, the options change or the component goes; its last poll may then still be in flight.  A new
  run starts when polling is enabled or the options have changed, and polls at once.
\<close>

type_synonym poll_options = "rat option \<times> rat option \<times> rat option"
type_synonym 'f poll_runs = "(poll_options \<times> 'f poller) list"

definition clean_up :: "'f poll_runs \<Rightarrow> 'f poll_runs" where
  "clean_up rs = (if rs = [] then [] else butlast rs @ [apsnd stop_polling (last rs)])"

definition start_run :: "poll_options \<Rightarrow> 'f poll_runs \<Rightarrow> 'f poll_runs" where
  "start_run opts rs = clean_up rs @ [(opts, start_polling (fst opts))]"

inductive hook_step :: "'f poll_runs \<Rightarrow> 'f poll_runs \<Rightarrow> bool" where
  run_moves: "n < length rs \<Longrightarrow> rs ! n = ((i, m, f), p) \<Longrightarrow> poller_step i m f p p' \<Longrightarrow>
     hook_step rs (rs[n := ((i, m, f), p')])"
| cleans: "hook_step rs (clean_up rs)"
| runs: "hook_step rs (start_run opts rs)"

inductive hook_reachable :: "'f poll_runs \<Rightarrow> bool" where
  hook_start: "hook_reachable []"
| hook_later: "hook_reachable rs \<Longrightarrow> hook_step rs rs' \<Longrightarrow> hook_reachable rs'"

definition run_ok :: "poll_options \<times> 'f poller \<Rightarrow> bool" where
  "run_ok r = (case r of ((i, m, f), p) \<Rightarrow> poller_ok i m p)"

definition runs_ok :: "'f poll_runs \<Rightarrow> bool" where
  "runs_ok rs \<longleftrightarrow> list_all run_ok rs \<and> list_all (\<lambda>r. cancelled (snd r)) (butlast rs)"

lemma poller_step_cancelled: "poller_step i m f p p' \<Longrightarrow> cancelled p \<Longrightarrow> cancelled p'"
  by (cases rule: poller_step.cases) (auto simp: poller_defs)

lemma run_ok_start: "run_ok (opts, start_polling (fst opts))"
  by (cases opts) (simp add: run_ok_def poller_ok_start)

lemma run_ok_stop: "run_ok r \<Longrightarrow> run_ok (apsnd stop_polling r)"
  by (auto simp: run_ok_def poller_ok_def stop_polling_def split: prod.splits)

lemma clean_up_ok:
  assumes "runs_ok rs"
  shows "list_all run_ok (clean_up rs)" "list_all (\<lambda>r. cancelled (snd r)) (clean_up rs)"
proof (atomize (full), cases rs rule: rev_cases)
  case (snoc qs q)
  have "cancelled (snd (apsnd stop_polling q))" by (cases q) (simp add: stop_polling_def)
  then show "list_all run_ok (clean_up rs) \<and> list_all (\<lambda>r. cancelled (snd r)) (clean_up rs)"
    using assms snoc by (simp add: runs_ok_def clean_up_def run_ok_stop)
qed (simp add: clean_up_def)

lemma list_all_update: "list_all P xs \<Longrightarrow> (n < length xs \<Longrightarrow> P x) \<Longrightarrow> list_all P (xs[n := x])"
  unfolding list_all_length length_list_update by (metis nth_list_update_eq nth_list_update_neq)

lemma hook_step_ok:
  assumes "hook_step rs rs'" and "runs_ok rs"
  shows "runs_ok rs'"
  using assms(1)
proof cases
  case (run_moves n i m f p p')
  have "run_ok ((i, m, f), p)" using assms(2) run_moves by (metis list_all_length runs_ok_def)
  then have ok: "run_ok ((i, m, f), p')" using poller_ok_step run_moves by (simp add: run_ok_def)
  have "cancelled p'" if "n < length (butlast rs)"
  proof -
    have "cancelled (snd (butlast rs ! n))" using assms(2) that by (simp add: runs_ok_def list_all_length)
    then show ?thesis using that run_moves poller_step_cancelled by (simp add: nth_butlast)
  qed
  with ok show ?thesis
    using assms(2) run_moves(1) by (auto simp: runs_ok_def butlast_list_update intro!: list_all_update)
next
  case cleans
  have "list_all P (butlast xs)" if "list_all P xs" for P and xs :: "'a poll_runs"
    using that in_set_butlastD by (fastforce simp: list_all_iff)
  then show ?thesis using clean_up_ok [OF assms(2)] cleans by (simp add: runs_ok_def)
next
  case (runs opts)
  then show ?thesis using clean_up_ok [OF assms(2)] run_ok_start by (simp add: runs_ok_def start_run_def)
qed

lemma hook_reachable_ok: "hook_reachable rs \<Longrightarrow> runs_ok rs"
  by (induction rule: hook_reachable.induct) (simp add: runs_ok_def, blast intro: hook_step_ok)

text \<open>C32. Whatever the polls return and however long they take, and however often polling is disabled, enabled or
  given other options: of each run of the effect at most one of a poll in flight and an armed timer exists, exactly one
  until its cleanup, and its delay stays between the initial and the maximum interval.  All runs but the last are
  cancelled, and a cancelled run has no timer, so that at most one timer is armed; but the last poll of a cancelled run
  may still be in flight.\<close>

theorem polling_one_per_run:
  assumes "hook_reachable rs"
  shows "list_all (\<lambda>((i, m, f), p). poller_ok i m p) rs \<and> list_all (\<lambda>(opts, p). cancelled p) (butlast rs)
    \<and> length (filter (\<lambda>(opts, p). poll_timer p \<noteq> None) rs) \<le> 1"
proof -
  have ok: "runs_ok rs" by (rule hook_reachable_ok [OF assms])
  have unarmed: "filter (\<lambda>(opts, p). poll_timer p \<noteq> None) (butlast rs) = []"
  proof -
    have "poll_timer p = None" if "(opts, p) \<in> set (butlast rs)" for opts p
    proof -
      have "run_ok (opts, p)" "cancelled p"
        using ok that in_set_butlastD by (fastforce simp: runs_ok_def list_all_iff)+
      then show ?thesis by (auto simp: run_ok_def poller_ok_def split: prod.splits)
    qed
    then show ?thesis by (auto simp: filter_empty_conv)
  qed
  have "length (filter (\<lambda>(opts, p). poll_timer p \<noteq> None) rs) \<le> 1"
  proof (cases rs rule: rev_cases)
    case (snoc qs q)
    then show ?thesis using unarmed by simp
  qed simp
  then show ?thesis
    using ok by (auto simp: runs_ok_def run_ok_def list_all_iff split: prod.splits)
qed

theorem polling_one_per_run_witness:
  "poller_ok (Some 2000) (Some 30000)
     (poll_fulfilled (Some 2000) (Some 30000) (Some 2) (Some ''BUSY'') (start_polling (Some 2000)))"
proof -
  let ?o = "(Some 2000, Some 30000, Some 2) :: poll_options"
  let ?p = "poll_fulfilled (Some 2000) (Some 30000) (Some 2) (Some ''BUSY'') (start_polling (Some 2000))"
  have "hook_reachable [(?o, start_polling (Some 2000) :: string poller)]"
    using hook_later [OF hook_start runs [of "[]" ?o]] by (simp add: start_run_def clean_up_def)
  then have "hook_reachable ([(?o, start_polling (Some 2000))][0 := (?o, ?p)])"
    by (rule hook_later) (rule run_moves, simp, simp, rule fulfils, simp add: start_polling_def)
  from polling_one_per_run [OF this] show ?thesis by simp
qed

text \<open>So requests do overlap: any number of polls can be in flight at once, one of each run.\<close>

theorem restarts_overlap:
  "\<exists>rs. hook_reachable (rs :: string poll_runs) \<and> length rs = n \<and> list_all (\<lambda>(opts, p). in_flight p = 1) rs"
proof (induction n)
  case 0
  then show ?case using hook_start by (intro exI [of _ "[]"]) simp
next
  case (Suc n)
  then obtain rs :: "string poll_runs" where rs: "hook_reachable rs" "length rs = n" "list_all (\<lambda>(opts, p). in_flight p = 1) rs"
    by blast
  let ?o = "(None, None, None) :: poll_options"
  have "length (clean_up rs) = n \<and> list_all (\<lambda>(opts, p). in_flight p = 1) (clean_up rs)"
    using rs(2,3) by (cases rs rule: rev_cases) (auto simp: clean_up_def stop_polling_def)
  then have "length (start_run ?o rs) = Suc n \<and> list_all (\<lambda>(opts, p). in_flight p = 1) (start_run ?o rs)"
    by (simp add: start_run_def start_polling_def)
  then show ?case using hook_later [OF rs(1) runs [of rs ?o]] by blast
qed

text \<open>Polls that keep returning the same fingerprint, each followed by its timer.\<close>

primrec unchanged_polls :: "rat option \<Rightarrow> rat option \<Rightarrow> rat option \<Rightarrow> 'f option \<Rightarrow> nat \<Rightarrow> 'f poller \<Rightarrow> 'f poller" where
  "unchanged_polls i m f fp 0 p = p"
| "unchanged_polls i m f fp (Suc n) p =
     poll_timer_fires (poll_fulfilled i m f fp (unchanged_polls i m f fp n p))"

lemma unchanged_polls_state:
  assumes "\<not> cancelled p" and "previous_fingerprint p = fp" and "poll_interval p = poll_initial i"
    and "poll_initial i \<le> poll_maximum i m"
  shows "\<not> cancelled (unchanged_polls i m f fp n p) \<and>
    previous_fingerprint (unchanged_polls i m f fp n p) = fp \<and>
    poll_interval (unchanged_polls i m f fp n p) = min (poll_maximum i m) (poll_initial i * poll_factor f ^ n)"
proof (induction n)
  case 0
  then show ?case using assms by simp
next
  case (Suc n)
  let ?F = "poll_factor f" and ?M = "poll_maximum i m" and ?x = "poll_initial i * poll_factor f ^ n"
  have "0 \<le> ?M" using assms(4) poll_initial_pos [of i] by linarith
  then have M: "?M \<le> ?M * ?F" using poll_factor_ge [of f] by (simp add: mult_le_cancel_left1)
  have F: "0 \<le> ?F" using poll_factor_ge [of f] by linarith
  have "min ?M (min ?M ?x * ?F) = min ?M (?x * ?F)"
  proof (cases "?M \<le> ?x")
    case True
    then have "?M * ?F \<le> ?x * ?F" using F by (rule mult_right_mono)
    then show ?thesis using True M by simp
  qed simp
  then show ?case using Suc.IH by (simp add: poller_defs mult.assoc mult.commute mult.left_commute)
qed

text \<open>While the fingerprint does not change, the delay after \<open>n\<close> polls is the initial interval
  times the factor to the power \<open>n\<close>, capped at the maximum; one poll with a new fingerprint resets it.\<close>

theorem polling_backs_off:
  assumes "\<not> cancelled p" and "previous_fingerprint p = fp" and "poll_interval p = poll_initial i"
    and "poll_initial i \<le> poll_maximum i m"
  shows "poll_interval (unchanged_polls i m f fp n p) =
      min (poll_maximum i m) (poll_initial i * poll_factor f ^ n) \<and>
    (fp' \<noteq> fp \<longrightarrow> poll_interval (poll_fulfilled i m f fp' (unchanged_polls i m f fp n p)) = poll_initial i)"
  using unchanged_polls_state [OF assms, of f n] by (simp add: poller_defs)

theorem polling_backs_off_witness:
  "poll_interval (unchanged_polls (Some 2000) (Some 30000) (Some 2) (None :: string option) 3
     (start_polling (Some 2000))) = 16000"
  using polling_backs_off [of "start_polling (Some 2000) :: string poller" None "Some 2000" "Some 30000" "Some 2" 3]
  by (simp add: start_polling_def poll_initial_def poll_maximum_def poll_factor_def)

section \<open>Debouncing\<close>

record 'a debouncer =
  published :: 'a
  pending :: "('a \<times> nat) option"

definition debounce_start :: "'a \<Rightarrow> nat \<Rightarrow> nat \<Rightarrow> 'a debouncer" where
  "debounce_start v now delay = \<lparr>published = v, pending = Some (v, now + delay)\<rparr>"

text \<open>The clock passes: a timer that is due fires.\<close>

definition debounce_tick :: "nat \<Rightarrow> 'a debouncer \<Rightarrow> 'a debouncer" where
  "debounce_tick now d = (case pending d of
      Some (v, due) \<Rightarrow> (if due \<le> now then \<lparr>published = v, pending = None\<rparr> else d)
    | None \<Rightarrow> d)"

text \<open>The value changes: the cleanup clears the timer and the effect arms a new one.\<close>

definition debounce_change :: "'a \<Rightarrow> nat \<Rightarrow> nat \<Rightarrow> 'a debouncer \<Rightarrow> 'a debouncer" where
  "debounce_change v now delay d = d\<lparr>pending := Some (v, now + delay)\<rparr>"

fun debounce_run :: "nat \<Rightarrow> ('a \<times> nat) list \<Rightarrow> 'a debouncer \<Rightarrow> 'a debouncer" where
  "debounce_run delay [] d = d"
| "debounce_run delay ((v, now) # cs) d =
     debounce_run delay cs (debounce_change v now delay (debounce_tick now d))"

fun rapid :: "nat \<Rightarrow> nat \<Rightarrow> ('a \<times> nat) list \<Rightarrow> bool" where
  "rapid delay prev [] = True"
| "rapid delay prev ((v, now) # cs) = (now < prev + delay \<and> rapid delay now cs)"

lemma debounce_run_rapid:
  "rapid delay prev cs \<Longrightarrow> pending d = Some (u, prev + delay) \<Longrightarrow>
   published (debounce_run delay cs d) = published d \<and>
   pending (debounce_run delay cs d) =
     (if cs = [] then Some (u, prev + delay) else Some (fst (last cs), snd (last cs) + delay))"
proof (induction cs arbitrary: d prev u)
  case (Cons c cs)
  obtain v now where c: "c = (v, now)" by (cases c)
  let ?d = "debounce_change v now delay (debounce_tick now d)"
  have "published ?d = published d" and "pending ?d = Some (v, now + delay)"
    using Cons.prems by (auto simp: c debounce_change_def debounce_tick_def)
  then show ?case using Cons.IH [of now ?d v] Cons.prems by (auto simp: c)
qed simp

text \<open>While changes follow each other faster than the delay, the debounced value does not move;
  once the delay has passed after the last change it is that last value.\<close>

theorem debounce_publishes_last:
  assumes "rapid delay t0 (cs @ [(v, t)])" and "t + delay \<le> now"
  shows "published (debounce_run delay (cs @ [(v, t)]) (debounce_start v0 t0 delay)) = v0 \<and>
    published (debounce_tick now (debounce_run delay (cs @ [(v, t)]) (debounce_start v0 t0 delay))) = v"
  using debounce_run_rapid [OF assms(1), of "debounce_start v0 t0 delay" v0] assms(2)
  by (simp add: debounce_start_def debounce_tick_def)

theorem debounce_publishes_last_witness:
  "published (debounce_tick 900 (debounce_run 300 [(''a'', 100), (''ab'', 200), (''abc'', 450)]
     (debounce_start [] 0 300))) = ''abc''"
  using debounce_publishes_last [of 300 0 "[(''a'', 100), (''ab'', 200)]" "''abc''" 450 900 "[]"]
  by simp

section \<open>Breakpoint\<close>

definition mobile_breakpoint :: nat where "mobile_breakpoint = 768"

text \<open>\<open>undefined\<close> before the first effect; the hook returns its truth value.\<close>

definition measure_mobile :: "nat \<Rightarrow> bool option" where
  "measure_mobile width = Some (width < mobile_breakpoint)"

definition use_is_mobile :: "bool option \<Rightarrow> bool" where
  "use_is_mobile st = (st = Some True)"

end
