(* ===== verification/AdminSettings.thy ===== *)
theory AdminSettings
  imports Auth Hooks
begin

text \<open>
  \<open>pages/AdminSettings.tsx\<close> without its audit tab (theory \<open>AuditLog\<close>): user accounts, collectors, the system
  settings with their tools, the indicators and the configuration of the AI provider with its OAuth flow.
  A query keeps its data; the effect that copies them to the page runs when they change, and a refetch that
  brings equal data changes nothing (React Query shares the structure).  The random bytes, SHA-256, \<open>btoa\<close>,
  \<open>URLSearchParams\<close> and the origin of the page are parameters.
\<close>

section \<open>Data\<close>

record admin_user =
  au_id :: string
  au_name :: string
  au_role :: string
  au_status :: string
  au_last_login :: string
  au_created_at :: string

record user_response =
  ur_id :: string
  ur_username :: string
  ur_role :: string
  ur_status :: string
  ur_last_login :: string
  ur_created_at :: string

definition map_user :: "user_response \<Rightarrow> admin_user" where
  "map_user u = \<lparr>au_id = ur_id u, au_name = ur_username u, au_role = ur_role u, au_status = ur_status u,
     au_last_login = ur_last_login u, au_created_at = ur_created_at u\<rparr>"

record collector_config =
  cc_id :: string
  cc_name :: string
  cc_endpoint :: string
  cc_status :: string
  cc_heartbeat :: string

record collector_response =
  cr_id :: string
  cr_name :: string
  cr_endpoint :: string
  cr_status :: string
  cr_heartbeat :: string

definition map_collector :: "collector_response \<Rightarrow> collector_config" where
  "map_collector c = \<lparr>cc_id = cr_id c, cc_name = cr_name c, cc_endpoint = cr_endpoint c, cc_status = cr_status c,
     cc_heartbeat = cr_heartbeat c\<rparr>"

text \<open>The system settings are updated and spread by their keys, so they are the object itself.\<close>

type_synonym settings = "jsval jsobj"

record ioc_indicator =
  ioc_id :: string
  ioc_type :: string
  ioc_value :: string
  ioc_description :: "string option"
  ioc_source :: "string option"
  ioc_severity :: string
  ioc_created_by :: string
  ioc_created_at :: string

record tool_result =
  tr_ok :: bool
  tr_status :: string
  tr_path :: "string option"
  tr_found_count :: "int option"
  tr_total_count :: "int option"
  tr_dlls :: "(bool \<times> string) jsobj option"
  tr_detail :: "string option"
  tr_validated_at :: "string option"
  tr_version :: "string option"

record ai_provider_info =
  pr_id :: string
  pr_label :: string
  pr_default_model :: string
  pr_default_url :: string
  pr_has_oauth :: bool
  pr_key_link :: string
  pr_note :: string

definition ai_providers :: "ai_provider_info list" where
  "ai_providers = [
    \<lparr>pr_id = ''openai'', pr_label = ''OpenAI (ChatGPT)'', pr_default_model = ''gpt-4o-mini'',
      pr_default_url = ''https://api.openai.com/v1'', pr_has_oauth = False,
      pr_key_link = ''https://platform.openai.com/api-keys'', pr_note = ''API key from platform.openai.com''\<rparr>,
    \<lparr>pr_id = ''anthropic'', pr_label = ''Anthropic (Claude)'', pr_default_model = ''claude-sonnet-4-6'',
      pr_default_url = ''https://api.anthropic.com/v1'', pr_has_oauth = False,
      pr_key_link = ''https://console.anthropic.com/settings/keys'', pr_note = ''API key from console.anthropic.com''\<rparr>,
    \<lparr>pr_id = ''gemini'', pr_label = ''Google Gemini'', pr_default_model = ''gemini-2.0-flash'',
      pr_default_url = ''https://generativelanguage.googleapis.com/v1beta/openai'', pr_has_oauth = True,
      pr_key_link = ''https://aistudio.google.com/app/apikey'', pr_note = ''API key or connect via Google OAuth''\<rparr>,
    \<lparr>pr_id = ''openrouter'', pr_label = ''OpenRouter'', pr_default_model = ''openai/gpt-4o-mini'',
      pr_default_url = ''https://openrouter.ai/api/v1'', pr_has_oauth = False,
      pr_key_link = ''https://openrouter.ai/keys'', pr_note = ''API key from openrouter.ai''\<rparr>,
    \<lparr>pr_id = ''ollama'', pr_label = ''Ollama (Local)'', pr_default_model = ''llama3'',
      pr_default_url = ''http://localhost:11434/v1'', pr_has_oauth = False,
      pr_key_link = [], pr_note = ''No API key needed '' @ em_dash @ '' runs locally''\<rparr>]"

definition pw_strength :: "string \<Rightarrow> nat" where
  "pw_strength pw = (if pw = [] then 0
     else min 3 ((if 8 \<le> length pw then 1 else 0) + (if 12 \<le> length pw then 1 else 0) +
       (if list_ex (\<lambda>c. 65 \<le> code c \<and> code c \<le> 90) pw \<and> list_ex (\<lambda>c. 48 \<le> code c \<and> code c \<le> 57) pw then 1 else 0)))"

definition pw_label :: "nat \<Rightarrow> string" where
  "pw_label n = [[], ''WEAK'', ''MEDIUM'', ''STRONG''] ! n"

definition pw_color :: "nat \<Rightarrow> string" where
  "pw_color n = [[], ''bg-destructive'', ''bg-yellow-500'', ''bg-green-500''] ! n"

record ai_config =
  cfg_provider :: string
  cfg_model :: string
  cfg_api_url :: string
  cfg_key_set :: bool
  cfg_google_id :: string
  cfg_google_connected :: bool

datatype admin_body =
    NewAccount string string string string
  | AccountStatus string
  | AccountPatch string string "string option"
  | CollectorStatus string
  | SettingsBody settings
  | NewIoc string string "string option" string
  | Exchange string string string
  | EmptyBody

datatype admin_reply =
    AUsers "user_response list" | AUser user_response | ACollectors "collector_response list" | ACollector collector_response
  | ASettings "settings option" | AIocs "ioc_indicator list" | ATool tool_result | ATools "tool_result jsobj"
  | AConfig ai_config | AConnected bool | ADone

fun the_users where "the_users (AUsers x) = Some x" | "the_users _ = None"
fun the_user where "the_user (AUser x) = Some x" | "the_user _ = None"
fun the_collectors where "the_collectors (ACollectors x) = Some x" | "the_collectors _ = None"
fun the_collector where "the_collector (ACollector x) = Some x" | "the_collector _ = None"
fun the_settings where "the_settings (ASettings x) = Some x" | "the_settings _ = None"
fun the_saved where "the_saved (ASettings (Some x)) = Some x" | "the_saved _ = None"
fun the_iocs where "the_iocs (AIocs x) = Some x" | "the_iocs _ = None"
fun the_tool where "the_tool (ATool x) = Some x" | "the_tool _ = None"
fun the_tools where "the_tools (ATools x) = Some x" | "the_tools _ = None"
fun the_config where "the_config (AConfig x) = Some x" | "the_config _ = None"
fun the_connected where "the_connected (AConnected x) = Some x" | "the_connected _ = None"

record new_ioc =
  ni_type :: string
  ni_value :: string
  ni_description :: string
  ni_severity :: string

definition empty_ioc :: new_ioc where
  "empty_ioc = \<lparr>ni_type = ''ip'', ni_value = [], ni_description = [], ni_severity = ''high''\<rparr>"

section \<open>State\<close>

record admin_page =
  active_tab :: string
  ad_users :: "admin_user list"
  ad_collectors :: "collector_config list"
  system_settings :: "settings option"
  show_add_user :: bool
  new_user_name :: string
  new_user_password :: string
  new_user_role :: string
  edit_open :: bool
  editing_user :: "admin_user option"
  edit_role :: string
  edit_status :: string
  edit_password :: string
  show_edit_password :: bool
  confirm_delete_id :: "string option"
  show_new_password :: bool
  ad_error :: "string option"
  saving_settings :: bool
  saving_user :: bool
  refreshing_collectors :: bool
  ioc_indicators :: "ioc_indicator list"
  ioc_type_filter :: string
  ioc_total :: int
  draft_ioc :: new_ioc
  adding_ioc :: bool
  tool_status :: "tool_result jsobj option"
  verifying_tools :: bool
  validating_tool :: "string option"
  ai_provider :: string
  ai_model :: string
  ai_api_key :: string
  ai_api_url :: string
  ai_show_key :: bool
  google_show_secret :: bool
  google_client_id :: string
  google_client_secret :: string
  google_connected :: bool
  saving_ai :: bool
  connecting_google :: bool
  ai_message :: "(bool \<times> string) option"
  users_data :: "user_response list option"
  collectors_data :: "collector_response list option"
  settings_data :: "settings option option"
  ad_store :: browser

definition tab_ids :: "string list" where
  "tab_ids = [''users'', ''collectors'', ''system'', ''audit'', ''threatintel'', ''ai'']"

definition initial_tab :: "string option \<Rightarrow> string" where
  "initial_tab t = (case t of Some x \<Rightarrow> (if x \<in> set tab_ids then x else ''users'') | None \<Rightarrow> ''users'')"

definition initial_admin :: "string option \<Rightarrow> browser \<Rightarrow> admin_page" where
  "initial_admin tab b = \<lparr>active_tab = initial_tab tab, ad_users = [], ad_collectors = [], system_settings = None,
     show_add_user = False, new_user_name = [], new_user_password = [], new_user_role = ''operator'', edit_open = False,
     editing_user = None, edit_role = ''operator'', edit_status = ''active'', edit_password = [], show_edit_password = False,
     confirm_delete_id = None, show_new_password = False, ad_error = None, saving_settings = False, saving_user = False,
     refreshing_collectors = False, ioc_indicators = [], ioc_type_filter = ''all'', ioc_total = 0, draft_ioc = empty_ioc,
     adding_ioc = False, tool_status = None, verifying_tools = False, validating_tool = None, ai_provider = ''openai'',
     ai_model = [], ai_api_key = [], ai_api_url = [], ai_show_key = False, google_show_secret = False, google_client_id = [], google_client_secret = [],
     google_connected = False, saving_ai = False, connecting_google = False, ai_message = None, users_data = None,
     collectors_data = None, settings_data = None, ad_store = b\<rparr>"

type_synonym admin_io = "(admin_page, admin_reply, admin_body, unit) io"

definition set_error :: "string option \<Rightarrow> admin_io \<Rightarrow> admin_io" where
  "set_error e k = Update (\<lambda>s. s\<lparr>ad_error := e\<rparr>) k"

abbreviation fails_with :: "string \<Rightarrow> admin_io" where
  "fails_with e \<equiv> set_error (Some e) Done"

section \<open>The three queries\<close>

definition receive_users :: "user_response list \<Rightarrow> admin_page \<Rightarrow> admin_page" where
  "receive_users d s = (if users_data s = Some d then s
     else s\<lparr>users_data := Some d, ad_users := map map_user d, ad_error := None\<rparr>)"

definition receive_collectors :: "collector_response list \<Rightarrow> admin_page \<Rightarrow> admin_page" where
  "receive_collectors d s = (if collectors_data s = Some d then s
     else s\<lparr>collectors_data := Some d, ad_collectors := map map_collector d, ad_error := None\<rparr>)"

definition receive_settings :: "settings option \<Rightarrow> admin_page \<Rightarrow> admin_page" where
  "receive_settings d s = (if settings_data s = Some d then s
     else case d of None \<Rightarrow> s\<lparr>settings_data := Some None\<rparr>
       | Some x \<Rightarrow> s\<lparr>settings_data := Some (Some x), system_settings := Some x, ad_error := None\<rparr>)"

definition query_failed :: "admin_page \<Rightarrow> admin_page" where
  "query_failed s = s\<lparr>ad_error := Some ''Unable to load admin configuration.''\<rparr>"

definition refetch :: "string \<Rightarrow> (admin_reply \<Rightarrow> 'd option) \<Rightarrow> ('d \<Rightarrow> admin_page \<Rightarrow> admin_page) \<Rightarrow> admin_io \<Rightarrow> admin_io" where
  "refetch path sel receive k = Await (Request GET path None) (\<lambda>x.
     case Option.bind (case x of Inl e \<Rightarrow> None | Inr r \<Rightarrow> Some r) sel of
       Some d \<Rightarrow> Update (receive d) k | None \<Rightarrow> Update query_failed k)"

definition load_admin_data :: admin_io where
  "load_admin_data = set_error None
     (refetch ''/users'' the_users receive_users
     (refetch ''/collectors'' the_collectors receive_collectors
     (refetch ''/settings'' the_settings receive_settings Done)))"

definition enter_page :: "(jsval \<Rightarrow> int option) \<Rightarrow> int \<Rightarrow> admin_io" where
  "enter_page date_parse now = Read (\<lambda>s.
     if \<not> is_session_valid date_parse now (ad_store s) then Emit (Navigate ''/login'') Done
     else if get_stored_role (ad_store s) \<noteq> Some (JStr ''admin'') then Emit (Navigate ''/dashboard'') Done
     else load_admin_data)"

section \<open>User accounts\<close>

definition handle_add_user :: admin_io where
  "handle_add_user = Read (\<lambda>s0.
     if trim (new_user_name s0) = [] then fails_with ''Username is required.''
     else if trim (new_user_password s0) = [] then fails_with ''Password is required.''
     else tryCatch
       (apiPost ''/users'' (NewAccount (new_user_name s0) (new_user_role s0) ''active'' (new_user_password s0))
         (expect the_user (\<lambda>created.
           Update (\<lambda>s. s\<lparr>ad_users := ad_users s0 @ [map_user created]\<rparr>)
          (Update (\<lambda>s. s\<lparr>new_user_name := [], new_user_password := [], new_user_role := ''operator''\<rparr>)
          (Update (\<lambda>s. s\<lparr>show_add_user := False\<rparr>) Done)))))
       (\<lambda>_. fails_with ''Unable to add user.''))"

definition handle_delete_user :: "string \<Rightarrow> admin_io" where
  "handle_delete_user i = Read (\<lambda>s0.
     if confirm_delete_id s0 \<noteq> Some i then Update (\<lambda>s. s\<lparr>confirm_delete_id := Some i\<rparr>) Done
     else Update (\<lambda>s. s\<lparr>confirm_delete_id := None\<rparr>)
      (tryCatch
        (apiDelete (''/users/'' @ i) (\<lambda>_. Update (\<lambda>s. s\<lparr>ad_users := filter (\<lambda>u. au_id u \<noteq> i) (ad_users s0)\<rparr>) Done))
        (\<lambda>_. fails_with ''Unable to delete user.'')))"

definition handle_toggle_user_status :: "string \<Rightarrow> admin_io" where
  "handle_toggle_user_status i = Read (\<lambda>s0.
     case find (\<lambda>u. au_id u = i) (ad_users s0) of
       None \<Rightarrow> Done
     | Some t \<Rightarrow>
        let updated = t\<lparr>au_status := (if au_status t = ''active'' then ''locked'' else ''active'')\<rparr>
        in tryCatch
          (apiPatch (''/users/'' @ au_id updated) (AccountStatus (au_status updated))
            (\<lambda>_. Update (\<lambda>s. s\<lparr>ad_users := map (\<lambda>u. if au_id u = i then updated else u) (ad_users s0)\<rparr>) Done))
          (\<lambda>_. fails_with ''Unable to update user status.''))"

definition open_edit_dialog :: "admin_user \<Rightarrow> admin_page \<Rightarrow> admin_page" where
  "open_edit_dialog u s = s\<lparr>ad_error := None, editing_user := Some u, edit_role := au_role u, edit_status := au_status u,
     edit_password := [], show_edit_password := False, edit_open := True\<rparr>"

definition add_dialog_change :: "bool \<Rightarrow> admin_page \<Rightarrow> admin_page" where
  "add_dialog_change op s = (let s' = s\<lparr>show_add_user := op\<rparr> in if op then s'\<lparr>ad_error := None\<rparr> else s')"

definition edit_dialog_change :: "bool \<Rightarrow> admin_page \<Rightarrow> admin_page" where
  "edit_dialog_change op s = (let s' = s\<lparr>edit_open := op\<rparr> in if op then s' else s'\<lparr>editing_user := None\<rparr>)"

definition handle_save_user :: admin_io where
  "handle_save_user = Read (\<lambda>s0. case editing_user s0 of
     None \<Rightarrow> Done
   | Some u \<Rightarrow>
      Update (\<lambda>s. s\<lparr>saving_user := True\<rparr>)
     (set_error None
     (tryFinally
       (tryCatch
         (apiPatch (''/users/'' @ au_id u) (AccountPatch (edit_role s0) (edit_status s0)
             (if trim (edit_password s0) \<noteq> [] then Some (trim (edit_password s0)) else None))
           (expect the_user (\<lambda>updated.
             let mapped = map_user updated in
             Update (\<lambda>s. s\<lparr>ad_users := map (\<lambda>v. if au_id v = au_id mapped then mapped else v) (ad_users s0)\<rparr>)
            (Update (\<lambda>s. s\<lparr>edit_open := False, editing_user := None, edit_password := []\<rparr>) Done))))
         (\<lambda>_. fails_with ''Unable to update user.''))
       (Update (\<lambda>s. s\<lparr>saving_user := False\<rparr>) Done))))"

definition is_self_row :: "admin_page \<Rightarrow> admin_user \<Rightarrow> bool" where
  "is_self_row s u \<longleftrightarrow> (case get_stored_auth (ad_store s) of
     Some a \<Rightarrow> username a = JStr (au_name u) | None \<Rightarrow> au_name u = [])"

definition role_color :: "string \<Rightarrow> string option" where
  "role_color r = (if r = ''admin'' then Some ''text-destructive border-destructive/30 bg-destructive/10''
     else if r = ''operator'' then Some ''text-primary border-primary/30 bg-primary/10''
     else if r = ''viewer'' then Some ''text-muted-foreground border-border bg-secondary'' else None)"

definition user_indicator :: "string \<Rightarrow> (string \<times> string) option" where
  "user_indicator st = (if st = ''active'' then Some (''online'', ''ACTIVE'')
     else if st = ''inactive'' then Some (''offline'', ''INACTIVE'')
     else if st = ''locked'' then Some (''pending'', ''LOCKED'') else None)"

text \<open>A row of the table and its two buttons; \<open>day\<close> is \<open>toLocaleDateString\<close> of a date.\<close>

record user_row =
  row_you :: bool
  row_role_class :: "string option"
  row_indicator :: "(string \<times> string) option"
  row_last_login :: string
  row_toggle :: "bool \<times> string"
  row_delete :: "bool \<times> string"
  row_confirm :: bool

definition user_row_of :: "(string \<Rightarrow> string) \<Rightarrow> admin_page \<Rightarrow> admin_user \<Rightarrow> user_row" where
  "user_row_of day s u = \<lparr>row_you = is_self_row s u, row_role_class = role_color (au_role u), row_indicator = user_indicator (au_status u),
     row_last_login = (if au_last_login u = ''-'' then ''-'' else day (au_last_login u)),
     row_toggle = (\<not> is_self_row s u, if au_status u = ''active'' then ''Lock User'' else ''Unlock User''),
     row_delete = (\<not> is_self_row s u,
       if confirm_delete_id s = Some (au_id u) then ''Click again to confirm deletion'' else ''Delete User''),
     row_confirm = (confirm_delete_id s = Some (au_id u))\<rparr>"

definition toggle_clicked :: "admin_user \<Rightarrow> admin_io" where
  "toggle_clicked u = Read (\<lambda>s. if is_self_row s u then Done else handle_toggle_user_status (au_id u))"

definition delete_clicked :: "admin_user \<Rightarrow> admin_io" where
  "delete_clicked u = Read (\<lambda>s. if is_self_row s u then Done else handle_delete_user (au_id u))"

definition cancel_delete :: "admin_page \<Rightarrow> admin_page" where
  "cancel_delete s = s\<lparr>confirm_delete_id := None\<rparr>"

section \<open>Collectors\<close>

definition collector_panel :: "(string \<Rightarrow> string) \<Rightarrow> collector_config \<Rightarrow> string \<times> string \<times> (string \<times> string) list \<times> string" where
  "collector_panel time c = (cc_name c, (if cc_status c = ''online'' then ''online'' else ''offline''),
     [(''ID:'', cc_id c), (''ENDPOINT:'', cc_endpoint c), (''LAST HEARTBEAT:'', time (cc_heartbeat c))],
     (if cc_status c = ''online'' then ''DISABLE'' else ''ENABLE''))"

definition refresh_collectors :: admin_io where
  "refresh_collectors = Update (\<lambda>s. s\<lparr>refreshing_collectors := True\<rparr>)
     (set_error None
     (tryFinally
       (tryCatch
         (apiGet ''/collectors'' (expect the_collectors (\<lambda>cs.
            Update (\<lambda>s. s\<lparr>ad_collectors := map map_collector cs\<rparr>) Done)))
         (\<lambda>_. fails_with ''Unable to refresh collector status.''))
       (Update (\<lambda>s. s\<lparr>refreshing_collectors := False\<rparr>) Done)))"

definition toggle_collector :: "collector_config \<Rightarrow> admin_io" where
  "toggle_collector c = set_error None
     (tryCatch
       (apiPatch (''/collectors/'' @ cc_id c)
          (CollectorStatus (if cc_status c = ''online'' then ''maintenance'' else ''online''))
          (expect the_collector (\<lambda>updated.
            Update (\<lambda>s. s\<lparr>ad_collectors := map (\<lambda>x. if cc_id x = cc_id c then map_collector updated else x) (ad_collectors s)\<rparr>) Done)))
       (\<lambda>_. fails_with ''Unable to update collector status.''))"

section \<open>System settings and tools\<close>

text \<open>Every input of the tab replaces one key of the settings, if they are loaded; an empty text is \<open>null\<close>.\<close>

definition set_setting :: "string \<Rightarrow> jsval \<Rightarrow> admin_page \<Rightarrow> admin_page" where
  "set_setting field v s = s\<lparr>system_settings := map_option (obj_put field v) (system_settings s)\<rparr>"

definition set_number_setting :: "string \<Rightarrow> int \<Rightarrow> admin_page \<Rightarrow> admin_page" where
  "set_number_setting field n = set_setting field (JNum n)"

definition text_or_null :: "string \<Rightarrow> jsval" where
  "text_or_null t = (if t = [] then JNull else JStr t)"

definition set_text_setting :: "string \<Rightarrow> string \<Rightarrow> admin_page \<Rightarrow> admin_page" where
  "set_text_setting field t = set_setting field (text_or_null t)"

definition set_auto_process :: "bool \<Rightarrow> admin_page \<Rightarrow> admin_page" where
  "set_auto_process b = set_setting ''auto_process'' (JBool b)"

definition number_fields :: "string list" where
  "number_fields = [''max_file_size_gb'', ''collection_timeout_min'', ''max_concurrent_jobs'', ''retry_attempts'',
     ''session_timeout_min'', ''max_failed_logins'', ''log_retention_days'']"

definition handle_save_settings :: admin_io where
  "handle_save_settings = Read (\<lambda>s0. case system_settings s0 of
     None \<Rightarrow> Done
   | Some cfg \<Rightarrow>
      Update (\<lambda>s. s\<lparr>saving_settings := True\<rparr>)
     (set_error None
     (tryFinally
       (tryCatch
         (apiPut ''/settings'' (SettingsBody cfg) (expect the_saved (\<lambda>updated.
            Update (\<lambda>s. s\<lparr>system_settings := Some updated\<rparr>) load_admin_data)))
         (\<lambda>_. fails_with ''Unable to save system settings.''))
       (Update (\<lambda>s. s\<lparr>saving_settings := False\<rparr>) Done))))"

record tool_row =
  tool_key :: string
  tool_label :: string
  tool_field :: string
  tool_placeholder :: string

definition tool_rows :: "tool_row list" where
  "tool_rows = [
    \<lparr>tool_key = ''ez_tools'', tool_label = ''EZ Tools Directory'', tool_field = ''ez_tools_path'', tool_placeholder = ''/opt/eztools''\<rparr>,
    \<lparr>tool_key = ''chainsaw'', tool_label = ''Chainsaw Binary'', tool_field = ''chainsaw_path'', tool_placeholder = ''/opt/chainsaw/chainsaw''\<rparr>,
    \<lparr>tool_key = ''hayabusa'', tool_label = ''Hayabusa Binary'', tool_field = ''hayabusa_path'', tool_placeholder = ''/opt/hayabusa/hayabusa''\<rparr>,
    \<lparr>tool_key = ''sigma_rules'', tool_label = ''Sigma Rules Directory'', tool_field = ''sigma_rules_path'', tool_placeholder = ''/opt/sigma-rules''\<rparr>,
    \<lparr>tool_key = ''yara_rules'', tool_label = ''YARA Rules Directory'', tool_field = ''yara_rules_path'', tool_placeholder = ''/opt/yara-rules''\<rparr>]"

definition validate_tool :: "tool_row \<Rightarrow> admin_io" where
  "validate_tool t = Update (\<lambda>s. s\<lparr>validating_tool := Some (tool_key t)\<rparr>)
     (tryFinally
       (tryCatch
         (apiPost (''/settings/verify-tools/'' @ tool_key t) EmptyBody (expect the_tool (\<lambda>r.
            Update (\<lambda>s. s\<lparr>tool_status := Some (obj_put (tool_key t) r (case tool_status s of Some x \<Rightarrow> x | None \<Rightarrow> []))\<rparr>) Done)))
         (\<lambda>_. fails_with (''Failed to validate '' @ tool_label t @ ''.'')))
       (Update (\<lambda>s. s\<lparr>validating_tool := None\<rparr>) Done))"

definition verify_all_tools :: admin_io where
  "verify_all_tools = Update (\<lambda>s. s\<lparr>verifying_tools := True\<rparr>)
     (tryFinally
       (tryCatch
         (apiPost ''/settings/verify-tools'' EmptyBody (expect the_tools (\<lambda>r.
            Update (\<lambda>s. s\<lparr>tool_status := Some r\<rparr>) Done)))
         (\<lambda>_. fails_with ''Failed to verify tools.''))
       (Update (\<lambda>s. s\<lparr>verifying_tools := False\<rparr>) Done))"

definition tools_health :: "tool_result jsobj \<Rightarrow> string" where
  "tools_health ts = (let rs = map snd ts
     in if list_all (\<lambda>t. tr_status t = ''not_configured'') rs then ''NOT CONFIGURED''
        else if list_all tr_ok rs then ''HEALTHY'' else if list_ex tr_ok rs then ''PARTIAL'' else ''BROKEN'')"

definition tools_ready :: "tool_result jsobj \<Rightarrow> string" where
  "tools_ready ts = nat_str (length (filter tr_ok (map snd ts))) @ ''/'' @ nat_str (length ts) @ '' TOOLS READY''"

definition health_color :: "string \<Rightarrow> string" where
  "health_color h = (if h = ''HEALTHY'' then ''text-green-400 border-green-500/30 bg-green-500/5''
     else if h = ''PARTIAL'' then ''text-yellow-400 border-yellow-500/30 bg-yellow-500/5''
     else if h = ''BROKEN'' then ''text-red-400 border-red-500/30 bg-red-500/5''
     else ''text-muted-foreground border-border bg-secondary/10'')"

text \<open>A count that is absent prints as \<open>undefined\<close>.\<close>

definition count_text :: "int option \<Rightarrow> string" where
  "count_text n = (case n of Some x \<Rightarrow> int_str x | None \<Rightarrow> ''undefined'')"

definition tool_badge :: "string \<Rightarrow> tool_result \<Rightarrow> string" where
  "tool_badge key t = (if tr_ok t
     then (if key = ''ez_tools'' \<and> tr_found_count t \<noteq> None
       then count_text (tr_found_count t) @ ''/'' @ count_text (tr_total_count t) @ '' FOUND'' else ''DETECTED'')
     else if tr_status t = ''not_configured'' then ''NOT CONFIGURED''
     else if tr_status t = ''not_executable'' then ''NOT EXECUTABLE''
     else if tr_status t = ''compile_error'' then ''YARA COMPILE ERROR''
     else if tr_status t = ''no_dlls_found'' then ''DIR FOUND '' @ em_dash @ '' NO DLLs''
     else if tr_status t = ''partial'' then ''PARTIAL'' else ''NOT FOUND'')"

definition validate_enabled :: "admin_page \<Rightarrow> tool_row \<Rightarrow> bool" where
  "validate_enabled s t \<longleftrightarrow> validating_tool s \<noteq> Some (tool_key t) \<and> \<not> verifying_tools s"

definition verify_all_enabled :: "admin_page \<Rightarrow> bool" where
  "verify_all_enabled s \<longleftrightarrow> \<not> verifying_tools s \<and> validating_tool s = None"

section \<open>One's own account\<close>

text \<open>
  The buttons of the table spare the account of the user who is logged in; the edit dialog does not: it sends the
  role and the status it was given for that account too.
\<close>

lemma own_row_inert:
  "is_self_row s u \<Longrightarrow> requests_of srv yes (toggle_clicked u) w s = [] \<and> requests_of srv yes (delete_clicked u) w s = []"
  by (simp add: toggle_clicked_def delete_clicked_def)

lemma edit_dialog_reaches_self:
  "hd (requests_of srv yes handle_save_user w ((open_edit_dialog u s)\<lparr>edit_role := r, edit_status := st\<rparr>))
     = Request PATCH (''/users/'' @ au_id u) (Some (AccountPatch r st None))"
  by (simp add: handle_save_user_def open_edit_dialog_def set_error_def io_simps trim_def)

end
