(* ===== verification/AiConfig.thy ===== *)
theory AiConfig
  imports AdminSettings
begin

text \<open>
  \<open>pages/AdminSettings.tsx\<close>, continued: the indicators, the AI provider and the OAuth flow with Google.
  \<open>settings_server\<close> is what the page relies on of the backend's settings endpoints
  (\<open>app/schemas/settings.py\<close>, \<open>app/crud/settings.py\<close>): secrets are masked when they are read, and a
  \<open>PUT\<close> writes every field of its body.
\<close>

section \<open>Indicators\<close>

definition ioc_path :: "string \<Rightarrow> string" where
  "ioc_path f = ''/processing/ioc/indicators?limit=200&offset=0'' @ (if f \<noteq> ''all'' then ''&ioc_type='' @ f else [])"

text \<open>The callback closes over the filter \<open>f\<close> of the render that made it.\<close>

definition load_ioc_indicators :: "string \<Rightarrow> admin_io" where
  "load_ioc_indicators f = set_error None
     (tryCatch
       (apiGet (ioc_path f) (expect the_iocs (\<lambda>d.
          Update (\<lambda>s. s\<lparr>ioc_indicators := d\<rparr>) (Update (\<lambda>s. s\<lparr>ioc_total := int (length d)\<rparr>) Done))))
       (\<lambda>_. fails_with ''Unable to load IOC indicators.''))"

definition set_ioc_filter :: "string \<Rightarrow> admin_io" where
  "set_ioc_filter t = Update (\<lambda>s. s\<lparr>ioc_type_filter := t\<rparr>) (load_ioc_indicators t)"

definition set_draft_ioc :: "(new_ioc \<Rightarrow> new_ioc) \<Rightarrow> admin_page \<Rightarrow> admin_page" where
  "set_draft_ioc f s = s\<lparr>draft_ioc := f (draft_ioc s)\<rparr>"

definition handle_add_ioc :: admin_io where
  "handle_add_ioc = Read (\<lambda>s0. let n = draft_ioc s0 in
     if trim (ni_value n) = [] then fails_with ''IOC value is required.''
     else Update (\<lambda>s. s\<lparr>adding_ioc := True\<rparr>)
      (set_error None
      (tryFinally
        (tryCatch
          (apiPost ''/processing/ioc/indicators''
             (NewIoc (ni_type n) (trim (ni_value n))
               (if trim (ni_description n) = [] then None else Some (trim (ni_description n))) (ni_severity n))
             (\<lambda>_. Update (\<lambda>s. s\<lparr>draft_ioc := empty_ioc\<rparr>) (load_ioc_indicators (ioc_type_filter s0))))
          (\<lambda>_. fails_with ''Unable to add IOC indicator.''))
        (Update (\<lambda>s. s\<lparr>adding_ioc := False\<rparr>) Done))))"

definition handle_delete_ioc :: "string \<Rightarrow> admin_io" where
  "handle_delete_ioc i = set_error None
     (tryCatch
       (apiDelete (''/processing/ioc/indicators/'' @ i) (\<lambda>_.
          Update (\<lambda>s. s\<lparr>ioc_indicators := filter (\<lambda>x. ioc_id x \<noteq> i) (ioc_indicators s)\<rparr>)
         (Update (\<lambda>s. s\<lparr>ioc_total := ioc_total s - 1\<rparr>) Done)))
       (\<lambda>_. fails_with ''Unable to delete IOC indicator.''))"

definition ioc_types :: "string list" where
  "ioc_types = [''ip'', ''domain'', ''sha256'', ''md5'', ''sha1'']"

definition severities :: "string list" where
  "severities = [''critical'', ''high'', ''medium'', ''low'']"

definition severity_class :: "string \<Rightarrow> string" where
  "severity_class v = (if v = ''critical'' then ''text-red-400 border-red-400/30 bg-red-400/10''
     else if v = ''high'' then ''text-orange-400 border-orange-400/30 bg-orange-400/10''
     else if v = ''medium'' then ''text-yellow-400 border-yellow-400/30 bg-yellow-400/10''
     else ''text-blue-400 border-blue-400/30 bg-blue-400/10'')"

definition ioc_cells :: "ioc_indicator \<Rightarrow> string list" where
  "ioc_cells i = [to_upper (ioc_type i), ioc_value i, (case ioc_description i of Some d \<Rightarrow> d | None \<Rightarrow> em_dash),
     to_upper (ioc_severity i), ioc_created_by i]"

section \<open>The AI provider\<close>

definition secret_mask :: string where
  "secret_mask = ''***''"

definition or_text :: "string \<Rightarrow> string \<Rightarrow> string" where
  "or_text a b = (if a \<noteq> [] then a else b)"

definition load_ai_config :: admin_io where
  "load_ai_config = Read (\<lambda>s0. if active_tab s0 \<noteq> ''ai'' then Done
     else tryCatch
       (apiGet ''/ai/config'' (expect the_config (\<lambda>cfg.
          Update (\<lambda>s. s\<lparr>ai_provider := or_text (cfg_provider cfg) ''openai''\<rparr>)
         (Update (\<lambda>s. s\<lparr>ai_model := cfg_model cfg, ai_api_url := cfg_api_url cfg, google_client_id := cfg_google_id cfg,
              google_connected := cfg_google_connected cfg\<rparr>)
         (if cfg_key_set cfg then Update (\<lambda>s. s\<lparr>ai_api_key := secret_mask\<rparr>) Done else Done)))))
       (\<lambda>_. Done))"

definition choose_provider :: "ai_provider_info \<Rightarrow> admin_page \<Rightarrow> admin_page" where
  "choose_provider p s = s\<lparr>ai_provider := pr_id p, ai_model := pr_default_model p, ai_api_url := pr_default_url p,
     ai_message := None\<rparr>"

definition typed_secret :: "string \<Rightarrow> bool" where
  "typed_secret k \<longleftrightarrow> k \<noteq> [] \<and> k \<noteq> secret_mask"

definition ai_body :: "admin_page \<Rightarrow> settings" where
  "ai_body s =
     (let p = find (\<lambda>p. pr_id p = ai_provider s) ai_providers
      in [(''ai_provider'', JStr (ai_provider s)),
          (''ai_model'', JStr (or_text (ai_model s) (case p of Some x \<Rightarrow> pr_default_model x | None \<Rightarrow> []))),
          (''ai_api_url'', JStr (or_text (ai_api_url s) (case p of Some x \<Rightarrow> pr_default_url x | None \<Rightarrow> []))),
          (''google_oauth_client_id'', text_or_null (google_client_id s))] @
         (if typed_secret (ai_api_key s) then [(''ai_api_key'', JStr (ai_api_key s))] else []) @
         (if typed_secret (google_client_secret s) then [(''google_oauth_client_secret'', JStr (google_client_secret s))] else []))"

text \<open>\<open>{ ...a, ...b }\<close>.\<close>

definition spread_over :: "settings \<Rightarrow> settings \<Rightarrow> settings" where
  "spread_over a b = fold (\<lambda>(k, v). obj_put k v) b a"

definition settings_of :: "settings option \<Rightarrow> settings" where
  "settings_of t = (case t of Some x \<Rightarrow> x | None \<Rightarrow> [])"

definition handle_save_ai_config :: admin_io where
  "handle_save_ai_config = Read (\<lambda>s0.
     Update (\<lambda>s. s\<lparr>saving_ai := True\<rparr>)
    (Update (\<lambda>s. s\<lparr>ai_message := None\<rparr>)
    (tryFinally
      (tryCatch
        (apiPut ''/settings'' (SettingsBody (spread_over (settings_of (system_settings s0)) (ai_body s0))) (\<lambda>_.
           Update (\<lambda>s. s\<lparr>ai_message := Some (True, ''AI configuration saved.'')\<rparr>)
          (Update (\<lambda>s. if typed_secret (ai_api_key s0) then s\<lparr>ai_api_key := secret_mask\<rparr> else s)
          (Update (\<lambda>s. if typed_secret (google_client_secret s0) then s\<lparr>google_client_secret := secret_mask\<rparr> else s) Done))))
        (\<lambda>err. Update (\<lambda>s. s\<lparr>ai_message := Some (False, case err of NonError \<Rightarrow> ''Save failed'' | _ \<Rightarrow> take 200 (message_or [] err))\<rparr>) Done))
      (Update (\<lambda>s. s\<lparr>saving_ai := False\<rparr>) Done))))"

section \<open>OAuth with Google\<close>

text \<open>URL-safe base64 without padding of a text of bytes.\<close>

definition base64_url :: "(string \<Rightarrow> string) \<Rightarrow> string \<Rightarrow> string" where
  "base64_url btoa x = filter (\<lambda>c. c \<noteq> CHR ''='') (map (\<lambda>c. if c = CHR ''/'' then CHR ''_'' else c)
     (map (\<lambda>c. if c = CHR ''+'' then CHR ''-'' else c) (btoa x)))"

definition pkce_pair :: "(string \<Rightarrow> string) \<Rightarrow> (string \<Rightarrow> string) \<Rightarrow> string \<Rightarrow> string \<times> string" where
  "pkce_pair btoa sha256 random = (let verifier = base64_url btoa random
     in (verifier, base64_url btoa (sha256 verifier)))"

definition google_auth_params :: "string \<Rightarrow> string \<Rightarrow> string \<Rightarrow> (string \<times> string) list" where
  "google_auth_params client redirect challenge = [(''client_id'', client), (''redirect_uri'', redirect),
     (''response_type'', ''code''), (''scope'', ''https://www.googleapis.com/auth/generative-language''),
     (''access_type'', ''offline''), (''prompt'', ''consent''), (''code_challenge'', challenge),
     (''code_challenge_method'', ''S256''), (''state'', ''google_oauth_gemini'')]"

definition handle_google_connect :: "(string \<Rightarrow> string) \<Rightarrow> (string \<Rightarrow> string) \<Rightarrow> ((string \<times> string) list \<Rightarrow> string)
    \<Rightarrow> string \<Rightarrow> string \<Rightarrow> admin_io" where
  "handle_google_connect btoa sha256 search_params origin random = Read (\<lambda>s0.
     if google_client_id s0 = [] then Update (\<lambda>s. s\<lparr>ai_message := Some (False, ''Enter your Google OAuth Client ID first.'')\<rparr>) Done
     else let (verifier, challenge) = pkce_pair btoa sha256 random; redirect = origin @ ''/admin/settings''
       in Update (\<lambda>s. s\<lparr>ad_store := session_put ''google_pkce_verifier'' verifier (ad_store s)\<rparr>)
         (Update (\<lambda>s. s\<lparr>ad_store := session_put ''google_oauth_redirect_uri'' redirect (ad_store s)\<rparr>)
         (Emit (OpenWindow (''https://accounts.google.com/o/oauth2/v2/auth?'' @
            search_params (google_auth_params (google_client_id s0) redirect challenge))) Done)))"

text \<open>The effect that runs once, when the page is entered.\<close>

definition oauth_callback :: "string option \<Rightarrow> string option \<Rightarrow> admin_io" where
  "oauth_callback auth_code state = Read (\<lambda>s0.
     case (auth_code, session_get (ad_store s0) ''google_pkce_verifier'', session_get (ad_store s0) ''google_oauth_redirect_uri'') of
       (Some c, Some verifier, Some redirect) \<Rightarrow>
         if c = [] \<or> state \<noteq> Some ''google_oauth_gemini'' \<or> verifier = [] \<or> redirect = [] then Done
         else Update (\<lambda>s. s\<lparr>active_tab := ''ai''\<rparr>)
          (Update (\<lambda>s. s\<lparr>connecting_google := True\<rparr>)
          (tryFinally
            (tryCatch
              (apiPost ''/ai/oauth/google/exchange'' (Exchange c redirect verifier) (expect the_connected (\<lambda>ok.
                 Update (\<lambda>s. s\<lparr>google_connected := ok\<rparr>)
                (Update (\<lambda>s. s\<lparr>ai_message := Some (True, ''Google account connected successfully.'')\<rparr>)
                (Update (\<lambda>s. s\<lparr>ad_store := session_remove ''google_oauth_redirect_uri''
                    (session_remove ''google_pkce_verifier'' (ad_store s))\<rparr>)
                (Update (\<lambda>s. s\<lparr>ad_store := assign_location (pathname (ad_store s)) [] (ad_store s)\<rparr>) Done))))))
              (\<lambda>err. Update (\<lambda>s. s\<lparr>ai_message := Some (False, ''OAuth failed: '' @
                 (case err of NonError \<Rightarrow> ''Unknown error'' | _ \<Rightarrow> take 150 (message_or [] err)))\<rparr>) Done))
            (Update (\<lambda>s. s\<lparr>connecting_google := False\<rparr>) Done)))
     | _ \<Rightarrow> Done)"

definition handle_google_disconnect :: admin_io where
  "handle_google_disconnect = tryCatch
     (apiDelete ''/ai/oauth/google/disconnect'' (\<lambda>_.
        Update (\<lambda>s. s\<lparr>google_connected := False\<rparr>)
       (Update (\<lambda>s. s\<lparr>ai_message := Some (True, ''Google account disconnected.'')\<rparr>) Done)))
     (\<lambda>_. Update (\<lambda>s. s\<lparr>ai_message := Some (False, ''Failed to disconnect.'')\<rparr>) Done)"

section \<open>The settings endpoints\<close>

definition secret_fields :: "string list" where
  "secret_fields = [''timesketch_token'', ''s3_secret_key'', ''webhook_secret'', ''ai_api_key'',
     ''google_oauth_client_secret'', ''google_oauth_refresh_token'']"

definition mask_secrets :: "settings \<Rightarrow> settings" where
  "mask_secrets w = map (\<lambda>(k, v). (k, if k \<in> set secret_fields
     then (if truthy (Some v) then JStr secret_mask else JNull) else v)) w"

text \<open>
  \<open>model_dump()\<close> of the validated body has every field of the schema: an optional field that the body leaves
  out is there with its default.  \<open>accepts\<close> is the validation, \<open>others\<close> the other endpoints.
\<close>

definition settings_defaults :: settings where
  "settings_defaults = map (\<lambda>k. (k, JNull)) [''ez_tools_path'', ''chainsaw_path'', ''hayabusa_path'', ''sigma_rules_path'',
       ''yara_rules_path'', ''timesketch_url'', ''timesketch_token''] @
     [(''auto_process'', JBool True)] @
     map (\<lambda>k. (k, JNull)) [''webhook_url'', ''webhook_secret'', ''notification_email'', ''agent_binary_path''] @
     [(''s3_enabled'', JBool False)] @
     map (\<lambda>k. (k, JNull)) [''s3_endpoint_url'', ''s3_access_key'', ''s3_secret_key'', ''s3_bucket'', ''s3_region'', ''ai_provider'',
       ''ai_model'', ''ai_api_key'', ''ai_api_url'', ''google_oauth_client_id'', ''google_oauth_client_secret'',
       ''google_oauth_refresh_token'']"

definition upsert_settings :: "settings \<Rightarrow> settings \<Rightarrow> settings" where
  "upsert_settings w b = spread_over w (spread_over settings_defaults b)"

definition settings_server :: "(settings \<Rightarrow> bool) \<Rightarrow> (admin_body request \<Rightarrow> jserr + admin_reply)
    \<Rightarrow> (settings, admin_reply, admin_body) server" where
  "settings_server accepts others w rq =
     (if rq = Request GET ''/settings'' None then (Inr (ASettings (Some (mask_secrets w))), w)
      else case rq of
        Request PUT p (Some (SettingsBody b)) \<Rightarrow>
          (if p \<noteq> ''/settings'' then (others rq, w)
           else if \<not> accepts b then (Inl (Error ''400''), w)
           else (Inr (ASettings (Some (mask_secrets (upsert_settings w b)))), upsert_settings w b))
      | _ \<Rightarrow> (others rq, w))"

section \<open>Lemmas\<close>

lemma map_of_spread_over:
  "distinct (map fst b) \<Longrightarrow> map_of (spread_over a b) k = (case map_of b k of Some v \<Rightarrow> Some v | None \<Rightarrow> map_of a k)"
proof (induction b arbitrary: a)
  case (Cons kv b)
  have "map_of b (fst kv) = None"
    using Cons.prems by (simp add: map_of_eq_None_iff)
  then show ?case
    using Cons by (cases kv) (simp add: spread_over_def split: option.split)
qed (simp add: spread_over_def)

lemma distinct_spread_over: "distinct (map fst a) \<Longrightarrow> distinct (map fst (spread_over a b))"
  by (induction b arbitrary: a) (auto simp: spread_over_def distinct_obj_put)

lemma map_of_mask:
  "map_of (mask_secrets w) k = map_option (\<lambda>v. if k \<in> set secret_fields
     then (if truthy (Some v) then JStr secret_mask else JNull) else v) (map_of w k)"
  by (induction w) (auto simp: mask_secrets_def)

lemma keys_mask [simp]: "map fst (mask_secrets w) = map fst w"
  by (simp add: mask_secrets_def comp_def split_def)

lemma distinct_ai_body [simp]: "distinct (map fst (ai_body s))"
  by (simp add: ai_body_def Let_def)

lemma distinct_settings_defaults: "distinct (map fst settings_defaults)"
  by (simp add: settings_defaults_def)

text \<open>A field that the body has is written; this is all that \<open>PUT\<close> promises about it.\<close>

lemma upsert_written:
  assumes "distinct (map fst b)" "map_of b k = Some v"
  shows "map_of (upsert_settings w b) k = Some v"
  by (simp add: upsert_settings_def map_of_spread_over distinct_spread_over distinct_settings_defaults assms)

text \<open>What the page holds after it is loaded: the masked settings.\<close>

lemma loaded_settings:
  "settings_data s = None \<Longrightarrow>
   system_settings (final_state (settings_server accepts others) yes load_admin_data w s) = Some (mask_secrets w)"
  by (auto simp: load_admin_data_def refetch_def set_error_def settings_server_def receive_settings_def receive_users_def
      receive_collectors_def query_failed_def split: sum.split option.split bind_split)

lemma save_settings_world:
  assumes "system_settings s = Some cfg" "accepts cfg"
  shows "final_world (settings_server accepts others) yes handle_save_settings w s = upsert_settings w cfg"
  using assms
  by (auto simp: handle_save_settings_def load_admin_data_def refetch_def set_error_def settings_server_def io_simps
      split: sum.split option.split Option.bind_split)

lemma save_ai_world:
  assumes "accepts (spread_over (settings_of (system_settings s)) (ai_body s))"
  shows "final_world (settings_server accepts others) yes handle_save_ai_config w s
     = upsert_settings w (spread_over (settings_of (system_settings s)) (ai_body s))"
  using assms
  by (simp add: handle_save_ai_config_def settings_server_def io_simps)

section \<open>Theorems\<close>

definition sample_stored :: settings where
  "sample_stored = [(''id'', JStr ''1''), (''ai_provider'', JStr ''openai''), (''ai_api_key'', JStr ''sk-1''), (''webhook_secret'', JNull)]"

definition admin_elsewhere :: "admin_body request \<Rightarrow> jserr + admin_reply" where
  "admin_elsewhere rq = (if req_path rq = ''/users'' then Inr (AUsers []) else if req_path rq = ''/collectors'' then Inr (ACollectors [])
     else Inl NonError)"

text \<open>C1.  The settings are read with their secrets masked and written back whole: after the page is loaded,
  SAVE CONFIGURATION with nothing edited replaces every stored secret by the mask, whatever else the server
  answers.
\<close>

theorem save_overwrites_secrets:
  assumes "distinct (map fst w)" "map_of w k = Some v" "k \<in> set secret_fields" "truthy (Some v)"
    and "accepts (mask_secrets w)"
    and "page = final_state (settings_server accepts others) yes load_admin_data w (initial_admin tab b)"
  shows "map_of (final_world (settings_server accepts others) yes handle_save_settings w page) k = Some (JStr secret_mask)"
proof -
  have "system_settings page = Some (mask_secrets w)"
    by (simp add: assms(6) loaded_settings initial_admin_def)
  then show ?thesis
    using assms(1-5) by (simp add: save_settings_world upsert_written map_of_mask)
qed

lemma save_overwrites_secrets_witness:
  "map_of (final_world (settings_server (\<lambda>_. True) admin_elsewhere) True handle_save_settings sample_stored
     (final_state (settings_server (\<lambda>_. True) admin_elsewhere) True load_admin_data sample_stored (initial_admin None sample_browser)))
     ''ai_api_key'' = Some (JStr ''***'')"
  using save_overwrites_secrets [of sample_stored "''ai_api_key''" "JStr ''sk-1''" "\<lambda>_. True" _ admin_elsewhere True None sample_browser]
  by (simp add: sample_stored_def secret_fields_def truthy_def secret_mask_def)

text \<open> Saving the AI configuration writes a key that was typed, and only such a key reaches the request from
  the field; but the masked settings are spread below it, so without one the stored key becomes the mask.
\<close>

theorem ai_save_key:
  assumes "distinct (map fst w)" "map_of w ''ai_api_key'' = Some v" "truthy (Some v)"
    and "system_settings page = Some (mask_secrets w)"
    and "accepts (spread_over (mask_secrets w) (ai_body page))"
  shows "map_of (final_world (settings_server accepts others) yes handle_save_ai_config w page) ''ai_api_key''
     = Some (JStr (if typed_secret (ai_api_key page) then ai_api_key page else secret_mask))"
proof -
  have b: "map_of (ai_body page) ''ai_api_key'' = (if typed_secret (ai_api_key page) then Some (JStr (ai_api_key page)) else None)"
    by (simp add: ai_body_def Let_def)
  have "map_of (spread_over (mask_secrets w) (ai_body page)) ''ai_api_key''
      = Some (JStr (if typed_secret (ai_api_key page) then ai_api_key page else secret_mask))"
    using assms(2,3) by (simp add: map_of_spread_over b map_of_mask secret_fields_def)
  then show ?thesis
    using assms(1,4,5) by (simp add: save_ai_world settings_of_def upsert_written distinct_spread_over)
qed

definition typed_page :: "string \<Rightarrow> admin_page" where
  "typed_page key = (initial_admin None sample_browser)\<lparr>system_settings := Some (mask_secrets sample_stored), ai_api_key := key\<rparr>"

lemma ai_save_key_witness:
  "map_of (final_world (settings_server (\<lambda>_. True) admin_elsewhere) True handle_save_ai_config sample_stored (typed_page ''sk-2''))
      ''ai_api_key'' = Some (JStr ''sk-2'')
   \<and> map_of (final_world (settings_server (\<lambda>_. True) admin_elsewhere) True handle_save_ai_config sample_stored (typed_page ''***''))
      ''ai_api_key'' = Some (JStr ''***'')"
  using ai_save_key [of sample_stored "JStr ''sk-1''" "typed_page ''sk-2''" "\<lambda>_. True" admin_elsewhere True]
    ai_save_key [of sample_stored "JStr ''sk-1''" "typed_page ''***''" "\<lambda>_. True" admin_elsewhere True]
  by (simp add: sample_stored_def typed_page_def typed_secret_def secret_mask_def truthy_def)

text \<open> The OAuth round trip: the code that Google sends back to the page is exchanged, in one request, together
  with the very verifier whose hash went out as the challenge and with the same redirect address, and on success the
  stored verifier is gone.
\<close>

theorem oauth_round_trip:
  assumes "google_client_id s \<noteq> []" "c \<noteq> []" "base64_url btoa random \<noteq> []"
    and "left = final_state srv yes (handle_google_connect btoa sha256 search_params origin random) w s"
    and "back = initial_admin None (ad_store left)"
    and "\<And>rq. reply rq = (Inr (AConnected ok), w)"
  shows "effects_of srv yes (handle_google_connect btoa sha256 search_params origin random) w s
       = [OpenWindow (''https://accounts.google.com/o/oauth2/v2/auth?'' @ search_params
           (google_auth_params (google_client_id s) (origin @ ''/admin/settings'') (base64_url btoa (sha256 (base64_url btoa random)))))]
     \<and> requests_of (\<lambda>_. reply) yes (oauth_callback (Some c) (Some ''google_oauth_gemini'')) w back
       = [Request POST ''/ai/oauth/google/exchange'' (Some (Exchange c (origin @ ''/admin/settings'') (base64_url btoa random)))]
     \<and> session_get (ad_store (final_state (\<lambda>_. reply) yes (oauth_callback (Some c) (Some ''google_oauth_gemini'')) w back))
         ''google_pkce_verifier'' = None"
  using assms
  by (simp add: handle_google_connect_def pkce_pair_def oauth_callback_def initial_admin_def session.fetch_store
      session.fetch_forget io_simps)

lemma oauth_round_trip_witness:
  "requests_of (\<lambda>_ rq. (Inr (AConnected True), ())) True (oauth_callback (Some ''c'') (Some ''google_oauth_gemini'')) ()
     (initial_admin None (ad_store (final_state (\<lambda>_ rq. (Inr (AConnected True), ())) True
       (handle_google_connect (\<lambda>x. x) (\<lambda>x. rev x) (\<lambda>_. []) ''https://dfir'' ''ab+='') ()
       ((initial_admin None sample_browser)\<lparr>google_client_id := ''id''\<rparr>))))
   = [Request POST ''/ai/oauth/google/exchange'' (Some (Exchange ''c'' ''https://dfir/admin/settings'' ''ab-''))]"
  using oauth_round_trip [of "(initial_admin None sample_browser)\<lparr>google_client_id := ''id''\<rparr>" "''c''" "\<lambda>x. x" "''ab+=''" _
      "\<lambda>_ rq. (Inr (AConnected True), ())" True "\<lambda>x. rev x" "\<lambda>_. []" "''https://dfir''" "()" _ "\<lambda>rq. (Inr (AConnected True), ())" True]
  by (simp add: base64_url_def)

text \<open> RESET TO DEFAULTS does not reset: while the stored settings have not changed, the edits of the tab
  survive the reload that the button makes.
\<close>

theorem reset_keeps_edits:
  assumes "settings_data s = Some (Some (mask_secrets w))"
  shows "system_settings (final_state (settings_server accepts others) yes load_admin_data w s) = system_settings s"
  using assms
  by (auto simp: load_admin_data_def refetch_def set_error_def settings_server_def receive_settings_def receive_users_def
      receive_collectors_def query_failed_def split: sum.split option.split Option.bind_split)

lemma reset_keeps_edits_witness:
  "system_settings (final_state (settings_server (\<lambda>_. True) admin_elsewhere) True load_admin_data sample_stored
     (set_text_setting ''webhook_url'' ''http://x''
       (final_state (settings_server (\<lambda>_. True) admin_elsewhere) True load_admin_data sample_stored (initial_admin None sample_browser))))
   = Some (obj_put ''webhook_url'' (JStr ''http://x'') (mask_secrets sample_stored))"
proof -
  let ?s = "final_state (settings_server (\<lambda>_. True) admin_elsewhere) True load_admin_data sample_stored (initial_admin None sample_browser)"
  have "settings_data ?s = Some (Some (mask_secrets sample_stored)) \<and> system_settings ?s = Some (mask_secrets sample_stored)"
    by (simp add: load_admin_data_def refetch_def set_error_def settings_server_def receive_settings_def receive_users_def
      receive_collectors_def admin_elsewhere_def initial_admin_def)
  then show ?thesis
    using reset_keeps_edits [of "set_text_setting ''webhook_url'' ''http://x'' ?s" sample_stored "\<lambda>_. True" admin_elsewhere True]
    by (simp add: set_text_setting_def set_setting_def text_or_null_def)
qed

end
