(* ===== verification/AdminViews.thy ===== *)
theory AdminViews
  imports AiConfig
begin

text \<open>
  \<open>pages/AdminSettings.tsx\<close>, what its tabs show and what their inputs do: the inputs of the system tab with
  their fallbacks, the rows of the forensic tools, the tab of the AI provider, the tables of users and collectors and
  the two dialogs of the user accounts.  The audit tab is in theory \<open>AuditLog\<close>.  \<open>local_time\<close> is
  \<open>toLocaleString\<close> of a date.
\<close>

section \<open>The inputs of the system tab\<close>

datatype input_kind = NumberInput | TextInput | LockedInput | CheckInput

record setting_input =
  si_panel :: string
  si_label :: string
  si_field :: string
  si_kind :: input_kind
  si_fallback :: jsval
  si_placeholder :: string

definition pipeline_panel :: string where
  "pipeline_panel = ''FORENSICS PIPELINE '' @ em_dash @ '' TOOLS INTEGRATION''"

definition tool_input :: "tool_row \<Rightarrow> setting_input" where
  "tool_input t = \<lparr>si_panel = pipeline_panel, si_label = tool_label t,
     si_field = tool_field t, si_kind = TextInput, si_fallback = JStr [], si_placeholder = tool_placeholder t\<rparr>"

definition number_input :: "string \<Rightarrow> string \<Rightarrow> string \<Rightarrow> int \<Rightarrow> setting_input" where
  "number_input panel label field n = \<lparr>si_panel = panel, si_label = label, si_field = field, si_kind = NumberInput,
     si_fallback = JNum n, si_placeholder = []\<rparr>"

definition locked_input :: "string \<Rightarrow> string \<Rightarrow> string \<Rightarrow> string \<Rightarrow> setting_input" where
  "locked_input panel label field t = \<lparr>si_panel = panel, si_label = label, si_field = field, si_kind = LockedInput,
     si_fallback = JStr t, si_placeholder = []\<rparr>"

definition text_input :: "string \<Rightarrow> string \<Rightarrow> string \<Rightarrow> string \<Rightarrow> setting_input" where
  "text_input panel label field pl = \<lparr>si_panel = panel, si_label = label, si_field = field, si_kind = TextInput,
     si_fallback = JStr [], si_placeholder = pl\<rparr>"

definition vault_inputs :: "setting_input list" where
  "vault_inputs =
     [locked_input ''EVIDENCE VAULT'' ''Storage Path'' ''evidence_storage_path'' ''/vault/evidence'',
      number_input ''EVIDENCE VAULT'' ''Max File Size (GB)'' ''max_file_size_gb'' 10,
      locked_input ''EVIDENCE VAULT'' ''Hash Algorithm'' ''hash_algorithm'' ''SHA-256'']"

definition engine_inputs :: "setting_input list" where
  "engine_inputs =
     [number_input ''COLLECTION ENGINE'' ''Default Timeout (min)'' ''collection_timeout_min'' 30,
      number_input ''COLLECTION ENGINE'' ''Max Concurrent Jobs'' ''max_concurrent_jobs'' 5,
      number_input ''COLLECTION ENGINE'' ''Retry Attempts'' ''retry_attempts'' 3]"

definition session_inputs :: "setting_input list" where
  "session_inputs =
     [number_input ''SESSION MANAGEMENT'' ''Session Timeout (min)'' ''session_timeout_min'' 15,
      number_input ''SESSION MANAGEMENT'' ''Max Failed Logins'' ''max_failed_logins'' 5]"

definition audit_inputs :: "setting_input list" where
  "audit_inputs =
     [number_input ''AUDIT LOGGING'' ''Log Retention (days)'' ''log_retention_days'' 365,
      locked_input ''AUDIT LOGGING'' ''Export Format'' ''export_format'' ''JSON'']"

definition alert_inputs :: "setting_input list" where
  "alert_inputs =
     [text_input ''NOTIFICATIONS & ALERTS'' ''Webhook URL'' ''webhook_url'' ''https://hooks.slack.com/...'',
      text_input ''NOTIFICATIONS & ALERTS'' ''Notification Email'' ''notification_email'' ''security@company.com'',
      text_input ''NOTIFICATIONS & ALERTS'' ''Agent Binary Path'' ''agent_binary_path'' ''/opt/dfir-agents/'']"

definition pipeline_inputs :: "setting_input list" where
  "pipeline_inputs = map tool_input tool_rows @
     [text_input pipeline_panel ''Timesketch URL'' ''timesketch_url'' ''http://timesketch:5000'',
      \<lparr>si_panel = pipeline_panel, si_label = ''Auto-trigger pipeline after evidence upload completes'',
       si_field = ''auto_process'', si_kind = CheckInput, si_fallback = JBool False, si_placeholder = []\<rparr>]"

definition system_inputs :: "setting_input list" where
  "system_inputs = vault_inputs @ engine_inputs @ session_inputs @ audit_inputs @ alert_inputs @ pipeline_inputs"

text \<open>\<open>systemSettings?.f ?? fallback\<close>: what an input is drawn with.\<close>

definition shown_setting :: "admin_page \<Rightarrow> setting_input \<Rightarrow> jsval" where
  "shown_setting s i = (case Option.bind (system_settings s) (\<lambda>w. map_of w (si_field i)) of
     None \<Rightarrow> si_fallback i | Some JNull \<Rightarrow> si_fallback i | Some v \<Rightarrow> v)"

text \<open>What is done to an input: the text of a number input or of a text input, or the state of a box.  The browser
  gives the value of a number input as a numeral, and as the empty text when it holds none; \<open>Number\<close> makes 0 of that.
  Numerals with a fraction or an exponent are left out, \<open>None\<close>.\<close>

datatype typed = TypedNumber string | TypedText string | Ticked bool

definition number_of_text :: "string \<Rightarrow> int option" where
  "number_of_text t = (let neg = starts_with ''-'' t; ds = (if neg then tl t else t)
     in if t = [] then Some 0
        else if ds = [] \<or> \<not> list_all is_digit ds then None
        else Some (if neg then - int (digits_value ds) else int (digits_value ds)))"

fun fits :: "typed \<Rightarrow> input_kind \<Rightarrow> bool" where
  "fits (TypedNumber t) k \<longleftrightarrow> k = NumberInput \<and> number_of_text t \<noteq> None"
| "fits (TypedText t) k \<longleftrightarrow> k = TextInput"
| "fits (Ticked b) k \<longleftrightarrow> k = CheckInput"

fun typed_value :: "typed \<Rightarrow> jsval" where
  "typed_value (TypedNumber t) = JNum (the (number_of_text t))"
| "typed_value (TypedText t) = JStr t"
| "typed_value (Ticked b) = JBool b"

fun type_value :: "string \<Rightarrow> typed \<Rightarrow> admin_page \<Rightarrow> admin_page" where
  "type_value field (TypedNumber t) s = (case number_of_text t of Some n \<Rightarrow> set_number_setting field n s | None \<Rightarrow> s)"
| "type_value field (TypedText t) s = set_text_setting field t s"
| "type_value field (Ticked b) s = set_auto_process b s"

definition type_setting :: "setting_input \<Rightarrow> typed \<Rightarrow> admin_page \<Rightarrow> admin_page" where
  "type_setting i x s = (if fits x (si_kind i) then type_value (si_field i) x s else s)"

definition save_settings_button :: "admin_page \<Rightarrow> string \<times> bool" where
  "save_settings_button s = (if saving_settings s then ''SAVING'' else ''SAVE CONFIGURATION'', \<not> saving_settings s)"

section \<open>The rows of the tools\<close>

definition tools_info :: string where
  "tools_info = ''Tools are NOT bundled. Install each tool on the server (or mount via Docker volume), '' @
     ''enter the path, then click VALIDATE to confirm detection. '' @
     ''Parsing will show an error if a required tool is configured but its DLL is missing.''"

definition tools_banner :: "admin_page \<Rightarrow> (string \<times> string \<times> string) option" where
  "tools_banner s = map_option (\<lambda>ts. (''TOOLS HEALTH: '' @ tools_health ts, health_color (tools_health ts), tools_ready ts))
     (tool_status s)"

definition badge_class :: "tool_result \<Rightarrow> string" where
  "badge_class t = (if tr_ok t then ''text-green-400 border-green-500/30 bg-green-500/5''
     else if tr_status t = ''not_configured'' then ''text-muted-foreground border-border''
     else ''text-red-400 border-red-500/30 bg-red-500/5'')"

record tool_view =
  tv_label :: string
  tv_badge :: "(string \<times> string) option"
  tv_button :: "string \<times> bool"
  tv_path :: jsval
  tv_validated :: "(string \<times> string option) option"
  tv_detail :: "string option"
  tv_dlls :: "(string \<times> bool) list option"

definition filled :: "string option \<Rightarrow> string option" where
  "filled t = (case t of Some x \<Rightarrow> if x = [] then None else Some x | None \<Rightarrow> None)"

definition tool_view_of :: "(string \<Rightarrow> string) \<Rightarrow> admin_page \<Rightarrow> tool_row \<Rightarrow> tool_view" where
  "tool_view_of local_time s t =
     (let ts = Option.bind (tool_status s) (\<lambda>ob. map_of ob (tool_key t));
          busy = (validating_tool s = Some (tool_key t))
      in \<lparr>tv_label = tool_label t, tv_badge = map_option (\<lambda>r. (badge_class r, tool_badge (tool_key t) r)) ts,
        tv_button = (if busy then ''...'' else ''VALIDATE'', validate_enabled s t),
        tv_path = shown_setting s (tool_input t),
        tv_validated = Option.bind ts (\<lambda>r. map_option (\<lambda>v. (''Validated: '' @ local_time v,
            map_option (\<lambda>x. ''Version: '' @ x) (filled (tr_version r)))) (filled (tr_validated_at r))),
        tv_detail = Option.bind ts (\<lambda>r. filled (tr_detail r)),
        tv_dlls = (if tool_key t = ''ez_tools'' then Option.bind ts (\<lambda>r. map_option (map (\<lambda>(n, found, p). (n, found))) (tr_dlls r))
          else None)\<rparr>)"

definition verify_all_button :: "admin_page \<Rightarrow> string \<times> bool" where
  "verify_all_button s = (if verifying_tools s then ''VERIFYING ALL...'' else ''VALIDATE ALL TOOLS'', verify_all_enabled s)"

section \<open>The tab of the AI provider\<close>

record secret_input =
  sec_label :: string
  sec_type :: string
  sec_value :: string
  sec_placeholder :: string

definition secret_input_of :: "string \<Rightarrow> bool \<Rightarrow> string \<Rightarrow> string \<Rightarrow> secret_input" where
  "secret_input_of label shown v pl = \<lparr>sec_label = label, sec_type = (if shown then ''text'' else ''password''),
     sec_value = v, sec_placeholder = (if v = secret_mask then ''Saved (hidden)'' else pl)\<rparr>"

datatype auth_panel =
    GeminiAuth string secret_input bool "string \<times> bool" secret_input string
  | OllamaAuth
  | KeyAuth string "string option" secret_input

definition key_help :: "string \<Rightarrow> string" where
  "key_help p = (if p = ''openai'' then ''OpenAI does not support OAuth for direct API access. Use an API key from your OpenAI account.''
     else if p = ''anthropic'' then ''Anthropic does not support OAuth for direct API access. Use an API key from your Anthropic Console.''
     else if p = ''openrouter'' then ''OpenRouter uses API keys for authentication.'' else [])"

definition key_placeholder :: "string \<Rightarrow> string" where
  "key_placeholder p = (if p = ''openai'' then ''sk-...'' else if p = ''anthropic'' then ''sk-ant-...''
     else ''Enter API key...'')"

definition google_button :: "admin_page \<Rightarrow> string \<times> bool" where
  "google_button s = (if google_connected s then (''DISCONNECT GOOGLE'', True)
     else (''CONNECT WITH GOOGLE'', google_client_id s \<noteq> [] \<and> \<not> connecting_google s))"

definition auth_panel_of :: "ai_provider_info \<Rightarrow> admin_page \<Rightarrow> auth_panel" where
  "auth_panel_of info s =
     (if ai_provider s = ''gemini'' then
        GeminiAuth (google_client_id s)
          (secret_input_of ''Client Secret'' (google_show_secret s) (google_client_secret s) ''GOCSPX-xxx...'')
          (google_connected s) (google_button s)
          (secret_input_of ''Gemini API Key'' (ai_show_key s) (ai_api_key s) ''AIza...'') (pr_key_link info)
      else if ai_provider s = ''ollama'' then OllamaAuth
      else KeyAuth (key_help (ai_provider s)) (if pr_key_link info = [] then None else Some (pr_key_link info))
        (secret_input_of ''API Key'' (ai_show_key s) (ai_api_key s) (key_placeholder (ai_provider s))))"

fun key_fields :: "auth_panel \<Rightarrow> secret_input list" where
  "key_fields (GeminiAuth c sec con b k l) = [k]" | "key_fields OllamaAuth = []" | "key_fields (KeyAuth h l k) = [k]"

record ai_view =
  av_message :: "(string \<times> string) option"
  av_connecting :: bool
  av_providers :: "(string \<times> bool \<times> bool) list"
  av_note :: string
  av_model :: "string \<times> string \<times> string"
  av_url :: "string \<times> string"
  av_auth_status :: string
  av_auth :: auth_panel
  av_save :: "string \<times> bool"

text \<open>\<open>AI_PROVIDERS.find(...)!\<close>: without an entry for the provider the drawing throws, which is \<open>None\<close>.\<close>

definition provider_info :: "string \<Rightarrow> ai_provider_info option" where
  "provider_info p = find (\<lambda>x. pr_id x = p) ai_providers"

definition ai_view_of :: "admin_page \<Rightarrow> ai_view option" where
  "ai_view_of s = (case provider_info (ai_provider s) of
     None \<Rightarrow> None
   | Some info \<Rightarrow> Some
      \<lparr>av_message = map_option (\<lambda>(ok, t). (if ok then ''border-primary/40 bg-primary/5 text-primary''
          else ''border-destructive/40 bg-destructive/5 text-destructive'', t)) (ai_message s),
       av_connecting = connecting_google s,
       av_providers = map (\<lambda>p. (pr_label p, ai_provider s = pr_id p, pr_has_oauth p)) ai_providers,
       av_note = pr_note info,
       av_model = (ai_model s, pr_default_model info, ''Default: '' @ pr_default_model info),
       av_url = (ai_api_url s, pr_default_url info),
       av_auth_status = (if google_connected s \<and> ai_provider s = ''gemini'' then ''online'' else ''active''),
       av_auth = auth_panel_of info s,
       av_save = (if saving_ai s then ''SAVING...'' else ''SAVE AI CONFIG'', \<not> saving_ai s)\<rparr>)"

section \<open>Users, collectors and indicators\<close>

definition tab_labels :: "(string \<times> string) list" where
  "tab_labels = [(''users'', ''USER MANAGEMENT''), (''collectors'', ''COLLECTORS''), (''system'', ''SYSTEM CONFIG''),
     (''audit'', ''AUDIT LOGS''), (''threatintel'', ''THREAT INTEL''), (''ai'', ''AI CONFIG'')]"

definition tab_buttons :: "admin_page \<Rightarrow> (string \<times> bool) list" where
  "tab_buttons s = map (\<lambda>(t, l). (l, active_tab s = t)) tab_labels"

definition users_tab :: "(string \<Rightarrow> string) \<Rightarrow> pagination \<Rightarrow> admin_page \<Rightarrow> string \<times> (string + user_row list)" where
  "users_tab day p s = (''Registered Users ('' @ nat_str (length (ad_users s)) @ '')'',
     (let us = page_items (ad_users s) p
      in if us = [] then Inl ''No users available.'' else Inr (map (user_row_of day s) us)))"

definition collectors_tab :: "(string \<Rightarrow> string) \<Rightarrow> admin_page \<Rightarrow>
    string \<times> (string \<times> bool) \<times> (string \<times> string \<times> (string \<times> string) list \<times> string) list" where
  "collectors_tab time s = (''Collector Nodes ('' @ nat_str (length (ad_collectors s)) @ '')'',
     (if refreshing_collectors s then ''REFRESHING'' else ''REFRESH STATUS'', \<not> refreshing_collectors s),
     map (collector_panel time) (ad_collectors s))"

definition ioc_tab :: "admin_page \<Rightarrow> string \<times> (string \<times> bool) list \<times> (string + string list list)" where
  "ioc_tab s = (''IOC Indicators ('' @ int_str (ioc_total s) @ '')'',
     map (\<lambda>t. (t, ioc_type_filter s = t)) (''all'' # ioc_types),
     (if ioc_indicators s = [] then Inl ''No IOC indicators configured. Add threat intelligence above.''
      else Inr (map ioc_cells (ioc_indicators s))))"

section \<open>The dialogs of the user accounts\<close>

text \<open>The meter under a password: its colour, its width in percent, the class of its label and the label.\<close>

definition strength_meter :: "string \<Rightarrow> (string \<times> rat \<times> string \<times> string) option" where
  "strength_meter pw = (if pw = [] then None
     else let n = pw_strength pw in Some (pw_color n, of_nat n / 3 * 100,
       (if n = 3 then ''text-green-400'' else if n = 2 then ''text-yellow-400'' else ''text-destructive''), pw_label n))"

record password_input =
  pi_type :: string
  pi_value :: string
  pi_meter :: "(string \<times> rat \<times> string \<times> string) option"

definition password_input_of :: "bool \<Rightarrow> string \<Rightarrow> password_input" where
  "password_input_of shown pw = \<lparr>pi_type = (if shown then ''text'' else ''password''), pi_value = pw,
     pi_meter = strength_meter pw\<rparr>"

definition role_choices :: "string list" where
  "role_choices = [''operator'', ''viewer'', ''admin'']"

definition status_choices_edit :: "string list" where
  "status_choices_edit = [''active'', ''inactive'', ''locked'']"

record add_dialog =
  add_name :: string
  add_password :: password_input
  add_roles :: "(string \<times> string) list"

definition chosen_role_class :: "string \<Rightarrow> string \<Rightarrow> string" where
  "chosen_role_class chosen r = (if chosen = r then (case role_color r of Some c \<Rightarrow> c | None \<Rightarrow> [])
     else ''border-border bg-secondary text-muted-foreground'')"

definition add_dialog_view :: "admin_page \<Rightarrow> add_dialog option" where
  "add_dialog_view s = (if \<not> show_add_user s then None else Some
     \<lparr>add_name = new_user_name s, add_password = password_input_of (show_new_password s) (new_user_password s),
      add_roles = map (\<lambda>r. (r, chosen_role_class (new_user_role s) r)) role_choices\<rparr>)"

record edit_dialog =
  ed_name :: string
  ed_roles :: "(string \<times> string) list"
  ed_statuses :: "(string \<times> string) list"
  ed_password :: password_input
  ed_cancel :: bool
  ed_save :: "string \<times> bool"

definition edit_dialog_view :: "admin_page \<Rightarrow> edit_dialog option" where
  "edit_dialog_view s = (if \<not> edit_open s then None
     else map_option (\<lambda>u. \<lparr>ed_name = au_name u,
       ed_roles = map (\<lambda>r. (r, chosen_role_class (edit_role s) r)) role_choices,
       ed_statuses = map (\<lambda>x. (x, if edit_status s = x then ''border-primary/30 bg-primary/10 text-primary''
          else ''border-border bg-secondary text-muted-foreground'')) status_choices_edit,
       ed_password = password_input_of (show_edit_password s) (edit_password s),
       ed_cancel = (\<not> saving_user s),
       ed_save = (if saving_user s then ''SAVING'' else ''SAVE CHANGES'', \<not> saving_user s)\<rparr>) (editing_user s))"

section \<open>The events of the page\<close>

text \<open>
  The overlay, the cross and the escape key of a dialog call its \<open>onOpenChange\<close>, which no flag disables; nor does
  one disable the ENTER key of an indicator's value.
\<close>

datatype admin_event =
    SelectTab string | TypeSetting setting_input typed | SaveSettings | ResetSettings | ValidateTool tool_row | VerifyTools
  | ChooseProvider ai_provider_info | TypeModel string | TypeUrl string | TypeKey string | TypeClientId string
  | TypeClientSecret string | ToggleShowKey | ToggleShowSecret | SaveAi | DisconnectGoogle
  | OpenAddDialog | CloseAddDialog | TypeNewName string | TypeNewPassword string | PickNewRole string | ToggleNewPassword
  | SaveNewUser | OpenEditDialog admin_user | EscapeEdit | CancelEdit | PickRole string | PickStatus string
  | TypePassword string | ToggleEditPassword | SaveUser
  | ClickToggle admin_user | ClickDelete admin_user | ClickCancelDelete | RefreshCollectors | ToggleCollector collector_config
  | EditDraftIoc new_ioc | AddIoc | EnterIoc | DeleteIoc string | FilterIoc string | RefreshIoc

abbreviation (input) pure_update :: "(admin_page \<Rightarrow> admin_page) \<Rightarrow> admin_io" where
  "pure_update f \<equiv> Update f Done"

primrec admin_handler :: "admin_event \<Rightarrow> admin_page \<Rightarrow> admin_io" where
  "admin_handler (SelectTab t) s = Update (\<lambda>s. s\<lparr>active_tab := t\<rparr>)
     (if t = active_tab s then Done else if t = ''threatintel'' then load_ioc_indicators (ioc_type_filter s) else load_ai_config)"
| "admin_handler (TypeSetting i x) s = pure_update (type_setting i x)"
| "admin_handler SaveSettings s = (if saving_settings s then Done else handle_save_settings)"
| "admin_handler ResetSettings s = load_admin_data"
| "admin_handler (ValidateTool t) s = (if validate_enabled s t then validate_tool t else Done)"
| "admin_handler VerifyTools s = (if verify_all_enabled s then verify_all_tools else Done)"
| "admin_handler (ChooseProvider p) s = pure_update (choose_provider p)"
| "admin_handler (TypeModel t) s = pure_update (\<lambda>s. s\<lparr>ai_model := t\<rparr>)"
| "admin_handler (TypeUrl t) s = pure_update (\<lambda>s. s\<lparr>ai_api_url := t\<rparr>)"
| "admin_handler (TypeKey t) s = pure_update (\<lambda>s. s\<lparr>ai_api_key := t\<rparr>)"
| "admin_handler (TypeClientId t) s = pure_update (\<lambda>s. s\<lparr>google_client_id := t\<rparr>)"
| "admin_handler (TypeClientSecret t) s = pure_update (\<lambda>s. s\<lparr>google_client_secret := t\<rparr>)"
| "admin_handler ToggleShowKey s = pure_update (\<lambda>s. s\<lparr>ai_show_key := \<not> ai_show_key s\<rparr>)"
| "admin_handler ToggleShowSecret s = pure_update (\<lambda>s. s\<lparr>google_show_secret := \<not> google_show_secret s\<rparr>)"
| "admin_handler SaveAi s = (if saving_ai s then Done else handle_save_ai_config)"
| "admin_handler DisconnectGoogle s = (if google_connected s then handle_google_disconnect else Done)"
| "admin_handler OpenAddDialog s = pure_update (add_dialog_change True)"
| "admin_handler CloseAddDialog s = pure_update (add_dialog_change False)"
| "admin_handler (TypeNewName t) s = pure_update (\<lambda>s. s\<lparr>new_user_name := t\<rparr>)"
| "admin_handler (TypeNewPassword t) s = pure_update (\<lambda>s. s\<lparr>new_user_password := t\<rparr>)"
| "admin_handler (PickNewRole r) s = pure_update (\<lambda>s. s\<lparr>new_user_role := r\<rparr>)"
| "admin_handler ToggleNewPassword s = pure_update (\<lambda>s. s\<lparr>show_new_password := \<not> show_new_password s\<rparr>)"
| "admin_handler SaveNewUser s = handle_add_user"
| "admin_handler (OpenEditDialog u) s = pure_update (open_edit_dialog u)"
| "admin_handler EscapeEdit s = pure_update (edit_dialog_change False)"
| "admin_handler CancelEdit s = (if saving_user s then Done else pure_update (edit_dialog_change False))"
| "admin_handler (PickRole r) s = pure_update (\<lambda>s. s\<lparr>edit_role := r\<rparr>)"
| "admin_handler (PickStatus r) s = pure_update (\<lambda>s. s\<lparr>edit_status := r\<rparr>)"
| "admin_handler (TypePassword t) s = pure_update (\<lambda>s. s\<lparr>edit_password := t\<rparr>)"
| "admin_handler ToggleEditPassword s = pure_update (\<lambda>s. s\<lparr>show_edit_password := \<not> show_edit_password s\<rparr>)"
| "admin_handler SaveUser s = (if saving_user s then Done else handle_save_user)"
| "admin_handler (ClickToggle u) s = toggle_clicked u"
| "admin_handler (ClickDelete u) s = delete_clicked u"
| "admin_handler ClickCancelDelete s = pure_update cancel_delete"
| "admin_handler RefreshCollectors s = (if refreshing_collectors s then Done else refresh_collectors)"
| "admin_handler (ToggleCollector c) s = toggle_collector c"
| "admin_handler (EditDraftIoc n) s = pure_update (set_draft_ioc (\<lambda>_. n))"
| "admin_handler AddIoc s = (if adding_ioc s then Done else handle_add_ioc)"
| "admin_handler EnterIoc s = handle_add_ioc"
| "admin_handler (DeleteIoc i) s = handle_delete_ioc i"
| "admin_handler (FilterIoc t) s = (if t = ioc_type_filter s then Done else set_ioc_filter t)"
| "admin_handler RefreshIoc s = load_ioc_indicators (ioc_type_filter s)"

section \<open>Lemmas\<close>

lemmas system_inputs_eval =
  system_inputs_def vault_inputs_def engine_inputs_def session_inputs_def audit_inputs_def alert_inputs_def pipeline_inputs_def
  text_input_def number_input_def locked_input_def tool_input_def tool_rows_def

lemma distinct_input_fields: "distinct (map si_field system_inputs)"
  by (simp add: system_inputs_eval)

lemma input_checked:
  "list_all (\<lambda>i. (si_kind i = TextInput \<longrightarrow> si_fallback i = JStr []) \<and> (si_kind i = CheckInput \<longrightarrow> si_field i = ''auto_process''))
     system_inputs"
  by (simp add: system_inputs_eval)

lemma text_fallback: "i \<in> set system_inputs \<Longrightarrow> si_kind i = TextInput \<Longrightarrow> si_fallback i = JStr []"
  using input_checked by (simp add: list_all_iff)

lemma check_field: "i \<in> set system_inputs \<Longrightarrow> si_kind i = CheckInput \<Longrightarrow> si_field i = ''auto_process''"
  using input_checked by (simp add: list_all_iff)

lemma input_by_field: "i \<in> set system_inputs \<Longrightarrow> j \<in> set system_inputs \<Longrightarrow> si_field i = si_field j \<Longrightarrow> i = j"
  using distinct_input_fields by (auto simp: distinct_map dest: inj_onD)

lemma shown_set_setting:
  assumes "system_settings s = Some w"
  shows "shown_setting (set_setting f v s) i =
    (if si_field i = f then (case v of JNull \<Rightarrow> si_fallback i | _ \<Rightarrow> v) else shown_setting s i)"
  using assms by (auto simp: shown_setting_def set_setting_def split: jsval.split)

fun stored_value :: "typed \<Rightarrow> jsval" where
  "stored_value (TypedText t) = text_or_null t" | "stored_value x = typed_value x"

lemma type_setting_sets:
  assumes "i \<in> set system_inputs" "fits x (si_kind i)"
  shows "type_setting i x s = set_setting (si_field i) (stored_value x) s"
  using assms check_field [OF assms(1)]
  by (cases x) (auto simp: type_setting_def set_number_setting_def set_text_setting_def set_auto_process_def)

lemma drawn_value:
  "i \<in> set system_inputs \<Longrightarrow> fits x (si_kind i) \<Longrightarrow>
   (case stored_value x of JNull \<Rightarrow> si_fallback i | _ \<Rightarrow> stored_value x) = typed_value x"
  using text_fallback by (cases x) (auto simp: text_or_null_def)

lemma validate_tool_blind:
  "requests_of srv yes (validate_tool t) w (set_setting f v s) = requests_of srv yes (validate_tool t) w s"
  by (simp add: validate_tool_def set_error_def io_simps split: prod.split sum.split option.split)

lemma ai_view_throws: "ai_view_of s = None \<longleftrightarrow> provider_info (ai_provider s) = None"
  by (cases "provider_info (ai_provider s)") (simp_all add: ai_view_of_def)

lemma provider_unknown: "provider_info p = None \<longleftrightarrow> p \<notin> pr_id ` set ai_providers"
  unfolding provider_info_def find_None_iff by blast

lemma emptied_number [simp]: "number_of_text [] = Some 0"
  by (simp add: number_of_text_def Let_def)

lemma typed_value_cases:
  "typed_value x = (case x of
     TypedNumber t \<Rightarrow> JNum (if t = [] then 0 else the (number_of_text t)) | TypedText t \<Rightarrow> JStr t | Ticked b \<Rightarrow> JBool b)"
  by (cases x) simp_all

section \<open>Theorems\<close>

text \<open>C19. The inputs of the system tab are controlled: once the settings are loaded, a text input and a box show what
  was entered, an emptied text empty although it is stored as \<open>null\<close>; a number input shows the number that was typed,
  and 0 once it is emptied; and every other input keeps what it showed.  Before, what is typed is lost and the inputs
  show their fallbacks.\<close>

theorem inputs_show_typing:
  assumes "i \<in> set system_inputs" and "fits x (si_kind i)"
  shows "(case system_settings s of
      None \<Rightarrow> system_settings (type_setting i x s) = None \<and> shown_setting (type_setting i x s) i = si_fallback i
    | Some w \<Rightarrow> shown_setting (type_setting i x s) i = (case x of
        TypedNumber t \<Rightarrow> JNum (if t = [] then 0 else the (number_of_text t)) | TypedText t \<Rightarrow> JStr t | Ticked b \<Rightarrow> JBool b))
    \<and> (\<forall>j \<in> set system_inputs. j \<noteq> i \<longrightarrow> shown_setting (type_setting i x s) j = shown_setting s j)"
proof (cases "system_settings s")
  case None
  then show ?thesis
    by (simp add: type_setting_sets [OF assms] set_setting_def shown_setting_def)
next
  case (Some w)
  have other: "si_field j \<noteq> si_field i" if "j \<in> set system_inputs" "j \<noteq> i" for j
    using input_by_field [OF assms(1) that(1)] that(2) by auto
  show ?thesis
    using drawn_value [OF assms] other unfolding typed_value_cases [symmetric]
    by (simp add: Some type_setting_sets [OF assms] shown_set_setting [OF Some])
qed

lemma inputs_show_typing_witness:
  "shown_setting (type_setting (number_input ''COLLECTION ENGINE'' ''Retry Attempts'' ''retry_attempts'' 3) (TypedNumber ''7'')
     ((initial_admin None sample_browser)\<lparr>system_settings := Some sample_stored\<rparr>))
     (number_input ''COLLECTION ENGINE'' ''Retry Attempts'' ''retry_attempts'' 3) = JNum 7"
  using inputs_show_typing [of "number_input ''COLLECTION ENGINE'' ''Retry Attempts'' ''retry_attempts'' 3" "TypedNumber ''7''"
      "(initial_admin None sample_browser)\<lparr>system_settings := Some sample_stored\<rparr>"]
  by (simp add: system_inputs_def engine_inputs_def number_input_def number_of_text_def starts_with_def is_digit_def
      digits_value_def Let_def)

text \<open>VALIDATE does not look at the path that is typed: whatever path an analyst enters for a tool, the request is
  the same, and the row then shows the result for the stored path under the path just typed.\<close>

theorem validate_ignores_typed_path:
  assumes "srv w (Request POST (''/settings/verify-tools/'' @ tool_key t) (Some EmptyBody)) = (Inr (ATool r), w)"
    and "tool_input t \<in> set system_inputs" and "system_settings s = Some cfg"
  shows "requests_of srv yes (validate_tool t) w (type_setting (tool_input t) (TypedText path) s)
      = requests_of srv yes (validate_tool t) w s
    \<and> (let v = tool_view_of local_time (final_state srv yes (validate_tool t) w (type_setting (tool_input t) (TypedText path) s)) t
       in tv_path v = JStr path \<and> tv_badge v = Some (badge_class r, tool_badge (tool_key t) r))"
proof -
  let ?s = "type_setting (tool_input t) (TypedText path) s"
  have f: "fits (TypedText path) (si_kind (tool_input t))" by (simp add: tool_input_def)
  have shown: "shown_setting ?s (tool_input t) = JStr path"
    unfolding type_setting_sets [OF assms(2) f] shown_set_setting [OF assms(3)]
    by (cases path) (simp_all add: text_or_null_def tool_input_def)
  have st: "final_state srv yes (validate_tool t) w ?s
      = ?s\<lparr>tool_status := Some (obj_put (tool_key t) r (case tool_status ?s of Some x \<Rightarrow> x | None \<Rightarrow> [])), validating_tool := None\<rparr>"
    using assms(1) by (simp add: validate_tool_def io_simps)
  have "shown_setting (?s\<lparr>tool_status := a, validating_tool := b\<rparr>) i = shown_setting ?s i" for a b i
    by (simp add: shown_setting_def)
  then have v: "shown_setting (final_state srv yes (validate_tool t) w ?s) (tool_input t) = JStr path"
    by (simp only: st shown)
  have b: "requests_of srv yes (validate_tool t) w ?s = requests_of srv yes (validate_tool t) w s"
    by (simp only: type_setting_sets [OF assms(2) f] validate_tool_blind)
  show ?thesis
    by (simp only: b v tool_view_of_def Let_def tool_view.simps) (simp add: st)
qed

definition chainsaw_row :: tool_row where
  "chainsaw_row = tool_rows ! 1"

definition tool_missing :: tool_result where
  "tool_missing = \<lparr>tr_ok = False, tr_status = ''not_found'', tr_path = None, tr_found_count = None, tr_total_count = None,
     tr_dlls = None, tr_detail = None, tr_validated_at = None, tr_version = None\<rparr>"

definition loaded_admin :: admin_page where
  "loaded_admin = (initial_admin None sample_browser)\<lparr>system_settings := Some sample_stored\<rparr>"

lemma validate_ignores_typed_path_witness:
  "let v = tool_view_of (\<lambda>t. t) (final_state (stateless (\<lambda>_. Inr (ATool tool_missing))) True (validate_tool chainsaw_row) ()
      (type_setting (tool_input chainsaw_row) (TypedText ''/opt/new'') loaded_admin)) chainsaw_row
   in tv_path v = JStr ''/opt/new'' \<and> tv_badge v = Some (badge_class tool_missing, tool_badge ''chainsaw'' tool_missing)"
  using validate_ignores_typed_path [of "stateless (\<lambda>_. Inr (ATool tool_missing))" "()" chainsaw_row tool_missing loaded_admin
      sample_stored True "''/opt/new''" "\<lambda>t. t"]
  by (simp add: stateless_def chainsaw_row_def tool_rows_def system_inputs_def pipeline_inputs_def loaded_admin_def)

text \<open>The health of the tools is that of the tools validated so far: on a fresh page the validation of one tool which
  is there declares all five healthy, with one of one ready.\<close>

theorem health_counts_validated_only:
  assumes "tool_status s = None" and "tr_ok r" and "tr_status r \<noteq> ''not_configured''"
    and "srv w (Request POST (''/settings/verify-tools/'' @ tool_key t) (Some EmptyBody)) = (Inr (ATool r), w)"
  shows "map_option (\<lambda>(h, c, n). (h, n)) (tools_banner (final_state srv yes (validate_tool t) w s))
    = Some (''TOOLS HEALTH: HEALTHY'', ''1/1 TOOLS READY'') \<and> length tool_rows = 5"
proof -
  have "tool_status (final_state srv yes (validate_tool t) w s) = Some [(tool_key t, r)]"
    using assms(1,4) by (simp add: validate_tool_def io_simps obj_put_def)
  moreover have "nat_str 1 = ''1''" by (simp add: str_eval)
  ultimately show ?thesis
    using assms(2,3) by (simp add: tools_banner_def tools_health_def tools_ready_def tool_rows_def)
qed

lemma health_counts_validated_only_witness:
  "map_option (\<lambda>(h, c, n). (h, n)) (tools_banner (final_state (stateless (\<lambda>_. Inr (ATool (tool_missing\<lparr>tr_ok := True,
      tr_status := ''ok''\<rparr>)))) True (validate_tool chainsaw_row) () (initial_admin None sample_browser)))
    = Some (''TOOLS HEALTH: HEALTHY'', ''1/1 TOOLS READY'')"
  using health_counts_validated_only [of "initial_admin None sample_browser" "tool_missing\<lparr>tr_ok := True, tr_status := ''ok''\<rparr>"
      "stateless (\<lambda>_. Inr (ATool (tool_missing\<lparr>tr_ok := True, tr_status := ''ok''\<rparr>)))" "()" chainsaw_row True]
  by (simp add: stateless_def initial_admin_def)

text \<open>The tab of the AI provider draws for the five providers it knows and throws for any other one; the server's
  configuration is taken over as it is, so a provider set elsewhere takes the page down.\<close>

theorem unknown_provider_throws:
  assumes "active_tab s = ''ai''" and "srv w (Request GET ''/ai/config'' None) = (Inr (AConfig cfg), w)"
    and "cfg_provider cfg \<noteq> []"
  shows "ai_view_of (final_state srv yes load_ai_config w s) = None \<longleftrightarrow> cfg_provider cfg \<notin> pr_id ` set ai_providers"
proof -
  have "ai_provider (final_state srv yes load_ai_config w s) = cfg_provider cfg"
    using assms by (simp add: load_ai_config_def io_simps or_text_def)
  then show ?thesis by (simp only: ai_view_throws provider_unknown)
qed

lemma unknown_provider_throws_witness:
  "ai_view_of (final_state (stateless (\<lambda>_. Inr (AConfig \<lparr>cfg_provider = ''azure'', cfg_model = [], cfg_api_url = [],
     cfg_key_set = False, cfg_google_id = [], cfg_google_connected = False\<rparr>))) True load_ai_config ()
     (initial_admin (Some ''ai'') sample_browser)) = None"
  using unknown_provider_throws [of "initial_admin (Some ''ai'') sample_browser"
      "stateless (\<lambda>_. Inr (AConfig \<lparr>cfg_provider = ''azure'', cfg_model = [], cfg_api_url = [],
     cfg_key_set = False, cfg_google_id = [], cfg_google_connected = False\<rparr>))" "()" _ True]
  by (simp add: stateless_def initial_admin_def initial_tab_def tab_ids_def ai_providers_def)

text \<open>C14. The key is not bound to the provider it was typed for: an analyst who types a key, picks another provider and
  saves has the server use that key with the other provider, also for the local one, whose panel has no field for a
  key at all.\<close>

theorem key_follows_provider:
  assumes "typed_secret (ai_api_key s)" and "p \<in> set ai_providers"
    and "distinct (map fst (settings_of (system_settings s)))"
    and "accepts (spread_over (settings_of (system_settings s)) (ai_body (choose_provider p s)))"
  shows "(let w' = final_world (settings_server accepts others) yes handle_save_ai_config w (choose_provider p s)
    in map_of w' ''ai_provider'' = Some (JStr (pr_id p)) \<and> map_of w' ''ai_api_url'' = Some (JStr (pr_default_url p))
       \<and> map_of w' ''ai_api_key'' = Some (JStr (ai_api_key s)))
    \<and> (pr_id p \<noteq> ''ollama'' \<or> key_fields (auth_panel_of p (choose_provider p s)) = [])"
proof -
  let ?s = "choose_provider p s" and ?cfg = "settings_of (system_settings (choose_provider p s))"
  have c: "?cfg = settings_of (system_settings s)" by (simp add: choose_provider_def)
  have u: "pr_default_url p \<noteq> []" using assms(2) by (auto simp: ai_providers_def)
  have b: "map_of (ai_body ?s) ''ai_provider'' = Some (JStr (pr_id p))"
    "map_of (ai_body ?s) ''ai_api_url'' = Some (JStr (pr_default_url p))"
    "map_of (ai_body ?s) ''ai_api_key'' = Some (JStr (ai_api_key s))"
    using assms(1) u by (simp_all add: ai_body_def Let_def choose_provider_def or_text_def)
  have m: "map_of (spread_over ?cfg (ai_body ?s)) k = Some v" if "map_of (ai_body ?s) k = Some v" for k v
    using that by (simp add: map_of_spread_over)
  have d: "distinct (map fst (spread_over ?cfg (ai_body ?s)))"
    using assms(3) by (simp add: c distinct_spread_over)
  have e: "accepts (spread_over ?cfg (ai_body ?s))" using assms(4) by (simp only: c)
  have "key_fields (auth_panel_of p ?s) = []" if "pr_id p = ''ollama''"
    using that by (simp add: auth_panel_of_def choose_provider_def)
  then show ?thesis
    using upsert_written [OF d m [OF b(1)]] upsert_written [OF d m [OF b(2)]] upsert_written [OF d m [OF b(3)]]
    by (simp only: Let_def save_ai_world [where accepts = accepts, OF e]) blast
qed

definition keyed_page :: admin_page where
  "keyed_page = (initial_admin None sample_browser)\<lparr>system_settings := Some sample_stored, ai_api_key := ''sk-2''\<rparr>"

lemma key_follows_provider_witness:
  "map_of (final_world (settings_server (\<lambda>_. True) admin_elsewhere) True handle_save_ai_config sample_stored
     (choose_provider (ai_providers ! 4) keyed_page)) ''ai_api_key'' = Some (JStr ''sk-2'')"
proof -
  have k: "typed_secret (ai_api_key keyed_page)" and a: "ai_api_key keyed_page = ''sk-2''"
    by (simp_all add: keyed_page_def typed_secret_def secret_mask_def)
  have p: "ai_providers ! 4 \<in> set ai_providers" by (simp add: ai_providers_def)
  have d: "distinct (map fst (settings_of (system_settings keyed_page)))"
    by (simp add: keyed_page_def settings_of_def sample_stored_def)
  from key_follows_provider [OF k p d, of "\<lambda>_. True" admin_elsewhere True sample_stored]
  show ?thesis by (simp only: Let_def a simp_thms)
qed

text \<open>A change of an account that is answered late closes the dialog of another one: while the request is under way
  its dialog can be left with the escape key, which no flag disables, and another account be opened; the success of
  the first request then closes that dialog and forgets the password typed into it.\<close>

theorem late_save_closes_other_dialog:
  assumes "editing_user s = Some u"
  shows "\<exists>s1 g. settle (handle_save_user) True s = (s1, [Await (Request PATCH (''/users/'' @ au_id u)
        (Some (AccountPatch (edit_role s) (edit_status s) (if trim (edit_password s) \<noteq> [] then Some (trim (edit_password s)) else None)))) g])
    \<and> saving_user s1
    \<and> (\<forall>other r. settle (admin_handler EscapeEdit s1) True s1 = ((edit_dialog_change False s1), [])
       \<and> (let s2 = (open_edit_dialog other (edit_dialog_change False s1))\<lparr>edit_password := typed\<rparr>;
               s3 = fst (settle (g (Inr (AUser r))) True s2)
          in edit_open s2 \<and> edit_password s2 = typed \<and> \<not> edit_open s3 \<and> editing_user s3 = None \<and> edit_password s3 = []))"
  using assms by (simp add: handle_save_user_def io_simps set_error_def edit_dialog_change_def open_edit_dialog_def)

definition edited_page :: admin_page where
  "edited_page = open_edit_dialog \<lparr>au_id = ''u2'', au_name = ''bo'', au_role = ''viewer'', au_status = ''active'', au_last_login = ''-'',
     au_created_at = ''-''\<rparr> (initial_admin None sample_browser)"

lemma late_save_closes_other_dialog_witness:
  "\<exists>s1 g. settle handle_save_user True edited_page
     = (s1, [Await (Request PATCH ''/users/u2'' (Some (AccountPatch ''viewer'' ''active'' None))) g]) \<and> saving_user s1"
proof -
  have "editing_user edited_page = Some \<lparr>au_id = ''u2'', au_name = ''bo'', au_role = ''viewer'', au_status = ''active'',
      au_last_login = ''-'', au_created_at = ''-''\<rparr>" by (simp add: edited_page_def open_edit_dialog_def)
  from late_save_closes_other_dialog [OF this, of "[]"] show ?thesis
    by (auto simp: edited_page_def open_edit_dialog_def trim_def)
qed

text \<open>ENTER in the field of an indicator's value is not held back while an indicator is being added: pressed twice,
  it sends the same indicator twice.\<close>

theorem enter_adds_twice:
  assumes "trim (ni_value (draft_ioc s)) \<noteq> []"
  shows "\<exists>s' g1 g2 rq. reachable admin_handler s (s', [Await rq g1, Await rq g2]) \<and> req_method rq = POST
    \<and> req_path rq = ''/processing/ioc/indicators'' \<and> adding_ioc s'"
proof -
  let ?body = "NewIoc (ni_type (draft_ioc s)) (trim (ni_value (draft_ioc s)))
      (if trim (ni_description (draft_ioc s)) = [] then None else Some (trim (ni_description (draft_ioc s)))) (ni_severity (draft_ioc s))"
  let ?rq = "Request POST ''/processing/ioc/indicators'' (Some ?body)"
  have step: "\<exists>s' g. settle (admin_handler EnterIoc t) True t = (s', [Await ?rq g]) \<and> draft_ioc s' = draft_ioc s \<and> adding_ioc s'"
    if "draft_ioc t = draft_ioc s" for t
    using assms that by (simp add: handle_add_ioc_def io_simps set_error_def)
  from step [OF refl] obtain s1 g1 where 1: "settle (admin_handler EnterIoc s) True s = (s1, [Await ?rq g1])"
    "draft_ioc s1 = draft_ioc s" by blast
  from step [OF 1(2)] obtain s2 g2 where 2: "settle (admin_handler EnterIoc s1) True s1 = (s2, [Await ?rq g2])"
    "adding_ioc s2" by blast
  have "reachable admin_handler s (s1, [] @ [Await ?rq g1])"
    by (rule reach_fire [where handler = admin_handler and e = EnterIoc, OF reachable.initially 1(1)])
  then have "reachable admin_handler s (s2, ([] @ [Await ?rq g1]) @ [Await ?rq g2])"
    by (rule reach_fire [where handler = admin_handler and e = EnterIoc, OF _ 2(1)])
  then have "reachable admin_handler s (s2, [Await ?rq g1, Await ?rq g2])" by simp
  moreover have "req_method ?rq = POST \<and> req_path ?rq = ''/processing/ioc/indicators''" by simp
  ultimately show ?thesis using 2(2) by blast
qed

lemma enter_adds_twice_witness:
  "\<exists>s' g1 g2 rq. reachable admin_handler ((initial_admin None sample_browser)\<lparr>draft_ioc := empty_ioc\<lparr>ni_value := ''evil.com''\<rparr>\<rparr>)
    (s', [Await rq g1, Await rq g2]) \<and> req_method rq = POST \<and> req_path rq = ''/processing/ioc/indicators'' \<and> adding_ioc s'"
  by (rule enter_adds_twice) (simp add: empty_ioc_def trim_def is_space_def)

end
