(* ===== verification/Hypotheses.thy ===== *)
theory Hypotheses
  imports Prelude
begin

text \<open>
  \<open>pages/HypothesisBuilder.tsx\<close>: the form that records and edits attack hypotheses.  A mutation is the
  program of its function followed by its success or error callback.
\<close>

section \<open>Data and state\<close>

record hypothesis =
  h_id :: string
  h_title :: string
  h_description :: "string option"
  h_tactic :: "string option"
  h_technique :: "string option"
  h_confidence :: string
  h_status :: string
  h_refs :: "string list"

record hypothesis_form =
  hf_title :: string
  hf_description :: string
  hf_tactic :: string
  hf_technique :: string
  hf_confidence :: string
  hf_status :: string
  hf_refs :: string

definition is_hypothesis_confidence :: "string \<Rightarrow> bool" where
  "is_hypothesis_confidence v \<longleftrightarrow> v \<in> set [''LOW'', ''MEDIUM'', ''HIGH'']"

definition is_hypothesis_status :: "string \<Rightarrow> bool" where
  "is_hypothesis_status v \<longleftrightarrow> v \<in> set [''OPEN'', ''CONFIRMED'', ''REFUTED'']"

definition mitre_tactics :: "string list" where
  "mitre_tactics = [''Initial Access'', ''Execution'', ''Persistence'', ''Privilege Escalation'',
     ''Defense Evasion'', ''Credential Access'', ''Discovery'', ''Lateral Movement'', ''Collection'',
     ''Command and Control'', ''Exfiltration'', ''Impact'']"

definition confidence_colors :: "string jsobj" where
  "confidence_colors = [(''LOW'', ''text-yellow-500''), (''MEDIUM'', ''text-orange-400''), (''HIGH'', ''text-destructive'')]"

record hypothesis_page =
  show_form :: bool
  edit_id :: "string option"
  hform :: hypothesis_form

record hypothesis_body =
  hb_title :: string
  hb_description :: "string option"
  hb_tactic :: "string option"
  hb_technique :: "string option"
  hb_confidence :: string
  hb_status :: string
  hb_refs :: "string list"

definition blank_form :: hypothesis_form where
  "blank_form = \<lparr>hf_title = [], hf_description = [], hf_tactic = [], hf_technique = [],
     hf_confidence = ''LOW'', hf_status = ''OPEN'', hf_refs = []\<rparr>"

definition initial_hypotheses :: hypothesis_page where
  "initial_hypotheses = \<lparr>show_form = False, edit_id = None, hform = blank_form\<rparr>"

definition can_edit :: "string option \<Rightarrow> bool" where
  "can_edit role = (role = Some ''admin'' \<or> role = Some ''operator'')"

section \<open>Operations\<close>

definition or_text :: "string option \<Rightarrow> string \<Rightarrow> string" where
  "or_text v d = (case v of Some t \<Rightarrow> if t = [] then d else t | None \<Rightarrow> d)"

definition prefill_effect :: "string option \<Rightarrow> string option \<Rightarrow> hypothesis_page \<Rightarrow> hypothesis_page" where
  "prefill_effect pre_title pre_evidence s =
     (if or_text pre_title [] = [] \<and> or_text pre_evidence [] = [] then s
      else s\<lparr>hform := (hform s)\<lparr>hf_title := or_text pre_title (hf_title (hform s)),
               hf_refs := or_text pre_evidence (hf_refs (hform s))\<rparr>, show_form := True\<rparr>)"

definition reset_form :: "hypothesis_page \<Rightarrow> hypothesis_page" where
  "reset_form s = s\<lparr>hform := blank_form, edit_id := None, show_form := False\<rparr>"

definition text_or_null :: "string \<Rightarrow> string option" where
  "text_or_null t = (if t = [] then None else Some t)"

definition newline :: char where
  "newline = CHR 0x0A"

definition refs_of :: "string \<Rightarrow> string list" where
  "refs_of t = (if t = [] then [] else filter (\<lambda>r. r \<noteq> []) (map trim (split_at_char newline t)))"

definition save_body :: "hypothesis_form \<Rightarrow> hypothesis_body" where
  "save_body f = \<lparr>hb_title = hf_title f, hb_description = text_or_null (hf_description f),
     hb_tactic = text_or_null (hf_tactic f), hb_technique = text_or_null (hf_technique f),
     hb_confidence = hf_confidence f, hb_status = hf_status f, hb_refs = refs_of (hf_refs f)\<rparr>"

definition base_path :: "string \<Rightarrow> string" where
  "base_path i = ''/platform/incidents/'' @ i @ ''/hypotheses''"

type_synonym hypothesis_io = "(hypothesis_page, unit, hypothesis_body, unit) io"

definition save_hypothesis :: "string \<Rightarrow> hypothesis_io" where
  "save_hypothesis i = Read (\<lambda>s0.
     tryCatch
       (call (case edit_id s0 of
           Some e \<Rightarrow> if e = [] then Request POST (base_path i) (Some (save_body (hform s0)))
             else Request PATCH (base_path i @ ''/'' @ e) (Some (save_body (hform s0)))
         | None \<Rightarrow> Request POST (base_path i) (Some (save_body (hform s0))))
         (\<lambda>_. Emit (Invalidate [''hypotheses'', i])
           (Read (\<lambda>s1. Emit (Toast (if or_text (edit_id s1) [] = [] then ''Hypothesis created'' else ''Hypothesis updated'') [] [])
             (Update reset_form Done)))))
       (\<lambda>_. Emit (Toast ''Save failed'' [] ''destructive'') Done))"

definition delete_hypothesis :: "string \<Rightarrow> string \<Rightarrow> hypothesis_io" where
  "delete_hypothesis i h = tryCatch
     (apiDelete (base_path i @ ''/'' @ h) (\<lambda>_.
        Emit (Invalidate [''hypotheses'', i]) (Emit (Toast ''Hypothesis deleted'' [] []) Done)))
     (\<lambda>_. Emit (Toast ''Delete failed'' [] ''destructive'') Done)"

definition handle_edit :: "hypothesis \<Rightarrow> hypothesis_page \<Rightarrow> hypothesis_page" where
  "handle_edit h s = s\<lparr>hform := \<lparr>hf_title = h_title h, hf_description = or_text (h_description h) [],
       hf_tactic = or_text (h_tactic h) [], hf_technique = or_text (h_technique h) [],
       hf_confidence = h_confidence h, hf_status = h_status h, hf_refs = join_with [newline] (h_refs h)\<rparr>,
     edit_id := Some (h_id h), show_form := True\<rparr>"

definition new_hypothesis :: "hypothesis_page \<Rightarrow> hypothesis_page" where
  "new_hypothesis s = (reset_form s)\<lparr>show_form := True\<rparr>"

section \<open>Lemmas\<close>

lemma split_single: "d \<notin> set x \<Longrightarrow> split_at_char d x = [x]"
  by (induction x) auto

lemma split_append: "d \<notin> set x \<Longrightarrow> split_at_char d (x @ d # t) = x # split_at_char d t"
  by (induction x) auto

lemma split_join:
  "xs \<noteq> [] \<Longrightarrow> \<forall>x \<in> set xs. d \<notin> set x \<Longrightarrow> split_at_char d (join_with [d] xs) = xs"
proof (induction xs)
  case (Cons x xs)
  then show ?case by (cases xs) (simp_all add: split_single split_append)
qed simp

text \<open>A reference that the field can hold: one line, without blanks around it.\<close>

definition plain_ref :: "string \<Rightarrow> bool" where
  "plain_ref r \<longleftrightarrow> r \<noteq> [] \<and> newline \<notin> set r \<and> trim r = r"

lemma refs_round_trip:
  assumes "list_all plain_ref rs"
  shows "refs_of (join_with [newline] rs) = rs"
proof (cases "rs = []")
  case False
  then have s: "split_at_char newline (join_with [newline] rs) = rs"
    using assms by (intro split_join) (auto simp: list_all_iff plain_ref_def)
  have "join_with [newline] rs \<noteq> []"
    using False assms by (cases rs; cases "tl rs") (auto simp: plain_ref_def)
  moreover have "map trim rs = rs" using assms by (intro map_idI) (simp add: list_all_iff plain_ref_def)
  moreover have "filter (\<lambda>r. r \<noteq> []) rs = rs" using assms by (simp add: list_all_iff plain_ref_def filter_id_conv)
  ultimately show ?thesis by (simp add: refs_of_def s)
qed (simp add: refs_of_def)

section \<open>Properties\<close>

text \<open>Editing without a change loses nothing: opening a hypothesis and saving it sends one patch to it with
  exactly its fields, when no optional field is the empty text and each reference is one trimmed line.\<close>

theorem unchanged_edit_sends_back:
  assumes "h_id h \<noteq> []" and "h_description h \<noteq> Some []" and "h_tactic h \<noteq> Some []"
    and "h_technique h \<noteq> Some []" and "list_all plain_ref (h_refs h)"
  shows "requests_of srv yes (save_hypothesis i) w (handle_edit h s) =
    [Request PATCH (base_path i @ ''/'' @ h_id h) (Some
      \<lparr>hb_title = h_title h, hb_description = h_description h, hb_tactic = h_tactic h,
       hb_technique = h_technique h, hb_confidence = h_confidence h, hb_status = h_status h,
       hb_refs = h_refs h\<rparr>)]"
proof -
  have opt: "text_or_null (or_text v []) = v" if "v \<noteq> Some []" for v
    using that by (auto simp: text_or_null_def or_text_def split: option.split)
  have "save_body (hform (handle_edit h s)) = \<lparr>hb_title = h_title h, hb_description = h_description h,
      hb_tactic = h_tactic h, hb_technique = h_technique h, hb_confidence = h_confidence h,
      hb_status = h_status h, hb_refs = h_refs h\<rparr>"
    using assms by (simp add: save_body_def handle_edit_def opt refs_round_trip)
  moreover have "edit_id (handle_edit h s) = Some (h_id h)" by (simp add: handle_edit_def)
  ultimately show ?thesis using assms(1)
    by (auto simp: save_hypothesis_def io_simps split: sum.split)
qed

definition sample_hypothesis :: hypothesis where
  "sample_hypothesis = \<lparr>h_id = ''h1'', h_title = ''pth'', h_description = None, h_tactic = Some ''Impact'',
     h_technique = None, h_confidence = ''LOW'', h_status = ''OPEN'', h_refs = [''a'', ''b'']\<rparr>"

theorem unchanged_edit_sends_back_witness:
  "map req_path (requests_of (stateless (\<lambda>_. Inr ())) True (save_hypothesis ''i1'') ()
     (handle_edit sample_hypothesis initial_hypotheses)) = [''/platform/incidents/i1/hypotheses/h1'']"
  using unchanged_edit_sends_back [of sample_hypothesis "stateless (\<lambda>_. Inr ())" True "''i1''" "()" initial_hypotheses]
  by (simp add: sample_hypothesis_def plain_ref_def newline_def trim_def is_space_def base_path_def)

end
