(* ===== verification/AuditLog.thy ===== *)
theory AuditLog
  imports Hooks Json
begin

text \<open>
  The audit log: the tab of \<open>pages/AdminSettings.tsx\<close> with its debounced filters, its pages and its CSV
  export, and the page \<open>pages/AuditLog.tsx\<close> with its own.  \<open>URLSearchParams\<close> is a list of pairs put in
  order, \<open>encodeURIComponent\<close> and the clock are parameters.  \<open>read_csv\<close> is the reader of RFC 4180 that an
  exported file is meant for.
\<close>

section \<open>Query strings\<close>

type_synonym params = "(string \<times> string) list"

definition query_string :: "(string \<Rightarrow> string) \<Rightarrow> params \<Rightarrow> string" where
  "query_string enc ps = join_with ''&'' (map (\<lambda>(k, v). enc k @ ''='' @ enc v) ps)"

text \<open>\<open>if (v) params.set(k, v)\<close> for a key that is not yet there.\<close>

definition set_if :: "bool \<Rightarrow> string \<Rightarrow> string \<Rightarrow> params" where
  "set_if b k v = (if b then [(k, v)] else [])"

section \<open>Data and the tab's state\<close>

record audit_entry =
  ae_id :: string
  ae_event_id :: string
  ae_timestamp :: string
  ae_event_type :: string
  ae_actor_type :: string
  ae_actor_id :: string
  ae_source :: string
  ae_action :: string
  ae_target_type :: "string option"
  ae_target_id :: "string option"
  ae_status :: string
  ae_message :: string

datatype audit_reply = AuditList "audit_entry list" int

fun the_audit where "the_audit (AuditList es n) = Some (es, n)"

record audit_tab =
  audit_logs :: "audit_entry list"
  audit_event_type :: "string debouncer"
  audit_actor_id :: "string debouncer"
  audit_target_id :: "string debouncer"
  audit_from :: string
  audit_to :: string
  audit_status :: string
  audit_expanded :: "string option"
  audit_total :: int
  audit_page :: int
  audit_per_page :: nat
  audit_error :: "string option"
  event_type_input :: string
  actor_id_input :: string
  target_id_input :: string

definition initial_audit :: audit_tab where
  "initial_audit = \<lparr>audit_logs = [], audit_event_type = debounce_start [] 0 400, audit_actor_id = debounce_start [] 0 400,
     audit_target_id = debounce_start [] 0 400, audit_from = [], audit_to = [], audit_status = ''all'',
     audit_expanded = None, audit_total = 0, audit_page = 1, audit_per_page = 25, audit_error = None,
     event_type_input = [], actor_id_input = [], target_id_input = []\<rparr>"

type_synonym audit_io = "(audit_tab, audit_reply, unit, unit) io"

section \<open>Operations of the tab\<close>

text \<open>The filters proper, and the limit and offset before them.\<close>

definition audit_filters :: "audit_tab \<Rightarrow> params" where
  "audit_filters s =
     (let ev = published (audit_event_type s); ac = published (audit_actor_id s); tg = published (audit_target_id s)
      in set_if (trim ev \<noteq> []) ''event_type'' (trim ev) @ set_if (trim ac \<noteq> []) ''actor_id'' (trim ac) @
         set_if (trim tg \<noteq> []) ''target_id'' (trim tg) @ set_if (audit_from s \<noteq> []) ''date_from'' (audit_from s) @
         set_if (audit_to s \<noteq> []) ''date_to'' (audit_to s) @
         set_if (audit_status s \<noteq> ''all'') ''status'' (audit_status s))"

definition build_audit_params :: "nat option \<Rightarrow> int option \<Rightarrow> audit_tab \<Rightarrow> params" where
  "build_audit_params most from_row s =
     (''limit'', nat_str (case most of Some n \<Rightarrow> n | None \<Rightarrow> audit_per_page s)) #
     (''offset'', int_str (case from_row of Some n \<Rightarrow> n | None \<Rightarrow> (audit_page s - 1) * int (audit_per_page s))) #
     audit_filters s"

definition load_audit_logs :: "(string \<Rightarrow> string) \<Rightarrow> audit_io" where
  "load_audit_logs enc = Update (\<lambda>s. s\<lparr>audit_error := None\<rparr>)
     (tryCatch
       (Read (\<lambda>s0. apiGet (''/audit-logs?'' @ query_string enc (build_audit_params None None s0)) (expect the_audit (\<lambda>(es, n).
          Update (\<lambda>s. s\<lparr>audit_logs := es\<rparr>) (Update (\<lambda>s. s\<lparr>audit_total := n\<rparr>) Done)))))
       (\<lambda>_. Update (\<lambda>s. s\<lparr>audit_error := Some ''Unable to load audit log entries.''\<rparr>) Done))"

definition csv_header :: string where
  "csv_header = ''timestamp,event_type,actor_id,action,target_type,target_id,status,message,source'' @ [CHR 0x0A]"

text \<open>\<open>`"${s.replace(/"/g, '""')}"`\<close>.\<close>

definition csv_quote :: "string \<Rightarrow> string" where
  "csv_quote t = quote_char # concat (map (\<lambda>c. if c = quote_char then [quote_char, quote_char] else [c]) t) @ [quote_char]"

definition text_or_empty :: "string option \<Rightarrow> string" where
  "text_or_empty t = (case t of Some x \<Rightarrow> x | None \<Rightarrow> [])"

definition csv_row :: "audit_entry \<Rightarrow> string" where
  "csv_row e = join_with '','' [ae_timestamp e, ae_event_type e, ae_actor_id e, ae_action e,
     text_or_empty (ae_target_type e), text_or_empty (ae_target_id e), ae_status e, csv_quote (ae_message e), ae_source e]"

definition audit_csv :: "audit_entry list \<Rightarrow> string" where
  "audit_csv es = csv_header @ join_with [CHR 0x0A] (map csv_row es)"

text \<open>A link to a blob that is clicked saves a file: its name and its text.\<close>

definition export_audit_logs :: "(string \<Rightarrow> string) \<Rightarrow> string \<Rightarrow> audit_io" where
  "export_audit_logs enc now_iso = tryCatch
     (Read (\<lambda>s0. apiGet (''/audit-logs?'' @ query_string enc (build_audit_params (Some 10000) (Some 0) s0))
        (expect the_audit (\<lambda>(es, n).
           Emit (SaveFile (''audit-log-'' @ slice 0 10 now_iso @ ''.csv'') (audit_csv es)) Done))))
     (\<lambda>_. Update (\<lambda>s. s\<lparr>audit_error := Some ''Unable to export audit log.''\<rparr>) Done)"

text \<open>Typing in a filter field sets it, restarts its debounce and goes back to the first page.\<close>

definition type_event_filter :: "string \<Rightarrow> nat \<Rightarrow> audit_tab \<Rightarrow> audit_tab" where
  "type_event_filter v now s = s\<lparr>event_type_input := v, audit_event_type := debounce_change v now 400 (audit_event_type s),
     audit_page := 1\<rparr>"

definition type_actor_filter :: "string \<Rightarrow> nat \<Rightarrow> audit_tab \<Rightarrow> audit_tab" where
  "type_actor_filter v now s = s\<lparr>actor_id_input := v, audit_actor_id := debounce_change v now 400 (audit_actor_id s),
     audit_page := 1\<rparr>"

definition type_target_filter :: "string \<Rightarrow> nat \<Rightarrow> audit_tab \<Rightarrow> audit_tab" where
  "type_target_filter v now s = s\<lparr>target_id_input := v, audit_target_id := debounce_change v now 400 (audit_target_id s),
     audit_page := 1\<rparr>"

definition debounces_tick :: "nat \<Rightarrow> audit_tab \<Rightarrow> audit_tab" where
  "debounces_tick now s = s\<lparr>audit_event_type := debounce_tick now (audit_event_type s),
     audit_actor_id := debounce_tick now (audit_actor_id s), audit_target_id := debounce_tick now (audit_target_id s)\<rparr>"

definition set_audit_from :: "string \<Rightarrow> audit_tab \<Rightarrow> audit_tab" where
  "set_audit_from v s = s\<lparr>audit_from := v, audit_page := 1\<rparr>"

definition set_audit_to :: "string \<Rightarrow> audit_tab \<Rightarrow> audit_tab" where
  "set_audit_to v s = s\<lparr>audit_to := v, audit_page := 1\<rparr>"

definition clear_audit_dates :: "audit_tab \<Rightarrow> audit_tab" where
  "clear_audit_dates s = s\<lparr>audit_from := [], audit_to := [], audit_page := 1\<rparr>"

definition set_audit_status :: "string \<Rightarrow> audit_tab \<Rightarrow> audit_tab" where
  "set_audit_status v s = s\<lparr>audit_status := v, audit_page := 1\<rparr>"

definition status_choices :: "string list" where
  "status_choices = [''all'', ''success'', ''failure'']"

definition status_chip_class :: "string \<Rightarrow> string \<Rightarrow> string" where
  "status_chip_class current s = (if current = s
     then (if s = ''success'' then ''border-green-500/50 bg-green-500/15 text-green-400''
       else if s = ''failure'' then ''border-red-500/50 bg-red-500/15 text-red-400''
       else ''border-primary/50 bg-primary/10 text-primary'')
     else ''border-border/50 bg-secondary/30 text-muted-foreground hover:border-primary/30'')"

definition toggle_expanded :: "audit_entry \<Rightarrow> audit_tab \<Rightarrow> audit_tab" where
  "toggle_expanded e s = s\<lparr>audit_expanded := (if audit_expanded s = Some (ae_id e) then None else Some (ae_id e))\<rparr>"

definition set_audit_page :: "int \<Rightarrow> audit_tab \<Rightarrow> audit_tab" where
  "set_audit_page k s = s\<lparr>audit_page := k\<rparr>"

definition set_audit_per_page :: "nat \<Rightarrow> audit_tab \<Rightarrow> audit_tab" where
  "set_audit_per_page n s = s\<lparr>audit_per_page := n, audit_page := 1\<rparr>"

definition audit_total_pages :: "audit_tab \<Rightarrow> nat" where
  "audit_total_pages s = total_pages (nat (audit_total s)) (audit_per_page s)"

text \<open>A row of the table: the cells and the detail below it when it is expanded.\<close>

definition dash_or :: "string option \<Rightarrow> string" where
  "dash_or t = (case t of Some x \<Rightarrow> x | None \<Rightarrow> em_dash)"

definition audit_status_class :: "audit_entry \<Rightarrow> string" where
  "audit_status_class e = (if ae_status e = ''success'' then ''text-green-400 border-green-400/30 bg-green-400/10''
     else if ae_status e = ''failure'' then ''text-red-400 border-red-400/30 bg-red-400/10''
     else ''text-muted-foreground border-border bg-secondary'')"

definition audit_cells :: "(string \<Rightarrow> string) \<Rightarrow> (string \<Rightarrow> string) \<Rightarrow> audit_entry \<Rightarrow> string list" where
  "audit_cells date_of time_of e = [date_of (ae_timestamp e), time_of (ae_timestamp e), ae_event_type e, ae_actor_id e,
     ae_action e, dash_or (ae_target_id e), ae_status e]"

definition audit_detail :: "audit_tab \<Rightarrow> audit_entry \<Rightarrow> (string \<times> string) list option" where
  "audit_detail s e = (if audit_expanded s = Some (ae_id e)
     then Some [(''SOURCE:'', ae_source e), (''ACTOR TYPE:'', ae_actor_type e), (''TARGET TYPE:'', dash_or (ae_target_type e)),
       (''EVENT ID:'', ae_event_id e), (''MESSAGE: '', ae_message e)]
     else None)"

section \<open>The audit log page\<close>

record audit_page_entry =
  ap_id :: string
  ap_event_id :: string
  ap_actor_type :: string
  ap_source :: string
  ap_metadata :: "jsval option"
  ap_event_type :: string
  ap_actor_id :: string
  ap_action :: string
  ap_target_type :: "string option"
  ap_target_id :: "string option"
  ap_status :: string
  ap_message :: "string option"
  ap_created_at :: string

record audit_log_page =
  al_event_type :: string
  al_actor_id :: string
  al_target_id :: string
  al_from :: string
  al_to :: string
  al_page :: int

definition initial_audit_log :: audit_log_page where
  "initial_audit_log = \<lparr>al_event_type = [], al_actor_id = [], al_target_id = [], al_from = [], al_to = [], al_page = 1\<rparr>"

definition page_limit :: int where
  "page_limit = 50"

text \<open>\<open>to_iso\<close> is \<open>new Date(v).toISOString()\<close>, \<open>None\<close> for the exception of an invalid date.\<close>

definition audit_log_params :: "(string \<Rightarrow> string option) \<Rightarrow> audit_log_page \<Rightarrow> params option" where
  "audit_log_params to_iso s =
     (case ((if al_from s = [] then Some [] else map_option (\<lambda>v. [(''date_from'', v)]) (to_iso (al_from s))),
            (if al_to s = [] then Some [] else map_option (\<lambda>v. [(''date_to'', v)]) (to_iso (al_to s @ ''T23:59:59'')))) of
       (Some a, Some b) \<Rightarrow> Some ((''limit'', int_str page_limit) # (''offset'', int_str ((al_page s - 1) * page_limit)) #
          set_if (al_event_type s \<noteq> []) ''event_type'' (al_event_type s) @
          set_if (al_actor_id s \<noteq> []) ''actor_id'' (al_actor_id s) @
          set_if (al_target_id s \<noteq> []) ''target_id'' (al_target_id s) @ a @ b)
     | _ \<Rightarrow> None)"

definition al_total_pages :: "nat \<Rightarrow> int" where
  "al_total_pages n = (let k = (int n + page_limit - 1) div page_limit in if k = 0 then 1 else k)"

definition semicolons :: "string \<Rightarrow> string" where
  "semicolons t = map (\<lambda>c. if c = CHR '','' then CHR '';'' else c) t"

definition al_row :: "(string \<Rightarrow> string option) \<Rightarrow> audit_page_entry \<Rightarrow> string list option" where
  "al_row to_iso e = map_option (\<lambda>t. [t, ap_event_type e, ap_actor_id e, ap_action e, text_or_empty (ap_target_type e),
     text_or_empty (ap_target_id e), ap_status e, semicolons (text_or_empty (ap_message e))]) (to_iso (ap_created_at e))"

definition al_header :: "string list" where
  "al_header = [''timestamp'', ''event_type'', ''actor_id'', ''action'', ''target_type'', ''target_id'', ''status'', ''message'']"

text \<open>The text of the export; \<open>None\<close> when a date throws.\<close>

fun all_some :: "'a option list \<Rightarrow> 'a list option" where
  "all_some [] = Some []"
| "all_some (x # xs) = (case (x, all_some xs) of (Some a, Some as) \<Rightarrow> Some (a # as) | _ \<Rightarrow> None)"

definition al_csv :: "(string \<Rightarrow> string option) \<Rightarrow> audit_page_entry list \<Rightarrow> string option" where
  "al_csv to_iso es = map_option (\<lambda>rows. join_with [CHR 0x0A] (map (join_with '','') (al_header # rows)))
     (all_some (map (al_row to_iso) es))"

definition al_set_target :: "string \<Rightarrow> audit_log_page \<Rightarrow> audit_log_page" where
  "al_set_target v s = s\<lparr>al_target_id := v, al_page := 1\<rparr>"

definition al_set_event :: "string \<Rightarrow> audit_log_page \<Rightarrow> audit_log_page" where
  "al_set_event v s = s\<lparr>al_event_type := v, al_page := 1\<rparr>"

definition al_set_actor :: "string \<Rightarrow> audit_log_page \<Rightarrow> audit_log_page" where
  "al_set_actor v s = s\<lparr>al_actor_id := v, al_page := 1\<rparr>"

definition al_set_from :: "string \<Rightarrow> audit_log_page \<Rightarrow> audit_log_page" where
  "al_set_from v s = s\<lparr>al_from := v, al_page := 1\<rparr>"

definition al_set_to :: "string \<Rightarrow> audit_log_page \<Rightarrow> audit_log_page" where
  "al_set_to v s = s\<lparr>al_to := v, al_page := 1\<rparr>"

definition al_prev :: "audit_log_page \<Rightarrow> audit_log_page" where
  "al_prev s = (if al_page s \<le> 1 then s else s\<lparr>al_page := al_page s - 1\<rparr>)"

definition al_next :: "nat \<Rightarrow> audit_log_page \<Rightarrow> audit_log_page" where
  "al_next n s = (if al_page s \<ge> al_total_pages n then s else s\<lparr>al_page := al_page s + 1\<rparr>)"

definition al_target_cell :: "audit_page_entry \<Rightarrow> string" where
  "al_target_cell e = (case ap_target_type e of
     Some t \<Rightarrow> (if t = [] then em_dash else t @ '':'' @ text_or_empty (ap_target_id e)) | None \<Rightarrow> em_dash)"

definition al_status_color :: "string \<Rightarrow> string" where
  "al_status_color st = (if st = ''success'' then ''text-primary'' else if st = ''failure'' then ''text-destructive''
     else if st = ''warning'' then ''text-yellow-500'' else ''text-foreground'')"

section \<open>Reading a CSV file\<close>

fun read_quoted :: "string \<Rightarrow> string \<times> string" where
  "read_quoted [] = ([], [])"
| "read_quoted (c # cs) =
     (if c = quote_char
      then (case cs of d # ds \<Rightarrow> (if d = quote_char then (let (f, r) = read_quoted ds in (quote_char # f, r)) else ([], cs))
            | [] \<Rightarrow> ([], []))
      else (let (f, r) = read_quoted cs in (c # f, r)))"

definition plain_char :: "char \<Rightarrow> bool" where
  "plain_char c \<longleftrightarrow> c \<noteq> CHR '','' \<and> c \<noteq> quote_char \<and> c \<noteq> CHR 0x0A \<and> c \<noteq> CHR 0x0D"

definition read_field :: "string \<Rightarrow> string \<times> string" where
  "read_field s = (case s of [] \<Rightarrow> ([], []) | c # cs \<Rightarrow>
     if c = quote_char then read_quoted cs else (takeWhile plain_char s, dropWhile plain_char s))"

fun read_record :: "nat \<Rightarrow> string \<Rightarrow> string list \<times> string" where
  "read_record 0 s = ([], s)"
| "read_record (Suc n) s = (let (f, r) = read_field s in case r of
     [] \<Rightarrow> ([f], [])
   | c # cs \<Rightarrow> if c = CHR '','' then (let (fs, r') = read_record n cs in (f # fs, r')) else ([f], cs))"

fun read_csv :: "nat \<Rightarrow> string \<Rightarrow> string list list" where
  "read_csv 0 s = []"
| "read_csv (Suc n) s = (if s = [] then [] else let (fs, r) = read_record (Suc (length s)) s in fs # read_csv n r)"

section \<open>Lemmas on the reader\<close>

lemma read_quoted_quotes:
  "read_quoted (concat (map (\<lambda>c. if c = quote_char then [quote_char, quote_char] else [c]) t) @ quote_char # r) =
     (if r \<noteq> [] \<and> hd r = quote_char then read_quoted (concat (map (\<lambda>c. if c = quote_char then [quote_char, quote_char] else [c]) t) @ quote_char # r)
      else (t, r))"
  by (induction t) (auto split: list.split)

lemma read_field_quoted: "r = [] \<or> hd r \<noteq> quote_char \<Longrightarrow> read_field (csv_quote t @ r) = (t, r)"
  using read_quoted_quotes [of t r] by (auto simp: read_field_def csv_quote_def)

lemma read_field_plain:
  assumes "list_all plain_char t" and "r = [] \<or> (\<not> plain_char (hd r) \<and> hd r \<noteq> quote_char)"
  shows "read_field (t @ r) = (t, r)"
proof -
  have "takeWhile plain_char (t @ r) = t" "dropWhile plain_char (t @ r) = r"
    using assms by (cases r; auto simp: list_all_iff takeWhile_append dropWhile_append)+
  moreover have "t @ r \<noteq> [] \<Longrightarrow> hd (t @ r) \<noteq> quote_char"
    using assms by (cases t) (auto simp: plain_char_def)
  ultimately show ?thesis
    by (cases "t @ r") (auto simp: read_field_def)
qed

text \<open>A field as the export writes it: raw, or in quotes.\<close>

definition field_text :: "bool \<times> string \<Rightarrow> string" where
  "field_text f = (if fst f then csv_quote (snd f) else snd f)"

definition field_ok :: "bool \<times> string \<Rightarrow> bool" where
  "field_ok f \<longleftrightarrow> fst f \<or> list_all plain_char (snd f)"

lemma read_field_text:
  assumes "field_ok f" and "r = [] \<or> hd r = CHR '','' \<or> hd r = CHR 0x0A"
  shows "read_field (field_text f @ r) = (snd f, r)"
  using assms
  by (auto simp: field_ok_def field_text_def quote_char_def plain_char_def
      intro!: read_field_quoted read_field_plain)

lemma read_record_fields:
  assumes "fs \<noteq> []" and "list_all field_ok fs" and "length fs \<le> n"
    and "r = [] \<or> hd r = CHR 0x0A"
  shows "read_record n (join_with '','' (map field_text fs) @ r) = (map snd fs, drop 1 r)"
  using assms
proof (induction fs arbitrary: n rule: list_nonempty_induct)
  case (single f)
  then obtain m where "n = Suc m" by (cases n) auto
  with single show ?case
    using read_field_text [of f r] by (cases r) (auto simp: Let_def)
next
  case (cons f fs)
  then obtain m where m: "n = Suc m" "length fs \<le> m" by (cases n) auto
  have j: "join_with '','' (field_text f # map field_text fs) = field_text f @ CHR '','' # join_with '','' (map field_text fs)"
    using cons(1) by (cases fs) auto
  have "read_field (field_text f @ CHR '','' # join_with '','' (map field_text fs) @ r) =
      (snd f, CHR '','' # join_with '','' (map field_text fs) @ r)"
    using cons by (intro read_field_text) auto
  then show ?case using cons m by (simp add: j)
qed

definition line_text :: "(bool \<times> string) list \<Rightarrow> string" where
  "line_text fs = join_with '','' (map field_text fs)"

lemma length_line: "fs \<noteq> [] \<Longrightarrow> length fs \<le> Suc (length (line_text fs))"
proof (induction fs rule: list_nonempty_induct)
  case (cons f fs)
  then show ?case by (cases fs) (auto simp: line_text_def)
qed simp

lemma line_nonempty: "2 \<le> length fs \<Longrightarrow> line_text fs \<noteq> []"
  using length_line [of fs] by (cases fs) auto

lemma read_csv_lines:
  assumes "list_all (\<lambda>fs. 2 \<le> length fs \<and> list_all field_ok fs) rows" and "length rows \<le> n"
  shows "read_csv n (join_with [CHR 0x0A] (map line_text rows)) = map (map snd) rows"
  using assms
proof (induction rows arbitrary: n)
  case Nil
  then show ?case by (cases n) auto
next
  case (Cons fs rows)
  then obtain m where m: "n = Suc m" "length rows \<le> m" by (cases n) auto
  let ?r = "if rows = [] then [] else CHR 0x0A # join_with [CHR 0x0A] (map line_text rows)"
  have t: "join_with [CHR 0x0A] (map line_text (fs # rows)) = line_text fs @ ?r"
    by (cases rows) auto
  have fs: "fs \<noteq> []" "list_all field_ok fs" "line_text fs \<noteq> []"
    using Cons.prems line_nonempty by auto
  have "read_record (Suc (length (line_text fs @ ?r))) (line_text fs @ ?r) = (map snd fs, drop 1 ?r)"
    unfolding line_text_def
    by (rule read_record_fields) (use fs length_line [of fs] in \<open>auto simp: line_text_def\<close>)
  moreover have "drop 1 ?r = join_with [CHR 0x0A] (map line_text rows)" by simp
  ultimately have "read_csv n (line_text fs @ ?r) = map snd fs # read_csv m (join_with [CHR 0x0A] (map line_text rows))"
    unfolding m using fs(3) by simp
  then show ?case using Cons m by (simp only: t) simp
qed

definition entry_fields :: "audit_entry \<Rightarrow> (bool \<times> string) list" where
  "entry_fields e = [(False, ae_timestamp e), (False, ae_event_type e), (False, ae_actor_id e), (False, ae_action e),
     (False, text_or_empty (ae_target_type e)), (False, text_or_empty (ae_target_id e)), (False, ae_status e),
     (True, ae_message e), (False, ae_source e)]"

definition header_fields :: "(bool \<times> string) list" where
  "header_fields = map (Pair False) [''timestamp'', ''event_type'', ''actor_id'', ''action'', ''target_type'', ''target_id'',
     ''status'', ''message'', ''source'']"

text \<open>An entry whose fields but the message have no comma, quote or line break.\<close>

definition plain_entry :: "audit_entry \<Rightarrow> bool" where
  "plain_entry e \<longleftrightarrow> list_all (\<lambda>f. list_all plain_char f)
     [ae_timestamp e, ae_event_type e, ae_actor_id e, ae_action e, text_or_empty (ae_target_type e),
      text_or_empty (ae_target_id e), ae_status e, ae_source e]"

lemma csv_row_line: "csv_row = line_text \<circ> entry_fields"
  by (simp add: fun_eq_iff csv_row_def line_text_def entry_fields_def field_text_def)

lemma csv_header_line: "csv_header = line_text header_fields @ [CHR 0x0A]"
  by (simp add: csv_header_def line_text_def header_fields_def field_text_def)

lemma header_fields_ok: "list_all field_ok header_fields"
  by (simp add: header_fields_def field_ok_def plain_char_def quote_char_def)

lemma audit_csv_lines:
  "es \<noteq> [] \<Longrightarrow> audit_csv es = join_with [CHR 0x0A] (map line_text (header_fields # map entry_fields es))"
  by (cases es) (simp_all add: audit_csv_def csv_header_line csv_row_line comp_def)

section \<open>Properties\<close>

text \<open>C37. The audit log that an administrator exports is read back by a CSV reader as what it was: the header and
  one record of nine fields for each entry, whatever the messages hold (commas, quotes, line breaks), as
  long as the other fields hold none of these.\<close>

theorem audit_csv_reads_back:
  assumes "es \<noteq> []" and "list_all plain_entry es"
  shows "read_csv (Suc (length es)) (audit_csv es) =
    map snd header_fields # map (\<lambda>e. map snd (entry_fields e)) es"
proof -
  have "list_all (\<lambda>fs. 2 \<le> length fs \<and> list_all field_ok fs) (header_fields # map entry_fields es)"
    using assms(2) header_fields_ok
    by (auto simp: list_all_iff entry_fields_def field_ok_def plain_entry_def header_fields_def)
  from read_csv_lines [OF this, of "Suc (length es)"] show ?thesis
    by (simp add: audit_csv_lines [OF assms(1)] comp_def)
qed

definition sample_entry :: "string \<Rightarrow> audit_entry" where
  "sample_entry m = \<lparr>ae_id = ''1'', ae_event_id = ''e1'', ae_timestamp = ''2026'', ae_event_type = ''login'', ae_actor_type = ''user'',
     ae_actor_id = ''ana'', ae_source = ''backend'', ae_action = ''login'', ae_target_type = None, ae_target_id = None,
     ae_status = ''failure'', ae_message = m\<rparr>"

theorem audit_csv_reads_back_witness:
  "map (\<lambda>r. r ! 7) (tl (read_csv 2 (audit_csv [sample_entry (''no, '' @ [quote_char] @ ''root'' @ [quote_char, CHR 0x0A])]))) =
     [''no, '' @ [quote_char] @ ''root'' @ [quote_char, CHR 0x0A]]"
proof -
  let ?e = "sample_entry (''no, '' @ [quote_char] @ ''root'' @ [quote_char, CHR 0x0A])"
  have "list_all plain_entry [?e]"
    by (simp add: plain_entry_def sample_entry_def plain_char_def quote_char_def text_or_empty_def)
  from audit_csv_reads_back [OF _ this]
  have "read_csv 2 (audit_csv [?e]) = map snd header_fields # map (\<lambda>e. map snd (entry_fields e)) [?e]"
    by (simp add: numeral_2_eq_2 del: read_csv.simps)
  then show ?thesis by (simp only: list.sel list.map) (simp add: entry_fields_def sample_entry_def)
qed

text \<open>The export of the audit log page quotes nothing, so a line break in a message tears its record apart.\<close>

lemma audit_page_csv_tears:
  "map_option (read_csv 3) (al_csv Some [\<lparr>ap_id = ''1'', ap_event_id = ''e1'', ap_actor_type = ''user'', ap_source = ''api'', ap_metadata = None,
    ap_event_type = ''login'', ap_actor_id = ''ana'', ap_action = ''login'',
       ap_target_type = None, ap_target_id = None, ap_status = ''failure'', ap_message = Some ([CHR ''a'', CHR 0x0A, CHR ''b'']),
       ap_created_at = ''2026''\<rparr>]) =
   Some [al_header, [''2026'', ''login'', ''ana'', ''login'', [], [], ''failure'', ''a''], [''b'']]"
  by code_simp

lemma nat_str_0: "nat_str 0 = ''0''"
  by (simp add: str_eval)

text \<open>Every filter of the audit tab goes back to the first page and keeps its date and status filters; the
  export asks for the same entries as the table, from the first.\<close>

theorem audit_filters_reset_page:
  "list_all (\<lambda>f. audit_page (f s) = 1 \<and> build_audit_params None None (f s) ! 1 = (''offset'', ''0''))
     [type_event_filter v now, type_actor_filter v now, type_target_filter v now, set_audit_from v, set_audit_to v,
      clear_audit_dates, set_audit_status v, set_audit_per_page n] \<and>
   drop 2 (build_audit_params (Some 10000) (Some 0) s) = drop 2 (build_audit_params None None s)"
  by (simp add: type_event_filter_def type_actor_filter_def type_target_filter_def set_audit_from_def set_audit_to_def
      clear_audit_dates_def set_audit_status_def set_audit_per_page_def build_audit_params_def int_str_def nat_str_0)

text \<open>The export never works against the backend: it asks for ten thousand entries, the endpoint accepts at most
  a thousand and answers anything else with an error, so every attempt ends with the message and no file.\<close>

theorem audit_export_refused:
  assumes "\<And>w p. srv w (Request GET (''/audit-logs?'' @ query_string enc ((''limit'', ''10000'') # p)) None) = (Inl e, w)"
  shows "audit_error (final_state srv yes (export_audit_logs enc now) w s) = Some ''Unable to export audit log.'' \<and>
    list_all (\<lambda>ef. case ef of SaveFile _ _ \<Rightarrow> False | _ \<Rightarrow> True) (effects_of srv yes (export_audit_logs enc now) w s)"
proof -
  have "nat_str 10000 = ''10000''" by (simp add: str_eval)
  then show ?thesis
    using assms by (simp add: export_audit_logs_def build_audit_params_def io_simps)
qed

theorem audit_export_refused_witness:
  "audit_error (final_state (stateless (\<lambda>_. Inl NonError)) True (export_audit_logs id ''2026'') () initial_audit) =
     Some ''Unable to export audit log.''"
  using audit_export_refused [of "stateless (\<lambda>_. Inl NonError)" id NonError True "''2026''" "()" initial_audit]
  by (simp add: stateless_def)

end
