(* ===== verification/Regex.thy ===== *)
theory Regex
  imports Prelude
begin

text \<open>
  Regular expressions with JavaScript's backtracking semantics, for the patterns the frontend
  writes: \<open>re_match\<close> lists the ways a pattern matches at a position in the order the engine tries
  them, so the first element is the match.  A position is the character before it (for \<open>\b\<close> and
  \<open>^\<close>) and the text after it.
\<close>

datatype re =
    Eps
  | Cls "char \<Rightarrow> bool"
  | Seq re re
  | Alt re re
  | Rep re nat "nat option"
  | WordBoundary
  | Begin
  | End

definition word_char :: "char \<Rightarrow> bool" where
  "word_char c = (48 \<le> code c \<and> code c \<le> (57::nat) \<or> 65 \<le> code c \<and> code c \<le> (90::nat)
     \<or> 97 \<le> code c \<and> code c \<le> (122::nat) \<or> c = CHR ''_'')"

definition digit :: "char \<Rightarrow> bool" where
  "digit c = (48 \<le> code c \<and> code c \<le> (57::nat))"

text \<open>Greedy repetition: as often as allowed first, giving back one by one.\<close>

primrec repeat_greedy :: "(char option \<Rightarrow> string \<Rightarrow> (char option \<times> string) list) \<Rightarrow> nat \<Rightarrow> nat
    \<Rightarrow> char option \<Rightarrow> string \<Rightarrow> (char option \<times> string) list" where
  "repeat_greedy f 0 lo p s = (if lo = 0 then [(p, s)] else [])"
| "repeat_greedy f (Suc hi) lo p s =
     concat (map (\<lambda>(q, t). if length t < length s then repeat_greedy f hi (lo - 1) q t else []) (f p s))
     @ (if lo = 0 then [(p, s)] else [])"

fun re_match :: "re \<Rightarrow> char option \<Rightarrow> string \<Rightarrow> (char option \<times> string) list" where
  "re_match Eps p s = [(p, s)]"
| "re_match (Cls P) p s = (case s of [] \<Rightarrow> [] | c # cs \<Rightarrow> if P c then [(Some c, cs)] else [])"
| "re_match (Seq a b) p s = concat (map (\<lambda>(q, t). re_match b q t) (re_match a p s))"
| "re_match (Alt a b) p s = re_match a p s @ re_match b p s"
| "re_match (Rep a lo hi) p s =
     repeat_greedy (re_match a) (case hi of None \<Rightarrow> length s | Some h \<Rightarrow> h) lo p s"
| "re_match WordBoundary p s =
     (if (\<exists>c \<in> set_option p. word_char c) \<noteq> (s \<noteq> [] \<and> word_char (hd s)) then [(p, s)] else [])"
| "re_match Begin p s = (if p = None then [(p, s)] else [])"
| "re_match End p s = (if s = [] then [(p, s)] else [])"

abbreviation Opt :: "re \<Rightarrow> re" where "Opt a \<equiv> Rep a 0 (Some 1)"
abbreviation Star :: "re \<Rightarrow> re" where "Star a \<equiv> Rep a 0 None"
abbreviation Plus :: "re \<Rightarrow> re" where "Plus a \<equiv> Rep a 1 None"
abbreviation Chr :: "char \<Rightarrow> re" where "Chr c \<equiv> Cls (\<lambda>x. x = c)"

text \<open>A literal, and a literal under the \<open>i\<close> flag.\<close>

primrec Lit :: "string \<Rightarrow> re" where
  "Lit [] = Eps"
| "Lit (c # cs) = Seq (Chr c) (Lit cs)"

primrec LitI :: "string \<Rightarrow> re" where
  "LitI [] = Eps"
| "LitI (c # cs) = Seq (Cls (\<lambda>x. lower_char x = lower_char c)) (LitI cs)"

primrec AnyOf :: "re list \<Rightarrow> re" where
  "AnyOf [] = Rep Eps 1 (Some 0)"
| "AnyOf (r # rs) = Alt r (AnyOf rs)"

primrec InOrder :: "re list \<Rightarrow> re" where
  "InOrder [] = Eps"
| "InOrder (r # rs) = Seq r (InOrder rs)"

definition match_at :: "re \<Rightarrow> char option \<Rightarrow> string \<Rightarrow> (string \<times> string) option" where
  "match_at r p s = (case re_match r p s of
      [] \<Rightarrow> None
    | (q, t) # _ \<Rightarrow> Some (take (length s - length t) s, t))"

text \<open>\<open>re.test(s)\<close>, and \<open>s.matchAll(re)\<close> (also the loop \<open>while ((m = re.exec(s)) !== null)\<close>) for a
  global pattern: an empty match moves on by one character.\<close>

fun search :: "re \<Rightarrow> char option \<Rightarrow> string \<Rightarrow> (string \<times> string) option" where
  "search r p [] = match_at r p []"
| "search r p (c # cs) = (case match_at r p (c # cs) of
      Some m \<Rightarrow> Some m | None \<Rightarrow> search r (Some c) cs)"

definition test :: "re \<Rightarrow> string \<Rightarrow> bool" where
  "test r s = (search r None s \<noteq> None)"

lemma repeat_suffix:
  assumes f: "\<And>p s q t. (q, t) \<in> set (f p s) \<Longrightarrow> \<exists>u. s = u @ t \<and> q = (if u = [] then p else Some (last u))"
  shows "(q, t) \<in> set (repeat_greedy f hi lo p s) \<Longrightarrow>
    \<exists>u. s = u @ t \<and> q = (if u = [] then p else Some (last u))"
proof (induction hi arbitrary: lo p s)
  case 0
  then show ?case by (auto split: if_splits)
next
  case (Suc hi)
  show ?case
  proof (cases "lo = 0 \<and> (q, t) = (p, s)")
    case True
    then show ?thesis by simp
  next
    case False
    with Suc.prems obtain q1 t1 where m: "(q1, t1) \<in> set (f p s)"
      and r: "(q, t) \<in> set (repeat_greedy f hi (lo - 1) q1 t1)"
      by (auto split: if_splits)
    obtain u1 where u1: "s = u1 @ t1" "q1 = (if u1 = [] then p else Some (last u1))" using f [OF m] by blast
    obtain u2 where u2: "t1 = u2 @ t" "q = (if u2 = [] then q1 else Some (last u2))" using Suc.IH [OF r] by blast
    have "s = (u1 @ u2) @ t \<and> q = (if u1 @ u2 = [] then p else Some (last (u1 @ u2)))"
      using u1 u2 by auto
    then show ?thesis by blast
  qed
qed

lemma re_match_suffix:
  "(q, t) \<in> set (re_match r p s) \<Longrightarrow> \<exists>u. s = u @ t \<and> q = (if u = [] then p else Some (last u))"
proof (induction r arbitrary: p s q t)
  case (Seq a b)
  then obtain q1 t1 where "(q1, t1) \<in> set (re_match a p s)" and "(q, t) \<in> set (re_match b q1 t1)"
    by auto
  with Seq.IH obtain u1 u2 where
    "s = u1 @ t1" "q1 = (if u1 = [] then p else Some (last u1))"
    "t1 = u2 @ t" "q = (if u2 = [] then q1 else Some (last u2))" by blast
  then have "s = (u1 @ u2) @ t \<and> q = (if u1 @ u2 = [] then p else Some (last (u1 @ u2)))" by auto
  then show ?case by blast
next
  case (Rep a lo hi)
  have r: "(q, t) \<in> set (repeat_greedy (re_match a) (case hi of None \<Rightarrow> length s | Some h \<Rightarrow> h) lo p s)"
    using Rep.prems by simp
  show ?case by (rule repeat_suffix [where f = "re_match a", OF Rep.IH r])
next
  case (Cls P)
  show ?case
  proof (cases s)
    case (Cons c cs)
    then have "s = [c] @ t \<and> q = (if [c] = [] then p else Some (last [c]))"
      using Cls by (simp split: if_splits)
    then show ?thesis by blast
  qed (use Cls in simp)
next
  case (Alt a b)
  then have "(q, t) \<in> set (re_match a p s) \<or> (q, t) \<in> set (re_match b p s)" by simp
  then show ?case using Alt.IH by blast
next
  case Eps
  then show ?case by simp
next
  case WordBoundary
  then have "q = p \<and> t = s" by (simp split: if_splits)
  then show ?case by simp
next
  case Begin
  then have "q = p \<and> t = s" by (simp split: if_splits)
  then show ?case by simp
next
  case End
  then have "q = p \<and> t = s" by (simp split: if_splits)
  then show ?case by simp
qed

lemma match_at_Some:
  "match_at r p s = Some (m, t) \<Longrightarrow> \<exists>q. (q, t) \<in> set (re_match r p s) \<and> m = take (length s - length t) s"
  by (auto simp: match_at_def split: list.splits)

lemma match_at_split: "match_at r p s = Some (m, t) \<Longrightarrow> s = m @ t"
  by (auto dest!: match_at_Some re_match_suffix)

function all_matches :: "re \<Rightarrow> char option \<Rightarrow> string \<Rightarrow> string list" where
  "all_matches r p s = (case match_at r p s of
      Some (m, t) \<Rightarrow>
        (if m = [] then (case s of [] \<Rightarrow> [m] | c # cs \<Rightarrow> m # all_matches r (Some c) cs)
         else m # all_matches r (Some (last m)) t)
    | None \<Rightarrow> (case s of [] \<Rightarrow> [] | c # cs \<Rightarrow> all_matches r (Some c) cs))"
  by pat_completeness auto
termination
  by (relation "measure (\<lambda>(r, p, s). length s)") (auto dest: match_at_split)

declare all_matches.simps [simp del]

section \<open>Classes and words\<close>

definition non_space :: "char \<Rightarrow> bool" where
  "non_space c = (\<not> is_space c)"

text \<open>The maximal runs of characters satisfying a predicate.\<close>

function runs_of :: "(char \<Rightarrow> bool) \<Rightarrow> string \<Rightarrow> string list" where
  "runs_of P [] = []"
| "runs_of P (c # cs) =
     (if P c then (c # takeWhile P cs) # runs_of P (dropWhile P cs) else runs_of P cs)"
  by pat_completeness auto
termination
  by (relation "measure (\<lambda>(P, s). length s)") (auto simp: length_dropWhile_le less_Suc_eq_le)

lemma repeat_cls_consumes:
  assumes f: "\<And>p. f p [] = []" "\<And>p c cs. f p (c # cs) = (if P c then [(Some c, cs)] else [])"
  shows "(q, t) \<in> set (repeat_greedy f hi lo p s) \<Longrightarrow> \<exists>u. s = u @ t \<and> (\<forall>c \<in> set u. P c) \<and> lo \<le> length u"
proof (induction hi arbitrary: lo p s)
  case (Suc hi)
  show ?case
  proof (cases "lo = 0 \<and> (q, t) = (p, s)")
    case False
    with Suc.prems have "\<exists>c cs. s = c # cs \<and> P c \<and> (q, t) \<in> set (repeat_greedy f hi (lo - 1) (Some c) cs)"
      by (cases s) (auto simp: f split: if_splits)
    then obtain c cs where s: "s = c # cs" "P c"
      and r: "(q, t) \<in> set (repeat_greedy f hi (lo - 1) (Some c) cs)" by blast
    from Suc.IH [OF r] obtain u where "cs = u @ t" "\<forall>c \<in> set u. P c" "lo - 1 \<le> length u" by blast
    with s have "s = (c # u) @ t \<and> (\<forall>c \<in> set (c # u). P c) \<and> lo \<le> length (c # u)" by auto
    then show ?thesis by blast
  qed simp
qed (auto split: if_splits)

lemma repeat_cls_greedy:
  assumes f: "\<And>p. f p [] = []" "\<And>p c cs. f p (c # cs) = (if P c then [(Some c, cs)] else [])"
  shows "length s \<le> hi \<Longrightarrow> lo \<le> length (takeWhile P s) \<Longrightarrow>
   \<exists>rest. repeat_greedy f hi lo p s =
     ((if takeWhile P s = [] then p else Some (last (takeWhile P s))), dropWhile P s) # rest"
proof (induction hi arbitrary: lo p s)
  case (Suc hi)
  show ?case
  proof (cases s)
    case (Cons c cs)
    show ?thesis
    proof (cases "P c")
      case True
      have "length cs \<le> hi" and "lo - 1 \<le> length (takeWhile P cs)"
        using Suc.prems Cons True by auto
      from Suc.IH [OF this, of "Some c"] obtain rest where
        "repeat_greedy f hi (lo - 1) (Some c) cs =
          ((if takeWhile P cs = [] then Some c else Some (last (takeWhile P cs))), dropWhile P cs) # rest"
        by blast
      then show ?thesis using Cons True by (auto simp: f)
    next
      case False
      then show ?thesis using Cons Suc.prems by (simp add: f)
    qed
  qed (use Suc.prems in \<open>simp add: f\<close>)
qed simp

lemma match_rep_class:
  "(q, t) \<in> set (re_match (Rep (Cls P) lo hi) p s) \<Longrightarrow> \<exists>u. s = u @ t \<and> (\<forall>c \<in> set u. P c) \<and> lo \<le> length u"
  by (simp, rule repeat_cls_consumes [where f = "re_match (Cls P)"]) auto

lemma match_plus_class:
  assumes "P c"
  shows "\<exists>rest. re_match (Plus (Cls P)) p (c # cs) =
    (Some (last (c # takeWhile P cs)), dropWhile P cs) # rest"
proof -
  have "\<exists>rest. repeat_greedy (re_match (Cls P)) (length (c # cs)) 1 p (c # cs) =
      ((if takeWhile P (c # cs) = [] then p else Some (last (takeWhile P (c # cs)))), dropWhile P (c # cs)) # rest"
    by (rule repeat_cls_greedy) (use assms in auto)
  then show ?thesis using assms by simp
qed

end
