(* ===== verification/TimelineUtils.thy ===== *)
theory TimelineUtils
  imports Regex Browser "HOL-Library.Word"
begin

text \<open>
  The pure helpers of the super timeline: \<open>pages/SuperTimeline/SuperTimelineUtils.tsx\<close> (colours,
  timestamps, truncation, highlighting, the search DSL, the event identity hash and the IOC
  detector) and the tables of \<open>SuperTimelineTypes.ts\<close>.  The patterns are those of the source, run by
  the engine of \<open>Regex\<close>.  \<open>new Date(s).getTime()\<close> and \<open>toISOString\<close> are the arguments
  \<open>date_parse\<close> and \<open>to_iso\<close>.
\<close>

section \<open>Tables\<close>

record host_color =
  bg :: string
  fg :: string
  border :: string

definition hc :: "string \<Rightarrow> host_color" where
  "hc c = \<lparr>bg = ''bg-'' @ c @ ''-500/20'', fg = ''text-'' @ c @ ''-400'', border = ''border-'' @ c @ ''-500/30''\<rparr>"

definition host_colors :: "host_color list" where
  "host_colors = [hc ''blue'', hc ''green'', hc ''purple'', hc ''yellow'', hc ''pink'', hc ''cyan'',
     hc ''orange'', hc ''red'']"

definition source_short_colors :: "string jsobj" where
  "source_short_colors = [
     (''EVTX'', ''bg-blue-500/15 text-blue-400 border-blue-500/30''),
     (''SIGMA'', ''bg-red-500/15 text-red-400 border-red-500/30''),
     (''MFT'', ''bg-green-500/15 text-green-400 border-green-500/30''),
     (''PREFETCH'', ''bg-purple-500/15 text-purple-400 border-purple-500/30''),
     (''REGISTRY'', ''bg-yellow-500/15 text-yellow-400 border-yellow-500/30''),
     (''SYSMON'', ''bg-cyan-500/15 text-cyan-400 border-cyan-500/30''),
     (''AMCACHE'', ''bg-orange-500/15 text-orange-400 border-orange-500/30''),
     (''LNK'', ''bg-pink-500/15 text-pink-400 border-pink-500/30''),
     (''HAYABUSA'', ''bg-red-600/15 text-red-300 border-red-600/30'')]"

record quick_filter =
  qf_id :: string
  qf_label :: string
  qf_q :: "string option"
  qf_sources :: "string list option"

definition quick_filters :: "quick_filter list" where
  "quick_filters = [
     \<lparr>qf_id = ''sigma'', qf_label = ''SIGMA ALERTS'', qf_q = None, qf_sources = Some [''SIGMA'', ''HAYABUSA'']\<rparr>,
     \<lparr>qf_id = ''logon'', qf_label = ''LOGON EVENTS'', qf_q = Some ''logon'', qf_sources = None\<rparr>,
     \<lparr>qf_id = ''process'', qf_label = ''PROCESS EXECUTION'', qf_q = None, qf_sources = Some [''PREFETCH'', ''AMCACHE'']\<rparr>,
     \<lparr>qf_id = ''fileops'', qf_label = ''FILE OPERATIONS'', qf_q = None, qf_sources = Some [''MFT'', ''LNK'']\<rparr>,
     \<lparr>qf_id = ''network'', qf_label = ''NETWORK ACTIVITY'', qf_q = Some ''network'', qf_sources = Some [''SYSMON'']\<rparr>,
     \<lparr>qf_id = ''registry'', qf_label = ''REGISTRY'', qf_q = None, qf_sources = Some [''REGISTRY'']\<rparr>,
     \<lparr>qf_id = ''lateral'', qf_label = ''LATERAL MOVEMENT'', qf_q = Some ''lateral'', qf_sources = None\<rparr>,
     \<lparr>qf_id = ''ransom'', qf_label = ''RANSOMWARE'', qf_q = Some ''ransom'', qf_sources = None\<rparr>]"

definition page_size_options :: "nat list" where
  "page_size_options = [25, 50, 100, 200]"

definition optional_cols :: "(string \<times> string) list" where
  "optional_cols = [(''event_id'', ''EVENT ID / RULE''), (''user'', ''USER''), (''display_name'', ''PATH / ARTIFACT'')]"

definition col_storage_key :: string where "col_storage_key = ''dfir_st_cols''"
definition default_visible :: "string list" where "default_visible = [''event_id'', ''user'']"

section \<open>Colours, timestamps, truncation\<close>

fun index_in :: "'a \<Rightarrow> 'a list \<Rightarrow> nat option" where
  "index_in x [] = None"
| "index_in x (y # ys) = (if x = y then Some 0 else map_option Suc (index_in x ys))"

text \<open>\<open>HOST_COLORS[idx % 8] ?? HOST_COLORS[0]\<close>: for -1 the remainder is -1, which is no index.\<close>

definition get_host_color :: "string \<Rightarrow> string list \<Rightarrow> host_color" where
  "get_host_color host all_hosts = (case index_in host all_hosts of
      Some i \<Rightarrow> host_colors ! (i mod length host_colors)
    | None \<Rightarrow> hd host_colors)"

definition get_source_color :: "string option \<Rightarrow> string" where
  "get_source_color src = (case Option.bind src (\<lambda>s. map_of source_short_colors (to_upper s)) of
      Some c \<Rightarrow> c | None \<Rightarrow> ''bg-secondary/60 text-muted-foreground border-border/40'')"

definition zone_re :: re where
  "zone_re = Seq (Alt (LitI ''Z'') (InOrder [Cls (\<lambda>c. c = CHR ''+'' \<or> c = CHR ''-''),
      Rep (Cls digit) 2 (Some 2), Opt (Chr CHR '':''), Rep (Cls digit) 2 (Some 2)])) End"

definition format_ts :: "(string \<Rightarrow> int option) \<Rightarrow> (int \<Rightarrow> string) \<Rightarrow> string option \<Rightarrow> string" where
  "format_ts date_parse to_iso ts = (case ts of
      None \<Rightarrow> em_dash
    | Some t \<Rightarrow>
        if t = [] then em_dash
        else let normalized = (if test zone_re t then t else replace_first CHR '' '' CHR ''T'' t @ ''Z'')
             in (case date_parse normalized of
                  None \<Rightarrow> em_dash
                | Some ms \<Rightarrow> (case replace_first CHR ''T'' CHR '' '' (to_iso ms) of s \<Rightarrow> remove1 CHR ''Z'' s @ '' UTC'')))"

fun js_string :: "jsval option \<Rightarrow> string" where
  "js_string None = ''undefined''"
| "js_string (Some JNull) = ''null''"
| "js_string (Some (JBool b)) = (if b then ''true'' else ''false'')"
| "js_string (Some (JNum i)) = int_str i"
| "js_string (Some (JStr s)) = s"
| "js_string (Some (JArr vs)) =
     join_with '','' (map (\<lambda>v. if v = JNull then [] else js_string (Some v)) vs)"
| "js_string (Some (JObj ms)) = ''[object Object]''"

definition truncate_text :: "nat \<Rightarrow> jsval option \<Rightarrow> string" where
  "truncate_text max_len v = (if v = None \<or> v = Some JNull then em_dash
     else let str = js_string v in if length str > max_len then take max_len str @ ellipsis else str)"

text \<open>The rendered text is plain, or has one marked part between two others.\<close>

datatype highlighted = Plain string | Marked string string string

definition highlight_terms :: "string \<Rightarrow> string \<Rightarrow> highlighted" where
  "highlight_terms txt term =
     (if term = [] \<or> length term < 2 then Plain txt
      else case index_of (to_lower term) (to_lower txt) of
             None \<Rightarrow> Plain txt
           | Some i \<Rightarrow> Marked (take i txt) (Prelude.slice i (i + length term) txt) (drop (i + length term) txt))"

section \<open>The search DSL\<close>

record parsed_dsl =
  dsl_q :: string
  dsl_hosts :: "string list"
  dsl_sources :: "string list"
  dsl_users :: "string list"
  dsl_event_ids :: "string list"
  dsl_rules :: "string list"

definition name_char :: "char \<Rightarrow> bool" where
  "name_char c = (97 \<le> code (lower_char c) \<and> code (lower_char c) \<le> (122::nat) \<or> c = CHR ''_'')"

definition quote_re :: re where "quote_re = Chr quote_char"
definition quoted_re :: re where
  "quoted_re = InOrder [quote_re, Star (Cls (\<lambda>c. c \<noteq> quote_char)), quote_re]"

definition not_re :: re where "not_re = Seq (LitI ''NOT'') (Plus (Cls is_space))"

definition field_re :: "re \<Rightarrow> re" where
  "field_re v = InOrder [Opt not_re, Opt (Chr CHR ''-''), Plus (Cls name_char), Chr CHR '':'', v]"

definition dsl_re :: re where
  "dsl_re = AnyOf [field_re quoted_re, field_re (Plus (Cls non_space)), quoted_re, Plus (Cls non_space)]"

definition and_or_re :: re where
  "and_or_re = InOrder [Begin, Alt (LitI ''AND'') (LitI ''OR''), End]"

definition starts_not :: "string \<Rightarrow> bool" where
  "starts_not s = (match_at (Seq (LitI ''NOT'') (Cls is_space)) None s \<noteq> None)"

definition drop_not :: "string \<Rightarrow> string" where
  "drop_not s = (case match_at not_re None s of Some (m, t) \<Rightarrow> t | None \<Rightarrow> s)"

text \<open>\<open>value.replace(/^"|"$/g, "")\<close>.\<close>

definition strip_quotes :: "string \<Rightarrow> string" where
  "strip_quotes s =
     (let t = (if s \<noteq> [] \<and> hd s = quote_char then tl s else s)
      in if t \<noteq> [] \<and> last t = quote_char then butlast t else t)"

definition line_end :: "char \<Rightarrow> bool" where
  "line_end c = (code c = (10::nat) \<or> code c = (13::nat))"

text \<open>\<open>/^([a-z_]+):(.*)/i\<close>: the field and the value up to the end of its line.\<close>

definition field_match :: "string \<Rightarrow> (string \<times> string) option" where
  "field_match s =
     (let f = takeWhile name_char s; r = dropWhile name_char s
      in if f \<noteq> [] \<and> r \<noteq> [] \<and> hd r = CHR '':''
         then Some (f, takeWhile (\<lambda>c. \<not> line_end c) (tl r)) else None)"

text \<open>One token: what it adds to the field lists, and the free term it adds, if any.\<close>

definition dsl_field :: "string \<Rightarrow> string \<Rightarrow> parsed_dsl \<times> string list \<Rightarrow> parsed_dsl \<times> string list" where
  "dsl_field field v acc = (case acc of (d, free) \<Rightarrow>
     if field = ''host'' then (d\<lparr>dsl_hosts := dsl_hosts d @ [v]\<rparr>, free)
     else if field = ''source'' then (d\<lparr>dsl_sources := dsl_sources d @ [to_upper v]\<rparr>, free)
     else if field = ''user'' then (d\<lparr>dsl_users := dsl_users d @ [v]\<rparr>, free)
     else if field = ''eid'' then (d\<lparr>dsl_event_ids := dsl_event_ids d @ [v]\<rparr>, free)
     else if field = ''rule'' then (d\<lparr>dsl_rules := dsl_rules d @ [v]\<rparr>, free)
     else (d, free @ [v]))"

definition dsl_token :: "string \<Rightarrow> parsed_dsl \<times> string list \<Rightarrow> parsed_dsl \<times> string list" where
  "dsl_token token acc =
     (if test and_or_re token then acc
      else
        let negated = starts_with ''-'' token \<or> starts_not token;
            clean = (if negated then drop_not (if starts_with ''-'' token then tl token else token) else token)
        in case field_match clean of
             Some (f, raw) \<Rightarrow>
               (let v = trim (strip_quotes raw)
                in if \<not> negated \<and> v \<noteq> [] then dsl_field (to_lower f) v acc else acc)
           | None \<Rightarrow>
               (let bare = trim (strip_quotes token)
                in if \<not> negated \<and> bare \<noteq> [] then (fst acc, snd acc @ [bare]) else acc))"

definition empty_dsl :: parsed_dsl where
  "empty_dsl = \<lparr>dsl_q = [], dsl_hosts = [], dsl_sources = [], dsl_users = [], dsl_event_ids = [], dsl_rules = []\<rparr>"

definition parse_dsl_query :: "string \<Rightarrow> parsed_dsl" where
  "parse_dsl_query input =
     (if trim input = [] then empty_dsl
      else let (d, free) = fold dsl_token (all_matches dsl_re None input) (empty_dsl, [])
           in d\<lparr>dsl_q := join_with '' '' free\<rparr>)"

section \<open>Event identity\<close>

type_synonym event_row = "jsval jsobj"

definition row_get :: "event_row \<Rightarrow> string \<Rightarrow> jsval option" where
  "row_get ev k = map_of ev k"

text \<open>\<open>a ?? b\<close>.\<close>

definition nullish_or :: "jsval option \<Rightarrow> jsval option \<Rightarrow> jsval option" where
  "nullish_or a b = (if a = None \<or> a = Some JNull then b else a)"

definition digit36 :: "nat \<Rightarrow> char" where
  "digit36 d = (if d < 10 then char_of (48 + d) else char_of (87 + d))"

fun base36 :: "nat \<Rightarrow> string" where
  "base36 n = (if n < 36 then [digit36 n] else base36 (n div 36) @ [digit36 (n mod 36)])"

declare base36.simps [simp del]

definition hash_step :: "char \<Rightarrow> 32 word \<Rightarrow> 32 word" where
  "hash_step c h = 31 * h + of_nat (code c)"

definition identity_text :: "event_row \<Rightarrow> string" where
  "identity_text ev = js_string (row_get ev ''datetime'') @ ''|'' @
     js_string (nullish_or (row_get ev ''host'') (row_get ev ''computer'')) @ ''|'' @
     js_string (nullish_or (row_get ev ''message'') (row_get ev ''description''))"

definition hash_event :: "event_row \<Rightarrow> string" where
  "hash_event ev =
     (if truthy (row_get ev ''event_uid'') \<or> truthy (row_get ev ''event_id_unique'')
      then js_string (nullish_or (row_get ev ''event_uid'') (row_get ev ''event_id_unique''))
      else base36 (nat \<bar>sint (fold hash_step (identity_text ev) 0)\<bar>))"

section \<open>Indicators of compromise\<close>

datatype ioc_type = IPv4 | MD5 | SHA1 | SHA256 | Domain

definition ioc_name :: "ioc_type \<Rightarrow> string" where
  "ioc_name t = (case t of IPv4 \<Rightarrow> ''IPv4'' | MD5 \<Rightarrow> ''MD5'' | SHA1 \<Rightarrow> ''SHA1'' | SHA256 \<Rightarrow> ''SHA256'' | Domain \<Rightarrow> ''Domain'')"

definition hex_digit :: "char \<Rightarrow> bool" where
  "hex_digit c = (digit c \<or> 97 \<le> code (lower_char c) \<and> code (lower_char c) \<le> (102::nat))"

definition char_range :: "nat \<Rightarrow> nat \<Rightarrow> re" where
  "char_range a b = Cls (\<lambda>c. a \<le> code c \<and> code c \<le> b)"

definition octet_re :: re where
  "octet_re = AnyOf [
     InOrder [Chr CHR ''2'', Chr CHR ''5'', char_range 48 53],
     InOrder [Chr CHR ''2'', char_range 48 52, Cls digit],
     InOrder [Opt (char_range 48 49), Cls digit, Opt (Cls digit)]]"

definition ipv4_re :: re where
  "ipv4_re = InOrder [WordBoundary, Rep (Seq octet_re (Chr CHR ''.'')) 3 (Some 3), octet_re, WordBoundary]"

definition hash_re :: "nat \<Rightarrow> re" where
  "hash_re n = InOrder [WordBoundary, Rep (Cls hex_digit) n (Some n), WordBoundary]"

definition alnum_i :: "char \<Rightarrow> bool" where
  "alnum_i c = (digit c \<or> 97 \<le> code (lower_char c) \<and> code (lower_char c) \<le> (122::nat))"

definition domain_re :: re where
  "domain_re = InOrder [WordBoundary,
     Plus (InOrder [Cls alnum_i,
       Opt (Seq (Rep (Cls (\<lambda>c. alnum_i c \<or> c = CHR ''-'')) 0 (Some 61)) (Cls alnum_i)), Chr CHR ''.'']),
     AnyOf (map LitI [''com'', ''net'', ''org'', ''io'', ''gov'', ''mil'', ''edu'', ''ru'', ''cn'', ''de'', ''uk'']),
     WordBoundary]"

text \<open>\<open>add\<close>: the set \<open>seen\<close> of keys and the results found so far.\<close>

definition add_ioc :: "ioc_type \<Rightarrow> string \<Rightarrow> string list \<times> (ioc_type \<times> string) list
    \<Rightarrow> string list \<times> (ioc_type \<times> string) list" where
  "add_ioc t v acc =
     (let key = ioc_name t @ '':'' @ to_lower v
      in if key \<in> set (fst acc) then acc else (set_add key (fst acc), snd acc @ [(t, v)]))"

definition detect_iocs :: "string \<Rightarrow> (ioc_type \<times> string) list" where
  "detect_iocs txt =
     snd (fold (add_ioc Domain) (all_matches domain_re None txt)
       (fold (add_ioc IPv4) (all_matches ipv4_re None txt)
         (fold (add_ioc MD5) (all_matches (hash_re 32) None txt)
           (fold (add_ioc SHA1) (all_matches (hash_re 40) None txt)
             (fold (add_ioc SHA256) (all_matches (hash_re 64) None txt) ([], []))))))"

section \<open>Lemmas\<close>

lemma index_of_Some:
  "index_of needle hay = Some i \<Longrightarrow> take (length needle) (drop i hay) = needle \<and> i + length needle \<le> length hay"
proof (induction hay arbitrary: i)
  case (Cons c cs)
  show ?case
  proof (cases "take (length needle) (c # cs) = needle")
    case True
    with Cons.prems have "i = 0" by simp
    moreover have "length needle \<le> length (c # cs)"
      using True by (metis length_take min.cobounded1)
    ultimately show ?thesis using True by simp
  next
    case False
    with Cons.prems obtain j where "i = Suc j" "index_of needle cs = Some j" by auto
    with Cons.IH show ?thesis by fastforce
  qed
qed (auto split: if_splits)

lemma to_lower_take: "to_lower (take n s) = take n (to_lower s)"
  by (simp add: to_lower_def take_map)

lemma to_lower_drop: "to_lower (drop n s) = drop n (to_lower s)"
  by (simp add: to_lower_def drop_map)

lemma add_ioc_keys:
  "set (map (\<lambda>(t, v). ioc_name t @ '':'' @ to_lower v) (snd acc)) \<subseteq> set (fst acc) \<Longrightarrow>
   distinct (map (\<lambda>(t, v). ioc_name t @ '':'' @ to_lower v) (snd acc)) \<Longrightarrow>
   set (map (\<lambda>(t, v). ioc_name t @ '':'' @ to_lower v) (snd (fold (add_ioc t) vs acc))) \<subseteq> set (fst (fold (add_ioc t) vs acc)) \<and>
   distinct (map (\<lambda>(t, v). ioc_name t @ '':'' @ to_lower v) (snd (fold (add_ioc t) vs acc)))"
proof (induction vs arbitrary: acc)
  case (Cons v vs)
  have "set (map (\<lambda>(t, v). ioc_name t @ '':'' @ to_lower v) (snd (add_ioc t v acc))) \<subseteq> set (fst (add_ioc t v acc))"
    and "distinct (map (\<lambda>(t, v). ioc_name t @ '':'' @ to_lower v) (snd (add_ioc t v acc)))"
    using Cons.prems by (auto simp: add_ioc_def Let_def)
  with Cons.IH show ?case by simp
qed simp

lemma add_ioc_values:
  "(u, x) \<in> set (snd (fold (add_ioc t) vs acc)) \<Longrightarrow> (u, x) \<in> set (snd acc) \<or> (u = t \<and> x \<in> set vs)"
proof (induction vs arbitrary: acc)
  case (Cons v vs)
  then have "(u, x) \<in> set (snd (add_ioc t v acc)) \<or> (u = t \<and> x \<in> set vs)" by simp
  then show ?case by (auto simp: add_ioc_def Let_def split: if_splits)
qed simp

lemma all_matches_sublist: "m \<in> set (all_matches r p s) \<Longrightarrow> sublist m s"
proof (induction "length s" arbitrary: p s rule: less_induct)
  case less
  have tail: "sublist m (c # cs)" if "s = c # cs" and "m \<in> set (all_matches r q cs)" for q c cs
    using less.hyps [of cs q] that by (simp add: sublist_Cons_right)
  show ?case
  proof (cases "match_at r p s")
    case None
    with less.prems tail show ?thesis
      by (auto simp: all_matches.simps [of r p s] split: list.splits)
  next
    case (Some mt)
    obtain m1 t1 where mt: "mt = (m1, t1)" by (cases mt)
    have s: "s = m1 @ t1" using match_at_split Some mt by blast
    have found: "sublist m1 s" using s by simp
    have rest: "sublist m s" if "m1 \<noteq> []" and "m \<in> set (all_matches r q t1)" for q
      using less.hyps [of t1 q] that s by (simp add: sublist_append)
    from less.prems Some mt tail found rest show ?thesis
      by (auto simp: all_matches.simps [of r p s] split: list.splits if_splits)
  qed
qed

lemma base36_length: "n < 36 ^ Suc k \<Longrightarrow> length (base36 n) \<le> Suc k"
proof (induction k arbitrary: n)
  case 0
  then show ?case by (subst base36.simps) simp
next
  case (Suc k)
  show ?case
  proof (cases "n < 36")
    case True
    then show ?thesis by (subst base36.simps) simp
  next
    case False
    have "n div 36 < 36 ^ Suc k" using Suc.prems by (simp add: less_mult_imp_div_less mult.commute)
    then have "length (base36 (n div 36)) \<le> Suc k" by (rule Suc.IH)
    then show ?thesis using False by (subst base36.simps) simp
  qed
qed

lemma hash_magnitude: "nat \<bar>sint (h :: 32 word)\<bar> \<le> 2 ^ 31"
  using sint_ge [of h] sint_lt [of h] by simp

section \<open>Properties\<close>

text \<open>Highlighting never alters the text: the three parts put together are the text, the marked part
  is the searched term up to case, and a text stays plain exactly when the term is shorter than two
  characters or does not occur.\<close>

theorem highlight_preserves_text:
  "case highlight_terms txt term of
     Marked a b c \<Rightarrow> a @ b @ c = txt \<and> to_lower b = to_lower term \<and> 2 \<le> length term
   | Plain p \<Rightarrow> p = txt \<and> \<not> (2 \<le> length term \<and> str_includes (to_lower txt) (to_lower term))"
proof (cases "length term < 2 \<or> index_of (to_lower term) (to_lower txt) = None")
  case True
  then show ?thesis by (auto simp: highlight_terms_def str_includes_def)
next
  case False
  then obtain i where i: "index_of (to_lower term) (to_lower txt) = Some i" by auto
  have "to_lower (take (length term) (drop i txt)) = to_lower term"
    using index_of_Some [OF i] by (simp add: to_lower_take to_lower_drop)
  moreover have "take i txt @ take (length term) (drop i txt) @ drop (i + length term) txt = txt"
    by (metis add.commute append.assoc append_take_drop_id take_add)
  ultimately show ?thesis using False i by (auto simp: highlight_terms_def Prelude.slice_def)
qed

text \<open>The detector reports no indicator twice (up to case, per type), and every indicator it
  reports is a piece of the text.\<close>

theorem iocs_distinct_and_from_text:
  "distinct (map (\<lambda>(t, v). (t, to_lower v)) (detect_iocs txt)) \<and>
   list_all (\<lambda>(t, v). sublist v txt) (detect_iocs txt)"
proof
  have "distinct (map (\<lambda>(t, v). ioc_name t @ '':'' @ to_lower v) (detect_iocs txt))"
    unfolding detect_iocs_def by (intro add_ioc_keys [THEN conjunct2] add_ioc_keys [THEN conjunct1]) simp_all
  then show "distinct (map (\<lambda>(t, v). (t, to_lower v)) (detect_iocs txt))"
    by (auto simp: distinct_map inj_on_def)
  show "list_all (\<lambda>(t, v). sublist v txt) (detect_iocs txt)"
    unfolding detect_iocs_def list_all_iff
    by (auto dest!: add_ioc_values all_matches_sublist)
qed

text \<open>An event with a record id is identified by it, whatever its text; without one the hash depends
  only on the time, the host and the message, and has at most six characters, so events that agree on
  those three share one identity.\<close>

theorem hash_event_identity:
  "(row_get ev ''event_uid'' = Some (JStr u) \<longrightarrow> u \<noteq> [] \<longrightarrow> hash_event ev = u) \<and>
   (\<not> truthy (row_get ev ''event_uid'') \<and> \<not> truthy (row_get ev ''event_id_unique'') \<longrightarrow>
     length (hash_event ev) \<le> 6 \<and>
     (\<forall>ev'. \<not> truthy (row_get ev' ''event_uid'') \<and> \<not> truthy (row_get ev' ''event_id_unique'') \<and>
        identity_text ev' = identity_text ev \<longrightarrow> hash_event ev' = hash_event ev))"
proof -
  have "nat \<bar>sint (fold hash_step (identity_text ev) 0)\<bar> < 36 ^ Suc 5"
    using hash_magnitude [of "fold hash_step (identity_text ev) 0"] by simp
  from base36_length [OF this] show ?thesis
    by (auto simp: hash_event_def truthy_def nullish_or_def)
qed

theorem hash_event_identity_witness:
  "hash_event [(''event_uid'', JStr ''record-1''), (''message'', JStr ''logon'')] = ''record-1''"
  using hash_event_identity [of "[(''event_uid'', JStr ''record-1''), (''message'', JStr ''logon'')]" "''record-1''"]
  by (simp add: row_get_def)

text \<open>An event whose \<open>event_uid\<close> is the empty string and that has an \<open>event_id_unique\<close> hashes to
  the empty string: the guard tests truth, the value is chosen by absence only, so all such events
  share one identity.\<close>

theorem empty_uid_collides:
  assumes "row_get ev ''event_uid'' = Some (JStr [])" and "truthy (row_get ev ''event_id_unique'')"
  shows "hash_event ev = []"
  using assms by (simp add: hash_event_def nullish_or_def)

theorem empty_uid_collides_witness:
  "hash_event [(''event_uid'', JStr []), (''event_id_unique'', JStr ''a'')] =
   hash_event [(''event_uid'', JStr []), (''event_id_unique'', JStr ''b'')]"
  using empty_uid_collides [of "[(''event_uid'', JStr []), (''event_id_unique'', JStr ''a'')]"]
    empty_uid_collides [of "[(''event_uid'', JStr []), (''event_id_unique'', JStr ''b'')]"]
  by (simp add: row_get_def truthy_def)

subsection \<open>Plain search words\<close>

definition no_special :: "string \<Rightarrow> bool" where
  "no_special s = (CHR '':'' \<notin> set s \<and> quote_char \<notin> set s)"

lemma re_match_SeqD:
  "(q, t) \<in> set (re_match (Seq a b) p s) \<Longrightarrow>
   \<exists>q1 t1. (q1, t1) \<in> set (re_match a p s) \<and> (q, t) \<in> set (re_match b q1 t1)"
  by auto

lemma re_match_ChrD: "(q, t) \<in> set (re_match (Chr c) p s) \<Longrightarrow> s = c # t"
  by (auto split: list.splits if_splits)

lemma re_match_set: "(q, t) \<in> set (re_match r p s) \<Longrightarrow> set t \<subseteq> set s"
  by (auto dest!: re_match_suffix)

lemma field_re_needs_colon:
  assumes "no_special s"
  shows "re_match (field_re v) p s = []"
proof (rule ccontr)
  assume "re_match (field_re v) p s \<noteq> []"
  then obtain q t where "(q, t) \<in> set (re_match (field_re v) p s)"
    by (metis list.set_intros(1) neq_Nil_conv surj_pair)
  then obtain q1 t1 q2 t2 q3 t3 q4 t4 where
    1: "(q1, t1) \<in> set (re_match (Opt not_re) p s)" "(q2, t2) \<in> set (re_match (Opt (Chr CHR ''-'')) q1 t1)"
    "(q3, t3) \<in> set (re_match (Plus (Cls name_char)) q2 t2)"
    and 4: "(q4, t4) \<in> set (re_match (Chr CHR '':'') q3 t3)"
    unfolding field_re_def InOrder.simps by (meson re_match_SeqD)
  from 1 have "set t3 \<subseteq> set s" using re_match_set by (meson order_trans)
  moreover have "t3 = CHR '':'' # t4" by (rule re_match_ChrD [OF 4])
  ultimately show False using assms by (auto simp: no_special_def)
qed

lemma quoted_re_needs_quote:
  assumes "no_special s"
  shows "re_match quoted_re p s = []"
proof (rule ccontr)
  assume "re_match quoted_re p s \<noteq> []"
  then obtain q t where "(q, t) \<in> set (re_match quoted_re p s)"
    by (metis list.set_intros(1) neq_Nil_conv surj_pair)
  then obtain q1 t1 where "(q1, t1) \<in> set (re_match (Chr quote_char) p s)"
    unfolding quoted_re_def quote_re_def InOrder.simps by (meson re_match_SeqD)
  from re_match_ChrD [OF this] show False using assms by (simp add: no_special_def)
qed

lemma dsl_only_words:
  assumes "no_special s"
  shows "re_match dsl_re p s = re_match (Plus (Cls non_space)) p s"
proof -
  have none: "re_match (Rep Eps 1 (Some 0)) p s = []" by simp
  show ?thesis
    by (simp only: dsl_re_def AnyOf.simps re_match.simps(4) field_re_needs_colon [OF assms]
        quoted_re_needs_quote [OF assms] none append_Nil append_Nil2)
qed

lemma match_at_dsl:
  assumes "no_special (c # cs)"
  shows "match_at dsl_re p (c # cs) =
    (if non_space c then Some (c # takeWhile non_space cs, dropWhile non_space cs) else None)"
proof -
  note d = dsl_only_words [OF assms]
  show ?thesis
  proof (cases "non_space c")
    case True
    obtain rest where "re_match (Plus (Cls non_space)) p (c # cs) =
        (Some (last (c # takeWhile non_space cs)), dropWhile non_space cs) # rest"
      using match_plus_class [of non_space c p cs] True by blast
    moreover have "take (length (c # cs) - length (dropWhile non_space cs)) (c # cs) = c # takeWhile non_space cs"
    proof -
      have "c # cs = (c # takeWhile non_space cs) @ dropWhile non_space cs" by simp
      then show ?thesis by (metis append_eq_conv_conj diff_add_inverse2 length_append)
    qed
    ultimately show ?thesis using True by (simp add: match_at_def d del: re_match.simps)
  next
    case False
    have "re_match (Plus (Cls non_space)) p (c # cs) = []"
    proof (rule ccontr)
      assume "re_match (Plus (Cls non_space)) p (c # cs) \<noteq> []"
      then obtain q t where "(q, t) \<in> set (re_match (Plus (Cls non_space)) p (c # cs))"
        by (metis list.set_intros(1) neq_Nil_conv surj_pair)
      then obtain u where "c # cs = u @ t" "\<forall>c \<in> set u. non_space c" "1 \<le> length u"
        using match_rep_class by blast
      then show False using False by (cases u) auto
    qed
    then show ?thesis using False by (simp add: match_at_def d del: re_match.simps)
  qed
qed

lemma all_matches_dsl_words: "no_special s \<Longrightarrow> all_matches dsl_re p s = runs_of non_space s"
proof (induction "length s" arbitrary: p s rule: less_induct)
  case less
  show ?case
  proof (cases s)
    case Nil
    have "match_at dsl_re p [] = None"
      using dsl_only_words [of "[]"] by (simp add: match_at_def no_special_def)
    then show ?thesis by (simp add: Nil all_matches.simps)
  next
    case (Cons c cs)
    have ns: "no_special cs" "no_special (dropWhile non_space cs)"
      using less.prems Cons by (auto simp: no_special_def dest: set_dropWhileD)
    have "length cs < length s" "length (dropWhile non_space cs) < length s"
      using Cons length_dropWhile_le [of non_space cs] by auto
    with less.hyps ns have ih: "all_matches dsl_re q cs = runs_of non_space cs"
      "all_matches dsl_re q (dropWhile non_space cs) = runs_of non_space (dropWhile non_space cs)" for q
      by blast+
    show ?thesis
      using match_at_dsl [of c cs p] less.prems ih Cons
      by (simp add: all_matches.simps [of dsl_re p "c # cs"])
  qed
qed

text \<open>What one plain word adds to the free terms.\<close>

definition plain_terms :: "string list \<Rightarrow> string list" where
  "plain_terms ws = filter (\<lambda>w. \<not> test and_or_re w \<and> \<not> starts_with ''-'' w) ws"

lemma runs_of_words: "w \<in> set (runs_of P s) \<Longrightarrow> w \<noteq> [] \<and> (\<forall>c \<in> set w. P c) \<and> set w \<subseteq> set s"
proof (induction P s rule: runs_of.induct)
  case (2 P c cs)
  have sub: "set (dropWhile P cs) \<subseteq> set cs" by (auto dest: set_dropWhileD)
  have sub2: "set (takeWhile P cs) \<subseteq> set cs" "\<forall>c \<in> set (takeWhile P cs). P c"
    by (auto dest: set_takeWhileD)
  show ?case
  proof (cases "P c")
    case True
    with "2.prems" have "w = c # takeWhile P cs \<or> w \<in> set (runs_of P (dropWhile P cs))" by simp
    then show ?thesis
    proof
      assume "w = c # takeWhile P cs"
      then show ?thesis using True sub2 by auto
    next
      assume "w \<in> set (runs_of P (dropWhile P cs))"
      from "2.IH"(1) [OF True this] sub show ?thesis by auto
    qed
  next
    case False
    with "2.prems" have "w \<in> set (runs_of P cs)" by simp
    from "2.IH"(2) [OF False this] show ?thesis by auto
  qed
qed simp

lemma trim_no_space: "\<forall>c \<in> set w. non_space c \<Longrightarrow> trim w = w"
proof -
  assume a: "\<forall>c \<in> set w. non_space c"
  have "dropWhile is_space w = w" 
    using a by (cases w) (auto simp: non_space_def)
  moreover have "dropWhile is_space (rev w) = rev w"
    using a by (cases w rule: rev_cases) (auto simp: non_space_def)
  ultimately show ?thesis by (simp add: trim_def)
qed

lemma strip_quotes_none: "quote_char \<notin> set w \<Longrightarrow> strip_quotes w = w"
proof (cases w rule: rev_cases)
  case (snoc u b)
  assume "quote_char \<notin> set w"
  moreover have "w \<noteq> []" "last w \<in> set w" using snoc by simp_all
  moreover obtain a t where "w = a # t" using \<open>w \<noteq> []\<close> by (cases w) auto
  ultimately have "a \<noteq> quote_char" "last w \<noteq> quote_char" by auto
  with \<open>w = a # t\<close> show ?thesis by (auto simp: strip_quotes_def Let_def)
qed (simp add: strip_quotes_def Let_def)

lemma field_match_none: "CHR '':'' \<notin> set w \<Longrightarrow> field_match w = None"
proof -
  assume w: "CHR '':'' \<notin> set w"
  have "dropWhile name_char w = [] \<or> hd (dropWhile name_char w) \<in> set w"
    using hd_in_set [of "dropWhile name_char w"] set_dropWhileD [of _ name_char w] by blast
  then have "dropWhile name_char w = [] \<or> hd (dropWhile name_char w) \<noteq> CHR '':''"
    using w by (cases "dropWhile name_char w = []") auto
  then show ?thesis by (auto simp: field_match_def Let_def simp del: dropWhile_eq_Nil_conv)
qed

lemma starts_not_word: "\<forall>c \<in> set w. non_space c \<Longrightarrow> \<not> starts_not w"
proof
  assume w: "\<forall>c \<in> set w. non_space c" and "starts_not w"
  then obtain m t where "match_at (Seq (LitI ''NOT'') (Cls is_space)) None w = Some (m, t)"
    by (auto simp: starts_not_def)
  then obtain q where "(q, t) \<in> set (re_match (Seq (LitI ''NOT'') (Cls is_space)) None w)"
    using match_at_Some by blast
  then obtain q1 t1 where a: "(q1, t1) \<in> set (re_match (LitI ''NOT'') None w)"
    and b: "(q, t) \<in> set (re_match (Cls is_space) q1 t1)" by (meson re_match_SeqD)
  from b obtain c where "c \<in> set t1" "is_space c"
    by (cases t1) (auto split: if_splits)
  with w re_match_set [OF a] show False by (auto simp: non_space_def)
qed

lemma fold_dsl_words:
  assumes "\<forall>w \<in> set ws. w \<noteq> [] \<and> (\<forall>c \<in> set w. non_space c) \<and> no_special w"
  shows "fold dsl_token ws (d, free) = (d, free @ plain_terms ws)"
  using assms
proof (induction ws arbitrary: free)
  case (Cons w ws)
  have w: "w \<noteq> []" "\<not> starts_not w" "field_match w = None" "trim (strip_quotes w) = w"
    using Cons.prems by (auto simp: starts_not_word field_match_none strip_quotes_none trim_no_space no_special_def)
  have neg: "field_match (drop_not (tl w)) = None"
  proof -
    have "CHR '':'' \<notin> set (drop_not (tl w))"
    proof
      assume "CHR '':'' \<in> set (drop_not (tl w))"
      then have "CHR '':'' \<in> set (tl w)"
        by (auto simp: drop_not_def split: option.splits dest: match_at_split)
      then have "CHR '':'' \<in> set w" by (rule list.set_sel(2) [OF w(1)])
      then show False using Cons.prems by (simp add: no_special_def)
    qed
    then show ?thesis by (rule field_match_none)
  qed
  have "dsl_token w (d, free) = (d, free @ plain_terms [w])"
    using w neg by (simp add: dsl_token_def plain_terms_def Let_def)
  then show ?case using Cons by (simp add: plain_terms_def)
qed (simp add: plain_terms_def)

lemma runs_of_blank: "trim s = [] \<Longrightarrow> runs_of non_space s = []"
proof -
  assume "trim s = []"
  then have "dropWhile is_space s = []"
    by (simp add: trim_def dropWhile_eq_Nil_conv)
      (metis dropWhile_eq_Nil_conv hd_dropWhile hd_in_set)
  then have "\<forall>c \<in> set s. \<not> non_space c" by (simp add: dropWhile_eq_Nil_conv non_space_def)
  then show ?thesis by (induction s) auto
qed

text \<open>A search without a colon or a quotation mark is read word by word: the free-text query is its
  whitespace-separated words in order, without AND, OR and the words that start with a dash, and no
  field filter is set.  (A bare NOT is kept as a word.)\<close>

theorem plain_search_words:
  assumes "no_special input"
  shows "parse_dsl_query input =
    empty_dsl\<lparr>dsl_q := join_with '' '' (plain_terms (runs_of non_space input))\<rparr>"
proof (cases "trim input = []")
  case True
  then show ?thesis by (simp add: parse_dsl_query_def runs_of_blank plain_terms_def empty_dsl_def)
next
  case False
  have "\<forall>w \<in> set (runs_of non_space input). w \<noteq> [] \<and> (\<forall>c \<in> set w. non_space c) \<and> no_special w"
    using runs_of_words assms by (fastforce simp: no_special_def)
  from fold_dsl_words [OF this, of empty_dsl "[]"] show ?thesis
    using False by (simp add: parse_dsl_query_def all_matches_dsl_words [OF assms])
qed

theorem plain_search_words_witness:
  "no_special ''failed logon'' \<and> parse_dsl_query ''failed logon'' =
    empty_dsl\<lparr>dsl_q := join_with '' '' (plain_terms [''failed'', ''logon''])\<rparr>"
proof -
  have n: "no_special ''failed logon''" by (simp add: no_special_def quote_char_def)
  have r: "runs_of non_space ''failed logon'' = [''failed'', ''logon'']"
    by (simp add: non_space_def is_space_def)
  show ?thesis using plain_search_words [OF n] unfolding r by (rule conjI [OF n])
qed

end
