(* ===== verification/Hunting.thy ===== *)
theory Hunting
  imports Hypotheses AuditLog TimelineUtils
begin

text \<open>
  The hunting pages: \<open>pages/ThreatHuntLibrary.tsx\<close>, \<open>ThreatIntel.tsx\<close> and \<open>CorrelationView.tsx\<close>.
  A mutation is the program of its function followed by its success or error callback, \<open>encodeURIComponent\<close> and
  the reader of dates are parameters, and what the browser keeps goes through the \<open>json_store\<close> of its local storage.
\<close>

text \<open>\<open>String(v ?? d)\<close>.\<close>

definition string_or :: "jsval option \<Rightarrow> string \<Rightarrow> string" where
  "string_or v d = (if v = None \<or> v = Some JNull then d else js_string v)"

section \<open>The library of hunt queries\<close>

record hunt_query =
  hq_id :: string
  hq_name :: string
  hq_description :: "string option"
  hq_category :: string
  hq_query :: string
  hq_sigma :: "string option"
  hq_tags :: "string list"
  hq_technique :: "string option"
  hq_public :: bool
  hq_created_by :: string
  hq_created_at :: string

record run_result =
  rr_query :: string
  rr_incident :: string
  rr_count :: int
  rr_rows :: "jsval jsobj list"

definition hunt_categories :: "string list" where
  "hunt_categories = [''Persistence'', ''Lateral Movement'', ''Credential Access'', ''Defense Evasion'',
     ''Exfiltration'', ''Discovery'', ''Execution'', ''Other'']"

record hunt_form =
  qf_name :: string
  qf_description :: string
  qf_category :: string
  qf_query :: string
  qf_sigma :: string
  qf_tags :: string
  qf_technique :: string
  qf_public :: bool

definition blank_hunt_form :: hunt_form where
  "blank_hunt_form = \<lparr>qf_name = [], qf_description = [], qf_category = ''Other'', qf_query = [], qf_sigma = [],
     qf_tags = [], qf_technique = [], qf_public = True\<rparr>"

record hunt_page =
  hp_filter :: string
  hp_show_form :: bool
  hp_edit :: "string option"
  hp_incident :: string
  hp_results :: "run_result option"
  hp_running :: "string option"
  hp_form :: hunt_form

definition initial_hunt :: "string option \<Rightarrow> hunt_page" where
  "initial_hunt incident_param = \<lparr>hp_filter = [], hp_show_form = False, hp_edit = None,
     hp_incident = (case incident_param of Some i \<Rightarrow> i | None \<Rightarrow> []), hp_results = None, hp_running = None,
     hp_form = blank_hunt_form\<rparr>"

record hunt_body =
  qb_name :: string
  qb_description :: "string option"
  qb_category :: string
  qb_query :: string
  qb_sigma :: "string option"
  qb_tags :: "string list"
  qb_technique :: "string option"
  qb_public :: bool

datatype hunt_payload = QueryBody hunt_body | NoFields

datatype hunt_reply = Ran run_result | OtherReply

fun the_run where "the_run (Ran r) = Some r" | "the_run OtherReply = None"

type_synonym hunt_io = "(hunt_page, hunt_reply, hunt_payload, unit) io"

definition hunt_list_path :: "(string \<Rightarrow> string) \<Rightarrow> string \<Rightarrow> string" where
  "hunt_list_path enc flt = ''/platform/threat-hunt-queries'' @ (if flt \<noteq> [] then ''?category='' @ enc flt else [])"

definition reset_hunt_form :: "hunt_page \<Rightarrow> hunt_page" where
  "reset_hunt_form s = s\<lparr>hp_form := blank_hunt_form, hp_edit := None, hp_show_form := False\<rparr>"

definition new_hunt :: "hunt_page \<Rightarrow> hunt_page" where
  "new_hunt s = (reset_hunt_form s)\<lparr>hp_show_form := True\<rparr>"

definition tags_of :: "string \<Rightarrow> string list" where
  "tags_of t = (if t = [] then [] else filter (\<lambda>x. x \<noteq> []) (map trim (split_at_char CHR '','' t)))"

definition hunt_save_body :: "hunt_form \<Rightarrow> hunt_body" where
  "hunt_save_body f = \<lparr>qb_name = qf_name f, qb_description = text_or_null (qf_description f), qb_category = qf_category f,
     qb_query = qf_query f, qb_sigma = text_or_null (qf_sigma f), qb_tags = tags_of (qf_tags f),
     qb_technique = text_or_null (qf_technique f), qb_public = qf_public f\<rparr>"

definition save_hunt_request :: "hunt_page \<Rightarrow> hunt_payload request" where
  "save_hunt_request s = (let body = Some (QueryBody (hunt_save_body (hp_form s)))
     in if or_text (hp_edit s) [] = [] then Request POST ''/platform/threat-hunt-queries'' body
        else Request PATCH (''/platform/threat-hunt-queries/'' @ or_text (hp_edit s) []) body)"

text \<open>The success callback is the one of the latest render.\<close>

definition save_hunt :: hunt_io where
  "save_hunt = Read (\<lambda>s0. tryCatch
     (call (save_hunt_request s0) (\<lambda>_. Emit (Invalidate [''threat-hunt-queries''])
        (Read (\<lambda>s1. Emit (Toast (if or_text (hp_edit s1) [] = [] then ''Query created'' else ''Query updated'') [] [])
           (Update reset_hunt_form Done)))))
     (\<lambda>_. Emit (Toast ''Save failed'' [] ''destructive'') Done))"

definition delete_hunt :: "string \<Rightarrow> hunt_io" where
  "delete_hunt i = tryCatch
     (apiDelete (''/platform/threat-hunt-queries/'' @ i) (\<lambda>_. Emit (Invalidate [''threat-hunt-queries''])
        (Emit (Toast ''Query deleted'' [] []) Done)))
     (\<lambda>_. Emit (Toast ''Delete failed'' [] ''destructive'') Done)"

definition edit_hunt :: "hunt_query \<Rightarrow> hunt_page \<Rightarrow> hunt_page" where
  "edit_hunt q s = s\<lparr>hp_form := \<lparr>qf_name = hq_name q, qf_description = or_text (hq_description q) [],
       qf_category = hq_category q, qf_query = hq_query q, qf_sigma = or_text (hq_sigma q) [],
       qf_tags = join_with '', '' (hq_tags q), qf_technique = or_text (hq_technique q) [], qf_public = hq_public q\<rparr>,
     hp_edit := Some (hq_id q), hp_show_form := True\<rparr>"

definition run_hunt :: "(string \<Rightarrow> string) \<Rightarrow> string \<Rightarrow> hunt_io" where
  "run_hunt enc i = Read (\<lambda>s0.
     if trim (hp_incident s0) = [] then Emit (Toast ''Enter an incident ID first'' [] ''destructive'') Done
     else Update (\<lambda>s. s\<lparr>hp_running := Some i, hp_results := None\<rparr>)
       (tryFinally
         (tryCatch
           (apiPost (''/platform/threat-hunt-queries/'' @ i @ ''/run?incident_id='' @ enc (trim (hp_incident s0))) NoFields
             (expect the_run (\<lambda>r. Update (\<lambda>s. s\<lparr>hp_results := Some r\<rparr>) Done)))
           (\<lambda>_. Emit (Toast ''Query execution failed'' [] ''destructive'') Done))
         (Update (\<lambda>s. s\<lparr>hp_running := None\<rparr>) Done)))"

text \<open>What the panels show.\<close>

definition hunt_save_enabled :: "bool \<Rightarrow> hunt_page \<Rightarrow> bool" where
  "hunt_save_enabled saving s \<longleftrightarrow> qf_name (hp_form s) \<noteq> [] \<and> qf_query (hp_form s) \<noteq> [] \<and> \<not> saving"

definition hunt_form_title :: "hunt_page \<Rightarrow> string" where
  "hunt_form_title s = (if or_text (hp_edit s) [] = [] then ''NEW QUERY'' else ''EDIT QUERY'')"

definition results_table :: "run_result \<Rightarrow> string \<times> string list \<times> string list list" where
  "results_table r =
     (''QUERY RESULTS '' @ em_dash @ '' '' @ int_str (rr_count r) @ '' ROWS (showing '' @ nat_str (min (length (rr_rows r)) 50) @ '')'',
      (case rr_rows r of [] \<Rightarrow> [] | row # _ \<Rightarrow> take 8 (map fst row)),
      map (\<lambda>row. take 8 (map (\<lambda>(k, v). string_or (Some v) []) row)) (take 50 (rr_rows r)))"

definition run_button :: "hunt_page \<Rightarrow> hunt_query \<Rightarrow> string \<times> bool" where
  "run_button s q = (if hp_running s = Some (hq_id q) then (''...'', False) else (''RUN'', True))"

definition query_preview :: "hunt_query \<Rightarrow> string" where
  "query_preview q = take 200 (hq_query q) @ (if 200 < length (hq_query q) then ''...'' else [])"

section \<open>Looking up indicators\<close>

text \<open>
  The history of \<open>ThreatIntel.tsx\<close> is whatever JSON value the local storage holds: the code casts it without a
  check.  \<open>ti_crashed\<close> is a render that throws, after which the error boundary shows its page.  The effect that
  stores the history runs after the render that changed it.
\<close>

record enrich_result =
  er_type :: string
  er_value :: string
  er_service :: string
  er_found :: bool
  er_score :: "int option"
  er_labels :: "string list"
  er_permalink :: "string option"
  er_raw :: "jsval jsobj option"
  er_error :: "string option"

record intel_page =
  ti_type :: string
  ti_value :: string
  ti_results :: "enrich_result list"
  ti_loading :: bool
  ti_history :: jsval
  ti_crashed :: bool
  ti_browser :: browser

datatype intel_reply = Enriched "enrich_result list" | NotEnriched

fun the_enriched where "the_enriched (Enriched rs) = Some rs" | "the_enriched NotEnriched = None"

type_synonym intel_io = "(intel_page, intel_reply, string \<times> string, unit) io"

definition intel_key :: string where
  "intel_key = ''dfir_threat_intel_history''"

definition ioc_types :: "string list" where
  "ioc_types = [''hash'', ''ip'', ''domain'', ''url'']"

definition stored_intel :: "browser \<Rightarrow> jsval" where
  "stored_intel b = (case local_get b intel_key of None \<Rightarrow> JArr []
     | Some raw \<Rightarrow> if raw = [] then JArr [] else (case parse_json raw of Some v \<Rightarrow> v | None \<Rightarrow> JArr []))"

definition keep_intel :: "intel_page \<Rightarrow> intel_page" where
  "keep_intel s = s\<lparr>ti_browser := local_put intel_key (stringify (ti_history s)) (ti_browser s)\<rparr>"

definition open_intel :: "browser \<Rightarrow> intel_page" where
  "open_intel b = keep_intel \<lparr>ti_type = ''hash'', ti_value = [], ti_results = [], ti_loading = False,
     ti_history = stored_intel b, ti_crashed = False, ti_browser = b\<rparr>"

definition intel_entry :: "string \<Rightarrow> string \<Rightarrow> jsval" where
  "intel_entry v t = JObj [(''value'', JStr v), (''type'', JStr t)]"

text \<open>\<open>h.filter\<close> of a value that is no array, and a property of \<open>null\<close>, throw.\<close>

definition push_intel :: "string \<Rightarrow> string \<Rightarrow> jsval \<Rightarrow> jsval option" where
  "push_intel v t h = (case h of
     JArr xs \<Rightarrow> if JNull \<in> set xs then None
       else Some (JArr (intel_entry v t # take 19 (filter (\<lambda>x. js_prop x ''value'' \<noteq> Some (JStr v)) xs)))
   | _ \<Rightarrow> None)"

definition remember_intel :: "string \<Rightarrow> string \<Rightarrow> intel_page \<Rightarrow> intel_page" where
  "remember_intel v t s = (case push_intel v t (ti_history s) of
     Some h \<Rightarrow> keep_intel (s\<lparr>ti_history := h\<rparr>) | None \<Rightarrow> s\<lparr>ti_crashed := True\<rparr>)"

definition err_text :: "jserr \<Rightarrow> string" where
  "err_text e = take 200 (message_or [] e)"

definition handle_enrich :: intel_io where
  "handle_enrich = Read (\<lambda>s0. let value = trim (ti_value s0) in
     if value = [] then Done
     else Update (\<lambda>s. s\<lparr>ti_loading := True, ti_results := []\<rparr>)
       (tryFinally
         (tryCatch
           (apiPost ''/threat-intel/enrich'' (ti_type s0, value)
             (expect the_enriched (\<lambda>rs. Update (\<lambda>s. s\<lparr>ti_results := rs\<rparr>)
               (Update (remember_intel value (ti_type s0)) Done))))
           (\<lambda>e. Emit (Toast ''Enrichment failed'' (err_text e) ''destructive'') Done))
         (Update (\<lambda>s. s\<lparr>ti_loading := False\<rparr>) Done)))"

definition set_ioc_type :: "string \<Rightarrow> intel_page \<Rightarrow> intel_page" where
  "set_ioc_type t s = s\<lparr>ti_type := t\<rparr>"

definition set_ioc_value :: "string \<Rightarrow> intel_page \<Rightarrow> intel_page" where
  "set_ioc_value v s = s\<lparr>ti_value := v\<rparr>"

definition pick_recent :: "jsval \<Rightarrow> intel_page \<Rightarrow> intel_page" where
  "pick_recent h s = set_ioc_value (js_string (js_prop h ''value'')) (set_ioc_type (js_string (js_prop h ''type'')) s)"

definition ioc_placeholder :: "string \<Rightarrow> string" where
  "ioc_placeholder t = (case map_of [(''hash'', ''d41d8cd98f00b204e9800998ecf8427e...''), (''ip'', ''1.2.3.4''),
     (''domain'', ''evil.example.com''), (''url'', ''https://evil.example.com/payload.exe'')] t of
     Some p \<Rightarrow> p | None \<Rightarrow> ''IOC value...'')"

definition enrich_enabled :: "intel_page \<Rightarrow> bool" where
  "enrich_enabled s \<longleftrightarrow> trim (ti_value s) \<noteq> [] \<and> \<not> ti_loading s"

text \<open>The buttons of the recent lookups, for entries that the page itself wrote.\<close>

definition recent_label :: "jsval \<Rightarrow> string" where
  "recent_label h = (let v = js_string (js_prop h ''value'')
     in ''['' @ js_string (js_prop h ''type'') @ ''] '' @ take 16 v @ (if 16 < length v then ellipsis else []))"

definition recent_labels :: "jsval list \<Rightarrow> string list" where
  "recent_labels hs = map recent_label (take 8 hs)"

subsection \<open>How results are shown\<close>

definition score_of :: "enrich_result \<Rightarrow> int" where
  "score_of r = (case er_score r of Some n \<Rightarrow> n | None \<Rightarrow> 0)"

definition score_class :: "int \<Rightarrow> string" where
  "score_class n = (if 70 \<le> n then ''text-destructive'' else if 30 \<le> n then ''text-yellow-500'' else ''text-primary'')"

definition score_badge :: "int option \<Rightarrow> string \<times> string" where
  "score_badge v = (case v of None \<Rightarrow> (em_dash, ''text-muted-foreground'') | Some n \<Rightarrow> (int_str n @ ''% malicious'', score_class n))"

definition is_malicious :: "enrich_result \<Rightarrow> bool" where
  "is_malicious r \<longleftrightarrow> er_found r \<and> 50 \<le> score_of r"

definition is_warning :: "enrich_result \<Rightarrow> bool" where
  "is_warning r \<longleftrightarrow> er_found r \<and> 20 \<le> score_of r \<and> score_of r < 50"

definition has_error :: "enrich_result \<Rightarrow> bool" where
  "has_error r \<longleftrightarrow> or_text (er_error r) [] \<noteq> []"

definition result_class :: "enrich_result \<Rightarrow> string" where
  "result_class r = (if has_error r then ''border-border/40 opacity-70''
     else if \<not> er_found r then ''border-primary/30 bg-primary/5''
     else if is_malicious r then ''border-destructive/50 bg-destructive/5''
     else if is_warning r then ''border-yellow-500/40 bg-yellow-500/5'' else ''border-primary/30 bg-primary/5'')"

definition result_text :: "enrich_result \<Rightarrow> string" where
  "result_text r = (if has_error r then or_text (er_error r) [] else if \<not> er_found r then ''NOT FOUND (clean)''
     else fst (score_badge (er_score r)))"

definition results_panel_status :: "intel_page \<Rightarrow> string" where
  "results_panel_status s = (if list_ex is_malicious (ti_results s) then ''offline'' else ''online'')"

definition results_title :: "intel_page \<Rightarrow> string" where
  "results_title s = ''RESULTS '' @ em_dash @ '' '' @ to_upper (ti_type s) @ '': '' @ take 48 (ti_value s)
     @ (if 48 < length (ti_value s) then ellipsis else [])"

text \<open>\<open>k.replace(/_/g, " ").toUpperCase()\<close> and its value.\<close>

definition raw_cells :: "enrich_result \<Rightarrow> (string \<times> string) list" where
  "raw_cells r = (case er_raw r of None \<Rightarrow> []
     | Some ob \<Rightarrow> map (\<lambda>(k, v). (to_upper (map (\<lambda>c. if c = CHR ''_'' then CHR '' '' else c) k), js_string (Some v))) ob)"

definition shown_labels :: "enrich_result \<Rightarrow> string list" where
  "shown_labels r = take 12 (er_labels r)"

section \<open>Correlating incidents\<close>

record corr_result =
  cr_ids :: "string list"
  cr_count :: int
  cr_rows :: "jsval jsobj list"
  cr_truncated :: bool
  cr_unavailable :: "string list"

record corr_page =
  co_ids :: "string list"
  co_query :: string
  co_from :: string
  co_to :: string
  co_running :: bool
  co_result :: "corr_result option"

datatype corr_reply = Correlated corr_result | NotCorrelated

fun the_correlated where "the_correlated (Correlated r) = Some r" | "the_correlated NotCorrelated = None"

type_synonym corr_io = "(corr_page, corr_reply, unit, unit) io"

definition initial_corr :: corr_page where
  "initial_corr = \<lparr>co_ids = [[], []], co_query = [], co_from = [], co_to = [], co_running = False, co_result = None\<rparr>"

definition add_id :: "corr_page \<Rightarrow> corr_page" where
  "add_id s = s\<lparr>co_ids := co_ids s @ [[]]\<rparr>"

definition remove_id :: "nat \<Rightarrow> corr_page \<Rightarrow> corr_page" where
  "remove_id i s = s\<lparr>co_ids := take i (co_ids s) @ drop (Suc i) (co_ids s)\<rparr>"

definition update_id :: "nat \<Rightarrow> string \<Rightarrow> corr_page \<Rightarrow> corr_page" where
  "update_id i v s = s\<lparr>co_ids := (co_ids s)[i := v]\<rparr>"

definition chosen_ids :: "corr_page \<Rightarrow> string list" where
  "chosen_ids s = filter (\<lambda>x. trim x \<noteq> []) (co_ids s)"

text \<open>\<open>new Date(v).toISOString()\<close> is a parameter that gives \<open>None\<close> where it throws.\<close>

definition corr_params :: "(string \<Rightarrow> string option) \<Rightarrow> corr_page \<Rightarrow> params option" where
  "corr_params as_iso s =
     (let from_iso = (if co_from s = [] then Some [] else map_option (\<lambda>d. [(''date_from'', d)]) (as_iso (co_from s)));
          to_iso = (if co_to s = [] then Some [] else map_option (\<lambda>d. [(''date_to'', d)]) (as_iso (co_to s)))
      in case (from_iso, to_iso) of
        (Some f, Some t) \<Rightarrow> Some ([(''incident_ids'', join_with '','' (chosen_ids s))]
           @ set_if (co_query s \<noteq> []) ''q'' (co_query s) @ f @ t)
      | _ \<Rightarrow> None)"

definition coverage_note :: "corr_result \<Rightarrow> string" where
  "coverage_note r = (if cr_truncated r then ''Showing the first 500 events. '' else [])
     @ (if cr_unavailable r \<noteq> [] then ''Unavailable: '' @ join_with '', '' (cr_unavailable r) else [])"

definition corr_failed :: string where
  "corr_failed = ''Correlation failed '' @ em_dash @ '' ensure super timelines exist for all incidents''"

definition handle_correlate :: "(string \<Rightarrow> string) \<Rightarrow> (string \<Rightarrow> string option) \<Rightarrow> corr_io" where
  "handle_correlate enc as_iso = Read (\<lambda>s0.
     if length (chosen_ids s0) < 2 then Emit (Toast ''Provide at least 2 incident IDs'' [] ''destructive'') Done
     else Update (\<lambda>s. s\<lparr>co_running := True, co_result := None\<rparr>)
       (tryFinally
         (tryCatch
           (case corr_params as_iso s0 of None \<Rightarrow> Raise (Error ''Invalid time value'')
            | Some ps \<Rightarrow> apiGet (''/platform/correlate-timelines?'' @ query_string enc ps)
               (expect the_correlated (\<lambda>r. Update (\<lambda>s. s\<lparr>co_result := Some r\<rparr>)
                 (if cr_truncated r \<or> cr_unavailable r \<noteq> []
                  then Emit (Toast ''Partial correlation coverage'' (coverage_note r) []) Done else Done))))
           (\<lambda>_. Emit (Toast corr_failed [] ''destructive'') Done))
         (Update (\<lambda>s. s\<lparr>co_running := False\<rparr>) Done)))"

definition display_cols :: "string list" where
  "display_cols = [''corr_incident_id'', ''datetime'', ''host'', ''source'', ''message'']"

definition corr_header :: "string \<Rightarrow> string" where
  "corr_header col = (case index_of ''corr_'' col of Some i \<Rightarrow> take i col @ drop (i + 5) col | None \<Rightarrow> col)"

definition corr_table :: "corr_result \<Rightarrow> string list list" where
  "corr_table r = map (\<lambda>row. map (\<lambda>c. string_or (map_of row c) em_dash) display_cols) (take 500 (cr_rows r))"

definition corr_title :: "corr_result \<Rightarrow> string" where
  "corr_title r = ''CORRELATION RESULTS '' @ em_dash @ '' '' @ int_str (cr_count r) @ '' EVENTS ACROSS ''
     @ nat_str (length (cr_ids r)) @ '' INCIDENTS''"

text \<open>The controls that the form offers.\<close>

inductive corr_edit :: "corr_page \<Rightarrow> corr_page \<Rightarrow> bool" where
  adds: "length (co_ids s) < 10 \<Longrightarrow> corr_edit s (add_id s)"
| removes: "2 < length (co_ids s) \<Longrightarrow> i < length (co_ids s) \<Longrightarrow> corr_edit s (remove_id i s)"
| updates: "i < length (co_ids s) \<Longrightarrow> corr_edit s (update_id i v s)"
| types_query: "corr_edit s (s\<lparr>co_query := v\<rparr>)"
| types_from: "corr_edit s (s\<lparr>co_from := v\<rparr>)"
| types_to: "corr_edit s (s\<lparr>co_to := v\<rparr>)"

section \<open>Lemmas on the form\<close>

text \<open>A tag that the field can hold: no comma, no blanks around it.\<close>

definition plain_tag :: "string \<Rightarrow> bool" where
  "plain_tag t \<longleftrightarrow> t \<noteq> [] \<and> CHR '','' \<notin> set t \<and> trim t = t"

lemma trim_space: "trim (CHR '' '' # t) = trim t"
  by (simp add: trim_def is_space_def)

lemma split_join_comma:
  "ts \<noteq> [] \<Longrightarrow> \<forall>t \<in> set ts. CHR '','' \<notin> set t \<Longrightarrow>
   split_at_char CHR '','' (join_with '', '' ts) = hd ts # map (\<lambda>t. CHR '' '' # t) (tl ts)"
proof (induction ts)
  case (Cons t ts)
  show ?case
  proof (cases ts)
    case Nil
    then show ?thesis using Cons by (simp add: split_single)
  next
    case (Cons u us)
    then have "split_at_char CHR '','' (join_with '', '' ts) = u # map (\<lambda>t. CHR '' '' # t) us"
      using Cons.IH Cons.prems by simp
    then show ?thesis using Cons.prems Cons by (simp add: split_append)
  qed
qed simp

lemma tags_round_trip:
  assumes "list_all plain_tag ts"
  shows "tags_of (join_with '', '' ts) = ts"
proof (cases ts)
  case (Cons t us)
  have "split_at_char CHR '','' (join_with '', '' ts) = t # map (\<lambda>t. CHR '' '' # t) us"
    using split_join_comma [of ts] assms Cons by (simp add: list_all_iff plain_tag_def)
  moreover have "map trim (t # map (\<lambda>t. CHR '' '' # t) us) = ts"
    using assms Cons by (auto simp: trim_space list_all_iff plain_tag_def intro!: map_idI)
  moreover have "filter (\<lambda>x. x \<noteq> []) ts = ts" using assms by (simp add: list_all_iff plain_tag_def filter_id_conv)
  moreover have "join_with '', '' ts \<noteq> []"
    using assms Cons by (cases us) (auto simp: plain_tag_def)
  ultimately show ?thesis by (simp add: tags_of_def)
qed (simp add: tags_of_def)

lemma or_text_null: "v \<noteq> Some [] \<Longrightarrow> text_or_null (or_text v []) = v"
  by (auto simp: text_or_null_def or_text_def split: option.split)

section \<open>Lemmas on the lookups\<close>

datatype intel_event = Enrich | SetIocType string | SetIocValue string | PickRecent jsval

fun intel_handler :: "intel_event \<Rightarrow> intel_page \<Rightarrow> intel_io" where
  "intel_handler Enrich s = handle_enrich"
| "intel_handler (SetIocType t) s = Update (set_ioc_type t) Done"
| "intel_handler (SetIocValue v) s = Update (set_ioc_value v) Done"
| "intel_handler (PickRecent h) s = Update (pick_recent h) Done"


definition history_of :: "(string \<times> string) list \<Rightarrow> jsval" where
  "history_of es = JArr (map (\<lambda>(v, t). intel_entry v t) es)"

definition good_history :: "(string \<times> string) list \<Rightarrow> bool" where
  "good_history es \<longleftrightarrow> distinct (map fst es) \<and> length es \<le> 20 \<and> [] \<notin> set (map fst es)"

definition intel_ok :: "intel_page \<Rightarrow> bool" where
  "intel_ok s \<longleftrightarrow> \<not> ti_crashed s \<and> stored_intel (ti_browser s) = ti_history s
     \<and> (\<exists>es. ti_history s = history_of es \<and> good_history es)"

lemma entry_value [simp]: "js_prop (intel_entry v t) ''value'' = Some (JStr v)"
  by (simp add: intel_entry_def)

lemma entry_not_null [simp]: "JNull \<noteq> intel_entry v t" "intel_entry v t \<noteq> JNull"
  by (simp_all add: intel_entry_def)

lemma history_wf: "json_wf (history_of es)"
  by (auto simp: history_of_def intel_entry_def)

lemma push_history:
  "push_intel v t (history_of es) = Some (history_of ((v, t) # take 19 (filter (\<lambda>e. fst e \<noteq> v) es)))"
  by (auto simp: push_intel_def history_of_def filter_map take_map comp_def case_prod_beta)

lemma good_push:
  assumes "good_history es" and "v \<noteq> []"
  shows "good_history ((v, t) # take 19 (filter (\<lambda>e. fst e \<noteq> v) es))"
proof -
  let ?f = "filter (\<lambda>e. fst e \<noteq> v) es"
  have "set (take 19 ?f) \<subseteq> set ?f" by (rule set_take_subset)
  moreover have "distinct (map fst ?f)" using assms(1) by (simp add: good_history_def distinct_map_filter)
  then have "distinct (map fst (take 19 ?f))" by (simp add: take_map [symmetric])
  ultimately show ?thesis using assms by (auto simp: good_history_def)
qed

lemma stored_keep:
  assumes "ti_history s = history_of es"
  shows "stored_intel (ti_browser (keep_intel s)) = ti_history s"
  using parse_stringify [OF history_wf [of es]] stringify_nonempty [of "history_of es"]
  by (simp add: keep_intel_def stored_intel_def local.fetch_store assms)

lemma keep_intel_fields [simp]: "ti_history (keep_intel s) = ti_history s" "ti_crashed (keep_intel s) = ti_crashed s"
  "ti_results (keep_intel s) = ti_results s" "ti_value (keep_intel s) = ti_value s" "ti_type (keep_intel s) = ti_type s"
  by (simp_all add: keep_intel_def)

lemma keep_ok:
  assumes "\<not> ti_crashed s" and "ti_history s = history_of es" and "good_history es"
  shows "intel_ok (keep_intel s)"
  using assms stored_keep [OF assms(2)] by (auto simp: intel_ok_def)

lemma remember_ok:
  assumes "intel_ok s" and "v \<noteq> []"
  shows "intel_ok (remember_intel v t s)"
proof -
  obtain es where es: "ti_history s = history_of es" "good_history es" "\<not> ti_crashed s"
    using assms(1) by (auto simp: intel_ok_def)
  show ?thesis
    using keep_ok [OF _ _ good_push [OF es(2) assms(2), of t]] es by (simp add: remember_intel_def push_history)
qed

lemma intel_ok_fields [simp]:
  "intel_ok (s\<lparr>ti_loading := l\<rparr>) = intel_ok s" "intel_ok (s\<lparr>ti_results := rs\<rparr>) = intel_ok s"
  "intel_ok (s\<lparr>ti_type := t\<rparr>) = intel_ok s" "intel_ok (s\<lparr>ti_value := v\<rparr>) = intel_ok s"
  "intel_ok (s\<lparr>ti_loading := l, ti_results := rs\<rparr>) = intel_ok s"
  by (simp_all add: intel_ok_def)

lemma open_ok:
  assumes "stored_intel b = history_of es" and "good_history es"
  shows "intel_ok (open_intel b)"
  using assms stored_keep [of _ es] by (auto simp: intel_ok_def open_intel_def)

lemma stored_fresh: "local_get b intel_key = None \<Longrightarrow> stored_intel b = history_of []"
  by (simp add: stored_intel_def history_of_def)

lemma handle_enrich_keeps: "intel_ok s \<Longrightarrow> keeps intel_ok handle_enrich s"
  unfolding handle_enrich_def Let_def keeps.simps
  by (auto simp: remember_ok intro!: keeps_tryFinally keeps_tryCatch split: option.splits)

lemma intel_handler_keeps: "intel_ok s \<Longrightarrow> keeps intel_ok (intel_handler e s) s"
  by (cases e) (simp_all add: handle_enrich_keeps set_ioc_type_def set_ioc_value_def pick_recent_def)

interpretation intel: component_invariant intel_handler "open_intel (local_remove intel_key b)" intel_ok for b
  by unfold_locales
    (auto simp: intel_handler_keeps good_history_def local_get_def local_remove_def intro!: open_ok stored_fresh)


section \<open>Lemmas on the correlation form\<close>

definition corr_ok :: "corr_page \<Rightarrow> bool" where
  "corr_ok s \<longleftrightarrow> 2 \<le> length (co_ids s) \<and> length (co_ids s) \<le> 10 \<and> \<not> co_running s"

lemma corr_edit_ok: "corr_edit s s' \<Longrightarrow> corr_ok s \<Longrightarrow> corr_ok s'"
  by (induction rule: corr_edit.induct) (auto simp: corr_ok_def add_id_def remove_id_def update_id_def)

lemma corr_reachable_ok: "corr_edit\<^sup>*\<^sup>* initial_corr s \<Longrightarrow> corr_ok s"
proof (induction rule: rtranclp_induct)
  case base
  then show ?case by (simp add: corr_ok_def initial_corr_def)
next
  case (step s s')
  then show ?case using corr_edit_ok by blast
qed

lemma correlate_no_throw: "no_throw (handle_correlate enc as_iso)"
  by (auto simp: handle_correlate_def intro!: no_throw_tryFinally no_throw_tryCatch)

lemma correlate_stops:
  "\<not> co_running s \<Longrightarrow> \<not> co_running (final_state srv yes (handle_correlate enc as_iso) w s)"
  by (rule wp_final [where A = "\<lambda>_ _. True"]) (simp_all add: handle_correlate_def split: option.split)

lemma correlate_requests:
  "requests_of srv yes (handle_correlate enc as_iso) w s =
     (case corr_params as_iso s of None \<Rightarrow> []
      | Some ps \<Rightarrow> if 2 \<le> length (chosen_ids s)
          then [Request GET (''/platform/correlate-timelines?'' @ query_string enc ps) None] else [])"
  by (auto simp: handle_correlate_def io_simps split: option.split sum.split)

section \<open>Theorems\<close>

text \<open> Editing a hunt query without a change loses nothing: opening it and saving sends one patch to it with exactly
  its fields, its tags included, when no optional field is the empty text and each tag is trimmed and without a comma.
\<close>

theorem unchanged_query_edit:
  assumes "hq_id q \<noteq> []" and "hq_description q \<noteq> Some []" and "hq_sigma q \<noteq> Some []"
    and "hq_technique q \<noteq> Some []" and "list_all plain_tag (hq_tags q)"
  shows "requests_of srv yes save_hunt w (edit_hunt q s) =
    [Request PATCH (''/platform/threat-hunt-queries/'' @ hq_id q) (Some (QueryBody
      \<lparr>qb_name = hq_name q, qb_description = hq_description q, qb_category = hq_category q, qb_query = hq_query q,
       qb_sigma = hq_sigma q, qb_tags = hq_tags q, qb_technique = hq_technique q, qb_public = hq_public q\<rparr>))]"
proof -
  have "save_hunt_request (edit_hunt q s) =
    Request PATCH (''/platform/threat-hunt-queries/'' @ hq_id q) (Some (QueryBody
      \<lparr>qb_name = hq_name q, qb_description = hq_description q, qb_category = hq_category q, qb_query = hq_query q,
       qb_sigma = hq_sigma q, qb_tags = hq_tags q, qb_technique = hq_technique q, qb_public = hq_public q\<rparr>))"
    using assms by (simp add: save_hunt_request_def hunt_save_body_def edit_hunt_def or_text_null tags_round_trip)
      (simp add: or_text_def)
  then show ?thesis by (auto simp: save_hunt_def io_simps split: sum.split)
qed

definition sample_query :: hunt_query where
  "sample_query = \<lparr>hq_id = ''q1'', hq_name = ''lsass'', hq_description = None, hq_category = ''Other'', hq_query = ''SELECT 1'',
     hq_sigma = None, hq_tags = [''lsass'', ''dump''], hq_technique = None, hq_public = False, hq_created_by = ''u'',
     hq_created_at = []\<rparr>"

lemma unchanged_query_edit_witness:
  "map req_path (requests_of (stateless (\<lambda>_. Inr OtherReply)) True save_hunt () (edit_hunt sample_query (initial_hunt None)))
   = [''/platform/threat-hunt-queries/q1'']"
  using unchanged_query_edit [of sample_query "stateless (\<lambda>_. Inr OtherReply)" True "()" "initial_hunt None"]
  by (simp add: sample_query_def plain_tag_def trim_def is_space_def)

text \<open> A late save discards another edit: a save sends the form of its click; when it succeeds after another query was
  opened for editing, that form is closed and emptied, whatever had been typed into it.
\<close>

theorem late_save_discards_edit:
  "\<exists>g. settle save_hunt yes s = (s, [Await (save_hunt_request s) g])
     \<and> (\<forall>r q s1 f. settle (g (Inr r)) yes ((edit_hunt q s1)\<lparr>hp_form := f\<rparr>) =
         (s1\<lparr>hp_show_form := False, hp_edit := None, hp_form := blank_hunt_form\<rparr>, []))"
  by (simp add: save_hunt_def call_def reset_hunt_form_def edit_hunt_def)

text \<open> Running a hunt query: without an incident nothing is sent; otherwise one request goes to the query and its
  incident, its rows are shown exactly when it answers with a result, and the page is never left running.
\<close>

theorem run_hunt_outcome:
  "requests_of srv yes (run_hunt enc i) w s =
     (if trim (hp_incident s) = [] then []
      else [Request POST (''/platform/threat-hunt-queries/'' @ i @ ''/run?incident_id='' @ enc (trim (hp_incident s))) (Some NoFields)])
   \<and> (let s' = final_state srv yes (run_hunt enc i) w s;
         x = fst (srv w (Request POST (''/platform/threat-hunt-queries/'' @ i @ ''/run?incident_id='' @ enc (trim (hp_incident s))) (Some NoFields)))
      in if trim (hp_incident s) = [] then s' = s
         else hp_running s' = None \<and> hp_results s' = (case x of Inr (Ran r) \<Rightarrow> Some r | _ \<Rightarrow> None))
   \<and> outcome_of srv yes (run_hunt enc i) w s = Inr ()"
  by (auto simp: run_hunt_def io_simps split: sum.split hunt_reply.split)



text \<open> A late answer is shown under another indicator: a lookup sends what is in the field, but when its answer
  arrives the page shows it under whatever the field holds by then, and as finished, also while another lookup runs.
\<close>

theorem late_lookup_mislabelled:
  assumes "trim v \<noteq> []"
  shows "\<exists>g s0. settle handle_enrich yes (set_ioc_value v s) = (s0, [Await (Request POST ''/threat-intel/enrich'' (Some (ti_type s, trim v))) g])
    \<and> (\<forall>s1 u rs. let s2 = fst (settle (g (Inr (Enriched rs))) yes (set_ioc_value u s1))
        in ti_results s2 = rs \<and> results_title s2 = results_title (set_ioc_value u s1) \<and> \<not> ti_loading s2)"
  using assms
  by (simp add: handle_enrich_def call_def expect_def Let_def set_ioc_value_def results_title_def remember_intel_def keep_intel_def
      split: option.split)

lemma late_lookup_mislabelled_witness:
  "\<exists>g s0. settle handle_enrich True (set_ioc_value ''1.2.3.4'' (open_intel sample_browser)) =
     (s0, [Await (Request POST ''/threat-intel/enrich'' (Some (''hash'', ''1.2.3.4''))) g])"
proof -
  have t: "trim ''1.2.3.4'' = ''1.2.3.4''" by (simp add: trim_def is_space_def)
  have h: "ti_type (open_intel sample_browser) = ''hash''" by (simp add: open_intel_def)
  from late_lookup_mislabelled [of "''1.2.3.4''" True "open_intel sample_browser"] show ?thesis by (auto simp: t h)
qed

text \<open>C29.  Correlating: whatever is clicked, the form has between two and ten incidents; the button sends one request, and
  only with two incidents chosen and dates that can be read, the incidents arrive as they were chosen, and the page is
  never left running.
\<close>

theorem correlate_outcome:
  assumes "corr_edit\<^sup>*\<^sup>* initial_corr s" and "\<forall>x \<in> set (co_ids s). CHR '','' \<notin> set x"
  shows "2 \<le> length (co_ids s) \<and> length (co_ids s) \<le> 10
    \<and> requests_of srv yes (handle_correlate enc as_iso) w s =
       (case corr_params as_iso s of None \<Rightarrow> []
        | Some ps \<Rightarrow> if 2 \<le> length (chosen_ids s)
            then [Request GET (''/platform/correlate-timelines?'' @ query_string enc ps) None] else [])
    \<and> (case corr_params as_iso s of None \<Rightarrow> True
       | Some ps \<Rightarrow> chosen_ids s = [] \<or> map_option (split_at_char CHR '','') (map_of ps ''incident_ids'') = Some (chosen_ids s))
    \<and> outcome_of srv yes (handle_correlate enc as_iso) w s = Inr ()
    \<and> \<not> co_running (final_state srv yes (handle_correlate enc as_iso) w s)"
proof -
  have ok: "corr_ok s" using corr_reachable_ok [OF assms(1)] .
  have "split_at_char CHR '','' (join_with '','' (chosen_ids s)) = chosen_ids s" if "chosen_ids s \<noteq> []"
    using assms(2) by (intro split_join that) (simp add: chosen_ids_def)
  then have "case corr_params as_iso s of None \<Rightarrow> True
       | Some ps \<Rightarrow> chosen_ids s = [] \<or> map_option (split_at_char CHR '','') (map_of ps ''incident_ids'') = Some (chosen_ids s)"
    by (auto simp: corr_params_def Let_def split: option.split)
  moreover have "outcome_of srv yes (handle_correlate enc as_iso) w s = Inr ()"
    using no_throw_outcome [OF correlate_no_throw] by auto
  moreover have "\<not> co_running (final_state srv yes (handle_correlate enc as_iso) w s)"
    using ok by (intro correlate_stops) (simp add: corr_ok_def)
  ultimately show ?thesis using ok correlate_requests [of srv yes enc as_iso w s] unfolding corr_ok_def by blast
qed

lemma correlate_outcome_witness:
  "\<not> co_running (final_state (stateless (\<lambda>_. Inl NonError)) True (handle_correlate id Some) () initial_corr)"
  using correlate_outcome [of initial_corr "stateless (\<lambda>_. Inl NonError)" True id Some "()"] by (simp add: initial_corr_def)

text \<open>The same incident twice counts as two, and the request asks for it twice.\<close>

lemma same_incident_twice:
  assumes "trim x \<noteq> []"
  shows "\<exists>s. corr_edit\<^sup>*\<^sup>* initial_corr s \<and> requests_of srv yes (handle_correlate enc as_iso) w s =
     [Request GET (''/platform/correlate-timelines?'' @ query_string enc [(''incident_ids'', x @ '','' @ x)]) None]"
proof (intro exI conjI)
  have "corr_edit initial_corr (update_id 0 x initial_corr)"
    "corr_edit (update_id 0 x initial_corr) (update_id 1 x (update_id 0 x initial_corr))"
    by (rule corr_edit.updates, simp add: initial_corr_def update_id_def)+
  then show "corr_edit\<^sup>*\<^sup>* initial_corr (update_id 1 x (update_id 0 x initial_corr))" by simp
  show "requests_of srv yes (handle_correlate enc as_iso) w (update_id 1 x (update_id 0 x initial_corr)) =
     [Request GET (''/platform/correlate-timelines?'' @ query_string enc [(''incident_ids'', x @ '','' @ x)]) None]"
    using assms by (simp add: correlate_requests corr_params_def chosen_ids_def update_id_def initial_corr_def set_if_def)
qed

end
