(* ===== verification/Api.thy ===== *)
theory Api
  imports Json
begin

text \<open>
  The API client of \<open>frontend/src/lib/api.ts\<close>: \<open>request\<close> with its per-method timeout, its
  retry loop and its error translation.  The network is a state machine \<open>raw\<close> that settles each
  \<open>fetch\<close>; what the client does besides fetching (arming and clearing the timer, sleeping,
  logging out) is recorded as events in order.
\<close>

section \<open>Configuration\<close>

definition default_base_url :: string where
  "default_base_url = ''/api/v1''"

fun method_timeout_ms :: "http_method \<Rightarrow> nat" where
  "method_timeout_ms GET = 30000"
| "method_timeout_ms POST = 120000"
| "method_timeout_ms PATCH = 30000"
| "method_timeout_ms PUT = 60000"
| "method_timeout_ms DELETE = 30000"

definition no_timeout_paths :: "string list" where
  "no_timeout_paths = [''/agents/upload'', ''/evidence/exports'', ''/siem-export'']"

definition get_base_url :: "string option \<Rightarrow> string" where
  "get_base_url env = (case env of
      None \<Rightarrow> default_base_url
    | Some u \<Rightarrow> (if trim u = [] then default_base_url else trim u))"

section \<open>The request loop\<close>

text \<open>What one \<open>fetch\<close> settles with; reading the body may itself reject.\<close>

datatype 'v fetch_result =
    Rejected jserr
  | Response (resp_status: nat) (retry_after: "string option")
      (resp_text: "jserr + string") (resp_json: "jserr + 'v")

record fetch_call =
  fc_url :: string
  fc_method :: http_method
  fc_body :: "string option"
  fc_timer :: bool

datatype client_event = Fetched fetch_call | TimerArmed nat | TimerCleared | Slept nat | LoggedOut string

type_synonym ('w, 'v) network = "'w \<Rightarrow> fetch_call \<Rightarrow> 'v fetch_result \<times> 'w"

definition truthy_body :: "jsval \<Rightarrow> bool" where
  "truthy_body v = (v \<notin> {JNull, JBool False, JNum 0, JStr []})"

definition body_text :: "jsval option \<Rightarrow> string option" where
  "body_text b = (case b of Some v \<Rightarrow> (if truthy_body v then Some (stringify v) else None) | None \<Rightarrow> None)"

text \<open>\<open>parseInt(s, 10)\<close>: leading spaces, a sign, then the longest run of digits; \<open>None\<close> is NaN.\<close>

definition parse_int :: "string \<Rightarrow> int option" where
  "parse_int s =
     (let t = dropWhile is_space s;
          neg = starts_with ''-'' t;
          u = (if neg \<or> starts_with ''+'' t then tl t else t);
          ds = takeWhile is_digit u
      in if ds = [] then None
         else Some (if neg then - int (digits_value ds) else int (digits_value ds)))"

text \<open>\<open>setTimeout\<close> takes a NaN or negative delay as 0.\<close>

definition timer_ms :: "int option \<Rightarrow> nat" where
  "timer_ms d = (case d of None \<Rightarrow> 0 | Some i \<Rightarrow> nat i)"

definition retry_delay :: "string option \<Rightarrow> nat \<Rightarrow> int option" where
  "retry_delay header attempt =
     (if header \<noteq> None \<and> header \<noteq> Some []
      then map_option (\<lambda>i. min (i * 1000) 10000) (parse_int (the header))
      else Some (min ((int attempt + 1) * 2000) 10000))"

definition retryable :: "nat \<Rightarrow> bool" where
  "retryable st = (st \<in> {429, 503})"

definition max_retries :: nat where
  "max_retries = 2"

definition ok_status :: "nat \<Rightarrow> bool" where
  "ok_status st = (200 \<le> st \<and> st \<le> 299)"

definition error_json :: "string \<Rightarrow> nat \<Rightarrow> jserr" where
  "error_json detail st = Error (stringify (JObj [(''detail'', JStr detail), (''status'', JNum (int st))]))"

text \<open>\<open>{...errorBody, status}\<close>: spreading an array or a string copies its indexed entries.\<close>

definition indexed :: "'a list \<Rightarrow> (string \<times> 'a) list" where
  "indexed xs = map (\<lambda>i. (nat_str i, xs ! i)) [0..<length xs]"

fun spread :: "jsval \<Rightarrow> (string \<times> jsval) list" where
  "spread (JObj ms) = ms"
| "spread (JArr vs) = indexed vs"
| "spread (JStr s) = indexed (map (\<lambda>c. JStr [c]) s)"
| "spread _ = []"

definition error_body :: "string \<Rightarrow> nat \<Rightarrow> jsval" where
  "error_body txt st = (case parse_json txt of
      Some v \<Rightarrow> v
    | None \<Rightarrow> JObj [(''detail'', JStr (if txt = [] then ''Request failed: '' @ nat_str st else txt))])"

definition http_error :: "string \<Rightarrow> nat \<Rightarrow> jserr" where
  "http_error txt st = Error (stringify (JObj (obj_put ''status'' (JNum (int st)) (spread (error_body txt st)))))"

text \<open>One pass through the \<open>try\<close> block; \<open>None\<close> in \<open>Returned\<close> is \<open>undefined\<close>.\<close>

datatype 'v attempt_result = Returned "'v option" | Threw jserr | RetryAfter "int option"

definition try_block :: "nat \<Rightarrow> 'v fetch_result \<Rightarrow> 'v attempt_result" where
  "try_block attempt res = (case res of
      Rejected e \<Rightarrow> Threw e
    | Response st ra txt js \<Rightarrow>
        if st = 401 then Threw (error_json ''Session expired'' 401)
        else if st = 403 then Threw (error_json ''Access denied'' 403)
        else if retryable st \<and> attempt < max_retries - 1 then RetryAfter (retry_delay ra attempt)
        else if \<not> ok_status st then (case txt of Inl e \<Rightarrow> Threw e | Inr t \<Rightarrow> Threw (http_error t st))
        else if st = 204 then Returned None
        else (case js of Inl e \<Rightarrow> Threw e | Inr v \<Rightarrow> Returned (Some v)))"

definition try_events :: "'v fetch_result \<Rightarrow> bool \<Rightarrow> client_event list" where
  "try_events res timer = (case res of
      Rejected e \<Rightarrow> []
    | Response st ra txt js \<Rightarrow>
        (if timer then [TimerCleared] else []) @ (if st = 401 then [LoggedOut ''expired''] else []))"

definition timer_left :: "'v fetch_result \<Rightarrow> bool \<Rightarrow> bool" where
  "timer_left res timer = (case res of Rejected e \<Rightarrow> timer | _ \<Rightarrow> False)"

function attempts :: "('w, 'v) network \<Rightarrow> fetch_call \<Rightarrow> nat \<Rightarrow> 'w \<Rightarrow> nat \<Rightarrow> bool
    \<Rightarrow> (jserr + 'v option) \<times> 'w \<times> client_event list" where
  "attempts raw fc timeout w attempt timer =
     (if attempt < max_retries then
        (let this = fc\<lparr>fc_timer := timer\<rparr>;
             (res, w1) = raw w this;
             evs = Fetched this # try_events res timer
         in case try_block attempt res of
              Returned v \<Rightarrow> (Inr v, w1, evs)
            | RetryAfter d \<Rightarrow>
                (let (r, w2, l) = attempts raw fc timeout w1 (Suc attempt) False
                 in (r, w2, evs @ [Slept (timer_ms d)] @ l))
            | Threw e \<Rightarrow>
                (let evs' = evs @ (if timer_left res timer then [TimerCleared] else [])
                 in case e of
                      DOMException n m \<Rightarrow>
                        if n = ''TimeoutError'' then
                          (Inl (error_json (''Request timed out after '' @ nat_str (timeout div 1000) @ ''s'') 408), w1, evs')
                        else if n = ''AbortError'' then (Inl e, w1, evs')
                        else if attempt < max_retries - 1 then
                          (let (r, w2, l) = attempts raw fc timeout w1 (Suc attempt) False
                           in (r, w2, evs' @ [Slept ((attempt + 1) * 1000)] @ l))
                        else (Inl e, w1, evs')
                    | _ \<Rightarrow>
                        if attempt < max_retries - 1 then
                          (let (r, w2, l) = attempts raw fc timeout w1 (Suc attempt) False
                           in (r, w2, evs' @ [Slept ((attempt + 1) * 1000)] @ l))
                        else (Inl e, w1, evs')))
      else (Inl (error_json ''Request failed after retries'' 500), w, []))"
  by pat_completeness auto
termination
  by (relation "measure (\<lambda>(raw, fc, timeout, w, attempt, timer). max_retries - attempt)") auto

declare attempts.simps [simp del]

definition request_timeout :: "string \<Rightarrow> http_method \<Rightarrow> nat" where
  "request_timeout path meth =
     (if list_ex (\<lambda>p. str_includes path p) no_timeout_paths then 0 else method_timeout_ms meth)"

definition first_call :: "string option \<Rightarrow> jsval request \<Rightarrow> fetch_call" where
  "first_call env rq = \<lparr>fc_url = get_base_url env @ req_path rq, fc_method = req_method rq,
     fc_body = body_text (req_body rq), fc_timer = (0 < request_timeout (req_path rq) (req_method rq))\<rparr>"

definition api_request :: "('w, 'v) network \<Rightarrow> string option \<Rightarrow> jsval request \<Rightarrow> 'w
    \<Rightarrow> (jserr + 'v option) \<times> 'w \<times> client_event list" where
  "api_request raw env rq w =
     (let timeout = request_timeout (req_path rq) (req_method rq);
          (r, w', l) = attempts raw (first_call env rq) timeout w 0 (0 < timeout)
      in (r, w', (if 0 < timeout then [TimerArmed timeout] else []) @ l))"

text \<open>The client as the server the pages talk to; \<open>undefined\<close> is read by \<open>missing\<close>.\<close>

definition api_server :: "('w, 'v) network \<Rightarrow> string option \<Rightarrow> 'v \<Rightarrow> ('w, 'v, jsval) server" where
  "api_server raw env missing w rq =
     (case api_request raw env rq w of (r, w', l) \<Rightarrow>
        ((case r of Inl e \<Rightarrow> Inl e | Inr None \<Rightarrow> Inr missing | Inr (Some v) \<Rightarrow> Inr v), w'))"

section \<open>Lemmas\<close>

definition fetches :: "client_event list \<Rightarrow> fetch_call list" where
  "fetches evs = concat (map (\<lambda>e. case e of Fetched c \<Rightarrow> [c] | _ \<Rightarrow> []) evs)"

lemma fetches_simps [simp]:
  "fetches [] = []" "fetches (Fetched c # l) = c # fetches l" "fetches (TimerCleared # l) = fetches l"
  "fetches (TimerArmed t # l) = fetches l" "fetches (Slept n # l) = fetches l"
  "fetches (LoggedOut s # l) = fetches l" "fetches (k @ l) = fetches k @ fetches l"
  by (simp_all add: fetches_def)

lemma fetches_try_events [simp]: "fetches (try_events res timer) = []"
  by (simp add: try_events_def split: fetch_result.split)

lemma max_retries_simps [simp]: "0 < max_retries" "max_retries - Suc 0 = Suc 0" "Suc 0 < max_retries"
  by (simp_all add: max_retries_def)

text \<open>A failure of the first attempt that the loop sends again: everything but a timeout or an abort.\<close>

definition gives_up :: "jserr \<Rightarrow> bool" where
  "gives_up e = (case e of DOMException n m \<Rightarrow> n \<in> {''TimeoutError'', ''AbortError''} | _ \<Rightarrow> False)"

definition settles_first :: "'v attempt_result \<Rightarrow> bool" where
  "settles_first r = (case r of Returned v \<Rightarrow> True | Threw e \<Rightarrow> gives_up e | RetryAfter d \<Rightarrow> False)"

definition final_error :: "nat \<Rightarrow> jserr \<Rightarrow> jserr" where
  "final_error timeout e = (case e of
      DOMException n m \<Rightarrow>
        (if n = ''TimeoutError'' then error_json (''Request timed out after '' @ nat_str (timeout div 1000) @ ''s'') 408
         else e)
    | _ \<Rightarrow> e)"

lemma try_block_last: "try_block (Suc 0) res \<noteq> RetryAfter d"
  by (auto simp: try_block_def split: fetch_result.split sum.split)

text \<open>The last attempt: no more retries, whatever it yields is the result.\<close>

lemma attempts_last:
  "raw w (fc\<lparr>fc_timer := timer\<rparr>) = (res, w1) \<Longrightarrow>
   fst (attempts raw fc timeout w (Suc 0) timer) =
     (case try_block (Suc 0) res of Returned v \<Rightarrow> Inr v | Threw e \<Rightarrow> Inl (final_error timeout e)
      | RetryAfter d \<Rightarrow> undefined)
   \<and> fst (snd (attempts raw fc timeout w (Suc 0) timer)) = w1
   \<and> fetches (snd (snd (attempts raw fc timeout w (Suc 0) timer))) = [fc\<lparr>fc_timer := timer\<rparr>]"
  by (subst (1 2 3) attempts.simps)
    (auto simp: Let_def final_error_def try_block_last split: attempt_result.split jserr.split)

lemma attempts_first_settles:
  "raw w (fc\<lparr>fc_timer := timer\<rparr>) = (res, w1) \<Longrightarrow> settles_first (try_block 0 res) \<Longrightarrow>
   fst (attempts raw fc timeout w 0 timer) =
     (case try_block 0 res of Returned v \<Rightarrow> Inr v | Threw e \<Rightarrow> Inl (final_error timeout e)
      | RetryAfter d \<Rightarrow> undefined)
   \<and> fst (snd (attempts raw fc timeout w 0 timer)) = w1
   \<and> fetches (snd (snd (attempts raw fc timeout w 0 timer))) = [fc\<lparr>fc_timer := timer\<rparr>]"
  by (subst (1 2 3) attempts.simps)
    (auto simp: Let_def final_error_def settles_first_def gives_up_def
      split: attempt_result.splits jserr.splits)

lemma attempts_first_retries:
  "raw w (fc\<lparr>fc_timer := timer\<rparr>) = (res, w1) \<Longrightarrow> \<not> settles_first (try_block 0 res) \<Longrightarrow>
   fst (attempts raw fc timeout w 0 timer) = fst (attempts raw fc timeout w1 (Suc 0) False)
   \<and> fst (snd (attempts raw fc timeout w 0 timer)) = fst (snd (attempts raw fc timeout w1 (Suc 0) False))
   \<and> fetches (snd (snd (attempts raw fc timeout w 0 timer))) =
       fc\<lparr>fc_timer := timer\<rparr> # fetches (snd (snd (attempts raw fc timeout w1 (Suc 0) False)))"
  by (subst (1 3 5) attempts.simps)
    (auto simp: Let_def settles_first_def gives_up_def
      split: attempt_result.splits jserr.splits prod.splits)

lemma json_wf_spread:
  assumes "json_wf v"
  shows "distinct (map fst (spread v)) \<and> (\<forall>m \<in> set (spread v). json_wf (snd m))"
proof -
  have i: "distinct (map fst (indexed xs))" for xs :: "jsval list"
    by (auto simp: indexed_def distinct_map inj_on_def comp_def dest: nat_str_inject)
  have m: "m \<in> set (indexed xs) \<Longrightarrow> snd m \<in> set xs" for m and xs :: "jsval list"
    by (auto simp: indexed_def)
  show ?thesis
    using assms i by (cases v) (fastforce dest: m)+
qed

lemma json_wf_error_body: "json_wf (error_body txt st)"
  by (auto simp: error_body_def split: option.split dest: parse_json_wf)

text \<open>The message of an HTTP error reads back as an object whose \<open>status\<close> is the response's.\<close>

definition carries_status :: "jserr \<Rightarrow> nat \<Rightarrow> bool" where
  "carries_status e st = (\<exists>m ob. e = Error m \<and> parse_json m = Some (JObj ob) \<and>
     map_of ob ''status'' = Some (JNum (int st)))"

lemma error_json_carries: "carries_status (error_json d st) st"
  by (simp add: carries_status_def error_json_def parse_stringify)

lemma http_error_carries: "carries_status (http_error txt st) st"
proof -
  let ?sp = "spread (error_body txt st)"
  let ?ob = "obj_put ''status'' (JNum (int st)) ?sp"
  have sp: "distinct (map fst ?sp)" "\<forall>m \<in> set ?sp. json_wf (snd m)"
    using json_wf_spread [OF json_wf_error_body] by blast+
  have "\<forall>m \<in> set ?ob. json_wf (snd m)" by (rule obj_put_wf [OF sp(2)]) simp
  then have "json_wf (JObj ?ob)" using distinct_obj_put [OF sp(1)] by simp
  then show ?thesis by (simp add: carries_status_def http_error_def parse_stringify)
qed

lemma carries_status_final: "carries_status e st \<Longrightarrow> final_error timeout e = e"
  by (auto simp: carries_status_def final_error_def)

lemma try_block_http_error:
  "\<not> ok_status st \<Longrightarrow> \<exists>e. try_block (Suc 0) (Response st ra (Inr txt) js) = Threw e \<and> carries_status e st"
  by (auto simp: try_block_def ok_status_def error_json_carries http_error_carries)

definition second_call :: "string option \<Rightarrow> jsval request \<Rightarrow> fetch_call" where
  "second_call env rq = (first_call env rq)\<lparr>fc_timer := False\<rparr>"

lemma first_call_timer [simp]:
  "(first_call env rq)\<lparr>fc_timer := 0 < request_timeout (req_path rq) (req_method rq)\<rparr> = first_call env rq"
  by (simp add: first_call_def)

lemma api_request_parts:
  defines "t \<equiv> \<lambda>rq. request_timeout (req_path rq) (req_method rq)"
  shows "fst (api_request raw env rq w) = fst (attempts raw (first_call env rq) (t rq) w 0 (0 < t rq))"
    and "fetches (snd (snd (api_request raw env rq w))) =
      fetches (snd (snd (attempts raw (first_call env rq) (t rq) w 0 (0 < t rq))))"
  by (simp_all add: api_request_def t_def Let_def split: prod.split)

lemma api_request_settles:
  assumes "raw w (first_call env rq) = (res, w1)" and "settles_first (try_block 0 res)"
  shows "fst (api_request raw env rq w) =
      (case try_block 0 res of Returned v \<Rightarrow> Inr v
       | Threw e \<Rightarrow> Inl (final_error (request_timeout (req_path rq) (req_method rq)) e)
       | RetryAfter d \<Rightarrow> undefined)"
    and "fetches (snd (snd (api_request raw env rq w))) = [first_call env rq]"
  using attempts_first_settles [where raw = raw and w = w and res = res and ?w1.0 = w1
      and fc = "first_call env rq" and timer = "0 < request_timeout (req_path rq) (req_method rq)"
      and timeout = "request_timeout (req_path rq) (req_method rq)"] assms
  by (simp_all add: api_request_parts)

lemma api_request_retries:
  assumes "raw w (first_call env rq) = (r0, w1)" and "\<not> settles_first (try_block 0 r0)"
    and "raw w1 (second_call env rq) = (r1, w2)"
  shows "fst (api_request raw env rq w) =
      (case try_block (Suc 0) r1 of Returned v \<Rightarrow> Inr v
       | Threw e \<Rightarrow> Inl (final_error (request_timeout (req_path rq) (req_method rq)) e)
       | RetryAfter d \<Rightarrow> undefined)"
    and "fetches (snd (snd (api_request raw env rq w))) = [first_call env rq, second_call env rq]"
  using attempts_first_retries [where raw = raw and w = w and res = r0 and ?w1.0 = w1
      and fc = "first_call env rq" and timer = "0 < request_timeout (req_path rq) (req_method rq)"
      and timeout = "request_timeout (req_path rq) (req_method rq)"]
    attempts_last [where raw = raw and w = w1 and res = r1 and ?w1.0 = w2
      and fc = "first_call env rq" and timer = False
      and timeout = "request_timeout (req_path rq) (req_method rq)"] assms
  by (simp_all add: api_request_parts second_call_def)

lemma http_failure_not_settled:
  "\<not> ok_status st \<Longrightarrow> \<not> settles_first (try_block 0 (Response st ra (Inr txt) js))"
  by (auto simp: try_block_def settles_first_def gives_up_def error_json_def http_error_def ok_status_def)

text \<open>What an attempt makes of what its \<open>fetch\<close> settled with: it returns, fails for good because it was timed out or
  aborted, or fails so that the loop goes on.  A body that cannot be read fails like a network error, but only where
  the code reads it: not for 204, 401 and 403.\<close>

definition body_error :: "nat \<Rightarrow> jserr + string \<Rightarrow> jserr" where
  "body_error st txt = (if st \<in> {401, 403} then error_json (if st = 401 then ''Session expired'' else ''Access denied'') st
     else case txt of Inl e \<Rightarrow> e | Inr t \<Rightarrow> http_error t st)"

fun settles_with :: "'v fetch_result \<Rightarrow> jserr + 'v option" where
  "settles_with (Rejected e) = Inl e"
| "settles_with (Response st ra txt js) = (if ok_status st
     then (if st = 204 then Inr None else case js of Inl e \<Rightarrow> Inl e | Inr v \<Rightarrow> Inr (Some v))
     else Inl (body_error st txt))"

text \<open>The first attempt is repeated: for 429 and 503 before their body is read, else for every error but those two.\<close>

fun sent_again :: "'v fetch_result \<Rightarrow> bool" where
  "sent_again (Rejected e) \<longleftrightarrow> \<not> gives_up e"
| "sent_again (Response st ra txt js) \<longleftrightarrow> st \<in> {429, 503} \<or>
     (case settles_with (Response st ra txt js) of Inl e \<Rightarrow> \<not> gives_up e | Inr v \<Rightarrow> False)"

lemma error_json_retried [simp]: "\<not> gives_up (error_json d st)" "\<not> gives_up (http_error t st)"
  by (simp_all add: gives_up_def error_json_def http_error_def)

lemma try_block_retry: "st \<in> {429, 503} \<Longrightarrow> try_block 0 (Response st ra txt js) = RetryAfter (retry_delay ra 0)"
  by (auto simp: try_block_def retryable_def)

lemma try_block_last_settles: "try_block (Suc 0) res = (case settles_with res of Inl e \<Rightarrow> Threw e | Inr v \<Rightarrow> Returned v)"
  by (cases res) (simp_all add: try_block_def body_error_def ok_status_def split: sum.split)

lemma try_block_first_settles:
  "(\<And>st ra tx js. res = Response st ra tx js \<Longrightarrow> st \<notin> {429, 503}) \<Longrightarrow> try_block 0 res = try_block (Suc 0) res"
  by (cases res) (simp_all add: try_block_def retryable_def)

lemma sent_again_iff: "settles_first (try_block 0 res) = (\<not> sent_again res)"
proof (cases "\<exists>st ra txt js. res = Response st ra txt js \<and> st \<in> {429, 503}")
  case True
  then obtain st ra tx js where "res = Response st ra tx js" "st \<in> {429, 503}" by blast
  then show ?thesis by (simp add: try_block_retry settles_first_def)
next
  case False
  then have b: "try_block 0 res = (case settles_with res of Inl e \<Rightarrow> Threw e | Inr v \<Rightarrow> Returned v)"
    using try_block_first_settles [of res] by (auto simp: try_block_last_settles)
  have "sent_again res = (case settles_with res of Inl e \<Rightarrow> \<not> gives_up e | Inr v \<Rightarrow> False)"
    using False by (cases res) (simp_all add: Bex_def)
  then show ?thesis unfolding b by (simp add: settles_first_def split: sum.split)
qed

lemma try_block_settled:
  assumes "\<not> sent_again res"
  shows "try_block 0 res = (case settles_with res of Inl e \<Rightarrow> Threw e | Inr v \<Rightarrow> Returned v)"
  unfolding try_block_last_settles [symmetric] by (rule try_block_first_settles) (use assms in auto)

text \<open>What the last \<open>fetch\<close> of a call settles with.\<close>

definition last_result :: "('w, 'v) network \<Rightarrow> string option \<Rightarrow> jsval request \<Rightarrow> 'w \<Rightarrow> 'v fetch_result" where
  "last_result raw env rq w = (case raw w (first_call env rq) of (r0, w1) \<Rightarrow>
     if sent_again r0 then fst (raw w1 (second_call env rq)) else r0)"

section \<open>Properties\<close>

text \<open>C10. What a call settles with is decided by its last attempt alone.  If that was a response with a failing
  status, the caller gets an \<open>Error\<close> whose message is JSON with this status, for any error body the server sends (an
  object, which the status overrides, an array, a bare value or text that is not JSON); a response that succeeds is
  returned, and for a network error or a body that cannot be read the caller gets that error, but for a timeout, which
  reads as status 408.\<close>

theorem api_error_carries_status:
  "case last_result raw env rq w of
     Rejected e \<Rightarrow> fst (api_request raw env rq w) = Inl (final_error (request_timeout (req_path rq) (req_method rq)) e)
   | Response st ra txt js \<Rightarrow>
       if ok_status st then fst (api_request raw env rq w) = (if st = 204 then Inr None else case js of
           Inr v \<Rightarrow> Inr (Some v) | Inl e \<Rightarrow> Inl (final_error (request_timeout (req_path rq) (req_method rq)) e))
       else if st \<notin> {401, 403} \<and> isl txt
       then fst (api_request raw env rq w) = Inl (final_error (request_timeout (req_path rq) (req_method rq)) (projl txt))
       else \<exists>e. fst (api_request raw env rq w) = Inl e \<and> carries_status e st"
proof -
  let ?t = "request_timeout (req_path rq) (req_method rq)"
  obtain r0 w1 where r0: "raw w (first_call env rq) = (r0, w1)" by force
  obtain r1 w2 where r1: "raw w1 (second_call env rq) = (r1, w2)" by force
  have settles: "fst (api_request raw env rq w) = (case settles_with (last_result raw env rq w) of
      Inl e \<Rightarrow> Inl (final_error ?t e) | Inr v \<Rightarrow> Inr v)"
  proof (cases "sent_again r0")
    case True
    then show ?thesis
      using api_request_retries(1) [where raw = raw and env = env and rq = rq, OF r0 _ r1] r0 r1
      by (simp add: sent_again_iff last_result_def try_block_last_settles split: sum.split)
  next
    case False
    then have "settles_first (try_block 0 r0)" by (simp add: sent_again_iff)
    then show ?thesis
      using api_request_settles(1) [where raw = raw and env = env and rq = rq, OF r0] r0 False
      by (simp add: last_result_def try_block_settled split: sum.split)
  qed
  have plain: "final_error ?t (error_json d st) = error_json d st" "final_error ?t (http_error tx st) = http_error tx st" for d tx st
    using carries_status_final [OF error_json_carries] carries_status_final [OF http_error_carries] by blast+
  show ?thesis
    unfolding settles
    by (cases "last_result raw env rq w")
      (auto simp: body_error_def plain error_json_carries http_error_carries split: sum.split)
qed

definition always_404 :: "nat \<Rightarrow> fetch_call \<Rightarrow> nat fetch_result \<times> nat" where
  "always_404 n fc = (Response 404 None (Inr ''{\"detail\":\"gone\",\"status\":1}'') (Inl type_error), Suc n)"

theorem api_error_carries_status_witness:
  "\<exists>e. fst (api_request always_404 None (Request GET ''/incidents/7'' None) 0) = Inl e \<and> carries_status e 404"
proof -
  have "last_result always_404 None (Request GET ''/incidents/7'' None) 0 =
      Response 404 None (Inr ''{\"detail\":\"gone\",\"status\":1}'') (Inl type_error)"
    by (simp add: last_result_def always_404_def)
  then show ?thesis
    using api_error_carries_status [of always_404 None "Request GET ''/incidents/7'' None" 0] by (simp add: ok_status_def)
qed

text \<open>C8. Which calls are sent a second time: exactly those whose first attempt failed other than by a timeout or an
  abort, be it a network error, a body that cannot be read or any failing status, 401, 403 and every other client error
  included: the errors thrown inside the \<open>try\<close> are caught by its own \<open>catch\<close>, which retries.  The second attempt has the
  same URL, method and body and no timeout, and there is no third.\<close>

theorem failed_request_is_sent_twice:
  "fetches (snd (snd (api_request raw env rq w))) = first_call env rq #
    (if (case fst (raw w (first_call env rq)) of
           Rejected e \<Rightarrow> \<not> gives_up e
         | Response st ra txt js \<Rightarrow>
             if ok_status st then st \<noteq> 204 \<and> (case js of Inl e \<Rightarrow> \<not> gives_up e | Inr v \<Rightarrow> False)
             else st \<in> {401, 403, 429, 503} \<or> (case txt of Inl e \<Rightarrow> \<not> gives_up e | Inr t \<Rightarrow> True))
     then [(first_call env rq)\<lparr>fc_timer := False\<rparr>] else [])"
proof -
  obtain r0 w1 where r0: "raw w (first_call env rq) = (r0, w1)" by force
  obtain r1 w2 where r1: "raw w1 (second_call env rq) = (r1, w2)" by force
  have "fetches (snd (snd (api_request raw env rq w))) =
      first_call env rq # (if sent_again r0 then [(first_call env rq)\<lparr>fc_timer := False\<rparr>] else [])"
    using api_request_retries(2) [where raw = raw and env = env and rq = rq, OF r0 _ r1]
      api_request_settles(2) [where raw = raw and env = env and rq = rq, OF r0]
    by (simp add: sent_again_iff second_call_def)
  moreover have "sent_again r0 = (case r0 of
           Rejected e \<Rightarrow> \<not> gives_up e
         | Response st ra txt js \<Rightarrow>
             if ok_status st then st \<noteq> 204 \<and> (case js of Inl e \<Rightarrow> \<not> gives_up e | Inr v \<Rightarrow> False)
             else st \<in> {401, 403, 429, 503} \<or> (case txt of Inl e \<Rightarrow> \<not> gives_up e | Inr t \<Rightarrow> True))"
    by (cases r0) (auto simp: ok_status_def body_error_def split: sum.split)
  ultimately show ?thesis by (simp add: r0)
qed

theorem failed_request_is_sent_twice_witness:
  "fetches (snd (snd (api_request always_404 None (Request POST ''/incidents'' (Some (JObj []))) 0))) =
    [first_call None (Request POST ''/incidents'' (Some (JObj []))),
     (first_call None (Request POST ''/incidents'' (Some (JObj []))))\<lparr>fc_timer := False\<rparr>]"
  by (simp add: failed_request_is_sent_twice always_404_def ok_status_def)

text \<open>A call whose first response succeeds is sent exactly once, and its promise is fulfilled
  with the parsed body (with \<open>undefined\<close> for 204).\<close>

theorem successful_request_is_sent_once:
  assumes "raw w (first_call env rq) = (Response st ra txt (Inr v), w1)" and "ok_status st"
  shows "fst (api_request raw env rq w) = Inr (if st = 204 then None else Some v) \<and>
    fetches (snd (snd (api_request raw env rq w))) = [first_call env rq]"
proof -
  have tb: "try_block 0 (Response st ra txt (Inr v)) = Returned (if st = 204 then None else Some v)"
    using assms(2) by (auto simp: try_block_def ok_status_def retryable_def)
  from tb have "settles_first (try_block 0 (Response st ra txt (Inr v)))" by (simp add: settles_first_def)
  from api_request_settles [where raw = raw and env = env and rq = rq, OF assms(1) this] tb
  show ?thesis by simp
qed

definition always_200 :: "nat \<Rightarrow> fetch_call \<Rightarrow> nat fetch_result \<times> nat" where
  "always_200 n fc = (Response 200 None (Inr ''[]'') (Inr n), Suc n)"

theorem successful_request_is_sent_once_witness:
  "fst (api_request always_200 None (Request GET ''/devices'' None) 5) = Inr (Some 5) \<and>
   fetches (snd (snd (api_request always_200 None (Request GET ''/devices'' None) 5))) =
     [first_call None (Request GET ''/devices'' None)]"
  using successful_request_is_sent_once [of always_200 5 None "Request GET ''/devices'' None" 200 None
      "Inr ''[]''" 5 6]
  by (simp add: always_200_def ok_status_def)

end
