(* ===== verification/Automation.thy ===== *)
theory Automation
  imports Hunting Api
begin

text \<open>
  The pages that extend and drive the collection: \<open>pages/CustomModules.tsx\<close>, \<open>ScheduledCollections.tsx\<close>,
  \<open>SIEMExport.tsx\<close> and \<open>Collectors.tsx\<close>.  Locale formatting of numbers and dates is a parameter.
\<close>

text \<open>\<open>useMutation\<close>: the request, then the success or the error callback.\<close>

definition mutation :: "'b request \<Rightarrow> ('s, 'r, 'b, unit) io \<Rightarrow> (jserr \<Rightarrow> ('s, 'r, 'b, unit) io) \<Rightarrow> ('s, 'r, 'b, unit) io" where
  "mutation rq ok failed = orElse rq failed (\<lambda>_. ok)"

section \<open>Custom modules\<close>

record custom_module =
  cm_id :: string
  cm_name :: string
  cm_description :: "string option"
  cm_os :: string
  cm_category :: string
  cm_command :: string
  cm_path :: string
  cm_enabled :: bool

record module_form =
  nf_name :: string
  nf_description :: string
  nf_os :: string
  nf_category :: string
  nf_command :: string
  nf_path :: string
  nf_enabled :: bool

record module_edit =
  me_name :: string
  me_description :: string
  me_command :: string
  me_path :: string
  me_category :: string

record modules_page =
  mp_show_form :: bool
  mp_form :: module_form
  mp_editing :: "string option"
  mp_edit :: module_edit

datatype module_body =
    CreateModule string "string option" string string string string bool
  | UpdateModule string "string option" string string string

definition module_categories :: "string list" where
  "module_categories = [''volatile'', ''logs'', ''persistence'', ''system'', ''artifacts'']"

definition os_options :: "string list" where
  "os_options = [''windows'', ''linux'', ''macos'']"

definition blank_module :: module_form where
  "blank_module = \<lparr>nf_name = [], nf_description = [], nf_os = ''windows'', nf_category = ''artifacts'', nf_command = [],
     nf_path = [], nf_enabled = True\<rparr>"

definition initial_modules :: modules_page where
  "initial_modules = \<lparr>mp_show_form = False, mp_form = blank_module, mp_editing = None,
     mp_edit = \<lparr>me_name = [], me_description = [], me_command = [], me_path = [], me_category = ''artifacts''\<rparr>\<rparr>"

definition reset_module_form :: "modules_page \<Rightarrow> modules_page" where
  "reset_module_form s = s\<lparr>mp_form := blank_module, mp_show_form := False\<rparr>"

text \<open>\<open>name.toLowerCase().replace(/\s+/g, "_")\<close>.\<close>

function underscored :: "string \<Rightarrow> string" where
  "underscored [] = []"
| "underscored (c # cs) = (if is_space c then CHR ''_'' # underscored (dropWhile is_space cs) else c # underscored cs)"
  by pat_completeness auto
termination
  by (relation "measure length") (auto intro: le_less_trans [OF length_dropWhile_le])

definition module_slug :: "string \<Rightarrow> string" where
  "module_slug name = underscored (to_lower name)"

definition create_module_body :: "module_form \<Rightarrow> module_body" where
  "create_module_body f = CreateModule (nf_name f) (text_or_null (nf_description f)) (nf_os f) (nf_category f) (nf_command f)
     (if nf_path f = [] then ''custom/'' @ module_slug (nf_name f) @ ''.txt'' else nf_path f) (nf_enabled f)"

definition update_module_body :: "module_edit \<Rightarrow> module_body" where
  "update_module_body f = UpdateModule (me_name f) (text_or_null (me_description f)) (me_command f) (me_path f) (me_category f)"

type_synonym modules_io = "(modules_page, unit, module_body, unit) io"

definition modules_changed :: "string \<Rightarrow> modules_io \<Rightarrow> modules_io" where
  "modules_changed title k = Emit (Invalidate [''custom-modules'']) (Emit (Toast title [] []) k)"

definition module_error :: "string \<Rightarrow> jserr \<Rightarrow> modules_io" where
  "module_error title e = Emit (Toast title [] ''destructive'') Done"

definition create_module :: modules_io where
  "create_module = Read (\<lambda>s. mutation (Request POST ''/platform/custom-modules'' (Some (create_module_body (mp_form s))))
     (modules_changed ''Custom module created'' (Update reset_module_form Done)) (module_error ''Failed to create module''))"

definition update_module :: "string \<Rightarrow> modules_io" where
  "update_module i = Read (\<lambda>s. mutation
     (Request PATCH (''/platform/custom-modules/'' @ i) (Some (update_module_body (mp_edit s))))
     (modules_changed ''Module updated'' (Update (\<lambda>s. s\<lparr>mp_editing := None\<rparr>) Done)) (module_error ''Failed to update module''))"

definition delete_module :: "string \<Rightarrow> modules_io" where
  "delete_module i = mutation (Request DELETE (''/platform/custom-modules/'' @ i) None)
     (modules_changed ''Module deleted'' Done) (module_error ''Delete failed'')"

definition edit_module :: "custom_module \<Rightarrow> modules_page \<Rightarrow> modules_page" where
  "edit_module m s = s\<lparr>mp_editing := Some (cm_id m), mp_edit := \<lparr>me_name = cm_name m, me_description = or_text (cm_description m) [],
     me_command = cm_command m, me_path = cm_path m, me_category = cm_category m\<rparr>\<rparr>"

definition cancel_edit :: "modules_page \<Rightarrow> modules_page" where
  "cancel_edit s = s\<lparr>mp_editing := None\<rparr>"

definition toggle_module_form :: "modules_page \<Rightarrow> modules_page" where
  "toggle_module_form s = s\<lparr>mp_show_form := \<not> mp_show_form s\<rparr>"

definition create_enabled :: "bool \<Rightarrow> modules_page \<Rightarrow> bool" where
  "create_enabled saving s \<longleftrightarrow> nf_name (mp_form s) \<noteq> [] \<and> nf_command (mp_form s) \<noteq> [] \<and> \<not> saving"

definition update_enabled :: "bool \<Rightarrow> modules_page \<Rightarrow> bool" where
  "update_enabled saving s \<longleftrightarrow> me_name (mp_edit s) \<noteq> [] \<and> me_command (mp_edit s) \<noteq> [] \<and> \<not> saving"

text \<open>The buttons of a module's card: edit, delete.\<close>

definition module_buttons :: "string option \<Rightarrow> modules_page \<Rightarrow> custom_module \<Rightarrow> bool \<times> bool" where
  "module_buttons role s m = (can_edit role \<and> mp_editing s \<noteq> Some (cm_id m), role = Some ''admin'')"

section \<open>Scheduled collections\<close>

record schedule_row =
  sc_id :: string
  sc_incident :: string
  sc_cron :: string
  sc_profile :: "string option"
  sc_modules :: "string list"
  sc_enabled :: bool
  sc_last_run :: "string option"
  sc_next_run :: "string option"

record schedule_form =
  sf_cron :: string
  sf_profile :: string
  sf_enabled :: bool

record schedules_page =
  sp_show_form :: bool
  sp_form :: schedule_form

datatype schedule_body = CreateSchedule "string option" string "string option" "string list" bool | EmptyPatch

definition schedule_profiles :: "string list" where
  "schedule_profiles = [''triage'', ''ransomware'', ''insider_threat'', ''full'']"

definition cron_presets :: "(string \<times> string) list" where
  "cron_presets = [(''*/15 * * * *'', ''Every 15 min''), (''0 * * * *'', ''Hourly''), (''0 2 * * *'', ''Daily 02:00''),
     (''0 2 * * 1'', ''Weekly Mon 02:00''), (''0 2 1 * *'', ''Monthly 1st'')]"

definition humanize_cron :: "string \<Rightarrow> string" where
  "humanize_cron expr = (case map_of cron_presets (trim expr) of Some label \<Rightarrow> label | None \<Rightarrow> expr)"

definition initial_schedules :: schedules_page where
  "initial_schedules = \<lparr>sp_show_form = False, sp_form = \<lparr>sf_cron = ''0 2 * * *'', sf_profile = ''triage'', sf_enabled = True\<rparr>\<rparr>"

definition schedules_key :: "string option \<Rightarrow> string list" where
  "schedules_key i = [''scheduled-collections'', case i of Some x \<Rightarrow> x | None \<Rightarrow> ''all'']"

definition schedules_path :: "(string \<Rightarrow> string) \<Rightarrow> string option \<Rightarrow> string" where
  "schedules_path enc i = ''/platform/scheduled-collections'' @
     (if or_text i [] = [] then [] else ''?incident_id='' @ enc (or_text i []))"

type_synonym schedules_io = "(schedules_page, unit, schedule_body, unit) io"

definition create_schedule :: "string option \<Rightarrow> schedules_io" where
  "create_schedule i = Read (\<lambda>s. mutation
     (Request POST ''/platform/scheduled-collections'' (Some (CreateSchedule i (sf_cron (sp_form s))
        (text_or_null (sf_profile (sp_form s))) [] (sf_enabled (sp_form s)))))
     (Emit (Invalidate (schedules_key i)) (Emit (Toast ''Scheduled collection created'' [] [])
        (Update (\<lambda>s. s\<lparr>sp_show_form := False\<rparr>) Done)))
     (\<lambda>e. Emit (Toast ''Failed to create schedule'' (err_text e) ''destructive'') Done))"

definition toggle_schedule :: "string option \<Rightarrow> string \<Rightarrow> schedules_io" where
  "toggle_schedule i k = mutation (Request PATCH (''/platform/scheduled-collections/'' @ k @ ''/toggle'') (Some EmptyPatch))
     (Emit (Invalidate (schedules_key i)) Done) (\<lambda>_. Emit (Toast ''Toggle failed'' [] ''destructive'') Done)"

definition delete_schedule :: "string option \<Rightarrow> string \<Rightarrow> schedules_io" where
  "delete_schedule i k = mutation (Request DELETE (''/platform/scheduled-collections/'' @ k) None)
     (Emit (Invalidate (schedules_key i)) (Emit (Toast ''Schedule deleted'' [] []) Done))
     (\<lambda>_. Emit (Toast ''Delete failed'' [] ''destructive'') Done)"

definition new_schedule_offered :: "string option \<Rightarrow> string option \<Rightarrow> bool" where
  "new_schedule_offered role i \<longleftrightarrow> can_edit role \<and> or_text i [] \<noteq> []"

definition schedules_status :: "schedule_row list \<Rightarrow> string" where
  "schedules_status rows = (if list_ex sc_enabled rows then ''active'' else ''warning'')"

definition schedule_cells :: "(string \<Rightarrow> string) \<Rightarrow> schedule_row \<Rightarrow> (string \<times> string) list" where
  "schedule_cells loc r =
     [(''LAST RUN:'', if or_text (sc_last_run r) [] = [] then ''Never'' else loc (or_text (sc_last_run r) [])),
      (''NEXT RUN:'', if or_text (sc_next_run r) [] = [] then ''Pending'' else loc (or_text (sc_next_run r) [])),
      (''INCIDENT:'', sc_incident r), (''STATUS:'', if sc_enabled r then ''ENABLED'' else ''DISABLED'')]"

definition schedule_title :: "schedule_row \<Rightarrow> string \<times> string \<times> string option" where
  "schedule_title r = (humanize_cron (sc_cron r), ''('' @ sc_cron r @ '')'',
     if or_text (sc_profile r) [] = [] then None else Some (to_upper (or_text (sc_profile r) [])))"

definition toggle_schedule_form :: "schedules_page \<Rightarrow> schedules_page" where
  "toggle_schedule_form s = s\<lparr>sp_show_form := \<not> sp_show_form s\<rparr>"

definition preset_chosen :: "string \<Rightarrow> schedules_page \<Rightarrow> schedules_page" where
  "preset_chosen v s = s\<lparr>sp_form := (sp_form s)\<lparr>sf_cron := v\<rparr>\<rparr>"

section \<open>Export to a SIEM and to case management\<close>

datatype siem_target = Splunk | Elastic | Timesketch

definition target_name :: "siem_target \<Rightarrow> string" where
  "target_name t = (case t of Splunk \<Rightarrow> ''splunk'' | Elastic \<Rightarrow> ''elastic'' | Timesketch \<Rightarrow> ''timesketch'')"

record export_result =
  xr_success :: bool
  xr_service :: "string option"
  xr_error :: "string option"
  xr_external :: "string option"
  xr_url :: "string option"

record siem_result =
  sr_sent :: "int option"
  sr_error :: "string option"

record siem_page =
  se_target :: siem_target
  se_max :: int
  se_cfg :: "string jsobj"
  se_result :: "siem_result option"
  se_cases :: "export_result list"
  se_exporting :: bool
  se_case_exporting :: bool

record siem_answer =
  sa_sent :: "int option"
  sa_failed :: "int option"
  sa_errors :: "bool option"

datatype siem_reply = SiemDone siem_answer | CasesDone "export_result list" | SiemSettings "string option" "string option"

fun the_siem where "the_siem (SiemDone a) = Some a" | "the_siem _ = None"
fun the_cases where "the_cases (CasesDone rs) = Some rs" | "the_cases _ = None"
fun the_settings where "the_settings (SiemSettings u t) = Some (u, t)" | "the_settings _ = None"

type_synonym siem_io = "(siem_page, siem_reply, jsval, unit) io"

definition initial_cfg :: "string jsobj" where
  "initial_cfg = [(''splunk_hec_url'', []), (''splunk_hec_token'', []), (''elastic_url'', []), (''elastic_index'', ''dfir-events''),
     (''elastic_api_key'', []), (''timesketch_url'', []), (''timesketch_token'', []), (''timesketch_sketch_id'', ''1'')]"

definition initial_siem :: siem_page where
  "initial_siem = \<lparr>se_target = Splunk, se_max = 10000, se_cfg = initial_cfg, se_result = None, se_cases = [],
     se_exporting = False, se_case_exporting = False\<rparr>"

definition cfg :: "siem_page \<Rightarrow> string \<Rightarrow> string" where
  "cfg s k = (case map_of (se_cfg s) k of Some v \<Rightarrow> v | None \<Rightarrow> [])"

definition put_cfg :: "string \<Rightarrow> string \<Rightarrow> siem_page \<Rightarrow> siem_page" where
  "put_cfg k v s = s\<lparr>se_cfg := obj_put k v (se_cfg s)\<rparr>"

text \<open>What the settings say is put into the form when they arrive, a masked token is not.\<close>

definition prefill :: "string option \<Rightarrow> string option \<Rightarrow> siem_page \<Rightarrow> siem_page" where
  "prefill url token s =
     (let s1 = (if or_text url [] = [] then s else put_cfg ''timesketch_url'' (or_text url []) s)
      in if or_text token [] = [] \<or> token = Some ''***'' then s1 else put_cfg ''timesketch_token'' (or_text token []) s1)"

definition load_siem_settings :: siem_io where
  "load_siem_settings = tryCatch
     (apiGet ''/admin/settings'' (expect the_settings (\<lambda>(u, t). Update (prefill u t) Done))) (\<lambda>_. Done)"

text \<open>\<open>parseInt(v, 10) || 1\<close>.\<close>

definition sketch_id :: "string \<Rightarrow> int" where
  "sketch_id v = (case parse_int v of Some n \<Rightarrow> if n = 0 then 1 else n | None \<Rightarrow> 1)"

definition siem_body :: "string option \<Rightarrow> siem_page \<Rightarrow> jsval" where
  "siem_body incident s = JObj ([(''target'', JStr (target_name (se_target s)))]
     @ (case incident of Some i \<Rightarrow> [(''incident_id'', JStr i)] | None \<Rightarrow> [])
     @ [(''max_events'', JNum (se_max s))]
     @ (case se_target s of
          Splunk \<Rightarrow> [(''splunk_hec_url'', JStr (cfg s ''splunk_hec_url'')), (''splunk_hec_token'', JStr (cfg s ''splunk_hec_token''))]
        | Elastic \<Rightarrow> [(''elastic_url'', JStr (cfg s ''elastic_url'')), (''elastic_index'', JStr (cfg s ''elastic_index''))]
            @ (if cfg s ''elastic_api_key'' \<noteq> [] then [(''elastic_api_key'', JStr (cfg s ''elastic_api_key''))] else [])
        | Timesketch \<Rightarrow> [(''timesketch_url'', JStr (cfg s ''timesketch_url'')), (''timesketch_token'', JStr (cfg s ''timesketch_token'')),
            (''timesketch_sketch_id'', JNum (sketch_id (cfg s ''timesketch_sketch_id'')))]))"

definition rejected :: "siem_answer \<Rightarrow> bool" where
  "rejected a \<longleftrightarrow> sa_errors a = Some True \<or> (sa_failed a \<noteq> None \<and> sa_failed a \<noteq> Some 0)"

definition partial_text :: "(int \<Rightarrow> string) \<Rightarrow> siem_target \<Rightarrow> int \<Rightarrow> siem_answer \<Rightarrow> string" where
  "partial_text loc t n a = loc n @ '' events accepted; '' @ (case sa_failed a of Some k \<Rightarrow> int_str k | None \<Rightarrow> ''some'')
     @ '' rejected by '' @ to_upper (target_name t) @ ''. Review the destination before retrying.''"

definition failure_text :: "string \<Rightarrow> jserr \<Rightarrow> string" where
  "failure_text d e = (case e of NonError \<Rightarrow> d | _ \<Rightarrow> take 200 (message_or d e))"

definition handle_siem :: "(int \<Rightarrow> string) \<Rightarrow> string option \<Rightarrow> siem_io" where
  "handle_siem loc incident = Read (\<lambda>s0.
     Update (\<lambda>s. s\<lparr>se_exporting := True, se_result := None\<rparr>)
      (tryFinally
        (tryCatch
          (apiPost ''/platform/siem-export'' (siem_body incident s0) (expect the_siem (\<lambda>a.
             if rejected a
             then (case sa_sent a of None \<Rightarrow> Raise type_error
               | Some n \<Rightarrow> let m = partial_text loc (se_target s0) n a
                   in Update (\<lambda>s. s\<lparr>se_result := Some \<lparr>sr_sent = Some n, sr_error = Some m\<rparr>\<rparr>)
                     (Emit (Toast ''Export Sebagian Gagal'' m ''destructive'') Done))
             else Update (\<lambda>s. s\<lparr>se_result := Some \<lparr>sr_sent = sa_sent a, sr_error = None\<rparr>\<rparr>)
               (case sa_sent a of None \<Rightarrow> Raise type_error
                | Some n \<Rightarrow> Emit (Toast ''Telemetri Terkirim'' (loc n @ '' event berhasil di-push ke ''
                    @ to_upper (target_name (se_target s0)) @ ''.'') []) Done))))
          (\<lambda>e. let m = failure_text ''Export failed'' e
             in Update (\<lambda>s. s\<lparr>se_result := Some \<lparr>sr_sent = None, sr_error = Some m\<rparr>\<rparr>)
               (Emit (Toast ''Export Gagal'' m ''destructive'') Done)))
        (Update (\<lambda>s. s\<lparr>se_exporting := False\<rparr>) Done)))"

definition handle_case_export :: "string \<Rightarrow> siem_io" where
  "handle_case_export incident =
     Update (\<lambda>s. s\<lparr>se_case_exporting := True, se_cases := []\<rparr>)
      (tryFinally
        (tryCatch
          (apiPost (''/case/export/all/'' @ incident) (JObj []) (expect the_cases (\<lambda>rs. Update (\<lambda>s. s\<lparr>se_cases := rs\<rparr>) Done)))
          (\<lambda>_. Emit (Toast ''Case export failed'' [] ''destructive'') Done))
        (Update (\<lambda>s. s\<lparr>se_case_exporting := False\<rparr>) Done))"

definition choose_target :: "siem_target \<Rightarrow> siem_page \<Rightarrow> siem_page" where
  "choose_target t s = s\<lparr>se_target := t\<rparr>"

definition volume_options :: "int list" where
  "volume_options = [1000, 5000, 10000, 50000, 100000]"

text \<open>The fields of the chosen target: label, key, password.\<close>

definition target_fields :: "siem_target \<Rightarrow> (string \<times> string \<times> bool) list" where
  "target_fields t = (case t of
     Splunk \<Rightarrow> [(''Splunk HEC URL *'', ''splunk_hec_url'', False), (''HEC Access Token *'', ''splunk_hec_token'', True)]
   | Elastic \<Rightarrow> [(''Elasticsearch Node URL *'', ''elastic_url'', False), (''Target Index *'', ''elastic_index'', False),
       (''Cloud API Key'', ''elastic_api_key'', True)]
   | Timesketch \<Rightarrow> [(''Timesketch Server URL *'', ''timesketch_url'', False), (''API Auth Token *'', ''timesketch_token'', True),
       (''Sketch ID Mapping *'', ''timesketch_sketch_id'', False)])"

text \<open>The banner under the button; \<open>True\<close> is the failure one.\<close>

definition siem_banner :: "(int \<Rightarrow> string) \<Rightarrow> siem_page \<Rightarrow> (bool \<times> string) option" where
  "siem_banner loc s = (if se_exporting s then None else map_option (\<lambda>r.
     (let e = or_text (sr_error r) []
      in if e \<noteq> [] then (True, ''FAILURE: '' @ e)
         else (False, ''SUCCESS: '' @ (case sr_sent r of Some n \<Rightarrow> loc n | None \<Rightarrow> ''undefined'') @ '' OBJECTS SYNCED''))) (se_result s))"

definition case_card :: "nat \<Rightarrow> export_result \<Rightarrow> string \<times> string" where
  "case_card i r = ((case xr_service r of Some n \<Rightarrow> n | None \<Rightarrow> ''Service-'' @ nat_str i),
     (if xr_success r then ''ID: '' @ (if or_text (xr_external r) [] = [] then ''SYNC_OK'' else ''#'' @ or_text (xr_external r) [])
      else ''Error: '' @ or_text (xr_error r) ''Unknown Failure''))"

section \<open>Collectors\<close>

record collector =
  ct_id :: string
  ct_name :: string
  ct_endpoint :: string
  ct_status :: string
  ct_heartbeat :: "string option"

record collectors_page =
  cp_show_add :: bool
  cp_name :: string
  cp_endpoint :: string
  cp_adding :: bool
  cp_error :: "string option"

type_synonym collectors_io = "(collectors_page, unit, string \<times> string, unit) io"

definition initial_collectors :: collectors_page where
  "initial_collectors = \<lparr>cp_show_add = False, cp_name = [], cp_endpoint = [], cp_adding = False, cp_error = None\<rparr>"

definition collector_status :: "collector \<Rightarrow> string" where
  "collector_status c = (let u = to_upper (ct_status c)
     in if u = ''ONLINE'' then ''online'' else if u = ''BUSY'' then ''pending'' else ''offline'')"

definition collector_active :: "collector \<Rightarrow> bool" where
  "collector_active c \<longleftrightarrow> to_upper (ct_status c) \<in> {''ONLINE'', ''BUSY''}"

definition collector_cells :: "(string \<Rightarrow> string) \<Rightarrow> collector \<Rightarrow> string list" where
  "collector_cells loc c = [ct_name c, ct_endpoint c, to_upper (ct_status c),
     if or_text (ct_heartbeat c) [] = [] then em_dash else loc (or_text (ct_heartbeat c) [])]"

text \<open>The buttons of a row: the console, and the removal.\<close>

definition collector_buttons :: "bool \<Rightarrow> collector \<Rightarrow> bool \<times> bool" where
  "collector_buttons admin c = (collector_active c, admin)"

definition console_path :: "collector \<Rightarrow> string" where
  "console_path c = ''/agents/'' @ ct_id c @ ''/console''"

definition collector_fingerprint :: "collector list \<Rightarrow> string" where
  "collector_fingerprint cs = join_with '','' (map (\<lambda>c. ct_id c @ '':'' @ ct_status c) cs)"

definition collector_poll_options :: "rat option \<times> rat option \<times> rat option" where
  "collector_poll_options = (Some 15000, Some 60000, None)"

definition online_count :: "collector list \<Rightarrow> nat" where
  "online_count cs = length (filter (\<lambda>c. to_upper (ct_status c) = ''ONLINE'') cs)"

definition panel_status :: "collector list \<Rightarrow> string" where
  "panel_status cs = (if cs = [] then ''offline'' else if 0 < online_count cs then ''online'' else ''warning'')"

text \<open>The figures at the top: all, online, and offline or busy.\<close>

definition collector_stats :: "collector list \<Rightarrow> nat \<times> nat \<times> nat" where
  "collector_stats cs = (length cs, online_count cs, length cs - online_count cs)"

definition handle_add :: collectors_io where
  "handle_add = Read (\<lambda>s0.
     if trim (cp_name s0) = [] \<or> trim (cp_endpoint s0) = []
     then Update (\<lambda>s. s\<lparr>cp_error := Some ''Name and endpoint are required.''\<rparr>) Done
     else Update (\<lambda>s. s\<lparr>cp_adding := True, cp_error := None\<rparr>)
      (tryFinally
        (tryCatch
          (apiPost ''/collectors'' (trim (cp_name s0), trim (cp_endpoint s0)) (\<lambda>_. Emit (Invalidate [''collectors-page''])
             (Update (\<lambda>s. s\<lparr>cp_name := [], cp_endpoint := [], cp_show_add := False\<rparr>) Done)))
          (\<lambda>e. Update (\<lambda>s. s\<lparr>cp_error := Some (message_or ''Failed to add collector.'' e)\<rparr>) Done))
        (Update (\<lambda>s. s\<lparr>cp_adding := False\<rparr>) Done)))"

definition handle_delete :: "string \<Rightarrow> collectors_io" where
  "handle_delete i = tryCatch
     (apiDelete (''/collectors/'' @ i) (\<lambda>_. Emit (Invalidate [''collectors-page'']) Done))
     (\<lambda>e. Update (\<lambda>s. s\<lparr>cp_error := Some (message_or ''Failed to delete collector.'' e)\<rparr>) Done)"

definition cancel_add :: "collectors_page \<Rightarrow> collectors_page" where
  "cancel_add s = s\<lparr>cp_show_add := False, cp_error := None\<rparr>"

section \<open>Lemmas\<close>

lemma underscored_chars: "c \<in> set (underscored s) \<Longrightarrow> c = CHR ''_'' \<or> c \<in> set s \<and> \<not> is_space c"
  by (induction s rule: underscored.induct) (auto split: if_splits dest: set_dropWhileD)

lemma underscored_not_space: "\<forall>c \<in> set (underscored s). \<not> is_space c"
  by (auto dest: underscored_chars simp: is_space_def)

text \<open>A collector whose row can be read back from the fingerprint.\<close>

definition plain_collector :: "collector \<Rightarrow> bool" where
  "plain_collector c \<longleftrightarrow> CHR '':'' \<notin> set (ct_id c) \<and> CHR '','' \<notin> set (ct_id c) \<and> CHR '','' \<notin> set (ct_status c)"

lemma fingerprint_split:
  assumes "list_all plain_collector cs" and "cs \<noteq> []"
  shows "split_at_char CHR '','' (collector_fingerprint cs) = map (\<lambda>c. ct_id c @ '':'' @ ct_status c) cs"
  using assms unfolding collector_fingerprint_def
  by (intro split_join) (auto simp: plain_collector_def list_all_iff)

lemma colon_inject:
  assumes "CHR '':'' \<notin> set a" and "CHR '':'' \<notin> set c" and "a @ '':'' @ b = c @ '':'' @ d"
  shows "a = c \<and> b = d"
  using assms
proof (induction a arbitrary: c)
  case Nil
  then show ?case by (cases c) auto
next
  case (Cons x a)
  then show ?case by (cases c) auto
qed

lemma rows_inject:
  assumes "list_all plain_collector cs" and "list_all plain_collector ds"
    and "map (\<lambda>c. ct_id c @ '':'' @ ct_status c) cs = map (\<lambda>c. ct_id c @ '':'' @ ct_status c) ds"
  shows "map (\<lambda>c. (ct_id c, ct_status c)) cs = map (\<lambda>c. (ct_id c, ct_status c)) ds"
  using assms
proof (induction cs arbitrary: ds)
  case (Cons c cs)
  then obtain d ds' where ds: "ds = d # ds'" by (cases ds) auto
  have "ct_id c = ct_id d \<and> ct_status c = ct_status d"
    by (rule colon_inject) (use Cons.prems ds in \<open>simp_all add: plain_collector_def\<close>)
  then show ?case using Cons.IH [of ds'] Cons.prems ds by simp
qed simp

lemma fingerprint_empty: "collector_fingerprint cs = [] \<longleftrightarrow> cs = []"
proof (cases cs)
  case (Cons c ds)
  then show ?thesis by (cases ds) (simp_all add: collector_fingerprint_def)
qed (simp add: collector_fingerprint_def)

lemma online_count_rows:
  "map (\<lambda>c. (ct_id c, ct_status c)) cs = map (\<lambda>c. (ct_id c, ct_status c)) ds \<Longrightarrow> online_count cs = online_count ds"
proof (induction cs arbitrary: ds)
  case (Cons c cs)
  then show ?case by (cases ds) (auto simp: online_count_def)
qed simp

lemma the_siem_iff: "the_siem x = Some a \<longleftrightarrow> x = SiemDone a" "the_siem x = None \<longleftrightarrow> (\<forall>a. x \<noteq> SiemDone a)"
  by (cases x; auto)+

lemma parse_int_examples: "sketch_id ''7'' = 7" "sketch_id ''x'' = 1" "sketch_id ''0'' = 1"
  by (simp_all add: sketch_id_def parse_int_def is_space_def is_digit_def starts_with_def digits_value_def)

section \<open>Theorems\<close>

text \<open> Modules whose names differ only in case write to the same file: the default output path has no blanks and is
  the same for both, so the create requests of two such modules name one path and the later output overwrites the other.
\<close>

theorem default_paths_collide:
  "(\<exists>p. create_module_body (f\<lparr>nf_name := n, nf_path := []\<rparr>) =
       CreateModule n (text_or_null (nf_description f)) (nf_os f) (nf_category f) (nf_command f) p (nf_enabled f)
     \<and> create_module_body (f\<lparr>nf_name := to_lower n, nf_path := []\<rparr>) =
       CreateModule (to_lower n) (text_or_null (nf_description f)) (nf_os f) (nf_category f) (nf_command f) p (nf_enabled f)
     \<and> p \<noteq> [] \<and> list_all (\<lambda>c. \<not> is_space c) p)"
proof -
  have "list_all (\<lambda>c. \<not> is_space c) (''custom/'' @ module_slug n @ ''.txt'')"
    using underscored_not_space by (simp add: module_slug_def list_all_iff is_space_def)
  then show ?thesis by (simp add: create_module_body_def module_slug_def)
qed

text \<open> A late update closes another edit: an update sends the edit form of its click; when it succeeds after another
  module was opened for editing, that module's form is closed.  An update may also empty the output path, for which a
  creation would have put its default.
\<close>

theorem late_update_closes_edit:
  "\<exists>g. settle (update_module i) yes (s\<lparr>mp_edit := f\<rparr>) =
       (s\<lparr>mp_edit := f\<rparr>, [Await (Request PATCH (''/platform/custom-modules/'' @ i)
          (Some (UpdateModule (me_name f) (text_or_null (me_description f)) (me_command f) (me_path f) (me_category f)))) g])
     \<and> (\<forall>m s1. settle (g (Inr ())) yes (edit_module m s1) = ((edit_module m s1)\<lparr>mp_editing := None\<rparr>, []))"
  by (simp add: update_module_def mutation_def orElse_def update_module_body_def modules_changed_def)

text \<open> The export to a SIEM settles truthfully: one request is sent; the page shows a success exactly when the answer
  counts what was sent and reports nothing rejected, in every other case (a partial export, an answer without a count, a
  failed request) it shows an error, and it is never left exporting.
\<close>

theorem siem_outcome:
  "let rq = Request POST ''/platform/siem-export'' (Some (siem_body incident s));
       s' = final_state srv yes (handle_siem loc incident) w s
   in requests_of srv yes (handle_siem loc incident) w s = [rq] \<and> \<not> se_exporting s'
     \<and> (\<exists>r. se_result s' = Some r
         \<and> (sr_error r = None \<longleftrightarrow> (\<exists>a n. fst (srv w rq) = Inr (SiemDone a) \<and> sa_sent a = Some n \<and> \<not> rejected a)))
     \<and> outcome_of srv yes (handle_siem loc incident) w s = Inr ()"
  by (auto simp: handle_siem_def io_simps the_siem_iff split: sum.split option.split)

text \<open>C25.  Credentials go only to their destination: the export's body has, beside the target, the case and the volume,
  only fields that the form shows for the chosen target, each with the text of its field or the number of the sketch,
  which is never zero.
\<close>

theorem siem_sends_only_target:
  "\<exists>ms. siem_body incident s = JObj ms
     \<and> set (map fst ms) \<subseteq> {''target'', ''incident_id'', ''max_events''} \<union> set (map (fst \<circ> snd) (target_fields (se_target s)))
     \<and> (\<forall>k v. (k, v) \<in> set ms \<and> k \<in> set (map (fst \<circ> snd) (target_fields (se_target s)))
           \<longrightarrow> v = JStr (cfg s k) \<or> k = ''timesketch_sketch_id'' \<and> v = JNum (sketch_id (cfg s k)) \<and> v \<noteq> JNum 0)"
  by (cases "se_target s")
    (auto simp: siem_body_def target_fields_def sketch_id_def split: option.splits)

lemma siem_sends_only_target_witness:
  "\<exists>ms. siem_body (Some ''c1'') initial_siem = JObj ms \<and> ''elastic_api_key'' \<notin> set (map fst ms)"
  using siem_sends_only_target [of "Some ''c1''" initial_siem]
  by (auto simp: initial_siem_def target_fields_def)

text \<open> Settings that arrive late replace what was typed: once the page asks for them, any server address and token in
  the form are overwritten by the ones of the answer.
\<close>

theorem late_settings_overwrite:
  assumes "u \<noteq> []" and "t \<noteq> []" and "t \<noteq> ''***''"
  shows "\<exists>g. settle load_siem_settings yes s = (s, [Await (Request GET ''/admin/settings'' None) g])
     \<and> (\<forall>s1 x y. let s2 = fst (settle (g (Inr (SiemSettings (Some u) (Some t)))) yes
              (put_cfg ''timesketch_token'' y (put_cfg ''timesketch_url'' x s1)))
          in cfg s2 ''timesketch_url'' = u \<and> cfg s2 ''timesketch_token'' = t)"
  using assms by (simp add: load_siem_settings_def call_def expect_def prefill_def or_text_def put_cfg_def cfg_def)

lemma late_settings_overwrite_witness:
  "\<exists>g. settle load_siem_settings True initial_siem = (initial_siem, [Await (Request GET ''/admin/settings'' None) g])"
  using late_settings_overwrite [of "''http://ts''" "''k''" True initial_siem] by auto

text \<open> The fingerprint of a poll is the identifiers and states of the collectors: two lists have the same one exactly
  when they agree in both, row by row; then the number online and the state of the panel are the same too, whatever else
  changed.
\<close>

theorem fingerprint_sees_status:
  assumes "list_all plain_collector cs" and "list_all plain_collector ds"
  shows "(collector_fingerprint cs = collector_fingerprint ds
      \<longleftrightarrow> map (\<lambda>c. (ct_id c, ct_status c)) cs = map (\<lambda>c. (ct_id c, ct_status c)) ds)
    \<and> (collector_fingerprint cs = collector_fingerprint ds
      \<longrightarrow> collector_stats cs = collector_stats ds \<and> panel_status cs = panel_status ds)"
proof -
  have iff: "collector_fingerprint cs = collector_fingerprint ds
      \<longleftrightarrow> map (\<lambda>c. (ct_id c, ct_status c)) cs = map (\<lambda>c. (ct_id c, ct_status c)) ds"
  proof
    assume eq: "collector_fingerprint cs = collector_fingerprint ds"
    show "map (\<lambda>c. (ct_id c, ct_status c)) cs = map (\<lambda>c. (ct_id c, ct_status c)) ds"
    proof (cases "cs = []")
      case True
      then show ?thesis using eq fingerprint_empty by metis
    next
      case False
      then have "ds \<noteq> []" using eq fingerprint_empty by metis
      then have "map (\<lambda>c. ct_id c @ '':'' @ ct_status c) cs = map (\<lambda>c. ct_id c @ '':'' @ ct_status c) ds"
        using fingerprint_split [OF assms(1) False] fingerprint_split [OF assms(2)] eq by simp
      then show ?thesis by (rule rows_inject [OF assms])
    qed
  next
    assume eq: "map (\<lambda>c. (ct_id c, ct_status c)) cs = map (\<lambda>c. (ct_id c, ct_status c)) ds"
    have "map (\<lambda>c. ct_id c @ '':'' @ ct_status c) xs = map (\<lambda>(i, t). i @ '':'' @ t) (map (\<lambda>c. (ct_id c, ct_status c)) xs)" for xs
      by simp
    from this [of cs] this [of ds] show "collector_fingerprint cs = collector_fingerprint ds"
      unfolding collector_fingerprint_def by (simp only: eq)
  qed
  moreover have "collector_stats cs = collector_stats ds \<and> panel_status cs = panel_status ds"
    if "map (\<lambda>c. (ct_id c, ct_status c)) cs = map (\<lambda>c. (ct_id c, ct_status c)) ds"
  proof -
    note n = online_count_rows [OF that] and l = map_eq_imp_length_eq [OF that]
    have "(cs = []) = (ds = [])" using l by (metis length_0_conv)
    then show ?thesis unfolding collector_stats_def panel_status_def by (simp only: n l)
  qed
  ultimately show ?thesis by blast
qed

definition sample_collector :: "string \<Rightarrow> string \<Rightarrow> collector" where
  "sample_collector i t = \<lparr>ct_id = i, ct_name = ''n'', ct_endpoint = ''e'', ct_status = t, ct_heartbeat = None\<rparr>"

lemma fingerprint_sees_status_witness:
  "collector_fingerprint [sample_collector ''a'' ''online''] \<noteq> collector_fingerprint [sample_collector ''a'' ''offline'']"
  using fingerprint_sees_status [of "[sample_collector ''a'' ''online'']" "[sample_collector ''a'' ''offline'']"]
  by (simp add: sample_collector_def plain_collector_def)

text \<open> Adding a collector: with a blank name or endpoint nothing is sent and an error is shown; otherwise one request
  carries both without blanks around them, a success empties and closes the form, a failure keeps it and shows why, and
  the page is never left adding.
\<close>

theorem add_outcome:
  "let s' = final_state srv yes handle_add w s; n = trim (cp_name s); e = trim (cp_endpoint s);
       rq = Request POST ''/collectors'' (Some (n, e))
   in outcome_of srv yes handle_add w s = Inr ()
     \<and> requests_of srv yes handle_add w s = (if n = [] \<or> e = [] then [] else [rq])
     \<and> s' = (if n = [] \<or> e = [] then s\<lparr>cp_error := Some ''Name and endpoint are required.''\<rparr>
         else case fst (srv w rq) of
           Inr _ \<Rightarrow> s\<lparr>cp_adding := False, cp_error := None, cp_name := [], cp_endpoint := [], cp_show_add := False\<rparr>
         | Inl err \<Rightarrow> s\<lparr>cp_adding := False, cp_error := Some (message_or ''Failed to add collector.'' err)\<rparr>)"
proof (cases "trim (cp_name s) = [] \<or> trim (cp_endpoint s) = []")
  case True
  then show ?thesis unfolding Let_def by (simp add: handle_add_def)
next
  case False
  show ?thesis
  proof (cases "fst (srv w (Request POST ''/collectors'' (Some (trim (cp_name s), trim (cp_endpoint s)))))")
    case (Inl err)
    then show ?thesis using False unfolding Let_def by (simp add: handle_add_def call_def)
  next
    case (Inr r)
    then show ?thesis using False unfolding Let_def by (simp add: handle_add_def call_def)
  qed
qed

end
