(* ===== verification/Requests.thy ===== *)
theory Requests
  imports Prelude
begin

text \<open>
  The contract between a page and the requests it may send: whatever its handlers are interleaved with, every call that
  waits for an answer is one of the allowed requests.  It extends the contract of the invariants, since what a page
  sends depends on the state its controls have led it to.
\<close>

text \<open>\<open>asks P A m s\<close>: started in \<open>s\<close>, every request of the program satisfies \<open>A\<close>, although other programs may change the
  state to any other with \<open>P\<close> while it waits.\<close>

primrec asks :: "('s \<Rightarrow> bool) \<Rightarrow> ('b request \<Rightarrow> bool) \<Rightarrow> ('s, 'r, 'b, 'a) io \<Rightarrow> 's \<Rightarrow> bool" where
  "asks P A (Ret a) s = True"
| "asks P A (Raise e) s = True"
| "asks P A (Update f m) s = asks P A m (f s)"
| "asks P A (Read g) s = asks P A (g s) s"
| "asks P A (Emit e m) s = asks P A m s"
| "asks P A (Confirm q g) s = (\<forall>b. asks P A (g b) s)"
| "asks P A (Await r g) s = (A r \<and> (\<forall>x s'. P s' \<longrightarrow> asks P A (g x) s'))"

definition asking :: "('s \<Rightarrow> bool) \<Rightarrow> ('b request \<Rightarrow> bool) \<Rightarrow> ('s, 'r, 'b, unit) io \<Rightarrow> bool" where
  "asking P A m = (case m of Await r g \<Rightarrow> A r \<and> (\<forall>x s. P s \<longrightarrow> asks P A (g x) s) | _ \<Rightarrow> False)"

lemma asking_Await: "asking P A (Await r g) = (A r \<and> (\<forall>x s. P s \<longrightarrow> asks P A (g x) s))"
  by (simp add: asking_def)

lemma settle_asks:
  assumes "asks P A m s" and "settle m yes s = (s', new)"
  shows "\<forall>n \<in> set new. asking P A n"
  using assms by (induction m arbitrary: s) (auto simp: asking_Await)

lemma asks_call [simp]: "asks P A (call rq k) s \<longleftrightarrow> A rq \<and> (\<forall>r s'. P s' \<longrightarrow> asks P A (k r) s')"
  by (auto simp: call_def split: sum.splits)

lemma asks_expect [simp]: "asks P A (expect sel k r) s \<longleftrightarrow> (case sel r of Some x \<Rightarrow> asks P A (k x) s | None \<Rightarrow> True)"
  by (simp add: expect_def split: option.split)

lemma asks_orElse [simp]:
  "asks P A (orElse rq f k) s \<longleftrightarrow> A rq \<and> (\<forall>e s'. P s' \<longrightarrow> asks P A (f e) s') \<and> (\<forall>r s'. P s' \<longrightarrow> asks P A (k r) s')"
  by (auto simp: orElse_def split: sum.splits)

text \<open>The parts of a \<open>try\<close> are asked from states with the invariant only, which the body keeps.\<close>

lemma asks_andThen:
  assumes "asks P A m s" and "keeps P m s" and "\<And>a s'. P s' \<Longrightarrow> asks P A (k a) s'"
  shows "asks P A (andThen m k) s"
  using assms by (induction m arbitrary: s) auto

lemma asks_tryCatch:
  assumes "asks P A m s" and "keeps P m s" and "\<And>e s'. P s' \<Longrightarrow> asks P A (h e) s'"
  shows "asks P A (tryCatch m h) s"
  using assms by (induction m arbitrary: s) auto

lemma asks_ending:
  "asks P A m s \<Longrightarrow> asks P A (andThen m (\<lambda>_. Ret a)) s" "asks P A m s \<Longrightarrow> asks P A (andThen m (\<lambda>_. Raise e)) s"
  by (induction m arbitrary: s) auto

lemma asks_tryFinally:
  assumes "asks P A m s" and "keeps P m s" and "\<And>s'. P s' \<Longrightarrow> asks P A f s'"
  shows "asks P A (tryFinally m f) s"
  using assms by (induction m arbitrary: s) (auto intro: asks_ending)

locale component_requests = component_invariant handler start inv
  for handler :: "'e \<Rightarrow> 's \<Rightarrow> ('s, 'r, 'b, unit) io" and start :: 's and inv :: "'s \<Rightarrow> bool" +
  fixes allowed :: "'b request \<Rightarrow> bool"
  assumes asked: "inv s \<Longrightarrow> asks inv allowed (handler e s) s"
begin

lemma moves_asking:
  assumes "moves handler c c'" and "inv (fst c)" and "\<forall>n \<in> set (snd c). asking inv allowed n"
  shows "\<forall>n \<in> set (snd c'). asking inv allowed n"
  using assms(1)
proof (cases rule: moves.cases)
  case (fire e s yes s' new pool)
  then have "\<forall>n \<in> set new. asking inv allowed n"
    using assms asked by (intro settle_asks) auto
  with fire assms show ?thesis by auto
next
  case (resume g x yes s s' new pre r post)
  then have "asks inv allowed (g x) s"
    using assms by (simp add: asking_Await)
  then have "\<forall>n \<in> set new. asking inv allowed n"
    using resume by (intro settle_asks) auto
  with resume assms show ?thesis by auto
qed

lemma reachable_asking: "reachable handler start c \<Longrightarrow> \<forall>n \<in> set (snd c). asking inv allowed n"
proof (induction rule: reachable.induct)
  case (later c c')
  then show ?case using moves_asking reachable_all by blast
qed simp

lemma waiting_allowed: "reachable handler start (s, pool) \<Longrightarrow> Await rq g \<in> set pool \<Longrightarrow> allowed rq"
  using reachable_asking by (force simp: asking_Await)

end

section \<open>Reaching a state\<close>

text \<open>Events that call nothing, one after the other, and an event that waits.\<close>

lemma reach_steps:
  assumes "reachable handler start (s, pool)" and "\<forall>s e. e \<in> set es \<longrightarrow> snd (settle (handler e s) yes s) = []"
  shows "reachable handler start (fold (\<lambda>e s. fst (settle (handler e s) yes s)) es s, pool)"
  using assms
proof (induction es arbitrary: s)
  case (Cons e es)
  have "settle (handler e s) yes s = (fst (settle (handler e s) yes s), [])"
    using Cons.prems(2) by (metis list.set_intros(1) prod.collapse)
  then have "reachable handler start (fst (settle (handler e s) yes s), pool)"
    using reach_fire [OF Cons.prems(1)] by fastforce
  then show ?case using Cons by simp
qed simp

lemma reach_waiting:
  "reachable handler start (s, []) \<Longrightarrow> settle (handler e s) yes s = (s', new) \<Longrightarrow> reachable handler start (s', new)"
  using reach_fire [of handler start s "[]"] by fastforce

end
