(* ===== verification/AutomationViews.thy ===== *)
theory AutomationViews
  imports Automation Requests
begin

text \<open>
  What the pages of \<open>Automation\<close> draw, the controls they offer and the events of those controls.  A \<open>*_handler\<close> runs
  an event only where its control is drawn and enabled; \<open>saving\<close> says that the mutation of a button is under way.
  Two contracts are interpreted on them: what a page may send, for each role.
\<close>

section \<open>Custom modules\<close>

record module_card =
  mc_class :: string
  mc_name :: string
  mc_kind :: string
  mc_toggle :: string
  mc_edit_button :: bool
  mc_delete_button :: bool
  mc_body :: "module_edit + (string option \<times> string \<times> string)"

definition module_card_of :: "string option \<Rightarrow> modules_page \<Rightarrow> custom_module \<Rightarrow> module_card" where
  "module_card_of role s m = \<lparr>mc_class = (if cm_enabled m then ''border-border'' else ''border-border/30 opacity-50''),
     mc_name = cm_name m, mc_kind = ''['' @ cm_os m @ '' / '' @ cm_category m @ '']'',
     mc_toggle = (if cm_enabled m then ''ToggleRight'' else ''ToggleLeft''),
     mc_edit_button = fst (module_buttons role s m), mc_delete_button = snd (module_buttons role s m),
     mc_body = (if mp_editing s = Some (cm_id m) then Inl (mp_edit s)
       else Inr (if or_text (cm_description m) [] = [] then None else cm_description m, cm_command m,
         [CHR 0xE2, CHR 0x86, CHR 0x92] @ '' '' @ cm_path m))\<rparr>"

datatype module_list = ModulesLoading string | NoModules string | Modules "module_card list"

record modules_view =
  mv_new_button :: bool
  mv_form :: "(module_form \<times> string \<times> bool) option"
  mv_title :: string
  mv_status :: string
  mv_list :: module_list

definition modules_view_of :: "string option \<Rightarrow> bool \<Rightarrow> bool \<Rightarrow> custom_module list \<Rightarrow> modules_page \<Rightarrow> modules_view" where
  "modules_view_of role saving loading ms s = \<lparr>mv_new_button = can_edit role,
     mv_form = (if mp_show_form s then Some (mp_form s, if saving then ''CREATING...'' else ''CREATE MODULE'', \<not> create_enabled saving s)
       else None),
     mv_title = ''CUSTOM MODULES ('' @ nat_str (length ms) @ '')'', mv_status = (if 0 < length ms then ''online'' else ''warning''),
     mv_list = (if loading then ModulesLoading ''LOADING...''
       else if ms = [] then NoModules ''No custom modules defined. Create one to extend agent collection beyond built-in modules.''
       else Modules (map (module_card_of role s) ms))\<rparr>"

datatype module_event =
    ToggleNew | TypeModuleName string | PickModuleOs string | PickModuleCategory string | TypeModulePath string
  | TypeModuleCommand string | TypeModuleText string | CreateClicked bool | CancelNew
  | EditClicked custom_module | TypeEditName string | PickEditCategory string | TypeEditCommand string
  | TypeEditPath string | TypeEditText string | SaveClicked bool string | CancelEdit | DeleteClicked string

definition set_module_form :: "(module_form \<Rightarrow> module_form) \<Rightarrow> modules_page \<Rightarrow> modules_page" where
  "set_module_form f s = s\<lparr>mp_form := f (mp_form s)\<rparr>"

definition set_module_edit :: "(module_edit \<Rightarrow> module_edit) \<Rightarrow> modules_page \<Rightarrow> modules_page" where
  "set_module_edit f s = s\<lparr>mp_edit := f (mp_edit s)\<rparr>"

text \<open>An input event where its input is drawn, else nothing.\<close>

definition input_event :: "bool \<Rightarrow> ('s \<Rightarrow> 's) \<Rightarrow> ('s, 'r, 'b, unit) io" where
  "input_event offered f = (if offered then Update f Done else Done)"

fun module_handler :: "string option \<Rightarrow> module_event \<Rightarrow> modules_page \<Rightarrow> modules_io" where
  "module_handler role ToggleNew s = input_event (can_edit role) toggle_module_form"
| "module_handler role (TypeModuleName t) s = input_event (mp_show_form s) (set_module_form (\<lambda>f. f\<lparr>nf_name := t\<rparr>))"
| "module_handler role (PickModuleOs t) s = input_event (mp_show_form s \<and> t \<in> set os_options) (set_module_form (\<lambda>f. f\<lparr>nf_os := t\<rparr>))"
| "module_handler role (PickModuleCategory t) s =
     input_event (mp_show_form s \<and> t \<in> set module_categories) (set_module_form (\<lambda>f. f\<lparr>nf_category := t\<rparr>))"
| "module_handler role (TypeModulePath t) s = input_event (mp_show_form s) (set_module_form (\<lambda>f. f\<lparr>nf_path := t\<rparr>))"
| "module_handler role (TypeModuleCommand t) s = input_event (mp_show_form s) (set_module_form (\<lambda>f. f\<lparr>nf_command := t\<rparr>))"
| "module_handler role (TypeModuleText t) s = input_event (mp_show_form s) (set_module_form (\<lambda>f. f\<lparr>nf_description := t\<rparr>))"
| "module_handler role (CreateClicked saving) s = (if mp_show_form s \<and> create_enabled saving s then create_module else Done)"
| "module_handler role CancelNew s = input_event (mp_show_form s) reset_module_form"
| "module_handler role (EditClicked m) s = input_event (fst (module_buttons role s m)) (edit_module m)"
| "module_handler role (TypeEditName t) s = input_event (mp_editing s \<noteq> None) (set_module_edit (\<lambda>f. f\<lparr>me_name := t\<rparr>))"
| "module_handler role (PickEditCategory t) s =
     input_event (mp_editing s \<noteq> None \<and> t \<in> set module_categories) (set_module_edit (\<lambda>f. f\<lparr>me_category := t\<rparr>))"
| "module_handler role (TypeEditCommand t) s = input_event (mp_editing s \<noteq> None) (set_module_edit (\<lambda>f. f\<lparr>me_command := t\<rparr>))"
| "module_handler role (TypeEditPath t) s = input_event (mp_editing s \<noteq> None) (set_module_edit (\<lambda>f. f\<lparr>me_path := t\<rparr>))"
| "module_handler role (TypeEditText t) s = input_event (mp_editing s \<noteq> None) (set_module_edit (\<lambda>f. f\<lparr>me_description := t\<rparr>))"
| "module_handler role (SaveClicked saving i) s = (if mp_editing s = Some i \<and> update_enabled saving s then update_module i else Done)"
| "module_handler role CancelEdit s = input_event (mp_editing s \<noteq> None) cancel_edit"
| "module_handler role (DeleteClicked i) s = (if role = Some ''admin'' then delete_module i else Done)"

subsection \<open>What the page may send\<close>

definition modules_inv :: "string option \<Rightarrow> modules_page \<Rightarrow> bool" where
  "modules_inv role s \<longleftrightarrow> (mp_show_form s \<or> mp_editing s \<noteq> None \<longrightarrow> can_edit role)
     \<and> nf_os (mp_form s) \<in> set os_options \<and> nf_category (mp_form s) \<in> set module_categories \<and> nf_enabled (mp_form s)"

fun module_body_ok :: "module_body \<Rightarrow> bool" where
  "module_body_ok (CreateModule n d os cat c p e) \<longleftrightarrow> n \<noteq> [] \<and> c \<noteq> [] \<and> p \<noteq> [] \<and> e \<and> os \<in> set os_options \<and> cat \<in> set module_categories"
| "module_body_ok (UpdateModule n d c p cat) \<longleftrightarrow> n \<noteq> [] \<and> c \<noteq> []"

definition module_request_ok :: "string option \<Rightarrow> module_body request \<Rightarrow> bool" where
  "module_request_ok role rq \<longleftrightarrow> can_edit role \<and> (req_method rq = DELETE \<longrightarrow> role = Some ''admin'')
     \<and> (\<forall>b. req_body rq = Some b \<longrightarrow> module_body_ok b)"

lemma blank_module_inv: "modules_inv role s \<Longrightarrow> modules_inv role (reset_module_form s)"
  by (simp add: modules_inv_def reset_module_form_def blank_module_def os_options_def module_categories_def)

lemma module_handler_keeps: "modules_inv role s \<Longrightarrow> keeps (modules_inv role) (module_handler role e s) s"
  by (cases e) (auto simp: input_event_def create_module_def update_module_def delete_module_def mutation_def modules_changed_def
      module_error_def toggle_module_form_def set_module_form_def set_module_edit_def edit_module_def cancel_edit_def
      module_buttons_def blank_module_inv,
    auto simp: modules_inv_def)

lemma module_handler_asks: "modules_inv role s \<Longrightarrow> asks (modules_inv role) (module_request_ok role) (module_handler role e s) s"
  by (cases e) (auto simp: input_event_def create_module_def update_module_def delete_module_def mutation_def modules_changed_def
      module_error_def module_request_ok_def create_module_body_def update_module_body_def create_enabled_def update_enabled_def
      modules_inv_def can_edit_def)

interpretation modules: component_requests "module_handler role" initial_modules "modules_inv role" "module_request_ok role" for role
  by unfold_locales (auto simp: module_handler_keeps module_handler_asks,
    simp add: modules_inv_def initial_modules_def blank_module_def os_options_def module_categories_def)

section \<open>Scheduled collections\<close>

record schedule_card =
  sv_class :: string
  sv_clock :: string
  sv_cron :: "string \<times> string \<times> string option"
  sv_buttons :: "(string \<times> string) option"
  sv_cells :: "(string \<times> string) list"
  sv_status_class :: string

definition schedule_card_of :: "(string \<Rightarrow> string) \<Rightarrow> string option \<Rightarrow> schedule_row \<Rightarrow> schedule_card" where
  "schedule_card_of loc role r = \<lparr>
     sv_class = (if sc_enabled r then ''border-primary/40 bg-primary/5'' else ''border-border/40 opacity-60''),
     sv_clock = (if sc_enabled r then ''text-primary animate-pulse'' else ''text-muted-foreground''),
     sv_cron = schedule_title r,
     sv_buttons = (if can_edit role then Some (if sc_enabled r then (''Disable'', ''ToggleRight'') else (''Enable'', ''ToggleLeft'')) else None),
     sv_cells = schedule_cells loc r, sv_status_class = (if sc_enabled r then ''text-primary'' else ''text-muted-foreground'')\<rparr>"

record schedule_form_view =
  sw_presets :: "(string \<times> string) list"
  sw_cron :: string
  sw_reading :: string
  sw_profile :: "string \<times> (string \<times> string) list"
  sw_enabled :: bool
  sw_create :: "string \<times> bool"

definition create_schedule_enabled :: "bool \<Rightarrow> schedules_page \<Rightarrow> bool" where
  "create_schedule_enabled saving s \<longleftrightarrow> sf_cron (sp_form s) \<noteq> [] \<and> \<not> saving"

definition schedule_form_of :: "bool \<Rightarrow> schedules_page \<Rightarrow> schedule_form_view option" where
  "schedule_form_of saving s = (if \<not> sp_show_form s then None else Some \<lparr>
     sw_presets = map (\<lambda>(v, l). (l, if sf_cron (sp_form s) = v then ''border-primary text-primary bg-primary/10''
        else ''border-border text-muted-foreground hover:border-primary/50'')) cron_presets,
     sw_cron = sf_cron (sp_form s), sw_reading = [CHR 0xE2, CHR 0x86, CHR 0x92] @ '' '' @ humanize_cron (sf_cron (sp_form s)),
     sw_profile = (sf_profile (sp_form s), map (\<lambda>p. (p, to_upper p)) schedule_profiles), sw_enabled = sf_enabled (sp_form s),
     sw_create = (if saving then ''CREATING...'' else ''CREATE'', \<not> create_schedule_enabled saving s)\<rparr>)"

datatype schedule_list = SchedulesLoading string | NoSchedules string | Schedules "schedule_card list"

record schedules_view =
  ss_subtitle :: string
  ss_back :: bool
  ss_new_button :: bool
  ss_form :: "schedule_form_view option"
  ss_title :: string
  ss_status :: string
  ss_list :: schedule_list

definition schedules_view_of :: "(string \<Rightarrow> string) \<Rightarrow> string option \<Rightarrow> string option \<Rightarrow> bool \<Rightarrow> bool \<Rightarrow> schedule_row list
    \<Rightarrow> schedules_page \<Rightarrow> schedules_view" where
  "schedules_view_of loc role i saving loading rows s = \<lparr>
     ss_subtitle = (if or_text i [] = [] then ''All scheduled collections'' else ''INCIDENT: '' @ or_text i []),
     ss_back = (or_text i [] \<noteq> []), ss_new_button = new_schedule_offered role i, ss_form = schedule_form_of saving s,
     ss_title = ''SCHEDULES ('' @ nat_str (length rows) @ '')'', ss_status = schedules_status rows,
     ss_list = (if loading then SchedulesLoading ''LOADING...''
       else if rows = [] then NoSchedules ''No scheduled collections. Create one to automatically re-collect on a cron schedule.''
       else Schedules (map (schedule_card_of loc role) rows))\<rparr>"

datatype schedule_event =
    ToggleNewSchedule | PickPreset string | TypeCron string | PickScheduleProfile string | TickEnabled bool
  | CreateScheduleClicked bool | CancelSchedule | ToggleSchedule string | DeleteSchedule string | OpenIncident string | BackClicked

definition set_schedule_form :: "(schedule_form \<Rightarrow> schedule_form) \<Rightarrow> schedules_page \<Rightarrow> schedules_page" where
  "set_schedule_form f s = s\<lparr>sp_form := f (sp_form s)\<rparr>"

definition close_schedule_form :: "schedules_page \<Rightarrow> schedules_page" where
  "close_schedule_form s = s\<lparr>sp_show_form := False\<rparr>"

fun schedule_handler :: "string option \<Rightarrow> string option \<Rightarrow> schedule_event \<Rightarrow> schedules_page \<Rightarrow> schedules_io" where
  "schedule_handler role i ToggleNewSchedule s = input_event (new_schedule_offered role i) toggle_schedule_form"
| "schedule_handler role i (PickPreset v) s = input_event (sp_show_form s \<and> v \<in> set (map fst cron_presets)) (preset_chosen v)"
| "schedule_handler role i (TypeCron v) s = input_event (sp_show_form s) (preset_chosen v)"
| "schedule_handler role i (PickScheduleProfile v) s =
     input_event (sp_show_form s \<and> v \<in> set schedule_profiles) (set_schedule_form (\<lambda>f. f\<lparr>sf_profile := v\<rparr>))"
| "schedule_handler role i (TickEnabled b) s = input_event (sp_show_form s) (set_schedule_form (\<lambda>f. f\<lparr>sf_enabled := b\<rparr>))"
| "schedule_handler role i (CreateScheduleClicked saving) s =
     (if sp_show_form s \<and> create_schedule_enabled saving s then create_schedule i else Done)"
| "schedule_handler role i CancelSchedule s = input_event (sp_show_form s) close_schedule_form"
| "schedule_handler role i (ToggleSchedule k) s = (if can_edit role then toggle_schedule i k else Done)"
| "schedule_handler role i (DeleteSchedule k) s = (if can_edit role then delete_schedule i k else Done)"
| "schedule_handler role i (OpenIncident k) s = Emit (Navigate (''/incidents/'' @ k)) Done"
| "schedule_handler role i BackClicked s = (if or_text i [] \<noteq> [] then Emit (Navigate (''/incidents/'' @ or_text i [])) Done else Done)"

subsection \<open>What the page may send\<close>

definition schedules_inv :: "string option \<Rightarrow> string option \<Rightarrow> schedules_page \<Rightarrow> bool" where
  "schedules_inv role i s \<longleftrightarrow> (sp_show_form s \<longrightarrow> new_schedule_offered role i) \<and> sf_profile (sp_form s) \<in> set schedule_profiles"

fun schedule_body_ok :: "string option \<Rightarrow> schedule_body \<Rightarrow> bool" where
  "schedule_body_ok i (CreateSchedule j cron p ms e) \<longleftrightarrow> j = i \<and> or_text i [] \<noteq> [] \<and> cron \<noteq> []
     \<and> (\<exists>q \<in> set schedule_profiles. p = Some q) \<and> ms = []"
| "schedule_body_ok i EmptyPatch \<longleftrightarrow> True"

definition schedule_request_ok :: "string option \<Rightarrow> string option \<Rightarrow> schedule_body request \<Rightarrow> bool" where
  "schedule_request_ok role i rq \<longleftrightarrow> can_edit role \<and> (\<forall>b. req_body rq = Some b \<longrightarrow> schedule_body_ok i b)"

lemma schedule_handler_keeps: "schedules_inv role i s \<Longrightarrow> keeps (schedules_inv role i) (schedule_handler role i e s) s"
  by (cases e) (auto simp: input_event_def create_schedule_def toggle_schedule_def delete_schedule_def mutation_def
      toggle_schedule_form_def preset_chosen_def set_schedule_form_def close_schedule_form_def schedules_inv_def)

lemma profiles_not_empty: "p \<in> set schedule_profiles \<Longrightarrow> text_or_null p = Some p"
  by (auto simp: schedule_profiles_def text_or_null_def)

lemma schedule_handler_asks:
  "schedules_inv role i s \<Longrightarrow> asks (schedules_inv role i) (schedule_request_ok role i) (schedule_handler role i e s) s"
  by (cases e) (auto simp: input_event_def create_schedule_def toggle_schedule_def delete_schedule_def mutation_def
      schedule_request_ok_def schedules_inv_def new_schedule_offered_def create_schedule_enabled_def profiles_not_empty)

interpretation schedules: component_requests "schedule_handler role i" initial_schedules "schedules_inv role i"
    "schedule_request_ok role i" for role i
  by unfold_locales (auto simp: schedule_handler_keeps schedule_handler_asks,
    simp add: schedules_inv_def initial_schedules_def schedule_profiles_def)

section \<open>Export to a SIEM and to case management\<close>

record siem_view =
  sm_targets :: "(string \<times> bool) list"
  sm_volume :: "int \<times> (int \<times> string) list"
  sm_fields :: "(string \<times> string \<times> string) list"
  sm_export_disabled :: bool
  sm_progress :: "(string \<times> string) option"
  sm_banner :: "(bool \<times> string) option"
  sm_hint :: "string option"
  sm_cases_button :: "string \<times> bool"
  sm_contacting :: bool
  sm_cases :: "(bool \<times> (string \<times> string) \<times> string option) list"

definition siem_view_of :: "(int \<Rightarrow> string) \<Rightarrow> siem_page \<Rightarrow> siem_view" where
  "siem_view_of loc s = \<lparr>
     sm_targets = map (\<lambda>t. (target_name t, se_target s = t)) [Splunk, Elastic, Timesketch],
     sm_volume = (se_max s, map (\<lambda>n. (n, loc n @ '' EVENTS'')) volume_options),
     sm_fields = map (\<lambda>(label, k, pw). (label, if pw then ''password'' else ''text'', cfg s k)) (target_fields (se_target s)),
     sm_export_disabled = se_exporting s,
     sm_progress = (if se_exporting s then Some (''Piping Evidence Stream...'', ''EST: 4s'') else None),
     sm_banner = siem_banner loc s,
     sm_hint = (if \<not> se_exporting s \<and> se_result s = None then Some (''Destination mapping for '' @ target_name (se_target s)
        @ '' is ready. Ensure network routes allow outbound traffic from the backend server.'') else None),
     sm_cases_button = (if se_case_exporting s then ''Syncing...'' else ''Broadcast Case Sync'', se_case_exporting s),
     sm_contacting = se_case_exporting s,
     sm_cases = map (\<lambda>(i, r). (xr_success r, case_card i r,
        if xr_success r \<and> or_text (xr_url r) [] \<noteq> [] then xr_url r else None)) (enumerate 0 (se_cases s))\<rparr>"

datatype siem_event = OpenSiem | ChooseTarget siem_target | PickVolume int | TypeSiemField string string | ExportClicked | CaseExportClicked

fun siem_handler :: "(int \<Rightarrow> string) \<Rightarrow> string \<Rightarrow> siem_event \<Rightarrow> siem_page \<Rightarrow> siem_io" where
  "siem_handler loc i OpenSiem s = load_siem_settings"
| "siem_handler loc i (ChooseTarget t) s = Update (choose_target t) Done"
| "siem_handler loc i (PickVolume n) s = input_event (n \<in> set volume_options) (\<lambda>s. s\<lparr>se_max := n\<rparr>)"
| "siem_handler loc i (TypeSiemField k v) s = input_event (k \<in> set (map (fst \<circ> snd) (target_fields (se_target s)))) (put_cfg k v)"
| "siem_handler loc i ExportClicked s = (if se_exporting s then Done else handle_siem loc (Some i))"
| "siem_handler loc i CaseExportClicked s = (if se_case_exporting s then Done else handle_case_export i)"

definition siem_inv :: "siem_page \<Rightarrow> bool" where
  "siem_inv s \<longleftrightarrow> se_max s \<in> set volume_options \<and> map fst (se_cfg s) = map fst initial_cfg"

definition siem_request_ok :: "string \<Rightarrow> jsval request \<Rightarrow> bool" where
  "siem_request_ok i rq \<longleftrightarrow> rq = Request GET ''/admin/settings'' None \<or> rq = Request POST (''/case/export/all/'' @ i) (Some (JObj []))
     \<or> (\<exists>s. siem_inv s \<and> rq = Request POST ''/platform/siem-export'' (Some (siem_body (Some i) s)))"

lemma put_known_cfg: "siem_inv s \<Longrightarrow> k \<in> set (map fst initial_cfg) \<Longrightarrow> siem_inv (put_cfg k v s)"
  by (auto simp: siem_inv_def put_cfg_def obj_put_def initial_cfg_def)

section \<open>Collectors\<close>

record collector_row =
  cr_name :: string
  cr_cells :: "string list"
  cr_status :: string
  cr_console :: bool
  cr_remove :: bool

definition collector_row_of :: "(string \<Rightarrow> string) \<Rightarrow> bool \<Rightarrow> collector \<Rightarrow> collector_row" where
  "collector_row_of loc admin c = \<lparr>cr_name = ct_name c, cr_cells = collector_cells loc c, cr_status = collector_status c,
     cr_console = fst (collector_buttons admin c), cr_remove = snd (collector_buttons admin c)\<rparr>"

datatype collector_list = CollectorsLoading | NoCollectors string | CollectorRows "string list" "collector_row list"

record collectors_view =
  cv_refresh_disabled :: bool
  cv_add_button :: bool
  cv_stats :: "(string \<times> nat) list"
  cv_error :: "string option"
  cv_form :: "((string \<times> string) \<times> bool) option"
  cv_status :: string
  cv_online :: string
  cv_list :: collector_list

definition collectors_view_of :: "(string \<Rightarrow> string) \<Rightarrow> string option \<Rightarrow> bool \<Rightarrow> bool \<Rightarrow> collector list \<Rightarrow> collectors_page \<Rightarrow> collectors_view" where
  "collectors_view_of loc role refetching loading cs s = (let admin = role = Some ''admin'' in \<lparr>
     cv_refresh_disabled = refetching, cv_add_button = admin,
     cv_stats = [(''TOTAL COLLECTORS'', length cs), (''ONLINE'', online_count cs), (''OFFLINE / BUSY'', length cs - online_count cs)],
     cv_error = (if or_text (cp_error s) [] = [] then None else cp_error s),
     cv_form = (if cp_show_add s \<and> admin then Some ((cp_name s, cp_endpoint s), cp_adding s) else None),
     cv_status = panel_status cs, cv_online = nat_str (online_count cs) @ ''/'' @ nat_str (length cs) @ '' ONLINE'',
     cv_list = (if loading then CollectorsLoading else if cs = [] then NoCollectors ''No collectors registered.''
       else CollectorRows [''NAME'', ''ENDPOINT'', ''STATUS'', ''LAST HEARTBEAT''] (map (collector_row_of loc admin) cs))\<rparr>)"

datatype collector_event =
    RefreshClicked bool | AddNode | TypeNodeName string | TypeNodeEndpoint string | AddClicked | CancelAdd
  | RemoveClicked string | ConsoleClicked collector

definition open_add :: "collectors_page \<Rightarrow> collectors_page" where
  "open_add s = s\<lparr>cp_show_add := True\<rparr>"

fun collector_handler :: "string option \<Rightarrow> collector_event \<Rightarrow> collectors_page \<Rightarrow> collectors_io" where
  "collector_handler role (RefreshClicked refetching) s =
     (if refetching then Done else orElse (Request GET ''/collectors'' None) (\<lambda>_. Done) (\<lambda>_. Done))"
| "collector_handler role AddNode s = input_event (role = Some ''admin'') open_add"
| "collector_handler role (TypeNodeName t) s = input_event (cp_show_add s \<and> role = Some ''admin'') (\<lambda>s. s\<lparr>cp_name := t\<rparr>)"
| "collector_handler role (TypeNodeEndpoint t) s = input_event (cp_show_add s \<and> role = Some ''admin'') (\<lambda>s. s\<lparr>cp_endpoint := t\<rparr>)"
| "collector_handler role AddClicked s = (if cp_show_add s \<and> role = Some ''admin'' \<and> \<not> cp_adding s then handle_add else Done)"
| "collector_handler role CancelAdd s = input_event (cp_show_add s \<and> role = Some ''admin'') cancel_add"
| "collector_handler role (RemoveClicked i) s = (if role = Some ''admin'' then handle_delete i else Done)"
| "collector_handler role (ConsoleClicked c) s = (if collector_active c then Emit (Navigate (console_path c)) Done else Done)"

definition collector_request_ok :: "string option \<Rightarrow> (string \<times> string) request \<Rightarrow> bool" where
  "collector_request_ok role rq \<longleftrightarrow> (role = Some ''admin'' \<or> req_method rq = GET)
     \<and> (\<forall>n e. req_body rq = Some (n, e) \<longrightarrow> n \<noteq> [] \<and> e \<noteq> [])"


section \<open>The contracts of the two pages\<close>

lemma prefill_inv: "siem_inv s \<Longrightarrow> siem_inv (prefill u t s)"
  by (auto simp: prefill_def Let_def initial_cfg_def intro!: put_known_cfg)

lemma target_fields_known: "k \<in> set (map (fst \<circ> snd) (target_fields t)) \<Longrightarrow> k \<in> set (map fst initial_cfg)"
  by (cases t) (auto simp: target_fields_def initial_cfg_def)

lemma siem_inv_flags [simp]:
  "siem_inv (s\<lparr>se_result := r\<rparr>) = siem_inv s" "siem_inv (s\<lparr>se_exporting := b\<rparr>) = siem_inv s"
  "siem_inv (s\<lparr>se_cases := rs\<rparr>) = siem_inv s" "siem_inv (s\<lparr>se_case_exporting := b\<rparr>) = siem_inv s"
  "siem_inv (s\<lparr>se_target := t\<rparr>) = siem_inv s"
  by (simp_all add: siem_inv_def)

lemma handle_siem_contract:
  assumes "siem_inv s"
  shows "keeps siem_inv (handle_siem loc (Some i)) s \<and> asks siem_inv (siem_request_ok i) (handle_siem loc (Some i)) s"
  using assms unfolding handle_siem_def Let_def keeps.simps asks.simps
  by (auto intro!: keeps_tryFinally keeps_tryCatch asks_tryFinally asks_tryCatch split: option.split
      simp: siem_request_ok_def)

lemma case_export_contract:
  assumes "siem_inv s"
  shows "keeps siem_inv (handle_case_export i) s \<and> asks siem_inv (siem_request_ok i) (handle_case_export i) s"
  using assms unfolding handle_case_export_def keeps.simps asks.simps
  by (auto intro!: keeps_tryFinally keeps_tryCatch asks_tryFinally asks_tryCatch split: option.split
      simp: siem_request_ok_def)

lemma load_siem_contract:
  assumes "siem_inv s"
  shows "keeps siem_inv load_siem_settings s \<and> asks siem_inv (siem_request_ok i) load_siem_settings s"
  using assms unfolding load_siem_settings_def
  by (auto intro!: keeps_tryCatch asks_tryCatch prefill_inv split: option.split prod.split simp: siem_request_ok_def)

lemma siem_handler_contract:
  "siem_inv s \<Longrightarrow> keeps siem_inv (siem_handler loc i e s) s \<and> asks siem_inv (siem_request_ok i) (siem_handler loc i e s) s"
  by (cases e) (use target_fields_known in \<open>auto simp: load_siem_contract handle_siem_contract case_export_contract input_event_def
      choose_target_def put_known_cfg\<close>, simp add: siem_inv_def)

interpretation siem: component_requests "siem_handler loc i" initial_siem siem_inv "siem_request_ok i" for loc i
  by unfold_locales (auto simp: siem_handler_contract, simp add: siem_inv_def initial_siem_def volume_options_def)

lemma handle_add_contract:
  "keeps (\<lambda>_. True) handle_add s \<and> asks (\<lambda>_. True) (collector_request_ok (Some ''admin'')) handle_add s"
  unfolding handle_add_def keeps.simps asks.simps
  by (auto intro!: keeps_tryFinally keeps_tryCatch asks_tryFinally asks_tryCatch simp: collector_request_ok_def)

lemma handle_delete_contract:
  "keeps (\<lambda>_. True) (handle_delete i) s \<and> asks (\<lambda>_. True) (collector_request_ok (Some ''admin'')) (handle_delete i) s"
  unfolding handle_delete_def
  by (auto intro!: keeps_tryCatch asks_tryCatch simp: collector_request_ok_def)

lemma collector_handler_contract:
  "keeps (\<lambda>_. True) (collector_handler role e s) s \<and> asks (\<lambda>_. True) (collector_request_ok role) (collector_handler role e s) s"
  by (cases e) (auto simp: handle_add_contract handle_delete_contract input_event_def, simp add: collector_request_ok_def)

interpretation collectors: component_requests "collector_handler role" initial_collectors "\<lambda>_. True" "collector_request_ok role" for role
  by unfold_locales (auto simp: collector_handler_contract)

section \<open>Theorems\<close>

text \<open>C21. What the page of the custom modules sends follows the role: nothing at all unless it may edit, a deletion only for an
  administrator; and a module it creates is enabled, has a name, a command and an output path, and an operating system and a
  category of the lists, however the events and the answers are interleaved.\<close>

theorem module_requests_follow_role:
  assumes "reachable (module_handler role) initial_modules (s, pool)" and "Await rq g \<in> set pool"
  shows "can_edit role \<and> (req_method rq = DELETE \<longrightarrow> role = Some ''admin'') \<and> (\<forall>b. req_body rq = Some b \<longrightarrow> module_body_ok b)"
  using modules.waiting_allowed [OF assms] by (simp add: module_request_ok_def)

definition create_steps :: "module_event list" where
  "create_steps = [ToggleNew, TypeModuleName ''m'', TypeModuleCommand ''dir'', PickModuleOs ''amiga'']"

definition filled_modules :: modules_page where
  "filled_modules = fold (\<lambda>e s. fst (settle (module_handler (Some ''operator'') e s) True s)) create_steps initial_modules"

lemma filled_modules_eq: "filled_modules = initial_modules\<lparr>mp_show_form := True, mp_form := blank_module\<lparr>nf_name := ''m'', nf_command := ''dir''\<rparr>\<rparr>"
  by (simp add: filled_modules_def create_steps_def input_event_def can_edit_def toggle_module_form_def set_module_form_def
      initial_modules_def os_options_def)

lemma module_requests_follow_role_witness:
  "\<exists>rq g b. Await rq g \<in> set (snd (settle (module_handler (Some ''operator'') (CreateClicked False) filled_modules) True filled_modules))
     \<and> req_body rq = Some b \<and> module_body_ok b"
proof -
  have "reachable (module_handler (Some ''operator'')) initial_modules (initial_modules, [])" by (rule reachable.initially)
  then have r: "reachable (module_handler (Some ''operator'')) initial_modules (filled_modules, [])"
    unfolding filled_modules_def by (rule reach_steps) (auto simp: create_steps_def input_event_def)
  let ?b = "create_module_body (mp_form filled_modules)"
  obtain g where st: "settle (module_handler (Some ''operator'') (CreateClicked False) filled_modules) True filled_modules
      = (filled_modules, [Await (Request POST ''/platform/custom-modules'' (Some ?b)) g])"
    by (simp add: filled_modules_eq create_enabled_def create_module_def mutation_def orElse_def initial_modules_def)
  have "reachable (module_handler (Some ''operator'')) initial_modules
      (filled_modules, [Await (Request POST ''/platform/custom-modules'' (Some ?b)) g])"
    by (rule reach_waiting [OF r]) (rule st)
  then have "module_body_ok ?b"
    using module_requests_follow_role [where rq = "Request POST ''/platform/custom-modules'' (Some ?b)"] by fastforce
  then show ?thesis using st by auto
qed

text \<open>Schedules: nothing is sent for a role that may not edit, and a schedule is created for the case of the route only, with
  a cron expression and one of the four profiles, and with no modules of its own.\<close>

theorem schedule_requests_stay_in_case:
  assumes "reachable (schedule_handler role i) initial_schedules (s, pool)" and "Await rq g \<in> set pool"
  shows "can_edit role \<and> (\<forall>b. req_body rq = Some b \<longrightarrow> schedule_body_ok i b)"
  using schedules.waiting_allowed [OF assms] by (simp add: schedule_request_ok_def)

lemma schedule_requests_stay_in_case_witness:
  "\<exists>rq g b. Await rq g \<in> set (snd (settle (create_schedule (Some ''c'')) True (toggle_schedule_form initial_schedules)))
     \<and> req_body rq = Some b \<and> schedule_body_ok (Some ''c'') b"
proof -
  let ?h = "schedule_handler (Some ''admin'') (Some ''c'')" and ?s = "toggle_schedule_form initial_schedules"
  let ?b = "CreateSchedule (Some ''c'') ''0 2 * * *'' (Some ''triage'') [] True"
  have "reachable ?h initial_schedules (initial_schedules, [])" by (rule reachable.initially)
  then have r: "reachable ?h initial_schedules (?s, [])"
    by (rule reach_waiting [where e = ToggleNewSchedule and yes = True]) (simp add: input_event_def new_schedule_offered_def can_edit_def or_text_def)
  obtain g where st: "settle (?h (CreateScheduleClicked False) ?s) True ?s
      = (?s, [Await (Request POST ''/platform/scheduled-collections'' (Some ?b)) g])"
    by (simp add: create_schedule_enabled_def create_schedule_def mutation_def orElse_def initial_schedules_def
        toggle_schedule_form_def text_or_null_def)
  have "reachable ?h initial_schedules (?s, [Await (Request POST ''/platform/scheduled-collections'' (Some ?b)) g])"
    by (rule reach_waiting [OF r]) (rule st)
  then have "schedule_body_ok (Some ''c'') ?b"
    using schedule_requests_stay_in_case [where rq = "Request POST ''/platform/scheduled-collections'' (Some ?b)"] by fastforce
  then show ?thesis
    using st by (auto simp: create_schedule_enabled_def toggle_schedule_form_def initial_schedules_def)
qed

lemma blank_after_preset:
  "\<forall>(v, l) \<in> set cron_presets. humanize_cron (v @ '' '') = l \<and> list_all (\<lambda>(p, q). p \<noteq> v @ '' '') cron_presets"
  by (simp add: cron_presets_def humanize_cron_def char_eval)

text \<open>The reading of a cron expression ignores the blanks around it, the presets do not: with a blank after a preset the page
  says what it means, lights none of the presets and sends the expression with the blank.\<close>

theorem read_preset_not_lit:
  assumes "sp_show_form s" and "cron = v @ '' ''" and "(v, label) \<in> set cron_presets"
  shows "\<exists>w. schedule_form_of saving (preset_chosen cron s) = Some w
    \<and> sw_reading w = [CHR 0xE2, CHR 0x86, CHR 0x92] @ '' '' @ label
    \<and> list_all (\<lambda>(l, cl). cl = ''border-border text-muted-foreground hover:border-primary/50'') (sw_presets w)
    \<and> sw_cron w = cron"
proof -
  have "humanize_cron cron = label" and "list_all (\<lambda>(p, q). p \<noteq> cron) cron_presets"
    using blank_after_preset assms(2,3) by auto
  then show ?thesis using assms(1) by (auto simp: schedule_form_of_def preset_chosen_def list_all_iff)
qed

lemma read_preset_not_lit_witness:
  "\<exists>w. schedule_form_of False (preset_chosen ''0 * * * * '' (toggle_schedule_form initial_schedules)) = Some w
     \<and> sw_reading w = [CHR 0xE2, CHR 0x86, CHR 0x92] @ '' '' @ ''Hourly''"
  using read_preset_not_lit [of "toggle_schedule_form initial_schedules" "''0 * * * * ''" "''0 * * * *''" "''Hourly''" False]
  by (auto simp: toggle_schedule_form_def initial_schedules_def cron_presets_def)

text \<open>Every export to a SIEM names the case of the page and one of the five volumes, and a case export is of that case: the
  page sends nothing else but the query of the settings.\<close>

theorem siem_requests_known:
  assumes "reachable (siem_handler loc i) initial_siem (s, pool)" and "Await rq g \<in> set pool"
  shows "rq = Request GET ''/admin/settings'' None \<or> rq = Request POST (''/case/export/all/'' @ i) (Some (JObj []))
     \<or> (\<exists>s'. siem_inv s' \<and> rq = Request POST ''/platform/siem-export'' (Some (siem_body (Some i) s')))"
  using siem.waiting_allowed [OF assms] by (simp add: siem_request_ok_def)

lemma siem_requests_known_witness:
  "\<exists>rq g. Await rq g \<in> set (snd (settle load_siem_settings True initial_siem)) \<and> rq = Request GET ''/admin/settings'' None"
proof -
  obtain g where st: "settle (siem_handler (\<lambda>n. []) ''c'' OpenSiem initial_siem) True initial_siem
      = (initial_siem, [Await (Request GET ''/admin/settings'' None) g])"
    by (simp add: load_siem_settings_def call_def)
  have "reachable (siem_handler (\<lambda>n. []) ''c'') initial_siem (initial_siem, [Await (Request GET ''/admin/settings'' None) g])"
    by (rule reach_waiting [OF reachable.initially]) (rule st)
  from siem_requests_known [OF this, of "Request GET ''/admin/settings'' None"] show ?thesis using st by auto
qed

text \<open>The outcome of an export stays below the form of another target: choosing one after an export shows the banner of
  the last one and hides what the page has to say about the new destination.\<close>

theorem banner_outlives_target:
  assumes "\<not> se_exporting s" and "se_result s = Some r"
  shows "sm_banner (siem_view_of loc (choose_target t s)) = sm_banner (siem_view_of loc s)
    \<and> sm_banner (siem_view_of loc (choose_target t s)) \<noteq> None \<and> sm_hint (siem_view_of loc (choose_target t s)) = None"
  using assms by (simp add: siem_view_of_def choose_target_def siem_banner_def)

lemma banner_outlives_target_witness:
  "sm_banner (siem_view_of (\<lambda>n. ''5'') (choose_target Elastic (initial_siem\<lparr>se_result := Some \<lparr>sr_sent = Some 5, sr_error = None\<rparr>\<rparr>))) \<noteq> None"
  by (rule banner_outlives_target [THEN conjunct2, THEN conjunct1]) (simp_all add: initial_siem_def)

text \<open>The fields marked as required are not asked for: an export with all of them blank is offered, and sent.\<close>

theorem required_fields_unchecked:
  assumes "\<not> se_exporting s" and "se_target s = Splunk" and "\<forall>k. cfg s k = []"
  shows "list_all (\<lambda>(label, k, v). v = []) (sm_fields (siem_view_of loc s)) \<and> \<not> sm_export_disabled (siem_view_of loc s)
    \<and> (\<exists>g. snd (settle (siem_handler loc i ExportClicked s) yes s) = [Await (Request POST ''/platform/siem-export'' (Some (JObj
         [(''target'', JStr ''splunk''), (''incident_id'', JStr i), (''max_events'', JNum (se_max s)),
          (''splunk_hec_url'', JStr []), (''splunk_hec_token'', JStr [])]))) g])"
  using assms by (auto simp: siem_view_of_def target_fields_def handle_siem_def siem_body_def target_name_def call_def list_all_iff)

lemma required_fields_unchecked_witness:
  "\<not> sm_export_disabled (siem_view_of (\<lambda>n. []) (initial_siem\<lparr>se_cfg := []\<rparr>))"
  using required_fields_unchecked [of "initial_siem\<lparr>se_cfg := []\<rparr>" "\<lambda>n. []" "''c''" True]
  by (simp add: initial_siem_def cfg_def)

text \<open>Only an administrator's page writes collectors: for any other role it only reads the list; and what is added has a name
  and an endpoint.\<close>

theorem collectors_written_by_admin:
  assumes "reachable (collector_handler role) initial_collectors (s, pool)" and "Await rq g \<in> set pool"
  shows "(role = Some ''admin'' \<or> req_method rq = GET) \<and> (\<forall>n e. req_body rq = Some (n, e) \<longrightarrow> n \<noteq> [] \<and> e \<noteq> [])"
  using collectors.waiting_allowed [OF assms] by (simp add: collector_request_ok_def)

lemma collectors_written_by_admin_witness:
  "\<exists>rq g. Await rq g \<in> set (snd (settle (handle_delete ''k'') True initial_collectors)) \<and> req_method rq = DELETE"
proof -
  obtain g where st: "settle (collector_handler (Some ''admin'') (RemoveClicked ''k'') initial_collectors) True initial_collectors
      = (initial_collectors, [Await (Request DELETE (''/collectors/'' @ ''k'') None) g])"
    by (simp add: handle_delete_def call_def)
  have "reachable (collector_handler (Some ''admin'')) initial_collectors
      (initial_collectors, [Await (Request DELETE (''/collectors/'' @ ''k'') None) g])"
    by (rule reach_waiting [OF reachable.initially]) (rule st)
  from collectors_written_by_admin [OF this, of "Request DELETE (''/collectors/'' @ ''k'') None"] show ?thesis using st by auto
qed

text \<open>A failure outlives the successes that follow: after a removal that failed, one that succeeds leaves the error of the
  first on the page, for every collector that is removed.\<close>

theorem removal_error_outlives_success:
  assumes "cp_error s = Some e" and "e \<noteq> []"
  shows "cv_error (collectors_view_of loc role f l cs (final_state (stateless (\<lambda>_. Inr ())) yes (handle_delete i) w s)) = Some e"
  using assms by (simp add: handle_delete_def io_simps stateless_def collectors_view_of_def or_text_def)

lemma removal_error_outlives_success_witness:
  "cv_error (collectors_view_of (\<lambda>t. t) None False False [] (final_state (stateless (\<lambda>_. Inr ())) True (handle_delete ''k'') ()
     (initial_collectors\<lparr>cp_error := Some ''x''\<rparr>))) = Some ''x''"
  using removal_error_outlives_success [of "initial_collectors\<lparr>cp_error := Some ''x''\<rparr>" "''x''"] by simp

end
