(* ===== verification/CollectionSetup.thy ===== *)
theory CollectionSetup
  imports Prelude
begin

text \<open>
  \<open>pages/CollectionSetup.tsx\<close>: the artifact selector.  The page loads the incident, the modules of
  the detected operating system and the devices the incident targets, lets the analyst pick
  modules by hand, by category or by profile, and hands the selection to the execution page.
\<close>

section \<open>Data\<close>

record module_entry =
  module_id :: string
  module_os :: string
  module_category :: string
  module_priority :: int
  output_relpath :: string
  estimated_size_mb :: "rat option"

type_synonym modules_by_category = "module_entry list jsobj"

record profile_summary =
  profile_id :: string
  profile_label :: string
  profile_description :: string
  module_counts :: "nat jsobj"

record incident =
  inc_id :: string
  inc_type :: string
  target_endpoints :: "string list"

record setup_device =
  dev_id :: string
  dev_hostname :: string
  dev_os :: string

definition category_order :: "string list" where
  "category_order = [''volatile'', ''logs'', ''persistence'', ''system'', ''artifacts'']"

definition category_labels :: "string jsobj" where
  "category_labels = [(''volatile'', ''VOLATILE DATA''), (''logs'', ''SYSTEM LOGS''),
     (''persistence'', ''PERSISTENCE''), (''system'', ''SYSTEM INFO''), (''artifacts'', ''KAPE ARTIFACTS'')]"

datatype supported_os = Windows | Linux | MacOS

definition os_options :: "supported_os list" where
  "os_options = [Windows, Linux, MacOS]"

fun os_name :: "supported_os \<Rightarrow> string" where
  "os_name Windows = ''windows''"
| "os_name Linux = ''linux''"
| "os_name MacOS = ''macos''"

definition normalize_os :: "string \<Rightarrow> supported_os" where
  "normalize_os raw =
     (let s = trim (to_lower (hd (split_at_char CHR ''/'' raw)))
      in if s \<in> set [''darwin'', ''macos'', ''mac os x'', ''mac os'', ''osx'', ''mac''] then MacOS
         else if s = ''linux'' then Linux else Windows)"

datatype setup_reply =
    RIncident incident
  | RDevices "setup_device list"
  | RModules modules_by_category
  | RProfiles "profile_summary list"
  | RProfileModules "module_entry list"

fun the_incident where "the_incident (RIncident i) = Some i" | "the_incident _ = None"
fun the_devices where "the_devices (RDevices d) = Some d" | "the_devices _ = None"
fun the_modules where "the_modules (RModules m) = Some m" | "the_modules _ = None"
fun the_profiles where "the_profiles (RProfiles p) = Some p" | "the_profiles _ = None"
fun the_profile_modules where "the_profile_modules (RProfileModules m) = Some m" | "the_profile_modules _ = None"

section \<open>State and operations\<close>

record setup_page =
  setup_incident :: "incident option"
  detected_os :: supported_os
  os_override :: "supported_os option"
  modules_by_cat :: modules_by_category
  profiles :: "profile_summary list"
  selected :: "string jsset"
  collapsed :: "string jsset"
  is_loading :: bool
  error_message :: "string option"
  active_profile :: "string option"
  module_search :: string
  devices :: "setup_device list"
  selected_device_ids :: "string jsset"

definition initial_setup :: setup_page where
  "initial_setup = \<lparr>setup_incident = None, detected_os = Windows, os_override = None, modules_by_cat = [],
     profiles = [], selected = [], collapsed = [], is_loading = True, error_message = None,
     active_profile = None, module_search = [], devices = [], selected_device_ids = []\<rparr>"

type_synonym setup_io = "(setup_page, setup_reply, unit, unit) io"

definition module_ids :: "modules_by_category \<Rightarrow> string list" where
  "module_ids ms = concat (map (\<lambda>(cat, entries). map module_id entries) ms)"

definition all_module_ids :: "setup_page \<Rightarrow> string list" where
  "all_module_ids s = module_ids (modules_by_cat s)"

definition select_full :: "modules_by_category \<Rightarrow> setup_page \<Rightarrow> setup_page" where
  "select_full ms s = s\<lparr>selected := new_set (module_ids ms), active_profile := Some ''full''\<rparr>"

text \<open>The \<open>useEffect\<close> that loads the page; \<open>detect\<close> asks for the devices only when there is a target.\<close>

definition detect_from :: "string \<Rightarrow> setup_device list \<Rightarrow> supported_os" where
  "detect_from target ds =
     (case find (\<lambda>d. to_lower (dev_hostname d) = to_lower target) ds of
        Some d \<Rightarrow> if dev_os d = [] then Windows else normalize_os (dev_os d)
      | None \<Rightarrow> Windows)"

definition detect :: "incident \<Rightarrow> (supported_os \<Rightarrow> setup_io) \<Rightarrow> setup_io" where
  "detect current k =
     (case target_endpoints current of
        t # _ \<Rightarrow> if t = [] then k Windows
                 else apiGet ''/devices'' (expect the_devices (\<lambda>ds. k (detect_from t ds)))
      | [] \<Rightarrow> k Windows)"

definition relevant_devices :: "incident \<Rightarrow> setup_device list \<Rightarrow> setup_device list" where
  "relevant_devices current ds =
     filter (\<lambda>d. to_lower (dev_hostname d) \<in> set (map to_lower (target_endpoints current))) ds"

definition load_setup :: "string \<Rightarrow> setup_io" where
  "load_setup incident_id =
     (if incident_id = [] then Update (\<lambda>s. s\<lparr>error_message := Some ''Missing incident identifier.''\<rparr>) Done
      else tryFinally
        (tryCatch
          (apiGet (''/incidents/'' @ incident_id) (expect the_incident (\<lambda>current.
             Update (\<lambda>s. s\<lparr>setup_incident := Some current\<rparr>) (detect current (\<lambda>os.
             Update (\<lambda>s. s\<lparr>detected_os := os\<rparr>)
            (both (Request GET (''/modules?os='' @ os_name os) None) (Request GET ''/modules/profiles'' None)
               (\<lambda>mr pr. expect the_modules (\<lambda>ms. Update (\<lambda>s. s\<lparr>modules_by_cat := ms\<rparr>)
                  (expect the_profiles (\<lambda>ps. Update (\<lambda>s. s\<lparr>profiles := ps\<rparr>)
            (apiGet ''/devices'' (expect the_devices (\<lambda>ds.
             Update (\<lambda>s. s\<lparr>devices := relevant_devices current ds,
                 selected_device_ids := new_set (map dev_id (relevant_devices current ds))\<rparr>)
            (Update (select_full ms) Done))))) pr)) mr)))))))
          (\<lambda>_. Update (\<lambda>s. s\<lparr>error_message := Some ''Unable to load collection modules.''\<rparr>) Done))
        (Update (\<lambda>s. s\<lparr>is_loading := False\<rparr>) Done))"

definition active_os :: "setup_page \<Rightarrow> supported_os" where
  "active_os s = (case os_override s of Some os \<Rightarrow> os | None \<Rightarrow> detected_os s)"

definition reload_modules_for_os :: "supported_os \<Rightarrow> setup_io" where
  "reload_modules_for_os os =
     Update (\<lambda>s. s\<lparr>is_loading := True\<rparr>)
     (tryFinally
       (tryCatch
         (apiGet (''/modules?os='' @ os_name os) (expect the_modules (\<lambda>ms.
            Update (\<lambda>s. s\<lparr>modules_by_cat := ms\<rparr>) (Update (select_full ms) Done))))
         (\<lambda>_. Update (\<lambda>s. s\<lparr>error_message := Some ''Unable to load modules for selected OS.''\<rparr>) Done))
       (Update (\<lambda>s. s\<lparr>is_loading := False\<rparr>) Done))"

definition handle_os_change :: "bool \<Rightarrow> supported_os \<Rightarrow> setup_io" where
  "handle_os_change viewer os =
     (if viewer then Done else Update (\<lambda>s. s\<lparr>os_override := Some os\<rparr>) (reload_modules_for_os os))"

definition toggle_module :: "bool \<Rightarrow> string \<Rightarrow> setup_io" where
  "toggle_module viewer m =
     (if viewer then Done
      else Update (\<lambda>s. s\<lparr>selected := set_toggle m (selected s)\<rparr>)
          (Update (\<lambda>s. s\<lparr>active_profile := None\<rparr>) Done))"

definition category_ids :: "setup_page \<Rightarrow> string \<Rightarrow> string list" where
  "category_ids s cat = (case map_of (modules_by_cat s) cat of Some es \<Rightarrow> map module_id es | None \<Rightarrow> [])"

definition select_category :: "bool \<Rightarrow> string \<Rightarrow> setup_io" where
  "select_category viewer cat =
     (if viewer then Done
      else Read (\<lambda>s0. Update (\<lambda>s. s\<lparr>selected := fold set_add (category_ids s0 cat) (selected s)\<rparr>)
          (Update (\<lambda>s. s\<lparr>active_profile := None\<rparr>) Done)))"

definition clear_category :: "bool \<Rightarrow> string \<Rightarrow> setup_io" where
  "clear_category viewer cat =
     (if viewer then Done
      else Read (\<lambda>s0. Update (\<lambda>s. s\<lparr>selected := fold set_delete (new_set (category_ids s0 cat)) (selected s)\<rparr>)
          (Update (\<lambda>s. s\<lparr>active_profile := None\<rparr>) Done)))"

definition apply_profile :: "bool \<Rightarrow> string \<Rightarrow> setup_io" where
  "apply_profile viewer pid =
     (if viewer then Done
      else if pid = ''full'' then
        Read (\<lambda>s0. Update (\<lambda>s. s\<lparr>active_profile := Some pid\<rparr>)
          (Update (\<lambda>s. s\<lparr>selected := new_set (all_module_ids s0)\<rparr>) Done))
      else Read (\<lambda>s0. tryCatch
        (apiGet (''/modules/profiles/'' @ pid @ ''?os='' @ os_name (active_os s0))
          (expect the_profile_modules (\<lambda>ms.
             Update (\<lambda>s. s\<lparr>active_profile := Some pid\<rparr>)
            (Update (\<lambda>s. s\<lparr>selected := new_set (map module_id ms)\<rparr>) Done))))
        (\<lambda>_. Update (\<lambda>s. s\<lparr>error_message := Some ''Unable to load profile modules.''\<rparr>) Done)))"

definition toggle_category :: "string \<Rightarrow> setup_io" where
  "toggle_category cat = Update (\<lambda>s. s\<lparr>collapsed := set_toggle cat (collapsed s)\<rparr>) Done"

text \<open>What \<open>handleStartCollection\<close> passes to the next page: its path and its navigation state.\<close>

record collect_state =
  selected_module_ids :: "string list"
  nav_profile :: "string option"
  nav_os_override :: string
  agent_ids :: "string list option"

definition handle_start_collection :: "bool \<Rightarrow> string \<Rightarrow> setup_page \<Rightarrow> (string \<times> collect_state) option" where
  "handle_start_collection viewer incident_id s =
     (if viewer \<or> selected s = [] then None
      else Some (''/incidents/'' @ incident_id @ ''/collect'',
        \<lparr>selected_module_ids = selected s, nav_profile = active_profile s,
         nav_os_override = os_name (active_os s),
         agent_ids = (if 0 < length (devices s) \<and> length (selected_device_ids s) < length (devices s)
                      then Some (selected_device_ids s) else None)\<rparr>))"

section \<open>Derived values\<close>

definition ordered_categories :: "setup_page \<Rightarrow> string list" where
  "ordered_categories s =
     filter (\<lambda>cat. case map_of (modules_by_cat s) cat of Some es \<Rightarrow> es \<noteq> [] | None \<Rightarrow> False) category_order"

definition total_modules :: "setup_page \<Rightarrow> nat" where
  "total_modules s = length (all_module_ids s)"

definition selected_size_mb :: "setup_page \<Rightarrow> rat" where
  "selected_size_mb s = fold (\<lambda>(cat, es) total. fold (\<lambda>m t.
       if module_id m \<in> set (selected s) then (case estimated_size_mb m of Some x \<Rightarrow> t + x | None \<Rightarrow> t) else t)
     es total) (modules_by_cat s) 0"

definition format_size :: "rat \<Rightarrow> string" where
  "format_size mb =
     (if mb < 1 then ''~'' @ int_str (math_round (mb * 1024)) @ '' KB''
      else if mb < 1024 then ''~'' @ to_fixed 0 mb @ '' MB''
      else ''~'' @ to_fixed 1 (mb / 1024) @ '' GB'')"

definition search_lower :: "setup_page \<Rightarrow> string" where
  "search_lower s = to_lower (trim (module_search s))"

definition module_matches :: "string \<Rightarrow> module_entry \<Rightarrow> bool" where
  "module_matches q m \<longleftrightarrow> str_includes (to_lower (module_id m)) q \<or>
     str_includes (to_lower (module_category m)) q \<or> str_includes (to_lower (output_relpath m)) q"

definition filtered_categories :: "setup_page \<Rightarrow> modules_by_category" where
  "filtered_categories s =
     (let q = search_lower s
      in if q = [] then modules_by_cat s
         else filter (\<lambda>(cat, ms). ms \<noteq> [])
                (map (\<lambda>cat. (cat, filter (module_matches q)
                   (case map_of (modules_by_cat s) cat of Some es \<Rightarrow> es | None \<Rightarrow> [])))
                 (ordered_categories s)))"

definition visible_categories :: "setup_page \<Rightarrow> string list" where
  "visible_categories s =
     (if search_lower s = [] then ordered_categories s else obj_keys (filtered_categories s))"

text \<open>The page's controls: the operating-system buttons are disabled while the page loads.\<close>

definition toggle_device :: "bool \<Rightarrow> string \<Rightarrow> setup_io" where
  "toggle_device viewer d =
     (if viewer then Done
      else Update (\<lambda>s. s\<lparr>selected_device_ids := set_toggle d (selected_device_ids s)\<rparr>) Done)"

definition select_devices :: "bool \<Rightarrow> bool \<Rightarrow> setup_io" where
  "select_devices viewer all_devices =
     (if viewer then Done
      else Update (\<lambda>s. s\<lparr>selected_device_ids :=
        (if all_devices then new_set (map dev_id (devices s)) else [])\<rparr>) Done)"

definition start_enabled :: "bool \<Rightarrow> setup_page \<Rightarrow> bool" where
  "start_enabled viewer s \<longleftrightarrow> \<not> (viewer \<or> selected s = [] \<or> is_loading s)"

definition no_device_warning :: "setup_page \<Rightarrow> string option" where
  "no_device_warning s =
     (if 1 < length (devices s) \<and> selected_device_ids s = []
      then Some (''No devices selected '' @ em_dash @ '' collection will not run'') else None)"

datatype setup_event =
    OsChange supported_os | ToggleModule string | SelectCategory string | ClearCategory string
  | ApplyProfile string | ToggleCategory string | ToggleDevice string | SelectDevices bool
  | TypeSearch string

fun setup_handler :: "bool \<Rightarrow> setup_event \<Rightarrow> setup_page \<Rightarrow> setup_io" where
  "setup_handler viewer (OsChange os) s = (if viewer \<or> is_loading s then Done else handle_os_change viewer os)"
| "setup_handler viewer (ToggleModule m) s = toggle_module viewer m"
| "setup_handler viewer (SelectCategory c) s = select_category viewer c"
| "setup_handler viewer (ClearCategory c) s = clear_category viewer c"
| "setup_handler viewer (ApplyProfile p) s = apply_profile viewer p"
| "setup_handler viewer (ToggleCategory c) s = toggle_category c"
| "setup_handler viewer (ToggleDevice d) s = toggle_device viewer d"
| "setup_handler viewer (SelectDevices b) s = select_devices viewer b"
| "setup_handler viewer (TypeSearch q) s = Update (\<lambda>s. s\<lparr>module_search := q\<rparr>) Done"

section \<open>What the page shows\<close>

definition category_badge :: "string jsobj" where
  "category_badge = [(''volatile'', ''text-destructive border-destructive''),
     (''logs'', ''text-primary border-primary''), (''persistence'', ''text-yellow-500 border-yellow-500''),
     (''system'', ''text-muted-foreground border-muted-foreground''),
     (''artifacts'', ''text-purple-400 border-purple-400'')]"

definition overridden :: "setup_page \<Rightarrow> bool" where
  "overridden s \<longleftrightarrow> (case os_override s of Some os \<Rightarrow> os \<noteq> detected_os s | None \<Rightarrow> False)"

record os_button =
  ob_label :: string
  ob_disabled :: bool
  ob_chosen :: bool
  ob_title :: "string option"
  ob_detected :: bool

definition os_buttons :: "bool \<Rightarrow> setup_page \<Rightarrow> os_button list" where
  "os_buttons viewer s = map (\<lambda>os. \<lparr>ob_label = to_upper (os_name os), ob_disabled = (viewer \<or> is_loading s),
     ob_chosen = (active_os s = os),
     ob_title = (if os = detected_os s then Some (''Auto-detected: '' @ os_name os) else None),
     ob_detected = (os = detected_os s)\<rparr>) os_options"

definition page_status :: "setup_page \<Rightarrow> string \<times> string \<times> bool" where
  "page_status s = (if is_loading s then ''active'' else ''online'',
     if is_loading s then ''LOADING'' else ''READY'', is_loading s)"

definition macos_banner :: "setup_page \<Rightarrow> bool" where
  "macos_banner s \<longleftrightarrow> active_os s = MacOS"

record profile_button =
  pb_id :: string
  pb_label :: string
  pb_count :: string
  pb_chosen :: bool
  pb_disabled :: bool

definition profile_buttons :: "bool \<Rightarrow> setup_page \<Rightarrow> profile_button list" where
  "profile_buttons viewer s = map (\<lambda>p. \<lparr>pb_id = profile_id p, pb_label = to_upper (profile_label p),
     pb_count = nat_str (case map_of (module_counts p) (os_name (active_os s)) of Some n \<Rightarrow> n | None \<Rightarrow> 0) @ '' modules'',
     pb_chosen = (active_profile s = Some (profile_id p)), pb_disabled = viewer\<rparr>) (profiles s)"

definition chosen_profile :: "setup_page \<Rightarrow> profile_summary option" where
  "chosen_profile s = find (\<lambda>p. Some (profile_id p) = active_profile s) (profiles s)"

definition search_results :: "setup_page \<Rightarrow> string option" where
  "search_results s =
     (if module_search s = [] then None
      else Some (nat_str (fold (\<lambda>cat acc. acc +
          (case map_of (filtered_categories s) cat of Some ms \<Rightarrow> length ms | None \<Rightarrow> 0)) (visible_categories s) 0)
        @ '' results''))"

record module_row =
  row_id :: string
  row_label :: string
  row_path :: string
  row_size :: "string option"
  row_checked :: bool

record category_panel =
  cp_category :: string
  cp_title :: string
  cp_badge :: string
  cp_count :: string
  cp_buttons :: bool
  cp_rows :: "module_row list option"

definition module_label :: "string \<Rightarrow> string" where
  "module_label i = to_upper (map (\<lambda>c. if c = CHR ''_'' then CHR '' '' else c) i)"

definition module_row_of :: "setup_page \<Rightarrow> module_entry \<Rightarrow> module_row" where
  "module_row_of s m = \<lparr>row_id = module_id m, row_label = module_label (module_id m), row_path = output_relpath m,
     row_size = (case estimated_size_mb m of Some x \<Rightarrow> if 0 < x then Some (format_size x) else None | None \<Rightarrow> None),
     row_checked = (module_id m \<in> set (selected s))\<rparr>"

definition category_label :: "string \<Rightarrow> string" where
  "category_label cat = (case map_of category_labels cat of Some l \<Rightarrow> l | None \<Rightarrow> to_upper cat)"

definition panel_modules :: "setup_page \<Rightarrow> string \<Rightarrow> module_entry list" where
  "panel_modules s cat =
     (case map_of (filtered_categories s) cat of Some ms \<Rightarrow> ms
      | None \<Rightarrow> (case map_of (modules_by_cat s) cat of Some ms \<Rightarrow> ms | None \<Rightarrow> []))"

definition count_selected :: "setup_page \<Rightarrow> module_entry list \<Rightarrow> string" where
  "count_selected s mods =
     nat_str (length (filter (\<lambda>m. module_id m \<in> set (selected s)) mods)) @ ''/'' @ nat_str (length mods)"

definition category_panel_of :: "bool \<Rightarrow> setup_page \<Rightarrow> string \<Rightarrow> category_panel" where
  "category_panel_of viewer s cat =
     (let mods = panel_modules s cat
      in \<lparr>cp_category = cat, cp_title = category_label cat,
         cp_badge = (case map_of category_badge cat of Some b \<Rightarrow> b | None \<Rightarrow> []),
         cp_count = count_selected s mods, cp_buttons = (\<not> viewer),
         cp_rows = (if cat \<in> set (collapsed s) then None else Some (map (module_row_of s) mods))\<rparr>)"

datatype module_area = LoadingModules | NoMatch string | Panels "category_panel list"

definition module_area_of :: "bool \<Rightarrow> setup_page \<Rightarrow> module_area" where
  "module_area_of viewer s =
     (if is_loading s then LoadingModules
      else if visible_categories s = [] then NoMatch (''No modules match '' @ [CHR 0x22] @ module_search s @ [CHR 0x22])
      else Panels (map (category_panel_of viewer s) (visible_categories s)))"

definition summary_rows :: "setup_page \<Rightarrow> (string \<times> string) list" where
  "summary_rows s =
     [(''INCIDENT:'', case setup_incident s of Some i \<Rightarrow> inc_id i | None \<Rightarrow> ''PENDING''),
      (''TARGET OS:'', to_upper (os_name (active_os s)) @ (if overridden s then '' (override)'' else '' (auto)'')),
      (''SELECTED:'', nat_str (length (selected s)) @ '' / '' @ nat_str (total_modules s) @ '' modules''),
      (''EST. SIZE:'', if 0 < selected_size_mb s then format_size (selected_size_mb s) else em_dash),
      (''PROFILE:'', case active_profile s of
           Some p \<Rightarrow> if p = [] then ''CUSTOM''
             else to_upper (case chosen_profile s of Some q \<Rightarrow> profile_label q | None \<Rightarrow> p)
         | None \<Rightarrow> ''CUSTOM'')]"

definition size_warning :: "setup_page \<Rightarrow> bool" where
  "size_warning s \<longleftrightarrow> 10240 < selected_size_mb s"

definition category_counts :: "setup_page \<Rightarrow> (string \<times> string) list" where
  "category_counts s = map (\<lambda>cat. (category_label cat, count_selected s
     (case map_of (modules_by_cat s) cat of Some ms \<Rightarrow> ms | None \<Rightarrow> []))) (ordered_categories s)"

text \<open>The list of devices, shown for an incident with several of them.\<close>

definition device_rows :: "setup_page \<Rightarrow> (string \<times> string \<times> bool) list" where
  "device_rows s =
     (if 1 < length (devices s)
      then map (\<lambda>d. (dev_hostname d, hd (split_at_char CHR ''/'' (dev_os d)), dev_id d \<in> set (selected_device_ids s)))
        (devices s)
      else [])"

definition start_label :: "bool \<Rightarrow> setup_page \<Rightarrow> string" where
  "start_label viewer s =
     (if viewer then ''VIEW ONLY'' else if selected s = [] then ''SELECT MODULES''
      else ''COLLECT '' @ nat_str (length (selected s)) @ '' ARTIFACTS'')"

definition page_footer :: "setup_page \<Rightarrow> string list" where
  "page_footer s = (case setup_incident s of
       Some i \<Rightarrow> [''INCIDENT: '' @ inc_id i, ''TYPE: '' @ inc_type i]
     | None \<Rightarrow> [''INCIDENT: PENDING'', ''TYPE: '' @ em_dash])"

text \<open>The controls the page draws: the module and category controls only for the panels it shows.\<close>

definition shown_panels :: "bool \<Rightarrow> setup_page \<Rightarrow> category_panel list" where
  "shown_panels viewer s = (case module_area_of viewer s of Panels ps \<Rightarrow> ps | _ \<Rightarrow> [])"

fun offered :: "bool \<Rightarrow> setup_page \<Rightarrow> setup_event \<Rightarrow> bool" where
  "offered viewer s (OsChange os) \<longleftrightarrow> \<not> viewer \<and> \<not> is_loading s"
| "offered viewer s (ToggleModule m) \<longleftrightarrow> \<not> viewer \<and>
     list_ex (\<lambda>p. case cp_rows p of Some rs \<Rightarrow> m \<in> row_id ` set rs | None \<Rightarrow> False) (shown_panels viewer s)"
| "offered viewer s (SelectCategory c) \<longleftrightarrow>
     list_ex (\<lambda>p. cp_buttons p \<and> cp_category p = c) (shown_panels viewer s)"
| "offered viewer s (ClearCategory c) \<longleftrightarrow>
     list_ex (\<lambda>p. cp_buttons p \<and> cp_category p = c) (shown_panels viewer s)"
| "offered viewer s (ToggleCategory c) \<longleftrightarrow> c \<in> cp_category ` set (shown_panels viewer s)"
| "offered viewer s (ApplyProfile p) \<longleftrightarrow> \<not> viewer \<and> p \<in> profile_id ` set (profiles s)"
| "offered viewer s (ToggleDevice d) \<longleftrightarrow> \<not> viewer \<and> 1 < length (devices s) \<and> d \<in> dev_id ` set (devices s)"
| "offered viewer s (SelectDevices b) \<longleftrightarrow> \<not> viewer \<and> 1 < length (devices s)"
| "offered viewer s (TypeSearch q) \<longleftrightarrow> True"

text \<open>A sequence of presses on controls which need no reply: those of the modules, the categories, the
  search and the devices.  A press on a control the page does not draw at that moment does nothing.\<close>

fun by_hand :: "setup_event \<Rightarrow> bool" where
  "by_hand (OsChange os) = False" | "by_hand (ApplyProfile p) = False" | "by_hand e = True"

definition press :: "bool \<Rightarrow> setup_event \<Rightarrow> setup_page \<Rightarrow> setup_page" where
  "press viewer e s = (if offered viewer s e then fst (settle (setup_handler viewer e s) True s) else s)"

definition presses :: "bool \<Rightarrow> setup_event list \<Rightarrow> setup_page \<Rightarrow> setup_page" where
  "presses viewer es s = fold (press viewer) es s"

section \<open>Invariant\<close>

text \<open>While the full profile is shown as active, exactly the modules of the page are selected.\<close>

definition setup_ok :: "setup_page \<Rightarrow> bool" where
  "setup_ok s \<longleftrightarrow> (active_profile s = Some ''full'' \<longrightarrow> set (selected s) = set (all_module_ids s))"

lemma select_full_ok:
  "modules_by_cat s = ms \<Longrightarrow> setup_ok (select_full ms s)"
  by (simp add: setup_ok_def select_full_def all_module_ids_def)

lemmas setup_ops = handle_os_change_def reload_modules_for_os_def toggle_module_def
  select_category_def clear_category_def apply_profile_def toggle_category_def toggle_device_def
  select_devices_def

lemma setup_handler_ok: "setup_ok s \<Longrightarrow> keeps setup_ok (setup_handler viewer e s) s"
  by (cases e) (auto simp: setup_ops setup_ok_def all_module_ids_def select_full_def call_def expect_def
      split: sum.split option.split)

lemma loaded_ok: "setup_ok (final_state srv yes (load_setup i) w initial_setup)"
  by (rule wp_final [where A = "\<lambda>_ _. True"]) (auto simp: load_setup_def detect_def both_def expect_def setup_ok_def initial_setup_def
      select_full_def all_module_ids_def split: option.split list.split sum.split)

interpretation loaded: component_invariant "setup_handler viewer"
    "final_state srv yes (load_setup i) w initial_setup" setup_ok
  by unfold_locales (rule loaded_ok, rule setup_handler_ok)

section \<open>What the controls reach\<close>

lemma set_fold_set_delete [simp]: "set (fold set_delete xs ys) = set ys - set xs"
  by (induction xs arbitrary: ys) auto

definition shown_ids :: "bool \<Rightarrow> setup_page \<Rightarrow> string list" where
  "shown_ids viewer s = concat (map (\<lambda>p. case cp_rows p of Some rs \<Rightarrow> map row_id rs | None \<Rightarrow> []) (shown_panels viewer s))"

text \<open>A module is outside the page's categories when no category the page lists holds it.\<close>

definition outside_categories :: "setup_page \<Rightarrow> string \<Rightarrow> bool" where
  "outside_categories s m \<longleftrightarrow>
     list_all (\<lambda>cat. m \<notin> set (category_ids s cat)) category_order"

lemma visible_in_order: "c \<in> set (visible_categories s) \<Longrightarrow> c \<in> set category_order"
  by (auto simp: visible_categories_def ordered_categories_def filtered_categories_def obj_keys_def Let_def
      split: if_splits)

lemma shown_panel_cases:
  assumes "p \<in> set (shown_panels viewer s)"
  obtains c where "c \<in> set category_order" "p = category_panel_of viewer s c"
  using assms visible_in_order
  by (auto simp: shown_panels_def module_area_of_def split: if_splits)

lemma panel_modules_listed: "module_id ` set (panel_modules s c) \<subseteq> set (category_ids s c)"
  by (force simp: panel_modules_def category_ids_def filtered_categories_def Let_def
      dest: map_of_SomeD split: option.splits if_splits)

lemma panel_rows_listed:
  "cp_rows (category_panel_of viewer s c) = Some rs \<Longrightarrow> row_id ` set rs \<subseteq> set (category_ids s c)"
  using subsetD [OF panel_modules_listed [of s c]]
  by (auto simp: category_panel_of_def Let_def module_row_of_def split: if_splits)

lemma shown_ids_listed:
  assumes "m \<in> set (shown_ids viewer s)"
  shows "\<exists>c \<in> set category_order. m \<in> set (category_ids s c)"
proof -
  from assms obtain p where q: "p \<in> set (shown_panels viewer s)"
      "m \<in> set (case cp_rows p of Some rs \<Rightarrow> map row_id rs | None \<Rightarrow> [])"
    by (auto simp only: shown_ids_def set_concat set_map)
  then obtain rs where p: "p \<in> set (shown_panels viewer s)" "cp_rows p = Some rs" "m \<in> row_id ` set rs"
    by (cases "cp_rows p") auto
  from p(1) obtain c where "c \<in> set category_order" "p = category_panel_of viewer s c" by (rule shown_panel_cases)
  then show ?thesis using p panel_rows_listed by blast
qed

lemma offered_toggle_shown: "offered viewer s (ToggleModule m) \<Longrightarrow> m \<in> set (shown_ids viewer s)"
proof -
  assume "offered viewer s (ToggleModule m)"
  then obtain p rs where "p \<in> set (shown_panels viewer s)" "cp_rows p = Some rs" "m \<in> row_id ` set rs"
    by (auto simp: list_ex_iff split: option.splits)
  then show ?thesis unfolding shown_ids_def set_concat set_map
    by (intro UN_I [where a = "map row_id rs"] image_eqI [where x = p]) simp_all
qed

lemma offered_clear_listed: "offered viewer s (ClearCategory c) \<Longrightarrow> c \<in> set category_order"
  by (auto simp: list_ex_iff category_panel_of_def Let_def elim!: shown_panel_cases)

lemma press_keeps_modules: "by_hand e \<Longrightarrow> modules_by_cat (press viewer e s) = modules_by_cat s"
  by (cases e) (simp_all add: press_def setup_ops)

lemma outside_press: "by_hand e \<Longrightarrow> outside_categories (press viewer e s) m = outside_categories s m"
  by (simp add: outside_categories_def category_ids_def press_keeps_modules)

lemma outside_not_shown: "outside_categories s m \<Longrightarrow> m \<notin> set (shown_ids viewer s)"
  using shown_ids_listed [of m viewer s] by (auto simp: outside_categories_def list_all_iff)

lemma press_keeps_outside:
  assumes "by_hand e" and "outside_categories s m" and "m \<in> set (selected s)"
  shows "m \<in> set (selected (press viewer e s))"
proof (cases "offered viewer s e")
  case True
  show ?thesis
  proof (cases e)
    case (ToggleModule x)
    then have "x \<noteq> m" using True offered_toggle_shown outside_not_shown assms(2) by blast
    then show ?thesis using assms(3) ToggleModule by (simp add: press_def setup_ops set_set_toggle)
  next
    case (ClearCategory c)
    then have "c \<in> set category_order" using True offered_clear_listed by blast
    then have "m \<notin> set (category_ids s c)" using assms(2) by (simp add: outside_categories_def list_all_iff)
    then show ?thesis using assms(3) ClearCategory by (simp add: press_def setup_ops)
  qed (use assms in \<open>simp_all add: press_def setup_ops\<close>)
qed (use assms in \<open>simp add: press_def\<close>)

lemma presses_keep_outside:
  "list_all by_hand es \<Longrightarrow> outside_categories s m \<Longrightarrow> m \<in> set (selected s)
    \<Longrightarrow> outside_categories (presses viewer es s) m \<and> m \<in> set (selected (presses viewer es s))"
  by (induction es arbitrary: s) (auto simp: presses_def outside_press press_keeps_outside)

section \<open>A sample backend\<close>

definition sample_module :: "string \<Rightarrow> string \<Rightarrow> module_entry" where
  "sample_module i c = \<lparr>module_id = i, module_os = ''windows'', module_category = c, module_priority = 1,
     output_relpath = i, estimated_size_mb = Some 8\<rparr>"

definition sample_windows :: modules_by_category where
  "sample_windows = [(''logs'', [sample_module ''evtx'' ''logs'']), (''system'', [sample_module ''mft'' ''system''])]"

definition sample_linux :: modules_by_category where
  "sample_linux = [(''logs'', [sample_module ''syslog'' ''logs''])]"

definition sample_incident :: incident where
  "sample_incident = \<lparr>inc_id = ''INC-1'', inc_type = ''MALWARE'', target_endpoints = [''ws-01'', ''ws-02'']\<rparr>"

definition sample_devices :: "setup_device list" where
  "sample_devices = [\<lparr>dev_id = ''d1'', dev_hostname = ''ws-01'', dev_os = ''windows/10''\<rparr>,
     \<lparr>dev_id = ''d2'', dev_hostname = ''ws-02'', dev_os = ''windows/11''\<rparr>,
     \<lparr>dev_id = ''d3'', dev_hostname = ''db-01'', dev_os = ''linux''\<rparr>]"

definition sample_replies :: "unit request \<Rightarrow> jserr + setup_reply" where
  "sample_replies rq =
     (if req_path rq = ''/incidents/INC-1'' then Inr (RIncident sample_incident)
      else if req_path rq = ''/devices'' then Inr (RDevices sample_devices)
      else if req_path rq = ''/modules?os=windows'' then Inr (RModules sample_windows)
      else if req_path rq = ''/modules?os=linux'' then Inr (RModules sample_linux)
      else if req_path rq = ''/modules/profiles'' then Inr (RProfiles [])
      else Inl (Error ''not found''))"

definition loaded_page :: setup_page where
  "loaded_page = final_state (stateless sample_replies) True (load_setup ''INC-1'') () initial_setup"

lemma sample_detected: "detect_from ''ws-01'' sample_devices = Windows"
  by (simp add: sample_devices_def detect_from_def to_lower_def lower_char_def normalize_os_def trim_def is_space_def)

lemma sample_relevant: "relevant_devices sample_incident sample_devices = take 2 sample_devices"
  by (simp add: sample_devices_def sample_incident_def relevant_devices_def to_lower_def lower_char_def)

lemma loaded_page_eq:
  "loaded_page = initial_setup\<lparr>setup_incident := Some sample_incident, modules_by_cat := sample_windows,
     selected := [''evtx'', ''mft''], active_profile := Some ''full'', is_loading := False,
     devices := take 2 sample_devices, selected_device_ids := [''d1'', ''d2'']\<rparr>"
proof -
  have "new_set (map dev_id (take 2 sample_devices)) = [''d1'', ''d2'']"
    by (simp add: sample_devices_def new_set_def set_add_def)
  moreover have "new_set (module_ids sample_windows) = [''evtx'', ''mft'']"
    by (simp add: sample_windows_def module_ids_def sample_module_def new_set_def set_add_def)
  moreover have "target_endpoints sample_incident = [''ws-01'', ''ws-02'']" by (simp add: sample_incident_def)
  ultimately show ?thesis
    by (simp add: loaded_page_def load_setup_def io_simps stateless_def detect_def sample_detected
        sample_relevant select_full_def initial_setup_def sample_replies_def)
qed

section \<open>Properties\<close>

text \<open>C12. From the loaded page on, under every interleaving of the user's actions and the replies: while
  the page shows the full profile as active, the selection is exactly the set of modules listed.\<close>

theorem full_profile_selects_all:
  assumes "reachable (setup_handler viewer) (final_state srv yes (load_setup i) w initial_setup) (s, pool)"
    and "active_profile s = Some ''full''"
  shows "set (selected s) = set (all_module_ids s)"
  using loaded.reachable_inv [OF assms(1)] assms(2) by (simp add: setup_ok_def)

theorem full_profile_selects_all_witness:
  "active_profile loaded_page = Some ''full'' \<and> set (selected loaded_page) = set (all_module_ids loaded_page)"
proof -
  have a: "active_profile loaded_page = Some ''full''" by (simp add: loaded_page_eq)
  have "reachable (setup_handler False) (final_state (stateless sample_replies) True
      (load_setup ''INC-1'') () initial_setup) (loaded_page, [])"
    unfolding loaded_page_def by (rule reachable.initially)
  from full_profile_selects_all [OF this a] a show ?thesis by simp
qed

text \<open>A load with every call answered: the modules of the operating system of the first target are
  listed and all selected under the full profile, and the devices shown, all selected, are those whose
  hostname is a target of the incident, ignoring case.\<close>

theorem load_selects_everything:
  assumes "i \<noteq> []"
    and "replies (Request GET (''/incidents/'' @ i) None) = Inr (RIncident inc)"
    and "target_endpoints inc = t # ts" and "t \<noteq> []"
    and "replies (Request GET ''/devices'' None) = Inr (RDevices ds)"
    and "os = detect_from t ds"
    and "replies (Request GET (''/modules?os='' @ os_name os) None) = Inr (RModules ms)"
    and "replies (Request GET ''/modules/profiles'' None) = Inr (RProfiles ps)"
  shows "final_state (stateless replies) yes (load_setup i) () initial_setup =
    initial_setup\<lparr>setup_incident := Some inc, detected_os := os, modules_by_cat := ms, profiles := ps,
      selected := new_set (module_ids ms), active_profile := Some ''full'', is_loading := False,
      devices := relevant_devices inc ds,
      selected_device_ids := new_set (map dev_id (relevant_devices inc ds))\<rparr>"
  using assms by (simp add: load_setup_def io_simps stateless_def detect_def select_full_def initial_setup_def)

theorem load_selects_everything_witness:
  "final_state (stateless sample_replies) True (load_setup ''INC-1'') () initial_setup =
    initial_setup\<lparr>setup_incident := Some sample_incident, detected_os := Windows,
      modules_by_cat := sample_windows, profiles := [], selected := new_set (module_ids sample_windows),
      active_profile := Some ''full'', is_loading := False,
      devices := relevant_devices sample_incident sample_devices,
      selected_device_ids := new_set (map dev_id (relevant_devices sample_incident sample_devices))\<rparr>"
  by (rule load_selects_everything [where t = "''ws-01''" and ts = "[''ws-02'']"])
    (simp_all add: sample_replies_def sample_incident_def sample_detected)

text \<open>A viewer cannot change what is collected: no control changes the modules, the profile, the
  operating system or the devices, none calls the API, and the collection cannot be started.\<close>

theorem viewer_cannot_select:
  "(let s' = final_state srv yes (setup_handler True e s) w s
    in selected s' = selected s \<and> active_profile s' = active_profile s \<and> os_override s' = os_override s
       \<and> modules_by_cat s' = modules_by_cat s \<and> selected_device_ids s' = selected_device_ids s)
   \<and> requests_of srv yes (setup_handler True e s) w s = []
   \<and> handle_start_collection True i s = None \<and> \<not> start_enabled True s"
  by (cases e) (simp_all add: setup_ops handle_start_collection_def start_enabled_def)

text \<open>The reply to a profile request is applied to whatever operating system is shown by then: an
  analyst who picks a profile and then switches the system can end with the profile shown as active and
  modules selected that the page does not list.\<close>

theorem stale_profile_reply:
  "\<exists>s pool. reachable (setup_handler False) loaded_page (s, pool) \<and> active_profile s = Some ''triage''
     \<and> active_os s = Linux \<and> selected s = [''evtx''] \<and> all_module_ids s = [''syslog'']"
proof -
  let ?h = "setup_handler False" and ?x = "Inr (RProfileModules [sample_module ''evtx'' ''logs''])"
  obtain r1 g1 where p: "settle (?h (ApplyProfile ''triage'') loaded_page) True loaded_page =
      (loaded_page, [Await r1 g1])"
    and g1: "\<And>s. settle (g1 ?x) True s = (s\<lparr>active_profile := Some ''triage'', selected := [''evtx'']\<rparr>, [])"
    by (simp add: apply_profile_def io_simps new_set_def set_add_def sample_module_def)
  define s1 where "s1 = loaded_page\<lparr>os_override := Some Linux, is_loading := True\<rparr>"
  obtain r2 g2 where q: "settle (?h (OsChange Linux) loaded_page) True loaded_page = (s1, [Await r2 g2])"
    and g2: "\<And>s. settle (g2 (Inr (RModules sample_linux))) True s =
      ((select_full sample_linux (s\<lparr>modules_by_cat := sample_linux\<rparr>))\<lparr>is_loading := False\<rparr>, [])"
    by (simp add: handle_os_change_def reload_modules_for_os_def io_simps s1_def loaded_page_eq initial_setup_def)
  let ?s2 = "(select_full sample_linux (s1\<lparr>modules_by_cat := sample_linux\<rparr>))\<lparr>is_loading := False\<rparr>"
  let ?s3 = "?s2\<lparr>active_profile := Some ''triage'', selected := [''evtx'']\<rparr>"
  have "reachable ?h loaded_page (loaded_page, [] @ [Await r1 g1])"
    by (rule reach_fire [where handler = ?h and e = "ApplyProfile ''triage''", OF reachable.initially p])
  then have "reachable ?h loaded_page (s1, ([] @ [Await r1 g1]) @ [Await r2 g2])"
    by (rule reach_fire [where handler = ?h and e = "OsChange Linux", OF _ q])
  then have "reachable ?h loaded_page (s1, [Await r1 g1] @ Await r2 g2 # [])" by simp
  then have "reachable ?h loaded_page (?s2, [Await r1 g1] @ [] @ [])"
    by (rule reach_resume [where g = g2, OF _ g2])
  then have "reachable ?h loaded_page (?s2, [] @ Await r1 g1 # [])" by simp
  then have "reachable ?h loaded_page (?s3, [] @ [] @ [])"
    by (rule reach_resume [where g = g1, OF _ g1])
  moreover have "active_profile ?s3 = Some ''triage'' \<and> active_os ?s3 = Linux \<and> selected ?s3 = [''evtx'']
      \<and> all_module_ids ?s3 = [''syslog'']"
    by (simp add: s1_def active_os_def select_full_def all_module_ids_def module_ids_def
        sample_linux_def sample_module_def)
  ultimately show ?thesis by blast
qed

text \<open>C13. The page draws a panel only for the five categories of \<open>CATEGORY_ORDER\<close>, while the modules an
  administrator adds come under another one.  Such a module is selected with the full profile, no search
  brings it up, and however the analyst presses the controls of the modules, the categories, the search
  and the devices it stays selected and is handed to the execution page.\<close>

theorem hidden_category_collected:
  assumes "outside_categories s m" and "m \<in> set (all_module_ids s)" and "list_all by_hand es"
  shows "let s' = presses False es (select_full (modules_by_cat s) s)
    in m \<notin> set (shown_ids False s') \<and>
       (\<exists>c. handle_start_collection False i s' = Some (''/incidents/'' @ i @ ''/collect'', c)
          \<and> m \<in> set (selected_module_ids c))"
proof -
  let ?f = "select_full (modules_by_cat s) s"
  have "outside_categories ?f m" using assms(1) by (simp add: outside_categories_def category_ids_def select_full_def)
  moreover have "m \<in> set (selected ?f)" using assms(2) by (simp add: select_full_def all_module_ids_def)
  ultimately have k: "outside_categories (presses False es ?f) m" "m \<in> set (selected (presses False es ?f))"
    using presses_keep_outside assms(3) by blast+
  then show ?thesis using outside_not_shown [OF k(1)]
    by (cases "selected (presses False es ?f)") (auto simp: handle_start_collection_def Let_def)
qed

definition custom_page :: setup_page where
  "custom_page = loaded_page\<lparr>modules_by_cat := sample_windows @ [(''custom'', [sample_module ''acme_edr'' ''custom''])]\<rparr>"

theorem hidden_category_collected_witness:
  "let s' = presses False [ClearCategory ''logs'', ClearCategory ''custom'', TypeSearch ''acme'']
       (select_full (modules_by_cat custom_page) custom_page)
    in ''acme_edr'' \<notin> set (shown_ids False s') \<and>
       (\<exists>c. handle_start_collection False ''INC-1'' s' = Some (''/incidents/'' @ ''INC-1'' @ ''/collect'', c)
          \<and> ''acme_edr'' \<in> set (selected_module_ids c))"
  by (rule hidden_category_collected) (simp_all add: custom_page_def loaded_page_eq outside_categories_def
      category_order_def category_ids_def sample_windows_def sample_module_def all_module_ids_def module_ids_def)

text \<open>The buttons of a panel act on its whole category: during a search, where the panel lists and
  counts only the modules that match, ALL selects and NONE deselects also those it does not show.\<close>

theorem category_buttons_ignore_search:
  assumes "map_of (modules_by_cat s) c = Some es" and "m \<in> set es" and "c \<in> set (visible_categories s)"
    and "search_lower s \<noteq> []" and "\<not> module_matches (search_lower s) m"
  shows "m \<notin> set (panel_modules s c)
    \<and> module_id m \<in> set (selected (final_state srv yes (select_category False c) w s))
    \<and> module_id m \<notin> set (selected (final_state srv yes (clear_category False c) w s))"
proof -
  have "map_of (filtered_categories s) c \<noteq> None"
    using assms(3,4) by (simp add: visible_categories_def obj_keys_def map_of_eq_None_iff)
  moreover have "\<forall>ms. map_of (filtered_categories s) c = Some ms \<longrightarrow> m \<notin> set ms"
    using assms(4,5) by (fastforce simp: filtered_categories_def Let_def dest: map_of_SomeD)
  ultimately have "m \<notin> set (panel_modules s c)" by (auto simp: panel_modules_def split: option.splits)
  then show ?thesis using assms(1,2) by (simp add: setup_ops category_ids_def)
qed

definition searched_page :: setup_page where
  "searched_page = loaded_page\<lparr>modules_by_cat :=
     [(''logs'', [sample_module ''evtx'' ''logs'', sample_module ''iis'' ''logs''])], module_search := ''evtx''\<rparr>"

theorem category_buttons_ignore_search_witness:
  "let m = sample_module ''iis'' ''logs''
    in m \<notin> set (panel_modules searched_page ''logs'')
    \<and> module_id m \<in> set (selected (final_state (stateless sample_replies) True (select_category False ''logs'') () searched_page))
    \<and> module_id m \<notin> set (selected (final_state (stateless sample_replies) True (clear_category False ''logs'') () searched_page))"
proof -
  have q: "search_lower searched_page = ''evtx''"
    by (simp add: searched_page_def search_lower_def to_lower_def lower_char_def trim_def is_space_def)
  have n: "\<not> module_matches ''evtx'' (sample_module ''iis'' ''logs'')"
    and y: "module_matches ''evtx'' (sample_module ''evtx'' ''logs'')"
    by (simp_all add: module_matches_def sample_module_def to_lower_def lower_char_def str_includes_def)
  have o: "ordered_categories searched_page = [''logs'']"
    by (simp add: ordered_categories_def category_order_def searched_page_def)
  have v: "''logs'' \<in> set (visible_categories searched_page)"
    using q n y o by (simp add: visible_categories_def filtered_categories_def obj_keys_def searched_page_def)
  have m: "map_of (modules_by_cat searched_page) ''logs'' = Some [sample_module ''evtx'' ''logs'', sample_module ''iis'' ''logs'']"
    by (simp add: searched_page_def)
  show ?thesis unfolding Let_def
    by (rule category_buttons_ignore_search [OF m _ v]) (simp_all add: q n)
qed

end
