(* ===== verification/Console.thy ===== *)
theory Console
  imports TimelineUtils
begin

text \<open>
  \<open>pages/AgentConsole.tsx\<close>: the live command console over a WebSocket.  The browser's sockets are a list of ready
  states, a socket is its index, and \<open>sent\<close> is what was put on the wire.  Events of a socket arrive whenever its
  ready state allows them, also after the page has let go of it.  The texts of a message are taken to be strings.
\<close>

section \<open>State\<close>

datatype line_type = InputLine | OutputLine | ErrorLine | InfoLine

record console_line =
  cl_ts :: string
  cl_type :: line_type
  cl_text :: string

datatype ready_state = SConnecting | SOpen | SClosing | SClosed

record console =
  con_lines :: "console_line list"
  con_cmd :: string
  con_timeout :: int
  con_connected :: bool
  con_connecting :: bool
  con_error :: "string option"
  con_ref :: "nat option"
  con_history :: "string list"
  con_idx :: int
  sockets :: "ready_state list"
  sent :: "(nat \<times> string) list"

definition initial_console :: console where
  "initial_console = \<lparr>con_lines = [], con_cmd = [], con_timeout = 30, con_connected = False, con_connecting = False,
     con_error = None, con_ref = None, con_history = [], con_idx = -1, sockets = [], sent = []\<rparr>"

definition ws_base :: "string \<Rightarrow> string \<Rightarrow> string" where
  "ws_base protocol host = (if protocol = ''https:'' then ''wss'' else ''ws'') @ ''://'' @ host @ ''/api/v1/agent-commands/ws''"

definition timeout_options :: "int list" where
  "timeout_options = [10, 30, 60, 120, 300]"

section \<open>Commands that need a confirmation\<close>

definition ws_re :: re where "ws_re = Plus (Cls is_space)"

definition letter_i :: "char \<Rightarrow> bool" where
  "letter_i c \<longleftrightarrow> 97 \<le> code (lower_char c) \<and> code (lower_char c) \<le> (122::nat)"

definition high_impact_re :: re where
  "high_impact_re = InOrder [WordBoundary, AnyOf
     [InOrder [LitI ''rm'', ws_re, Chr CHR ''-'', Star (Cls letter_i), LitI ''r''],
      InOrder [LitI ''del'', ws_re], InOrder [LitI ''erase'', ws_re], InOrder [LitI ''format'', WordBoundary],
      InOrder [LitI ''shutdown'', WordBoundary], InOrder [LitI ''reboot'', WordBoundary],
      InOrder [LitI ''restart-computer'', WordBoundary], InOrder [LitI ''stop-service'', WordBoundary],
      InOrder [LitI ''kill'', ws_re, Lit ''-9''], InOrder [LitI ''taskkill'', WordBoundary],
      InOrder [LitI ''reg'', ws_re, LitI ''delete'']],
     WordBoundary]"

definition high_impact :: "string \<Rightarrow> bool" where
  "high_impact c = test high_impact_re c"

section \<open>The handlers\<close>

definition add_line :: "string \<Rightarrow> line_type \<Rightarrow> string \<Rightarrow> console \<Rightarrow> console" where
  "add_line ts ty t s = (let next_lines = con_lines s @ [\<lparr>cl_ts = ts, cl_type = ty, cl_text = t\<rparr>]
     in s\<lparr>con_lines := (if 500 < length next_lines then drop (length next_lines - 500) next_lines else next_lines)\<rparr>)"

definition connect :: "console \<Rightarrow> console" where
  "connect s = (case con_ref s of Some _ \<Rightarrow> s
     | None \<Rightarrow> s\<lparr>con_connecting := True, con_error := None, con_ref := Some (length (sockets s)),
         sockets := sockets s @ [SConnecting]\<rparr>)"

definition on_open :: "string \<Rightarrow> string \<Rightarrow> console \<Rightarrow> console" where
  "on_open agent ts s = add_line ts InfoLine (''Connected to agent '' @ agent @ ''. Type a command and press Enter.'')
     (s\<lparr>con_connected := True, con_connecting := False\<rparr>)"

definition trim_end :: "string \<Rightarrow> string" where
  "trim_end x = rev (dropWhile is_space (rev x))"

text \<open>\<open>msg.message ?? other\<close>.\<close>

definition text_or :: "jsval \<Rightarrow> string \<Rightarrow> string \<Rightarrow> string" where
  "text_or msg k other = (case js_prop msg k of None \<Rightarrow> other | Some JNull \<Rightarrow> other | Some v \<Rightarrow> js_string (Some v))"

text \<open>A value that is not an object has no fields; \<open>null\<close> and a chunk that is no string throw inside the \<open>try\<close>.\<close>

definition on_message :: "string \<Rightarrow> string \<Rightarrow> console \<Rightarrow> console" where
  "on_message ts data s = (let invalid = add_line ts ErrorLine ''Invalid message from server'' s in
     case parse_json data of None \<Rightarrow> invalid | Some JNull \<Rightarrow> invalid
     | Some msg \<Rightarrow>
        let ty = js_prop msg ''type''; chunk = js_prop msg ''chunk''
        in if ty = Some (JStr ''output'') \<and> truthy chunk
           then (case chunk of Some (JStr c) \<Rightarrow> add_line ts OutputLine (trim_end c) s | _ \<Rightarrow> invalid)
           else if ty = Some (JStr ''done'') then add_line ts InfoLine (''--- exit code: '' @ text_or msg ''exit_code'' ''0'' @ '' ---'') s
           else if ty = Some (JStr ''error'') then add_line ts ErrorLine (text_or msg ''message'' ''Unknown error'') s
           else if ty = Some (JStr ''queued'') then add_line ts InfoLine (text_or msg ''message'' ''Command queued'') s
           else s)"

definition on_close :: "string \<Rightarrow> int \<Rightarrow> string \<Rightarrow> console \<Rightarrow> console" where
  "on_close ts c reason s = add_line ts InfoLine
     (if c \<noteq> 1000 then ''Disconnected ('' @ int_str c @ '': '' @ (if reason = [] then ''closed'' else reason) @ '')'' else ''Disconnected.'')
     (s\<lparr>con_connected := False, con_connecting := False, con_ref := None\<rparr>)"

definition on_error :: "console \<Rightarrow> console" where
  "on_error s = s\<lparr>con_error := Some (''WebSocket error '' @ em_dash @ '' check backend connectivity'')\<rparr>"

text \<open>\<open>socket.close()\<close>: the closing handshake starts, the close event comes later.\<close>

definition close_socket :: "nat \<Rightarrow> ready_state list \<Rightarrow> ready_state list" where
  "close_socket n ss = (if n < length ss \<and> ss ! n \<noteq> SClosed then ss[n := SClosing] else ss)"

definition disconnect :: "console \<Rightarrow> console" where
  "disconnect s = s\<lparr>sockets := (case con_ref s of Some n \<Rightarrow> close_socket n (sockets s) | None \<Rightarrow> sockets s),
     con_ref := None, con_connected := False\<rparr>"

definition command_message :: "string \<Rightarrow> int \<Rightarrow> jsval" where
  "command_message c t = JObj [(''cmd'', JStr c), (''timeout_sec'', JNum t)]"

definition socket_open :: "console \<Rightarrow> nat \<Rightarrow> bool" where
  "socket_open s n \<longleftrightarrow> n < length (sockets s) \<and> sockets s ! n = SOpen"

definition send_command :: "bool \<Rightarrow> string \<Rightarrow> console \<Rightarrow> console" where
  "send_command confirmed ts s = (let c = trim (con_cmd s) in
     case con_ref s of None \<Rightarrow> s
     | Some n \<Rightarrow>
        if c = [] \<or> \<not> socket_open s n then s
        else if high_impact c \<and> \<not> confirmed then add_line ts InfoLine ''High-impact command cancelled by analyst.'' s
        else (add_line ts InputLine (''$ '' @ c) s)\<lparr>con_history := c # take 49 (con_history s), con_idx := -1,
            sent := sent s @ [(n, stringify (command_message c (con_timeout s)))], con_cmd := []\<rparr>)"

definition key_up :: "console \<Rightarrow> console" where
  "key_up s = (let k = con_idx s + 1 in if k < int (length (con_history s))
     then s\<lparr>con_idx := k, con_cmd := con_history s ! nat k\<rparr> else s)"

definition key_down :: "console \<Rightarrow> console" where
  "key_down s = (let k = con_idx s - 1 in s\<lparr>con_idx := (if k < 0 then -1 else k),
     con_cmd := (if k < 0 then [] else con_history s ! nat k)\<rparr>)"

definition type_command :: "string \<Rightarrow> console \<Rightarrow> console" where
  "type_command t s = s\<lparr>con_cmd := t\<rparr>"

definition choose_timeout :: "int \<Rightarrow> console \<Rightarrow> console" where
  "choose_timeout t s = s\<lparr>con_timeout := t\<rparr>"

definition clear_lines :: "console \<Rightarrow> console" where
  "clear_lines s = s\<lparr>con_lines := []\<rparr>"

definition connection_label :: "console \<Rightarrow> string" where
  "connection_label s = (if con_connected s then ''CONNECTED'' else if con_connecting s then ''CONNECTING...'' else ''DISCONNECTED'')"

text \<open>Which controls can be used.\<close>

definition connect_offered :: "console \<Rightarrow> bool" where
  "connect_offered s \<longleftrightarrow> \<not> con_connected s \<and> \<not> con_connecting s"

definition send_enabled :: "console \<Rightarrow> bool" where
  "send_enabled s \<longleftrightarrow> con_connected s \<and> trim (con_cmd s) \<noteq> []"

definition line_color :: "line_type \<Rightarrow> string" where
  "line_color t = (case t of InputLine \<Rightarrow> ''text-primary'' | OutputLine \<Rightarrow> ''text-foreground''
     | ErrorLine \<Rightarrow> ''text-destructive'' | InfoLine \<Rightarrow> ''text-muted-foreground'')"

section \<open>The page with its sockets\<close>

inductive console_step :: "string \<Rightarrow> console \<Rightarrow> console \<Rightarrow> bool" for agent where
  clicks_connect: "connect_offered s \<Longrightarrow> console_step agent s (connect s)"
| opens: "n < length (sockets s) \<Longrightarrow> sockets s ! n = SConnecting \<Longrightarrow>
    console_step agent s (on_open agent ts (s\<lparr>sockets := (sockets s)[n := SOpen]\<rparr>))"
| receives: "n < length (sockets s) \<Longrightarrow> sockets s ! n \<in> {SOpen, SClosing} \<Longrightarrow> console_step agent s (on_message ts data s)"
| closes: "n < length (sockets s) \<Longrightarrow> sockets s ! n \<noteq> SClosed \<Longrightarrow>
    console_step agent s (on_close ts c reason (s\<lparr>sockets := (sockets s)[n := SClosed]\<rparr>))"
| fails: "n < length (sockets s) \<Longrightarrow> console_step agent s (on_error s)"
| clicks_disconnect: "con_connected s \<Longrightarrow> console_step agent s (disconnect s)"
| sends: "con_connected s \<Longrightarrow> console_step agent s (send_command confirmed ts s)"
| up: "con_connected s \<Longrightarrow> console_step agent s (key_up s)"
| down: "con_connected s \<Longrightarrow> console_step agent s (key_down s)"
| types: "con_connected s \<Longrightarrow> console_step agent s (type_command t s)"
| timeout: "\<not> con_connected s \<Longrightarrow> t \<in> set timeout_options \<Longrightarrow> console_step agent s (choose_timeout t s)"
| clears: "console_step agent s (clear_lines s)"

definition console_ok :: "console \<Rightarrow> bool" where
  "console_ok s \<longleftrightarrow> length (con_lines s) \<le> 500 \<and> length (con_history s) \<le> 50
     \<and> -1 \<le> con_idx s \<and> con_idx s < int (length (con_history s))
     \<and> con_timeout s \<in> set timeout_options
     \<and> (case con_ref s of Some n \<Rightarrow> n < length (sockets s) | None \<Rightarrow> True)"

abbreviation console_reachable :: "string \<Rightarrow> console \<Rightarrow> bool" where
  "console_reachable agent s \<equiv> (console_step agent)\<^sup>*\<^sup>* initial_console s"

lemmas console_ops = on_open_def on_close_def on_error_def connect_def disconnect_def send_command_def
  key_up_def key_down_def type_command_def choose_timeout_def clear_lines_def

section \<open>Lemmas\<close>

lemma add_line_fields [simp]:
  "con_cmd (add_line ts ty t s) = con_cmd s" "con_timeout (add_line ts ty t s) = con_timeout s"
  "con_connected (add_line ts ty t s) = con_connected s" "con_connecting (add_line ts ty t s) = con_connecting s"
  "con_ref (add_line ts ty t s) = con_ref s" "con_history (add_line ts ty t s) = con_history s"
  "con_idx (add_line ts ty t s) = con_idx s" "sockets (add_line ts ty t s) = sockets s" "sent (add_line ts ty t s) = sent s"
  by (simp_all add: add_line_def Let_def)

lemma add_line_bounded [simp]: "length (con_lines s) \<le> 500 \<Longrightarrow> length (con_lines (add_line ts ty t s)) \<le> 500"
  by (simp add: add_line_def Let_def)

lemma on_message_cases:
  "on_message ts data s = s \<or> (\<exists>ty t. on_message ts data s = add_line ts ty t s)"
proof (cases "parse_json data")
  case None
  then show ?thesis by (auto simp: on_message_def)
next
  case (Some msg)
  have "P (case js_prop msg ''chunk'' of Some (JStr c) \<Rightarrow> add_line ts OutputLine (trim_end c) s | _ \<Rightarrow> add_line ts ErrorLine t s)"
    if "\<And>ty u. P (add_line ts ty u s)" for P t
    using that by (simp split: option.split jsval.split)
  from this [of "\<lambda>x. x = s \<or> (\<exists>ty t. x = add_line ts ty t s)"] show ?thesis
    unfolding on_message_def Let_def Some by (cases msg) auto
qed

lemma length_close_socket [simp]: "length (close_socket n ss) = length ss"
  by (simp add: close_socket_def)

lemma add_line_ok [simp]: "console_ok s \<Longrightarrow> console_ok (add_line ts ty t s)"
  by (auto simp: console_ok_def split: option.splits)

lemma on_message_ok: "console_ok s \<Longrightarrow> console_ok (on_message ts data s)"
  using on_message_cases [of ts data s] by auto

lemma console_step_ok: "console_step agent s s' \<Longrightarrow> console_ok s \<Longrightarrow> console_ok s'"
proof (induction rule: console_step.induct)
  case (receives n s ts data)
  then show ?case by (simp add: on_message_ok)
next
  case (sends s confirmed ts)
  then show ?case by (auto simp: send_command_def console_ok_def Let_def split: option.split)
next
  case (clicks_disconnect s)
  then show ?case by (auto simp: disconnect_def console_ok_def split: option.split)
qed (auto simp: console_ok_def console_ops Let_def split: option.splits)

lemma console_reachable_ok: "console_reachable agent s \<Longrightarrow> console_ok s"
proof (induction rule: rtranclp_induct)
  case base
  then show ?case by (simp add: console_ok_def initial_console_def timeout_options_def)
next
  case (step s s')
  then show ?case using console_step_ok by blast
qed

text \<open>Only a click on send puts something on the wire.\<close>

lemma on_message_sent [simp]: "sent (on_message ts data s) = sent s" "con_connected (on_message ts data s) = con_connected s"
  "con_ref (on_message ts data s) = con_ref s"
  using on_message_cases [of ts data s] by auto


section \<open>Theorems\<close>



lemmas high_impact_eval = high_impact_def test_def high_impact_re_def match_at_def lower_char_def char_of_def bit_0 ws_re_def
  word_char_def is_space_def letter_i_def

text \<open>The pattern at work.  Its last word boundary also stands after the letter \<open>r\<close> and after the blanks, so an option
  that goes on behind the \<open>r\<close> and a deletion whose first argument is a switch are not seen.\<close>

lemma high_impact_examples:
  "high_impact ''rm -r /''" "high_impact ''rm -fr /''" "high_impact ''sudo Reboot''" "high_impact ''del notes.txt''"
  "\<not> high_impact ''whoami''"
  by (simp_all add: high_impact_eval)

lemma high_impact_gaps:
  "\<not> high_impact ''rm -rf /''" "\<not> high_impact ''del /q notes.txt''" "\<not> high_impact ''rm --recursive /''"
  by (simp_all add: high_impact_eval)

text \<open>So the most common form of a recursive deletion is put on the wire without a question.\<close>

theorem recursive_delete_not_confirmed:
  assumes "con_ref s = Some n" and "socket_open s n" and "con_cmd s = ''rm -rf /''"
  shows "sent (send_command False ts s) = sent s @ [(n, stringify (command_message ''rm -rf /'' (con_timeout s)))]"
proof -
  have "trim ''rm -rf /'' = ''rm -rf /''" by (simp add: trim_def is_space_def)
  then show ?thesis using assms high_impact_gaps(1) by (simp add: send_command_def socket_open_def Let_def)
qed


text \<open> The bounds of the console: however the sockets behave, at most 500 lines are kept and at most 50 commands are
  remembered, and an arrow key shows a remembered command or clears the field, never anything beyond the history.
\<close>

theorem console_bounded:
  assumes "console_reachable agent s"
  shows "length (con_lines s) \<le> 500 \<and> length (con_history s) \<le> 50
    \<and> -1 \<le> con_idx s \<and> con_idx s < int (length (con_history s))
    \<and> con_cmd (key_up s) \<in> insert (con_cmd s) (set (con_history s))
    \<and> con_cmd (key_down s) \<in> insert [] (set (con_history s))"
  using console_reachable_ok [OF assms] by (auto simp: console_ok_def key_up_def key_down_def Let_def)

lemma console_bounded_witness: "length (con_lines (connect initial_console)) \<le> 500"
proof -
  have "console_step ''a'' initial_console (connect initial_console)"
    by (rule console_step.clicks_connect) (simp add: connect_offered_def initial_console_def)
  then show ?thesis using console_bounded [of "''a''" "connect initial_console"] by blast
qed

text \<open>A muted console shows a connection and holds no socket.\<close>

definition muted :: "console \<Rightarrow> bool" where
  "muted s \<longleftrightarrow> con_connected s \<and> con_ref s = None"

lemma muted_step: "console_step agent s s' \<Longrightarrow> muted s \<Longrightarrow> sent s' = sent s \<and> (muted s' \<or> \<not> con_connected s')"
  by (induction rule: console_step.induct) (auto simp: muted_def console_ops connect_offered_def Let_def split: option.split)

definition muted_run :: "string \<Rightarrow> string \<Rightarrow> console list" where
  "muted_run agent ts =
    (let s1 = connect initial_console;
         s2 = on_open agent ts (s1\<lparr>sockets := (sockets s1)[0 := SOpen]\<rparr>);
         s3 = disconnect s2;
         s4 = connect s3;
         s5 = on_close ts 1000 ''User disconnect'' (s4\<lparr>sockets := (sockets s4)[0 := SClosed]\<rparr>);
         s6 = on_open agent ts (s5\<lparr>sockets := (sockets s5)[1 := SOpen]\<rparr>)
     in [initial_console, s1, s2, s3, s4, s5, s6])"

lemma successively_rtranclp: "successively r (x # xs) \<Longrightarrow> r\<^sup>*\<^sup>* x (last (x # xs))"
  by (induction xs arbitrary: x) (auto intro: converse_rtranclp_into_rtranclp)

lemma muted_run_steps: "successively (console_step agent) (muted_run agent ts)"
proof -
  note c = connect_def disconnect_def on_open_def on_close_def close_socket_def initial_console_def connect_offered_def
  show ?thesis
    unfolding muted_run_def Let_def successively.simps
    by (intro conjI TrueI console_step.clicks_connect console_step.opens console_step.clicks_disconnect console_step.closes)
      (simp_all add: c)
qed

text \<open>C9.  A late close event mutes the console: disconnecting and connecting again before the first socket has finished
  closing leads to a page that shows CONNECTED over an open socket which it does not hold; from then on, whatever
  happens, no command reaches the agent until the connection is shown as lost.
\<close>

theorem late_close_mutes_console:
  "\<exists>s. console_reachable agent s \<and> connection_label s = ''CONNECTED'' \<and> socket_open s 1 \<and> con_ref s = None
     \<and> (\<forall>s'. (\<lambda>x y. console_step agent x y \<and> con_connected y)\<^sup>*\<^sup>* s s' \<longrightarrow> sent s' = sent s \<and> con_ref s' = None)"
proof -
  let ?s = "last (muted_run agent [])"
  have "console_reachable agent ?s"
    using successively_rtranclp [of "console_step agent" initial_console "tl (muted_run agent [])"] muted_run_steps [of agent "[]"]
    by (simp add: muted_run_def Let_def)
  moreover have m: "muted ?s" "connection_label ?s = ''CONNECTED''" "socket_open ?s 1"
    by (simp_all add: muted_run_def Let_def muted_def connection_label_def socket_open_def connect_def disconnect_def on_open_def
        on_close_def close_socket_def initial_console_def)
  moreover have "sent s' = sent ?s \<and> muted s'"
    if "(\<lambda>x y. console_step agent x y \<and> con_connected y)\<^sup>*\<^sup>* ?s s'" for s'
    using that
  proof (induction rule: rtranclp_induct)
    case (step y z)
    then show ?case using muted_step [of agent y z] by auto
  qed (simp add: m(1))
  ultimately show ?thesis unfolding muted_def by blast
qed

lemma late_close_mutes_console_witness:
  "\<exists>s. connection_label s = ''CONNECTED'' \<and> sent (send_command True ''t'' (type_command ''ls'' s)) = sent s"
proof -
  obtain s where s: "connection_label s = ''CONNECTED''"
    and k: "\<And>s'. (\<lambda>x y. console_step ''a'' x y \<and> con_connected y)\<^sup>*\<^sup>* s s' \<Longrightarrow> sent s' = sent s"
    using late_close_mutes_console [of "''a''"] by blast
  have c: "con_connected s" using s by (simp add: connection_label_def split: if_splits)
  have t: "con_connected (type_command ''ls'' s)" using c by (simp add: type_command_def)
  have u: "con_connected (send_command True ''t'' (type_command ''ls'' s))"
    using t by (simp add: send_command_def Let_def split: option.split)
  have "(\<lambda>x y. console_step ''a'' x y \<and> con_connected y)\<^sup>*\<^sup>* s (send_command True ''t'' (type_command ''ls'' s))"
    by (rule converse_rtranclp_into_rtranclp [OF _ r_into_rtranclp [of _ "type_command ''ls'' s"]])
      (use c t u in \<open>auto intro: console_step.types console_step.sends\<close>)
  then show ?thesis using s k by blast
qed

end
