(* ===== verification/Dashboard.thy ===== *)
theory Dashboard
  imports AuditLog Json
begin

text \<open>
  \<open>pages/Dashboard.tsx\<close> with \<open>StatusIndicator.tsx\<close> and \<open>StatCard.tsx\<close>: the incident list with its search,
  filter, pages and bulk action, and what the cards and panels derive from the queries.  The query cache is a
  function from the key of a query to its data; a key that is not there is still loading.  The synthesised sound
  and the formatting of dates are not modelled: \<open>Ping\<close> stands for the sound.
\<close>

section \<open>Status indicator and statistics card\<close>

text \<open>Colour, default text and text colour of a status.\<close>

definition status_config :: "string \<Rightarrow> (string \<times> string \<times> string) option" where
  "status_config st = map_of
    [(''online'', ''bg-status-online'', ''ONLINE'', ''text-status-online''),
     (''offline'', ''bg-status-offline'', ''OFFLINE'', ''text-status-offline''),
     (''pending'', ''bg-status-pending'', ''PENDING'', ''text-status-pending''),
     (''locked'', ''bg-status-locked'', ''LOCKED'', ''text-status-locked''),
     (''verified'', ''bg-status-verified'', ''VERIFIED'', ''text-status-verified''),
     (''active'', ''bg-status-online'', ''ACTIVE'', ''text-status-online'')] st"

definition indicator_size :: "string \<Rightarrow> string option" where
  "indicator_size z = map_of [(''sm'', ''w-1.5 h-1.5''), (''md'', ''w-2 h-2''), (''lg'', ''w-3 h-3'')] z"

record indicator =
  in_status :: string
  in_label :: string
  in_size :: string
  in_pulse :: bool

text \<open>The classes of the dot and the shown text; \<open>None\<close> is the exception for an unknown status.\<close>

definition status_indicator :: "indicator \<Rightarrow> (string option \<times> string \<times> bool \<times> string \<times> string) option" where
  "status_indicator i = map_option (\<lambda>(color, txt, text_color).
     (indicator_size (in_size i), color, in_pulse i, text_color, if in_label i = [] then txt else in_label i))
     (status_config (in_status i))"

text \<open>The sparkline of a card, as points of the path.\<close>

definition default_trend :: "rat list" where
  "default_trend = [40, 25, 35, 30, 45, 38, 55]"

definition spark_range :: "rat list \<Rightarrow> rat" where
  "spark_range xs = (let r = Max (set (1 # xs)) - Min (set xs) in if r = 0 then 1 else r)"

definition generate_path :: "rat list \<Rightarrow> (bool \<times> rat \<times> rat) list" where
  "generate_path xs = (if length xs < 2 then []
     else map (\<lambda>i. (i = 0, of_nat i / of_nat (length xs - 1) * 100,
        30 - (xs ! i - Min (set xs)) / spark_range xs * (30 - 2 * 2) - 2)) [0..<length xs])"

section \<open>Data\<close>

record incident_response =
  inc_id :: string
  inc_type :: string
  inc_status :: string
  inc_template :: "string option"
  inc_targets :: "string list"
  inc_operator :: string
  inc_created :: string
  inc_updated :: string

record incident =
  i_id :: string
  i_type :: string
  i_status :: string
  i_template :: "string option"
  i_targets :: "string list"
  i_operator :: string
  i_created :: string
  i_updated :: string

definition map_incident :: "incident_response \<Rightarrow> incident" where
  "map_incident r = \<lparr>i_id = inc_id r, i_type = inc_type r, i_status = inc_status r, i_template = inc_template r,
     i_targets = inc_targets r, i_operator = inc_operator r, i_created = inc_created r, i_updated = inc_updated r\<rparr>"

record dash_collector_response =
  dcr_id :: string
  dcr_name :: string
  dcr_status :: string
  dcr_heartbeat :: string

record dash_collector =
  dc_id :: string
  dc_name :: string
  dc_status :: string
  dc_last_seen :: string

definition normalize_collector_status :: "string \<Rightarrow> string" where
  "normalize_collector_status st = (let n = to_upper st
     in if n = ''ONLINE'' \<or> n = ''OFFLINE'' \<or> n = ''BUSY'' then n else ''OFFLINE'')"

definition dash_map_collector :: "dash_collector_response \<Rightarrow> dash_collector" where
  "dash_map_collector c = \<lparr>dc_id = dcr_id c, dc_name = dcr_name c, dc_status = normalize_collector_status (dcr_status c),
     dc_last_seen = dcr_heartbeat c\<rparr>"

record evidence_folder_response =
  ef_id :: string
  ef_incident :: string
  ef_files :: int
  ef_size :: string
  ef_status :: string

record tool_paths =
  tp_ez_tools :: "string option"
  tp_hayabusa :: "string option"
  tp_chainsaw :: "string option"

text \<open>What the queries of the page hold: data, error and whether they are loading.\<close>

record dash_data =
  d_error :: "jserr option"
  d_collectors :: "dash_collector list"
  d_coll_loading :: bool
  d_folders :: "evidence_folder_response list"
  d_storage :: "rat option"
  d_settings :: "tool_paths option"

type_synonym inc_key = "string \<times> string \<times> int \<times> int"

record dashboard =
  incident_search :: string
  search_debounce :: "string debouncer"
  status_filter :: string
  dash_page :: int
  dash_per_page :: int
  selected_ids :: "string jsset"
  sound_enabled :: bool
  inc_cache :: "inc_key \<Rightarrow> (int \<times> incident_response list) option"

definition initial_dashboard :: "nat \<Rightarrow> dashboard" where
  "initial_dashboard now = \<lparr>incident_search = [], search_debounce = debounce_start [] now 350, status_filter = [], dash_page = 1,
     dash_per_page = 10, selected_ids = [], sound_enabled = True, inc_cache = (\<lambda>_. None)\<rparr>"

section \<open>The incident query\<close>

definition incident_key :: "dashboard \<Rightarrow> inc_key" where
  "incident_key s = (published (search_debounce s), status_filter s, dash_page s, dash_per_page s)"

definition incident_params :: "dashboard \<Rightarrow> params" where
  "incident_params s = (''limit'', int_str (dash_per_page s)) # (''offset'', int_str ((dash_page s - 1) * dash_per_page s)) #
     set_if (published (search_debounce s) \<noteq> []) ''search'' (published (search_debounce s)) @
     set_if (status_filter s \<noteq> []) ''status'' (status_filter s)"

datatype dash_reply = DIncidents int "incident_response list" | DDone

type_synonym dash_io = "(dashboard, dash_reply, string, unit) io"

definition fetch_incidents :: "(string \<Rightarrow> string) \<Rightarrow> dash_io" where
  "fetch_incidents enc = Read (\<lambda>s0. Await (Request GET (''/incidents?'' @ query_string enc (incident_params s0)) None) (\<lambda>x.
     case x of Inr (DIncidents n items) \<Rightarrow> Update (\<lambda>s. s\<lparr>inc_cache := (inc_cache s)(incident_key s0 := Some (n, items))\<rparr>) Done
       | _ \<Rightarrow> Done))"

definition incident_data :: "dashboard \<Rightarrow> (int \<times> incident_response list) option" where
  "incident_data s = inc_cache s (incident_key s)"

definition incidents_of :: "dashboard \<Rightarrow> incident list" where
  "incidents_of s = (case incident_data s of Some (n, items) \<Rightarrow> map map_incident items | None \<Rightarrow> [])"

definition total_items :: "dashboard \<Rightarrow> int" where
  "total_items s = (case incident_data s of Some (n, items) \<Rightarrow> n | None \<Rightarrow> 0)"

definition dash_total_pages :: "dashboard \<Rightarrow> int" where
  "dash_total_pages s = max 1 ((total_items s + dash_per_page s - 1) div dash_per_page s)"

text \<open>The page is replaced by its skeleton, the search field included.\<close>

definition is_initial_loading :: "dash_data \<Rightarrow> dashboard \<Rightarrow> bool" where
  "is_initial_loading d s \<longleftrightarrow> (incident_data s = None \<and> d_error d = None \<or> d_coll_loading d) \<and> incident_data s = None"

section \<open>Handlers\<close>

definition type_search :: "string \<Rightarrow> nat \<Rightarrow> dashboard \<Rightarrow> dashboard" where
  "type_search v now s = s\<lparr>incident_search := v, search_debounce := debounce_change v now 350 (search_debounce s), dash_page := 1\<rparr>"

definition search_tick :: "nat \<Rightarrow> dashboard \<Rightarrow> dashboard" where
  "search_tick now s = s\<lparr>search_debounce := debounce_tick now (search_debounce s)\<rparr>"

definition choose_status :: "string \<Rightarrow> dashboard \<Rightarrow> dashboard" where
  "choose_status v s = s\<lparr>status_filter := v, dash_page := 1\<rparr>"

definition active_card_clicked :: "dashboard \<Rightarrow> dashboard" where
  "active_card_clicked s = s\<lparr>status_filter := ''ACTIVE''\<rparr>"

definition clear_filter :: "dashboard \<Rightarrow> dashboard" where
  "clear_filter s = s\<lparr>status_filter := []\<rparr>"

definition set_dash_page :: "int \<Rightarrow> dashboard \<Rightarrow> dashboard" where
  "set_dash_page k s = s\<lparr>dash_page := k\<rparr>"

definition set_dash_per_page :: "int \<Rightarrow> dashboard \<Rightarrow> dashboard" where
  "set_dash_per_page k s = s\<lparr>dash_per_page := k, dash_page := 1\<rparr>"

definition toggle_select :: "string \<Rightarrow> dashboard \<Rightarrow> dashboard" where
  "toggle_select i s = s\<lparr>selected_ids := set_toggle i (selected_ids s)\<rparr>"

definition clear_selection :: "dashboard \<Rightarrow> dashboard" where
  "clear_selection s = s\<lparr>selected_ids := []\<rparr>"

definition toggle_sound :: "dashboard \<Rightarrow> dashboard" where
  "toggle_sound s = s\<lparr>sound_enabled := \<not> sound_enabled s\<rparr>"

text \<open>\<open>Promise.all\<close> of a list: everything is sent, and the first failure is thrown.\<close>

primrec send_all :: "'b request list \<Rightarrow> jserr option \<Rightarrow> ('s, 'r, 'b, unit) io \<Rightarrow> ('s, 'r, 'b, unit) io" where
  "send_all [] failed k = (case failed of Some e \<Rightarrow> Raise e | None \<Rightarrow> k)"
| "send_all (r # rs) failed k = Await r (\<lambda>x. send_all rs
     (case failed of Some e \<Rightarrow> Some e | None \<Rightarrow> (case x of Inl e \<Rightarrow> Some e | Inr _ \<Rightarrow> None)) k)"

definition close_request :: "string \<Rightarrow> string request" where
  "close_request i = Request PATCH (''/incidents/'' @ i) (Some ''CLOSED'')"

definition handle_bulk_close :: dash_io where
  "handle_bulk_close = Read (\<lambda>s0. if selected_ids s0 = [] then Done
     else tryCatch
       (send_all (map close_request (selected_ids s0)) None
         (Update (\<lambda>s. s\<lparr>selected_ids := []\<rparr>) (Emit (Invalidate [''incidents'']) Done)))
       (\<lambda>_. Done))"

definition open_incident :: "incident \<Rightarrow> dash_io" where
  "open_incident i = Emit (Navigate (''/incidents/'' @ i_id i)) Done"

section \<open>What the page derives\<close>

definition plays_ping :: "dashboard \<Rightarrow> bool" where
  "plays_ping s \<longleftrightarrow> sound_enabled s \<and> list_ex (\<lambda>i. i_status i = ''COLLECTION_FAILED'') (incidents_of s)"

definition collectors_signature :: "dash_collector list \<Rightarrow> string" where
  "collectors_signature cs = join_with '','' (map (\<lambda>c. dc_id c @ '':'' @ dc_status c) cs)"

definition is_set :: "string option \<Rightarrow> bool" where
  "is_set t \<longleftrightarrow> t \<noteq> None \<and> t \<noteq> Some []"

definition tools_configured :: "dash_data \<Rightarrow> bool" where
  "tools_configured d = (case d_settings d of None \<Rightarrow> True | Some p \<Rightarrow> is_set (tp_ez_tools p) \<or> is_set (tp_hayabusa p))"

definition dash_error_message :: "dash_data \<Rightarrow> string option" where
  "dash_error_message d = map_option (\<lambda>e. let msg = message_or [] e
     in if str_includes msg ''Failed to fetch'' \<or> str_includes msg ''NetworkError'' \<or> str_includes msg ''ECONNREFUSED''
        then ''Cannot reach the backend server. Check network or service status.''
        else ''Unable to load dashboard data. The server returned an error.'') (d_error d)"

definition active_incidents :: "dashboard \<Rightarrow> nat" where
  "active_incidents s = length (filter (\<lambda>i. i_status i \<noteq> ''CLOSED'') (incidents_of s))"

definition has_active_collection :: "dashboard \<Rightarrow> bool" where
  "has_active_collection s = list_ex (\<lambda>i. i_status i = ''COLLECTION_IN_PROGRESS'') (incidents_of s)"

definition total_evidence_files :: "dash_data \<Rightarrow> int" where
  "total_evidence_files d = fold (\<lambda>f n. n + ef_files f) (d_folders d) 0"

definition online_collectors :: "dash_data \<Rightarrow> nat" where
  "online_collectors d = length (filter (\<lambda>c. dc_status c \<noteq> ''OFFLINE'') (d_collectors d))"

definition offline_collectors :: "dash_data \<Rightarrow> nat" where
  "offline_collectors d = length (filter (\<lambda>c. dc_status c = ''OFFLINE'') (d_collectors d))"

definition has_storage_warning :: "dash_data \<Rightarrow> bool" where
  "has_storage_warning d = (case d_storage d of Some p \<Rightarrow> 75 \<le> p | None \<Rightarrow> False)"

definition system_alerts :: "dash_data \<Rightarrow> nat" where
  "system_alerts d = offline_collectors d + (if has_storage_warning d then 1 else 0)"

definition offline_collector :: "dash_data \<Rightarrow> dash_collector option" where
  "offline_collector d = find (\<lambda>c. dc_status c = ''OFFLINE'') (d_collectors d)"

definition formatted_storage :: "dash_data \<Rightarrow> string" where
  "formatted_storage d = (case d_storage d of Some p \<Rightarrow> int_str (math_round p) @ ''%'' | None \<Rightarrow> ''--'')"

definition dash_cards :: "dash_data \<Rightarrow> dashboard \<Rightarrow> (string \<times> string) list" where
  "dash_cards d s = [(''Active Incidents (Page)'', nat_str (active_incidents s)),
     (''Collectors Online'', nat_str (online_collectors d) @ ''/'' @ nat_str (length (d_collectors d))),
     (''Evidence Items'', int_str (total_evidence_files d)), (''System Alerts'', nat_str (system_alerts d))]"

text \<open>The entries of the alert panel, by their headings; none means SYSTEM INTEGRITY NOMINAL.\<close>

definition alert_entries :: "dash_data \<Rightarrow> string list" where
  "alert_entries d = (if system_alerts d = 0 then []
     else (if has_storage_warning d then [''STORAGE WARNING''] else []) @
       (case offline_collector d of Some c \<Rightarrow> [''COLLECTOR OFFLINE''] | None \<Rightarrow> []))"

definition collector_dot :: "dash_collector \<Rightarrow> string" where
  "collector_dot c = (if dc_status c = ''ONLINE'' then ''online'' else if dc_status c = ''BUSY'' then ''pending'' else ''offline'')"

definition collector_panel_rows :: "dash_data \<Rightarrow> (string \<times> string) list \<times> string option" where
  "collector_panel_rows d = (map (\<lambda>c. (dc_name c, collector_dot c)) (take 10 (d_collectors d)),
     if 10 < length (d_collectors d) then Some (''VIEW ALL '' @ nat_str (length (d_collectors d)) @ '' COLLECTORS'') else None)"

section \<open>A row of the list\<close>

definition incident_indicator :: "string \<Rightarrow> indicator" where
  "incident_indicator st = (let mk = \<lambda>status label. \<lparr>in_status = status, in_label = label, in_size = ''md'', in_pulse = False\<rparr>
     in if st = ''PENDING'' then mk ''pending'' ''PENDING''
     else if st = ''ACTIVE'' then mk ''online'' ''ACTIVE''
     else if st = ''COLLECTION_IN_PROGRESS'' then (mk ''active'' ''COLLECTING'')\<lparr>in_pulse := True\<rparr>
     else if st = ''COLLECTION_COMPLETE'' then mk ''verified'' ''COMPLETE''
     else if st = ''COLLECTION_FAILED'' then mk ''offline'' ''FAILED''
     else if st = ''CLOSED'' then mk ''offline'' ''CLOSED'' else mk ''pending'' st)"

definition spaced :: "string \<Rightarrow> string" where
  "spaced t = map (\<lambda>c. if c = CHR ''_'' then CHR '' '' else c) t"

definition targets_text :: "string list \<Rightarrow> string" where
  "targets_text ts = join_with '', '' (take 4 ts) @ (if 4 < length ts then '' +'' @ nat_str (length ts - 4) else [])"

record incident_row =
  r_selected :: bool
  r_id :: string
  r_type :: string
  r_ready :: bool
  r_collecting :: bool
  r_targets :: string
  r_operator :: string
  r_indicator :: indicator

definition incident_row_of :: "dashboard \<Rightarrow> incident \<Rightarrow> incident_row" where
  "incident_row_of s i = \<lparr>r_selected = (i_id i \<in> set (selected_ids s)), r_id = i_id i, r_type = spaced (i_type i),
     r_ready = (i_status i = ''COLLECTION_COMPLETE'' \<or> i_status i = ''CLOSED''),
     r_collecting = (i_status i = ''COLLECTION_IN_PROGRESS''), r_targets = targets_text (i_targets i),
     r_operator = i_operator i, r_indicator = incident_indicator (i_status i)\<rparr>"

section \<open>Lemmas\<close>

text \<open>\<open>Promise.all\<close> against fixed replies: every request goes out, and the rest runs when none fails.\<close>

definition all_fulfilled :: "('b request \<Rightarrow> jserr + 'r) \<Rightarrow> 'b request list \<Rightarrow> bool" where
  "all_fulfilled replies rs \<longleftrightarrow> list_all (\<lambda>r. case replies r of Inl _ \<Rightarrow> False | Inr _ \<Rightarrow> True) rs"

lemma send_all_failed:
  "effects_of (stateless replies) yes (tryCatch (send_all rs (Some e) k) (\<lambda>_. Done)) w s = map Sent rs"
  "final_state (stateless replies) yes (tryCatch (send_all rs (Some e) k) (\<lambda>_. Done)) w s = s"
  by (induction rs) (simp_all add: stateless_def)

lemma send_all_runs:
  "effects_of (stateless replies) yes (tryCatch (send_all rs None k) (\<lambda>_. Done)) w s
     = map Sent rs @ (if all_fulfilled replies rs then effects_of (stateless replies) yes (tryCatch k (\<lambda>_. Done)) w s else [])"
  "final_state (stateless replies) yes (tryCatch (send_all rs None k) (\<lambda>_. Done)) w s
     = (if all_fulfilled replies rs then final_state (stateless replies) yes (tryCatch k (\<lambda>_. Done)) w s else s)"
  by (induction rs) (auto simp: stateless_def all_fulfilled_def send_all_failed split: sum.split)

lemma bulk_close_effects:
  "effects_of (stateless replies) yes handle_bulk_close w s =
     map Sent (map close_request (selected_ids s)) @
     (if selected_ids s \<noteq> [] \<and> all_fulfilled replies (map close_request (selected_ids s)) then [Invalidate [''incidents'']] else [])"
  "final_state (stateless replies) yes handle_bulk_close w s =
     (if all_fulfilled replies (map close_request (selected_ids s)) then s\<lparr>selected_ids := []\<rparr> else s)"
  by (auto simp: handle_bulk_close_def send_all_runs all_fulfilled_def)

text \<open>What changes the list that is shown.\<close>

datatype view_event =
    TypeSearch string nat | SearchTick nat | ChooseStatus string | ActiveCard | ClearFilter | SetPage int | SetPerPage int
  | Arrived inc_key "(int \<times> incident_response list) option"

fun view_step :: "view_event \<Rightarrow> dashboard \<Rightarrow> dashboard" where
  "view_step (TypeSearch v now) s = type_search v now s"
| "view_step (SearchTick now) s = search_tick now s"
| "view_step (ChooseStatus v) s = choose_status v s"
| "view_step ActiveCard s = active_card_clicked s"
| "view_step ClearFilter s = clear_filter s"
| "view_step (SetPage k) s = set_dash_page k s"
| "view_step (SetPerPage k) s = set_dash_per_page k s"
| "view_step (Arrived key d) s = s\<lparr>inc_cache := (inc_cache s)(key := d)\<rparr>"

lemmas view_defs = type_search_def search_tick_def choose_status_def active_card_clicked_def clear_filter_def
  set_dash_page_def set_dash_per_page_def

lemma view_step_selected [simp]: "selected_ids (view_step e s) = selected_ids s"
  by (cases e) (simp_all add: view_defs)

lemma view_steps_selected: "selected_ids (fold view_step es s) = selected_ids s"
  by (induction es arbitrary: s) simp_all

lemma spark_range_pos:
  assumes "xs \<noteq> []" shows "0 < spark_range xs" and "x \<in> set xs \<Longrightarrow> x - Min (set xs) \<le> spark_range xs"
proof -
  have m: "Min (set xs) \<in> set xs" and le: "\<And>y. y \<in> set xs \<Longrightarrow> y \<le> Max (set (1 # xs))"
    using assms by (simp_all add: le_max_iff_disj)
  then have r: "0 \<le> Max (set (1 # xs)) - Min (set xs)" by simp
  then show "0 < spark_range xs" by (auto simp: spark_range_def Let_def simp del: list.set)
  assume "x \<in> set xs"
  then have "x - Min (set xs) \<le> Max (set (1 # xs)) - Min (set xs)" using le by simp
  then show "x - Min (set xs) \<le> spark_range xs" by (auto simp: spark_range_def Let_def simp del: list.set)
qed

section \<open>Properties\<close>

text \<open>C22. CLOSE_ALL sends one request for every selected incident, and nothing when none is selected.  When all
  are accepted the selection is cleared and the list refetched; when any is refused, the others have been closed
  but the page keeps the selection, refetches nothing and shows no message.\<close>

theorem bulk_close_outcome:
  "effects_of (stateless replies) yes handle_bulk_close w s =
     map Sent (map close_request (selected_ids s)) @
     (if selected_ids s \<noteq> [] \<and> all_fulfilled replies (map close_request (selected_ids s)) then [Invalidate [''incidents'']] else [])
   \<and> final_state (stateless replies) yes handle_bulk_close w s =
     (if all_fulfilled replies (map close_request (selected_ids s)) then s\<lparr>selected_ids := []\<rparr> else s)"
  by (simp only: bulk_close_effects simp_thms)

text \<open>Searching, filtering, paging and new data leave the selection, so CLOSE_ALL closes what was
  selected before, whether or not the list still shows it.\<close>

theorem bulk_close_ignores_view:
  "requests_of (stateless replies) yes handle_bulk_close w (fold view_step es s) = map close_request (selected_ids s)"
proof -
  have "requests_of (stateless replies) yes handle_bulk_close w s' = map close_request (selected_ids s')" for s'
  proof -
    have "filter is_request (map Sent rs @ (if b then [Invalidate q] else [])) = map Sent rs" for rs :: "string request list" and b q
      by (induction rs) (simp_all add: is_request_def)
    then show ?thesis
      by (simp only: requests_of_def bulk_close_effects) (simp add: comp_def)
  qed
  then show ?thesis by (simp add: view_steps_selected)
qed

text \<open>A search that is not in the cache replaces the whole page by its skeleton when the debounced
  text is published, the search field with it, until the answer arrives.\<close>

theorem search_unmounts_page:
  assumes "d_error d = None" and "now' \<ge> now + 350"
    and "inc_cache s (v, status_filter s, 1, dash_per_page s) = None"
  shows "is_initial_loading d (search_tick now' (type_search v now s))"
  using assms
  by (simp add: is_initial_loading_def incident_data_def incident_key_def search_tick_def type_search_def debounce_change_def
      debounce_tick_def)

definition sample_dash :: dash_data where
  "sample_dash = \<lparr>d_error = None, d_collectors = [], d_coll_loading = False, d_folders = [], d_storage = Some 80, d_settings = None\<rparr>"

theorem search_unmounts_page_witness:
  "is_initial_loading sample_dash (search_tick 500 (type_search ''inc'' 100 (initial_dashboard 0)))"
  using search_unmounts_page [of sample_dash 100 500 "initial_dashboard 0" "''inc''"]
  by (simp add: sample_dash_def initial_dashboard_def)

text \<open>The sparkline of a card stays inside its drawing area, two units from the top and bottom, starts
  with a move and has one point for every number.\<close>

theorem sparkline_in_box:
  assumes "2 \<le> length xs"
  shows "length (generate_path xs) = length xs \<and> map fst (generate_path xs) = True # replicate (length xs - 1) False \<and>
    (\<forall>(m, x, y) \<in> set (generate_path xs). 0 \<le> x \<and> x \<le> 100 \<and> 2 \<le> y \<and> y \<le> 28)"
proof -
  have g: "generate_path xs = map (\<lambda>i. (i = 0, of_nat i / of_nat (length xs - 1) * 100,
        30 - (xs ! i - Min (set xs)) / spark_range xs * (30 - 2 * 2) - 2)) [0..<length xs]"
    using assms by (simp add: generate_path_def)
  have ne: "xs \<noteq> []" using assms by auto
  have y: "0 \<le> (xs ! i - Min (set xs)) / spark_range xs \<and> (xs ! i - Min (set xs)) / spark_range xs \<le> 1" if "i < length xs" for i
    using spark_range_pos [OF ne] that by (auto simp: divide_le_eq)
  have x: "of_nat i / of_nat (length xs - 1) \<le> (1 :: rat)" if "i < length xs" for i
    using that assms by (simp add: divide_le_eq)
  have shape: "map (\<lambda>i. i = 0) [0..<length xs] = True # replicate (length xs - 1) False"
    by (rule nth_equalityI) (use assms in \<open>auto simp: nth_Cons split: nat.split\<close>)
  have "0 \<le> x \<and> x \<le> 100 \<and> 2 \<le> y \<and> y \<le> 28" if mem: "(m, x, y) \<in> set (generate_path xs)" for m x y
  proof -
    obtain i where i: "i \<in> set [0..<length xs]" and e: "(m, x, y) = (i = 0, of_nat i / of_nat (length xs - 1) * 100,
        30 - (xs ! i - Min (set xs)) / spark_range xs * (30 - 2 * 2) - 2)"
      using mem unfolding g set_map by blast
    have i': "i < length xs" using i by simp
    define p where "p = (of_nat i / of_nat (length xs - 1) :: rat)"
    define q where "q = (xs ! i - Min (set xs)) / spark_range xs"
    have "0 \<le> p" "p \<le> 1" "0 \<le> q" "q \<le> 1"
      using x [OF i'] y [OF i'] by (simp_all add: p_def q_def)
    then show ?thesis using e unfolding p_def [symmetric] q_def [symmetric] by simp
  qed
  then have "\<forall>(m, x, y) \<in> set (generate_path xs). 0 \<le> x \<and> x \<le> 100 \<and> 2 \<le> y \<and> y \<le> 28" by blast
  moreover have "length (generate_path xs) = length xs" "map fst (generate_path xs) = map (\<lambda>i. i = 0) [0..<length xs]"
    by (simp_all add: g comp_def)
  ultimately show ?thesis using shape by simp
qed

theorem sparkline_in_box_witness:
  "length (generate_path default_trend) = 7"
  using sparkline_in_box [of default_trend] by (simp add: default_trend_def)

end
