(* ===== verification/DashboardViews.thy ===== *)
theory DashboardViews
  imports Dashboard
begin

text \<open>
  What \<open>pages/Dashboard.tsx\<close> draws: the bulk bar, the alerts, the list with its filter and pages, and the panels at
  its side; and the answer the page gets from a server that pages a filtered list.  \<open>local_time\<close> is
  \<open>toLocaleString\<close> of a date.
\<close>

section \<open>The parts of the page\<close>

text \<open>A button with the events it fires, if it has a handler at all.\<close>

datatype dash_button = CloseAll | Purge | ClearSelection

definition bulk_bar :: "dashboard \<Rightarrow> (string \<times> dash_button list) option" where
  "bulk_bar s = (if 0 < length (selected_ids s)
     then Some (nat_str (length (selected_ids s)) @ '' Incidents Selected'', [CloseAll, Purge, ClearSelection]) else None)"

fun press_dash :: "dash_button \<Rightarrow> dash_io" where
  "press_dash CloseAll = handle_bulk_close"
| "press_dash Purge = Done"
| "press_dash ClearSelection = Update clear_selection Done"

definition sound_button :: "dashboard \<Rightarrow> string" where
  "sound_button s = (if sound_enabled s then ''Disable Tactical Audio'' else ''Enable Tactical Audio'')"

text \<open>\<open>Shift + S\<close> moves the focus to the search field, whatever has it.\<close>

definition shortcut_focuses :: "bool \<Rightarrow> string \<Rightarrow> bool" where
  "shortcut_focuses shift key \<longleftrightarrow> shift \<and> key = ''S''"

definition page_alerts :: "dash_data \<Rightarrow> string list" where
  "page_alerts d = (if tools_configured d then []
     else [''CRITICAL: FORENSICS TOOLS NOT CONFIGURED '' @ em_dash @ '' Analysis capabilities (Hayabusa/Chainsaw) are currently offline.''])
     @ (case dash_error_message d of Some e \<Rightarrow> [e] | None \<Rightarrow> [])"

definition status_options_dash :: "(string \<times> string) list" where
  "status_options_dash = [([], ''ALL STATUS''), (''PENDING'', ''PENDING''), (''ACTIVE'', ''ACTIVE''),
     (''COLLECTION_IN_PROGRESS'', ''COLLECTING''), (''COLLECTION_COMPLETE'', ''COMPLETE''),
     (''COLLECTION_FAILED'', ''FAILED''), (''CLOSED'', ''CLOSED'')]"

datatype list_area = NoIncidents string | Rows "(incident_row \<times> string) list"

definition list_area_of :: "(string \<Rightarrow> string) \<Rightarrow> dashboard \<Rightarrow> list_area" where
  "list_area_of local_time s = (if incidents_of s = [] then NoIncidents ''No incidents matching the current criteria.''
     else Rows (map (\<lambda>i. (incident_row_of s i, local_time (i_updated i))) (incidents_of s)))"

definition row_class :: "incident_row \<Rightarrow> string" where
  "row_class r = (if r_selected r then ''border-primary/60 bg-primary/5 ring-1 ring-primary/20'' else [])"

record incident_panel =
  ip_clear :: bool
  ip_total :: string
  ip_search :: string
  ip_filter :: string
  ip_area :: list_area
  ip_page :: int
  ip_pages :: int

definition incident_panel_of :: "(string \<Rightarrow> string) \<Rightarrow> dashboard \<Rightarrow> incident_panel" where
  "incident_panel_of local_time s = \<lparr>ip_clear = (status_filter s \<noteq> []), ip_total = int_str (total_items s) @ '' TOTAL'',
     ip_search = incident_search s, ip_filter = status_filter s, ip_area = list_area_of local_time s,
     ip_page = dash_page s, ip_pages = dash_total_pages s\<rparr>"

definition collectors_status :: "dash_data \<Rightarrow> string" where
  "collectors_status d = (if online_collectors d = length (d_collectors d) then ''online'' else ''warning'')"

definition collectors_empty :: "dash_data \<Rightarrow> string option" where
  "collectors_empty d = (if d_collectors d = [] then Some ''No collectors registered.'' else None)"

definition alerts_status :: "dash_data \<Rightarrow> string" where
  "alerts_status d = (if 0 < system_alerts d then ''warning'' else ''online'')"

definition alert_texts :: "(string \<Rightarrow> string) \<Rightarrow> dash_data \<Rightarrow> (string \<times> string) list" where
  "alert_texts local_time d = (if system_alerts d = 0 then [(''SYSTEM INTEGRITY NOMINAL'', [])]
     else (if has_storage_warning d then [(''STORAGE WARNING'',
         ''Evidence vault is reaching capacity ('' @ formatted_storage d @ ''). Consider offloading evidence.'')] else []) @
       (case offline_collector d of Some c \<Rightarrow> [(''COLLECTOR OFFLINE'',
         dc_name c @ '' has missed heartbeats since '' @ local_time (dc_last_seen c) @ ''.'')] | None \<Rightarrow> []))"

definition card_target :: "string \<Rightarrow> string option" where
  "card_target l = map_of [(''Collectors Online'', ''/collectors''), (''Evidence Items'', ''/evidence'')] l"

datatype dash_body =
    Skeleton
  | Body "string list" "(string \<times> string) list" incident_panel "string \<times> (string \<times> string) list \<times> string option" "string \<times> (string \<times> string) list"

definition dash_body_of :: "(string \<Rightarrow> string) \<Rightarrow> dash_data \<Rightarrow> dashboard \<Rightarrow> dash_body" where
  "dash_body_of local_time d s = (if is_initial_loading d s then Skeleton
     else Body (page_alerts d) (dash_cards d s) (incident_panel_of local_time s)
       (collectors_status d, fst (collector_panel_rows d), snd (collector_panel_rows d))
       (alerts_status d, alert_texts local_time d))"

section \<open>A server that pages\<close>

text \<open>What the page relies on: the answer to a query is the number of incidents that match it and the slice its page
  names.  \<open>matching\<close> is the filter of the server.\<close>

definition answers :: "(string \<Rightarrow> string \<Rightarrow> incident_response list) \<Rightarrow> dashboard \<Rightarrow> bool" where
  "answers matching s \<longleftrightarrow> incident_data s =
     (let m = matching (published (search_debounce s)) (status_filter s)
      in Some (int (length m), take (nat (dash_per_page s)) (drop (nat ((dash_page s - 1) * dash_per_page s)) m)))"

lemma answers_data:
  assumes "answers matching s" and "m = matching (published (search_debounce s)) (status_filter s)"
  shows "total_items s = int (length m)"
    and "incidents_of s = map map_incident (take (nat (dash_per_page s)) (drop (nat ((dash_page s - 1) * dash_per_page s)) m))"
  using assms by (simp_all add: answers_def total_items_def incidents_of_def Let_def)

section \<open>Theorems\<close>

text \<open>The card of the active incidents sets the filter and keeps the page.  From a later page, if the active incidents
  fill fewer pages, the list claims that no incident matches, beside their number, and the page stands beyond the
  last one; the same choice made in the filter itself, which goes back to the first page, lists them.\<close>

theorem active_card_hides_incidents:
  assumes "answers matching (active_card_clicked s)" and "answers matching (choose_status ''ACTIVE'' s)"
    and "m = matching (published (search_debounce s)) ''ACTIVE''" and "m \<noteq> []" and "0 < dash_per_page s"
    and "int (length m) \<le> (dash_page s - 1) * dash_per_page s"
  shows "ip_area (incident_panel_of local_time (active_card_clicked s)) = NoIncidents ''No incidents matching the current criteria.''
    \<and> ip_total (incident_panel_of local_time (active_card_clicked s)) = int_str (int (length m)) @ '' TOTAL''
    \<and> ip_pages (incident_panel_of local_time (active_card_clicked s)) < ip_page (incident_panel_of local_time (active_card_clicked s))
    \<and> incidents_of (choose_status ''ACTIVE'' s) = map map_incident (take (nat (dash_per_page s)) m)
    \<and> incidents_of (choose_status ''ACTIVE'' s) \<noteq> []"
proof -
  let ?a = "active_card_clicked s" and ?c = "choose_status ''ACTIVE'' s"
  have a: "published (search_debounce ?a) = published (search_debounce s)" "status_filter ?a = ''ACTIVE''"
      "dash_page ?a = dash_page s" "dash_per_page ?a = dash_per_page s"
    and c: "published (search_debounce ?c) = published (search_debounce s)" "status_filter ?c = ''ACTIVE''"
      "dash_page ?c = 1" "dash_per_page ?c = dash_per_page s"
    by (simp_all add: active_card_clicked_def choose_status_def)
  have t: "total_items ?a = int (length m)" and e: "incidents_of ?a = []"
    using answers_data [OF assms(1) refl] assms(3,6) by (simp_all add: a le_nat_iff)
  have l: "incidents_of ?c = map map_incident (take (nat (dash_per_page s)) m)"
    using answers_data(2) [OF assms(2) refl] assms(3) by (simp add: c)
  have "0 < int (length m)" using assms(4) by simp
  then have p: "1 < dash_page s"
    using assms(5,6) by (smt (verit) mult_nonneg_nonneg mult_le_0_iff)
  have "(int (length m) + dash_per_page s - 1) div dash_per_page s < dash_page s"
  proof -
    have "int (length m) + dash_per_page s - 1 < dash_page s * dash_per_page s"
      using assms(6) by (simp add: algebra_simps)
    moreover have "dash_page s * dash_per_page s \<le> (int (length m) + dash_per_page s - 1) div dash_per_page s * dash_per_page s"
      if "dash_page s \<le> (int (length m) + dash_per_page s - 1) div dash_per_page s"
      using that assms(5) by (intro mult_right_mono) simp_all
    moreover have "x div dash_per_page s * dash_per_page s \<le> x" for x
      using div_mult_mod_eq [of x "dash_per_page s"] pos_mod_sign [OF assms(5), of x] by linarith
    ultimately show ?thesis by (meson not_less order.trans)
  qed
  then have q: "dash_total_pages ?a < dash_page s" using p by (simp add: dash_total_pages_def t a)
  have n: "take (nat (dash_per_page s)) m \<noteq> []" using assms(4,5) by simp
  show ?thesis using e l n q by (simp add: incident_panel_of_def list_area_of_def t a)
qed

definition sample_response :: "string \<Rightarrow> incident_response" where
  "sample_response i = \<lparr>inc_id = i, inc_type = ''MALWARE'', inc_status = ''ACTIVE'', inc_template = None, inc_targets = [],
     inc_operator = ''ANA'', inc_created = [], inc_updated = []\<rparr>"

definition late_page :: dashboard where
  "late_page = (initial_dashboard 0)\<lparr>dash_page := 2, inc_cache := (\<lambda>(q, st, k, per).
     if st = ''ACTIVE'' then Some (1, if k = 1 then [sample_response ''A''] else []) else None)\<rparr>"

lemma active_card_hides_incidents_witness:
  "ip_area (incident_panel_of (\<lambda>t. t) (active_card_clicked late_page)) = NoIncidents ''No incidents matching the current criteria.''
   \<and> incidents_of (choose_status ''ACTIVE'' late_page) \<noteq> []"
  using active_card_hides_incidents [of "\<lambda>q st. [sample_response ''A'']" late_page "[sample_response ''A'']" "\<lambda>t. t"]
  by (simp add: answers_def late_page_def initial_dashboard_def active_card_clicked_def choose_status_def incident_data_def
      incident_key_def debounce_start_def)

text \<open>Of the three buttons of the bulk bar PURGE does nothing; only CLOSE_ALL sends requests, and the bar is there
  exactly while something is selected.\<close>

theorem bulk_bar_buttons:
  "(bulk_bar s \<noteq> None) = (selected_ids s \<noteq> [])
   \<and> requests_of srv yes (press_dash Purge) w s = [] \<and> final_state srv yes (press_dash Purge) w s = s
   \<and> bulk_bar (final_state srv yes (press_dash ClearSelection) w s) = None"
  by (simp add: bulk_bar_def clear_selection_def)

end
