(* ===== verification/Evidence.thy ===== *)
theory Evidence
  imports Browser
begin

text \<open>
  \<open>context/EvidenceContext.tsx\<close>, \<open>components/EvidenceWorkspace.tsx\<close> and \<open>lib/evidence.ts\<close>: the pinned
  evidence, kept in the local storage by two nested providers, and the floating panel that shows it.
\<close>

section \<open>Pinned evidence\<close>

text \<open>A pinned item is the object the code stores; its identity is its \<open>id\<close>.\<close>

definition storage_key :: string where
  "storage_key = ''dfir_pinned_evidence''"

definition item_id :: "jsval \<Rightarrow> jsval option" where
  "item_id v = js_prop v ''id''"

record workspace =
  pinned :: jsval
  browser_of :: browser

text \<open>The effect on mount: a stored value replaces the items, whatever its shape; text that is not JSON is ignored.\<close>

definition load_effect :: "workspace \<Rightarrow> workspace" where
  "load_effect s = (case local_get (browser_of s) storage_key of
      Some raw \<Rightarrow> if raw = [] then s else (case parse_json raw of Some v \<Rightarrow> s\<lparr>pinned := v\<rparr> | None \<Rightarrow> s)
    | None \<Rightarrow> s)"

definition save_effect :: "workspace \<Rightarrow> workspace" where
  "save_effect s = s\<lparr>browser_of := local_put storage_key (stringify (pinned s)) (browser_of s)\<rparr>"

text \<open>
  Mounting runs both effects on the first render, the load first and the save with the empty list of
  that render, and then the save again for the items that were loaded.
\<close>

definition mount_provider :: "browser \<Rightarrow> workspace" where
  "mount_provider b =
     (let first = \<lparr>pinned = JArr [], browser_of = b\<rparr>;
          loaded = load_effect first;
          saved = loaded\<lparr>browser_of := browser_of (save_effect first)\<rparr>
      in save_effect saved)"

definition pin_item :: "jsval jsobj \<Rightarrow> string \<Rightarrow> jsval list \<Rightarrow> jsval list" where
  "pin_item item now prev =
     (if list_ex (\<lambda>i. item_id i = map_of item ''id'') prev then prev
      else JObj (obj_put ''pinnedAt'' (JStr now) item) # prev)"

definition unpin_item :: "string \<Rightarrow> jsval list \<Rightarrow> jsval list" where
  "unpin_item i prev = filter (\<lambda>x. item_id x \<noteq> Some (JStr i)) prev"

definition clear_workspace :: "bool \<Rightarrow> jsval list \<Rightarrow> jsval list" where
  "clear_workspace confirmed prev = (if confirmed then [] else prev)"

datatype pin_event = Pin "jsval jsobj" string | Unpin string | ClearAll bool

fun pin_step :: "pin_event \<Rightarrow> jsval list \<Rightarrow> jsval list" where
  "pin_step (Pin item now) xs = pin_item item now xs"
| "pin_step (Unpin i) xs = unpin_item i xs"
| "pin_step (ClearAll b) xs = clear_workspace b xs"

text \<open>Whether the operation makes a new array, which is what runs the save: a pin of a known item and a clearing that
  is not confirmed do not, a removal always does.\<close>

fun makes_array :: "pin_event \<Rightarrow> jsval list \<Rightarrow> bool" where
  "makes_array (Pin item now) xs \<longleftrightarrow> \<not> list_ex (\<lambda>i. item_id i = map_of item ''id'') xs"
| "makes_array (Unpin i) xs \<longleftrightarrow> True"
| "makes_array (ClearAll b) xs \<longleftrightarrow> b"

text \<open>An operation, followed by the save.  With a stored value that is no array the workspace throws when it is drawn
  (\<open>FrameViews\<close>), so that nothing is pinned.\<close>

definition act :: "pin_event \<Rightarrow> workspace \<Rightarrow> workspace" where
  "act e s = (case pinned s of
      JArr xs \<Rightarrow> if makes_array e xs then save_effect (s\<lparr>pinned := JArr (pin_step e xs)\<rparr>) else s
    | _ \<Rightarrow> s)"

section \<open>The two providers\<close>

text \<open>
  \<open>App\<close> wraps the router in a provider, and \<open>AppLayout\<close>, the frame each page draws, wraps its content in another one.
  Both keep a list of their own and write it under the same key.  \<open>useEvidence\<close> finds the nearest: a page that calls it
  itself (the Sigma hits and the YARA matches) pins into the outer list; the floating panel and the table of the
  timeline are inside the frame and use the inner one.  The frame is mounted anew by every navigation to another page;
  the outer provider only when the browser loads the application, and before the frame, since the pages are
  loaded lazily.
\<close>

record evidence_app =
  outer_pins :: jsval
  inner_pins :: jsval
  app_browser :: browser

definition in_outer :: "(workspace \<Rightarrow> workspace) \<Rightarrow> evidence_app \<Rightarrow> evidence_app" where
  "in_outer f a = (let w = f \<lparr>pinned = outer_pins a, browser_of = app_browser a\<rparr>
     in a\<lparr>outer_pins := pinned w, app_browser := browser_of w\<rparr>)"

definition in_inner :: "(workspace \<Rightarrow> workspace) \<Rightarrow> evidence_app \<Rightarrow> evidence_app" where
  "in_inner f a = (let w = f \<lparr>pinned = inner_pins a, browser_of = app_browser a\<rparr>
     in a\<lparr>inner_pins := pinned w, app_browser := browser_of w\<rparr>)"

definition open_app :: "browser \<Rightarrow> evidence_app" where
  "open_app b = (let out = mount_provider b; frame = mount_provider (browser_of out)
     in \<lparr>outer_pins = pinned out, inner_pins = pinned frame, app_browser = browser_of frame\<rparr>)"

datatype evidence_event = PinDetection "jsval jsobj" string | InFrame pin_event | Visit | Reload

fun app_step :: "evidence_event \<Rightarrow> evidence_app \<Rightarrow> evidence_app" where
  "app_step (PinDetection item now) a = in_outer (act (Pin item now)) a"
| "app_step (InFrame e) a = in_inner (act e) a"
| "app_step Visit a = in_inner (\<lambda>w. mount_provider (browser_of w)) a"
| "app_step Reload a = open_app (app_browser a)"

text \<open>What the providers promise, without a browser: the outer list, the inner one and the one saved last.\<close>

fun list_step :: "evidence_event \<Rightarrow> jsval list \<times> jsval list \<times> jsval list \<Rightarrow> jsval list \<times> jsval list \<times> jsval list" where
  "list_step (PinDetection item now) (xs, ys, zs) =
     (if makes_array (Pin item now) xs then (pin_item item now xs, ys, pin_item item now xs) else (xs, ys, zs))"
| "list_step (InFrame e) (xs, ys, zs) = (if makes_array e ys then (xs, pin_step e ys, pin_step e ys) else (xs, ys, zs))"
| "list_step Visit (xs, ys, zs) = (xs, zs, zs)"
| "list_step Reload (xs, ys, zs) = (zs, zs, zs)"

definition app_lists :: "evidence_app \<Rightarrow> (jsval list \<times> jsval list \<times> jsval list) option" where
  "app_lists a = (case (outer_pins a, inner_pins a, Option.bind (local_get (app_browser a) storage_key) parse_json) of
      (JArr xs, JArr ys, Some (JArr zs)) \<Rightarrow> Some (xs, ys, zs) | _ \<Rightarrow> None)"

text \<open>\<open>lib/evidence.ts\<close>: the items of a list payload, none when it is missing or malformed.\<close>

definition evidence_items :: "jsval option \<Rightarrow> jsval list" where
  "evidence_items payload = (case payload of None \<Rightarrow> []
    | Some v \<Rightarrow> (case js_prop v ''items'' of Some (JArr xs) \<Rightarrow> xs | _ \<Rightarrow> []))"

section \<open>The floating panel\<close>

record panel =
  expanded :: bool
  pos_x :: int
  pos_y :: int
  dragging :: bool
  offset_x :: int
  offset_y :: int

definition initial_panel :: panel where
  "initial_panel = \<lparr>expanded = False, pos_x = 0, pos_y = 120, dragging = False, offset_x = 0, offset_y = 0\<rparr>"

definition mouse_down :: "int \<Rightarrow> int \<Rightarrow> panel \<Rightarrow> panel" where
  "mouse_down cx cy p = p\<lparr>dragging := True, offset_x := cx - pos_x p, offset_y := cy - pos_y p\<rparr>"

definition panel_width :: "panel \<Rightarrow> int" where
  "panel_width p = (if expanded p then 320 else 40)"

definition mouse_move :: "int \<Rightarrow> int \<Rightarrow> int \<Rightarrow> int \<Rightarrow> panel \<Rightarrow> panel" where
  "mouse_move vw vh cx cy p =
     (if \<not> dragging p then p
      else p\<lparr>pos_x := max (- panel_width p + 40) (min (cx - offset_x p) (vw - 40)),
             pos_y := max 10 (min (cy - offset_y p) (vh - 60))\<rparr>)"

definition mouse_up :: "panel \<Rightarrow> panel" where
  "mouse_up p = p\<lparr>dragging := False\<rparr>"

definition toggle_expanded :: "panel \<Rightarrow> panel" where
  "toggle_expanded p = p\<lparr>expanded := \<not> expanded p\<rparr>"

text \<open>The style \<open>right: -x\<close>: the panel's toggle spans the columns from its left edge to its right one.\<close>

definition panel_right_edge :: "int \<Rightarrow> panel \<Rightarrow> int" where
  "panel_right_edge vw p = vw + pos_x p"

definition panel_left_edge :: "int \<Rightarrow> panel \<Rightarrow> int" where
  "panel_left_edge vw p = panel_right_edge vw p - (if expanded p then 360 else 40)"

section \<open>Properties\<close>

text \<open>The items are JSON with pairwise different ids.\<close>

definition pins_ok :: "jsval list \<Rightarrow> bool" where
  "pins_ok xs \<longleftrightarrow> json_wf (JArr xs) \<and> distinct (map item_id xs)"

definition event_ok :: "pin_event \<Rightarrow> bool" where
  "event_ok e = (case e of Pin item now \<Rightarrow> json_wf (JObj item) | _ \<Rightarrow> True)"

definition app_event_ok :: "evidence_event \<Rightarrow> bool" where
  "app_event_ok e = (case e of PinDetection item now \<Rightarrow> event_ok (Pin item now) | InFrame e' \<Rightarrow> event_ok e' | _ \<Rightarrow> True)"

lemma item_id_pinned: "item_id (JObj (obj_put ''pinnedAt'' v item)) = map_of item ''id''"
  by (simp add: item_id_def)

lemma pin_step_ok:
  assumes "pins_ok xs" and "event_ok e"
  shows "pins_ok (pin_step e xs)"
proof (cases e)
  case (Pin item now)
  show ?thesis
  proof (cases "list_ex (\<lambda>i. item_id i = map_of item ''id'') xs")
    case True
    then show ?thesis using assms Pin by (simp add: pin_item_def)
  next
    case False
    have wf: "distinct (map fst item)" "\<forall>m \<in> set item. json_wf (snd m)"
      using assms(2) Pin by (simp_all add: event_ok_def)
    have "\<forall>m \<in> set (obj_put ''pinnedAt'' (JStr now) item). json_wf (snd m)"
      by (rule obj_put_wf [OF wf(2)]) simp
    then have "json_wf (JObj (obj_put ''pinnedAt'' (JStr now) item))"
      using distinct_obj_put [OF wf(1)] by simp
    moreover have "map_of item ''id'' \<notin> set (map item_id xs)"
      using False by (auto simp: list_ex_iff)
    ultimately show ?thesis
      using assms(1) False Pin by (simp add: pin_item_def pins_ok_def item_id_pinned)
  qed
next
  case (Unpin i)
  then show ?thesis using assms(1)
    by (auto simp: pins_ok_def unpin_item_def distinct_map_filter)
next
  case (ClearAll b)
  then show ?thesis using assms(1) by (simp add: pins_ok_def clear_workspace_def)
qed

text \<open>The three lists of a running application: the browser keeps the text of the one saved last.\<close>

definition keeps :: "evidence_app \<Rightarrow> jsval list \<times> jsval list \<times> jsval list \<Rightarrow> bool" where
  "keeps a t \<longleftrightarrow> (case t of (xs, ys, zs) \<Rightarrow> pins_ok xs \<and> pins_ok ys \<and> pins_ok zs \<and>
     outer_pins a = JArr xs \<and> inner_pins a = JArr ys \<and>
     local_get (app_browser a) storage_key = Some (stringify (JArr zs)))"

lemma stringify_not_empty: "stringify (JArr xs) \<noteq> []"
  by (simp add: stringify.simps)

lemma parse_pins: "pins_ok xs \<Longrightarrow> parse_json (stringify (JArr xs)) = Some (JArr xs)"
  by (intro parse_stringify) (simp add: pins_ok_def)

lemma mount_stored:
  assumes "local_get b storage_key = Some (stringify (JArr xs))" and "pins_ok xs"
  shows "pinned (mount_provider b) = JArr xs"
    "local_get (browser_of (mount_provider b)) storage_key = Some (stringify (JArr xs))"
  using assms parse_pins [OF assms(2)] stringify_not_empty
  by (simp_all add: mount_provider_def Let_def load_effect_def save_effect_def local.fetch_store)

lemma mount_fresh:
  assumes "local_get b storage_key = None"
  shows "pinned (mount_provider b) = JArr []"
    "local_get (browser_of (mount_provider b)) storage_key = Some (stringify (JArr []))"
  using assms by (simp_all add: mount_provider_def Let_def load_effect_def save_effect_def local.fetch_store)

lemma pins_ok_Nil: "pins_ok []"
  by (simp add: pins_ok_def)

lemma open_fresh: "local_get b storage_key = None \<Longrightarrow> keeps (open_app b) ([], [], [])"
  using mount_fresh [of b] mount_stored [of "browser_of (mount_provider b)" "[]"]
  by (simp add: open_app_def Let_def keeps_def pins_ok_Nil)

lemma keeps_step:
  assumes "keeps a t" and "app_event_ok e"
  shows "keeps (app_step e a) (list_step e t)"
proof -
  obtain xs ys zs where t: "t = (xs, ys, zs)" by (cases t)
  have ok: "pins_ok xs" "pins_ok ys" "pins_ok zs" and a: "outer_pins a = JArr xs" "inner_pins a = JArr ys"
    and st: "local_get (app_browser a) storage_key = Some (stringify (JArr zs))"
    using assms(1) by (simp_all add: t keeps_def)
  note mounted = mount_stored [OF st ok(3)]
  show ?thesis
  proof (cases e)
    case (PinDetection item now)
    then show ?thesis
      using pin_step_ok [OF ok(1), of "Pin item now"] assms(2) ok a st
      by (simp add: t keeps_def app_event_ok_def in_outer_def act_def save_effect_def local.fetch_store)
  next
    case (InFrame f)
    then show ?thesis
      using pin_step_ok [OF ok(2), of f] assms(2) ok a st
      by (simp add: t keeps_def app_event_ok_def in_inner_def act_def save_effect_def local.fetch_store)
  next
    case Visit
    then show ?thesis using mounted ok a by (simp add: t keeps_def in_inner_def)
  next
    case Reload
    then show ?thesis
      using mounted mount_stored [OF mounted(2) ok(3)] ok by (simp add: t keeps_def open_app_def Let_def)
  qed
qed

lemma keeps_run: "keeps a t \<Longrightarrow> list_all app_event_ok es \<Longrightarrow> keeps (fold app_step es a) (fold list_step es t)"
  by (induction es arbitrary: a t) (simp_all add: keeps_step)

lemma keeps_lists: "keeps a t \<Longrightarrow> app_lists a = Some t"
  by (cases t) (simp add: keeps_def app_lists_def parse_pins)

text \<open>C33. The evidence of the two providers refines three plain lists, whatever is pinned, removed and cleared and
  however often pages are visited and the application is loaded anew, from a browser with nothing stored: a visited page
  shows in its workspace exactly the list that either provider saved last, read back from the browser's storage, and
  after a reload both do; and in no list two items share an id.\<close>

theorem workspace_shows_last_save:
  assumes "local_get b storage_key = None" and "list_all app_event_ok es"
  shows "app_lists (fold app_step es (open_app b)) = Some (fold list_step es ([], [], []))
    \<and> (case fold list_step es ([], [], []) of (xs, ys, zs) \<Rightarrow>
        distinct (map item_id xs) \<and> distinct (map item_id ys) \<and> distinct (map item_id zs))"
proof -
  have "keeps (fold app_step es (open_app b)) (fold list_step es ([], [], []))"
    by (rule keeps_run [OF open_fresh [OF assms(1)] assms(2)])
  then show ?thesis using keeps_lists by (auto simp: keeps_def pins_ok_def)
qed

definition pin_named :: "string \<Rightarrow> jsval jsobj" where
  "pin_named i = [(''id'', JStr i)]"

definition pinned_as :: "string \<Rightarrow> jsval" where
  "pinned_as i = JObj [(''id'', JStr i), (''pinnedAt'', JStr ''now'')]"

theorem workspace_shows_last_save_witness:
  "app_lists (fold app_step [InFrame (Pin (pin_named ''e1'') ''now''), Reload, Visit] (open_app sample_browser)) =
   Some ([pinned_as ''e1''], [pinned_as ''e1''], [pinned_as ''e1''])"
  using workspace_shows_last_save [of sample_browser "[InFrame (Pin (pin_named ''e1'') ''now''), Reload, Visit]"]
  by (simp add: sample_browser_def local_get_def app_event_ok_def event_ok_def pin_named_def pinned_as_def pin_item_def obj_put_def)

text \<open>So the two lists overwrite each other: after a pin on a page of detections the next page shows the outer list with
  that pin.  What was pinned in the frame since the application was loaded is lost, and what was removed there is back.\<close>

theorem detection_pin_replaces_workspace:
  assumes "local_get b storage_key = None" and "list_all app_event_ok es" and "json_wf (JObj item)"
    and "fold list_step es ([], [], []) = (xs, ys, zs)" and "map_of item ''id'' \<notin> item_id ` set xs"
  shows "inner_pins (fold app_step (es @ [PinDetection item now, Visit]) (open_app b)) = JArr (pin_item item now xs)"
proof -
  have "list_all app_event_ok (es @ [PinDetection item now, Visit])"
    using assms(2,3) by (simp add: app_event_ok_def event_ok_def)
  from keeps_run [OF open_fresh [OF assms(1)] this]
  have "keeps (fold app_step (es @ [PinDetection item now, Visit]) (open_app b))
      (list_step Visit (list_step (PinDetection item now) (xs, ys, zs)))"
    by (simp add: assms(4) del: list_step.simps app_step.simps)
  moreover have "makes_array (Pin item now) xs" using assms(5) by (force simp: list_ex_iff)
  ultimately show ?thesis by (simp add: keeps_def del: makes_array.simps app_step.simps)
qed

theorem detection_pin_replaces_workspace_witness:
  "inner_pins (fold app_step [InFrame (Pin (pin_named ''e1'') ''now''), PinDetection (pin_named ''h1'') ''now'', Visit]
     (open_app sample_browser)) = JArr [pinned_as ''h1'']
   \<and> inner_pins (fold app_step [PinDetection (pin_named ''h1'') ''now'', Visit, InFrame (Unpin ''h1''),
       PinDetection (pin_named ''h2'') ''now'', Visit] (open_app sample_browser)) = JArr [pinned_as ''h2'', pinned_as ''h1'']"
proof -
  have b: "local_get sample_browser storage_key = None" by (simp add: sample_browser_def local_get_def)
  note run = app_event_ok_def event_ok_def pin_named_def pinned_as_def pin_item_def unpin_item_def item_id_def obj_put_def
  show ?thesis
    using detection_pin_replaces_workspace [OF b, of "[InFrame (Pin (pin_named ''e1'') ''now'')]" "pin_named ''h1''" _ _ _ "''now''"]
      detection_pin_replaces_workspace [OF b, of "[PinDetection (pin_named ''h1'') ''now'', Visit, InFrame (Unpin ''h1'')]"
        "pin_named ''h2''" _ _ _ "''now''"]
    by (simp add: run)
qed

text \<open>Dragging does not keep the panel in the viewport: the collapsed panel can only be moved to the right,
  and a drag of forty pixels or more puts its toggle entirely beyond the right edge of the window.\<close>

theorem panel_dragged_off_screen:
  assumes "\<not> expanded p" and "40 \<le> d" and "80 \<le> vw" and "d \<le> vw - 40" and "pos_x p = 0"
  shows "panel_left_edge vw (mouse_move vw vh (cx + d) cy (mouse_down cx cy p)) \<ge> vw \<and>
    pos_x (mouse_move vw vh (cx - d) cy (mouse_down cx cy p)) = 0"
  using assms by (simp add: mouse_move_def mouse_down_def panel_left_edge_def panel_right_edge_def panel_width_def)

theorem panel_dragged_off_screen_witness:
  "panel_left_edge 1280 (mouse_move 1280 720 1300 130 (mouse_down 1260 130 initial_panel)) \<ge> 1280"
  using panel_dragged_off_screen [of initial_panel 40 1280 720 1260 130]
  by (simp add: initial_panel_def)

end
