(* ===== verification/Layout.thy ===== *)
theory Layout
  imports Auth Dashboard
begin

text \<open>
  \<open>components/layout/AppLayout.tsx\<close> and \<open>AppSidebar.tsx\<close>, which surround every page: the active case that is
  kept in the session storage, the shared queries and what is derived from them, the command palette, the
  navigation by role and the logout; and the badges and panels that only choose a style
  (\<open>StatusBadge.tsx\<close>, \<open>SeverityBadge.tsx\<close>, \<open>EvidenceIntegrityBadge.tsx\<close>, \<open>TacticalPanel.tsx\<close>,
  \<open>WarningBanner.tsx\<close>, \<open>ProgressPhase.tsx\<close>).
\<close>

section \<open>Badges and panels\<close>

text \<open>An entry of a style table, or the default.\<close>

definition style_or :: "string \<Rightarrow> (string \<times> string) list \<Rightarrow> string \<Rightarrow> string" where
  "style_or dflt tbl k = (case map_of tbl k of Some c \<Rightarrow> c
     | None \<Rightarrow> (case map_of tbl dflt of Some c \<Rightarrow> c | None \<Rightarrow> []))"

definition status_badge_styles :: "(string \<times> string) list" where
  "status_badge_styles = [
    (''pending'', ''border-border/40 bg-secondary/30 text-muted-foreground''),
    (''running'', ''border-primary/50 bg-primary/10 text-primary animate-pulse''),
    (''active'', ''border-yellow-500/40 bg-yellow-500/10 text-yellow-400''),
    (''complete'', ''border-green-500/40 bg-green-500/10 text-green-400''),
    (''verified'', ''border-green-500/60 bg-green-500/20 text-green-400 shadow-[0_0_8px_rgba(34,197,94,0.2)]''),
    (''failed'', ''border-destructive/40 bg-destructive/10 text-destructive''),
    (''locked'', ''border-primary/40 bg-secondary/50 text-primary/80''),
    (''idle'', ''border-border/20 bg-secondary/10 text-muted-foreground/60'')]"

definition status_badge :: "string \<Rightarrow> string \<Rightarrow> bool \<Rightarrow> string \<times> string option" where
  "status_badge st label icon_only =
     (style_or ''pending'' status_badge_styles (to_lower st),
      if icon_only then None else Some (if label \<noteq> [] then label else spaced (to_upper st)))"

definition severity_badge_styles :: "(string \<times> string) list" where
  "severity_badge_styles = [
    (''informational'', ''border-blue-500/30 bg-blue-500/10 text-blue-400''),
    (''low'', ''border-green-500/30 bg-green-500/10 text-green-400''),
    (''medium'', ''border-yellow-500/30 bg-yellow-500/10 text-yellow-400''),
    (''high'', ''border-orange-500/40 bg-orange-500/15 text-orange-400''),
    (''critical'', ''border-destructive/50 bg-destructive/20 text-destructive animate-pulse shadow-[0_0_10px_rgba(220,38,38,0.2)]'')]"

definition severity_badge :: "string \<Rightarrow> string \<Rightarrow> bool \<Rightarrow> string \<times> string option" where
  "severity_badge sev label icon_only =
     (style_or ''informational'' severity_badge_styles (to_lower sev),
      if icon_only then None else Some (if label \<noteq> [] then label else to_upper sev))"

definition integrity_badge_styles :: "(string \<times> string) list" where
  "integrity_badge_styles = [
    (''LOCKED'', ''border-primary/30 bg-secondary/40 text-primary/70''),
    (''HASH_VERIFIED'', ''border-green-500/40 bg-green-500/10 text-green-400''),
    (''CHAIN_VERIFIED'', ''border-green-500/60 bg-green-500/20 text-green-400 shadow-[0_0_8px_rgba(34,197,94,0.2)]''),
    (''EXPORT_SIGNED'', ''border-blue-500/40 bg-blue-500/10 text-blue-400''),
    (''FAILED'', ''border-destructive/40 bg-destructive/10 text-destructive'')]"

definition integrity_badge :: "string \<Rightarrow> string \<Rightarrow> string \<times> string" where
  "integrity_badge st label = (style_or ''LOCKED'' integrity_badge_styles (to_upper st),
     if label \<noteq> [] then label else spaced (to_upper st))"

definition panel_status_color :: "string \<Rightarrow> string option" where
  "panel_status_color st = map_of [
    (''online'', ''bg-status-online shadow-[0_0_8px_rgba(21,245,116,0.5)]''),
    (''offline'', ''bg-status-offline shadow-[0_0_8px_rgba(239,68,68,0.5)]''),
    (''warning'', ''bg-status-pending shadow-[0_0_8px_rgba(245,158,11,0.5)]''),
    (''active'', ''bg-status-online animate-pulse shadow-[0_0_10px_rgba(21,245,116,0.6)]''),
    (''locked'', ''bg-status-locked''),
    (''verified'', ''bg-status-verified shadow-[0_0_8px_rgba(34,197,94,0.5)]'')] st"

definition warning_banner_class :: "string \<Rightarrow> string" where
  "warning_banner_class v = (if v = ''warning'' then ''warning-banner'' else ''critical-banner'')"

record progress_phase =
  pp_id :: string
  pp_name :: string
  pp_status :: string
  pp_progress :: "int option"

text \<open>Icon and text colour of a phase, and the progress text of an active one.\<close>

definition phase_icon :: "string \<Rightarrow> string" where
  "phase_icon st = (if st = ''complete'' then ''Check'' else if st = ''active'' then ''Loader2''
     else if st = ''error'' then ''Circle text-destructive'' else ''Circle text-muted-foreground'')"

definition phase_color :: "string \<Rightarrow> string" where
  "phase_color st = (if st = ''complete'' then ''text-primary'' else if st = ''active'' then ''text-foreground''
     else if st = ''error'' then ''text-destructive'' else ''text-muted-foreground'')"

definition phase_progress :: "progress_phase \<Rightarrow> string option" where
  "phase_progress p = (if pp_status p = ''active'' then map_option (\<lambda>n. int_str n @ ''%'') (pp_progress p) else None)"

section \<open>The layout\<close>

definition active_incident_key :: string where
  "active_incident_key = ''dfir_active_incident_id''"

record layout =
  palette_open :: bool
  sidebar_collapsed :: bool
  current_user :: "(jsval \<times> jsval) option"
  selected_incident :: string
  lay_browser :: browser

definition mobile_width :: "nat \<Rightarrow> bool" where
  "mobile_width w \<longleftrightarrow> w \<le> 767"

definition mount_layout :: "nat \<Rightarrow> browser \<Rightarrow> layout" where
  "mount_layout width b = \<lparr>palette_open = False, sidebar_collapsed = mobile_width width, current_user = None,
     selected_incident = (case session_get b active_incident_key of Some i \<Rightarrow> i | None \<Rightarrow> []), lay_browser = b\<rparr>"

definition width_changed :: "nat \<Rightarrow> layout \<Rightarrow> layout" where
  "width_changed w s = (if mobile_width w then s\<lparr>sidebar_collapsed := True\<rparr> else s)"

text \<open>\<open>/^\/(?:incidents|evidence)\/([^/]+)/\<close> on the path.\<close>

definition after_prefix :: "string \<Rightarrow> string \<Rightarrow> string option" where
  "after_prefix p s = (if starts_with p s then Some (drop (length p) s) else None)"

definition incident_id_from_route :: "string \<Rightarrow> string option" where
  "incident_id_from_route path =
     (let ids = \<lambda>rest. (let i = takeWhile (\<lambda>c. c \<noteq> CHR ''/'') rest in if i = [] then None else Some i)
      in case after_prefix ''/incidents/'' path of Some rest \<Rightarrow> ids rest
       | None \<Rightarrow> (case after_prefix ''/evidence/'' path of Some rest \<Rightarrow> ids rest | None \<Rightarrow> None))"

definition route_effect :: "layout \<Rightarrow> layout" where
  "route_effect s = (case incident_id_from_route (pathname (lay_browser s)) of None \<Rightarrow> s
     | Some i \<Rightarrow> s\<lparr>selected_incident := i, lay_browser := session_put active_incident_key i (lay_browser s)\<rparr>)"

definition active_incident_id :: "layout \<Rightarrow> string" where
  "active_incident_id s = (case incident_id_from_route (pathname (lay_browser s)) of Some i \<Rightarrow> i | None \<Rightarrow> selected_incident s)"

definition palette_key :: "string \<Rightarrow> bool \<Rightarrow> bool \<Rightarrow> layout \<Rightarrow> layout" where
  "palette_key key meta ctrl s = (if key = ''k'' \<and> (meta \<or> ctrl) then s\<lparr>palette_open := \<not> palette_open s\<rparr> else s)"

text \<open>The client side router: a new path, and the effect that depends on it.\<close>

definition navigate_to :: "string \<Rightarrow> layout \<Rightarrow> layout" where
  "navigate_to p s = route_effect (s\<lparr>lay_browser := assign_location p [] (lay_browser s)\<rparr>)"

definition run_command :: "string \<Rightarrow> layout \<Rightarrow> layout" where
  "run_command p s = navigate_to p (s\<lparr>palette_open := False\<rparr>)"

definition evidence_command :: "layout \<Rightarrow> string" where
  "evidence_command s = (if active_incident_id s \<noteq> [] then ''/evidence/'' @ active_incident_id s else ''/evidence'')"

definition select_active_incident :: "string \<Rightarrow> layout \<Rightarrow> layout" where
  "select_active_incident i s = (let s1 = s\<lparr>selected_incident := i\<rparr>
     in if i \<noteq> [] then navigate_to (''/incidents/'' @ i) (s1\<lparr>lay_browser := session_put active_incident_key i (lay_browser s1)\<rparr>)
        else s1\<lparr>lay_browser := session_remove active_incident_key (lay_browser s1)\<rparr>)"

text \<open>Who is shown in the footer: the stored session first, then the server's answer.\<close>

definition user_effect :: "(layout, string \<times> string, unit, unit) io" where
  "user_effect = Update (\<lambda>s. case get_stored_auth (lay_browser s) of
        Some a \<Rightarrow> s\<lparr>current_user := Some (username a, role a)\<rparr> | None \<Rightarrow> s)
     (tryCatch (apiGet ''/users/me'' (\<lambda>(u, r). Update (\<lambda>s. s\<lparr>current_user := Some (JStr u, JStr r)\<rparr>) Done)) (\<lambda>_. Done))"

text \<open>The shared queries: the ten newest cases with status ACTIVE, and the collectors.\<close>

definition minimal_incidents_path :: string where
  "minimal_incidents_path = ''/incidents?limit=10&status=ACTIVE''"

definition layout_active_incidents :: "incident list \<Rightarrow> nat" where
  "layout_active_incidents incs = length (filter (\<lambda>i. i_status i \<noteq> ''CLOSED'') incs)"

definition layout_online :: "dash_collector list \<Rightarrow> nat" where
  "layout_online cs = length (filter (\<lambda>c. dc_status c \<noteq> ''OFFLINE'') cs)"

definition layout_collecting :: "incident list \<Rightarrow> bool" where
  "layout_collecting incs = list_ex (\<lambda>i. i_status i = ''COLLECTION_IN_PROGRESS'') incs"

definition ticker_separator :: string where
  "ticker_separator = ''  '' @ [CHR 0xE2, CHR 0x80, CHR 0xA2] @ ''  ''"

definition ticker_text :: "incident list \<Rightarrow> string" where
  "ticker_text incs = join_with ticker_separator (map (\<lambda>i. ''[INCIDENT '' @ i_id i @ '' - '' @ i_type i @ '']'') (take 3 incs)) @
     ticker_separator @ ''COLLECTOR HEARTBEAT: STABLE'' @ ticker_separator @ ''STORAGE INTEGRITY: 100%'' @ ticker_separator @
     ''ENCRYPTION: AES-256-GCM ACTIVE''"

definition palette_incidents :: "incident list \<Rightarrow> (string \<times> string) list" where
  "palette_incidents incs = map (\<lambda>i. (i_id i, ''/incidents/'' @ i_id i)) (take 5 (filter (\<lambda>i. i_status i \<noteq> ''CLOSED'') incs))"

definition palette_collectors :: "dash_collector list \<Rightarrow> (string \<times> string) list" where
  "palette_collectors cs = map (\<lambda>c. (dc_name c, ''/agents/'' @ dc_id c @ ''/console'')) (take 5 (filter (\<lambda>c. dc_status c \<noteq> ''OFFLINE'') cs))"

definition warning_banner :: "bool \<Rightarrow> string \<Rightarrow> incident list \<Rightarrow> string option" where
  "warning_banner show msg incs = (if show \<or> layout_collecting incs
     then Some (if msg \<noteq> [] then msg else ''COLLECTION IN PROGRESS '' @ em_dash @ '' DO NOT INTERRUPT TARGET SYSTEMS'') else None)"

definition case_options :: "incident list \<Rightarrow> (string \<times> string) list" where
  "case_options incs = ([], ''SELECT CASE'') # map (\<lambda>i. (i_id i, i_id i @ '' '' @ [CHR 0xC2, CHR 0xB7] @ '' '' @ spaced (i_type i))) incs"

section \<open>The sidebar\<close>

record nav_item =
  nav_label :: string
  nav_path :: string
  nav_admin :: bool

definition nav :: "string \<Rightarrow> string \<Rightarrow> bool \<Rightarrow> nav_item" where
  "nav l p a = \<lparr>nav_label = l, nav_path = p, nav_admin = a\<rparr>"

definition nav_sections :: "(string \<times> nav_item list) list" where
  "nav_sections = [
    (''Investigate'', [nav ''DASHBOARD'' ''/dashboard'' False, nav ''CREATE INCIDENT'' ''/incidents/create'' False]),
    (''Collect'', [nav ''DEVICES'' ''/devices'' False, nav ''COLLECTORS'' ''/collectors'' False,
       nav ''TEMPLATES'' ''/incident-templates'' False, nav ''SCHEDULED'' ''/scheduled-collections'' False]),
    (''Evidence'', [nav ''EVIDENCE VAULT'' ''/evidence'' False, nav ''CHAIN OF CUSTODY'' ''/chain-of-custody'' False]),
    (''Hunt'', [nav ''THREAT HUNT'' ''/threat-hunt'' False, nav ''CORRELATE'' ''/correlate'' False,
       nav ''THREAT INTEL'' ''/threat-intel'' False]),
    (''System'', [nav ''CUSTOM MODULES'' ''/admin/custom-modules'' True, nav ''SETTINGS'' ''/admin/settings'' True])]"

definition visible_sections :: "browser \<Rightarrow> (string \<times> nav_item list) list" where
  "visible_sections b = filter (\<lambda>(l, items). items \<noteq> [])
     (map (\<lambda>(l, items). (l, filter (\<lambda>i. \<not> nav_admin i \<or> get_stored_role b = Some (JStr ''admin'')) items)) nav_sections)"

definition nav_target :: "string \<Rightarrow> nav_item \<Rightarrow> string" where
  "nav_target active i = (if nav_path i = ''/evidence'' \<and> active \<noteq> [] then ''/evidence/'' @ active else nav_path i)"

definition nav_is_active :: "string \<Rightarrow> string \<Rightarrow> nav_item \<Rightarrow> bool" where
  "nav_is_active path active i \<longleftrightarrow> path = nav_target active i \<or> starts_with (nav_target active i @ ''/'') path"

definition nav_clicked :: "nat \<Rightarrow> nav_item \<Rightarrow> layout \<Rightarrow> layout" where
  "nav_clicked width i s = (let s1 = navigate_to (nav_target (active_incident_id s) i) s
     in if mobile_width width then s1\<lparr>sidebar_collapsed := True\<rparr> else s1)"

definition toggle_collapsed :: "layout \<Rightarrow> layout" where
  "toggle_collapsed s = s\<lparr>sidebar_collapsed := \<not> sidebar_collapsed s\<rparr>"

text \<open>The logout does not wait for its request, whose failure is ignored.\<close>

definition logout_state :: "string \<Rightarrow> browser \<Rightarrow> browser" where
  "logout_state now b = assign_location ''/login'' [] (local_put ''dfir_logout_reason''
     (stringify (JObj [(''reason'', JStr ''manual''), (''timestamp'', JStr now)]))
     (local_remove ''dfir_logout_reason'' (clear_stored_auth b)))"

definition handle_logout :: "string \<Rightarrow> (layout, unit, unit, unit) io" where
  "handle_logout now = Emit (Sent (Request POST ''/auth/logout'' (Some ())))
     (Update (\<lambda>s. s\<lparr>lay_browser := logout_state now (lay_browser s)\<rparr>) (Emit (Navigate ''/login'') Done))"

section \<open>Lemmas\<close>

lemma after_prefix_append [simp]: "after_prefix p (p @ t) = Some t"
  by (simp add: after_prefix_def starts_with_def)

lemma takeWhile_id:
  "CHR ''/'' \<notin> set i \<Longrightarrow> rest = [] \<or> hd rest = CHR ''/'' \<Longrightarrow> takeWhile (\<lambda>c. c \<noteq> CHR ''/'') (i @ rest) = i"
  by (induction i) (cases rest, auto)

lemma route_of_case:
  "base = ''/incidents/'' \<or> base = ''/evidence/'' \<Longrightarrow> incident_id_from_route (base @ t)
     = (if takeWhile (\<lambda>c. c \<noteq> CHR ''/'') t = [] then None else Some (takeWhile (\<lambda>c. c \<noteq> CHR ''/'') t))"
  by (elim disjE) (simp_all add: incident_id_from_route_def after_prefix_def starts_with_def)

lemma session_keys_differ: "active_incident_key \<noteq> auth_storage_key"
  by (simp add: active_incident_key_def auth_storage_key_def)

text \<open>The statuses of a case have no style of their own but two: a failed collection looks like a pending one; and a
  folder that is not there looks locked.\<close>

lemma lower_incident_statuses:
  "to_lower ''COLLECTION_IN_PROGRESS'' = ''collection_in_progress''" "to_lower ''COLLECTION_COMPLETE'' = ''collection_complete''"
  "to_lower ''COLLECTION_FAILED'' = ''collection_failed''" "to_lower ''CLOSED'' = ''closed''"
  "to_lower ''PENDING'' = ''pending''"
  by (simp_all add: to_lower_def lower_char_def char_of_def bit_0)

lemma status_badge_of_incidents:
  assumes "st \<in> set [''COLLECTION_IN_PROGRESS'', ''COLLECTION_COMPLETE'', ''COLLECTION_FAILED'', ''CLOSED'']"
  shows "fst (status_badge st label b) = fst (status_badge ''PENDING'' label b)"
proof -
  have "map_of status_badge_styles (to_lower st) = None"
    using assms by (auto simp: lower_incident_statuses status_badge_styles_def)
  then show ?thesis by (simp add: status_badge_def style_or_def lower_incident_statuses split: option.split)
qed

lemma integrity_badge_default: "fst (integrity_badge ''PENDING'' []) = fst (integrity_badge ''LOCKED'' [])"
proof -
  have "to_upper ''PENDING'' = ''PENDING''" "to_upper ''LOCKED'' = ''LOCKED''"
    by (simp_all add: to_upper_def upper_char_def char_of_def bit_0)
  then show ?thesis by (simp add: integrity_badge_def style_or_def integrity_badge_styles_def)
qed

section \<open>Properties\<close>

text \<open>The path of a case, of its evidence or of a page below either makes it the active case: the sidebar's
  evidence item and the palette lead to its evidence, also after leaving for a page without a case.\<close>

theorem visited_case_is_active:
  assumes "i \<noteq> []" "CHR ''/'' \<notin> set i" "rest = [] \<or> hd rest = CHR ''/''" "base = ''/incidents/'' \<or> base = ''/evidence/''"
    and "incident_id_from_route p = None"
  shows "session_get (lay_browser (navigate_to p (navigate_to (base @ i @ rest) s))) active_incident_key = Some i
     \<and> evidence_command (navigate_to p (navigate_to (base @ i @ rest) s)) = ''/evidence/'' @ i"
proof -
  have "incident_id_from_route (base @ i @ rest) = Some i"
    unfolding route_of_case [OF assms(4)] takeWhile_id [OF assms(2,3)] by (simp add: assms(1))
  then show ?thesis
    using assms(1,5)
    by (simp add: navigate_to_def route_effect_def evidence_command_def active_incident_id_def session.fetch_store)
qed

theorem visited_case_is_active_witness:
  "evidence_command (navigate_to ''/devices'' (navigate_to ''/incidents/INC-1/setup'' (mount_layout 1000 sample_browser)))
     = ''/evidence/INC-1''
   \<and> evidence_command (navigate_to ''/dashboard'' (navigate_to ''/incidents/create'' (mount_layout 1000 sample_browser)))
     = ''/evidence/create''"
  using visited_case_is_active [of "''INC-1''" "''/setup''" "''/incidents/''" "''/devices''" "mount_layout 1000 sample_browser"]
    visited_case_is_active [of "''create''" "[]" "''/incidents/''" "''/dashboard''" "mount_layout 1000 sample_browser"]
  by (simp add: incident_id_from_route_def after_prefix_def starts_with_def)

text \<open>The layout's own warning never appears: it looks for a running collection among cases that it asked
  the server to restrict to status ACTIVE.\<close>

theorem layout_never_warns:
  assumes "\<forall>i \<in> set items. inc_status i = ''ACTIVE''"
  shows "warning_banner False msg (map map_incident items) = None"
  using assms by (auto simp: warning_banner_def layout_collecting_def list_ex_iff map_incident_def)

definition sample_incident :: "string \<Rightarrow> incident_response" where
  "sample_incident st = \<lparr>inc_id = ''INC-1'', inc_type = ''MALWARE'', inc_status = st, inc_template = None, inc_targets = [],
     inc_operator = ''ANA'', inc_created = ''c'', inc_updated = ''u''\<rparr>"

theorem layout_never_warns_witness:
  "warning_banner False [] (map map_incident [sample_incident ''ACTIVE'']) = None
   \<and> warning_banner False [] (map map_incident [sample_incident ''COLLECTION_IN_PROGRESS'']) \<noteq> None"
  using layout_never_warns [of "[sample_incident ''ACTIVE'']" "[]"]
  by (simp add: sample_incident_def warning_banner_def layout_collecting_def map_incident_def)

text \<open>The items whose page the route table refuses in this session.\<close>

definition dead_links :: "(jsval \<Rightarrow> int option) \<Rightarrow> int \<Rightarrow> browser \<Rightarrow> string list" where
  "dead_links dp now b = map nav_label (filter (\<lambda>i. \<not> list_ex (\<lambda>r. pattern r = nav_path i \<and>
     render_route dp now b r = Page (element r)) app_routes) (concat (map snd (visible_sections b))))"

lemma route_open:
  assumes "is_session_valid dp now b" and "get_stored_role b = Some (JStr r)" and "r \<noteq> []"
  shows "(render_route dp now b x = Page (element x)) =
      (case route_guard x of ProtectedRoles roles \<Rightarrow> r \<in> set roles | _ \<Rightarrow> True)"
proof (cases "route_guard x")
  case (ProtectedRoles roles)
  then show ?thesis using assms by (simp add: role_page_iff truthy_def)
qed (use assms(1) in \<open>simp_all add: render_route_def protected_renders\<close>)

text \<open>The same by the guards alone.\<close>

definition refused_items :: "string \<Rightarrow> string list" where
  "refused_items r = map nav_label (filter (\<lambda>i. \<not> list_ex (\<lambda>x. pattern x = nav_path i \<and>
     (case route_guard x of ProtectedRoles roles \<Rightarrow> r \<in> set roles | _ \<Rightarrow> True)) app_routes)
     (filter (\<lambda>i. \<not> nav_admin i \<or> r = ''admin'') (concat (map snd nav_sections))))"

lemma concat_visible_sections:
  "concat (map snd (visible_sections b)) =
     filter (\<lambda>i. \<not> nav_admin i \<or> get_stored_role b = Some (JStr ''admin'')) (concat (map snd nav_sections))"
proof -
  have "concat (map snd (filter (\<lambda>(l, items). items \<noteq> []) (map (\<lambda>(l, items). (l, filter P items)) xs))) =
      filter P (concat (map snd xs))" for P and xs :: "(string \<times> nav_item list) list"
    by (induction xs) auto
  then show ?thesis by (simp add: visible_sections_def)
qed

lemma refused_items_eval:
  "refused_items ''admin'' = []" "refused_items ''operator'' = []"
  "refused_items ''viewer'' = [''CREATE INCIDENT'', ''THREAT INTEL'']"
  by code_simp+

text \<open>With a live session the sidebar leads an administrator and an operator only to pages they may open;
  a viewer is also offered the pages that open a case and that read the threat intelligence, which refuse.\<close>

theorem sidebar_dead_links:
  assumes "is_session_valid dp now b" and "get_stored_role b = Some (JStr r)"
    and "r \<in> set [''admin'', ''operator'', ''viewer'']"
  shows "dead_links dp now b = (if r = ''viewer'' then [''CREATE INCIDENT'', ''THREAT INTEL''] else [])"
proof -
  have ne: "r \<noteq> []" using assms(3) by auto
  have "dead_links dp now b = refused_items r"
    by (simp add: dead_links_def refused_items_def concat_visible_sections route_open [OF assms(1,2) ne] assms(2))
  then show ?thesis using assms(3) by (auto simp: refused_items_eval)
qed

theorem sidebar_dead_links_witness:
  "dead_links (\<lambda>_. Some 9) 5 (live_browser ''viewer'') = [''CREATE INCIDENT'', ''THREAT INTEL'']"
  using sidebar_dead_links [of "\<lambda>_. Some 9" 5 "live_browser ''viewer''" "''viewer''"]
  by (simp add: is_session_valid_def get_stored_role_def live_session)

text \<open>After the sidebar's logout no session is left, and the late answer of its request cannot change that:
  the reason for the login page stays the manual one and the page is not reloaded, even when the request is
  answered with 401.\<close>

theorem logout_is_final:
  "let b' = lay_browser (final_state srv yes (handle_logout now) w s)
   in get_stored_auth b' = None \<and> pathname b' = ''/login'' \<and> pathname (logout (Some ''expired'') b') = ''/login''
    \<and> location_search (logout (Some ''expired'') b') = []
    \<and> Option.bind (local_get (logout (Some ''expired'') b') ''dfir_logout_reason'') parse_json
        = Some (JObj [(''reason'', JStr ''manual''), (''timestamp'', JStr now)])"
proof -
  let ?v = "JObj [(''reason'', JStr ''manual''), (''timestamp'', JStr now)]"
  have "parse_json (stringify ?v) = Some ?v" by (rule parse_stringify) simp
  then show ?thesis
    by (simp add: handle_logout_def logout_state_def logout_def Let_def clear_stored_auth_def get_stored_auth_def
        session.fetch_forget local.fetch_store local.fetch_forget auth_storage_key_def)
      (simp add: local_put_def local_remove_def session_remove_def assign_location_def)
qed

end
