(* ===== verification/IncidentHub.thy ===== *)
theory IncidentHub
  imports Layout Api
begin

text \<open>
  \<open>pages/IncidentHub.tsx\<close>: the page of one case.  What it shows is derived from seven queries; \<open>apiGetOrNull\<close>
  turns some errors into the absence of an object, polling runs while a job or the timeline is being worked on,
  and the four stages of the workflow open the pages of the case or start the processing.
\<close>

section \<open>Data\<close>

record hub_incident =
  hi_id :: string
  hi_title :: "string option"
  hi_description :: "string option"
  hi_type :: string
  hi_status :: string
  hi_severity :: "string option"
  hi_priority :: "string option"
  hi_assignee :: "string option"
  hi_tags :: "string list"
  hi_operator :: string
  hi_targets :: "string list"
  hi_progress :: int
  hi_template :: "string option"
  hi_created :: string
  hi_updated :: string

record hub_job =
  hj_id :: string
  hj_incident :: string
  hj_job :: string
  hj_status :: string
  hj_phase :: "string option"
  hj_started :: "string option"
  hj_completed :: "string option"
  hj_error :: "string option"
  hj_created :: string

record hub_timeline =
  ht_id :: string
  ht_incident :: string
  ht_status :: string
  ht_hosts :: "int option"
  ht_events :: "int option"
  ht_error :: "string option"
  ht_started :: "string option"
  ht_completed :: "string option"
  ht_created :: string

record lateral_movement =
  lm_id :: string
  lm_type :: string
  lm_source :: string
  lm_target :: string
  lm_actor :: "string option"
  lm_confidence :: rat

record sigma_summary =
  ss_total :: int
  ss_counts :: "int jsobj"

record incident_task =
  it_id :: string
  it_title :: string
  it_status :: string
  it_assignee :: "string option"

text \<open>The data of the queries; an outer \<open>None\<close> is \<open>undefined\<close> (nothing loaded), an inner one \<open>null\<close>.\<close>

record hub =
  hub_id :: string
  q_incident :: "hub_incident option option"
  q_incident_error :: bool
  q_job :: "hub_job option option"
  q_timeline :: "hub_timeline option option"
  q_lateral :: "lateral_movement list"
  q_folders :: "evidence_folder_response list"
  q_sigma :: "sigma_summary option option"
  q_tasks :: "incident_task list"
  is_closing :: bool
  is_starting :: bool
  proc_start_error :: "string option"

definition initial_hub :: "string \<Rightarrow> hub" where
  "initial_hub i = \<lparr>hub_id = i, q_incident = None, q_incident_error = False, q_job = None, q_timeline = None, q_lateral = [],
     q_folders = [], q_sigma = None, q_tasks = [], is_closing = False, is_starting = False, proc_start_error = None\<rparr>"

datatype hub_reply = HIncident hub_incident | HJob hub_job | HTimeline hub_timeline | HDone

datatype hub_body = CloseCase | EmptyHub

type_synonym 'a hub_prog = "(hub, hub_reply, hub_body, 'a) io"
type_synonym hub_io = "unit hub_prog"

section \<open>Reading objects that may not exist\<close>

definition fmt_ts :: "(string \<Rightarrow> string) \<Rightarrow> string option \<Rightarrow> string" where
  "fmt_ts to_locale t = (case t of None \<Rightarrow> em_dash | Some x \<Rightarrow> (if x = [] then em_dash else to_locale x))"

definition means_absent :: "jserr \<Rightarrow> bool" where
  "means_absent err \<longleftrightarrow> (let msg = message_or [] err in str_includes msg ''404'' \<or> str_includes msg ''not found'')"

definition api_get_or_null :: "string \<Rightarrow> (hub_reply \<Rightarrow> 'x option) \<Rightarrow> ('x option \<Rightarrow> 'a hub_prog) \<Rightarrow> 'a hub_prog" where
  "api_get_or_null path sel k = Await (Request GET path None) (\<lambda>x. case x of
      Inl err \<Rightarrow> (if means_absent err then k None else Raise err)
    | Inr r \<Rightarrow> (case sel r of Some v \<Rightarrow> k (Some v) | None \<Rightarrow> Raise type_error))"

fun the_hub_incident where "the_hub_incident (HIncident x) = Some x" | "the_hub_incident _ = None"
fun the_hub_job where "the_hub_job (HJob x) = Some x" | "the_hub_job _ = None"
fun the_hub_timeline where "the_hub_timeline (HTimeline x) = Some x" | "the_hub_timeline _ = None"

text \<open>The queries: a failed refetch keeps the data that was there and does not throw.\<close>

definition fetch_incident :: hub_io where
  "fetch_incident = Read (\<lambda>s0. if hub_id s0 = [] then Done else tryCatch
     (api_get_or_null (''/incidents/'' @ hub_id s0) the_hub_incident (\<lambda>v.
        Update (\<lambda>s. s\<lparr>q_incident := Some v, q_incident_error := False\<rparr>) Done))
     (\<lambda>_. Update (\<lambda>s. s\<lparr>q_incident_error := True\<rparr>) Done))"

definition refetch_proc :: hub_io where
  "refetch_proc = Read (\<lambda>s0. tryCatch
     (api_get_or_null (''/processing/incident/'' @ hub_id s0 @ ''/status'') the_hub_job (\<lambda>v.
        Update (\<lambda>s. s\<lparr>q_job := Some v\<rparr>) Done))
     (\<lambda>_. Done))"

definition refetch_st :: hub_io where
  "refetch_st = Read (\<lambda>s0. tryCatch
     (api_get_or_null (''/processing/incident/'' @ hub_id s0 @ ''/super-timeline/status'') the_hub_timeline (\<lambda>v.
        Update (\<lambda>s. s\<lparr>q_timeline := Some v\<rparr>) Done))
     (\<lambda>_. Done))"

section \<open>Derived state\<close>

text \<open>\<open>x?.status\<close> of a query.\<close>

definition job_status :: "hub \<Rightarrow> string option" where
  "job_status s = (case q_job s of Some (Some j) \<Rightarrow> Some (hj_status j) | _ \<Rightarrow> None)"

definition timeline_status :: "hub \<Rightarrow> string option" where
  "timeline_status s = (case q_timeline s of Some (Some t) \<Rightarrow> Some (ht_status t) | _ \<Rightarrow> None)"

definition incident_status :: "hub \<Rightarrow> string option" where
  "incident_status s = (case q_incident s of Some (Some i) \<Rightarrow> Some (hi_status i) | _ \<Rightarrow> None)"

definition hub_polling :: "hub \<Rightarrow> bool" where
  "hub_polling s \<longleftrightarrow> job_status s \<in> {Some ''PENDING'', Some ''RUNNING''} \<or>
     timeline_status s \<in> {Some ''PENDING'', Some ''BUILDING''}"

definition hub_poll :: "string hub_prog" where
  "hub_poll = andThen refetch_proc (\<lambda>_. andThen refetch_st (\<lambda>_. Read (\<lambda>s.
     Ret ((case job_status s of Some x \<Rightarrow> x | None \<Rightarrow> ''none'') @ ''_'' @
          (case timeline_status s of Some x \<Rightarrow> x | None \<Rightarrow> ''none'')))))"

definition collection_done :: "hub \<Rightarrow> bool" where
  "collection_done s \<longleftrightarrow> incident_status s \<in> {Some ''COLLECTION_COMPLETE'', Some ''CLOSED''}"

definition proc_done :: "hub \<Rightarrow> bool" where
  "proc_done s \<longleftrightarrow> job_status s \<in> {Some ''DONE'', Some ''PARTIAL''}"

definition st_done :: "hub \<Rightarrow> bool" where
  "st_done s \<longleftrightarrow> timeline_status s = Some ''DONE''"

definition st_active :: "hub \<Rightarrow> bool" where
  "st_active s \<longleftrightarrow> timeline_status s \<in> {Some ''BUILDING'', Some ''PENDING''}"

definition proc_active :: "hub \<Rightarrow> bool" where
  "proc_active s \<longleftrightarrow> job_status s \<in> {Some ''RUNNING'', Some ''PENDING''}"

definition no_job :: "hub \<Rightarrow> bool" where
  "no_job s \<longleftrightarrow> (case q_job s of Some (Some j) \<Rightarrow> False | _ \<Rightarrow> True)"

definition hub_folder :: "hub \<Rightarrow> evidence_folder_response option" where
  "hub_folder s = find (\<lambda>f. ef_incident f = hub_id s) (q_folders s)"

definition open_tasks :: "hub \<Rightarrow> nat" where
  "open_tasks s = length (filter (\<lambda>t. it_status t \<noteq> ''DONE'' \<and> it_status t \<noteq> ''CANCELLED'') (q_tasks s))"

text \<open>Which of the queries run.\<close>

definition lateral_enabled :: "hub \<Rightarrow> bool" where
  "lateral_enabled s \<longleftrightarrow> timeline_status s = Some ''DONE''"

definition sigma_enabled :: "hub \<Rightarrow> bool" where
  "sigma_enabled s \<longleftrightarrow> job_status s = Some ''DONE'' \<or> job_status s = Some ''PARTIAL''"

section \<open>Handlers\<close>

definition handle_close_incident :: hub_io where
  "handle_close_incident = Read (\<lambda>s0. if hub_id s0 = [] \<or> is_closing s0 then Done
     else Update (\<lambda>s. s\<lparr>is_closing := True\<rparr>)
      (tryFinally
        (tryCatch
          (apiPatch (''/incidents/'' @ hub_id s0) CloseCase (\<lambda>_.
             Emit (Invalidate [''incident'', hub_id s0])
            (Emit (Toast ''Incident closed'' ''Evidence has been locked and the case is now read-only.'' ''default'') Done)))
          (\<lambda>err. Emit (Toast ''Unable to close incident'' (message_or ''Closure gate rejected the request.'' err) ''destructive'') Done))
        (Update (\<lambda>s. s\<lparr>is_closing := False\<rparr>) Done)))"

text \<open>The refetch of the job is started and not awaited: \<open>refetch_proc\<close> runs later, as a program of its own.\<close>

definition handle_start_processing :: hub_io where
  "handle_start_processing = Read (\<lambda>s0. if hub_id s0 = [] \<or> is_starting s0 then Done
     else Update (\<lambda>s. s\<lparr>is_starting := True\<rparr>)
      (Update (\<lambda>s. s\<lparr>proc_start_error := None\<rparr>)
      (tryFinally
        (tryCatch
          (apiPost (''/processing/incident/'' @ hub_id s0 @ ''/trigger'') EmptyHub (\<lambda>_.
             Emit (Invalidate [''processing-status'', hub_id s0]) Done))
          (\<lambda>err. Update (\<lambda>s. s\<lparr>proc_start_error := Some (message_or ''Activation failed'' err)\<rparr>) Done))
        (Update (\<lambda>s. s\<lparr>is_starting := False\<rparr>) Done))))"

section \<open>The workflow\<close>

datatype stage_click = GoTo string | StartProcessing

record workflow_stage =
  ws_label :: string
  ws_detail :: string
  ws_state :: string
  ws_click :: stage_click

definition stage :: "string \<Rightarrow> string \<Rightarrow> string \<Rightarrow> stage_click \<Rightarrow> workflow_stage" where
  "stage l d st c = \<lparr>ws_label = l, ws_detail = d, ws_state = st, ws_click = c\<rparr>"

definition workflow_stages :: "hub \<Rightarrow> workflow_stage list" where
  "workflow_stages s = (let collecting = (incident_status s = Some ''COLLECTION_IN_PROGRESS''); base = ''/incidents/'' @ hub_id s in
    [stage ''Collect'' (if collection_done s then ''COMPLETE'' else if collecting then ''IN PROGRESS'' else ''SETUP REQUIRED'')
       (if collection_done s then ''done'' else if collecting then ''active'' else ''ready'')
       (GoTo (base @ (if collecting then ''/collect'' else ''/setup''))),
     stage ''Process'' (if job_status s = Some ''PARTIAL'' then ''PARTIAL '' @ em_dash @ '' REVIEW COVERAGE''
         else if proc_done s then ''COMPLETE'' else if proc_active s then ''IN PROGRESS''
         else if collection_done s then ''READY'' else ''WAITING FOR COLLECTION'')
       (if proc_done s then ''done'' else if proc_active s then ''active'' else if collection_done s then ''ready'' else ''blocked'')
       (if no_job s \<and> collection_done s then StartProcessing else GoTo (base @ ''/processing'')),
     stage ''Timeline'' (if st_done s then ''COMPLETE'' else if st_active s then ''BUILDING'' else if proc_done s then ''READY''
         else ''WAITING FOR PROCESSING'')
       (if st_done s then ''done'' else if st_active s then ''active'' else if proc_done s then ''ready'' else ''blocked'')
       (GoTo (base @ ''/super-timeline'')),
     stage ''Report'' (if proc_done s then ''READY TO GENERATE'' else ''WAITING FOR PROCESSING'')
       (if proc_done s then ''ready'' else ''blocked'') (GoTo (base @ ''/report''))])"

definition stage_clicked :: "workflow_stage \<Rightarrow> hub_io" where
  "stage_clicked st = (if ws_state st = ''blocked'' then Done
     else case ws_click st of GoTo p \<Rightarrow> Emit (Navigate p) Done | StartProcessing \<Rightarrow> handle_start_processing)"

section \<open>What the page shows\<close>

datatype hub_view = HubLoading | HubError | HubPage

definition hub_view_of :: "hub \<Rightarrow> hub_view" where
  "hub_view_of s = (if q_incident s = None \<and> \<not> q_incident_error s then HubLoading
     else if q_incident_error s \<or> q_incident s = Some None then HubError else HubPage)"

definition hub_subtitle :: "hub_incident \<Rightarrow> string" where
  "hub_subtitle i = (case hi_title i of Some t \<Rightarrow> (if t \<noteq> [] then t else spaced (hi_type i)) | None \<Rightarrow> spaced (hi_type i))
     @ '' '' @ [CHR 0xC2, CHR 0xB7] @ '' '' @ spaced (hi_type i) @ '' INCIDENT''"

definition close_offered :: "jsval option \<Rightarrow> hub \<Rightarrow> bool" where
  "close_offered r s \<longleftrightarrow> incident_status s \<noteq> Some ''CLOSED'' \<and> r \<in> {Some (JStr ''admin''), Some (JStr ''operator'')}"

definition activate_offered :: "hub \<Rightarrow> bool" where
  "activate_offered s \<longleftrightarrow> no_job s \<and> collection_done s"

text \<open>A module card: its status, and whether its button works.\<close>

definition module_cards :: "hub \<Rightarrow> (string \<times> string \<times> string) list" where
  "module_cards s = (let base = ''/incidents/'' @ hub_id s; done = (\<lambda>b. if b then ''ready'' else ''unavailable'') in
    [(''Super Timeline'', (if st_done s then ''ready'' else if st_active s then ''pending'' else ''unavailable''), base @ ''/super-timeline''),
     (''Sigma Detections'', done (proc_done s), base @ ''/sigma-hits''),
     (''Processing Logs'', (if proc_active s then ''pending'' else done (collection_done s)), base @ ''/processing''),
     (''File Explorer'', done (collection_done s), ''/evidence/'' @ hub_id s),
     (''IOCs'', done (proc_done s), base @ ''/ioc-matches''),
     (''YARA'', done (proc_done s), base @ ''/yara-matches''),
     (''AI Insight'', done (proc_done s), base @ ''/ai-analysis''),
     (''Att&ck'', done (proc_done s), base @ ''/attack-chains'')])"

definition card_disabled :: "string \<Rightarrow> bool \<Rightarrow> bool" where
  "card_disabled status disabled \<longleftrightarrow> disabled \<or> status = ''unavailable''"

definition card_border :: "bool \<Rightarrow> string \<Rightarrow> string" where
  "card_border highlight status = (if highlight then ''border-primary/60 hover:border-primary shadow-[0_0_15px_rgba(21,245,116,0.05)]''
     else if status = ''warning'' then ''border-red-500/40 hover:border-red-500/60''
     else if status = ''unavailable'' then ''border-border/20 opacity-60'' else ''border-border/60 hover:border-primary/50'')"

definition card_background :: "bool \<Rightarrow> string \<Rightarrow> string" where
  "card_background highlight status = (if highlight then ''bg-primary/5 hover:bg-primary/10''
     else if status = ''warning'' then ''bg-red-500/5 hover:bg-red-500/8''
     else if status = ''unavailable'' then ''bg-secondary/5'' else ''bg-secondary/20 hover:bg-secondary/40'')"

text \<open>The heatmap of detections: one bar for every severity that occurs, with its share of the total.\<close>

definition heat_severities :: "string list" where
  "heat_severities = [''critical'', ''high'', ''medium'', ''low'', ''informational'']"

definition count_of :: "int jsobj \<Rightarrow> string \<Rightarrow> int" where
  "count_of cs k = (case map_of cs k of Some n \<Rightarrow> n | None \<Rightarrow> 0)"

definition heat_color :: "string \<Rightarrow> string" where
  "heat_color v = (if v = ''critical'' then ''bg-red-600'' else if v = ''high'' then ''bg-orange-500''
     else if v = ''medium'' then ''bg-yellow-500'' else if v = ''low'' then ''bg-green-500'' else ''bg-blue-500'')"

definition heat_total :: "int jsobj \<Rightarrow> int" where
  "heat_total cs = sum_list (map snd cs)"

definition detection_heatmap :: "int jsobj \<Rightarrow> (string \<times> rat \<times> string) list option" where
  "detection_heatmap cs = (if heat_total cs = 0 then None
     else Some (map (\<lambda>k. (heat_color k, of_int (count_of cs k) / of_int (heat_total cs) * 100,
         to_upper k @ '': '' @ int_str (count_of cs k)))
       (filter (\<lambda>k. count_of cs k \<noteq> 0) heat_severities)))"

definition severity_preview :: "sigma_summary \<Rightarrow> (string \<times> int) list" where
  "severity_preview x = take 3 (filter (\<lambda>(k, n). 0 < n) (ss_counts x))"

text \<open>The timeline of the case: lit or not, heading, text.\<close>

definition case_timeline :: "(string \<Rightarrow> string) \<Rightarrow> hub \<Rightarrow> hub_incident \<Rightarrow> (bool \<times> string \<times> string) list" where
  "case_timeline to_locale s i =
     [(True, ''CREATED'', fmt_ts to_locale (Some (hi_created i))),
      (collection_done s, ''Collection Complete'',
        if hi_status i = ''COLLECTION_COMPLETE'' then fmt_ts to_locale (Some (hi_updated i)) else ''PENDING'')] @
     (case q_job s of Some (Some j) \<Rightarrow> (case hj_completed j of
         Some c \<Rightarrow> (if c = [] then [] else [(True, ''Analysis Ready'', fmt_ts to_locale (Some c))]) | None \<Rightarrow> []) | _ \<Rightarrow> [])"

section \<open>Lemmas\<close>

lemma get_or_null_absent:
  "means_absent err \<Longrightarrow> final_state (stateless (\<lambda>_. Inl err)) yes refetch_proc w s = s\<lparr>q_job := Some None\<rparr>"
  by (simp add: refetch_proc_def api_get_or_null_def stateless_def)

text \<open>A case that is closed before anything was collected counts as collected: the processing can be started, and
  its timeline shows a lit entry that says PENDING.\<close>

lemma closed_case_counts_as_collected:
  "q_incident s = Some (Some i) \<Longrightarrow> hi_status i = ''CLOSED'' \<Longrightarrow> q_job s = Some None \<Longrightarrow>
   activate_offered s \<and> (True, ''Collection Complete'', ''PENDING'') \<in> set (case_timeline f s i)"
  by (simp add: activate_offered_def no_job_def collection_done_def incident_status_def case_timeline_def)

text \<open>Between the answer of the trigger and the refetch the button works again, and a second click triggers again.\<close>

lemma second_click_triggers_again:
  assumes "hub_id s \<noteq> []" "\<not> is_starting s"
  shows "let s1 = final_state (stateless (\<lambda>_. Inr HDone)) yes handle_start_processing () s
    in activate_offered s1 = activate_offered s \<and>
      requests_of (stateless (\<lambda>_. Inr HDone)) yes handle_start_processing () s1 =
      requests_of (stateless (\<lambda>_. Inr HDone)) yes handle_start_processing () s"
  using assms
  by (simp add: handle_start_processing_def io_simps stateless_def activate_offered_def no_job_def collection_done_def
      incident_status_def)

lemma hub_start_requests:
  "rq \<in> set (requests_of srv yes handle_start_processing w s) \<Longrightarrow>
   rq = Request POST (''/processing/incident/'' @ hub_id s @ ''/trigger'') (Some EmptyHub)"
  by (auto simp: handle_start_processing_def io_simps split: if_splits sum.splits)

lemma workflow_clicks:
  "map ws_click (workflow_stages s) =
    [GoTo (''/incidents/'' @ hub_id s @ (if incident_status s = Some ''COLLECTION_IN_PROGRESS'' then ''/collect'' else ''/setup'')),
     if no_job s \<and> collection_done s then StartProcessing else GoTo (''/incidents/'' @ hub_id s @ ''/processing''),
     GoTo (''/incidents/'' @ hub_id s @ ''/super-timeline''), GoTo (''/incidents/'' @ hub_id s @ ''/report'')]"
  by (simp only: workflow_stages_def Let_def stage_def list.map workflow_stage.select_convs append_assoc)

lemma count_absent: "\<forall>k \<in> A - fst ` set cs. count_of cs k = 0"
  by (auto simp: count_of_def map_of_eq_None_iff split: option.split) (metis fst_conv image_eqI map_of_SomeD)

lemma sum_counts:
  assumes "distinct (map fst cs)" "fst ` set cs \<subseteq> set ks" "distinct ks"
  shows "sum_list (map (count_of cs) ks) = heat_total cs"
proof -
  have "sum_list (map (count_of cs) ks) = (\<Sum>k \<in> set ks. count_of cs k)"
    using assms(3) by (simp add: sum_list_distinct_conv_sum_set)
  also have "\<dots> = (\<Sum>k \<in> fst ` set cs. count_of cs k)"
    by (rule sum.mono_neutral_right [OF finite_set assms(2) count_absent])
  also have "\<dots> = sum_list (map (count_of cs) (map fst cs))"
    using assms(1) sum_list_distinct_conv_sum_set [of "map fst cs" "count_of cs"] by simp
  also have "map (count_of cs) (map fst cs) = map snd cs"
    using assms(1) by (auto simp: count_of_def)
  finally show ?thesis by (simp add: heat_total_def)
qed

lemma sum_filter_nonzero: "sum_list (map f (filter (\<lambda>k. f k \<noteq> (0 :: int)) ks)) = sum_list (map f ks)"
  by (induction ks) auto

lemma sum_shares: "sum_list (map (\<lambda>k. of_int (f k) / (t :: rat) * 100) ks) = of_int (sum_list (map f ks)) / t * 100"
  by (induction ks) (simp_all add: add_divide_distrib distrib_right)

section \<open>Properties\<close>

text \<open>The bars of the heatmap fill it exactly: when the counts of a case are of the known severities, their
  widths are shares that add up to a hundred, and there is one bar for each severity that occurs.\<close>

theorem heatmap_fills_bar:
  assumes "distinct (map fst cs)" "fst ` set cs \<subseteq> set heat_severities" "heat_total cs \<noteq> 0"
  shows "\<exists>bars. detection_heatmap cs = Some bars \<and> sum_list (map (\<lambda>(c, w, t). w) bars) = 100 \<and>
    length bars = length (filter (\<lambda>k. count_of cs k \<noteq> 0) heat_severities)"
proof -
  have "sum_list (map (\<lambda>k. of_int (count_of cs k) / (of_int (heat_total cs) :: rat) * 100)
      (filter (\<lambda>k. count_of cs k \<noteq> 0) heat_severities)) = 100"
    unfolding sum_shares sum_filter_nonzero
    using assms sum_counts [OF assms(1,2)] by (simp add: heat_severities_def)
  then show ?thesis
    using assms(3) by (simp add: detection_heatmap_def comp_def)
qed

theorem heatmap_fills_bar_witness:
  "\<exists>bars. detection_heatmap [(''high'', 3), (''low'', 1)] = Some bars \<and> length bars = 2"
  using heatmap_fills_bar [of "[(''high'', 3), (''low'', 1)]"]
  by (auto simp: heat_severities_def heat_total_def count_of_def)

text \<open>A click on the workflow sends nothing but the trigger of the processing, and that only for a case whose
  collection is over and that has no job; a blocked stage does nothing at all.\<close>

theorem workflow_click_safe:
  assumes "st \<in> set (workflow_stages s)" and "rq \<in> set (requests_of srv yes (stage_clicked st) w s)"
  shows "rq = Request POST (''/processing/incident/'' @ hub_id s @ ''/trigger'') (Some EmptyHub)
    \<and> no_job s \<and> collection_done s \<and> ws_state st \<noteq> ''blocked''"
proof (cases "ws_state st = ''blocked''")
  case True
  then show ?thesis using assms(2) by (simp add: stage_clicked_def)
next
  case False
  then have click: "ws_click st = StartProcessing"
    using assms(2) by (auto simp: stage_clicked_def split: stage_click.splits)
  have "StartProcessing \<in> set (map ws_click (workflow_stages s))"
    using assms(1) click by (metis image_eqI set_map)
  then have "no_job s \<and> collection_done s"
    by (simp add: workflow_clicks split: if_splits)
  with False show ?thesis using assms(2) click by (auto simp: stage_clicked_def dest: hub_start_requests)
qed

definition sample_hub :: hub where
  "sample_hub = (initial_hub ''INC-1'')\<lparr>q_incident := Some (Some \<lparr>hi_id = ''INC-1'', hi_title = None, hi_description = None,
     hi_type = ''MALWARE'', hi_status = ''COLLECTION_COMPLETE'', hi_severity = None, hi_priority = None, hi_assignee = None,
     hi_tags = [], hi_operator = ''ANA'', hi_targets = [], hi_progress = 100, hi_template = None, hi_created = ''c'',
     hi_updated = ''u''\<rparr>)\<rparr>"

theorem workflow_click_safe_witness:
  "\<exists>st \<in> set (workflow_stages sample_hub). \<exists>rq \<in> set (requests_of (stateless (\<lambda>_. Inr HDone)) True (stage_clicked st) () sample_hub).
     req_path rq = ''/processing/incident/INC-1/trigger''"
proof -
  let ?st = "workflow_stages sample_hub ! 1"
  let ?rs = "requests_of (stateless (\<lambda>_. Inr HDone)) True (stage_clicked ?st) () sample_hub"
  have st: "?st \<in> set (workflow_stages sample_hub)" by (simp add: workflow_stages_def Let_def)
  have "?rs \<noteq> []"
    by (simp add: workflow_stages_def Let_def stage_def stage_clicked_def sample_hub_def initial_hub_def proc_done_def proc_active_def
        job_status_def collection_done_def incident_status_def no_job_def handle_start_processing_def io_simps stateless_def)
  then have rq: "hd ?rs \<in> set ?rs" by simp
  have "req_path (hd ?rs) = ''/processing/incident/INC-1/trigger''"
    using workflow_click_safe [OF st rq] by (simp add: sample_hub_def initial_hub_def)
  with st rq show ?thesis by blast
qed

text \<open>C6. Any failure whose text mentions 404 or the words "not found" is taken for the absence of the job: one
  such answer of the server to a poll of a running job, whatever its status, drops the job from the page, which
  then offers to start the processing that is running.\<close>

theorem server_error_offers_restart:
  assumes "means_absent (http_error txt st)" and "collection_done s"
  shows "let s' = final_state (stateless (\<lambda>_. Inl (http_error txt st))) yes refetch_proc w s
    in job_status s' = None \<and> activate_offered s'"
  using assms
  by (simp add: get_or_null_absent Let_def job_status_def activate_offered_def no_job_def collection_done_def incident_status_def)

theorem server_error_offers_restart_witness:
  "activate_offered (final_state (stateless (\<lambda>_. Inl (http_error ''tool not found'' 500))) True refetch_proc ()
     (sample_hub\<lparr>q_job := Some (Some \<lparr>hj_id = ''1'', hj_incident = ''INC-1'', hj_job = ''J'', hj_status = ''RUNNING'', hj_phase = None,
        hj_started = None, hj_completed = None, hj_error = None, hj_created = ''c''\<rparr>)\<rparr>))"
proof -
  have "means_absent (http_error ''tool not found'' 500)" by code_simp
  from server_error_offers_restart [OF this] show ?thesis
    by (simp add: Let_def sample_hub_def initial_hub_def collection_done_def incident_status_def)
qed

end
