(* ===== verification/Detections.thy ===== *)
theory Detections
  imports TimelineUtils Evidence IncidentHub
begin

text \<open>
  The detection pages: \<open>pages/SigmaHits.tsx\<close>, \<open>YaraMatches.tsx\<close>, \<open>IOCMatches.tsx\<close> and
  \<open>AttackChains.tsx\<close>.  A query is its key and what it has for that key (data, an error, or nothing while it
  loads); a reply arrives as an event.  Locale formatting is a parameter.
\<close>

datatype 'd query_state = Loading | Failed jserr | Ready 'd

definition query_data :: "'d query_state \<Rightarrow> 'd option" where
  "query_data q = (case q of Ready d \<Rightarrow> Some d | _ \<Rightarrow> None)"

text \<open>\<open>path.split(/[\/]/).pop()\<close> with both separators.\<close>

fun split_where :: "(char \<Rightarrow> bool) \<Rightarrow> string \<Rightarrow> string list" where
  "split_where P [] = [[]]"
| "split_where P (c # cs) = (if P c then [] # split_where P cs
     else (case split_where P cs of p # ps \<Rightarrow> (c # p) # ps | [] \<Rightarrow> [[c]]))"

definition path_separator :: "char \<Rightarrow> bool" where
  "path_separator c \<longleftrightarrow> c = CHR ''/'' \<or> code c = (92::nat)"

definition base_name :: "string \<Rightarrow> string" where
  "base_name path = last (split_where path_separator path)"

definition severity_colors :: "string jsobj" where
  "severity_colors = [(''critical'', ''text-red-400''), (''high'', ''text-orange-400''), (''medium'', ''text-yellow-400''),
     (''low'', ''text-blue-400''), (''informational'', ''text-muted-foreground'')]"

definition color_or_informational :: "string \<Rightarrow> string" where
  "color_or_informational v = (case map_of severity_colors v of Some c \<Rightarrow> c | None \<Rightarrow> ''text-muted-foreground'')"

definition some_text :: "string option \<Rightarrow> string option" where
  "some_text t = (case t of Some x \<Rightarrow> (if x = [] then None else Some x) | None \<Rightarrow> None)"

section \<open>Sigma hits\<close>

record sigma_hit =
  sh_id :: string
  sh_rule_id :: string
  sh_rule_name :: string
  sh_tags :: "string list"
  sh_severity :: string
  sh_description :: string
  sh_artifact :: string
  sh_timestamp :: "string option"
  sh_record_id :: "string option"
  sh_data :: "jsval jsobj"
  sh_detected :: string

record sigma_list =
  sl_total :: nat
  sl_items :: "sigma_hit list"
  sl_counts :: "nat jsobj"

definition severity_order :: "string list" where
  "severity_order = [''critical'', ''high'', ''medium'', ''low'', ''informational'']"

text \<open>The badge looks the severity up in lower case; the two other pages take it as it is.\<close>

definition severity_badge :: "string \<Rightarrow> string" where
  "severity_badge v = color_or_informational (to_lower v)"

record sigma_row =
  sr_badge :: string
  sr_name :: string
  sr_file :: string
  sr_time :: string
  sr_tags :: "string list"
  sr_more :: "string option"

definition sigma_row_of :: "(string \<Rightarrow> string) \<Rightarrow> sigma_hit \<Rightarrow> sigma_row" where
  "sigma_row_of to_locale h = \<lparr>sr_badge = severity_badge (sh_severity h), sr_name = sh_rule_name h,
     sr_file = (if sh_artifact h = [] then em_dash else base_name (sh_artifact h)),
     sr_time = fmt_ts to_locale (sh_timestamp h), sr_tags = take 2 (sh_tags h),
     sr_more = (if 2 < length (sh_tags h) then Some (''+'' @ nat_str (length (sh_tags h) - 2)) else None)\<rparr>"

record sigma_page =
  sp_severity :: "string option"
  sp_offset :: int
  sp_selected :: "sigma_hit option"
  sp_search :: string
  sp_debounce :: "string debouncer"

definition sigma_limit :: int where "sigma_limit = 50"

definition initial_sigma :: "nat \<Rightarrow> sigma_page" where
  "initial_sigma now = \<lparr>sp_severity = None, sp_offset = 0, sp_selected = None, sp_search = [],
     sp_debounce = debounce_start [] now 350\<rparr>"

text \<open>The dependencies of the effect that goes back to the first page.\<close>

definition sigma_filters :: "sigma_page \<Rightarrow> string \<times> string option" where
  "sigma_filters s = (published (sp_debounce s), sp_severity s)"

text \<open>A change of the page, rendered: the effect runs when its dependencies changed.\<close>

definition rendered :: "(sigma_page \<Rightarrow> sigma_page) \<Rightarrow> sigma_page \<Rightarrow> sigma_page" where
  "rendered f s = (let s' = f s in if sigma_filters s' = sigma_filters s then s' else s'\<lparr>sp_offset := 0\<rparr>)"

definition sigma_params :: "sigma_page \<Rightarrow> params" where
  "sigma_params s = [(''limit'', int_str sigma_limit), (''offset'', int_str (sp_offset s))] @
     set_if (some_text (sp_severity s) \<noteq> None) ''severity'' (the (sp_severity s)) @
     set_if (trim (published (sp_debounce s)) \<noteq> []) ''q'' (trim (published (sp_debounce s)))"

definition sigma_path :: "(string \<Rightarrow> string) \<Rightarrow> string \<Rightarrow> sigma_page \<Rightarrow> string" where
  "sigma_path enc i s = ''/processing/incident/'' @ i @ ''/sigma-hits?'' @ query_string enc (sigma_params s)"

text \<open>The requests of a change: the query of the render before the effect, if its key is new, and of the one after it.\<close>

definition sigma_requests :: "(string \<Rightarrow> string) \<Rightarrow> string \<Rightarrow> (sigma_page \<Rightarrow> sigma_page) \<Rightarrow> sigma_page \<Rightarrow> string list" where
  "sigma_requests enc i f s = remdups_adj (filter (\<lambda>p. p \<noteq> sigma_path enc i s)
     [sigma_path enc i (f s), sigma_path enc i (rendered f s)])"

definition sigma_total_pages :: "sigma_list query_state \<Rightarrow> int" where
  "sigma_total_pages q = (case query_data q of None \<Rightarrow> 0 | Some d \<Rightarrow> \<lceil>rat_of_nat (sl_total d) / of_int sigma_limit\<rceil>)"

definition sigma_current_page :: "sigma_page \<Rightarrow> int" where
  "sigma_current_page s = sp_offset s div sigma_limit + 1"

definition sigma_page_label :: "sigma_list query_state \<Rightarrow> sigma_page \<Rightarrow> string" where
  "sigma_page_label q s = ''Page '' @ int_str (sigma_current_page s) @ ''/'' @
     int_str (if sigma_total_pages q = 0 then 1 else sigma_total_pages q)"

definition sigma_prev :: "sigma_page \<Rightarrow> sigma_page" where
  "sigma_prev s = s\<lparr>sp_offset := max 0 (sp_offset s - sigma_limit)\<rparr>"

definition sigma_next :: "sigma_page \<Rightarrow> sigma_page" where
  "sigma_next s = s\<lparr>sp_offset := sp_offset s + sigma_limit\<rparr>"

definition prev_enabled :: "sigma_list query_state \<Rightarrow> sigma_page \<Rightarrow> bool" where
  "prev_enabled q s \<longleftrightarrow> sp_offset s \<noteq> 0 \<and> q \<noteq> Loading"

definition next_enabled :: "sigma_list query_state \<Rightarrow> sigma_page \<Rightarrow> bool" where
  "next_enabled q s \<longleftrightarrow> sigma_current_page s < sigma_total_pages q \<and> q \<noteq> Loading"

definition choose_severity :: "string option \<Rightarrow> sigma_page \<Rightarrow> sigma_page" where
  "choose_severity v = rendered (\<lambda>s. s\<lparr>sp_severity := v\<rparr>)"

definition sigma_type :: "string \<Rightarrow> nat \<Rightarrow> sigma_page \<Rightarrow> sigma_page" where
  "sigma_type v now = rendered (\<lambda>s. s\<lparr>sp_search := v, sp_debounce := debounce_change v now 350 (sp_debounce s)\<rparr>)"

definition sigma_tick :: "nat \<Rightarrow> sigma_page \<Rightarrow> sigma_page" where
  "sigma_tick now = rendered (\<lambda>s. s\<lparr>sp_debounce := debounce_tick now (sp_debounce s)\<rparr>)"

definition sigma_select :: "sigma_hit option \<Rightarrow> sigma_page \<Rightarrow> sigma_page" where
  "sigma_select h s = s\<lparr>sp_selected := h\<rparr>"

definition all_button :: "sigma_list query_state \<Rightarrow> string" where
  "all_button q = ''ALL ('' @ nat_str (case query_data q of Some d \<Rightarrow> sl_total d | None \<Rightarrow> 0) @ '')''"

definition severity_count :: "sigma_list query_state \<Rightarrow> string \<Rightarrow> nat" where
  "severity_count q v = (case query_data q of None \<Rightarrow> 0 | Some d \<Rightarrow> (case map_of (sl_counts d) v of Some n \<Rightarrow> n | None \<Rightarrow> 0))"

definition severity_buttons :: "sigma_list query_state \<Rightarrow> sigma_page \<Rightarrow> (string \<times> nat) list" where
  "severity_buttons q s = map (\<lambda>v. (v, severity_count q v))
     (filter (\<lambda>v. severity_count q v \<noteq> 0 \<or> sp_severity s = Some v) severity_order)"

datatype sigma_view = SigmaScanning | SigmaNone string | SigmaTable "sigma_row list"

definition sigma_view_of :: "(string \<Rightarrow> string) \<Rightarrow> sigma_list query_state \<Rightarrow> sigma_view" where
  "sigma_view_of to_locale q = (if q = Loading then SigmaScanning
     else case query_data q of None \<Rightarrow> SigmaTable []
       | Some d \<Rightarrow> (if sl_items d = [] then SigmaNone (if sl_total d = 0 then ''No matches recorded'' else ''Filtered result empty'')
           else SigmaTable (map (sigma_row_of to_locale) (sl_items d))))"

section \<open>Pins and pivots\<close>

text \<open>\<open>a || b\<close> on strings is \<open>or_text\<close>.\<close>

definition or_string :: "string option \<Rightarrow> string \<Rightarrow> string" where
  "or_string a b = (case some_text a of Some x \<Rightarrow> x | None \<Rightarrow> b)"

definition sigma_pin :: "sigma_hit \<Rightarrow> jsval jsobj" where
  "sigma_pin h = [(''id'', JStr (sh_id h)), (''type'', JStr ''hit''), (''title'', JStr (''Sigma: '' @ sh_rule_name h)),
     (''content'', JStr (if sh_description h = [] then sh_rule_name h else sh_description h)),
     (''timestamp'', JStr (or_string (sh_timestamp h) (sh_detected h))),
     (''metadata'', JObj [(''severity'', JStr (sh_severity h)), (''artifact'', JStr (sh_artifact h))])]"

definition handle_sigma_pin :: "string \<Rightarrow> sigma_page \<Rightarrow> jsval list \<Rightarrow> jsval list" where
  "handle_sigma_pin now s items = (case sp_selected s of None \<Rightarrow> items | Some h \<Rightarrow> pin_item (sigma_pin h) now items)"

definition pin_label :: "string \<Rightarrow> jsval list \<Rightarrow> string" where
  "pin_label i items = (if list_ex (\<lambda>x. item_id x = Some (JStr i)) items then ''PINNED'' else ''PIN_TO_WORKSPACE'')"

text \<open>\<open>ed.Computer || ed.ComputerName || ed.host || ed.Hostname || ""\<close>, put in a template string.\<close>

definition event_host :: "jsval jsobj \<Rightarrow> jsval option" where
  "event_host d = (case find (\<lambda>k. truthy (map_of d k)) [''Computer'', ''ComputerName'', ''host'', ''Hostname''] of
     Some k \<Rightarrow> map_of d k | None \<Rightarrow> None)"

definition in_quotes :: "string \<Rightarrow> string" where
  "in_quotes x = quote_char # x @ [quote_char]"

definition sigma_pivot :: "sigma_hit \<Rightarrow> string" where
  "sigma_pivot h = (case event_host (sh_data h) of
     Some v \<Rightarrow> ''host:'' @ js_string (Some v) @ '' rule:'' @ in_quotes (sh_rule_name h)
   | None \<Rightarrow> ''rule:'' @ in_quotes (sh_rule_name h))"

definition pivot_path :: "(string \<Rightarrow> string) \<Rightarrow> string \<Rightarrow> string \<Rightarrow> string" where
  "pivot_path enc i q = ''/incidents/'' @ i @ ''/super-timeline?q='' @ enc q"

section \<open>YARA matches\<close>

record yara_string =
  ys_offset :: nat
  ys_name :: string
  ys_data :: string

record yara_match =
  ym_id :: string
  ym_rule :: string
  ym_namespace :: "string option"
  ym_file :: string
  ym_size :: "nat option"
  ym_sha256 :: "string option"
  ym_strings :: "yara_string list"
  ym_severity :: string
  ym_detected :: string

record 'a match_list =
  ml_total :: int
  ml_items :: "'a list"

definition yara_format_bytes :: "nat option \<Rightarrow> string" where
  "yara_format_bytes b = (case b of None \<Rightarrow> em_dash
   | Some n \<Rightarrow> if n < 1024 then nat_str n @ '' B''
       else if n < 1024 * 1024 then to_fixed 1 (of_nat n / 1024) @ '' KB''
       else to_fixed 1 (of_nat n / (1024 * 1024)) @ '' MB'')"

record 'a match_page =
  mp_page :: int
  mp_selected :: "'a option"
  mp_type :: string

definition initial_matches :: "'a match_page" where
  "initial_matches = \<lparr>mp_page = 1, mp_selected = None, mp_type = ''all''\<rparr>"

definition yara_limit :: int where "yara_limit = 50"

definition yara_path :: "string \<Rightarrow> 'a match_page \<Rightarrow> string" where
  "yara_path i s = ''/processing/incident/'' @ i @ ''/yara-matches?limit=50&offset='' @ int_str ((mp_page s - 1) * yara_limit)"

definition match_items :: "'a match_list query_state \<Rightarrow> 'a list" where
  "match_items q = (case query_data q of Some d \<Rightarrow> ml_items d | None \<Rightarrow> [])"

definition match_total :: "'a match_list query_state \<Rightarrow> int" where
  "match_total q = (case query_data q of Some d \<Rightarrow> ml_total d | None \<Rightarrow> 0)"

definition yara_total_pages :: "'a match_list query_state \<Rightarrow> int" where
  "yara_total_pages q = max 1 \<lceil>rat_of_int (match_total q) / of_int yara_limit\<rceil>"

definition page_back :: "'a match_page \<Rightarrow> 'a match_page" where
  "page_back s = s\<lparr>mp_page := mp_page s - 1\<rparr>"

definition page_on :: "'a match_page \<Rightarrow> 'a match_page" where
  "page_on s = s\<lparr>mp_page := mp_page s + 1\<rparr>"

text \<open>The two buttons, shown when there is more than one page: whether they can be clicked.\<close>

definition yara_pager :: "'a match_list query_state \<Rightarrow> 'a match_page \<Rightarrow> (bool \<times> bool) option" where
  "yara_pager q s = (if yara_limit < match_total q then Some (mp_page s \<noteq> 1, mp_page s < yara_total_pages q) else None)"

definition yara_error :: "'a match_list query_state \<Rightarrow> string option" where
  "yara_error q = (case q of Failed e \<Rightarrow> Some (''OPERATIONAL ERROR: '' @
      (case e of NonError \<Rightarrow> ''Failure during telemetry retrieval'' | _ \<Rightarrow> message_or [] e)) | _ \<Rightarrow> None)"

text \<open>The status box: its color, headline and text.\<close>

definition yara_status :: "'a match_list query_state \<Rightarrow> string \<times> string \<times> string" where
  "yara_status q = (if 0 < match_total q then ''red'' else ''green'',
     if q = Loading then ''Loading scan results'' else if 0 < match_total q then ''Artifacts requiring review''
       else ''No matches recorded '' @ em_dash @ '' verify scan coverage'',
     if 0 < match_total q then ''Multiple files matched static malware signatures. Immediate review recommended.''
       else ''No malicious patterns identified in the current forensic collection.'')"

record yara_row =
  yr_rule :: string
  yr_file :: string
  yr_size :: string
  yr_severity :: "string \<times> string"

definition yara_row_of :: "yara_match \<Rightarrow> yara_row" where
  "yara_row_of m = \<lparr>yr_rule = ym_rule m, yr_file = base_name (ym_file m), yr_size = yara_format_bytes (ym_size m),
     yr_severity = (ym_severity m, color_or_informational (ym_severity m))\<rparr>"

datatype yara_view = YaraScanning | YaraNone | YaraTable "yara_row list"

definition yara_view_of :: "yara_match match_list query_state \<Rightarrow> yara_view" where
  "yara_view_of q = (if q = Loading then YaraScanning else if match_items q = [] then YaraNone
     else YaraTable (map yara_row_of (match_items q)))"

definition yara_select :: "'a option \<Rightarrow> 'a match_page \<Rightarrow> 'a match_page" where
  "yara_select m s = s\<lparr>mp_selected := m\<rparr>"

definition hex_char :: "nat \<Rightarrow> char" where
  "hex_char d = char_of (if d < 10 then 48 + d else 55 + d)"

fun hex_upper :: "nat \<Rightarrow> string" where
  "hex_upper n = (if n < 16 then [hex_char n] else hex_upper (n div 16) @ [hex_char (n mod 16)])"

definition yara_string_rows :: "yara_match \<Rightarrow> (string \<times> string \<times> string) list" where
  "yara_string_rows m = map (\<lambda>x. (ys_name x, ''Offset: 0x'' @ hex_upper (ys_offset x), ys_data x)) (ym_strings m)"

definition yara_pin :: "yara_match \<Rightarrow> jsval jsobj" where
  "yara_pin m = [(''id'', JStr (ym_id m)), (''type'', JStr ''match''), (''title'', JStr (''YARA: '' @ ym_rule m)),
     (''content'', JStr (ym_file m)), (''timestamp'', JStr (ym_detected m)),
     (''metadata'', JObj [(''severity'', JStr (ym_severity m)),
        (''sha256'', case ym_sha256 m of Some x \<Rightarrow> JStr x | None \<Rightarrow> JNull)])]"

definition yara_pivot :: "yara_match \<Rightarrow> string" where
  "yara_pivot m = (if base_name (ym_file m) \<noteq> [] then in_quotes (base_name (ym_file m)) else ''rule:'' @ in_quotes (ym_rule m))"

section \<open>IOC matches\<close>

record ioc_match =
  im_id :: string
  im_type :: string
  im_value :: string
  im_field :: string
  im_matched :: string
  im_source :: "string option"
  im_timestamp :: "string option"
  im_severity :: string

record import_result =
  ir_imported :: int
  ir_skipped :: int
  ir_errors :: "string list"

record ioc_import =
  ii_open :: bool
  ii_file :: "string option"
  ii_importing :: bool
  ii_result :: "import_result option"
  ii_error :: "string option"

definition initial_import :: ioc_import where
  "initial_import = \<lparr>ii_open = False, ii_file = None, ii_importing = False, ii_result = None, ii_error = None\<rparr>"

definition ioc_limit :: int where "ioc_limit = 100"

definition ioc_match_types :: "string list" where
  "ioc_match_types = [''all'', ''ip'', ''domain'', ''sha256'', ''md5'', ''sha1'']"

definition ioc_icon :: "string \<Rightarrow> string" where
  "ioc_icon t = (if t = ''ip'' then ''Wifi'' else if t = ''domain'' then ''Globe''
     else if t \<in> {''sha256'', ''md5'', ''sha1''} then ''Hash'' else ''HelpCircle'')"

definition ioc_matches_path :: "(string \<Rightarrow> string) \<Rightarrow> string \<Rightarrow> 'a match_page \<Rightarrow> string" where
  "ioc_matches_path enc i s = ''/processing/incident/'' @ i @ ''/ioc-matches?'' @ query_string enc
     (set_if (mp_type s \<noteq> ''all'') ''ioc_type'' (mp_type s) @ [(''limit'', int_str ioc_limit), (''offset'', int_str ((mp_page s - 1) * ioc_limit))])"

definition choose_type :: "string \<Rightarrow> 'a match_page \<Rightarrow> 'a match_page" where
  "choose_type t s = s\<lparr>mp_type := t, mp_page := 1\<rparr>"

text \<open>The answer of the upload, and the two ways its body is read.\<close>

datatype import_reply = Answer nat "jserr + string" "jserr + import_result"

type_synonym import_io = "(ioc_import, import_reply, string, unit) io"

definition handle_bulk_import :: "string option \<Rightarrow> string \<Rightarrow> import_io" where
  "handle_bulk_import env i = Read (\<lambda>s0. case ii_file s0 of None \<Rightarrow> Done
   | Some f \<Rightarrow>
      Update (\<lambda>s. s\<lparr>ii_importing := True, ii_result := None, ii_error := None\<rparr>)
     (tryFinally
       (tryCatch
         (Await (Request POST (get_base_url env @ ''/processing/ioc/indicators/bulk'') (Some f)) (\<lambda>x. case x of
            Inl e \<Rightarrow> Raise e
          | Inr (Answer st txt js) \<Rightarrow>
             (if \<not> ok_status st then
                (case txt of Inl e \<Rightarrow> Raise e | Inr t \<Rightarrow> Raise (Error (if t = [] then ''HTTP '' @ nat_str st else t)))
              else case js of Inl e \<Rightarrow> Raise e
                | Inr r \<Rightarrow> Update (\<lambda>s. s\<lparr>ii_result := Some r, ii_file := None\<rparr>)
                    (Emit (Invalidate [''ioc-matches'', i]) Done))))
         (\<lambda>e. Update (\<lambda>s. s\<lparr>ii_error := Some (message_or ''Import failed'' e)\<rparr>) Done))
       (Update (\<lambda>s. s\<lparr>ii_importing := False\<rparr>) Done)))"

definition import_clicked :: "ioc_import \<Rightarrow> ioc_import" where
  "import_clicked s = s\<lparr>ii_result := None, ii_error := None, ii_open := True\<rparr>"

definition import_open_change :: "bool \<Rightarrow> ioc_import \<Rightarrow> ioc_import" where
  "import_open_change op s = (let s' = s\<lparr>ii_open := op\<rparr>
     in if op then s' else s'\<lparr>ii_file := None, ii_result := None, ii_error := None\<rparr>)"

definition choose_file :: "string option \<Rightarrow> ioc_import \<Rightarrow> ioc_import" where
  "choose_file f s = s\<lparr>ii_file := f\<rparr>"

definition import_cancelled :: "ioc_import \<Rightarrow> ioc_import" where
  "import_cancelled s = s\<lparr>ii_open := False\<rparr>"

definition import_offered :: "ioc_import \<Rightarrow> bool option" where
  "import_offered s = (if ii_result s = None then Some (ii_file s \<noteq> None \<and> \<not> ii_importing s) else None)"

definition import_errors_shown :: "import_result \<Rightarrow> string list \<times> string option" where
  "import_errors_shown r = (take 5 (ir_errors r),
     if 5 < length (ir_errors r) then Some (ellipsis @ ''and '' @ nat_str (length (ir_errors r) - 5) @ '' more errors'') else None)"

definition ioc_error :: "'a match_list query_state \<Rightarrow> string option" where
  "ioc_error q = (case q of Failed e \<Rightarrow> Some (''Failed to load IOC matches: '' @ message_or ''Unknown error'' e) | _ \<Rightarrow> None)"

definition ioc_summary :: "'a match_list query_state \<Rightarrow> string \<times> string option" where
  "ioc_summary q = (if 0 < match_total q then ''offline'' else ''online'',
     if 0 < match_total q then Some ''KNOWN BAD INDICATORS FOUND IN TIMELINE''
     else if match_total q = 0 \<and> q \<noteq> Loading \<and> ioc_error q = None
       then Some (''No IOC matches found '' @ em_dash @ '' timeline is clean or no indicators configured.'') else None)"

definition ioc_severity_class :: "string \<Rightarrow> string" where
  "ioc_severity_class v = (if v \<in> {''critical'', ''high'', ''medium'', ''low''} then color_or_informational v
     else ''text-muted-foreground border-border bg-secondary'')"

definition ioc_row :: "(string \<Rightarrow> string) \<Rightarrow> ioc_match \<Rightarrow> string list" where
  "ioc_row to_locale m = [ioc_icon (im_type m), im_type m, im_value m, im_field m,
     (case im_source m of Some x \<Rightarrow> x | None \<Rightarrow> em_dash), fmt_ts to_locale (im_timestamp m),
     im_severity m, ioc_severity_class (im_severity m)]"

datatype ioc_view = IocText string | IocTable "string list list" "(string \<times> bool \<times> bool) option"

text \<open>\<open>SHOWING a-b OF n\<close> and the two buttons.\<close>

definition ioc_pager :: "'a match_list query_state \<Rightarrow> 'a match_page \<Rightarrow> (string \<times> bool \<times> bool) option" where
  "ioc_pager q s = (if ioc_limit < match_total q
     then Some (''SHOWING '' @ int_str ((mp_page s - 1) * ioc_limit + 1) @ ''-'' @ int_str (min (mp_page s * ioc_limit) (match_total q)) @
       '' OF '' @ int_str (match_total q), mp_page s \<noteq> 1, mp_page s * ioc_limit < match_total q)
     else None)"

definition ioc_view_of :: "(string \<Rightarrow> string) \<Rightarrow> ioc_match match_list query_state \<Rightarrow> ioc_match match_page \<Rightarrow> ioc_view" where
  "ioc_view_of to_locale q s = (if q = Loading then IocText ''SCANNING TIMELINE FOR IOC MATCHES...''
     else if ioc_error q \<noteq> None then IocText ''No IOC data available. Run the forensics pipeline first.''
     else if match_items q = [] then IocText ''No matches for selected filter.''
     else IocTable (map (ioc_row to_locale) (match_items q)) (ioc_pager q s))"

section \<open>Attack chains\<close>

record graph_node =
  gn_id :: string
  gn_label :: string
  gn_type :: string

record graph_edge =
  ge_source :: string
  ge_target :: string
  ge_label :: string

record attack_chain =
  ac_id :: string
  ac_start :: "string option"
  ac_end :: "string option"
  ac_tactics :: "string list"
  ac_techniques :: "string list"
  ac_hits :: int
  ac_severity :: string
  ac_nodes :: "graph_node list"
  ac_edges :: "graph_edge list"

definition tactic_order :: "string list" where
  "tactic_order = [''initial_access'', ''execution'', ''persistence'', ''privilege_escalation'', ''defense_evasion'',
     ''credential_access'', ''discovery'', ''lateral_movement'', ''collection'', ''command_and_control'', ''exfiltration'', ''impact'']"

definition tactic_short :: "string jsobj" where
  "tactic_short = [(''initial_access'', ''INIT ACCESS''), (''execution'', ''EXECUTION''), (''persistence'', ''PERSIST''),
     (''privilege_escalation'', ''PRIV ESC''), (''defense_evasion'', ''DEF EVASION''), (''credential_access'', ''CRED ACCESS''),
     (''discovery'', ''DISCOVERY''), (''lateral_movement'', ''LAT MOVE''), (''collection'', ''COLLECT''),
     (''command_and_control'', ''C2''), (''exfiltration'', ''EXFIL''), (''impact'', ''IMPACT'')]"

text \<open>\<open>TACTIC_ORDER.indexOf(t)\<close>, -1 when it is not there.\<close>

definition tactic_index :: "string \<Rightarrow> int" where
  "tactic_index t = (case index_in t tactic_order of Some n \<Rightarrow> int n | None \<Rightarrow> -1)"

definition tactic_words :: "string \<Rightarrow> string" where
  "tactic_words t = to_upper (map (\<lambda>c. if c = CHR ''_'' then CHR '' '' else c) t)"

definition tactic_pill :: "string \<Rightarrow> string option \<times> string" where
  "tactic_pill t = (if 0 \<le> tactic_index t then Some (''TA'' @ pad_zeros 4 (int_str (tactic_index t + 1)) @ '' '') else None,
     tactic_words t)"

text \<open>The counters of the heat map: every tactic of a chain adds one and the hits of the chain.\<close>

definition count_tactic :: "int \<Rightarrow> string \<Rightarrow> (nat \<times> int) jsobj \<Rightarrow> (nat \<times> int) jsobj" where
  "count_tactic hits t m = (case map_of m t of None \<Rightarrow> m | Some (n, h) \<Rightarrow> obj_put t (n + 1, h + hits) m)"

definition tactic_stats :: "attack_chain list \<Rightarrow> (nat \<times> int) jsobj" where
  "tactic_stats cs = fold (\<lambda>c. fold (count_tactic (ac_hits c)) (ac_tactics c)) cs (map (\<lambda>t. (t, (0, 0))) tactic_order)"

definition tech_counts :: "attack_chain list \<Rightarrow> nat jsobj" where
  "tech_counts cs = fold (\<lambda>c. fold (\<lambda>t m. obj_put t ((case map_of m t of Some n \<Rightarrow> n | None \<Rightarrow> 0) + 1) m) (ac_techniques c)) cs []"

definition sorted_techs :: "attack_chain list \<Rightarrow> (string \<times> nat) list" where
  "sorted_techs cs = sort_key (\<lambda>(t, n). - int n) (tech_counts cs)"

definition max_chains :: "attack_chain list \<Rightarrow> nat" where
  "max_chains cs = fold max (map (fst \<circ> snd) (tactic_stats cs)) 1"

definition heat_class :: "nat \<Rightarrow> nat \<Rightarrow> string" where
  "heat_class highest n = (if n = 0 then ''border-border/30 bg-secondary/5 text-muted-foreground/30 opacity-40''
     else let r = rat_of_nat n / of_nat highest
       in if r \<le> 1 / 4 then ''border-green-500/30 bg-green-500/8 text-green-400/80''
        else if r \<le> 1 / 2 then ''border-green-500/50 bg-green-500/15 text-green-400''
        else if r \<le> 3 / 4 then ''border-yellow-500/50 bg-yellow-500/15 text-yellow-400'' else ''border-red-500/50 bg-red-500/20 text-red-400'')"

record heat_cell =
  hc_tactic :: string
  hc_label :: string
  hc_count :: nat
  hc_hits :: string
  hc_class :: string

definition heat_cell_of :: "attack_chain list \<Rightarrow> string \<Rightarrow> heat_cell" where
  "heat_cell_of cs t = (case the (map_of (tactic_stats cs) t) of (n, h) \<Rightarrow>
     \<lparr>hc_tactic = t, hc_label = the (map_of tactic_short t), hc_count = n,
       hc_hits = int_str h @ '' HIT'' @ (if h \<noteq> 1 then ''S'' else []), hc_class = heat_class (max_chains cs) n\<rparr>)"

definition heat_cells :: "attack_chain list \<Rightarrow> heat_cell list" where
  "heat_cells cs = map (heat_cell_of cs) tactic_order"

text \<open>The page keeps one tactic; \<open>handleTacticClick\<close> and the click on a cell.\<close>

definition handle_tactic_click :: "string \<Rightarrow> string option \<Rightarrow> string option" where
  "handle_tactic_click t selected = (if selected = Some t then None else Some t)"

definition cell_clicked :: "heat_cell \<Rightarrow> string option \<Rightarrow> string option" where
  "cell_clicked c selected = (if 0 < hc_count c then handle_tactic_click (hc_tactic c) selected else selected)"

definition filtered_chains :: "string option \<Rightarrow> attack_chain list \<Rightarrow> attack_chain list" where
  "filtered_chains selected cs = (case some_text selected of None \<Rightarrow> cs | Some t \<Rightarrow> filter (\<lambda>c. t \<in> set (ac_tactics c)) cs)"

definition chain_totals :: "attack_chain list \<Rightarrow> nat \<times> nat \<times> int" where
  "chain_totals cs = (length cs, length (filter (\<lambda>c. ac_severity c = ''critical'') cs) + length (filter (\<lambda>c. ac_severity c = ''high'') cs),
     sum_list (map ac_hits cs))"

definition sorted_tactics :: "attack_chain \<Rightarrow> string list" where
  "sorted_tactics c = sort_key tactic_index (ac_tactics c)"

definition chain_window :: "(string \<Rightarrow> string) \<Rightarrow> attack_chain \<Rightarrow> string" where
  "chain_window to_locale c = (case some_text (ac_start c) of Some t \<Rightarrow> to_locale t | None \<Rightarrow> ''NO TIMESTAMP'') @
     (case some_text (ac_end c) of Some t \<Rightarrow> '' '' @ em_dash @ '' '' @ to_locale t | None \<Rightarrow> [])"

definition chain_hits_text :: "attack_chain \<Rightarrow> string" where
  "chain_hits_text c = int_str (ac_hits c) @ '' HIT'' @ (if ac_hits c \<noteq> 1 then ''S'' else [])"

text \<open>The directed graph: a column for every tactic node, and the techniques that no \<open>uses\<close> edge leads to.\<close>

definition tech_by_tactic :: "graph_edge list \<Rightarrow> string list jsobj" where
  "tech_by_tactic es = fold (\<lambda>e m. if ge_label e = ''uses''
      then obj_put (ge_source e) ((case map_of m (ge_source e) of Some ts \<Rightarrow> ts | None \<Rightarrow> []) @ [ge_target e]) m else m) es []"

definition child_techs :: "string list jsobj \<Rightarrow> graph_node \<Rightarrow> string list" where
  "child_techs m n = (case map_of m (gn_id n) of Some ts \<Rightarrow> ts | None \<Rightarrow> [])"

record chain_graph =
  cg_columns :: "(string \<times> string list \<times> bool) list"
  cg_other :: "string list"

definition attack_graph :: "graph_node list \<Rightarrow> graph_edge list \<Rightarrow> chain_graph option" where
  "attack_graph ns es = (if ns = [] then None
     else let tactics = filter (\<lambda>n. gn_type n = ''tactic'') ns;
              m = tech_by_tactic es;
              assigned = new_set (concat (map snd m))
       in Some \<lparr>cg_columns = map (\<lambda>(k, n). (gn_label n, child_techs m n, k + 1 < length tactics))
            (zip [0..<length tactics] tactics),
          cg_other = map gn_label (filter (\<lambda>n. gn_type n = ''technique'' \<and> gn_id n \<notin> set assigned) ns)\<rparr>)"

datatype chains_view = ChainsLoading | ChainsText string | ChainsList "attack_chain list"

definition chains_view_of :: "attack_chain list query_state \<Rightarrow> string option \<Rightarrow> chains_view" where
  "chains_view_of q selected = (case q of Loading \<Rightarrow> ChainsLoading
   | Failed _ \<Rightarrow> ChainsText ''No attack chain data available. Run the forensics pipeline first.''
   | Ready cs \<Rightarrow> (if filtered_chains selected cs = [] then ChainsText ''No ATT&CK chains match the selected filters.''
       else ChainsList (filtered_chains selected cs)))"

definition chains_title :: "string option \<Rightarrow> string" where
  "chains_title selected = (case some_text selected of None \<Rightarrow> ''ATTACK CHAINS''
     | Some t \<Rightarrow> ''ATTACK CHAINS '' @ em_dash @ '' FILTERED BY '' @ tactic_words t)"

section \<open>Paging of the Sigma hits\<close>

inductive sigma_reachable :: "sigma_page \<Rightarrow> bool" where
  entered: "sigma_reachable (initial_sigma now)"
| severity: "sigma_reachable s \<Longrightarrow> sigma_reachable (choose_severity v s)"
| typed: "sigma_reachable s \<Longrightarrow> sigma_reachable (sigma_type t now s)"
| ticked: "sigma_reachable s \<Longrightarrow> sigma_reachable (sigma_tick now s)"
| selects: "sigma_reachable s \<Longrightarrow> sigma_reachable (sigma_select h s)"
| goes_back: "sigma_reachable s \<Longrightarrow> prev_enabled q s \<Longrightarrow> sigma_reachable (sigma_prev s)"
| onward: "sigma_reachable s \<Longrightarrow> next_enabled q s \<Longrightarrow> sigma_reachable (sigma_next s)"

definition sigma_offset_ok :: "sigma_page \<Rightarrow> bool" where
  "sigma_offset_ok s \<longleftrightarrow> 0 \<le> sp_offset s \<and> sigma_limit dvd sp_offset s"

lemma rendered_offset:
  "sigma_offset_ok (f s) \<Longrightarrow> sigma_offset_ok (rendered f s)"
  by (simp add: rendered_def sigma_offset_ok_def Let_def)

lemma sigma_offsets_ok: "sigma_reachable s \<Longrightarrow> sigma_offset_ok s"
proof (induction rule: sigma_reachable.induct)
  case (severity s v)
  then show ?case unfolding choose_severity_def by (intro rendered_offset) (simp add: sigma_offset_ok_def)
next
  case (typed s t now)
  then show ?case unfolding sigma_type_def by (intro rendered_offset) (simp add: sigma_offset_ok_def)
next
  case (ticked s now)
  then show ?case unfolding sigma_tick_def by (intro rendered_offset) (simp add: sigma_offset_ok_def)
next
  case (goes_back s q)
  then show ?case by (auto simp: sigma_offset_ok_def sigma_prev_def max_def)
qed (auto simp: sigma_offset_ok_def initial_sigma_def sigma_select_def sigma_next_def sigma_limit_def)

lemma next_inside:
  assumes "sigma_offset_ok s" "next_enabled (Ready d) s"
  shows "sp_offset s + sigma_limit < int (sl_total d)"
proof -
  obtain k where k: "sp_offset s = 50 * k" using assms(1) by (auto simp: sigma_offset_ok_def sigma_limit_def)
  have "k + 1 < \<lceil>rat_of_nat (sl_total d) / 50\<rceil>"
    using assms(2) k by (simp add: next_enabled_def sigma_current_page_def sigma_total_pages_def query_data_def sigma_limit_def)
  then have "rat_of_int (k + 1) < rat_of_nat (sl_total d) / 50" by (simp only: less_ceiling_iff)
  then have "rat_of_int ((k + 1) * 50) < rat_of_int (int (sl_total d))" by (simp add: field_simps)
  then have "(k + 1) * 50 < int (sl_total d)" by (simp only: of_int_less_iff)
  then show ?thesis using k by (simp add: sigma_limit_def)
qed

section \<open>The heat map\<close>

lemma count_tactic_get:
  "map_of m t = Some (n, k) \<Longrightarrow> map_of (count_tactic h x m) t = Some (if x = t then (n + 1, k + h) else (n, k))"
  by (auto simp: count_tactic_def split: option.split)

lemma count_tactics:
  "map_of m t = Some (n, k) \<Longrightarrow>
   map_of (fold (count_tactic h) ts m) t = Some (n + count_list ts t, k + h * int (count_list ts t))"
proof (induction ts arbitrary: m n k)
  case (Cons x ts)
  note get = count_tactic_get [OF Cons.prems, of h x]
  show ?case
  proof (cases "x = t")
    case True
    with get have "map_of (count_tactic h x m) t = Some (n + 1, k + h)" by simp
    from Cons.IH [OF this] True show ?thesis by (simp add: algebra_simps)
  next
    case False
    with get have "map_of (count_tactic h x m) t = Some (n, k)" by simp
    from Cons.IH [OF this] False show ?thesis by simp
  qed
qed simp

lemma count_chains:
  "map_of m t = Some (n, k) \<Longrightarrow>
   map_of (fold (\<lambda>c. fold (count_tactic (ac_hits c)) (ac_tactics c)) cs m) t =
     Some (n + (\<Sum>c\<leftarrow>cs. count_list (ac_tactics c) t), k + (\<Sum>c\<leftarrow>cs. ac_hits c * int (count_list (ac_tactics c) t)))"
proof (induction cs arbitrary: m n k)
  case (Cons c cs)
  from Cons.IH [OF count_tactics [OF Cons.prems]] show ?case by (simp add: algebra_simps)
qed simp

lemma tactic_stats_count:
  assumes "t \<in> set tactic_order"
  shows "map_of (tactic_stats cs) t = Some (\<Sum>c\<leftarrow>cs. count_list (ac_tactics c) t, \<Sum>c\<leftarrow>cs. ac_hits c * int (count_list (ac_tactics c) t))"
proof -
  have "map_of (map (\<lambda>t. (t, ((0::nat), (0::int)))) tactic_order) t = Some (0, 0)"
    using assms by (simp add: map_of_map_restrict)
  from count_chains [OF this, of cs] show ?thesis by (simp add: tactic_stats_def)
qed

lemma sum_counts_filter:
  assumes "\<forall>c \<in> set cs. distinct (ac_tactics c)"
  shows "(\<Sum>c\<leftarrow>cs. count_list (ac_tactics c) t) = length (filter (\<lambda>c. t \<in> set (ac_tactics c)) cs)"
proof -
  have "count_list xs t = (if t \<in> set xs then 1 else 0)" if "distinct xs" for xs :: "string list"
    using that by (induction xs) auto
  then show ?thesis using assms by (induction cs) auto
qed

section \<open>The directed graph\<close>

lemma tech_by_tactic_get:
  "map_of (tech_by_tactic es) k =
    (let ts = map ge_target (filter (\<lambda>e. ge_label e = ''uses'' \<and> ge_source e = k) es) in if ts = [] then None else Some ts)"
proof -
  have "map_of (fold (\<lambda>e m. if ge_label e = ''uses''
      then obj_put (ge_source e) ((case map_of m (ge_source e) of Some ts \<Rightarrow> ts | None \<Rightarrow> []) @ [ge_target e]) m else m) es m) k =
    (let ts = map ge_target (filter (\<lambda>e. ge_label e = ''uses'' \<and> ge_source e = k) es)
     in case map_of m k of None \<Rightarrow> (if ts = [] then None else Some ts) | Some us \<Rightarrow> Some (us @ ts))" for m
    by (induction es arbitrary: m) (auto simp: Let_def split: option.split)
  from this [of "[]"] show ?thesis by (simp add: tech_by_tactic_def)
qed

lemma tech_by_tactic_keys: "distinct (map fst (tech_by_tactic es))"
proof -
  have "distinct (map fst m) \<Longrightarrow> distinct (map fst (fold (\<lambda>e m. if ge_label e = ''uses''
      then obj_put (ge_source e) ((case map_of m (ge_source e) of Some ts \<Rightarrow> ts | None \<Rightarrow> []) @ [ge_target e]) m else m) es m))" for m
    by (induction es arbitrary: m) (auto simp: distinct_obj_put)
  then show ?thesis by (simp add: tech_by_tactic_def)
qed

lemma assigned_techniques:
  "set (concat (map snd (tech_by_tactic es))) = ge_target ` {e \<in> set es. ge_label e = ''uses''}" (is "?l = ?r")
proof
  show "?l \<subseteq> ?r"
  proof
    fix t assume "t \<in> ?l"
    then obtain k ts where m: "(k, ts) \<in> set (tech_by_tactic es)" "t \<in> set ts" by auto
    then have "map_of (tech_by_tactic es) k = Some ts" using tech_by_tactic_keys by simp
    then show "t \<in> ?r" using m(2) by (auto simp: tech_by_tactic_get Let_def split: if_splits)
  qed
  show "?r \<subseteq> ?l"
  proof
    fix t assume "t \<in> ?r"
    then obtain e where e: "e \<in> set es" "ge_label e = ''uses''" "t = ge_target e" by auto
    let ?ts = "map ge_target (filter (\<lambda>x. ge_label x = ''uses'' \<and> ge_source x = ge_source e) es)"
    have t: "t \<in> set ?ts" using e by auto
    then have "map_of (tech_by_tactic es) (ge_source e) = Some ?ts"
      using tech_by_tactic_get [of es "ge_source e"] by (auto simp: Let_def filter_empty_conv)
    from map_of_SomeD [OF this] t show "t \<in> ?l" by force
  qed
qed

text \<open>Where the graph shows a technique.\<close>

definition in_a_column :: "graph_node list \<Rightarrow> graph_edge list \<Rightarrow> string \<Rightarrow> bool" where
  "in_a_column ns es t \<longleftrightarrow> (case attack_graph ns es of None \<Rightarrow> False
     | Some g \<Rightarrow> list_ex (\<lambda>(label, ts, arrow). t \<in> set ts) (cg_columns g))"

lemma in_a_column_iff:
  "in_a_column ns es t \<longleftrightarrow> (\<exists>n \<in> set ns. gn_type n = ''tactic'' \<and>
     (\<exists>e \<in> set es. ge_label e = ''uses'' \<and> ge_source e = gn_id n \<and> ge_target e = t))"
proof -
  have col: "t \<in> set (child_techs (tech_by_tactic es) n) \<longleftrightarrow>
      (\<exists>e \<in> set es. ge_label e = ''uses'' \<and> ge_source e = gn_id n \<and> ge_target e = t)" for n
    by (auto simp: child_techs_def tech_by_tactic_get Let_def filter_empty_conv)
  let ?ts = "filter (\<lambda>n. gn_type n = ''tactic'') ns"
  have "in_a_column ns es t \<longleftrightarrow> (\<exists>x \<in> set (zip [0..<length ?ts] ?ts). t \<in> set (child_techs (tech_by_tactic es) (snd x)))"
    by (cases "ns = []") (simp_all add: in_a_column_def attack_graph_def Let_def list_ex_iff case_prod_beta)
  also have "\<dots> \<longleftrightarrow> (\<exists>n \<in> snd ` set (zip [0..<length ?ts] ?ts). t \<in> set (child_techs (tech_by_tactic es) n))"
    by blast
  also have "snd ` set (zip [0..<length ?ts] ?ts) = set ?ts"
    by (simp only: set_map [symmetric]) (simp only: map_snd_zip length_upt diff_zero)
  finally show ?thesis by (auto simp: col)
qed

section \<open>Theorems\<close>

text \<open> The pages of the Sigma hits: under any sequence of filter changes, keystrokes, delays, selections and
  enabled clicks, the offset is a non-negative multiple of the page size; a click on the next page that is enabled
  lands before the end of the list that is shown and raises the page number by one; and a change of the filter goes
  back to the first page.
\<close>

theorem sigma_paging:
  assumes "sigma_reachable s"
  shows "0 \<le> sp_offset s \<and> sigma_limit dvd sp_offset s
    \<and> (next_enabled (Ready d) s \<longrightarrow> sp_offset (sigma_next s) < int (sl_total d)
         \<and> sigma_current_page (sigma_next s) = sigma_current_page s + 1)
    \<and> (sp_severity s \<noteq> v \<longrightarrow> sp_offset (choose_severity v s) = 0)"
proof -
  have ok: "sigma_offset_ok s" by (rule sigma_offsets_ok [OF assms])
  have "sigma_current_page (sigma_next s) = sigma_current_page s + 1"
    by (simp add: sigma_current_page_def sigma_next_def sigma_limit_def)
  moreover have "next_enabled (Ready d) s \<longrightarrow> sp_offset (sigma_next s) < int (sl_total d)"
    using next_inside [OF ok] by (simp add: sigma_next_def)
  moreover have "sp_severity s \<noteq> v \<longrightarrow> sp_offset (choose_severity v s) = 0"
    by (simp add: choose_severity_def rendered_def sigma_filters_def)
  ultimately show ?thesis using ok by (simp add: sigma_offset_ok_def)
qed

definition many_hits :: sigma_list where
  "many_hits = \<lparr>sl_total = 120, sl_items = [], sl_counts = []\<rparr>"

lemma sigma_paging_witness:
  "sigma_reachable (sigma_next (initial_sigma 0)) \<and> sp_offset (sigma_next (sigma_next (initial_sigma 0))) < 120
   \<and> sp_offset (choose_severity (Some ''high'') (sigma_next (initial_sigma 0))) = 0"
proof -
  let ?s = "sigma_next (initial_sigma 0)"
  have n: "next_enabled (Ready many_hits) (initial_sigma 0)" "next_enabled (Ready many_hits) ?s"
    by (simp_all add: next_enabled_def sigma_next_def initial_sigma_def sigma_current_page_def sigma_total_pages_def
        query_data_def sigma_limit_def many_hits_def less_ceiling_iff)
  have r: "sigma_reachable ?s" by (rule sigma_reachable.onward [OF sigma_reachable.entered n(1)])
  have "sp_severity ?s \<noteq> Some ''high''" by (simp add: sigma_next_def initial_sigma_def)
  with sigma_paging [OF r, of many_hits "Some ''high''"] n(2) r show ?thesis by (simp add: many_hits_def)
qed

text \<open> The heat map agrees with the list: when no chain names a tactic twice, the number in a cell is the number
  of chains that the list shows after a click on it, so a click never leads to an empty list; a second click goes
  back to all chains.
\<close>

theorem heat_cell_counts_chains:
  assumes "cell \<in> set (heat_cells cs)" "\<forall>c \<in> set cs. distinct (ac_tactics c)" "0 < hc_count cell"
  shows "cell_clicked cell None = Some (hc_tactic cell)
    \<and> length (filtered_chains (cell_clicked cell None) cs) = hc_count cell
    \<and> filtered_chains (cell_clicked cell (cell_clicked cell None)) cs = cs"
proof -
  obtain t where t: "t \<in> set tactic_order" "cell = heat_cell_of cs t" using assms(1) by (auto simp: heat_cells_def)
  have ne: "t \<noteq> []" using t(1) by (auto simp: tactic_order_def)
  have "hc_tactic cell = t \<and> hc_count cell = length (filter (\<lambda>c. t \<in> set (ac_tactics c)) cs)"
    using tactic_stats_count [OF t(1), of cs] sum_counts_filter [OF assms(2), of t] t(2) by (simp add: heat_cell_of_def)
  then show ?thesis
    using assms(3) ne by (simp add: cell_clicked_def handle_tactic_click_def filtered_chains_def some_text_def)
qed

definition sample_chain :: "string list \<Rightarrow> attack_chain" where
  "sample_chain ts = \<lparr>ac_id = ''c'', ac_start = None, ac_end = None, ac_tactics = ts, ac_techniques = [], ac_hits = 2,
     ac_severity = ''high'', ac_nodes = [], ac_edges = []\<rparr>"

lemma heat_cell_counts_chains_witness:
  "length (filtered_chains (cell_clicked (heat_cell_of [sample_chain [''impact''], sample_chain [''execution'']] ''impact'') None)
     [sample_chain [''impact''], sample_chain [''execution'']]) = 1"
proof -
  let ?cs = "[sample_chain [''impact''], sample_chain [''execution'']]"
  have i: "''impact'' \<in> set tactic_order" by (simp add: tactic_order_def)
  have d: "\<forall>c \<in> set ?cs. distinct (ac_tactics c)" by (simp add: sample_chain_def)
  have "hc_count (heat_cell_of ?cs ''impact'') = 1"
    using tactic_stats_count [OF i, of ?cs] by (simp add: heat_cell_of_def sample_chain_def)
  moreover have "heat_cell_of ?cs ''impact'' \<in> set (heat_cells ?cs)" using i by (simp add: heat_cells_def)
  ultimately show ?thesis
    using heat_cell_counts_chains [of "heat_cell_of ?cs ''impact''" ?cs] d by (metis less_numeral_extra(1))
qed

text \<open>C36.  Which techniques the directed graph loses: a technique that is reached by \<open>uses\<close> edges, but by none from a
  tactic node, is in no column and not among the other techniques; every other technique is in exactly one of the two.
\<close>

theorem graph_loses_techniques:
  assumes "attack_graph ns es = Some g" "n \<in> set ns" "gn_type n = ''technique''"
    and "\<And>m. m \<in> set ns \<Longrightarrow> gn_type m = ''technique'' \<Longrightarrow> gn_label m = gn_label n \<Longrightarrow> gn_id m = gn_id n"
  shows "(\<not> in_a_column ns es (gn_id n) \<and> gn_label n \<notin> set (cg_other g)) \<longleftrightarrow>
      (\<exists>e \<in> set es. ge_label e = ''uses'' \<and> ge_target e = gn_id n) \<and>
      \<not> (\<exists>e \<in> set es. ge_label e = ''uses'' \<and> ge_target e = gn_id n \<and>
           (\<exists>t \<in> set ns. gn_type t = ''tactic'' \<and> ge_source e = gn_id t))"
proof -
  let ?used = "ge_target ` {e \<in> set es. ge_label e = ''uses''}"
  have other: "cg_other g = map gn_label (filter (\<lambda>m. gn_type m = ''technique'' \<and>
      gn_id m \<notin> set (concat (map snd (tech_by_tactic es)))) ns)"
    using assms(1) by (auto simp: attack_graph_def Let_def split: if_splits)
  have "gn_label n \<in> set (cg_other g) \<longleftrightarrow> (\<exists>m \<in> set ns. gn_type m = ''technique'' \<and> gn_id m \<notin> ?used \<and> gn_label n = gn_label m)"
    unfolding other set_map set_filter assigned_techniques by blast
  then have "gn_label n \<in> set (cg_other g) \<longleftrightarrow> gn_id n \<notin> ?used"
    using assms(2-4) by (metis (no_types, lifting))
  then show ?thesis by (auto simp: in_a_column_iff image_iff)
qed

definition lost_technique :: "graph_node list \<times> graph_edge list" where
  "lost_technique = ([\<lparr>gn_id = ''T1059'', gn_label = ''T1059'', gn_type = ''technique''\<rparr>],
     [\<lparr>ge_source = ''reconnaissance'', ge_target = ''T1059'', ge_label = ''uses''\<rparr>])"

lemma graph_loses_techniques_witness:
  "\<not> in_a_column (fst lost_technique) (snd lost_technique) ''T1059''
   \<and> ''T1059'' \<notin> set (cg_other (the (attack_graph (fst lost_technique) (snd lost_technique))))"
  using graph_loses_techniques [of "fst lost_technique" "snd lost_technique"
      "the (attack_graph (fst lost_technique) (snd lost_technique))" "hd (fst lost_technique)"]
  by (simp add: lost_technique_def attack_graph_def Let_def)

text \<open> When the matches cannot be loaded, the YARA page shows the error together with the green box of an empty
  scan, while the IOC page shows the error and withholds its all-clear.
\<close>

theorem yara_failure_looks_clean:
  "yara_error (Failed e) \<noteq> None
   \<and> yara_status (Failed e) = yara_status (Ready \<lparr>ml_total = 0, ml_items = []\<rparr>)
   \<and> fst (yara_status (Failed e)) = ''green''
   \<and> snd (snd (yara_status (Failed e))) = ''No malicious patterns identified in the current forensic collection.''
   \<and> ioc_error (Failed e) \<noteq> None \<and> snd (ioc_summary (Failed e)) = None
   \<and> snd (ioc_summary (Ready \<lparr>ml_total = 0, ml_items = []\<rparr>)) \<noteq> None"
  by (simp add: yara_error_def yara_status_def match_total_def query_data_def ioc_error_def ioc_summary_def)

text \<open> The import of indicators settles: afterwards it is no longer running; on success the result is shown, the
  file is forgotten and the matches are refreshed, and on any failure, of the connection, of the server or of the body
  of the reply, an error is shown and the file is kept for another attempt.
\<close>

theorem import_settles:
  assumes "ii_file s = Some f"
    and "t = final_state srv yes (handle_bulk_import env i) w s"
  shows "\<not> ii_importing t
    \<and> (case fst (srv w (Request POST (get_base_url env @ ''/processing/ioc/indicators/bulk'') (Some f))) of
         Inr (Answer st txt (Inr r)) \<Rightarrow> (if ok_status st then ii_result t = Some r \<and> ii_error t = None \<and> ii_file t = None
             else ii_result t = None \<and> ii_error t \<noteq> None \<and> ii_file t = Some f)
       | _ \<Rightarrow> ii_result t = None \<and> ii_error t \<noteq> None \<and> ii_file t = Some f)"
  using assms
  by (auto simp: handle_bulk_import_def io_simps split: sum.split import_reply.split)

lemma import_settles_witness:
  "ii_error (final_state (\<lambda>w rq. (Inr (Answer 413 (Inr ''too large'') (Inl type_error)), ())) True
      (handle_bulk_import None ''i'') () (initial_import\<lparr>ii_file := Some ''a.csv''\<rparr>)) \<noteq> None"
  using import_settles [of "initial_import\<lparr>ii_file := Some ''a.csv''\<rparr>" "''a.csv''" _
      "\<lambda>w rq. (Inr (Answer 413 (Inr ''too large'') (Inl type_error)), ())" True None "''i''" "()"]
  by simp

lemma replicate_2: "replicate 2 x = [x, x]"
  by (simp add: numeral_2_eq_2)

text \<open>The numbers that the tactics are shown with are positions in the list: the one of command and control is shown
  as TA0010 and that of exfiltration as TA0011.\<close>

lemma tactic_numbers:
  "fst (tactic_pill ''command_and_control'') = Some ''TA0010 '' \<and> fst (tactic_pill ''exfiltration'') = Some ''TA0011 ''
   \<and> fst (tactic_pill ''impact'') = Some ''TA0012 ''"
  by (simp add: tactic_pill_def tactic_index_def tactic_order_def pad_zeros_def str_eval replicate_2)

end
