(* ===== verification/Assistant.thy ===== *)
theory Assistant
  imports Hunting
begin

text \<open>
  \<open>pages/AIAnalysis.tsx\<close>: the three tabs that ask a language model, about raw events, for a summary and in
  a conversation; and \<open>JSON.stringify(v, null, 2)\<close>, which the first tab prints with, with its round trip.
  The message of a syntax error of \<open>JSON.parse\<close> is a parameter; numbers in the events are integers.
\<close>

section \<open>Indented JSON\<close>

definition line_break :: "nat \<Rightarrow> string" where
  "line_break d = newline # replicate d CHR '' ''"

fun pretty :: "nat \<Rightarrow> jsval \<Rightarrow> string"
  and pretty_elems :: "nat \<Rightarrow> jsval list \<Rightarrow> string"
  and pretty_members :: "nat \<Rightarrow> (string \<times> jsval) list \<Rightarrow> string" where
  "pretty d (JArr vs) = (if vs = [] then ''[]'' else CHR ''['' # pretty_elems d vs)"
| "pretty d (JObj ms) = (if ms = [] then ''{}'' else CHR ''{'' # pretty_members d ms)"
| "pretty d v = stringify v"
| "pretty_elems d [] = []"
| "pretty_elems d (v # vs) = line_break (d + 2) @ pretty (d + 2) v
     @ (if vs = [] then line_break d @ '']'' else CHR '','' # pretty_elems d vs)"
| "pretty_members d [] = []"
| "pretty_members d ((k, v) # ms) = line_break (d + 2) @ quoted k @ '': '' @ pretty (d + 2) v
     @ (if ms = [] then line_break d @ ''}'' else CHR '','' # pretty_members d ms)"

lemma skip_space: "json_space c \<Longrightarrow> skip (c # s) = skip s"
  by (simp add: skip_def)

lemma skip_replicate [simp]: "skip (replicate d CHR '' '' @ s) = skip s"
  by (induction d) (simp_all add: skip_def json_space_def)

lemma skip_line_break [simp]: "skip (line_break d @ s) = skip s"
  by (simp add: line_break_def newline_def skip_space json_space_def)

lemma p_value_skip: "skip s = skip t \<Longrightarrow> p_value n s = p_value n t"
  by (cases n) (simp_all add: p_value.simps)

lemma p_value_break [simp]: "p_value n (line_break d @ s) = p_value n s"
  by (rule p_value_skip) simp

lemma p_value_space [simp]: "p_value n (CHR '' '' # s) = p_value n s"
  by (rule p_value_skip) (simp add: skip_space json_space_def)

lemma p_members_break: "p_members n (line_break d @ s) = p_members n s"
  by (cases n) (simp_all add: p_members.simps)

lemma number_end_break [simp]: "number_end (line_break d @ s)"
  by (simp add: line_break_def newline_def number_end_def is_digit_def)

lemma pretty_start: "\<exists>c cs. pretty d v = c # cs \<and> value_start c"
  using stringify_start [of v] by (cases v) (auto simp: value_start_def)

lemma skip_pretty [simp]: "skip (pretty d v @ r) = pretty d v @ r"
  using pretty_start [of d v] value_start_not_space by (auto simp: skip_def)

lemma pretty_elems_start: "vs \<noteq> [] \<Longrightarrow> \<not> starts_with '']'' (skip (pretty_elems d vs @ r))"
proof (cases vs)
  case (Cons v ws)
  obtain c cs where c: "pretty (d + 2) v = c # cs" "value_start c" using pretty_start by blast
  then have "c \<noteq> CHR '']''" by (auto simp: value_start_def is_digit_def quote_char_def)
  then show ?thesis using c value_start_not_space [of c] by (simp add: Cons skip_non_space starts_with_def)
qed simp

lemma quote_char_neq: "quote_char \<noteq> CHR ''}''"
  by (simp add: quote_char_def)

lemma pretty_members_start: "ms \<noteq> [] \<Longrightarrow> \<not> starts_with ''}'' (skip (pretty_members d ms @ r))"
proof (cases ms)
  case (Cons m ms')
  obtain k v where "m = (k, v)" by force
  then have "skip (pretty_members d ms @ r) = quote_char # tl (skip (pretty_members d ms @ r))"
    by (simp add: Cons quoted_def)
  then show ?thesis by (metis starts_with_iff append_Cons list.inject quote_char_neq)
qed simp

lemma p_pretty:
  "json_wf v \<Longrightarrow> length (pretty d v) < n \<Longrightarrow> number_end r \<Longrightarrow> p_value n (pretty d v @ r) = Some (v, r)"
  "vs \<noteq> [] \<Longrightarrow> \<forall>v \<in> set vs. json_wf v \<Longrightarrow> length (pretty_elems d vs) < n \<Longrightarrow>
     p_elems n (pretty_elems d vs @ r) = Some (vs, r)"
  "ms \<noteq> [] \<Longrightarrow> \<forall>m \<in> set ms. json_wf (snd m) \<Longrightarrow> length (pretty_members d ms) < n \<Longrightarrow>
     p_members n (pretty_members d ms @ r) = Some (ms, r)"
proof (induction d v and d vs and d ms arbitrary: n r and n r and n r
    rule: pretty_pretty_elems_pretty_members.induct)
  case (1 d vs)
  obtain k where n: "n = Suc k" using "1.prems" by (cases n) auto
  show ?case
  proof (cases "vs = []")
    case True
    then show ?thesis by (simp add: n p_value.simps starts_with_def quote_char_def)
  next
    case False
    have "p_elems k (pretty_elems d vs @ r) = Some (vs, r)" using "1.IH" "1.prems" False n by simp
    then show ?thesis using pretty_elems_start [OF False, of d r] False by (simp add: n p_value.simps quote_char_def)
  qed
next
  case (2 d ms)
  obtain k where n: "n = Suc k" using "2.prems" by (cases n) auto
  show ?case
  proof (cases "ms = []")
    case True
    then show ?thesis by (simp add: n p_value.simps starts_with_def quote_char_def)
  next
    case False
    have "p_members k (pretty_members d ms @ r) = Some (ms, r)" using "2.IH" "2.prems" False n by simp
    then show ?thesis using pretty_members_start [OF False, of d r] False "2.prems"
      by (simp add: n p_value.simps quote_char_def build_obj_distinct)
  qed
next
  case (5 d v vs)
  obtain k where n: "n = Suc k" using "5.prems" by (cases n) auto
  have len: "length (pretty (d + 2) v) < k" using "5.prems" n by (simp add: line_break_def)
  show ?case
  proof (cases "vs = []")
    case True
    have "p_value k (pretty (d + 2) v @ line_break d @ '']'' @ r) = Some (v, line_break d @ '']'' @ r)"
      using "5.IH"(1) "5.prems" len by simp
    then show ?thesis by (simp add: n True p_elems.simps)
  next
    case False
    have "p_value k (pretty (d + 2) v @ CHR '','' # pretty_elems d vs @ r) = Some (v, CHR '','' # pretty_elems d vs @ r)"
      using "5.IH"(1) "5.prems" len by simp
    moreover have "p_elems k (pretty_elems d vs @ r) = Some (vs, r)"
      using "5.IH"(2) "5.prems" n False by (simp add: line_break_def)
    ultimately show ?thesis by (simp add: n False p_elems.simps)
  qed
next
  case (7 d key v ms)
  obtain k where n: "n = Suc k" using "7.prems" by (cases n) auto
  have len: "length (pretty (d + 2) v) < k" using "7.prems" n by (simp add: line_break_def)
  have q: "p_members (Suc k) (line_break e @ quoted key @ t) = p_members (Suc k) (quoted key @ t)" for e t
    by (rule p_members_break)
  show ?case
  proof (cases "ms = []")
    case True
    have "p_value k (pretty (d + 2) v @ line_break d @ ''}'' @ r) = Some (v, line_break d @ ''}'' @ r)"
      using "7.IH"(1) "7.prems" len by simp
    then show ?thesis by (simp add: n True q) (simp add: p_members.simps quoted_def p_chars_quoted)
  next
    case False
    have "p_value k (pretty (d + 2) v @ CHR '','' # pretty_members d ms @ r) = Some (v, CHR '','' # pretty_members d ms @ r)"
      using "7.IH"(1) "7.prems" len by simp
    moreover have "p_members k (pretty_members d ms @ r) = Some (ms, r)"
      using "7.IH"(2) "7.prems" n False by (simp add: line_break_def)
    ultimately show ?thesis by (simp add: n False q) (simp add: p_members.simps quoted_def p_chars_quoted)
  qed
qed (use p_stringify(1) in auto)

lemma parse_pretty: "json_wf v \<Longrightarrow> parse_json (pretty 0 v) = Some v"
  using p_pretty(1) [of v 0 "Suc (length (pretty 0 v))" "[]"] by (simp add: parse_json_def)

section \<open>Errors of the language model\<close>

definition is_config_error :: "string \<Rightarrow> bool" where
  "is_config_error m \<longleftrightarrow> str_includes m ''503'' \<or> str_includes (to_lower m) ''llm'' \<or> str_includes (to_lower m) ''api_key''"

definition config_hint :: string where
  "config_hint = ''LLM API is not reachable. Ensure LLM_API_KEY and endpoint are correctly configured in the backend environment.''"

text \<open>The heading and the text of the box.\<close>

definition llm_error :: "string \<Rightarrow> string \<times> string" where
  "llm_error m = (''Configuration Error'', if is_config_error m then config_hint else m)"

datatype ai_reply = Annotations "jsval list" | SummaryOf string int string | AnswerOf string int string

fun the_annotations where "the_annotations (Annotations xs) = Some xs" | "the_annotations _ = None"
fun the_summary where "the_summary (SummaryOf x n m) = Some (x, n, m)" | "the_summary _ = None"
fun the_answer where "the_answer (AnswerOf a n m) = Some (a, n, m)" | "the_answer _ = None"

section \<open>The tab of annotations\<close>

record annotate_tab =
  at_events :: string
  at_result :: "jsval list option"
  at_loading :: bool
  at_error :: "string option"
  at_copied :: bool

definition sample_event :: "string \<Rightarrow> string \<Rightarrow> string \<Rightarrow> string \<Rightarrow> string \<Rightarrow> string \<Rightarrow> jsval" where
  "sample_event t src host user ev msg = JObj [(''datetime'', JStr t), (''source'', JStr src), (''host'', JStr host),
     (''user'', JStr user), (''event_id'', JStr ev), (''message'', JStr msg)]"

definition right_arrow :: string where
  "right_arrow = [CHR 0xE2, CHR 0x86, CHR 0x92]"

definition sample_values :: "jsval list" where
  "sample_values = [
     sample_event ''2026-01-15T06:10:22Z'' ''Sysmon'' ''WORKSTATION-01'' ''svc_backup'' ''1''
       ''Process Creation: mimikatz.exe CommandLine: sekurlsa::logonpasswords ParentImage: cmd.exe'',
     sample_event ''2026-01-15T06:14:08Z'' ''Security'' ''WORKSTATION-01'' ''svc_backup'' ''4648''
       ''Logon attempt using explicit credentials: target DC01, username Administrator'',
     sample_event ''2026-01-15T06:18:45Z'' ''Sysmon'' ''DC01'' ''Administrator'' ''3''
       (''Network connection: coral_reef_ransom.exe '' @ right_arrow @ '' 185.220.101.47:443'')]"

definition sample_events :: string where
  "sample_events = pretty 0 (JArr sample_values)"

definition initial_annotate :: annotate_tab where
  "initial_annotate = \<lparr>at_events = sample_events, at_result = None, at_loading = False, at_error = None, at_copied = False\<rparr>"

definition handle_annotate :: "(string \<Rightarrow> string) \<Rightarrow> (annotate_tab, ai_reply, jsval, unit) io" where
  "handle_annotate syntax = Read (\<lambda>s0.
     Update (\<lambda>s. s\<lparr>at_loading := True, at_error := None, at_result := None\<rparr>)
      (tryFinally
        (tryCatch
          (case parse_json (at_events s0) of None \<Rightarrow> Raise (Error (syntax (at_events s0)))
           | Some events \<Rightarrow> apiPost ''/ai/annotate'' (JObj [(''events'', events), (''max_events'', JNum 20)])
               (expect the_annotations (\<lambda>xs. Update (\<lambda>s. s\<lparr>at_result := Some xs\<rparr>) Done)))
          (\<lambda>e. Update (\<lambda>s. s\<lparr>at_error := Some (message_or ''Annotation failed'' e)\<rparr>) Done))
        (Update (\<lambda>s. s\<lparr>at_loading := False\<rparr>) Done)))"

text \<open>The text put on the clipboard, if there is a result, and the mark that a timer takes back.\<close>

definition handle_copy :: "annotate_tab \<Rightarrow> annotate_tab \<times> string option" where
  "handle_copy s = (case at_result s of None \<Rightarrow> (s, None)
     | Some xs \<Rightarrow> (s\<lparr>at_copied := True\<rparr>, Some (pretty 0 (JArr xs))))"

definition copied_expires :: "annotate_tab \<Rightarrow> annotate_tab" where
  "copied_expires s = s\<lparr>at_copied := False\<rparr>"

definition annotate_enabled :: "annotate_tab \<Rightarrow> bool" where
  "annotate_enabled s \<longleftrightarrow> \<not> at_loading s \<and> trim (at_events s) \<noteq> []"

definition ai_severity_colors :: "string jsobj" where
  "ai_severity_colors = [(''critical'', ''text-red-400 border-red-400/40 bg-red-400/10''),
     (''high'', ''text-orange-400 border-orange-400/40 bg-orange-400/10''),
     (''medium'', ''text-yellow-400 border-yellow-400/40 bg-yellow-400/10''),
     (''low'', ''text-blue-400 border-blue-400/40 bg-blue-400/10'')]"

definition severity_class :: "string \<Rightarrow> string" where
  "severity_class v = (case map_of ai_severity_colors (to_lower v) of Some c \<Rightarrow> c | None \<Rightarrow> ''border-border/40 text-muted-foreground'')"

definition original_of :: "jsval \<Rightarrow> jsval" where
  "original_of a = (case js_prop a ''original'' of Some v \<Rightarrow> v | None \<Rightarrow> JNull)"

definition annotation_title :: "nat \<Rightarrow> jsval \<Rightarrow> string" where
  "annotation_title i a = take 160 (js_string (nullish_or (js_prop (original_of a) ''message'')
     (nullish_or (js_prop (original_of a) ''datetime'') (Some (JStr (''Event #'' @ nat_str (i + 1)))))))"

definition shown_field :: "jsval \<Rightarrow> string \<Rightarrow> string option" where
  "shown_field a k = (if truthy (js_prop a k) then Some (js_string (js_prop a k)) else None)"

text \<open>A card: its title, the badge of its severity, and its tactic, technique and description.\<close>

definition annotation_card :: "nat \<Rightarrow> jsval \<Rightarrow> string \<times> (string \<times> string) option \<times> string option list" where
  "annotation_card i a = (annotation_title i a,
     map_option (\<lambda>v. (v, severity_class v)) (shown_field a ''severity''),
     map (shown_field a) [''mitre_tactic'', ''mitre_technique'', ''description''])"

section \<open>The tab of the summary\<close>

record summary_tab =
  su_text :: "string option"
  su_model :: "string option"
  su_events :: "int option"
  su_loading :: bool
  su_error :: "string option"
  su_copied :: bool

definition initial_summary :: summary_tab where
  "initial_summary = \<lparr>su_text = None, su_model = None, su_events = None, su_loading = False, su_error = None, su_copied = False\<rparr>"

definition handle_generate :: "string \<Rightarrow> (summary_tab, ai_reply, jsval, unit) io" where
  "handle_generate i =
     Update (\<lambda>s. s\<lparr>su_loading := True, su_error := None, su_text := None\<rparr>)
      (tryFinally
        (tryCatch
          (apiPost (''/ai/summary/'' @ i) (JObj []) (expect the_summary (\<lambda>(x, n, m).
             Update (\<lambda>s. s\<lparr>su_text := Some x\<rparr>) (Update (\<lambda>s. s\<lparr>su_model := Some m\<rparr>) (Update (\<lambda>s. s\<lparr>su_events := Some n\<rparr>) Done)))))
          (\<lambda>e. Update (\<lambda>s. s\<lparr>su_error := Some (message_or ''Summary generation failed'' e)\<rparr>) Done))
        (Update (\<lambda>s. s\<lparr>su_loading := False\<rparr>) Done))"

text \<open>\<open>summary.split("\n\n")\<close>.\<close>

definition paragraph_break :: string where
  "paragraph_break = [newline, newline]"

function paragraphs :: "string \<Rightarrow> string list" where
  "paragraphs x = (case index_of paragraph_break x of None \<Rightarrow> [x]
     | Some i \<Rightarrow> take i x # paragraphs (drop (i + 2) x))"
  by pat_completeness auto
termination
  by (relation "measure length") (auto dest!: index_of_Some simp: paragraph_break_def)

declare paragraphs.simps [simp del]

text \<open>What is shown: the model's line and the paragraphs.\<close>

definition summary_view :: "summary_tab \<Rightarrow> ((string \<times> int option) option \<times> string list) option" where
  "summary_view s = (if or_text (su_text s) [] = [] then None
     else Some (if or_text (su_model s) [] = [] then None else Some (or_text (su_model s) [], su_events s),
       paragraphs (or_text (su_text s) [])))"

section \<open>The tab of questions\<close>

record answered_question =
  aq_question :: string
  aq_answer :: string
  aq_model :: string
  aq_events :: int

record query_tab =
  qt_question :: string
  qt_loading :: bool
  qt_error :: "string option"
  qt_history :: "answered_question list"

definition initial_query :: query_tab where
  "initial_query = \<lparr>qt_question = [], qt_loading = False, qt_error = None, qt_history = []\<rparr>"

definition suggested_questions :: "string list" where
  "suggested_questions = [''What was the initial entry point?'', ''Which user accounts were compromised?'',
     ''Identify any persistence mechanisms found.'', ''Was there any suspicious network exfiltration?'']"

type_synonym query_io = "(query_tab, ai_reply, jsval, unit) io"

definition active_question :: "string option \<Rightarrow> query_tab \<Rightarrow> string" where
  "active_question chosen s = or_text chosen (trim (qt_question s))"

definition ask_request :: "string \<Rightarrow> string \<Rightarrow> jsval request" where
  "ask_request i q = Request POST ''/ai/query''
     (Some (JObj [(''incident_id'', JStr i), (''question'', JStr q), (''context_limit'', JNum 30)]))"

definition handle_query :: "string \<Rightarrow> string option \<Rightarrow> query_io" where
  "handle_query i chosen = Read (\<lambda>s0. let q = active_question chosen s0 in
     if q = [] then Done
     else Update (\<lambda>s. s\<lparr>qt_loading := True, qt_error := None\<rparr>)
      (Update (\<lambda>s. if or_text chosen [] = [] then s\<lparr>qt_question := []\<rparr> else s)
        (tryFinally
          (tryCatch
            (call (ask_request i q) (expect the_answer (\<lambda>(a, n, m).
               Update (\<lambda>s. s\<lparr>qt_history := qt_history s @ [\<lparr>aq_question = q, aq_answer = a, aq_model = m, aq_events = n\<rparr>]\<rparr>) Done)))
            (\<lambda>e. Update (\<lambda>s. s\<lparr>qt_error := Some (message_or ''Query failed'' e)\<rparr>) Done))
          (Update (\<lambda>s. s\<lparr>qt_loading := False\<rparr>) Done))))"

text \<open>The controls, each as the page offers it.\<close>

datatype query_event = Suggested string | PressesEnter | ClicksAsk | TypesQuestion string | ClearsHistory

definition suggestions_shown :: "query_tab \<Rightarrow> bool" where
  "suggestions_shown s \<longleftrightarrow> qt_history s = [] \<and> \<not> qt_loading s"

definition ask_enabled :: "query_tab \<Rightarrow> bool" where
  "ask_enabled s \<longleftrightarrow> \<not> qt_loading s \<and> trim (qt_question s) \<noteq> []"

fun query_handler :: "string \<Rightarrow> query_event \<Rightarrow> query_tab \<Rightarrow> query_io" where
  "query_handler i (Suggested q) s = (if suggestions_shown s \<and> q \<in> set suggested_questions then handle_query i (Some q) else Done)"
| "query_handler i PressesEnter s = (if qt_loading s then Done else handle_query i None)"
| "query_handler i ClicksAsk s = (if ask_enabled s then handle_query i None else Done)"
| "query_handler i (TypesQuestion t) s = (if qt_loading s then Done else Update (\<lambda>s. s\<lparr>qt_question := t\<rparr>) Done)"
| "query_handler i ClearsHistory s = (if qt_history s = [] then Done else Update (\<lambda>s. s\<lparr>qt_history := []\<rparr>) Done)"

section \<open>The page\<close>

datatype ai_tab = AnnotateTab | SummaryTab | QueryTab

record ai_page =
  ai_active :: ai_tab
  ai_annotate :: annotate_tab
  ai_summary :: summary_tab
  ai_query :: query_tab

definition ai_tabs :: "(ai_tab \<times> string \<times> string) list" where
  "ai_tabs = [(AnnotateTab, ''ANNOTATOR'', ''MITRE ATT&CK context enrichment''),
     (SummaryTab, ''REPORT'', ''Executive intelligence synthesis''),
     (QueryTab, ''QUERY'', ''Evidence Q&A via natural language'')]"

definition open_ai :: ai_page where
  "open_ai = \<lparr>ai_active = AnnotateTab, ai_annotate = initial_annotate, ai_summary = initial_summary, ai_query = initial_query\<rparr>"

text \<open>Only the active tab is mounted: leaving it drops its state.\<close>

definition choose_tab :: "ai_tab \<Rightarrow> ai_page \<Rightarrow> ai_page" where
  "choose_tab t p = (if t = ai_active p then p else open_ai\<lparr>ai_active := t\<rparr>)"

section \<open>Lemmas\<close>

lemma index_of_parts:
  assumes "index_of n h = Some i"
  shows "take i h @ n @ drop (i + length n) h = h"
proof -
  have "take (length n) (drop i h) @ drop (length n) (drop i h) = drop i h" by (rule append_take_drop_id)
  then have "n @ drop (i + length n) h = drop i h" using index_of_Some [OF assms] by (simp add: add.commute)
  then show ?thesis by simp
qed

lemma paragraphs_nonempty: "paragraphs x \<noteq> []"
  by (subst paragraphs.simps) (simp split: option.split)

lemma join_paragraphs: "join_with paragraph_break (paragraphs x) = x"
proof (induction x rule: paragraphs.induct)
  case (1 x)
  show ?case
  proof (cases "index_of paragraph_break x")
    case None
    then show ?thesis by (simp add: paragraphs.simps [of x])
  next
    case (Some i)
    have x: "take i x @ paragraph_break @ drop (i + 2) x = x"
      using index_of_parts [OF Some] by (simp add: paragraph_break_def)
    have "join_with paragraph_break (paragraphs (drop (i + 2) x)) = drop (i + 2) x" using 1 [OF Some] .
    moreover obtain p ps where "paragraphs (drop (i + 2) x) = p # ps"
      using paragraphs_nonempty by (meson list.exhaust)
    ultimately have "join_with paragraph_break (paragraphs x) = take i x @ paragraph_break @ drop (i + 2) x"
      by (simp add: paragraphs.simps [of x] Some)
    then show ?thesis by (rule trans [OF _ x])
  qed
qed

lemma sample_wf: "\<forall>v \<in> set sample_values. json_wf v"
  by (simp add: sample_values_def sample_event_def)

text \<open>What a question's answer does to the tab.\<close>

definition answered :: "string \<Rightarrow> jserr + ai_reply \<Rightarrow> query_tab \<Rightarrow> query_tab" where
  "answered q x s = (case x of
     Inr (AnswerOf a n m) \<Rightarrow> s\<lparr>qt_loading := False,
       qt_history := qt_history s @ [\<lparr>aq_question = q, aq_answer = a, aq_model = m, aq_events = n\<rparr>]\<rparr>
   | Inr _ \<Rightarrow> s\<lparr>qt_loading := False, qt_error := Some (message_or ''Query failed'' type_error)\<rparr>
   | Inl e \<Rightarrow> s\<lparr>qt_loading := False, qt_error := Some (message_or ''Query failed'' e)\<rparr>)"

definition asked :: "string option \<Rightarrow> query_tab \<Rightarrow> query_tab" where
  "asked chosen s = s\<lparr>qt_loading := True, qt_error := None,
     qt_question := (if or_text chosen [] = [] then [] else qt_question s)\<rparr>"

definition waits :: "query_io \<Rightarrow> bool" where
  "waits m \<longleftrightarrow> (\<exists>rq g q. m = Await rq g \<and> (\<forall>x yes s. settle (g x) yes s = (answered q x s, [])))"

lemma answered_loading [simp]: "\<not> qt_loading (answered q x s)"
  by (simp add: answered_def split: sum.split ai_reply.split)

lemma handle_query_final:
  assumes "active_question chosen s \<noteq> []"
  shows "final_state srv yes (handle_query i chosen) w s =
    answered (active_question chosen s) (fst (srv w (ask_request i (active_question chosen s)))) (asked chosen s)"
proof (cases "fst (srv w (ask_request i (active_question chosen s)))")
  case (Inl e)
  then show ?thesis using assms by (simp add: handle_query_def call_def Let_def answered_def asked_def)
next
  case (Inr r)
  then show ?thesis using assms
    by (cases r) (simp_all add: handle_query_def call_def expect_def Let_def answered_def asked_def)
qed

lemma handle_query_settles:
  assumes "active_question chosen s \<noteq> []"
  shows "\<exists>m. settle (handle_query i chosen) yes s = (asked chosen s, [m]) \<and> waits m"
proof -
  let ?q = "active_question chosen s"
  obtain g where g: "settle (handle_query i chosen) yes s = (asked chosen s, [Await (ask_request i ?q) g])"
    "\<And>x yes s. settle (g x) yes s = (answered ?q x s, [])"
    using assms
    by (simp add: handle_query_def call_def Let_def asked_def)
      (auto simp: answered_def expect_def split: sum.split ai_reply.split)
  then show ?thesis unfolding waits_def by blast
qed

lemma handle_query_blank: "active_question chosen s = [] \<Longrightarrow> settle (handle_query i chosen) yes s = (s, [])"
  by (simp add: handle_query_def Let_def)

definition query_ok :: "(query_tab, ai_reply, jsval) component \<Rightarrow> bool" where
  "query_ok c \<longleftrightarrow> (snd c = [] \<and> \<not> qt_loading (fst c)) \<or> (\<exists>m. snd c = [m] \<and> waits m \<and> qt_loading (fst c))"

lemma query_fires:
  assumes "settle (query_handler i e s) yes s = (s', new)"
  shows "(qt_loading s' = qt_loading s \<and> new = []) \<or> (\<not> qt_loading s \<and> (\<exists>m. new = [m] \<and> waits m \<and> qt_loading s'))"
proof -
  have asks: ?thesis if "settle (handle_query i chosen) yes s = (s', new)" "\<not> qt_loading s" for chosen
    using that handle_query_settles [of chosen s i yes] handle_query_blank [of chosen s i yes]
    by (cases "active_question chosen s = []") (auto simp: asked_def)
  show ?thesis
    using assms asks
    by (cases e) (auto simp: suggestions_shown_def ask_enabled_def split: if_splits)
qed

lemma query_moves: "moves (query_handler i) c c' \<Longrightarrow> query_ok c \<Longrightarrow> query_ok c'"
proof (induction rule: moves.induct)
  case (fire e s yes s' new pool)
  then show ?case using query_fires [OF fire.hyps] by (auto simp: query_ok_def)
next
  case (resume g x yes s s' new pre r post)
  then have pool: "pre = [] \<and> post = []" "waits (Await r g)"
    by (auto simp: query_ok_def Cons_eq_append_conv append_eq_Cons_conv)
  then obtain q where "settle (g x) yes s = (answered q x s, [])" unfolding waits_def by blast
  then show ?case using resume.hyps pool(1) by (simp add: query_ok_def)
qed

section \<open>Theorems\<close>

text \<open>C26.  The exported annotations read back: the copy button puts JSON on the clipboard that parses to exactly the
  annotations shown, and pasted into the field it is sent as those events.
\<close>

theorem export_reads_back:
  assumes "at_result s = Some xs" and "\<forall>x \<in> set xs. json_wf x"
  shows "\<exists>t. snd (handle_copy s) = Some t \<and> parse_json t = Some (JArr xs)
    \<and> requests_of srv yes (handle_annotate syntax) w (s\<lparr>at_events := t\<rparr>) =
        [Request POST ''/ai/annotate'' (Some (JObj [(''events'', JArr xs), (''max_events'', JNum 20)]))]"
proof -
  have p: "parse_json (pretty 0 (JArr xs)) = Some (JArr xs)" using assms(2) by (intro parse_pretty) simp
  then have "requests_of srv yes (handle_annotate syntax) w (s\<lparr>at_events := pretty 0 (JArr xs)\<rparr>) =
      [Request POST ''/ai/annotate'' (Some (JObj [(''events'', JArr xs), (''max_events'', JNum 20)]))]"
    by (auto simp: handle_annotate_def io_simps split: sum.split option.split)
  then show ?thesis using assms(1) p by (simp add: handle_copy_def)
qed

lemma export_reads_back_witness:
  "\<exists>t. snd (handle_copy (initial_annotate\<lparr>at_result := Some sample_values\<rparr>)) = Some t \<and> parse_json t = Some (JArr sample_values)"
  using export_reads_back [of "initial_annotate\<lparr>at_result := Some sample_values\<rparr>" sample_values
      "stateless (\<lambda>_. Inl NonError)" True id "()"] sample_wf by auto

text \<open> Annotating settles: text that is no JSON is never sent; afterwards the tab is not loading and shows either the
  annotations, exactly when the server answered with some, or an error.
\<close>

theorem annotate_outcome:
  "let s' = final_state srv yes (handle_annotate syntax) w s
   in outcome_of srv yes (handle_annotate syntax) w s = Inr () \<and> \<not> at_loading s'
     \<and> (case parse_json (at_events s) of
          None \<Rightarrow> requests_of srv yes (handle_annotate syntax) w s = [] \<and> at_result s' = None
            \<and> at_error s' = Some (syntax (at_events s))
        | Some v \<Rightarrow> let rq = Request POST ''/ai/annotate'' (Some (JObj [(''events'', v), (''max_events'', JNum 20)]))
            in requests_of srv yes (handle_annotate syntax) w s = [rq]
              \<and> at_result s' = (case fst (srv w rq) of Inr (Annotations xs) \<Rightarrow> Some xs | _ \<Rightarrow> None)
              \<and> (at_error s' = None) = (at_result s' \<noteq> None))"
  by (auto simp: handle_annotate_def io_simps split: sum.split option.split ai_reply.split)

text \<open> A question that fails is lost: whatever was typed, the field is emptied at the click, and when the request fails
  the conversation is as before, the error is shown and the question is nowhere on the page; only an answer keeps it.
\<close>

theorem failed_question_lost:
  assumes "trim (qt_question s) \<noteq> []"
  shows "let s' = final_state srv yes (handle_query i None) w s; x = fst (srv w (ask_request i (trim (qt_question s))))
    in qt_question s' = [] \<and> \<not> qt_loading s'
      \<and> (case x of
           Inl e \<Rightarrow> qt_history s' = qt_history s \<and> qt_error s' = Some (message_or ''Query failed'' e)
         | Inr (AnswerOf a n m) \<Rightarrow> qt_error s' = None \<and> qt_history s' = qt_history s
             @ [\<lparr>aq_question = trim (qt_question s), aq_answer = a, aq_model = m, aq_events = n\<rparr>]
         | Inr _ \<Rightarrow> qt_history s' = qt_history s \<and> qt_error s' \<noteq> None)"
proof -
  have q: "active_question None s = trim (qt_question s)" by (simp add: active_question_def or_text_def)
  let ?x = "fst (srv w (ask_request i (trim (qt_question s))))"
  have f: "final_state srv yes (handle_query i None) w s = answered (trim (qt_question s)) ?x (asked None s)"
    using handle_query_final [of None s srv yes i w] assms by (simp add: q)
  have a: "qt_question (asked None s) = []" "qt_history (asked None s) = qt_history s" "qt_error (asked None s) = None"
    by (simp_all add: asked_def or_text_def)
  show ?thesis
    unfolding Let_def f
    by (cases ?x) (simp_all add: a answered_def split: ai_reply.split)
qed

lemma failed_question_lost_witness:
  "qt_question (final_state (stateless (\<lambda>_. Inl (Error ''HTTP 503''))) True (handle_query ''c1'' None) ()
     (initial_query\<lparr>qt_question := ''who?''\<rparr>)) = []"
  using failed_question_lost [of "initial_query\<lparr>qt_question := ''who?''\<rparr>" "stateless (\<lambda>_. Inl (Error ''HTTP 503''))" True
      "''c1''" "()"]
  by (simp add: Let_def trim_def is_space_def)

text \<open> One question at a time: whatever is clicked or typed and whenever answers arrive, at most one question is
  pending, and the tab shows its progress exactly while one is.
\<close>

theorem one_question_at_a_time:
  assumes "reachable (query_handler i) initial_query (s, pool)"
  shows "length pool \<le> 1 \<and> qt_loading s = (pool \<noteq> [])"
proof -
  have "query_ok c" if "reachable (query_handler i) initial_query c" for c
    using that
  proof (induction rule: reachable.induct)
    case initially
    then show ?case by (simp add: query_ok_def initial_query_def)
  next
    case (later c c')
    then show ?case using query_moves by blast
  qed
  from this [OF assms] show ?thesis by (auto simp: query_ok_def)
qed

lemma one_question_at_a_time_witness:
  "\<exists>s pool. reachable (query_handler ''c1'') initial_query (s, pool) \<and> length pool \<le> 1 \<and> qt_loading s = (pool \<noteq> [])"
proof -
  note r = reachable.initially [of "query_handler ''c1''" initial_query]
  show ?thesis by (rule exI, rule exI, rule conjI [OF r one_question_at_a_time [OF r]])
qed

text \<open> The summary is shown whole: its paragraphs, joined again, are the text of the answer.
\<close>

theorem summary_shown_whole:
  "case summary_view s of None \<Rightarrow> or_text (su_text s) [] = []
   | Some (m, ps) \<Rightarrow> join_with paragraph_break ps = or_text (su_text s) []"
  by (simp add: summary_view_def join_paragraphs)

text \<open>Leaving the tab of questions drops the conversation.\<close>

lemma tab_switch_forgets:
  "ai_active p = QueryTab \<Longrightarrow> t \<noteq> QueryTab \<Longrightarrow> qt_history (ai_query (choose_tab QueryTab (choose_tab t p))) = []"
  by (simp add: choose_tab_def open_ai_def initial_query_def)

end
