(* ===== verification/DetectionViews.thy ===== *)
theory DetectionViews
  imports Detections Assistant
begin

text \<open>
  What \<open>pages/AttackChains.tsx\<close> draws around its heat map, with the graphs of its cards that open and close, and the
  detail overlays of \<open>SigmaHits.tsx\<close> and \<open>YaraMatches.tsx\<close>.  \<open>loc\<close> is \<open>toLocaleString\<close> of a date.
\<close>

section \<open>Attack chains\<close>

definition chain_severities :: "string jsobj" where
  "chain_severities = [(''critical'', ''text-red-400 bg-red-400/10 border-red-400/30''),
     (''high'', ''text-orange-400 bg-orange-400/10 border-orange-400/30''),
     (''medium'', ''text-yellow-400 bg-yellow-400/10 border-yellow-400/30''),
     (''low'', ''text-blue-400 bg-blue-400/10 border-blue-400/30''),
     (''informational'', ''text-muted-foreground bg-secondary border-border'')]"

definition chain_severity_class :: "string \<Rightarrow> string" where
  "chain_severity_class v = (case map_of chain_severities v of Some c \<Rightarrow> c | None \<Rightarrow> the (map_of chain_severities ''informational''))"

text \<open>A cell of the heat map with the ring of the chosen tactic, which an empty cell never has.\<close>

definition heat_style :: "string option \<Rightarrow> heat_cell \<Rightarrow> string" where
  "heat_style selected c = (if hc_count c \<noteq> 0 \<and> selected = Some (hc_tactic c)
     then ''ring-2 ring-primary ring-offset-1 ring-offset-background z-10 '' @ hc_class c else hc_class c)"

definition heat_text :: "heat_cell \<Rightarrow> string \<times> string list" where
  "heat_text c = (hc_label c, if 0 < hc_count c then [nat_str (hc_count c), hc_hits c] else [em_dash])"

definition technique_chips :: "attack_chain list \<Rightarrow> (string \<times> string) list" where
  "technique_chips cs = map (\<lambda>(t, n). (t, [CHR 0xC3, CHR 0x97] @ nat_str n)) (sorted_techs cs)"

text \<open>The graphs that are open, by the chain of their card; a card that is not drawn is unmounted and forgets its own.\<close>

record chains_page =
  ch_tactic :: "string option"
  ch_open :: "string list"

definition initial_chains :: chains_page where
  "initial_chains = \<lparr>ch_tactic = None, ch_open = []\<rparr>"

definition drawn_ids :: "attack_chain list \<Rightarrow> chains_page \<Rightarrow> string list" where
  "drawn_ids cs s = map ac_id (filtered_chains (ch_tactic s) cs)"

definition drawn :: "attack_chain list \<Rightarrow> chains_page \<Rightarrow> chains_page" where
  "drawn cs s = s\<lparr>ch_open := filter (\<lambda>i. i \<in> set (drawn_ids cs s)) (ch_open s)\<rparr>"

datatype chains_event = CellClicked heat_cell | ClearFilter | ToggleGraph attack_chain

fun chains_step :: "attack_chain list \<Rightarrow> chains_event \<Rightarrow> chains_page \<Rightarrow> chains_page" where
  "chains_step cs (CellClicked c) s = drawn cs (s\<lparr>ch_tactic := cell_clicked c (ch_tactic s)\<rparr>)"
| "chains_step cs ClearFilter s = (if some_text (ch_tactic s) = None then s else drawn cs (s\<lparr>ch_tactic := None\<rparr>))"
| "chains_step cs (ToggleGraph c) s = (if ac_nodes c = [] \<or> ac_id c \<notin> set (drawn_ids cs s) then s
     else s\<lparr>ch_open := (if ac_id c \<in> set (ch_open s) then removeAll (ac_id c) (ch_open s) else ac_id c # ch_open s)\<rparr>)"

record chain_card =
  cc_window :: string
  cc_hits :: string
  cc_severity :: "string \<times> string"
  cc_pills :: "(string option \<times> string) list"
  cc_techniques :: "string list"
  cc_graph :: "(string \<times> chain_graph option) option"

definition graph_heading :: "attack_chain \<Rightarrow> string" where
  "graph_heading c = ''DIRECTED ATT&CK GRAPH ('' @ nat_str (length (ac_nodes c)) @ '' NODES '' @ [CHR 0xC2, CHR 0xB7] @ '' ''
     @ nat_str (length (ac_edges c)) @ '' EDGES)''"

definition chain_card_of :: "(string \<Rightarrow> string) \<Rightarrow> chains_page \<Rightarrow> attack_chain \<Rightarrow> chain_card" where
  "chain_card_of loc s c = \<lparr>cc_window = chain_window loc c, cc_hits = chain_hits_text c,
     cc_severity = (chain_severity_class (ac_severity c), ac_severity c), cc_pills = map tactic_pill (sorted_tactics c),
     cc_techniques = ac_techniques c,
     cc_graph = (if ac_nodes c = [] then None else Some (if ac_id c \<in> set (ch_open s)
       then (''HIDE DIRECTED GRAPH'', attack_graph (ac_nodes c) (ac_edges c)) else (''VIEW DIRECTED GRAPH'', None)))\<rparr>"

record chains_screen =
  cs_counts :: "nat \<times> nat \<times> int"
  cs_heat :: "(string \<times> string \<times> string list) list option"
  cs_chips :: "(string \<times> string) list"
  cs_title :: string
  cs_clear :: bool
  cs_cards :: "chain_card list"

definition chains_screen_of :: "(string \<Rightarrow> string) \<Rightarrow> attack_chain list query_state \<Rightarrow> chains_page \<Rightarrow> chains_screen" where
  "chains_screen_of loc q s = (let cs = (case query_data q of Some d \<Rightarrow> d | None \<Rightarrow> []) in
     \<lparr>cs_counts = chain_totals cs,
      cs_heat = (if cs = [] then None else Some (map (\<lambda>c. (heat_style (ch_tactic s) c, heat_text c)) (heat_cells cs))),
      cs_chips = (if cs = [] then [] else technique_chips cs), cs_title = chains_title (ch_tactic s),
      cs_clear = (some_text (ch_tactic s) \<noteq> None),
      cs_cards = (case chains_view_of q (ch_tactic s) of ChainsList xs \<Rightarrow> map (chain_card_of loc s) xs | _ \<Rightarrow> [])\<rparr>)"

section \<open>The overlays of a detection\<close>

record sigma_detail =
  sd_badge :: string
  sd_rule :: string
  sd_description :: "string option"
  sd_facts :: "(string \<times> string) list"
  sd_tags :: "string list"
  sd_payload :: string
  sd_pin :: string

definition sigma_detail_of :: "(string \<Rightarrow> string) \<Rightarrow> jsval list \<Rightarrow> sigma_page \<Rightarrow> sigma_detail option" where
  "sigma_detail_of loc pins s = map_option (\<lambda>h. \<lparr>sd_badge = severity_badge (sh_severity h), sd_rule = sh_rule_name h,
     sd_description = (if sh_description h = [] then None else Some (sh_description h)),
     sd_facts = [(''RULE_ID: '', sh_rule_id h), (''RECORD_ID: '', case sh_record_id h of Some r \<Rightarrow> r | None \<Rightarrow> em_dash),
       (''ARTIFACT: '', sh_artifact h), (''TIMESTAMP: '', fmt_ts loc (sh_timestamp h))],
     sd_tags = sh_tags h, sd_payload = pretty 0 (JObj (sh_data h)), sd_pin = pin_label (sh_id h) pins\<rparr>) (sp_selected s)"

definition yara_severities :: "string jsobj" where
  "yara_severities = [(''critical'', ''text-red-400 border-red-400/30 bg-red-400/10''),
     (''high'', ''text-orange-400 border-orange-400/30 bg-orange-400/10''),
     (''medium'', ''text-yellow-400 border-yellow-400/30 bg-yellow-400/10''),
     (''low'', ''text-blue-400 border-blue-400/30 bg-blue-400/10''),
     (''informational'', ''text-muted-foreground border-border bg-secondary/50'')]"

definition yara_severity_class :: "string \<Rightarrow> string" where
  "yara_severity_class v = (case map_of yara_severities v of Some c \<Rightarrow> c | None \<Rightarrow> the (map_of yara_severities ''informational''))"

record yara_detail =
  yd_object :: string
  yd_rule :: string
  yd_severity :: "string \<times> string"
  yd_file :: string
  yd_size :: string
  yd_detected :: string
  yd_hash :: string
  yd_strings :: "(string \<times> (string \<times> string \<times> string) list) option"
  yd_namespace :: "string option"

definition yara_detail_of :: "(string \<Rightarrow> string) \<Rightarrow> yara_match match_page \<Rightarrow> yara_detail option" where
  "yara_detail_of loc s = map_option (\<lambda>m. \<lparr>yd_object = ''OBJECT_ID: '' @ take 8 (ym_id m) @ ''...'', yd_rule = ym_rule m,
     yd_severity = (yara_severity_class (ym_severity m), ym_severity m), yd_file = ym_file m, yd_size = yara_format_bytes (ym_size m),
     yd_detected = loc (ym_detected m), yd_hash = (case ym_sha256 m of Some h \<Rightarrow> h | None \<Rightarrow> ''NOT_AVAILABLE''),
     yd_strings = (if 0 < length (ym_strings m)
       then Some (''Malicious Byte Patterns ('' @ nat_str (length (ym_strings m)) @ '')'', yara_string_rows m) else None),
     yd_namespace = (case ym_namespace m of Some n \<Rightarrow> (if n \<noteq> [] then Some n else None) | None \<Rightarrow> None)\<rparr>) (mp_selected s)"

section \<open>Lemmas\<close>

lemma drawn_open: "set (ch_open (drawn cs s)) = set (ch_open s) \<inter> set (drawn_ids cs s)"
  by (auto simp: drawn_def)

lemma clicked_tactic: "c \<in> set (heat_cells cs) \<Longrightarrow> cell_clicked c sel = Some t \<Longrightarrow> sel = Some t \<or> t \<in> set tactic_order"
  by (auto simp: heat_cells_def heat_cell_of_def cell_clicked_def handle_tactic_click_def split: if_splits prod.splits)

definition graphs_ok :: "attack_chain list \<Rightarrow> chains_page \<Rightarrow> bool" where
  "graphs_ok cs s \<longleftrightarrow> set (ch_open s) \<subseteq> set (drawn_ids cs s)"

lemma graphs_ok_step: "graphs_ok cs s \<Longrightarrow> graphs_ok cs (chains_step cs e s)"
  by (cases e) (auto simp: graphs_ok_def drawn_open drawn_def drawn_ids_def)

lemma graphs_ok_steps: "graphs_ok cs s \<Longrightarrow> graphs_ok cs (fold (chains_step cs) es s)"
  by (induction es arbitrary: s) (simp_all add: graphs_ok_step)

section \<open>Theorems\<close>

text \<open>Whatever is clicked, only graphs of the cards in the list are open: a card that a filter takes away comes back
  with its graph closed.\<close>

theorem filter_closes_graphs:
  assumes "s = fold (chains_step cs) es initial_chains" and "ac_id c \<notin> set (drawn_ids cs s)"
  shows "set (ch_open s) \<subseteq> set (drawn_ids cs s) \<and> ac_id c \<notin> set (ch_open (chains_step cs ClearFilter s))"
proof -
  have "graphs_ok cs s" unfolding assms(1) by (rule graphs_ok_steps) (simp add: graphs_ok_def initial_chains_def)
  then show ?thesis using assms(2) by (auto simp: graphs_ok_def drawn_open)
qed

definition graph_chain :: attack_chain where
  "graph_chain = (sample_chain [''execution''])\<lparr>ac_nodes := [\<lparr>gn_id = ''t'', gn_label = ''EXECUTION'', gn_type = ''tactic''\<rparr>]\<rparr>"

definition impact_cell :: heat_cell where
  "impact_cell = \<lparr>hc_tactic = ''impact'', hc_label = ''IMPACT'', hc_count = 1, hc_hits = ''1 HIT'', hc_class = []\<rparr>"

lemma filter_closes_graphs_witness:
  "ch_open (chains_step [graph_chain] (ToggleGraph graph_chain) initial_chains) = [''c'']
   \<and> ac_id graph_chain \<notin> set (ch_open (chains_step [graph_chain] ClearFilter
       (fold (chains_step [graph_chain]) [ToggleGraph graph_chain, CellClicked impact_cell] initial_chains)))"
proof
  show "ch_open (chains_step [graph_chain] (ToggleGraph graph_chain) initial_chains) = [''c'']"
    by (simp add: graph_chain_def sample_chain_def initial_chains_def drawn_ids_def filtered_chains_def some_text_def)
  show "ac_id graph_chain \<notin> set (ch_open (chains_step [graph_chain] ClearFilter
       (fold (chains_step [graph_chain]) [ToggleGraph graph_chain, CellClicked impact_cell] initial_chains)))"
  proof (rule conjunct2 [OF filter_closes_graphs [OF refl]])
    show "ac_id graph_chain \<notin> set (drawn_ids [graph_chain] (fold (chains_step [graph_chain]) [ToggleGraph graph_chain, CellClicked impact_cell] initial_chains))"
      by (simp add: graph_chain_def sample_chain_def impact_cell_def initial_chains_def drawn_def drawn_ids_def filtered_chains_def
          some_text_def cell_clicked_def handle_tactic_click_def)
  qed
qed

text \<open>The heat map offers the twelve tactics it knows: whatever cells are clicked, a chain of other tactics is
  listed only without a filter.\<close>

theorem other_tactics_unlisted:
  assumes "set (ac_tactics c) \<inter> set tactic_order = {}" and "\<forall>x. CellClicked x \<in> set es \<longrightarrow> x \<in> set (heat_cells cs)"
    and "s = fold (chains_step cs) es initial_chains" and "c \<in> set (filtered_chains (ch_tactic s) cs)"
  shows "\<not> cs_clear (chains_screen_of loc q s)"
proof -
  have t: "case ch_tactic (fold (chains_step cs) es u) of None \<Rightarrow> True | Some t \<Rightarrow> t \<in> set tactic_order"
    if "case ch_tactic u of None \<Rightarrow> True | Some t \<Rightarrow> t \<in> set tactic_order" "\<forall>x. CellClicked x \<in> set es \<longrightarrow> x \<in> set (heat_cells cs)" for u
    using that
  proof (induction es arbitrary: u)
    case (Cons e es)
    have "case ch_tactic (chains_step cs e u) of None \<Rightarrow> True | Some t \<Rightarrow> t \<in> set tactic_order"
    proof (cases e)
      case (CellClicked x)
      then have "x \<in> set (heat_cells cs)" using Cons.prems(2) by simp
      then show ?thesis using Cons.prems(1) clicked_tactic [of x cs "ch_tactic u"] CellClicked
        by (auto simp: drawn_def split: option.splits)
    qed (use Cons.prems(1) in \<open>simp_all add: drawn_def split: option.splits\<close>)
    with Cons show ?case by simp
  qed simp
  have "case ch_tactic s of None \<Rightarrow> True | Some t \<Rightarrow> t \<in> set tactic_order"
    unfolding assms(3) by (rule t) (use assms(2) in \<open>simp_all add: initial_chains_def\<close>)
  then show ?thesis
    using assms(1,4) by (auto simp: chains_screen_of_def Let_def some_text_def filtered_chains_def split: option.splits if_splits)
qed

lemma other_tactics_unlisted_witness:
  "\<not> cs_clear (chains_screen_of (\<lambda>t. t) Loading (fold (chains_step [sample_chain [''reconnaissance'']]) [ClearFilter] initial_chains))"
  by (rule other_tactics_unlisted [of "sample_chain [''reconnaissance'']" "[ClearFilter]" "[sample_chain [''reconnaissance'']]", OF _ _ refl])
    (simp_all add: sample_chain_def tactic_order_def initial_chains_def filtered_chains_def some_text_def)

text \<open>The three numbers above the list are of all chains, whatever the filter of the list.\<close>

theorem totals_ignore_filter:
  "cs_counts (chains_screen_of loc q (s\<lparr>ch_tactic := t\<rparr>)) = cs_counts (chains_screen_of loc q s)
   \<and> cs_chips (chains_screen_of loc q (s\<lparr>ch_tactic := t\<rparr>)) = cs_chips (chains_screen_of loc q s)"
  by (simp add: chains_screen_of_def Let_def)

text \<open>The colours of a chain and of a YARA match are looked up as the severity is written, those of a Sigma hit in lower
  case: a severity in capitals is drawn as informational on the two pages and in its colour on the third.\<close>

theorem capital_severity_plain:
  assumes "v \<in> set [''CRITICAL'', ''HIGH'', ''MEDIUM'', ''LOW'']"
  shows "chain_severity_class v = chain_severity_class ''informational'' \<and> yara_severity_class v = yara_severity_class ''informational''
    \<and> severity_badge v \<noteq> severity_badge ''informational''"
  using assms
  by (auto simp: chain_severity_class_def chain_severities_def yara_severity_class_def yara_severities_def severity_badge_def
      color_or_informational_def severity_colors_def char_eval)

lemma capital_severity_plain_witness:
  "chain_severity_class ''CRITICAL'' = chain_severity_class ''informational'' \<and> severity_badge ''CRITICAL'' \<noteq> severity_badge ''informational''"
  using capital_severity_plain [of "''CRITICAL''"] by simp

end
