(* ===== verification/CollectionExecution.thy ===== *)
theory CollectionExecution
  imports Regex
begin

text \<open>
  \<open>pages/CollectionExecution.tsx\<close>: the page that starts a collection, polls its progress and can
  abort it.  The clock and \<open>toLocaleTimeString\<close> are parameters; the refs of the component are
  fields of its state.
\<close>

section \<open>Data\<close>

record exec_incident =
  ei_id :: string
  ei_status :: string
  ei_targets :: "string list"
  ei_operator :: string

record exec_device =
  ed_id :: string
  ed_hostname :: string
  ed_ip :: string
  ed_os :: string
  ed_status :: string

record collector_summary =
  co_id :: string
  co_name :: string
  co_endpoint :: string
  co_status :: string

record collection_log =
  cl_level :: string
  cl_message :: string
  cl_timestamp :: string

record host_job =
  hj_job_id :: string
  hj_hostname :: "string option"
  hj_status :: string
  hj_module_count :: nat
  hj_message :: "string option"

record collection_status =
  cs_status :: string
  cs_progress :: int
  cs_phase :: "string option"
  cs_logs :: "collection_log list"
  cs_jobs :: "host_job list"

record collection_location_state =
  ls_module_ids :: "string list option"
  ls_os_override :: "string option"

record collect_request =
  module_ids :: "string list"
  req_os_override :: "string option"

datatype exec_body = Collect collect_request | EmptyBody

datatype exec_reply =
    EIncident exec_incident
  | EDevices "exec_device list"
  | ECollectors "collector_summary list"
  | EStatus collection_status
  | EJobs "string list"
  | EOther

fun the_exec_incident where "the_exec_incident (EIncident i) = Some i" | "the_exec_incident _ = None"
fun the_exec_devices where "the_exec_devices (EDevices d) = Some d" | "the_exec_devices _ = None"
fun the_collectors where "the_collectors (ECollectors c) = Some c" | "the_collectors _ = None"
fun the_status where "the_status (EStatus c) = Some c" | "the_status _ = None"
fun the_jobs where "the_jobs (EJobs c) = Some c" | "the_jobs _ = None"

datatype phase_status = Pending | Active | Complete | Failed

record phase =
  ph_id :: string
  ph_name :: string
  ph_status :: phase_status
  ph_progress :: "int option"

record log_entry =
  le_timestamp :: string
  le_level :: string
  le_message :: string

definition phase_table :: "(string \<times> string) list" where
  "phase_table = [(''collecting'', ''Acquisition''), (''parsing'', ''Local Analysis''),
     (''uploading'', ''Data Transfer'')]"

definition resolve_active_phase_id :: "string option \<Rightarrow> string" where
  "resolve_active_phase_id backend =
     (if backend = Some ''parsing'' then ''parsing''
      else if backend = Some ''uploading'' then ''uploading'' else ''collecting'')"

section \<open>State and operations\<close>

record execution =
  exec_logs :: "log_entry list"
  phases :: "phase list"
  is_complete :: bool
  elapsed_time :: int
  exec_incident :: "exec_incident option"
  exec_device :: "exec_device option"
  exec_collector :: "collector_summary option"
  exec_error :: "string option"
  per_host_jobs :: "host_job list"
  current_module :: "string option"
  is_starting :: bool
  is_aborting :: bool
  polling_enabled :: bool
  started :: bool
  started_at :: "int option"

definition initial_execution :: execution where
  "initial_execution = \<lparr>exec_logs = [],
     phases = map (\<lambda>(i, n). \<lparr>ph_id = i, ph_name = n, ph_status = Pending, ph_progress = None\<rparr>) phase_table,
     is_complete = False, elapsed_time = 0, exec_incident = None, exec_device = None,
     exec_collector = None, exec_error = None, per_host_jobs = [], current_module = None,
     is_starting = False, is_aborting = False, polling_enabled = False, started = False, started_at = None\<rparr>"

type_synonym 'a exec_io = "(execution, exec_reply, exec_body, 'a) io"

definition load_context :: "string \<Rightarrow> unit exec_io" where
  "load_context incident_id =
     (if incident_id = [] then Done
      else tryCatch
        (apiGet (''/incidents/'' @ incident_id) (expect the_exec_incident (\<lambda>current.
          Update (\<lambda>s. s\<lparr>exec_incident := Some current\<rparr>)
         (apiGet ''/devices'' (expect the_exec_devices (\<lambda>ds.
          let target = (case ei_targets current of t # _ \<Rightarrow> to_lower t | [] \<Rightarrow> [])
          in Update (\<lambda>s. s\<lparr>exec_device := find (\<lambda>d. to_lower (ed_hostname d) = target) ds\<rparr>)
         (apiGet ''/collectors'' (expect the_collectors (\<lambda>cs.
          Update (\<lambda>s. s\<lparr>exec_collector := (case cs of c # _ \<Rightarrow> Some c | [] \<Rightarrow> None)\<rparr>) Done)))))))))
        (\<lambda>_. Update (\<lambda>s. s\<lparr>exec_error := Some ''Acquisition context unavailable.''\<rparr>) Done))"

definition complete_all :: "phase list \<Rightarrow> phase list" where
  "complete_all ps = map (\<lambda>p. p\<lparr>ph_status := Complete, ph_progress := Some 100\<rparr>) ps"

definition collect_body :: "collection_location_state option \<Rightarrow> collect_request" where
  "collect_body loc =
     \<lparr>module_ids = (case Option.bind loc ls_module_ids of Some ms \<Rightarrow> ms | None \<Rightarrow> []),
      req_os_override = (case Option.bind loc ls_os_override of Some os \<Rightarrow> if os = [] then None else Some os
                         | None \<Rightarrow> None)\<rparr>"

text \<open>The status of the incident that \<open>apiGet(...).catch(() => null)\<close> finds, if any.\<close>

definition found_status :: "jserr + exec_reply \<Rightarrow> string option" where
  "found_status x = (case x of Inl _ \<Rightarrow> None | Inr r \<Rightarrow> map_option ei_status (the_exec_incident r))"

definition already_collected :: "string option \<Rightarrow> bool" where
  "already_collected st = (st \<in> {Some ''COLLECTION_IN_PROGRESS'', Some ''COLLECTION_COMPLETE''})"

definition start_collection :: "bool \<Rightarrow> string \<Rightarrow> collection_location_state option \<Rightarrow> int \<Rightarrow> unit exec_io" where
  "start_collection viewer incident_id loc now = Read (\<lambda>s0.
     if incident_id = [] \<or> started s0 \<or> viewer then Done
     else Update (\<lambda>s. s\<lparr>is_starting := True\<rparr>)
      (tryFinally
        (tryCatch
          (Await (Request GET (''/incidents/'' @ incident_id) None) (\<lambda>x.
            let st = found_status x
            in if already_collected st then
                 Update (\<lambda>s. s\<lparr>started := True, started_at := Some now\<rparr>)
                (Update (\<lambda>s. s\<lparr>polling_enabled := (st = Some ''COLLECTION_IN_PROGRESS'')\<rparr>)
                (if st = Some ''COLLECTION_COMPLETE''
                 then Update (\<lambda>s. s\<lparr>is_complete := True, phases := complete_all (phases s)\<rparr>) Done
                 else Done))
               else apiPost (''/incidents/'' @ incident_id @ ''/collect'') (Collect (collect_body loc)) (\<lambda>_.
                 Update (\<lambda>s. s\<lparr>started := True, started_at := Some now\<rparr>)
                (Update (\<lambda>s. s\<lparr>polling_enabled := True\<rparr>) Done))))
          (\<lambda>err. Update (\<lambda>s. s\<lparr>exec_error := Some (message_or ''Activation failure.'' err)\<rparr>) Done))
        (Update (\<lambda>s. s\<lparr>is_starting := False\<rparr>) Done)))"

text \<open>\<open>/(?:Executing|Starting) module\s+(\S+)/i\<close> and its captured name.\<close>

definition module_re :: re where
  "module_re = InOrder [Alt (LitI ''Executing'') (LitI ''Starting''), LitI '' module'',
     Plus (Cls is_space), Cls non_space]"

definition module_of :: "string \<Rightarrow> string option" where
  "module_of msg = (case search module_re None msg of
      Some (m, rest) \<Rightarrow> Some (last m # takeWhile non_space rest) | None \<Rightarrow> None)"

definition add_logs :: "(string \<Rightarrow> string) \<Rightarrow> collection_log list \<Rightarrow> execution \<Rightarrow> execution" where
  "add_logs locale_time ls s =
     (if ls = [] then s
      else let s1 = s\<lparr>exec_logs := exec_logs s @ map (\<lambda>l. \<lparr>le_timestamp = locale_time (cl_timestamp l),
                    le_level = cl_level l, le_message = cl_message l\<rparr>) ls\<rparr>
           in case module_of (cl_message (last ls)) of Some m \<Rightarrow> s1\<lparr>current_module := Some m\<rparr> | None \<Rightarrow> s1)"

definition fail_active :: "phase list \<Rightarrow> phase list" where
  "fail_active ps = map (\<lambda>p. if ph_status p = Active then p\<lparr>ph_status := Failed\<rparr> else p) ps"

fun phase_index :: "string \<Rightarrow> (string \<times> string) list \<Rightarrow> int" where
  "phase_index i [] = -1"
| "phase_index i ((j, n) # ps) =
     (if i = j then 0 else let k = phase_index i ps in if k = -1 then -1 else k + 1)"

definition advance_phases :: "string \<Rightarrow> int \<Rightarrow> phase list \<Rightarrow> phase list" where
  "advance_phases active_id progress ps = map (\<lambda>p.
     if phase_index (ph_id p) phase_table < phase_index active_id phase_table
     then p\<lparr>ph_status := Complete, ph_progress := Some 100\<rparr>
     else if ph_id p = active_id
     then p\<lparr>ph_status := Active, ph_progress := (if ph_id p = ''collecting'' then Some progress else None)\<rparr>
     else p\<lparr>ph_status := Pending\<rparr>) ps"

definition handle_poll :: "(string \<Rightarrow> string) \<Rightarrow> string \<Rightarrow> int \<Rightarrow> string option exec_io" where
  "handle_poll locale_time incident_id now = Read (\<lambda>s0.
     if incident_id = [] \<or> \<not> started s0 then Ret None
     else tryCatch
       (apiPost (''/incidents/'' @ incident_id @ ''/collect/poll'') EmptyBody (expect the_status (\<lambda>st.
          Update (add_logs locale_time (cs_logs st))
         (Update (\<lambda>s. s\<lparr>per_host_jobs := cs_jobs st\<rparr>)
         (Update (\<lambda>s. s\<lparr>elapsed_time := (case started_at s of
              Some t \<Rightarrow> if t = 0 then 0 else (now - t) div 1000 | None \<Rightarrow> 0)\<rparr>)
         (if cs_status st = ''COLLECTION_COMPLETE'' then
            Update (\<lambda>s. s\<lparr>is_complete := True, phases := complete_all (phases s), polling_enabled := False\<rparr>)
              (Ret None)
          else if cs_status st = ''COLLECTION_FAILED'' then
            Update (\<lambda>s. s\<lparr>exec_error := Some ''Acquisition sequence failed.'',
              phases := fail_active (phases s), polling_enabled := False\<rparr>) (Ret None)
          else
            Update (\<lambda>s. s\<lparr>phases := advance_phases (resolve_active_phase_id (cs_phase st)) (cs_progress st) (phases s)\<rparr>)
              (Ret (Some (cs_status st)))))))))
       (\<lambda>_. Ret None))"

definition handle_abort :: "bool \<Rightarrow> string \<Rightarrow> unit exec_io" where
  "handle_abort viewer incident_id =
     (if incident_id = [] \<or> viewer then Done
      else Update (\<lambda>s. s\<lparr>is_aborting := True\<rparr>)
       (tryFinally
         (tryCatch
           (apiGet (''/jobs/incident/'' @ incident_id) (expect the_jobs (\<lambda>js.
              all_settled (map (\<lambda>j. Request POST (''/jobs/'' @ j @ ''/cancel'') (Some EmptyBody)) js)
                (Update (\<lambda>s. s\<lparr>polling_enabled := False, exec_error := Some ''Sequence aborted by analyst.''\<rparr>) Done))))
           (\<lambda>_. Update (\<lambda>s. s\<lparr>exec_error := Some ''Abort command failed.''\<rparr>) Done))
         (Update (\<lambda>s. s\<lparr>is_aborting := False\<rparr>) Done)))"

definition format_time :: "int \<Rightarrow> string" where
  "format_time s = pad_start2 (int_str (s div 60)) @ '':'' @ pad_start2 (int_str (s mod 60))"

definition status_label :: "execution \<Rightarrow> string" where
  "status_label s =
     (if is_starting s then ''INITIALIZING'' else if is_complete s then ''COMPLETE''
      else to_upper (resolve_active_phase_id (Some (case find (\<lambda>p. ph_status p = Active) (phases s) of
        Some p \<Rightarrow> ph_id p | None \<Rightarrow> ''collecting''))))"

datatype exec_event = LoadContext | Start int | Poll int | Abort

fun exec_handler :: "bool \<Rightarrow> string \<Rightarrow> collection_location_state option \<Rightarrow> (string \<Rightarrow> string)
    \<Rightarrow> exec_event \<Rightarrow> execution \<Rightarrow> unit exec_io" where
  "exec_handler viewer i loc lt LoadContext s = load_context i"
| "exec_handler viewer i loc lt (Start now) s = start_collection viewer i loc now"
| "exec_handler viewer i loc lt (Poll now) s =
     (if polling_enabled s then andThen (handle_poll lt i now) (\<lambda>_. Done) else Done)"
| "exec_handler viewer i loc lt Abort s = (if is_aborting s then Done else handle_abort viewer i)"

section \<open>The phases\<close>

text \<open>The shape of the progress display: completed phases, then at most one active or failed, then pending.\<close>

definition pipeline :: "phase_status list \<Rightarrow> bool" where
  "pipeline xs = (case dropWhile (\<lambda>x. x = Complete) xs of
      [] \<Rightarrow> True | x # rest \<Rightarrow> x \<noteq> Complete \<and> (\<forall>y \<in> set rest. y = Pending))"

definition phases_ok :: "execution \<Rightarrow> bool" where
  "phases_ok s \<longleftrightarrow> map ph_id (phases s) = map fst phase_table \<and> pipeline (map ph_status (phases s))"

lemma three_phases:
  assumes "map ph_id ps = map fst phase_table"
  obtains a b c where "ps = [a, b, c]" "ph_id a = ''collecting''" "ph_id b = ''parsing''" "ph_id c = ''uploading''"
proof -
  have "length (map ph_id ps) = length (map fst phase_table)" using assms by (rule arg_cong)
  then obtain a b c where "ps = [a, b, c]" by (auto simp: phase_table_def length_Suc_conv)
  then show thesis using that assms by (simp add: phase_table_def)
qed

lemma complete_all_ids [simp]: "map ph_id (complete_all ps) = map ph_id ps"
  by (simp add: complete_all_def)

lemma complete_all_pipeline [simp]: "pipeline (map ph_status (complete_all ps))"
proof -
  have "dropWhile (\<lambda>x. x = Complete) (map ph_status (complete_all ps)) = []"
    by (simp add: complete_all_def)
  then show ?thesis by (simp add: pipeline_def del: dropWhile_eq_Nil_conv)
qed

lemma complete_all_done: "list_all (\<lambda>p. ph_status p = Complete) (complete_all ps)"
  by (simp add: complete_all_def list_all_iff)

lemma fail_active_none: "list_all (\<lambda>p. ph_status p \<noteq> Active) (fail_active ps)"
  by (auto simp: fail_active_def list_all_iff)

lemma fail_active_ids [simp]: "map ph_id (fail_active ps) = map ph_id ps"
  by (simp add: fail_active_def)

lemma fail_active_pipeline:
  assumes "map ph_id ps = map fst phase_table" and "pipeline (map ph_status ps)"
  shows "pipeline (map ph_status (fail_active ps))"
proof -
  from assms(1) obtain a b c where "ps = [a, b, c]" by (rule three_phases)
  with assms(2) show ?thesis
    by (cases "ph_status a"; cases "ph_status b"; cases "ph_status c")
      (simp_all add: fail_active_def pipeline_def)
qed

lemma advance_phases_ids [simp]: "map ph_id (advance_phases a n ps) = map ph_id ps"
  by (simp add: advance_phases_def)

lemma resolve_cases:
  obtains "resolve_active_phase_id b = ''collecting''" | "resolve_active_phase_id b = ''parsing''"
  | "resolve_active_phase_id b = ''uploading''"
  by (cases "b = Some ''parsing''"; cases "b = Some ''uploading''") (simp_all add: resolve_active_phase_id_def)

lemma advance_phases_pipeline:
  assumes "map ph_id ps = map fst phase_table"
  shows "pipeline (map ph_status (advance_phases (resolve_active_phase_id b) n ps))"
proof -
  from assms obtain x y z where p: "ps = [x, y, z]" "ph_id x = ''collecting''" "ph_id y = ''parsing''"
      "ph_id z = ''uploading''" by (rule three_phases)
  show ?thesis
    by (rule resolve_cases [of b]) (simp_all add: p advance_phases_def phase_table_def Let_def pipeline_def)
qed

lemma add_logs_fields [simp]:
  "phases (add_logs lt ls s) = phases s" "started (add_logs lt ls s) = started s"
  "polling_enabled (add_logs lt ls s) = polling_enabled s" "is_complete (add_logs lt ls s) = is_complete s"
  by (auto simp: add_logs_def Let_def split: option.split)

lemma start_phases_ok: "phases_ok initial_execution"
  by (simp add: phases_ok_def initial_execution_def phase_table_def pipeline_def)

lemma exec_handler_ok: "phases_ok s \<Longrightarrow> keeps phases_ok (exec_handler viewer i loc lt e s) s"
proof (cases e)
  case LoadContext
  assume "phases_ok s"
  with LoadContext show ?thesis
    by (simp add: load_context_def)
      (auto intro!: keeps_tryCatch simp: phases_ok_def split: option.split)
next
  case (Start now)
  assume "phases_ok s"
  with Start show ?thesis
    by (simp add: start_collection_def)
      (auto intro!: keeps_tryFinally keeps_tryCatch simp: phases_ok_def Let_def)
next
  case (Poll now)
  assume "phases_ok s"
  with Poll show ?thesis
    by (simp add: handle_poll_def)
      (auto intro!: keeps_andThen keeps_tryCatch
        simp: phases_ok_def fail_active_pipeline advance_phases_pipeline split: option.split)
next
  case Abort
  assume "phases_ok s"
  with Abort show ?thesis
    by (simp add: handle_abort_def)
      (auto intro!: keeps_tryFinally keeps_tryCatch simp: phases_ok_def split: option.split)
qed

interpretation exec: component_invariant "exec_handler viewer i loc lt" initial_execution phases_ok
  by unfold_locales (rule start_phases_ok, rule exec_handler_ok)

section \<open>Properties\<close>

text \<open>C15. Under every interleaving of loading, starting, polling and aborting, the progress display lists
  the three phases in order and shows completed phases first, then at most one that is active or failed,
  then pending ones.\<close>

theorem phases_stay_ordered:
  assumes "reachable (exec_handler viewer i loc lt) initial_execution (s, pool)"
  shows "map ph_id (phases s) = map fst phase_table \<and> pipeline (map ph_status (phases s))"
  using exec.reachable_inv [OF assms] by (simp add: phases_ok_def)

theorem phases_stay_ordered_witness:
  "pipeline (map ph_status (phases initial_execution))"
  using phases_stay_ordered [where viewer = False and i = "''INC-1''" and loc = None and lt = "\<lambda>t. t",
      OF reachable.initially] by simp

text \<open>Exactly what starting a collection sends: nothing without an incident, once started or for a
  viewer; otherwise the incident's status is read and, unless it says that the collection is running or
  complete, one collection request follows with the selected modules and the operating system.  A failed
  status read does not stop the request.\<close>

theorem start_requests:
  "requests_of srv yes (start_collection viewer i loc now) w s =
     (if i = [] \<or> started s \<or> viewer then []
      else Request GET (''/incidents/'' @ i) None #
        (if already_collected (found_status (fst (srv w (Request GET (''/incidents/'' @ i) None)))) then []
         else [Request POST (''/incidents/'' @ i @ ''/collect'') (Some (Collect (collect_body loc)))]))"
  by (auto simp: start_collection_def io_simps split: sum.split)

text \<open>C16. A started collection polls until the server reports its end: a reply that says complete or
  failed turns polling off and settles every phase (completed, or the active one failed), any other reply
  keeps it on, and a failed poll changes nothing.\<close>

theorem poll_outcome:
  assumes "i \<noteq> []" and "started s" and "map ph_id (phases s) = map fst phase_table"
    and "srv w (Request POST (''/incidents/'' @ i @ ''/collect/poll'') (Some EmptyBody)) = (reply, w')"
  shows "case reply of
      Inl e \<Rightarrow> final_state srv yes (handle_poll lt i now) w s = s
    | Inr r \<Rightarrow> (case the_status r of None \<Rightarrow> final_state srv yes (handle_poll lt i now) w s = s
      | Some st \<Rightarrow>
         (let s' = final_state srv yes (handle_poll lt i now) w s
          in per_host_jobs s' = cs_jobs st \<and> length (exec_logs s') = length (exec_logs s) + length (cs_logs st) \<and>
             (if cs_status st = ''COLLECTION_COMPLETE''
              then is_complete s' \<and> \<not> polling_enabled s' \<and> list_all (\<lambda>p. ph_status p = Complete) (phases s')
              else if cs_status st = ''COLLECTION_FAILED''
              then \<not> polling_enabled s' \<and> exec_error s' = Some ''Acquisition sequence failed.''
                \<and> list_all (\<lambda>p. ph_status p \<noteq> Active) (phases s')
              else polling_enabled s' = polling_enabled s
                \<and> filter (\<lambda>p. ph_status p = Active) (phases s') \<noteq> [])))"
proof (cases reply)
  case (Inl e)
  then show ?thesis using assms by (simp add: handle_poll_def io_simps)
next
  case (Inr r)
  show ?thesis
  proof (cases "the_status r")
    case None
    then show ?thesis using assms Inr by (simp add: handle_poll_def io_simps)
  next
    case (Some st)
    let ?a = "advance_phases (resolve_active_phase_id (cs_phase st)) (cs_progress st) (phases s)"
    have act: "filter (\<lambda>p. ph_status p = Active) ?a \<noteq> []"
      by (rule three_phases [OF assms(3)], rule resolve_cases [of "cs_phase st"])
        (simp_all add: advance_phases_def phase_table_def Let_def)
    have logs: "length (exec_logs (add_logs lt ls s)) = length (exec_logs s) + length ls" for ls
      by (auto simp: add_logs_def Let_def split: option.split)
    show ?thesis
      using assms Inr Some act
      by (simp add: handle_poll_def io_simps logs complete_all_done fail_active_none)
  qed
qed

definition poll_reply :: "string \<Rightarrow> collection_status" where
  "poll_reply st = \<lparr>cs_status = st, cs_progress = 40, cs_phase = Some ''parsing'', cs_logs = [], cs_jobs = []\<rparr>"

theorem poll_outcome_witness:
  "\<not> polling_enabled (final_state (stateless (\<lambda>_. Inr (EStatus (poll_reply ''COLLECTION_COMPLETE'')))) True
     (handle_poll (\<lambda>t. t) ''i1'' 5000) () (initial_execution\<lparr>started := True, polling_enabled := True\<rparr>))"
  using poll_outcome [of "''i1''" "initial_execution\<lparr>started := True, polling_enabled := True\<rparr>"
      "stateless (\<lambda>_. Inr (EStatus (poll_reply ''COLLECTION_COMPLETE'')))" "()"
      "Inr (EStatus (poll_reply ''COLLECTION_COMPLETE''))" "()" True "\<lambda>t. t" 5000]
  by (simp add: stateless_def initial_execution_def phase_table_def poll_reply_def Let_def)

end
