(* ===== verification/Processing.thy ===== *)
theory Processing
  imports Hooks Json
begin

text \<open>
  \<open>pages/ProcessingStatus.tsx\<close> and \<open>components/TerminalLog.tsx\<close>: the page that starts the forensic
  pipeline, follows its job and tails its log.  The job arrives by a query whose data survive a failed
  refetch; the clock and \<open>toLocaleTimeString\<close> are parameters.

  The tail of the log reads a growing file: it asks for the entries after the last sequence number it has
  seen, from the adaptive poller of \<open>Hooks\<close>.  \<open>tail_step\<close> runs the two together with a server that keeps
  writing, may answer late or not at all and may delete the log, while the polling stops and starts again
  with the job.  As long as no run of the poller starts over a waiting poll and the log is not deleted, the
  panel refines an append-only channel; restarts repeat lines and a deletion hides them, which is proved too.
\<close>

section \<open>Data\<close>

datatype job_status = JobPending | JobRunning | JobDone | JobPartial | JobFailed

fun job_status_name :: "job_status \<Rightarrow> string" where
  "job_status_name JobPending = ''PENDING''" | "job_status_name JobRunning = ''RUNNING''"
| "job_status_name JobDone = ''DONE''" | "job_status_name JobPartial = ''PARTIAL''"
| "job_status_name JobFailed = ''FAILED''"

record stage_report =
  sr_status :: string
  sr_reason :: "string option"

record processing_job =
  pj_id :: string
  pj_incident_id :: string
  pj_job_id :: string
  pj_status :: job_status
  pj_phase :: "string option"
  pj_started :: "string option"
  pj_completed :: "string option"
  pj_error :: "string option"
  pj_created :: string
  pj_reports :: "stage_report jsobj option"

record preflight =
  pf_ready :: bool
  pf_warnings :: "string list"
  pf_parsing_ready :: bool
  pf_detection_ready :: bool
  pf_timeline_ready :: bool
  pf_analytics_ready :: bool

record pipeline_log =
  pl_sequence :: nat
  pl_level :: string
  pl_message :: string
  pl_timestamp :: string

record terminal_entry =
  te_timestamp :: string
  te_level :: string
  te_message :: string

record pipeline_phase =
  pp_id :: string
  pp_label :: string
  pp_desc :: string
  pp_tool :: "string option"

definition pipeline_phases :: "pipeline_phase list" where
  "pipeline_phases =
    [\<lparr>pp_id = ''parsing'', pp_label = ''PHASE 1: ARTIFACT PARSING'',
      pp_desc = ''EZ Tools parsing EVTX, MFT, Registry, Prefetch, LNK'', pp_tool = Some ''EZ Tools''\<rparr>,
     \<lparr>pp_id = ''sigma'', pp_label = ''PHASE 2: SIGMA DETECTION'',
      pp_desc = ''Hayabusa + Chainsaw hunting Sigma rules against event logs'', pp_tool = Some ''Hayabusa / Chainsaw''\<rparr>,
     \<lparr>pp_id = ''timeline'', pp_label = ''PHASE 3: TIMELINE BUILD'',
      pp_desc = ''Merging all parsed sources into Timesketch-compatible JSONL'', pp_tool = None\<rparr>,
     \<lparr>pp_id = ''analytics'', pp_label = ''PHASE 4: ADVANCED ANALYTICS'',
      pp_desc = ''ATT&CK chain reconstruction, IOC matching, YARA scanning'', pp_tool = None\<rparr>]"

section \<open>The status of a phase\<close>

datatype stage_status = StPending | StActive | StComplete | StFailed | StPartial | StSkipped

definition phase_order :: "string list" where
  "phase_order = [''parsing'', ''sigma'', ''timeline'', ''analytics'']"

text \<open>\<open>order.indexOf(x)\<close>, with -1 for a name that is not listed.\<close>

definition phase_pos :: "string \<Rightarrow> int" where
  "phase_pos x = (case index_of [x] phase_order of Some n \<Rightarrow> int n | None \<Rightarrow> - 1)"

definition stage_prefix :: "string \<Rightarrow> string" where
  "stage_prefix pid = (if pid = ''parsing'' then ''parser:'' else if pid = ''timeline'' then ''timeline''
     else pid @ '':'')"

definition stage_statuses :: "stage_report jsobj option \<Rightarrow> string \<Rightarrow> string list" where
  "stage_statuses reports pid =
     map (\<lambda>(k, r). sr_status r)
       (filter (\<lambda>(k, r). starts_with (stage_prefix pid) k) (case reports of Some rs \<Rightarrow> rs | None \<Rightarrow> []))"

definition stage_status_of :: "string option \<Rightarrow> job_status \<Rightarrow> string \<Rightarrow> stage_report jsobj option \<Rightarrow> stage_status" where
  "stage_status_of ph js pid reports =
     (let current = (case ph of Some p \<Rightarrow> (if p = [] then - 1 else phase_pos p) | None \<Rightarrow> - 1);
          idx = phase_pos pid; statuses = stage_statuses reports pid
      in if js = JobFailed \<and> current = idx then StFailed
         else if ''FAILED'' \<in> set statuses then StFailed
         else if (js \<noteq> JobRunning \<or> current > idx) \<and>
                 list_ex (\<lambda>st. st = ''NOT_CONFIGURED'' \<or> st = ''PARTIAL'') statuses then StPartial
         else if (js \<noteq> JobRunning \<or> current > idx) \<and>
                 statuses \<noteq> [] \<and> list_all (\<lambda>st. st = ''SKIPPED'') statuses then StSkipped
         else if js = JobDone \<or> js = JobPartial then StComplete
         else if current > idx then StComplete
         else if current = idx \<and> js = JobRunning then StActive
         else StPending)"

definition stage_row :: "processing_job option \<Rightarrow> pipeline_phase \<Rightarrow> stage_status" where
  "stage_row j p = (case j of Some j \<Rightarrow> stage_status_of (pj_phase j) (pj_status j) (pp_id p) (pj_reports j)
     | None \<Rightarrow> StPending)"

definition tool_missing :: "preflight option \<Rightarrow> pipeline_phase \<Rightarrow> bool" where
  "tool_missing pf p = (case pf of None \<Rightarrow> False | Some q \<Rightarrow>
     if pp_id p = ''parsing'' then \<not> pf_parsing_ready q
     else if pp_id p = ''sigma'' then \<not> pf_detection_ready q
     else if pp_id p = ''analytics'' then \<not> pf_analytics_ready q else False)"

section \<open>State and operations\<close>

record processing_page =
  error_expanded :: bool
  proc_starting :: bool
  start_error :: "string option"
  pipeline_logs :: "terminal_entry list"
  last_log_seq :: nat
  proc_started_at :: "int option"
  elapsed_sec :: int
  proc_job :: "processing_job option"
  proc_job_failed :: bool
  proc_job_loading :: bool

definition initial_processing :: processing_page where
  "initial_processing = \<lparr>error_expanded = False, proc_starting = False, start_error = None, pipeline_logs = [],
     last_log_seq = 0, proc_started_at = None, elapsed_sec = 0, proc_job = None, proc_job_failed = False,
     proc_job_loading = True\<rparr>"

datatype proc_body = EmptyObject
datatype proc_reply = PJob processing_job | PLogs "pipeline_log list" nat | PPreflight preflight | PBlob | PAccepted

fun the_job where "the_job (PJob j) = Some j" | "the_job _ = None"
fun the_logs where "the_logs (PLogs es n) = Some (es, n)" | "the_logs _ = None"

type_synonym 'a proc_io = "(processing_page, proc_reply, proc_body, 'a) io"

definition is_running :: "processing_page \<Rightarrow> bool" where
  "is_running s = (case proc_job s of Some j \<Rightarrow> pj_status j = JobRunning \<or> pj_status j = JobPending | None \<Rightarrow> False)"

definition is_done :: "processing_page \<Rightarrow> bool" where
  "is_done s = (case proc_job s of Some j \<Rightarrow> pj_status j = JobDone \<or> pj_status j = JobPartial | None \<Rightarrow> False)"

definition is_failed :: "processing_page \<Rightarrow> bool" where
  "is_failed s = (case proc_job s of Some j \<Rightarrow> pj_status j = JobFailed | None \<Rightarrow> False)"

text \<open>The job query: a success replaces the data, a failure keeps what was there; it never throws.\<close>

definition refetch_job :: "string \<Rightarrow> (processing_job option \<Rightarrow> 'a proc_io) \<Rightarrow> 'a proc_io" where
  "refetch_job i k =
     Await (Request GET (''/processing/incident/'' @ i @ ''/status'') None) (\<lambda>x.
       case Option.bind (case x of Inl e \<Rightarrow> None | Inr r \<Rightarrow> Some r) the_job of
         Some j \<Rightarrow> Update (\<lambda>s. s\<lparr>proc_job := Some j, proc_job_failed := False, proc_job_loading := False\<rparr>) (k (Some j))
       | None \<Rightarrow> Update (\<lambda>s. s\<lparr>proc_job_failed := True, proc_job_loading := False\<rparr>) (Read (\<lambda>s. k (proc_job s))))"

definition poll_job :: "string \<Rightarrow> string option proc_io" where
  "poll_job i = refetch_job i (\<lambda>j. Ret (case j of
     Some j \<Rightarrow> Some (job_status_name (pj_status j) @ '':'' @ (case pj_phase j of Some p \<Rightarrow> p | None \<Rightarrow> ''null''))
   | None \<Rightarrow> None))"

definition job_poll_options :: "rat option \<times> rat option \<times> rat option" where
  "job_poll_options = (Some 2000, Some 15000, Some (13 / 10))"

definition log_poll_options :: "rat option \<times> rat option \<times> rat option" where
  "log_poll_options = (Some 2000, Some 10000, Some (12 / 10))"

definition logs_path :: "string \<Rightarrow> nat \<Rightarrow> string" where
  "logs_path i n = ''/processing/incident/'' @ i @ ''/logs?since_sequence='' @ nat_str n @ ''&limit=100''"

definition terminal_of :: "(string \<Rightarrow> string) \<Rightarrow> pipeline_log \<Rightarrow> terminal_entry" where
  "terminal_of lt e = \<lparr>te_timestamp = lt (pl_timestamp e), te_level = pl_level e, te_message = pl_message e\<rparr>"

definition fetch_pipeline_logs :: "(string \<Rightarrow> string) \<Rightarrow> string \<Rightarrow> nat proc_io" where
  "fetch_pipeline_logs lt i =
     (if i = [] then Ret 0
      else Read (\<lambda>s0. tryCatch
        (apiGet (logs_path i (last_log_seq s0)) (expect the_logs (\<lambda>(es, final).
           if 0 < length es
           then Update (\<lambda>s. s\<lparr>pipeline_logs := pipeline_logs s @ map (terminal_of lt) es\<rparr>)
               (Update (\<lambda>s. s\<lparr>last_log_seq := final\<rparr>) (Ret (length es)))
           else Ret (length es))))
        (\<lambda>_. Ret 0)))"

definition poll_logs :: "(string \<Rightarrow> string) \<Rightarrow> string \<Rightarrow> nat \<Rightarrow> string proc_io" where
  "poll_logs lt i now = andThen (fetch_pipeline_logs lt i) (\<lambda>count.
     Ret (if 0 < count then ''logs-'' @ nat_str now else ''no-new-logs''))"

text \<open>The clock of a running job: the effect that starts it and the tick of its timer.\<close>

definition start_clock :: "int \<Rightarrow> processing_page \<Rightarrow> processing_page" where
  "start_clock now s = (if is_running s \<and> (proc_started_at s = None \<or> proc_started_at s = Some 0)
     then s\<lparr>proc_started_at := Some now\<rparr> else s)"

definition clock_tick :: "int \<Rightarrow> processing_page \<Rightarrow> processing_page" where
  "clock_tick now s = (case proc_started_at s of
     Some t \<Rightarrow> (if t = 0 then s else s\<lparr>elapsed_sec := (now - t) div 1000\<rparr>) | None \<Rightarrow> s)"

definition format_elapsed :: "int \<Rightarrow> string" where
  "format_elapsed n = (let m = n div 60 in
     if m > 0 then int_str m @ ''m '' @ int_str (n mod 60) @ ''s'' else int_str n @ ''s'')"

definition handle_start_processing :: "string \<Rightarrow> unit proc_io" where
  "handle_start_processing i =
     (if i = [] then Done
      else Read (\<lambda>s0. Update (\<lambda>s. s\<lparr>proc_starting := True\<rparr>)
       (Update (\<lambda>s. s\<lparr>start_error := None\<rparr>)
       (tryFinally
         (tryCatch
           (apiPost (''/processing/incident/'' @ i @ ''/trigger'' @ (if is_done s0 then ''?force=true'' else []))
              EmptyObject (\<lambda>_. refetch_job i (\<lambda>_. Done)))
           (\<lambda>err. let msg = message_or ''Failed to start pipeline'' err
              in Update (\<lambda>s. s\<lparr>start_error := Some msg\<rparr>) (Emit (Toast ''Start Failed'' msg ''destructive'') Done)))
         (Update (\<lambda>s. s\<lparr>proc_starting := False\<rparr>) Done)))))"

definition download_timeline :: "(string \<Rightarrow> string) \<Rightarrow> unit proc_io" where
  "download_timeline enc = Read (\<lambda>s0. case proc_job s0 of
     None \<Rightarrow> Done
   | Some j \<Rightarrow> if pj_job_id j = [] then Done
       else tryCatch
         (apiGet (''/processing/'' @ enc (pj_job_id j) @ ''/timeline/download'')
            (\<lambda>_. Emit (Download (''timeline_'' @ pj_job_id j @ ''.jsonl'')) Done))
         (\<lambda>_. Emit (Toast ''Download Failed'' ''Could not download timeline.jsonl. Check the console for details.'' ''destructive'') Done))"

definition preflight_enabled :: "string option \<Rightarrow> string \<Rightarrow> bool" where
  "preflight_enabled r i \<longleftrightarrow> (r = Some ''admin'' \<or> r = Some ''operator'') \<and> i \<noteq> []"

definition preflight_shown :: "preflight option \<Rightarrow> bool" where
  "preflight_shown pf = (case pf of Some p \<Rightarrow> \<not> pf_ready p \<and> 0 < length (pf_warnings p) | None \<Rightarrow> False)"

section \<open>What the page shows\<close>

text \<open>What the status panel shows: the check, the offer to start, the job or nothing.\<close>

datatype status_panel = Checking | NoJob "string option" | ShowsJob processing_job | EmptyPanel

definition status_panel_of :: "processing_page \<Rightarrow> status_panel" where
  "status_panel_of s = (if proc_job_loading s then Checking
     else if proc_job_failed s then NoJob (start_error s)
     else case proc_job s of Some j \<Rightarrow> ShowsJob j | None \<Rightarrow> EmptyPanel)"

definition pipeline_panel_status :: "processing_page \<Rightarrow> string" where
  "pipeline_panel_status s = (if is_done s then ''online'' else if is_failed s then ''offline''
     else if is_running s then ''active'' else ''warning'')"

definition job_indicator :: "processing_page \<Rightarrow> processing_job \<Rightarrow> string \<times> string \<times> bool" where
  "job_indicator s j = (if is_done s then ''verified'' else if is_failed s then ''offline'' else ''active'',
     job_status_name (pj_status j), is_running s)"

definition elapsed_shown :: "processing_page \<Rightarrow> string option" where
  "elapsed_shown s = (if is_running s \<and> elapsed_sec s > 0 then Some (format_elapsed (elapsed_sec s)) else None)"

definition time_or_dash :: "(string \<Rightarrow> string) \<Rightarrow> string option \<Rightarrow> string" where
  "time_or_dash ls t = (case t of Some x \<Rightarrow> (if x = [] then em_dash else ls x) | None \<Rightarrow> em_dash)"

definition job_rows :: "(string \<Rightarrow> string) \<Rightarrow> processing_job \<Rightarrow> (string \<times> string) list" where
  "job_rows ls j = [(''JOB ID:'', pj_id j), (''EVIDENCE JOB:'', pj_job_id j),
     (''STARTED:'', time_or_dash ls (pj_started j)), (''COMPLETED:'', time_or_dash ls (pj_completed j))]"

text \<open>The details of an error: \<open>None\<close> without them, else the text if they are expanded.\<close>

definition error_details :: "processing_page \<Rightarrow> processing_job \<Rightarrow> string option option" where
  "error_details s j = (case pj_error j of
     Some e \<Rightarrow> (if is_failed s \<and> e \<noteq> [] then Some (if error_expanded s then Some e else None) else None)
   | None \<Rightarrow> None)"

definition coverage_rows :: "processing_job \<Rightarrow> string list option" where
  "coverage_rows j = map_option (map (\<lambda>(name, r). name @ '': '' @ sr_status r @
     (case sr_reason r of Some x \<Rightarrow> (if x = [] then [] else '' '' @ em_dash @ '' '' @ x) | None \<Rightarrow> []))) (pj_reports j)"

definition log_panel_title :: "processing_page \<Rightarrow> string option" where
  "log_panel_title s = (if is_running s \<or> 0 < length (pipeline_logs s)
     then Some (''PIPELINE LOG'' @ (if 0 < length (pipeline_logs s)
       then '' '' @ em_dash @ '' '' @ nat_str (length (pipeline_logs s)) @ '' entries'' else []))
     else None)"

datatype stage_icon = CheckIcon | PulseIcon | AlertIcon | EmptyCircle

definition stage_icon_of :: "stage_status \<Rightarrow> stage_icon" where
  "stage_icon_of st = (if st = StComplete then CheckIcon else if st = StActive then PulseIcon
     else if st = StFailed \<or> st = StPartial then AlertIcon else EmptyCircle)"

definition stage_class :: "stage_status \<Rightarrow> string" where
  "stage_class st = (if st = StActive then ''border-primary/60 bg-primary/5''
     else if st = StComplete then ''border-border bg-secondary/30''
     else if st = StFailed then ''border-destructive/60 bg-destructive/5'' else ''border-border/40 opacity-50'')"

definition tool_warning :: "preflight option \<Rightarrow> pipeline_phase \<Rightarrow> string option" where
  "tool_warning pf p = (if tool_missing pf p
     then Some ((case pp_tool p of Some t \<Rightarrow> t | None \<Rightarrow> []) @ '' not configured '' @ em_dash @
       '' coverage is incomplete; zero results do not mean no threats'') else None)"

definition analysis_links :: "string \<Rightarrow> processing_page \<Rightarrow> (string \<times> string) list" where
  "analysis_links i s = (if is_done s then map (\<lambda>(l, p). (l, ''/incidents/'' @ i @ p))
     [(''VIEW SIGMA HITS'', ''/sigma-hits''), (''ATTACK CHAINS'', ''/attack-chains''),
      (''IOC MATCHES'', ''/ioc-matches''), (''YARA MATCHES'', ''/yara-matches''),
      (''SUPER TIMELINE (MULTI-HOST)'', ''/super-timeline''), (''VIEW REPORT'', ''/report'')] else [])"

definition reprocess_offered :: "string option \<Rightarrow> processing_page \<Rightarrow> bool" where
  "reprocess_offered r s \<longleftrightarrow> is_done s \<and> (r = Some ''admin'' \<or> r = Some ''operator'')"

section \<open>The terminal\<close>

record terminal =
  term_filter :: string
  term_paused :: bool
  cleared_before :: int

definition initial_terminal :: terminal where
  "initial_terminal = \<lparr>term_filter = [], term_paused = False, cleared_before = - 1\<rparr>"

definition displayed_buffer :: "terminal_entry list \<Rightarrow> terminal \<Rightarrow> terminal_entry list" where
  "displayed_buffer entries t =
     (let pool = drop (nat (cleared_before t + 1)) entries;
          pool' = (if length pool > 1000 then drop (length pool - 1000) pool else pool)
      in if term_filter t = [] then pool'
         else filter (\<lambda>e. str_includes (to_lower (te_message e)) (to_lower (term_filter t))) pool')"

definition handle_clear :: "terminal_entry list \<Rightarrow> terminal \<Rightarrow> terminal" where
  "handle_clear entries t = t\<lparr>cleared_before := int (length entries) - 1, term_filter := []\<rparr>"

definition toggle_pause :: "terminal \<Rightarrow> terminal" where
  "toggle_pause t = t\<lparr>term_paused := \<not> term_paused t\<rparr>"

definition term_wheel :: "bool \<Rightarrow> terminal \<Rightarrow> terminal" where
  "term_wheel auto_scroll t = (if auto_scroll then t\<lparr>term_paused := True\<rparr> else t)"

definition scrolls_to_end :: "bool \<Rightarrow> terminal \<Rightarrow> bool" where
  "scrolls_to_end auto_scroll t \<longleftrightarrow> auto_scroll \<and> term_filter t = [] \<and> \<not> term_paused t"

section \<open>The tail of the log with its poller and the server\<close>

text \<open>What the backend answers (\<open>get_processing_logs\<close> of its \<open>processing.py\<close>): the first hundred entries after
  the cursor in the order of their sequence numbers, and the last of these numbers.\<close>

definition logs_after :: "pipeline_log list \<Rightarrow> nat \<Rightarrow> proc_reply" where
  "logs_after ls c = (let es = take 100 (filter (\<lambda>e. c < pl_sequence e) ls)
     in PLogs es (if es = [] then c else pl_sequence (last es)))"

definition log_reply :: "(string \<Rightarrow> string) \<Rightarrow> nat \<Rightarrow> jserr + proc_reply \<Rightarrow> string proc_io" where
  "log_reply lt now x = andThen (tryCatch (case x of Inl e \<Rightarrow> Raise e | Inr r \<Rightarrow> expect the_logs (\<lambda>(es, final).
      if 0 < length es
      then Update (\<lambda>s. s\<lparr>pipeline_logs := pipeline_logs s @ map (terminal_of lt) es\<rparr>)
          (Update (\<lambda>s. s\<lparr>last_log_seq := final\<rparr>) (Ret (length es)))
      else Ret (length es)) r) (\<lambda>_. Ret 0))
    (\<lambda>count. Ret (if 0 < count then ''logs-'' @ nat_str now else ''no-new-logs''))"

text \<open>A poll sends one request, whose cursor is read when it is sent, and then runs \<open>log_reply\<close>.\<close>

lemma poll_logs_suspends:
  "i \<noteq> [] \<Longrightarrow> poll_logs lt i now =
     Read (\<lambda>s0. Await (Request GET (logs_path i (last_log_seq s0)) None) (log_reply lt now))"
  by (simp add: poll_logs_def fetch_pipeline_logs_def call_def log_reply_def fun_eq_iff
      del: length_greater_0_conv)

text \<open>The log on the server, the page, the runs of its poller and the polls that wait: of each the number of its run, the
  cursor it sent and the reply, once the server has computed it.\<close>

type_synonym waiting_poll = "nat \<times> nat \<times> proc_reply option"
type_synonym tail_system = "pipeline_log list \<times> processing_page \<times> string poll_runs \<times> waiting_poll list"

definition settled :: "(string \<Rightarrow> string) \<Rightarrow> nat \<Rightarrow> jserr + proc_reply \<Rightarrow> processing_page \<Rightarrow> processing_page" where
  "settled lt now x s = final_state (stateless (\<lambda>_. Inl NonError)) True (log_reply lt now x) () s"

definition fingerprint :: "(string \<Rightarrow> string) \<Rightarrow> nat \<Rightarrow> jserr + proc_reply \<Rightarrow> processing_page \<Rightarrow> string" where
  "fingerprint lt now x s =
     (case outcome_of (stateless (\<lambda>_. Inl NonError)) True (log_reply lt now x) () s of Inr fp \<Rightarrow> fp | Inl _ \<Rightarrow> [])"

definition log_fulfilled :: "string \<Rightarrow> string poller \<Rightarrow> string poller" where
  "log_fulfilled fp p = (case log_poll_options of (i, m, f) \<Rightarrow> poll_fulfilled i m f (Some fp) p)"

text \<open>
  The steps: a line is written; a new collection deletes the log, whose numbers then begin anew; the job begins to run,
  again after a reprocessing say, which starts a run of the poller and with it a poll; the job has ended or the page
  goes; a timer fires; the server computes a reply; it arrives; or a poll fails.
\<close>

inductive tail_step :: "(string \<Rightarrow> string) \<Rightarrow> tail_system \<Rightarrow> tail_system \<Rightarrow> bool" for lt where
  writes: "list_all (\<lambda>e. pl_sequence e < pl_sequence n) ls \<Longrightarrow> 0 < pl_sequence n \<Longrightarrow>
     tail_step lt (ls, s, rs, pool) (ls @ [n], s, rs, pool)"
| clears: "tail_step lt (ls, s, rs, pool) ([], s, rs, pool)"
| starts: "tail_step lt (ls, s, rs, pool) (ls, s, start_run log_poll_options rs, pool @ [(length rs, last_log_seq s, None)])"
| stops: "tail_step lt (ls, s, rs, pool) (ls, s, clean_up rs, pool)"
| polls: "r < length rs \<Longrightarrow> poll_timer (snd (rs ! r)) \<noteq> None \<Longrightarrow>
     tail_step lt (ls, s, rs, pool) (ls, s, rs[r := apsnd poll_timer_fires (rs ! r)], pool @ [(r, last_log_seq s, None)])"
| serves: "tail_step lt (ls, s, rs, pre @ (r, c, None) # post) (ls, s, rs, pre @ (r, c, Some (logs_after ls c)) # post)"
| answers: "x = Inr y \<Longrightarrow> tail_step lt (ls, s, rs, pre @ (r, c, Some y) # post)
     (ls, settled lt now x s, rs[r := apsnd (log_fulfilled (fingerprint lt now x s)) (rs ! r)], pre @ post)"
| fails: "x = Inl e \<Longrightarrow> tail_step lt (ls, s, rs, pre @ (r, c, q) # post)
     (ls, settled lt now x s, rs[r := apsnd (log_fulfilled (fingerprint lt now x s)) (rs ! r)], pre @ post)"

text \<open>Steps that delete no log, and among them the orderly ones, which start a run only when no poll waits.\<close>

definition keeping_step :: "(string \<Rightarrow> string) \<Rightarrow> tail_system \<Rightarrow> tail_system \<Rightarrow> bool" where
  "keeping_step lt c c' \<longleftrightarrow> tail_step lt c c' \<and> prefix (fst c) (fst c')"

definition orderly_step :: "(string \<Rightarrow> string) \<Rightarrow> tail_system \<Rightarrow> tail_system \<Rightarrow> bool" where
  "orderly_step lt c c' \<longleftrightarrow> keeping_step lt c c' \<and>
     (case c of (ls, s, rs, pool) \<Rightarrow> case c' of (ls', s', rs', pool') \<Rightarrow> length rs = length rs' \<or> pool = [])"

definition tail_init :: tail_system where
  "tail_init = ([], initial_processing, [], [])"

subsection \<open>The abstract log channel\<close>

record 'e channel =
  written :: "'e list"
  read_upto :: nat

inductive channel_step :: "'e channel \<Rightarrow> 'e channel \<Rightarrow> bool" where
  channel_write: "channel_step c (c\<lparr>written := written c @ [e]\<rparr>)"
| channel_read: "n \<le> 100 \<Longrightarrow> read_upto c + n \<le> length (written c) \<Longrightarrow>
     channel_step c (c\<lparr>read_upto := read_upto c + n\<rparr>)"

definition delivered :: "'e channel \<Rightarrow> 'e list" where
  "delivered c = take (read_upto c) (written c)"

definition channel_of :: "(string \<Rightarrow> string) \<Rightarrow> tail_system \<Rightarrow> terminal_entry channel" where
  "channel_of lt c = (case c of (ls, s, p, pool) \<Rightarrow>
     \<lparr>written = map (terminal_of lt) ls, read_upto = length (pipeline_logs s)\<rparr>)"

subsection \<open>The invariant of the tail\<close>

definition log_ok :: "pipeline_log list \<Rightarrow> bool" where
  "log_ok ls \<longleftrightarrow> sorted_wrt (<) (map pl_sequence ls) \<and> list_all (\<lambda>e. 0 < pl_sequence e) ls"

text \<open>The cursor of a reader that has seen the first \<open>k\<close> entries, and a page that has shown exactly these.\<close>

definition cursor_at :: "pipeline_log list \<Rightarrow> nat \<Rightarrow> nat" where
  "cursor_at ls k = (if k = 0 then 0 else pl_sequence (ls ! (k - 1)))"

definition has_read :: "(string \<Rightarrow> string) \<Rightarrow> pipeline_log list \<Rightarrow> nat \<Rightarrow> processing_page \<Rightarrow> bool" where
  "has_read lt ls k s \<longleftrightarrow> k \<le> length ls \<and> pipeline_logs s = map (terminal_of lt) (take k ls) \<and>
     last_log_seq s = cursor_at ls k"

text \<open>A reply is missing or was computed from an earlier state of the log.\<close>

definition served :: "pipeline_log list \<Rightarrow> nat \<Rightarrow> proc_reply option \<Rightarrow> bool" where
  "served ls c q \<longleftrightarrow> (case q of None \<Rightarrow> True | Some y \<Rightarrow> \<exists>n \<le> length ls. y = logs_after (take n ls) c)"

definition tail_ok :: "(string \<Rightarrow> string) \<Rightarrow> tail_system \<Rightarrow> bool" where
  "tail_ok lt c \<longleftrightarrow> (case c of (ls, s, rs, pool) \<Rightarrow>
     log_ok ls \<and> has_read lt ls (length (pipeline_logs s)) s \<and>
     hook_reachable rs \<and> list_all (\<lambda>r. fst r = log_poll_options) rs \<and>
     (pool = [] \<or> (\<exists>q. pool = [(length rs - 1, last_log_seq s, q)] \<and> served ls (last_log_seq s) q)) \<and>
     (if rs = [] then pool = [] else in_flight (snd (last rs)) = length pool))"

lemma cursor_split:
  assumes "log_ok ls" and "k \<le> length ls"
  shows "filter (\<lambda>e. cursor_at ls k < pl_sequence e) (take n ls) = drop k (take n ls)"
proof -
  have seqs: "\<And>a b. a < b \<Longrightarrow> b < length ls \<Longrightarrow> pl_sequence (ls ! a) < pl_sequence (ls ! b)"
    using assms(1) by (auto simp: log_ok_def sorted_wrt_iff_nth_less)
  have pos: "\<And>a. a < length ls \<Longrightarrow> 0 < pl_sequence (ls ! a)"
    using assms(1) by (auto simp: log_ok_def list_all_length)
  have old: "\<not> cursor_at ls k < pl_sequence (ls ! a)" if "a < k" for a
  proof -
    from that assms(2) have "a \<le> k - 1" "k - 1 < length ls" "cursor_at ls k = pl_sequence (ls ! (k - 1))"
      by (auto simp: cursor_at_def)
    then show ?thesis using seqs [of a "k - 1"] by (cases "a = k - 1") auto
  qed
  have new: "cursor_at ls k < pl_sequence (ls ! a)" if "k \<le> a" "a < length ls" for a
    using that seqs [of "k - 1" a] pos [of a] by (auto simp: cursor_at_def)
  have "filter (\<lambda>e. cursor_at ls k < pl_sequence e) (take n ls)
      = filter (\<lambda>e. cursor_at ls k < pl_sequence e) (take k (take n ls)) @
        filter (\<lambda>e. cursor_at ls k < pl_sequence e) (drop k (take n ls))"
    by (metis append_take_drop_id filter_append)
  moreover have "filter (\<lambda>e. cursor_at ls k < pl_sequence e) (take k (take n ls)) = []"
    using old by (auto simp: filter_empty_conv in_set_conv_nth)
  moreover have "filter (\<lambda>e. cursor_at ls k < pl_sequence e) (drop k (take n ls)) = drop k (take n ls)"
  proof -
    have "set (drop k (take n ls)) \<subseteq> set (drop k ls)" by (simp add: drop_take set_take_subset)
    moreover have "\<forall>e \<in> set (drop k ls). cursor_at ls k < pl_sequence e"
      using new assms(2) by (auto simp: in_set_conv_nth)
    ultimately show ?thesis by (auto simp: filter_id_conv)
  qed
  ultimately show ?thesis by simp
qed

lemma settled_simps [simp]:
  "settled lt now (Inl e) s = s"
  "settled lt now (Inr (PLogs es n)) s =
     (if es = [] then s else s\<lparr>pipeline_logs := pipeline_logs s @ map (terminal_of lt) es, last_log_seq := n\<rparr>)"
  by (simp_all add: settled_def log_reply_def expect_def)

lemma log_reply_settles: "final_state srv yes (log_reply lt now x) w s = settled lt now x s"
  by (auto simp: settled_def log_reply_def expect_def split: sum.split option.split)

text \<open>A reply computed from an earlier state of the log: at most a hundred entries, and the cursor behind them.\<close>

lemma reply_at:
  assumes "log_ok ls" and "k \<le> length ls" and "n \<le> length ls"
  shows "logs_after (take n ls) (cursor_at ls k) =
    PLogs (take (min 100 (n - k)) (drop k ls)) (cursor_at ls (k + min 100 (n - k)))"
proof -
  let ?m = "min 100 (n - k)" and ?es = "take 100 (drop k (take n ls))"
  have es: "?es = take ?m (drop k ls)" by (simp add: drop_take min_def)
  have len: "length ?es = ?m" using assms(3) by simp
  have "cursor_at ls (k + ?m) = (if ?es = [] then cursor_at ls k else pl_sequence (last ?es))"
  proof (cases ?m)
    case 0
    then show ?thesis using len by simp
  next
    case (Suc j)
    then have ne: "?es \<noteq> []" using len by force
    have "last ?es = take (Suc j) (drop k ls) ! j"
      unfolding last_conv_nth [OF ne] len unfolding es Suc by simp
    also have "\<dots> = ls ! (k + j)" using assms(2) by simp
    finally have "pl_sequence (last ?es) = cursor_at ls (k + ?m)" by (simp add: cursor_at_def Suc)
    with ne show ?thesis by simp
  qed
  then show ?thesis
    unfolding logs_after_def Let_def cursor_split [OF assms(1,2)] by (simp only: es)
qed

text \<open>One answer, computed from any earlier state of the log, moves the reader by at most a hundred entries.\<close>

lemma answer_reads:
  assumes "log_ok ls" and "has_read lt ls k s" and "n \<le> length ls"
  shows "has_read lt ls (k + min 100 (n - k)) (settled lt now (Inr (logs_after (take n ls) (last_log_seq s))) s)"
proof -
  let ?m = "min 100 (n - k)"
  have k: "k \<le> length ls" "last_log_seq s = cursor_at ls k" "pipeline_logs s = map (terminal_of lt) (take k ls)"
    using assms(2) by (auto simp: has_read_def)
  have "take (k + ?m) ls = take k ls @ take ?m (drop k ls)" by (rule take_add)
  moreover have "take ?m (drop k ls) = [] \<Longrightarrow> ?m = 0" using assms(3) k(1) by auto
  moreover have "k + ?m \<le> length ls" using k(1) assms(3) by auto
  ultimately show ?thesis
    unfolding k(2) reply_at [OF assms(1) k(1) assms(3)] using k by (auto simp: has_read_def)
qed

lemma has_read_length: "has_read lt ls k s \<Longrightarrow> length (pipeline_logs s) = k"
  by (auto simp: has_read_def)

lemma log_grows:
  assumes "log_ok ls" and "list_all (\<lambda>e. pl_sequence e < pl_sequence n) ls" and "0 < pl_sequence n"
  shows "log_ok (ls @ [n])" "k \<le> length ls \<Longrightarrow> cursor_at (ls @ [n]) k = cursor_at ls k"
    "has_read lt ls k s \<Longrightarrow> has_read lt (ls @ [n]) k s" "served ls c q \<Longrightarrow> served (ls @ [n]) c q"
proof -
  show "log_ok (ls @ [n])" using assms by (auto simp: log_ok_def sorted_wrt_append list_all_iff)
  show cu: "cursor_at (ls @ [n]) k = cursor_at ls k" if "k \<le> length ls" for k
    using that by (auto simp: cursor_at_def nth_append)
  then show "has_read lt ls k s \<Longrightarrow> has_read lt (ls @ [n]) k s" by (simp add: has_read_def)
  show "served (ls @ [n]) c q" if q: "served ls c q"
  proof (cases q)
    case (Some y)
    then obtain m where "m \<le> length ls" "y = logs_after (take m ls) c" using q by (auto simp: served_def)
    then have "m \<le> length (ls @ [n])" "y = logs_after (take m (ls @ [n])) c" by simp_all
    then show ?thesis unfolding Some served_def by (auto simp del: take_append)
  qed (simp add: served_def)
qed

lemma served_now: "served ls c (Some (logs_after ls c))"
  by (auto simp: served_def intro: exI [of _ "length ls"])

text \<open>The runs of the log's poller under the steps: all have its options, and their number and the polls of the last.\<close>

lemma clean_up_parts [simp]:
  "length (clean_up rs) = length rs" "clean_up rs = [] \<longleftrightarrow> rs = []"
  by (cases rs rule: rev_cases; simp add: clean_up_def)+

lemma clean_up_last: "rs \<noteq> [] \<Longrightarrow> in_flight (snd (last (clean_up rs))) = in_flight (snd (last rs))"
  by (cases rs rule: rev_cases) (auto simp: clean_up_def stop_polling_def)

lemma clean_up_opts: "list_all (\<lambda>r. fst r = opts) rs \<Longrightarrow> list_all (\<lambda>r. fst r = opts) (clean_up rs)"
  by (cases rs rule: rev_cases) (auto simp: clean_up_def)

lemma last_update: "xs \<noteq> [] \<Longrightarrow> last (xs[n := x]) = (if n = length xs - 1 then x else last xs)"
  by (cases "n < length xs") (auto simp: last_conv_nth nth_list_update)

lemma run_options:
  assumes "list_all (\<lambda>r. fst r = log_poll_options) rs" and "n < length rs"
  shows "rs ! n = ((Some 2000, Some 10000, Some (12 / 10)), snd (rs ! n))"
proof -
  have "fst (rs ! n) = log_poll_options" using assms by (simp add: list_all_length)
  then show ?thesis by (cases "rs ! n") (simp add: log_poll_options_def)
qed

lemma log_fulfilled_step:
  "0 < in_flight p \<Longrightarrow> poller_step (Some 2000) (Some 10000) (Some (12 / 10)) p (log_fulfilled fp p)"
  unfolding log_fulfilled_def log_poll_options_def by (simp add: fulfils)

lemma log_fulfilled_flight [simp]: "in_flight (log_fulfilled fp p) = in_flight p - 1"
  by (simp add: log_fulfilled_def log_poll_options_def poll_fulfilled_def schedule_def Let_def)

lemma run_step:
  assumes "hook_reachable rs" and "list_all (\<lambda>r. fst r = log_poll_options) rs" and "n < length rs"
    and "poller_step (Some 2000) (Some 10000) (Some (12 / 10)) (snd (rs ! n)) p'"
  shows "hook_reachable (rs[n := apsnd (\<lambda>_. p') (rs ! n)])"
    "list_all (\<lambda>r. fst r = log_poll_options) (rs[n := apsnd (\<lambda>_. p') (rs ! n)])"
proof -
  note o = run_options [OF assms(2,3)]
  have "hook_step rs (rs[n := ((Some 2000, Some 10000, Some (12 / 10)), p')])"
    by (rule run_moves [OF assms(3) o assms(4)])
  then show "hook_reachable (rs[n := apsnd (\<lambda>_. p') (rs ! n)])"
    using hook_later [OF assms(1)] by (subst o) simp
  show "list_all (\<lambda>r. fst r = log_poll_options) (rs[n := apsnd (\<lambda>_. p') (rs ! n)])"
    using assms(2,3) by (intro list_all_update) (auto simp: list_all_length)
qed

text \<open>Only the last run has a timer, and only while it has no poll in flight.\<close>

lemma armed_run:
  assumes "hook_reachable rs" and "n < length rs" and "poll_timer (snd (rs ! n)) \<noteq> None"
  shows "n = length rs - 1" "in_flight (snd (rs ! n)) = 0"
proof -
  have ok: "runs_ok rs" by (rule hook_reachable_ok [OF assms(1)])
  have "run_ok (rs ! n)" using ok assms(2) by (simp add: runs_ok_def list_all_length)
  then have p: "in_flight (snd (rs ! n)) = 0" "\<not> cancelled (snd (rs ! n))"
    using assms(3) by (auto simp: run_ok_def poller_ok_def split: prod.splits)
  have "cancelled (snd (rs ! n))" if "n < length rs - 1"
    using ok that by (simp add: runs_ok_def list_all_length nth_butlast)
  then show "n = length rs - 1" using p(2) assms(2) by linarith
  show "in_flight (snd (rs ! n)) = 0" by (rule p(1))
qed

lemma apsnd_const: "apsnd f r = apsnd (\<lambda>_. f (snd r)) r"
  by (cases r) simp

text \<open>A waiting poll of the only run that may have one, when it settles: the poll is gone, the rest is as it should be.\<close>

lemma poll_settles:
  assumes "tail_ok lt (ls, s, rs, pre @ (r, c, q) # post)"
  shows "pre = []" "post = []" "r = length rs - 1" "c = last_log_seq s" "served ls c q"
    "hook_reachable (rs[r := apsnd (log_fulfilled fp) (rs ! r)])"
    "list_all (\<lambda>r. fst r = log_poll_options) (rs[r := apsnd (log_fulfilled fp) (rs ! r)])"
    "rs \<noteq> []" "in_flight (snd (last (rs[r := apsnd (log_fulfilled fp) (rs ! r)]))) = 0"
proof -
  show one: "pre = []" "post = []" "r = length rs - 1" "c = last_log_seq s" "served ls c q"
    using assms by (auto simp: tail_ok_def append_eq_Cons_conv)
  show ne: "rs \<noteq> []" using assms by (auto simp: tail_ok_def split: if_splits)
  have f: "in_flight (snd (rs ! r)) = 1"
    using assms ne one by (auto simp: tail_ok_def last_conv_nth)
  have rs: "hook_reachable rs" "list_all (\<lambda>r. fst r = log_poll_options) rs" "r < length rs"
    using assms ne one by (auto simp: tail_ok_def)
  note st = run_step [OF rs log_fulfilled_step [of "snd (rs ! r)" fp]]
  show "hook_reachable (rs[r := apsnd (log_fulfilled fp) (rs ! r)])"
    "list_all (\<lambda>r. fst r = log_poll_options) (rs[r := apsnd (log_fulfilled fp) (rs ! r)])"
    using st f by (subst apsnd_const, simp)+
  show "in_flight (snd (last (rs[r := apsnd (log_fulfilled fp) (rs ! r)]))) = 0"
    using ne one f by (simp add: last_update)
qed

lemma tail_ok_start:
  assumes "tail_ok lt (ls, s, rs, [])"
  shows "tail_ok lt (ls, s, start_run log_poll_options rs, [(length rs, last_log_seq s, None)])"
proof -
  have "hook_reachable rs" "list_all (\<lambda>r. fst r = log_poll_options) rs" using assms by (auto simp: tail_ok_def)
  then have "hook_reachable (start_run log_poll_options rs)"
      "list_all (\<lambda>r. fst r = log_poll_options) (start_run log_poll_options rs)"
    using hook_later [OF _ runs [of rs log_poll_options]] clean_up_opts [of log_poll_options rs]
    by (simp_all add: start_run_def)
  then show ?thesis
    using assms by (simp add: tail_ok_def start_run_def served_def start_polling_def)
qed

lemma tail_ok_step:
  assumes ok: "tail_ok lt c" and st: "orderly_step lt c c'"
  shows "tail_ok lt c' \<and> (channel_step (channel_of lt c) (channel_of lt c') \<or> channel_of lt c' = channel_of lt c)"
proof -
  have "tail_step lt c c'" using st by (simp add: orderly_step_def keeping_step_def)
  then show ?thesis
  proof cases
    case (writes n ls s rs pool)
    then show ?thesis
      using ok log_grows [of ls n] channel_write [of "channel_of lt c" "terminal_of lt n"]
      by (auto simp: tail_ok_def channel_of_def)
  next
    case (clears ls s rs pool)
    then have "ls = []" using st by (simp add: orderly_step_def keeping_step_def)
    then show ?thesis using ok clears by simp
  next
    case (starts ls s rs pool)
    then have "pool = []" using st by (simp add: orderly_step_def start_run_def)
    then show ?thesis using ok starts tail_ok_start by (simp add: channel_of_def)
  next
    case (stops ls s rs pool)
    then show ?thesis
      using ok clean_up_last [of rs] clean_up_opts [of log_poll_options rs] hook_later [OF _ cleans [of rs]]
      by (simp add: tail_ok_def channel_of_def)
  next
    case (polls r rs ls s pool)
    have rs: "hook_reachable rs" "list_all (\<lambda>r. fst r = log_poll_options) rs" using ok polls by (auto simp: tail_ok_def)
    note a = armed_run [OF rs(1) polls(3,4)]
    have ne: "rs \<noteq> []" using polls(3) by auto
    have "in_flight (snd (last rs)) = 0" using a ne by (simp add: last_conv_nth)
    then have "pool = []" using ok polls(1) ne by (simp add: tail_ok_def)
    moreover have "hook_reachable (rs[r := apsnd poll_timer_fires (rs ! r)])"
        "list_all (\<lambda>r. fst r = log_poll_options) (rs[r := apsnd poll_timer_fires (rs ! r)])"
      using run_step [OF rs polls(3) ticks [OF polls(4)]] by (subst apsnd_const, simp)+
    moreover have "in_flight (snd (last (rs[r := apsnd poll_timer_fires (rs ! r)]))) = 1"
      using a ne by (simp add: last_update poll_timer_fires_def)
    ultimately show ?thesis
      using ok polls ne a(1) by (simp add: tail_ok_def channel_of_def served_def)
  next
    case (serves ls s rs pre r cu post)
    then show ?thesis
      using ok served_now [of ls cu] by (auto simp: tail_ok_def channel_of_def append_eq_Cons_conv)
  next
    case (answers x y ls s rs pre r cu post now)
    let ?k = "length (pipeline_logs s)" and ?s = "settled lt now x s"
    note p = poll_settles [OF ok [unfolded answers(1)]]
    have l: "log_ok ls" "has_read lt ls ?k s" using ok answers(1) by (auto simp: tail_ok_def)
    obtain n where n: "n \<le> length ls" "y = logs_after (take n ls) (last_log_seq s)"
      using p(4,5) by (auto simp: served_def)
    have read: "has_read lt ls (?k + min 100 (n - ?k)) ?s"
      using answer_reads [OF l n(1), of now] by (simp add: answers(3) n(2))
    then have len: "length (pipeline_logs ?s) = ?k + min 100 (n - ?k)" by (rule has_read_length)
    have "channel_step (channel_of lt c) (channel_of lt c')"
      using channel_read [of "min 100 (n - ?k)" "channel_of lt c"] answers len l(2) n(1)
      by (auto simp: channel_of_def has_read_def)
    moreover have "tail_ok lt c'"
      using read l p len by (simp add: answers(2) tail_ok_def)
    ultimately show ?thesis by simp
  next
    case (fails x e ls s rs pre r cu q post now)
    note p = poll_settles [OF ok [unfolded fails(1)]]
    have "log_ok ls" "has_read lt ls (length (pipeline_logs s)) s" using ok fails(1) by (auto simp: tail_ok_def)
    then show ?thesis using p fails by (simp add: tail_ok_def channel_of_def)
  qed
qed

lemma orderly_ok: "(orderly_step lt)\<^sup>*\<^sup>* tail_init c \<Longrightarrow> tail_ok lt c"
proof (induction rule: rtranclp_induct)
  case base
  then show ?case
    using hook_start by (simp add: tail_init_def tail_ok_def log_ok_def has_read_def cursor_at_def initial_processing_def)
next
  case (step c c')
  then show ?case using tail_ok_step by blast
qed

subsection \<open>Overlapping polls\<close>

text \<open>Without a deletion of the log, and with any number of polls at once: the lines up to the page's cursor, and to
  that of every poll, have been shown, and only lines of the log have.\<close>

definition shown_upto :: "(string \<Rightarrow> string) \<Rightarrow> pipeline_log list \<Rightarrow> processing_page \<Rightarrow> nat \<Rightarrow> bool" where
  "shown_upto lt ls s c \<longleftrightarrow> (\<exists>k \<le> length ls. c = cursor_at ls k \<and> terminal_of lt ` set (take k ls) \<subseteq> set (pipeline_logs s))"

definition nothing_lost :: "(string \<Rightarrow> string) \<Rightarrow> tail_system \<Rightarrow> bool" where
  "nothing_lost lt c \<longleftrightarrow> (case c of (ls, s, rs, pool) \<Rightarrow>
     log_ok ls \<and> shown_upto lt ls s (last_log_seq s) \<and> set (pipeline_logs s) \<subseteq> terminal_of lt ` set ls \<and>
     list_all (\<lambda>(r, c, q). shown_upto lt ls s c \<and> served ls c q) pool)"

lemma shown_upto_grows:
  assumes "log_ok ls" and "list_all (\<lambda>e. pl_sequence e < pl_sequence n) ls" and "0 < pl_sequence n" and "shown_upto lt ls s c"
  shows "shown_upto lt (ls @ [n]) s c"
proof -
  obtain k where k: "k \<le> length ls" "c = cursor_at ls k" "terminal_of lt ` set (take k ls) \<subseteq> set (pipeline_logs s)"
    using assms(4) by (auto simp: shown_upto_def)
  have "cursor_at (ls @ [n]) k = c" using log_grows(2) [OF assms(1-3) k(1)] k(2) by simp
  with k show ?thesis unfolding shown_upto_def by (intro exI [of _ k]) auto
qed

lemma shown_upto_settled:
  "shown_upto lt ls s c \<Longrightarrow> shown_upto lt ls (settled lt now x s) c"
proof -
  assume "shown_upto lt ls s c"
  moreover have "set (pipeline_logs s) \<subseteq> set (pipeline_logs (settled lt now x s))"
    by (auto simp: settled_def log_reply_def expect_def split: sum.split option.split)
  ultimately show ?thesis unfolding shown_upto_def by blast
qed

lemma answer_loses_nothing:
  assumes "log_ok ls" and "shown_upto lt ls s c" and "shown_upto lt ls s (last_log_seq s)" and "served ls c (Some y)"
    and "set (pipeline_logs s) \<subseteq> terminal_of lt ` set ls"
  shows "shown_upto lt ls (settled lt now (Inr y) s) (last_log_seq (settled lt now (Inr y) s))
    \<and> set (pipeline_logs (settled lt now (Inr y) s)) \<subseteq> terminal_of lt ` set ls"
proof -
  obtain k where k: "k \<le> length ls" "c = cursor_at ls k" "terminal_of lt ` set (take k ls) \<subseteq> set (pipeline_logs s)"
    using assms(2) by (auto simp: shown_upto_def)
  obtain n where n: "n \<le> length ls" "y = logs_after (take n ls) c" using assms(4) by (auto simp: served_def)
  let ?m = "min 100 (n - k)" and ?es = "take (min 100 (n - k)) (drop k ls)"
  have y: "y = PLogs ?es (cursor_at ls (k + ?m))" using n(2) reply_at [OF assms(1) k(1) n(1)] k(2) by simp
  have t: "take (k + ?m) ls = take k ls @ ?es" by (rule take_add)
  have "set ?es \<subseteq> set ls" by (meson order_trans set_drop_subset set_take_subset)
  moreover have "k + ?m \<le> length ls" using k(1) n(1) by auto
  moreover have "?es \<noteq> [] \<Longrightarrow> shown_upto lt ls (settled lt now (Inr y) s) (cursor_at ls (k + ?m))"
    using k(3) \<open>k + ?m \<le> length ls\<close> unfolding shown_upto_def y
    by (intro exI [of _ "k + ?m"]) (auto simp: t simp del: take_drop)
  ultimately show ?thesis using assms(3,5) unfolding y by (auto split: if_splits)
qed

lemma keeping_ok:
  assumes "keeping_step lt c c'" and "nothing_lost lt c"
  shows "nothing_lost lt c'"
proof -
  have "tail_step lt c c'" using assms(1) by (simp add: keeping_step_def)
  then show ?thesis
  proof cases
    case (writes n ls s rs pool)
    note grown = log_grows(1,4) [OF _ writes(3,4)] shown_upto_grows [OF _ writes(3,4)]
    have "list_all (\<lambda>(r, c, q). shown_upto lt (ls @ [n]) s c \<and> served (ls @ [n]) c q) pool"
      using assms(2) grown unfolding writes nothing_lost_def by (auto elim!: list.pred_mono_strong)
    then show ?thesis using assms(2) grown unfolding writes nothing_lost_def by auto
  next
    case (clears ls s rs pool)
    then have "ls = []" using assms(1) by (simp add: keeping_step_def)
    then show ?thesis using assms(2) clears by simp
  next
    case (serves ls s rs pre r cu post)
    then show ?thesis using assms(2) served_now [of ls cu] by (simp add: nothing_lost_def)
  next
    case (answers x y ls s rs pre r cu post now)
    have pool: "list_all (\<lambda>(r, c, q). shown_upto lt ls s c \<and> served ls c q) (pre @ post)" and cu: "shown_upto lt ls s cu"
        "served ls cu (Some y)" and rest: "log_ok ls" "shown_upto lt ls s (last_log_seq s)"
        "set (pipeline_logs s) \<subseteq> terminal_of lt ` set ls"
      using assms(2) by (simp_all add: answers(1) nothing_lost_def)
    have "list_all (\<lambda>(r, c, q). shown_upto lt ls (settled lt now x s) c \<and> served ls c q) (pre @ post)"
      by (rule list.pred_mono_strong [OF pool]) (auto intro: shown_upto_settled)
    moreover note answer_loses_nothing [OF rest(1) cu(1) rest(2) cu(2) rest(3), of now]
    ultimately show ?thesis using rest(1) unfolding answers(2,3) nothing_lost_def by simp
  qed (use assms(2) in \<open>simp_all add: nothing_lost_def served_def\<close>)
qed

lemma keeping_loses_nothing: "(keeping_step lt)\<^sup>*\<^sup>* tail_init c \<Longrightarrow> nothing_lost lt c"
proof (induction rule: rtranclp_induct)
  case base
  then show ?case
    by (auto simp: tail_init_def nothing_lost_def log_ok_def shown_upto_def cursor_at_def initial_processing_def)
next
  case (step c c')
  then show ?case using keeping_ok by blast
qed

section \<open>Lemmas on phases and the terminal\<close>

lemma phase_pos_simps [simp]:
  "phase_pos ''parsing'' = 0" "phase_pos ''sigma'' = 1" "phase_pos ''timeline'' = 2" "phase_pos ''analytics'' = 3"
  by (simp_all add: phase_pos_def phase_order_def)

lemma stage_complete:
  assumes "stage_status_of ph js pid reports = StComplete"
  shows "set (stage_statuses reports pid) \<inter> {''FAILED'', ''NOT_CONFIGURED'', ''PARTIAL''} = {}"
  using assms by (auto simp: stage_status_of_def Let_def list_ex_iff split: if_splits)

lemma displayed_no_filter:
  "displayed_buffer entries (t\<lparr>term_filter := []\<rparr>) =
     (let pool = drop (nat (cleared_before t + 1)) entries in drop (length pool - 1000) pool)"
  by (simp add: displayed_buffer_def Let_def)

lemma displayed_subset: "subseq (displayed_buffer entries t) entries"
proof -
  have d: "subseq (drop n xs) (xs :: 'a list)" for n and xs :: "'a list" 
    by (metis append_take_drop_id list_emb_append2 subseq_order.refl)
  show ?thesis
    unfolding displayed_buffer_def Let_def
    by (auto intro: subseq_order.trans [OF subseq_filter_left] subseq_order.trans [OF d d] d)
qed

section \<open>Properties\<close>

text \<open>C7. The log panel refines an append-only channel, as long as no new run of the poller starts while a poll of an
  earlier one waits, and the log is not deleted: whatever the order of writes, polls, answers (late, from an old state
  of the log, or failed) and of ends and new starts of the polling, the lines shown are the first lines written, each once
  and in order, and every step of the page and its poller is a step of the channel: a line is written, or at most a
  hundred further lines are delivered, or nothing happens.\<close>

theorem log_tail_refines_channel:
  assumes "(orderly_step lt)\<^sup>*\<^sup>* tail_init c" and "orderly_step lt c c'"
  shows "(case c' of (ls, s, rs, pool) \<Rightarrow> pipeline_logs s = delivered (channel_of lt c')) \<and>
    (channel_step (channel_of lt c) (channel_of lt c') \<or> channel_of lt c' = channel_of lt c)"
  using tail_ok_step [OF orderly_ok [OF assms(1)] assms(2)]
  by (auto simp: tail_ok_def has_read_def channel_of_def delivered_def take_map split: prod.splits)

definition line :: "nat \<Rightarrow> pipeline_log" where
  "line n = \<lparr>pl_sequence = n, pl_level = ''info'', pl_message = ''line '' @ nat_str n, pl_timestamp = []\<rparr>"

lemma writes_orderly:
  "list_all (\<lambda>e. pl_sequence e < pl_sequence n) ls \<Longrightarrow> 0 < pl_sequence n \<Longrightarrow>
     orderly_step lt (ls, s, rs, pool) (ls @ [n], s, rs, pool)"
  by (simp add: orderly_step_def keeping_step_def writes)

text \<open>The first run of a page whose pipeline has written one line: its poll is sent, served and answered.\<close>

definition first_run :: "string poll_runs" where
  "first_run = start_run log_poll_options []"

lemma first_run_orderly:
  "(orderly_step lt)\<^sup>*\<^sup>* tail_init ([line m], initial_processing, first_run, [(0, 0, Some (logs_after [line m] 0))])"
  if "0 < m" for m
proof -
  have "orderly_step lt tail_init ([line m], initial_processing, [], [])"
    using writes_orderly [of "line m" "[]"] that by (simp add: tail_init_def line_def)
  moreover have "orderly_step lt ([line m], initial_processing, [], []) ([line m], initial_processing, first_run, [(0, 0, None)])"
    using starts [of lt "[line m]" initial_processing "[]" "[]"]
    by (simp add: orderly_step_def keeping_step_def first_run_def initial_processing_def)
  moreover have "orderly_step lt ([line m], initial_processing, first_run, [(0, 0, None)])
      ([line m], initial_processing, first_run, [(0, 0, Some (logs_after [line m] 0))])"
    using serves [of lt "[line m]" initial_processing first_run "[]" 0 0 "[]"]
    by (simp add: orderly_step_def keeping_step_def)
  ultimately show ?thesis by (meson rtranclp.rtrancl_into_rtrancl rtranclp.rtrancl_refl)
qed

theorem log_tail_refines_channel_witness:
  "\<exists>s rs. pipeline_logs s = [terminal_of id (line 7)] \<and>
     pipeline_logs s = delivered (channel_of id ([line 7], s, rs, []))"
proof -
  let ?x = "Inr (logs_after [line 7] 0)"
  let ?s = "settled id 0 ?x initial_processing"
  let ?rs = "first_run[0 := apsnd (log_fulfilled (fingerprint id 0 ?x initial_processing)) (first_run ! 0)]"
  have st: "orderly_step id ([line 7], initial_processing, first_run, [(0, 0, Some (logs_after [line 7] 0))]) ([line 7], ?s, ?rs, [])"
    using answers [of ?x "logs_after [line 7] 0" id "[line 7]" initial_processing first_run "[]" 0 0 "[]" 0]
    by (simp add: orderly_step_def keeping_step_def)
  have "(orderly_step id)\<^sup>*\<^sup>* tail_init ([line 7], initial_processing, first_run, [(0, 0, Some (logs_after [line 7] 0))])"
    by (rule first_run_orderly) simp
  from log_tail_refines_channel [OF this st] have "pipeline_logs ?s = delivered (channel_of id ([line 7], ?s, ?rs, []))"
    by simp
  moreover have "pipeline_logs ?s = [terminal_of id (line 7)]"
    by (simp add: logs_after_def line_def initial_processing_def)
  ultimately show ?thesis by blast
qed

text \<open>The server of a log reads the cursor from the path.\<close>

definition logs_prefix :: "string \<Rightarrow> string" where
  "logs_prefix i = ''/processing/incident/'' @ i @ ''/logs?since_sequence=''"

definition tail_server :: "string \<Rightarrow> pipeline_log list \<Rightarrow> (unit, proc_reply, proc_body) server" where
  "tail_server i ls = stateless (\<lambda>rq.
     if starts_with (logs_prefix i) (req_path rq)
     then Inr (logs_after ls (digits_value (takeWhile is_digit (drop (length (logs_prefix i)) (req_path rq)))))
     else Inl NonError)"

lemma tail_server_answers:
  "tail_server i ls () (Request GET (logs_path i c) None) = (Inr (logs_after ls c), ())"
proof -
  have path: "logs_path i c = logs_prefix i @ nat_str c @ ''&limit=100''"
    by (simp add: logs_path_def logs_prefix_def)
  have "takeWhile is_digit (nat_str c @ ''&limit=100'') = nat_str c"
    using nat_str_digits [of c] by (simp add: takeWhile_append2 is_digit_def)
  then show ?thesis
    using digits_value_nat_str [of c] by (simp add: path tail_server_def stateless_def starts_with_def)
qed

definition poll_once :: "(string \<Rightarrow> string) \<Rightarrow> string \<Rightarrow> pipeline_log list \<Rightarrow> nat \<Rightarrow> processing_page \<Rightarrow> processing_page" where
  "poll_once lt i ls now s = final_state (tail_server i ls) True (poll_logs lt i now) () s"

lemma poll_once_settles:
  "i \<noteq> [] \<Longrightarrow> poll_once lt i ls now s = settled lt now (Inr (logs_after ls (last_log_seq s))) s"
  by (simp add: poll_once_def poll_logs_suspends log_reply_settles tail_server_answers)





text \<open>While the log is only appended to, no line is lost, however many polls overlap: the page's cursor stands behind
  the first \<open>k\<close> lines, all of which are shown, and only lines of the log are.\<close>

theorem no_line_lost:
  assumes "(keeping_step lt)\<^sup>*\<^sup>* tail_init (ls, s, rs, pool)"
  shows "\<exists>k \<le> length ls. last_log_seq s = cursor_at ls k \<and>
    terminal_of lt ` set (take k ls) \<subseteq> set (pipeline_logs s) \<and> set (pipeline_logs s) \<subseteq> terminal_of lt ` set ls"
  using keeping_loses_nothing [OF assms] by (auto simp: nothing_lost_def shown_upto_def)

text \<open>But a line is shown twice when the job has ended and runs again while a poll of the first run waits: the poll of
  the second run is sent with the same cursor.\<close>

lemma keeping_trans:
  "(keeping_step lt)\<^sup>*\<^sup>* c (ls, s, rs, pool) \<Longrightarrow> tail_step lt (ls, s, rs, pool) (ls', s', rs', pool') \<Longrightarrow> prefix ls ls' \<Longrightarrow>
     (keeping_step lt)\<^sup>*\<^sup>* c (ls', s', rs', pool')"
  by (erule rtranclp.rtrancl_into_rtrancl) (simp add: keeping_step_def)

theorem restart_repeats_lines:
  "\<exists>s rs. (keeping_step id)\<^sup>*\<^sup>* tail_init ([line 1], s, rs, []) \<and>
     pipeline_logs s = [terminal_of id (line 1), terminal_of id (line 1)]"
proof -
  let ?ls = "[line 1]" and ?y = "logs_after [line 1] 0" and ?i = initial_processing
  let ?rs = "start_run log_poll_options (clean_up first_run)"
  let ?s1 = "settled id 0 (Inr ?y) ?i"
  let ?rs1 = "?rs[0 := apsnd (log_fulfilled (fingerprint id 0 (Inr ?y) ?i)) (?rs ! 0)]"
  let ?s2 = "settled id 0 (Inr ?y) ?s1"
  let ?rs2 = "?rs1[1 := apsnd (log_fulfilled (fingerprint id 0 (Inr ?y) ?s1)) (?rs1 ! 1)]"
  have "(orderly_step id)\<^sup>*\<^sup>* tail_init (?ls, ?i, first_run, [(0, 0, Some ?y)])" by (rule first_run_orderly) simp
  then have "(keeping_step id)\<^sup>*\<^sup>* tail_init (?ls, ?i, first_run, [(0, 0, Some ?y)])"
    by (rule rtranclp_mono [THEN predicate2D, rotated]) (auto simp: orderly_step_def)
  then have "(keeping_step id)\<^sup>*\<^sup>* tail_init (?ls, ?i, clean_up first_run, [(0, 0, Some ?y)])"
    by (rule keeping_trans [OF _ stops]) simp
  then have "(keeping_step id)\<^sup>*\<^sup>* tail_init (?ls, ?i, ?rs, [(0, 0, Some ?y)] @ [(length (clean_up first_run), last_log_seq ?i, None)])"
    by (rule keeping_trans [OF _ starts]) simp
  then have "(keeping_step id)\<^sup>*\<^sup>* tail_init (?ls, ?i, ?rs, [(0, 0, Some ?y)] @ (1, 0, None) # [])"
    by (simp add: first_run_def start_run_def clean_up_def initial_processing_def)
  then have "(keeping_step id)\<^sup>*\<^sup>* tail_init (?ls, ?i, ?rs, [(0, 0, Some ?y)] @ (1, 0, Some ?y) # [])"
    by (rule keeping_trans [OF _ serves]) simp
  then have "(keeping_step id)\<^sup>*\<^sup>* tail_init (?ls, ?i, ?rs, [] @ (0, 0, Some ?y) # [(1, 0, Some ?y)])" by simp
  then have "(keeping_step id)\<^sup>*\<^sup>* tail_init (?ls, ?s1, ?rs1, [] @ (1, 0, Some ?y) # [])"
    using keeping_trans [OF _ answers [OF refl, of id ?ls ?i ?rs "[]" 0 0 ?y "[(1, 0, Some ?y)]" 0]] by simp
  then have "(keeping_step id)\<^sup>*\<^sup>* tail_init (?ls, ?s2, ?rs2, [] @ [])"
    using keeping_trans [OF _ answers [OF refl, of id ?ls ?s1 ?rs1 "[]" 1 0 ?y "[]" 0]] by simp
  moreover have "pipeline_logs ?s2 = [terminal_of id (line 1), terminal_of id (line 1)]"
    by (simp add: logs_after_def line_def initial_processing_def)
  ultimately show ?thesis by (intro exI [of _ ?s2] exI [of _ ?rs2]) simp
qed

text \<open>And lines are hidden when the log is deleted while the page is open, since the page keeps its cursor: as long as
  the new log's numbers have not passed it, no poll shows anything.\<close>

theorem deleted_log_hides_lines:
  "\<exists>s rs pool. (tail_step id)\<^sup>*\<^sup>* tail_init ([line 1], s, rs, pool) \<and>
     (\<forall>n now. pipeline_logs ((poll_once id ''i1'' [line 1] now ^^ n) s) = [terminal_of id (line 7)])"
proof -
  let ?y = "logs_after [line 7] 0" and ?i = initial_processing
  let ?s = "settled id 0 (Inr ?y) ?i"
  let ?rs = "first_run[0 := apsnd (log_fulfilled (fingerprint id 0 (Inr ?y) ?i)) (first_run ! 0)]"
  have "(orderly_step id)\<^sup>*\<^sup>* tail_init ([line 7], ?i, first_run, [] @ (0, 0, Some ?y) # [])"
    using first_run_orderly [of 7] by simp
  then have "(tail_step id)\<^sup>*\<^sup>* tail_init ([line 7], ?i, first_run, [] @ (0, 0, Some ?y) # [])"
    by (rule rtranclp_mono [THEN predicate2D, rotated]) (auto simp: orderly_step_def keeping_step_def)
  then have "(tail_step id)\<^sup>*\<^sup>* tail_init ([line 7], ?s, ?rs, [] @ [])"
    by (rule rtranclp.rtrancl_into_rtrancl) (rule answers [OF refl])
  then have "(tail_step id)\<^sup>*\<^sup>* tail_init ([], ?s, ?rs, [] @ [])"
    by (rule rtranclp.rtrancl_into_rtrancl) (rule clears)
  then have r: "(tail_step id)\<^sup>*\<^sup>* tail_init ([] @ [line 1], ?s, ?rs, [] @ [])"
    by (rule rtranclp.rtrancl_into_rtrancl) (rule writes, simp_all add: line_def)
  have "poll_once id ''i1'' [line 1] now ?s = ?s" for now
    by (simp add: poll_once_settles logs_after_def line_def)
  then have "(poll_once id ''i1'' [line 1] now ^^ n) ?s = ?s" for n now by (induction n) simp_all
  moreover have "pipeline_logs ?s = [terminal_of id (line 7)]" by (simp add: logs_after_def line_def initial_processing_def)
  ultimately show ?thesis using r by (intro exI [of _ ?s] exI [of _ ?rs] exI [of _ "[]"]) simp
qed

definition stage_shapes :: "job_status \<Rightarrow> nat \<Rightarrow> stage_status list" where
  "stage_shapes js k = replicate k StComplete @ [if js = JobFailed then StFailed else StActive] @ replicate (3 - k) StPending"

lemma stage_shapes_simps:
  "stage_shapes js 0 = [if js = JobFailed then StFailed else StActive, StPending, StPending, StPending]"
  "stage_shapes js (Suc 0) = [StComplete, if js = JobFailed then StFailed else StActive, StPending, StPending]"
  "stage_shapes js 2 = [StComplete, StComplete, if js = JobFailed then StFailed else StActive, StPending]"
  "stage_shapes js 3 = [StComplete, StComplete, StComplete, if js = JobFailed then StFailed else StActive]"
  by (simp_all add: stage_shapes_def eval_nat_numeral)

lemma phase_order_simps:
  "phase_order ! 0 = ''parsing''" "phase_order ! Suc 0 = ''sigma''" "phase_order ! 2 = ''timeline''" "phase_order ! 3 = ''analytics''"
  by (simp_all add: phase_order_def)

lemma running_stages:
  assumes "js = JobRunning \<or> js = JobFailed" and "k \<in> {0, 1, 2, 3}"
  shows "map (stage_row (Some (j\<lparr>pj_status := js, pj_phase := Some (phase_order ! k), pj_reports := None\<rparr>)))
    pipeline_phases = stage_shapes js k"
  using assms
  by (elim insertE emptyE disjE)
    (simp_all add: stage_row_def pipeline_phases_def stage_status_of_def stage_statuses_def phase_order_simps stage_shapes_simps Let_def)

text \<open>A phase is only called complete when its tools covered it: if no report of the phase failed, was
  partial or lacked its configuration, and never for a job still waiting.  While a job runs in one of the
  four phases and no stage has reported, the phases before it are complete, it is active and the others
  are pending; of a failed job it is the failed one.\<close>

theorem complete_phase_is_covered:
  "(set (stage_statuses (pj_reports j) (pp_id p)) \<inter> {''FAILED'', ''NOT_CONFIGURED'', ''PARTIAL''} = {}
      \<or> stage_row (Some j) p \<noteq> StComplete) \<and>
   list_all (\<lambda>k. map (stage_row (Some (j\<lparr>pj_status := JobRunning, pj_phase := Some (phase_order ! k), pj_reports := None\<rparr>)))
       pipeline_phases = stage_shapes JobRunning k \<and>
     map (stage_row (Some (j\<lparr>pj_status := JobFailed, pj_phase := Some (phase_order ! k), pj_reports := None\<rparr>)))
       pipeline_phases = stage_shapes JobFailed k) [0, 1, 2, 3]"
proof -
  have "stage_row (Some j) p = StComplete \<Longrightarrow>
      set (stage_statuses (pj_reports j) (pp_id p)) \<inter> {''FAILED'', ''NOT_CONFIGURED'', ''PARTIAL''} = {}"
    using stage_complete by (simp add: stage_row_def)
  then show ?thesis by (auto simp: running_stages)
qed

text \<open>The terminal shows at most a thousand lines, all of them lines of the log in their order, only lines that
  arrived after the view was cleared, and without a filter exactly the latest of these.\<close>

theorem terminal_shows_latest:
  "subseq (displayed_buffer entries t) entries \<and> length (displayed_buffer entries t) \<le> 1000 \<and>
   displayed_buffer (entries @ later) (handle_clear entries t) = drop (length later - 1000) later"
proof -
  have "length (displayed_buffer entries t) \<le> 1000"
    by (auto simp: displayed_buffer_def Let_def intro: order_trans [OF length_filter_le])
  moreover have "displayed_buffer (entries @ later) (handle_clear entries t) = drop (length later - 1000) later"
    by (simp add: displayed_buffer_def handle_clear_def Let_def)
  ultimately show ?thesis using displayed_subset by blast
qed

definition sample_job :: processing_job where
  "sample_job = \<lparr>pj_id = ''p1'', pj_incident_id = ''i1'', pj_job_id = ''j1'', pj_status = JobDone, pj_phase = Some ''analytics'',
     pj_started = None, pj_completed = None, pj_error = None, pj_created = [], pj_reports = None\<rparr>"

theorem complete_phase_is_covered_witness:
  "stage_row (Some (sample_job\<lparr>pj_reports := Some [(''parser:evtx'', \<lparr>sr_status = ''NOT_CONFIGURED'', sr_reason = None\<rparr>)]\<rparr>))
     (hd pipeline_phases) \<noteq> StComplete"
proof -
  let ?j = "sample_job\<lparr>pj_reports := Some [(''parser:evtx'', \<lparr>sr_status = ''NOT_CONFIGURED'', sr_reason = None\<rparr>)]\<rparr>"
  have "stage_statuses (pj_reports ?j) (pp_id (hd pipeline_phases)) = [''NOT_CONFIGURED'']"
    by (simp add: stage_statuses_def stage_prefix_def pipeline_phases_def starts_with_def)
  with complete_phase_is_covered [of ?j "hd pipeline_phases"] show ?thesis by auto
qed

text \<open>A poll of a running job that fails, for a moment without a network say, makes the page claim that there
  is no processing job and offer to start the pipeline, although it still holds the running job.\<close>

theorem failed_poll_hides_job:
  "let s' = final_state (stateless (\<lambda>_. Inl e)) yes (poll_job i) () (s\<lparr>proc_job := Some (j\<lparr>pj_status := JobRunning\<rparr>)\<rparr>)
   in status_panel_of s' = NoJob (start_error s) \<and> is_running s' \<and>
      outcome_of (stateless (\<lambda>_. Inl e)) yes (poll_job i) () (s\<lparr>proc_job := Some (j\<lparr>pj_status := JobRunning\<rparr>)\<rparr>) =
        Inr (Some (''RUNNING:'' @ (case pj_phase j of Some p \<Rightarrow> p | None \<Rightarrow> ''null'')))"
  by (simp add: poll_job_def refetch_job_def stateless_def status_panel_of_def is_running_def)

text \<open>Starting or repeating the pipeline sends one trigger, forced exactly for a finished job, and reads the job
  again only when it is accepted; the page is never left in its starting state, and a failure is shown.\<close>

lemma start_processing_requests:
  assumes "i \<noteq> []"
  shows "requests_of srv yes (handle_start_processing i) w s =
      Request POST (''/processing/incident/'' @ i @ ''/trigger'' @ (if is_done s then ''?force=true'' else [])) (Some EmptyObject) #
      (if isl (fst (srv w (Request POST (''/processing/incident/'' @ i @ ''/trigger'' @ (if is_done s then ''?force=true'' else []))
          (Some EmptyObject)))) then []
       else [Request GET (''/processing/incident/'' @ i @ ''/status'') None]) \<and>
    \<not> proc_starting (final_state srv yes (handle_start_processing i) w s)"
  using assms
  by (auto simp: handle_start_processing_def refetch_job_def io_simps isl_def split: sum.split option.split)

end
