(* ===== verification/ExecutionViews.thy ===== *)
theory ExecutionViews
  imports CollectionExecution Processing Layout Requests
begin

text \<open>
  What \<open>pages/CollectionExecution.tsx\<close>, \<open>components/TerminalLog.tsx\<close> and \<open>pages/ProcessingStatus.tsx\<close> draw, with the
  controls they offer.  \<open>clock\<close> is the text of \<open>new Date().toISOString()\<close>, \<open>time\<close> the locale's form of a date.  The
  contract \<open>component_requests\<close> is interpreted on the execution page of a viewer.
\<close>

section \<open>The execution of a collection\<close>

record execution_view =
  ev_heading :: string
  ev_pulse :: bool
  ev_stream :: string
  ev_elapsed :: string
  ev_badge :: "string \<times> string"
  ev_error :: "string option"
  ev_recorded :: string
  ev_log :: "log_entry list"
  ev_target :: "(string \<times> string) list"
  ev_phases_status :: string
  ev_phases :: "phase list"
  ev_module :: "string option"
  ev_hosts :: "(string \<times> string) list option"
  ev_leave :: "(string \<times> string) list"
  ev_shutdown :: "(string \<times> bool) option"
  ev_footer :: "string list"

definition host_rows :: "execution \<Rightarrow> (string \<times> string) list option" where
  "host_rows s = (if 1 < length (per_host_jobs s)
     then Some (map (\<lambda>j. (case hj_hostname j of Some h \<Rightarrow> if h = [] then hj_job_id j else h | None \<Rightarrow> hj_job_id j, hj_status j)) (per_host_jobs s))
     else None)"

definition target_rows :: "execution \<Rightarrow> (string \<times> string) list" where
  "target_rows s = [(''HOSTNAME'', case exec_device s of Some d \<Rightarrow> ed_hostname d | None \<Rightarrow> ''ACQUIRING...''),
     (''INTERFACE'', case exec_device s of Some d \<Rightarrow> ed_ip d | None \<Rightarrow> ''---''),
     (''PLATFORM'', case exec_device s of Some d \<Rightarrow> ed_os d | None \<Rightarrow> ''---''),
     (''COLLECTOR'', case exec_collector s of Some c \<Rightarrow> co_name c | None \<Rightarrow> ''---'')]"

definition filled_option :: "string option \<Rightarrow> string option" where
  "filled_option v = (case v of Some t \<Rightarrow> if t = [] then None else Some t | None \<Rightarrow> None)"

definition execution_view_of :: "bool \<Rightarrow> string \<Rightarrow> string \<Rightarrow> execution \<Rightarrow> execution_view" where
  "execution_view_of viewer i clock s = \<lparr>
     ev_heading = (if is_complete s then ''Sector Secured'' else ''Acquisition Active''), ev_pulse = (\<not> is_complete s),
     ev_stream = ''STREAM_ID: '' @ i, ev_elapsed = format_time (elapsed_time s),
     ev_badge = (if is_complete s then ''verified'' else ''running'', status_label s),
     ev_error = filled_option (exec_error s), ev_recorded = nat_str (length (exec_logs s)) @ '' EVENTS RECORDED'',
     ev_log = exec_logs s, ev_target = target_rows s,
     ev_phases_status = (if is_complete s then ''verified'' else ''active''), ev_phases = phases s,
     ev_module = (if is_complete s then None else filled_option (current_module s)), ev_hosts = host_rows s,
     ev_leave = (if is_complete s then [(''ACTIVATE ANALYSIS'', ''/incidents/'' @ i), (''RETURN TO BASE'', ''/dashboard'')] else []),
     ev_shutdown = (if is_complete s then None else Some (if is_aborting s then ''SENDING ABORT...'' else ''EMERGENCY SHUTDOWN'',
        is_aborting s \<or> viewer)),
     ev_footer = [''ANALYST_OPS: ACTIVE'', ''OPERATOR: '' @ (case exec_incident s of Some inc \<Rightarrow> ei_operator inc | None \<Rightarrow> ''SYSTEM''),
        clock, ''Encrypted: AES-GCM'']\<rparr>"

text \<open>A viewer's page starts nothing.\<close>

definition idle :: "execution \<Rightarrow> bool" where
  "idle s \<longleftrightarrow> \<not> started s \<and> \<not> polling_enabled s \<and> \<not> is_complete s \<and> exec_logs s = []
     \<and> phases s = phases initial_execution \<and> \<not> is_starting s"

definition only_reads :: "'b request \<Rightarrow> bool" where
  "only_reads rq \<longleftrightarrow> req_method rq = GET \<and> req_body rq = None"

lemma load_context_contract:
  assumes "idle s"
  shows "keeps idle (load_context i) s \<and> asks idle only_reads (load_context i) s"
  using assms unfolding load_context_def Let_def
  by (auto intro!: keeps_tryCatch asks_tryCatch simp: only_reads_def idle_def split: option.split)

lemma viewer_handler_contract:
  "idle s \<Longrightarrow> keeps idle (exec_handler True i loc lt e s) s \<and> asks idle only_reads (exec_handler True i loc lt e s) s"
  by (cases e) (simp_all add: load_context_contract start_collection_def handle_abort_def, simp_all add: idle_def)

interpretation viewer: component_requests "exec_handler True i loc lt" initial_execution idle only_reads for i loc lt
  by unfold_locales (auto simp: viewer_handler_contract, simp add: idle_def initial_execution_def)

section \<open>The terminal\<close>

record terminal_view =
  tv_search :: "string option"
  tv_matches :: "string option"
  tv_pause :: "string \<times> bool"
  tv_note :: "string option"
  tv_lines :: "(string \<times> string \<times> string) list"
  tv_streaming :: bool

definition log_line :: "terminal_entry \<Rightarrow> string \<times> string \<times> string" where
  "log_line e = (''['' @ te_timestamp e @ '']'', te_level e, te_message e)"

definition terminal_view_of :: "bool \<Rightarrow> bool \<Rightarrow> terminal_entry list \<Rightarrow> terminal \<Rightarrow> terminal_view" where
  "terminal_view_of auto_scroll searchable entries t = \<lparr>
     tv_search = (if searchable then Some (term_filter t) else None),
     tv_matches = (if term_filter t \<noteq> [] then Some (''Matches: '' @ nat_str (length (displayed_buffer entries t))) else None),
     tv_pause = (if term_paused t then ''RESUME'' else ''PAUSE'', term_paused t),
     tv_note = (if displayed_buffer entries t = [] \<and> entries \<noteq> []
       then Some (if term_filter t \<noteq> [] then ''No entries match search criteria.'' else ''Logs cleared.'') else None),
     tv_lines = map log_line (displayed_buffer entries t), tv_streaming = (\<not> term_paused t \<and> auto_scroll)\<rparr>"

section \<open>The processing pipeline\<close>

record phase_row =
  pr_class :: string
  pr_icon :: stage_icon
  pr_label :: string
  pr_desc :: string
  pr_warning :: "string option"
  pr_status :: stage_status

definition phase_row_of :: "preflight option \<Rightarrow> processing_page \<Rightarrow> pipeline_phase \<Rightarrow> phase_row" where
  "phase_row_of pf s p = (let st = stage_row (proc_job s) p in \<lparr>pr_class = stage_class st, pr_icon = stage_icon_of st,
     pr_label = Processing.pp_label p, pr_desc = Processing.pp_desc p, pr_warning = tool_warning pf p, pr_status = st\<rparr>)"

datatype pipeline_panel =
    CheckingPipeline string
  | NoProcessingJob string "string option" "string \<times> bool"
  | JobPanel "string \<times> string \<times> bool" "string option" "string option" "(string \<times> string) list" "string option option"
  | NothingShown

record processing_view =
  pw_subtitle :: string
  pw_reprocess :: "(string \<times> bool) option"
  pw_coverage :: "(string \<times> string list) option"
  pw_preflight :: "(string list \<times> string) option"
  pw_status :: string
  pw_panel :: pipeline_panel
  pw_log :: "(string \<times> string \<times> string \<times> terminal_view) option"
  pw_phases :: "phase_row list"
  pw_links :: "(string \<times> string) list"
  pw_download_disabled :: "bool option"

definition pipeline_panel_of :: "(string \<Rightarrow> string) \<Rightarrow> processing_page \<Rightarrow> pipeline_panel" where
  "pipeline_panel_of time s = (case status_panel_of s of
     Checking \<Rightarrow> CheckingPipeline ''CHECKING PIPELINE STATUS...''
   | NoJob e \<Rightarrow> NoProcessingJob ''No processing job found. Collection must complete before the pipeline can run.'' (filled_option e)
       (if proc_starting s then ''STARTING...'' else ''START PROCESSING PIPELINE'', proc_starting s)
   | ShowsJob j \<Rightarrow> JobPanel (job_indicator s j) (elapsed_shown s) (if is_running s then Some ''AUTO-REFRESH'' else None)
       (job_rows time j) (error_details s j)
   | EmptyPanel \<Rightarrow> NothingShown)"

definition processing_view_of :: "(string \<Rightarrow> string) \<Rightarrow> string option \<Rightarrow> string \<Rightarrow> preflight option \<Rightarrow> terminal \<Rightarrow> processing_page \<Rightarrow> processing_view" where
  "processing_view_of time r i pf t s = \<lparr>
     pw_subtitle = ''INCIDENT: '' @ i,
     pw_reprocess = (if reprocess_offered r s
       then Some (if proc_starting s then ''QUEUEING'' @ [CHR 0xE2, CHR 0x80, CHR 0xA6] else ''REPROCESS EVIDENCE'', proc_starting s) else None),
     pw_coverage = (case proc_job s of None \<Rightarrow> None
       | Some j \<Rightarrow> map_option (\<lambda>rows. (if pj_status j = JobDone then ''verified'' else ''warning'', rows)) (coverage_rows j)),
     pw_preflight = (if preflight_shown pf then Some (case pf of Some p \<Rightarrow> pf_warnings p | None \<Rightarrow> [], ''/admin/settings'') else None),
     pw_status = pipeline_panel_status s, pw_panel = pipeline_panel_of time s,
     pw_log = map_option (\<lambda>title. (title, if is_running s then ''active'' else ''online'', if is_running s then ''Live'' else ''Completed'',
       terminal_view_of (is_running s) True (pipeline_logs s) t)) (log_panel_title s),
     pw_phases = map (phase_row_of pf s) pipeline_phases, pw_links = analysis_links i s,
     pw_download_disabled = (if is_done s then Some (case proc_job s of Some j \<Rightarrow> pj_job_id j = [] | None \<Rightarrow> True) else None)\<rparr>"

definition toggle_error :: "processing_page \<Rightarrow> processing_page" where
  "toggle_error s = s\<lparr>error_expanded := \<not> error_expanded s\<rparr>"

definition start_clicked :: "(string \<Rightarrow> string) \<Rightarrow> string option \<Rightarrow> string \<Rightarrow> preflight option \<Rightarrow> terminal \<Rightarrow> processing_page \<Rightarrow> unit proc_io" where
  "start_clicked time r i pf t s = (case pw_panel (processing_view_of time r i pf t s) of
     NoProcessingJob m e (label, disabled) \<Rightarrow> if disabled then Done else handle_start_processing i | _ \<Rightarrow> Done)"

section \<open>Theorems\<close>

lemma add_logs_aborting [simp]: "is_aborting (add_logs lt ls s) = is_aborting s"
  by (auto simp: add_logs_def Let_def split: option.split)

text \<open>The execution page of a viewer only reads: however its events and the answers are interleaved, nothing is started,
  polled or cancelled, so that the guard of the page is as strict as the one of its route.\<close>

theorem viewer_only_reads:
  assumes "reachable (exec_handler True i loc lt) initial_execution (s, pool)" and "Await rq g \<in> set pool"
  shows "req_method rq = GET \<and> req_body rq = None"
  using viewer.waiting_allowed [OF assms] by (simp add: only_reads_def)

lemma viewer_only_reads_witness:
  "\<exists>rq g. Await rq g \<in> set (snd (settle (exec_handler True ''c'' None (\<lambda>t. t) LoadContext initial_execution) True initial_execution))
     \<and> req_method rq = GET"
proof -
  obtain g where st: "settle (exec_handler True ''c'' None (\<lambda>t. t) LoadContext initial_execution) True initial_execution
      = (initial_execution, [Await (Request GET (''/incidents/'' @ ''c'') None) g])"
    by (simp add: load_context_def call_def)
  have "reachable (exec_handler True ''c'' None (\<lambda>t. t)) initial_execution
      (initial_execution, [Await (Request GET (''/incidents/'' @ ''c'') None) g])"
    by (rule reach_waiting [OF reachable.initially]) (rule st)
  from viewer_only_reads [OF this, of "Request GET (''/incidents/'' @ ''c'') None"] show ?thesis using st by auto
qed

text \<open>What the page would show a viewer is not the collection: whatever its state, and also when it is over, it is
  headed as an active acquisition that runs, with no event recorded and every phase pending.  The route admits no viewer.\<close>

theorem viewer_sees_active:
  assumes "reachable (exec_handler True i loc lt) initial_execution (s, pool)"
  shows "ev_heading (execution_view_of True i clock s) = ''Acquisition Active''
    \<and> ev_badge (execution_view_of True i clock s) = (''running'', ''COLLECTING'')
    \<and> ev_recorded (execution_view_of True i clock s) = ''0 EVENTS RECORDED''
    \<and> list_all (\<lambda>p. ph_status p = Pending) (ev_phases (execution_view_of True i clock s))"
proof -
  have "idle s" by (rule viewer.reachable_inv [OF assms])
  moreover have "to_upper ''collecting'' = ''COLLECTING''" and "nat_str 0 = ''0''" by (simp_all add: char_eval str_eval)
  ultimately show ?thesis
    by (simp add: idle_def execution_view_of_def status_label_def initial_execution_def phase_table_def resolve_active_phase_id_def)
qed

lemma viewer_sees_active_witness:
  "ev_heading (execution_view_of True ''c'' ''t'' initial_execution) = ''Acquisition Active''"
  using viewer_sees_active [OF reachable.initially] by blast

text \<open>A collection that failed keeps its heading and its badge of an active one, and offers to shut it down.\<close>

theorem failed_collection_stays_active:
  assumes "i \<noteq> []" and "started s" and "\<not> is_complete s" and "\<not> is_aborting s" and "cs_status st = ''COLLECTION_FAILED''"
    and "srv w (Request POST (''/incidents/'' @ i @ ''/collect/poll'') (Some EmptyBody)) = (Inr (EStatus st), w')"
  shows "let v = execution_view_of False i clock (final_state srv yes (handle_poll lt i now) w s)
    in ev_heading v = ''Acquisition Active'' \<and> fst (ev_badge v) = ''running'' \<and> ev_shutdown v = Some (''EMERGENCY SHUTDOWN'', False)
      \<and> ev_error v = Some ''Acquisition sequence failed.''"
  using assms by (simp add: handle_poll_def io_simps execution_view_of_def filled_option_def Let_def)

lemma failed_collection_stays_active_witness:
  "ev_heading (execution_view_of False ''i1'' ''t'' (final_state (stateless (\<lambda>_. Inr (EStatus (poll_reply ''COLLECTION_FAILED'')))) True
     (handle_poll (\<lambda>t. t) ''i1'' 5000) () (initial_execution\<lparr>started := True\<rparr>))) = ''Acquisition Active''"
  using failed_collection_stays_active [of "''i1''" "initial_execution\<lparr>started := True\<rparr>" "poll_reply ''COLLECTION_FAILED''"
      "stateless (\<lambda>_. Inr (EStatus (poll_reply ''COLLECTION_FAILED'')))" "()" "()" "''t''" True "\<lambda>t. t" 5000]
  by (simp add: initial_execution_def poll_reply_def stateless_def Let_def)

text \<open>A filter stops the terminal from following its log, but the mark that it streams stays.\<close>

theorem filtered_terminal_streams:
  assumes "term_filter t \<noteq> []" and "\<not> term_paused t"
  shows "\<not> scrolls_to_end True t \<and> tv_streaming (terminal_view_of True b entries t)"
  using assms by (simp add: scrolls_to_end_def terminal_view_of_def)

lemma filtered_terminal_streams_witness:
  "\<not> scrolls_to_end True (initial_terminal\<lparr>term_filter := ''x''\<rparr>)
   \<and> tv_streaming (terminal_view_of True True [] (initial_terminal\<lparr>term_filter := ''x''\<rparr>))"
  using filtered_terminal_streams [of "initial_terminal\<lparr>term_filter := ''x''\<rparr>"] by (simp add: initial_terminal_def)

text \<open>Repeating the pipeline is kept from viewers by the page, starting it is not: when the job cannot be read the button
  works for any role, and sends the request.  What keeps a viewer from it is the route alone.\<close>

theorem start_ignores_roleole:
  assumes "\<not> proc_job_loading s" and "proc_job_failed s" and "\<not> proc_starting s" and "i \<noteq> []"
  shows "\<exists>m e. pw_panel (processing_view_of time r i pf t s) = NoProcessingJob m e (''START PROCESSING PIPELINE'', False)"
    and "requests_of srv yes (start_clicked time r i pf t s) w s \<noteq> []"
    and "r = Some ''viewer'' \<Longrightarrow> pw_reprocess (processing_view_of time r i pf t s) = None"
  using assms
  by (simp_all add: processing_view_of_def pipeline_panel_of_def status_panel_of_def start_clicked_def handle_start_processing_def
      io_simps reprocess_offered_def)

lemma start_ignores_roleole_witness:
  "requests_of (stateless (\<lambda>_. Inr PAccepted)) True (start_clicked (\<lambda>t. t) (Some ''viewer'') ''c'' None initial_terminal
     (initial_processing\<lparr>proc_job_loading := False, proc_job_failed := True\<rparr>)) ()
     (initial_processing\<lparr>proc_job_loading := False, proc_job_failed := True\<rparr>) \<noteq> []"
  by (rule start_ignores_roleole(2)) (simp_all add: initial_processing_def)

end
