(* ===== verification/FrameViews.thy ===== *)
theory FrameViews
  imports Layout Evidence TimelineUtils
begin

text \<open>
  What surrounds every page: the header, palette and footer of \<open>AppLayout.tsx\<close> with their clocks, the sidebar of
  \<open>AppSidebar.tsx\<close> and the floating panel of \<open>EvidenceWorkspace.tsx\<close>.  \<open>time\<close> is \<open>toLocaleTimeString\<close> of a date.
\<close>

section \<open>Header, palette and footer\<close>

text \<open>A clock: \<open>None\<close> once it is unmounted, when its interval is cleared.\<close>

datatype clock_event = Tick int | Unmount

fun clock_step :: "clock_event \<Rightarrow> int option \<Rightarrow> int option" where
  "clock_step (Tick now) c = map_option (\<lambda>_. now) c"
| "clock_step Unmount c = None"

text \<open>The entry that a select shows: the one of its value, the first when there is none of that value.\<close>

definition selected_option :: "string \<Rightarrow> (string \<times> string) list \<Rightarrow> string" where
  "selected_option v opts = (case map_of opts v of Some t \<Rightarrow> t | None \<Rightarrow> (case opts of (k, t) # rest \<Rightarrow> t | [] \<Rightarrow> []))"

record frame_header =
  fh_title :: string
  fh_subtitle :: "string option"
  fh_case :: "(string \<times> (string \<times> string) list) option"
  fh_banner :: "(string \<times> string) option"
  fh_padding :: string

definition frame_header_of :: "string \<Rightarrow> string \<Rightarrow> bool \<Rightarrow> string \<Rightarrow> string \<Rightarrow> incident list \<Rightarrow> layout \<Rightarrow> frame_header" where
  "frame_header_of title subtitle show msg variant incs s = \<lparr>fh_title = title, fh_subtitle = (if subtitle \<noteq> [] then Some subtitle else None),
     fh_case = (if 0 < length incs then Some (selected_option (active_incident_id s) (case_options incs), case_options incs) else None),
     fh_banner = map_option (\<lambda>t. (warning_banner_class variant, t)) (warning_banner show msg incs),
     fh_padding = (if sidebar_collapsed s then ''pl-16'' else ''pl-64'')\<rparr>"

text \<open>The palette: its groups with the entries and the path each opens.\<close>

definition palette_groups :: "incident list \<Rightarrow> dash_collector list \<Rightarrow> layout \<Rightarrow> (string \<times> (string \<times> string) list) list option" where
  "palette_groups incs cs s = (if palette_open s then Some
     [(''Investigations'', [(''Incident Dashboard'', ''/dashboard''), (''Evidence Vault'', evidence_command s)]),
      (''Active Incidents'', palette_incidents incs), (''Active Collectors'', palette_collectors cs)] else None)"

definition palette_chosen :: "string \<Rightarrow> layout \<Rightarrow> layout" where
  "palette_chosen path s = (if palette_open s then run_command path s else s)"

text \<open>The footer: the ticker, the user and the role; upper case of a stored role that is no text throws.\<close>

definition footer_user :: "layout \<Rightarrow> (string \<times> string) option" where
  "footer_user s = (case current_user s of None \<Rightarrow> Some (''UNKNOWN'', ''UNKNOWN'')
     | Some (u, r) \<Rightarrow> (case r of JStr t \<Rightarrow> Some (if u = JNull then ''UNKNOWN'' else js_string (Some u), to_upper t)
        | JNull \<Rightarrow> Some (if u = JNull then ''UNKNOWN'' else js_string (Some u), ''UNKNOWN'') | _ \<Rightarrow> None))"

definition frame_footer :: "incident list \<Rightarrow> layout \<Rightarrow> (string \<times> string \<times> string) option" where
  "frame_footer incs s = map_option (\<lambda>(u, r). (ticker_text incs, u, r)) (footer_user s)"

section \<open>The sidebar\<close>

definition nav_style :: "bool \<Rightarrow> string" where
  "nav_style active = (if active then ''bg-primary/10 text-primary border-l-2 border-primary''
     else ''text-muted-foreground hover:text-foreground hover:bg-secondary border-l-2 border-transparent'')"

definition when_wide :: "layout \<Rightarrow> 'a \<Rightarrow> 'a option" where
  "when_wide s x = (if sidebar_collapsed s then None else Some x)"

definition nav_view :: "layout \<Rightarrow> nav_item \<Rightarrow> string \<times> string option" where
  "nav_view s i = (nav_style (nav_is_active (pathname (lay_browser s)) (active_incident_id s) i),
     when_wide s (nav_label i))"

record sidebar_view =
  sbv_width :: string
  sbv_title :: "(string \<times> string) option"
  sbv_stats :: "(string \<times> string \<times> string) list"
  sbv_sections :: "(string option \<times> (string \<times> string option) list) list"
  sbv_toggle :: "string option"
  sbv_logout :: "string option"

definition sidebar_view_of :: "incident list \<Rightarrow> dash_collector list \<Rightarrow> layout \<Rightarrow> sidebar_view" where
  "sidebar_view_of incs cs s = \<lparr>sbv_width = (if sidebar_collapsed s then ''w-16'' else ''w-64''), sbv_title = when_wide s (''DFIR KIT'', ''V0.1.0''),
      sbv_stats = (if sidebar_collapsed s then [] else
        [(''ACTIVE'', nat_str (layout_active_incidents incs), ''/dashboard''),
         (''COLLECTORS'', nat_str (layout_online cs) @ ''/'' @ nat_str (length cs), ''/collectors'')]),
      sbv_sections = map (\<lambda>(l, items). (when_wide s l, map (nav_view s) items)) (visible_sections (lay_browser s)),
      sbv_toggle = when_wide s ''COLLAPSE'', sbv_logout = when_wide s ''LOGOUT''\<rparr>"

section \<open>The floating panel\<close>

text \<open>What React draws for a value: nothing for \<open>null\<close>, \<open>undefined\<close> and booleans, and an object throws (\<open>None\<close>).\<close>

fun render_node :: "jsval \<Rightarrow> string option" where
  "render_node JNull = Some []"
| "render_node (JBool b) = Some []"
| "render_node (JNum n) = Some (int_str n)"
| "render_node (JStr t) = Some t"
| "render_node (JArr vs) = map_option concat (those (map render_node vs))"
| "render_node (JObj ms) = None"

definition render_prop :: "jsval \<Rightarrow> string \<Rightarrow> string option" where
  "render_prop v k = (case js_prop v k of None \<Rightarrow> Some [] | Some x \<Rightarrow> render_node x)"

text \<open>\<open>String(item.metadata.host || "UNKNOWN")\<close>; without an object the access throws.\<close>

definition host_text :: "jsval \<Rightarrow> string option" where
  "host_text v = (case js_prop v ''metadata'' of None \<Rightarrow> None | Some JNull \<Rightarrow> None
     | Some m \<Rightarrow> (let h = js_prop m ''host'' in Some (if truthy h then js_string h else ''UNKNOWN'')))"

record pin_card =
  pc_type :: string
  pc_title :: string
  pc_content :: string
  pc_time :: string
  pc_host :: string

definition pin_card_of :: "(jsval option \<Rightarrow> string) \<Rightarrow> jsval \<Rightarrow> pin_card option" where
  "pin_card_of time v = (case (render_prop v ''type'', render_prop v ''title'', render_prop v ''content'', host_text v) of
       (Some a, Some b, Some c, Some h) \<Rightarrow> Some \<lparr>pc_type = a, pc_title = b, pc_content = c, pc_time = time (js_prop v ''timestamp''), pc_host = h\<rparr>
     | _ \<Rightarrow> None)"

record workspace_view =
  wv_icon :: string
  wv_badge :: "string option"
  wv_hidden :: bool
  wv_cards :: "pin_card list"
  wv_debrief :: bool

text \<open>The panel is hidden and not removed when it is collapsed, so that its cards are drawn in any case.\<close>

definition workspace_view_of :: "(jsval option \<Rightarrow> string) \<Rightarrow> panel \<Rightarrow> jsval list \<Rightarrow> workspace_view option" where
  "workspace_view_of time p items = map_option (\<lambda>cards.
     \<lparr>wv_icon = (if expanded p then ''ChevronRight'' else ''Pin''),
      wv_badge = (if 0 < length items \<and> \<not> expanded p then Some (nat_str (length items)) else None),
      wv_hidden = (\<not> expanded p), wv_cards = cards, wv_debrief = (items \<noteq> [])\<rparr>) (those (map (pin_card_of time) items))"

definition panel_style :: "panel \<Rightarrow> string \<times> string \<times> string" where
  "panel_style p = (int_str (pos_y p) @ ''px'', int_str (- pos_x p) @ ''px'', if expanded p then ''500px'' else ''auto'')"

text \<open>A drag by the toggle: the button goes down, the mouse moves, the button goes up over the toggle, which has
  followed the mouse, and the browser reports the click.\<close>

fun drag_moves :: "int \<Rightarrow> int \<Rightarrow> (int \<times> int) list \<Rightarrow> panel \<Rightarrow> panel" where
  "drag_moves vw vh [] p = p"
| "drag_moves vw vh ((x, y) # ms) p = drag_moves vw vh ms (mouse_move vw vh x y p)"

definition drag_toggle :: "int \<Rightarrow> int \<Rightarrow> int \<times> int \<Rightarrow> (int \<times> int) list \<Rightarrow> panel \<Rightarrow> panel" where
  "drag_toggle vw vh start path p = toggle_expanded (mouse_up (drag_moves vw vh path (mouse_down (fst start) (snd start) p)))"

section \<open>Lemmas\<close>

lemma move_keeps_expanded: "expanded (mouse_move vw vh x y p) = expanded p"
  by (simp add: mouse_move_def)

lemma moves_keep_expanded: "expanded (drag_moves vw vh ms p) = expanded p"
  by (induction vw vh ms p rule: drag_moves.induct) (simp_all add: move_keeps_expanded)

lemma those_none: "None \<in> set xs \<Longrightarrow> those xs = None"
  by (induction xs) (auto split: option.split)

lemma clock_stopped: "fold clock_step es None = None"
proof (induction es)
  case (Cons e es)
  then show ?case by (cases e) simp_all
qed simp

section \<open>Theorems\<close>

text \<open>An unmounted clock never ticks again, and a mounted one shows its last tick.\<close>

theorem clock_shows_last_tick:
  "fold clock_step (map Tick ts @ Unmount # es) (Some c) = None
   \<and> fold clock_step (map Tick ts) (Some c) = Some (last (c # ts))"
proof -
  have t: "fold clock_step (map Tick ts) (Some c) = Some (last (c # ts))" by (induction ts arbitrary: c) auto
  then show ?thesis by (simp add: clock_stopped)
qed

text \<open>The case selector knows the cases of its query only, the ten newest active ones: on the page of any other case it
  reads SELECT CASE.\<close>

theorem other_case_unselected:
  assumes "incs \<noteq> []" and "active_incident_id s \<notin> i_id ` set incs"
  shows "\<exists>opts. fh_case (frame_header_of title sub show msg variant incs s) = Some (''SELECT CASE'', opts)"
proof -
  have "map_of (case_options incs) (active_incident_id s) = Some ''SELECT CASE'' \<or> map_of (case_options incs) (active_incident_id s) = None"
    using assms(2) by (auto simp: case_options_def map_of_eq_None_iff)
  then have "selected_option (active_incident_id s) (case_options incs) = ''SELECT CASE''"
    by (auto simp: selected_option_def case_options_def)
  then show ?thesis using assms(1) by (simp add: frame_header_of_def)
qed

lemma other_case_unselected_witness:
  "\<exists>opts. fh_case (frame_header_of ''REPORT'' [] False [] ''warning'' [map_incident (sample_incident ''ACTIVE'')]
     (mount_layout 1000 (assign_location ''/incidents/INC-2'' [] sample_browser))) = Some (''SELECT CASE'', opts)"
proof (rule other_case_unselected)
  show "active_incident_id (mount_layout 1000 (assign_location ''/incidents/INC-2'' [] sample_browser)) \<notin> i_id ` set [map_incident (sample_incident ''ACTIVE'')]"
    by (simp add: active_incident_id_def mount_layout_def assign_location_def incident_id_from_route_def after_prefix_def starts_with_def
        map_incident_def sample_incident_def)
qed simp

text \<open>On the page \<open>/evidence\<close> itself the sidebar's item for it is not lit once a case was visited: it then stands for
  the evidence of that case.\<close>

theorem vault_item_unlit:
  assumes "pathname (lay_browser s) = ''/evidence''" and "selected_incident s \<noteq> []"
  shows "fst (nav_view s (nav ''EVIDENCE VAULT'' ''/evidence'' False)) = nav_style False"
proof -
  have "incident_id_from_route ''/evidence'' = None"
    by (simp add: incident_id_from_route_def after_prefix_def starts_with_def)
  then have "active_incident_id s = selected_incident s" using assms(1) by (simp add: active_incident_id_def)
  then show ?thesis
    using assms by (simp add: nav_view_def nav_is_active_def nav_target_def nav_def starts_with_def)
qed

lemma vault_item_unlit_witness:
  "fst (nav_view ((mount_layout 1000 (assign_location ''/evidence'' [] sample_browser))\<lparr>selected_incident := ''INC-1''\<rparr>)
     (nav ''EVIDENCE VAULT'' ''/evidence'' False)) = nav_style False"
  using vault_item_unlit [of "(mount_layout 1000 (assign_location ''/evidence'' [] sample_browser))\<lparr>selected_incident := ''INC-1''\<rparr>"]
  by (simp add: mount_layout_def assign_location_def)

text \<open>Every drag ends with a click on the toggle, which nothing distinguishes from a click without a drag: moving the
  panel opens or closes it.\<close>

theorem drag_flips_panel:
  "expanded (drag_toggle vw vh start path p) = (\<not> expanded p) \<and> \<not> dragging (drag_toggle vw vh start path p)"
  by (simp add: drag_toggle_def toggle_expanded_def mouse_up_def moves_keep_expanded mouse_down_def)

text \<open>A stored list with one entry that has no metadata breaks every page: the panel throws while it is drawn, hidden
  or not, and since the list is written back as it was read, so does it after each reload.\<close>

theorem bad_pin_breaks_every_page:
  assumes "local_get b storage_key = Some raw" and "parse_json raw = Some (JArr items)" and "raw \<noteq> []" and "json_wf (JArr items)"
    and "v \<in> set items" and "js_prop v ''metadata'' = None"
  shows "pinned (mount_provider b) = JArr items \<and> workspace_view_of time p items = None
    \<and> pinned (mount_provider (browser_of (mount_provider b))) = JArr items"
proof -
  have load: "pinned (mount_provider c) = JArr items" "browser_of (mount_provider c)
      = local_put storage_key (stringify (JArr items)) (local_put storage_key (stringify (JArr [])) c)"
    if "local_get c storage_key = Some r" "parse_json r = Some (JArr items)" "r \<noteq> []" for c r
    using that by (simp_all add: mount_provider_def load_effect_def save_effect_def Let_def)
  have "pin_card_of time v = None" using assms(6) by (simp add: pin_card_of_def host_text_def split: option.split)
  then have "None \<in> set (map (pin_card_of time) items)" using assms(5) by (metis image_eqI set_map)
  then have "workspace_view_of time p items = None" by (simp add: workspace_view_of_def those_none)
  moreover have "stringify (JArr items) \<noteq> []" using stringify_nonempty by (metis length_greater_0_conv)
  ultimately show ?thesis
    using load [OF assms(1,2,3)] load [of "browser_of (mount_provider b)" "stringify (JArr items)"] parse_stringify [OF assms(4)]
    by (simp add: local.fetch_store)
qed

lemma bad_pin_breaks_every_page_witness:
  "pinned (mount_provider (local_put storage_key (stringify (JArr [JObj [(''id'', JStr ''1'')]])) sample_browser)) = JArr [JObj [(''id'', JStr ''1'')]]
   \<and> workspace_view_of (\<lambda>_. []) initial_panel [JObj [(''id'', JStr ''1'')]] = None"
proof -
  let ?v = "JArr [JObj [(''id'', JStr ''1'')]]"
  have wf: "json_wf ?v" by simp
  have "stringify ?v \<noteq> []" using stringify_nonempty by (metis length_greater_0_conv)
  moreover have "local_get (local_put storage_key (stringify ?v) sample_browser) storage_key = Some (stringify ?v)"
    by (simp add: local.fetch_store)
  ultimately show ?thesis
    using bad_pin_breaks_every_page [OF _ parse_stringify [OF wf] _ wf,
        where v = "JObj [(''id'', JStr ''1'')]" and time = "\<lambda>_. []" and p = initial_panel]
    by simp
qed

end
