(* ===== verification/HubViews.thy ===== *)
theory HubViews
  imports IncidentHub
begin

text \<open>
  What \<open>pages/IncidentHub.tsx\<close> draws for a loaded case: the bar with its facts, the stages of the workflow, the four
  panels of the state, the cards of the modules, the operations, and the buttons of all of them with what they do.
  \<open>to_locale\<close> is \<open>toLocaleString\<close> of a date, \<open>r\<close> the stored role.
\<close>

section \<open>Buttons\<close>

record hub_button =
  hb_label :: string
  hb_disabled :: bool
  hb_action :: hub_io

definition goes :: "string \<Rightarrow> string \<Rightarrow> hub_button" where
  "goes l p = \<lparr>hb_label = l, hb_disabled = False, hb_action = Emit (Navigate p) Done\<rparr>"

definition press_hub :: "hub_button \<Rightarrow> hub_io" where
  "press_hub b = (if hb_disabled b then Done else hb_action b)"

definition header_buttons :: "jsval option \<Rightarrow> hub \<Rightarrow> hub_button list" where
  "header_buttons r s = goes ''BASE'' ''/dashboard'' # (if close_offered r s
     then [\<lparr>hb_label = ''CLOSE CASE'', hb_disabled = is_closing s, hb_action = handle_close_incident\<rparr>] else [])"

definition activate_button :: "hub \<Rightarrow> hub_button list" where
  "activate_button s = (if activate_offered s
     then [\<lparr>hb_label = ''ACTIVATE ANALYTICS'', hb_disabled = is_starting s, hb_action = handle_start_processing\<rparr>] else [])"

definition operation_buttons :: "hub \<Rightarrow> hub_button list" where
  "operation_buttons s = (let base = ''/incidents/'' @ hub_id s in
    [goes ''RECONFIGURE COLLECTION'' (base @ ''/setup''),
     goes ''CHAIN OF CUSTODY'' (''/chain-of-custody?incident_id='' @ hub_id s),
     goes ''HYPOTHESES'' (base @ ''/hypotheses''),
     goes ''LEGAL HOLD'' (base @ ''/legal-holds''),
     goes ''EXPORT / INTEGRATIONS'' (base @ ''/siem-export''),
     (goes ''GENERATE FINAL REPORT'' (base @ ''/report''))\<lparr>hb_disabled := \<not> proc_done s\<rparr>])"

section \<open>The workflow\<close>

record stage_view =
  sv_mark :: string
  sv_label :: string
  sv_detail :: string
  sv_style :: string
  sv_mark_style :: string
  sv_current :: bool

definition stage_style :: "string \<Rightarrow> string" where
  "stage_style st = (if st = ''done'' then ''border-green-500/40 bg-green-500/10 text-green-300''
     else if st = ''active'' then ''border-primary/60 bg-primary/10 text-primary''
     else if st = ''ready'' then ''border-primary/30 bg-card text-foreground hover:bg-primary/10''
     else if st = ''blocked'' then ''cursor-not-allowed border-border/50 bg-card/40 text-muted-foreground/60'' else [])"

definition stage_mark_style :: "string \<Rightarrow> string" where
  "stage_mark_style st = (if st = ''done'' then ''border-green-400 bg-green-500/20''
     else if st = ''active'' then ''border-primary animate-pulse'' else ''border-current/40'')"

definition stage_view_of :: "nat \<Rightarrow> workflow_stage \<Rightarrow> stage_view" where
  "stage_view_of i st = \<lparr>sv_mark = (if ws_state st = ''done'' then ''CheckCircle2'' else nat_str (i + 1)), sv_label = ws_label st,
     sv_detail = ws_detail st, sv_style = stage_style (ws_state st), sv_mark_style = stage_mark_style (ws_state st),
     sv_current = (ws_state st = ''active'')\<rparr>"

definition stage_button :: "workflow_stage \<Rightarrow> hub_button" where
  "stage_button st = \<lparr>hb_label = ws_label st, hb_disabled = (ws_state st = ''blocked''), hb_action = stage_clicked st\<rparr>"

section \<open>The cards\<close>

datatype card_preview = NoPreview | LateralCount string | Severities "(string \<times> string option) list"

record action_card =
  ac_title :: string
  ac_text :: string
  ac_badge :: "string option"
  ac_status :: string
  ac_highlight :: bool
  ac_target :: string
  ac_preview :: card_preview

definition card_icon_style :: "bool \<Rightarrow> string \<Rightarrow> string" where
  "card_icon_style highlight status = (if highlight then ''bg-primary text-primary-foreground''
     else if status = ''warning'' then ''bg-red-500/20 text-red-400''
     else ''bg-secondary/80 text-muted-foreground group-hover:text-foreground'')"

definition card_title_style :: "bool \<Rightarrow> string \<Rightarrow> string" where
  "card_title_style highlight status = (if highlight then ''text-primary'' else if status = ''warning'' then ''text-red-400''
     else if status = ''unavailable'' then ''text-muted-foreground'' else ''text-foreground'')"

definition plain_card :: "string \<Rightarrow> string \<Rightarrow> string \<Rightarrow> string \<Rightarrow> action_card" where
  "plain_card t status txt target = \<lparr>ac_title = t, ac_text = txt, ac_badge = None, ac_status = status, ac_highlight = False,
     ac_target = target, ac_preview = NoPreview\<rparr>"

definition lateral_preview :: "hub \<Rightarrow> card_preview" where
  "lateral_preview s = (if st_done s \<and> 0 < length (q_lateral s)
     then LateralCount (nat_str (length (q_lateral s)) @ '' LATERAL MOVEMENTS'') else NoPreview)"

text \<open>The badges of the preview are drawn with their icon only.\<close>

definition sigma_preview :: "hub \<Rightarrow> card_preview" where
  "sigma_preview s = (case q_sigma s of Some (Some x) \<Rightarrow>
       (if 0 < ss_total x then Severities (map (\<lambda>(k, n). severity_badge k (int_str n) True) (severity_preview x)) else NoPreview)
     | _ \<Rightarrow> NoPreview)"

definition action_cards :: "hub \<Rightarrow> action_card list" where
  "action_cards s = (let base = ''/incidents/'' @ hub_id s; done = (\<lambda>b. if b then ''ready'' else ''unavailable'') in
    [(plain_card ''Super Timeline'' (if st_done s then ''ready'' else if st_active s then ''pending'' else ''unavailable'')
        ''Unified artifact-driven timeline across all targets.'' (base @ ''/super-timeline''))
        \<lparr>ac_highlight := st_done s, ac_badge := (if st_done s then Some ''READY'' else None), ac_preview := lateral_preview s\<rparr>,
     (plain_card ''Sigma Detections'' (done (proc_done s)) ''Rule-based threat hunting on Windows Event Logs.'' (base @ ''/sigma-hits''))
        \<lparr>ac_preview := sigma_preview s\<rparr>,
     plain_card ''Processing Logs'' (if proc_active s then ''pending'' else done (collection_done s))
        ''Diagnostics for the artifact parsing pipeline.'' (base @ ''/processing''),
     plain_card ''File Explorer'' (done (collection_done s)) ''Browse raw artifacts and forensic evidence.'' (''/evidence/'' @ hub_id s),
     plain_card ''IOCs'' (done (proc_done s)) ''Network & Hash Hits'' (base @ ''/ioc-matches''),
     plain_card ''YARA'' (done (proc_done s)) ''Malware Scanning'' (base @ ''/yara-matches''),
     plain_card ''AI Insight'' (done (proc_done s)) ''LLM Reasoning'' (base @ ''/ai-analysis''),
     plain_card ''Att&ck'' (done (proc_done s)) ''Kill Chain View'' (base @ ''/attack-chains'')])"

definition card_button :: "action_card \<Rightarrow> hub_button" where
  "card_button c = (goes (ac_title c) (ac_target c))\<lparr>hb_disabled := card_disabled (ac_status c) False\<rparr>"

section \<open>The page\<close>

text \<open>The bar under the header; an empty assignee or priority is not drawn.\<close>

definition case_facts :: "hub_incident \<Rightarrow> string list" where
  "case_facts i = [''OPERATOR: '' @ hi_operator i, ''TARGETS: '' @ nat_str (length (hi_targets i))]
     @ (case hi_assignee i of Some a \<Rightarrow> (if a \<noteq> [] then [''ASSIGNEE: '' @ a] else []) | None \<Rightarrow> [])
     @ (case hi_priority i of Some p \<Rightarrow> (if p \<noteq> [] then [p] else []) | None \<Rightarrow> [])"

text \<open>The four panels: the badge of the collection with its progress (and whether the bar pulses); the badge of the
  processing with its phase; the badge of the evidence with its number and size; the detections.\<close>

definition collection_panel :: "hub_incident \<Rightarrow> (string \<times> string option) \<times> string \<times> bool" where
  "collection_panel i = (status_badge (hi_status i) [] False, int_str (hi_progress i) @ ''%'', hi_status i = ''COLLECTION_IN_PROGRESS'')"

definition parsing_panel :: "hub \<Rightarrow> (string \<times> string option) \<times> string option" where
  "parsing_panel s = (status_badge (case job_status s of Some x \<Rightarrow> x | None \<Rightarrow> ''IDLE'') [] False,
     if proc_active s then Some (''PHASE: '' @ (case q_job s of Some (Some j) \<Rightarrow>
       (case hj_phase j of Some p \<Rightarrow> to_upper p | None \<Rightarrow> ''INITIALIZING'') | _ \<Rightarrow> ''INITIALIZING'')) else None)"

definition vault_panel :: "hub \<Rightarrow> (string \<times> string) \<times> string \<times> string" where
  "vault_panel s = (case hub_folder s of
       Some f \<Rightarrow> (integrity_badge (ef_status f) [], int_str (ef_files f), ef_size f)
     | None \<Rightarrow> (integrity_badge ''PENDING'' [], ''0'', em_dash))"

definition threat_panel :: "hub \<Rightarrow> (string \<times> (string \<times> rat \<times> string) list option) option" where
  "threat_panel s = (case q_sigma s of Some (Some x) \<Rightarrow> Some (int_str (ss_total x), detection_heatmap (ss_counts x)) | _ \<Rightarrow> None)"

record hub_page =
  hp_title :: string
  hp_subtitle :: string
  hp_facts :: "string list"
  hp_stages :: "stage_view list"
  hp_collection :: "(string \<times> string option) \<times> string \<times> bool"
  hp_parsing :: "(string \<times> string option) \<times> string option"
  hp_vault :: "(string \<times> string) \<times> string \<times> string"
  hp_threat :: "(string \<times> (string \<times> rat \<times> string) list option) option"
  hp_cards :: "action_card list"
  hp_open_tasks :: nat
  hp_timeline :: "(bool \<times> string \<times> string) list"

definition hub_page_of :: "(string \<Rightarrow> string) \<Rightarrow> hub \<Rightarrow> hub_incident \<Rightarrow> hub_page" where
  "hub_page_of to_locale s i = \<lparr>hp_title = hi_id i, hp_subtitle = hub_subtitle i, hp_facts = case_facts i,
     hp_stages = map (\<lambda>(k, st). stage_view_of k st) (enumerate 0 (workflow_stages s)),
     hp_collection = collection_panel i, hp_parsing = parsing_panel s, hp_vault = vault_panel s, hp_threat = threat_panel s,
     hp_cards = action_cards s, hp_open_tasks = open_tasks s, hp_timeline = case_timeline to_locale s i\<rparr>"

definition hub_buttons :: "jsval option \<Rightarrow> hub \<Rightarrow> hub_button list" where
  "hub_buttons r s = header_buttons r s @ [goes ''SETUP'' (''/incidents/'' @ hub_id s @ ''/setup'')]
     @ map stage_button (workflow_stages s) @ activate_button s @ map card_button (action_cards s)
     @ operation_buttons s @ [goes ''OPEN TASK WORKSPACE'' (''/incidents/'' @ hub_id s @ ''/tasks'')]"

text \<open>A case that could not be loaded has one button.\<close>

definition failed_page :: "hub \<Rightarrow> string \<times> hub_button" where
  "failed_page s = (''Incident '' @ hub_id s @ '' context could not be loaded.'', goes ''RETURN TO BASE'' ''/dashboard'')"

section \<open>Lemmas\<close>

lemma cards_are_modules: "map (\<lambda>c. (ac_title c, ac_status c, ac_target c)) (action_cards s) = module_cards s"
  by (simp add: action_cards_def module_cards_def Let_def plain_card_def)

lemma goes_requests [simp]:
  "requests_of srv yes (hb_action (goes l p)) w s = []"
  "hb_label (goes l p) = l" "hb_disabled (goes l p) = False"
  by (simp_all add: goes_def)

lemma goes_disabled_requests [simp]: "requests_of srv yes (press_hub ((goes l p)\<lparr>hb_disabled := d\<rparr>)) w s = []"
  by (simp add: press_hub_def goes_def)

lemma press_goes [simp]: "requests_of srv yes (press_hub (goes l p)) w s = []"
  by (simp add: press_hub_def)

lemma hub_close_requests:
  "rq \<in> set (requests_of srv yes handle_close_incident w s) \<Longrightarrow> rq = Request PATCH (''/incidents/'' @ hub_id s) (Some CloseCase)"
  by (auto simp: handle_close_incident_def io_simps split: if_splits sum.splits)

lemma stage_requests:
  assumes "st \<in> set (workflow_stages s)" and "rq \<in> set (requests_of srv yes (stage_clicked st) w s)"
  shows "rq = Request POST (''/processing/incident/'' @ hub_id s @ ''/trigger'') (Some EmptyHub) \<and> activate_offered s"
proof -
  have click: "ws_click st = StartProcessing"
    using assms(2) by (auto simp: stage_clicked_def split: if_splits stage_click.splits)
  have "StartProcessing \<in> set (map ws_click (workflow_stages s))"
    using assms(1) click by (metis image_eqI set_map)
  then have "activate_offered s" by (simp add: workflow_clicks activate_offered_def split: if_splits)
  then show ?thesis using assms(2) click by (auto simp: stage_clicked_def split: if_splits dest: hub_start_requests)
qed

section \<open>Theorems\<close>

text \<open>Of all buttons of the page only three can send a request: ACTIVATE ANALYTICS and the stage of the processing,
  which both send its trigger and only for a collected case without a job, and CLOSE CASE, which closes the case,
  only for an admin or operator and a case that is not closed.\<close>

theorem hub_buttons_safe:
  assumes "b \<in> set (hub_buttons r s)" and "rq \<in> set (requests_of srv yes (press_hub b) w s)"
  shows "(rq = Request POST (''/processing/incident/'' @ hub_id s @ ''/trigger'') (Some EmptyHub) \<and> no_job s \<and> collection_done s)
    \<or> (rq = Request PATCH (''/incidents/'' @ hub_id s) (Some CloseCase) \<and> incident_status s \<noteq> Some ''CLOSED''
       \<and> (r = Some (JStr ''admin'') \<or> r = Some (JStr ''operator'')))"
proof -
  consider (head) "b \<in> set (header_buttons r s)" | (stage) st where "st \<in> set (workflow_stages s)" "b = stage_button st"
    | (act) "b \<in> set (activate_button s)" | (nav) l p d where "b = (goes l p)\<lparr>hb_disabled := d\<rparr>" | (go) l p where "b = goes l p"
    using assms(1) by (fastforce simp: hub_buttons_def card_button_def operation_buttons_def Let_def)
  then show ?thesis
  proof cases
    case head
    then have "requests_of srv yes (press_hub b) w s \<noteq> [] \<Longrightarrow> close_offered r s \<and> press_hub b = handle_close_incident"
      by (auto simp: header_buttons_def press_hub_def goes_def split: if_splits)
    then have "close_offered r s" "rq \<in> set (requests_of srv yes handle_close_incident w s)" using assms(2) by fastforce+
    then show ?thesis using hub_close_requests [of rq srv yes w s] by (simp add: close_offered_def)
  next
    case stage
    then show ?thesis using assms(2) stage_requests [of st s rq srv yes w]
      by (auto simp: stage_button_def press_hub_def activate_offered_def split: if_splits)
  next
    case act
    then have "requests_of srv yes (press_hub b) w s \<noteq> [] \<Longrightarrow> activate_offered s \<and> press_hub b = handle_start_processing"
      by (auto simp: activate_button_def press_hub_def split: if_splits)
    then have "activate_offered s" "rq \<in> set (requests_of srv yes handle_start_processing w s)" using assms(2) by fastforce+
    then show ?thesis using hub_start_requests [of rq srv yes w s] by (simp add: activate_offered_def)
  qed (use assms(2) in simp_all)
qed

definition sample_incident_of :: "string \<Rightarrow> hub_incident" where
  "sample_incident_of st = (the (the (q_incident sample_hub)))\<lparr>hi_status := st\<rparr>"

definition sample_job :: "string \<Rightarrow> hub_job" where
  "sample_job st = \<lparr>hj_id = ''1'', hj_incident = ''INC-1'', hj_job = ''J'', hj_status = st, hj_phase = None, hj_started = None,
     hj_completed = None, hj_error = None, hj_created = ''c''\<rparr>"

lemma hub_buttons_safe_witness:
  "\<exists>b \<in> set (hub_buttons None sample_hub). \<exists>rq \<in> set (requests_of (stateless (\<lambda>_. Inr HDone)) True (press_hub b) () sample_hub).
     rq = Request POST ''/processing/incident/INC-1/trigger'' (Some EmptyHub)"
proof -
  let ?b = "hd (activate_button sample_hub)"
  let ?rs = "requests_of (stateless (\<lambda>_. Inr HDone)) True (press_hub ?b) () sample_hub"
  have a: "activate_button sample_hub = [?b]"
    by (simp add: activate_button_def sample_hub_def initial_hub_def activate_offered_def no_job_def collection_done_def incident_status_def)
  then have "?b \<in> set (activate_button sample_hub)" by (metis list.set_intros(1))
  then have b: "?b \<in> set (hub_buttons None sample_hub)" by (simp add: hub_buttons_def)
  have "?rs \<noteq> []"
    by (simp add: activate_button_def sample_hub_def initial_hub_def activate_offered_def no_job_def collection_done_def
        incident_status_def press_hub_def handle_start_processing_def io_simps stateless_def)
  then have rq: "hd ?rs \<in> set ?rs" by simp
  have "hd ?rs = Request POST ''/processing/incident/INC-1/trigger'' (Some EmptyHub)"
    using hub_buttons_safe [OF b rq] by (simp add: sample_hub_def initial_hub_def)
  with b rq show ?thesis by blast
qed

text \<open>A timeline that was not built, or whose building failed, can be opened from the workflow once the case is
  processed, while its card says that it is not available and does nothing.\<close>

theorem timeline_card_closed:
  assumes "proc_done s" and "\<not> st_done s" and "\<not> st_active s"
  shows "effects_of srv yes (press_hub (stage_button (workflow_stages s ! 2))) w s = [Navigate (''/incidents/'' @ hub_id s @ ''/super-timeline'')]
    \<and> ac_target (action_cards s ! 0) = ''/incidents/'' @ hub_id s @ ''/super-timeline''
    \<and> effects_of srv yes (press_hub (card_button (action_cards s ! 0))) w s = []"
  using assms
  by (simp add: workflow_stages_def stage_def Let_def stage_button_def press_hub_def stage_clicked_def action_cards_def
      plain_card_def card_button_def goes_def card_disabled_def)

lemma timeline_card_closed_witness:
  "effects_of (stateless (\<lambda>_. Inr HDone)) True (press_hub (stage_button (workflow_stages (sample_hub\<lparr>q_job := Some (Some (sample_job ''DONE''))\<rparr>) ! 2)))
     () (sample_hub\<lparr>q_job := Some (Some (sample_job ''DONE''))\<rparr>) = [Navigate ''/incidents/INC-1/super-timeline'']"
  using timeline_card_closed [of "sample_hub\<lparr>q_job := Some (Some (sample_job ''DONE''))\<rparr>" "stateless (\<lambda>_. Inr HDone)" True "()"]
  by (simp add: sample_hub_def initial_hub_def sample_job_def proc_done_def job_status_def st_done_def st_active_def timeline_status_def)

text \<open>The badges know none of the states in which a collection or a processing ends: a case whose collection is
  complete, failed or closed and whose processing is done or partial is drawn in the colours of a pending one.\<close>

theorem end_states_look_pending:
  assumes "hi_status i \<in> {''COLLECTION_COMPLETE'', ''COLLECTION_FAILED'', ''CLOSED''}" and "proc_done s"
  shows "fst (fst (collection_panel i)) = fst (status_badge ''PENDING'' [] False)
    \<and> fst (fst (parsing_panel s)) = fst (status_badge ''PENDING'' [] False)"
proof -
  have s: "fst (status_badge st [] False) = fst (status_badge ''PENDING'' [] False)"
    if "st \<in> {''COLLECTION_COMPLETE'', ''COLLECTION_FAILED'', ''CLOSED'', ''DONE'', ''PARTIAL''}" for st
    using that by (auto simp: status_badge_def style_or_def status_badge_styles_def char_eval)
  have "job_status s \<in> {Some ''DONE'', Some ''PARTIAL''}" using assms(2) by (simp add: proc_done_def)
  then show ?thesis using assms(1) by (auto simp: collection_panel_def parsing_panel_def s)
qed

lemma end_states_look_pending_witness:
  "fst (fst (collection_panel (sample_incident_of ''COLLECTION_FAILED''))) = fst (status_badge ''PENDING'' [] False)"
  using end_states_look_pending [of "sample_incident_of ''COLLECTION_FAILED''" "sample_hub\<lparr>q_job := Some (Some (sample_job ''PARTIAL''))\<rparr>"]
  by (simp add: sample_incident_of_def sample_job_def proc_done_def job_status_def)

text \<open>The preview of the detections hands the counts to badges that draw their icon only: cases with the same
  severities look the same there, however many detections they have.\<close>

theorem preview_hides_counts:
  assumes "q_sigma s = Some (Some x)" and "0 < ss_total x" and "ss_counts x = map (\<lambda>k. (k, c k)) ks" and "\<forall>k \<in> set ks. 0 < c k"
  shows "sigma_preview s = Severities (map (\<lambda>k. severity_badge k [] True) (take 3 ks))"
proof -
  have "severity_preview x = map (\<lambda>k. (k, c k)) (take 3 ks)"
    using assms(3,4) by (simp add: severity_preview_def filter_map comp_def take_map cong: filter_cong)
  then show ?thesis using assms(1,2) by (simp add: sigma_preview_def severity_badge_def comp_def)
qed

lemma preview_hides_counts_witness:
  "sigma_preview (sample_hub\<lparr>q_sigma := Some (Some \<lparr>ss_total = 41, ss_counts = [(''high'', 40), (''low'', 1)]\<rparr>)\<rparr>)
   = Severities [severity_badge ''high'' [] True, severity_badge ''low'' [] True]"
  using preview_hides_counts [of "sample_hub\<lparr>q_sigma := Some (Some \<lparr>ss_total = 41, ss_counts = [(''high'', 40), (''low'', 1)]\<rparr>)\<rparr>"
      "\<lparr>ss_total = 41, ss_counts = [(''high'', 40), (''low'', 1)]\<rparr>" "\<lambda>k. if k = ''high'' then 40 else 1" "[''high'', ''low'']"]
  by simp

text \<open>A start that fails leaves the page as it was: the message it keeps is drawn nowhere, and but for its request
  it has no effect, no notice for example.\<close>

theorem failed_start_silent:
  assumes "\<not> is_starting s"
  shows "hub_page_of f (final_state (stateless (\<lambda>_. Inl err)) yes handle_start_processing w s) i = hub_page_of f s i
    \<and> list_all is_request (effects_of (stateless (\<lambda>_. Inl err)) yes handle_start_processing w s)"
proof -
  have p: "hub_page_of f (s\<lparr>proc_start_error := e, is_starting := b\<rparr>) i = hub_page_of f s i" for b e
    by (simp add: hub_page_of_def workflow_stages_def parsing_panel_def vault_panel_def threat_panel_def action_cards_def
        open_tasks_def case_timeline_def collection_done_def incident_status_def proc_done_def job_status_def proc_active_def
        no_job_def st_done_def timeline_status_def st_active_def hub_folder_def lateral_preview_def sigma_preview_def Let_def)
  show ?thesis
  proof (cases "hub_id s = []")
    case True
    then show ?thesis by (simp add: handle_start_processing_def)
  next
    case False
    then show ?thesis using assms p [where b = False and e = "Some (message_or ''Activation failed'' err)"]
      by (simp add: handle_start_processing_def io_simps stateless_def is_request_def)
  qed
qed

lemma failed_start_silent_witness:
  "hub_page_of (\<lambda>t. t) (final_state (stateless (\<lambda>_. Inl type_error)) True handle_start_processing () sample_hub) i
   = hub_page_of (\<lambda>t. t) sample_hub i"
  using failed_start_silent [of sample_hub "\<lambda>t. t" type_error True "()" i] by (simp add: sample_hub_def initial_hub_def)

end
