(* ===== verification/HuntViews.thy ===== *)
theory HuntViews
  imports Hunting Assistant Requests
begin

text \<open>
  What \<open>pages/ThreatHuntLibrary.tsx\<close> and \<open>AIAnalysis.tsx\<close> draw, and the events of their controls, each taken only where
  its control is drawn and enabled.  The contract \<open>component_requests\<close> is interpreted on the library of queries: what it
  may send, for each role.
\<close>

section \<open>The library of hunt queries\<close>

record hunt_card =
  hv_name :: string
  hv_category :: string
  hv_technique :: "string option"
  hv_run :: "string \<times> bool"
  hv_edit_buttons :: bool
  hv_description :: "string option"
  hv_query :: string
  hv_tags :: "string list"

definition filled :: "string option \<Rightarrow> string option" where
  "filled v = (if or_text v [] = [] then None else v)"

definition hunt_card_of :: "string option \<Rightarrow> hunt_page \<Rightarrow> hunt_query \<Rightarrow> hunt_card" where
  "hunt_card_of role s q = \<lparr>hv_name = hq_name q, hv_category = hq_category q, hv_technique = filled (hq_technique q),
     hv_run = run_button s q, hv_edit_buttons = can_edit role, hv_description = filled (hq_description q),
     hv_query = query_preview q, hv_tags = hq_tags q\<rparr>"

datatype hunt_list = HuntsLoading string | NoHunts string | Hunts "hunt_card list"

datatype hunt_results = NoMatch string | ResultTable "string list" "string list list"

record hunt_view =
  hw_filter :: "string \<times> (string \<times> string) list"
  hw_incident :: "string \<times> (string \<times> string) list"
  hw_new_button :: bool
  hw_form :: "(string \<times> hunt_form \<times> string list \<times> (string \<times> bool)) option"
  hw_results :: "(string \<times> hunt_results) option"
  hw_title :: string
  hw_list :: hunt_list

definition hunt_view_of :: "string option \<Rightarrow> bool \<Rightarrow> bool \<Rightarrow> (string \<times> string) list \<Rightarrow> hunt_query list \<Rightarrow> hunt_page \<Rightarrow> hunt_view" where
  "hunt_view_of role saving loading incs qs s = \<lparr>
     hw_filter = (hp_filter s, ([], ''ALL CATEGORIES'') # map (\<lambda>c. (c, to_upper c)) hunt_categories),
     hw_incident = (hp_incident s, ([], em_dash @ '' Select incident '' @ em_dash) #
       map (\<lambda>(i, ty). (i, i @ '' '' @ em_dash @ '' '' @ ty)) incs),
     hw_new_button = can_edit role,
     hw_form = (if hp_show_form s then Some (hunt_form_title s, hp_form s, hunt_categories,
       if saving then ''SAVING...'' else ''SAVE'', \<not> hunt_save_enabled saving s) else None),
     hw_results = map_option (\<lambda>r. (case results_table r of (title, cols, rows) \<Rightarrow>
       (title, if rr_rows r = [] then NoMatch ''No results matching query.'' else ResultTable cols rows))) (hp_results s),
     hw_title = ''QUERY LIBRARY ('' @ nat_str (length qs) @ '')'',
     hw_list = (if loading then HuntsLoading ''LOADING...''
       else if qs = [] then NoHunts ''No queries in library. Add reusable DuckDB SQL queries to hunt across incident timelines.''
       else Hunts (map (hunt_card_of role s) qs))\<rparr>"

datatype hunt_event =
    PickFilter string | PickRunIncident string | NewHunt | TypeHuntName string | PickHuntCategory string | TypeHuntQuery string
  | TypeHuntSigma string | TypeHuntTechnique string | TypeHuntTags string | SaveHunt bool | CancelHunt
  | RunHunt hunt_query | EditHunt hunt_query | DeleteHunt hunt_query

definition set_hunt_form :: "(hunt_form \<Rightarrow> hunt_form) \<Rightarrow> hunt_page \<Rightarrow> hunt_page" where
  "set_hunt_form f s = s\<lparr>hp_form := f (hp_form s)\<rparr>"

definition typed_hunt :: "(hunt_form \<Rightarrow> hunt_form) \<Rightarrow> hunt_page \<Rightarrow> hunt_io" where
  "typed_hunt f s = (if hp_show_form s then Update (set_hunt_form f) Done else Done)"

fun hunt_handler :: "(string \<Rightarrow> string) \<Rightarrow> string option \<Rightarrow> (string \<times> string) list \<Rightarrow> hunt_query list \<Rightarrow> hunt_event \<Rightarrow> hunt_page \<Rightarrow> hunt_io" where
  "hunt_handler enc role incs qs (PickFilter v) s = (if v \<in> set ([] # hunt_categories) then Update (\<lambda>s. s\<lparr>hp_filter := v\<rparr>) Done else Done)"
| "hunt_handler enc role incs qs (PickRunIncident v) s =
     (if v \<in> set ([] # map fst incs) then Update (\<lambda>s. s\<lparr>hp_incident := v\<rparr>) Done else Done)"
| "hunt_handler enc role incs qs NewHunt s = (if can_edit role then Update new_hunt Done else Done)"
| "hunt_handler enc role incs qs (TypeHuntName t) s = typed_hunt (\<lambda>f. f\<lparr>qf_name := t\<rparr>) s"
| "hunt_handler enc role incs qs (PickHuntCategory t) s = (if t \<in> set hunt_categories then typed_hunt (\<lambda>f. f\<lparr>qf_category := t\<rparr>) s else Done)"
| "hunt_handler enc role incs qs (TypeHuntQuery t) s = typed_hunt (\<lambda>f. f\<lparr>qf_query := t\<rparr>) s"
| "hunt_handler enc role incs qs (TypeHuntSigma t) s = typed_hunt (\<lambda>f. f\<lparr>qf_sigma := t\<rparr>) s"
| "hunt_handler enc role incs qs (TypeHuntTechnique t) s = typed_hunt (\<lambda>f. f\<lparr>qf_technique := t\<rparr>) s"
| "hunt_handler enc role incs qs (TypeHuntTags t) s = typed_hunt (\<lambda>f. f\<lparr>qf_tags := t\<rparr>) s"
| "hunt_handler enc role incs qs (SaveHunt saving) s = (if hp_show_form s \<and> hunt_save_enabled saving s then save_hunt else Done)"
| "hunt_handler enc role incs qs CancelHunt s = (if hp_show_form s then Update reset_hunt_form Done else Done)"
| "hunt_handler enc role incs qs (RunHunt q) s = (if q \<in> set qs \<and> snd (run_button s q) then run_hunt enc (hq_id q) else Done)"
| "hunt_handler enc role incs qs (EditHunt q) s = (if q \<in> set qs \<and> can_edit role then Update (edit_hunt q) Done else Done)"
| "hunt_handler enc role incs qs (DeleteHunt q) s = (if q \<in> set qs \<and> can_edit role then delete_hunt (hq_id q) else Done)"

subsection \<open>What the page may send\<close>

definition edits_public :: "hunt_query list \<Rightarrow> hunt_page \<Rightarrow> bool" where
  "edits_public qs s \<longleftrightarrow> (case hp_edit s of None \<Rightarrow> qf_public (hp_form s)
     | Some i \<Rightarrow> \<exists>q \<in> set qs. hq_id q = i \<and> qf_public (hp_form s) = hq_public q)"

definition hunt_inv :: "string option \<Rightarrow> hunt_query list \<Rightarrow> hunt_page \<Rightarrow> bool" where
  "hunt_inv role qs s \<longleftrightarrow> (hp_show_form s \<longrightarrow> can_edit role) \<and> edits_public qs s"

definition hunt_run_request :: "(string \<Rightarrow> string) \<Rightarrow> string \<Rightarrow> string \<Rightarrow> hunt_payload request" where
  "hunt_run_request enc i incident =
     Request POST (''/platform/threat-hunt-queries/'' @ i @ ''/run?incident_id='' @ enc incident) (Some NoFields)"

definition hunt_save_ok :: "hunt_query list \<Rightarrow> hunt_payload request \<Rightarrow> hunt_body \<Rightarrow> bool" where
  "hunt_save_ok qs rq b \<longleftrightarrow> qb_name b \<noteq> [] \<and> qb_query b \<noteq> [] \<and>
     (req_method rq = POST \<and> qb_public b
      \<or> (\<exists>q \<in> set qs. qb_public b = hq_public q
           \<and> (hq_id q = [] \<or> req_method rq = PATCH \<and> req_path rq = ''/platform/threat-hunt-queries/'' @ hq_id q)))"

definition hunt_request_ok :: "(string \<Rightarrow> string) \<Rightarrow> string option \<Rightarrow> hunt_query list \<Rightarrow> hunt_payload request \<Rightarrow> bool" where
  "hunt_request_ok enc role qs rq \<longleftrightarrow>
     (\<exists>q \<in> set qs. \<exists>incident. incident \<noteq> [] \<and> rq = hunt_run_request enc (hq_id q) incident)
     \<or> can_edit role \<and> (\<forall>b. req_body rq = Some (QueryBody b) \<longrightarrow> hunt_save_ok qs rq b)"

lemma hunt_inv_fields [simp]:
  "hunt_inv role qs (s\<lparr>hp_filter := v\<rparr>) = hunt_inv role qs s" "hunt_inv role qs (s\<lparr>hp_incident := v\<rparr>) = hunt_inv role qs s"
  "hunt_inv role qs (s\<lparr>hp_running := r\<rparr>) = hunt_inv role qs s" "hunt_inv role qs (s\<lparr>hp_results := x\<rparr>) = hunt_inv role qs s"
  by (auto simp: hunt_inv_def edits_public_def split: option.split)

lemma reset_hunt_inv [simp]: "hunt_inv role qs (reset_hunt_form s)"
  by (simp add: hunt_inv_def edits_public_def reset_hunt_form_def blank_hunt_form_def)

lemma new_hunt_inv: "can_edit role \<Longrightarrow> hunt_inv role qs (new_hunt s)"
  by (simp add: hunt_inv_def edits_public_def new_hunt_def reset_hunt_form_def blank_hunt_form_def)

lemma edit_hunt_inv: "can_edit role \<Longrightarrow> q \<in> set qs \<Longrightarrow> hunt_inv role qs (edit_hunt q s)"
  by (auto simp: hunt_inv_def edits_public_def edit_hunt_def)

lemma typed_hunt_contract:
  "hunt_inv role qs s \<Longrightarrow> \<forall>f. qf_public (h f) = qf_public f \<Longrightarrow>
   keeps (hunt_inv role qs) (typed_hunt h s) s \<and> asks (hunt_inv role qs) A (typed_hunt h s) s"
  by (simp add: typed_hunt_def set_hunt_form_def hunt_inv_def edits_public_def split: option.splits)

lemma run_request_ok:
  "q \<in> set qs \<Longrightarrow> incident \<noteq> [] \<Longrightarrow>
   hunt_request_ok enc role qs (Request POST (''/platform/threat-hunt-queries/'' @ hq_id q @ ''/run?incident_id='' @ enc incident) (Some NoFields))"
  unfolding hunt_request_ok_def hunt_run_request_def by blast

lemma run_hunt_contract:
  assumes "hunt_inv role qs s" and "q \<in> set qs"
  shows "keeps (hunt_inv role qs) (run_hunt enc (hq_id q)) s
    \<and> asks (hunt_inv role qs) (hunt_request_ok enc role qs) (run_hunt enc (hq_id q)) s"
  using assms unfolding run_hunt_def keeps.simps asks.simps
  by (auto simp del: append.simps intro!: keeps_tryFinally keeps_tryCatch asks_tryFinally asks_tryCatch run_request_ok split: option.split)

lemma save_request_ok:
  assumes "hunt_inv role qs s" and "hp_show_form s" and "hunt_save_enabled saving s"
  shows "hunt_request_ok enc role qs (save_hunt_request s)"
  using assms
  by (cases "hp_edit s")
    (auto simp: hunt_request_ok_def hunt_inv_def hunt_save_ok_def save_hunt_request_def hunt_save_body_def hunt_save_enabled_def
      edits_public_def or_text_def Let_def split: if_splits)

lemma save_hunt_contract:
  assumes "hunt_inv role qs s" and "hp_show_form s" and "hunt_save_enabled saving s"
  shows "keeps (hunt_inv role qs) save_hunt s \<and> asks (hunt_inv role qs) (hunt_request_ok enc role qs) save_hunt s"
  using assms save_request_ok [OF assms] unfolding save_hunt_def keeps.simps asks.simps
  by (auto intro!: keeps_tryCatch asks_tryCatch)

lemma delete_hunt_contract:
  assumes "hunt_inv role qs s" and "can_edit role"
  shows "keeps (hunt_inv role qs) (delete_hunt i) s \<and> asks (hunt_inv role qs) (hunt_request_ok enc role qs) (delete_hunt i) s"
  using assms unfolding delete_hunt_def
  by (auto intro!: keeps_tryCatch asks_tryCatch simp: hunt_request_ok_def)

lemma hunt_handler_contract:
  "hunt_inv role qs s \<Longrightarrow> keeps (hunt_inv role qs) (hunt_handler enc role incs qs e s) s
   \<and> asks (hunt_inv role qs) (hunt_request_ok enc role qs) (hunt_handler enc role incs qs e s) s"
  by (cases e) (auto simp: typed_hunt_contract run_hunt_contract save_hunt_contract delete_hunt_contract new_hunt_inv edit_hunt_inv)

interpretation hunts: component_requests "hunt_handler enc role incs qs" "initial_hunt i" "hunt_inv role qs"
    "hunt_request_ok enc role qs" for enc role incs qs i
  by unfold_locales (auto simp: hunt_handler_contract,
    simp add: hunt_inv_def edits_public_def initial_hunt_def blank_hunt_form_def)

section \<open>The AI analysis\<close>

record annotate_view =
  av_events :: string
  av_run :: "string \<times> bool"
  av_export :: "string option"
  av_error :: "(string \<times> string) option"
  av_results :: "(string \<times> (string \<times> string \<times> (string \<times> string) option \<times> string option list) list) option"

definition llm_error_of :: "string option \<Rightarrow> (string \<times> string) option" where
  "llm_error_of e = (if or_text e [] = [] then None else Some (llm_error (or_text e [])))"

definition annotate_view_of :: "annotate_tab \<Rightarrow> annotate_view" where
  "annotate_view_of s = \<lparr>av_events = at_events s,
     av_run = (if at_loading s then ''PROCESSING...'' else ''RUN ANNOTATOR'', \<not> annotate_enabled s),
     av_export = (if at_result s = None then None else Some (if at_copied s then ''Check'' else ''Copy'')),
     av_error = llm_error_of (at_error s),
     av_results = map_option (\<lambda>xs. (''Enrichment Results ('' @ nat_str (length xs) @ '')'',
       map (\<lambda>(i, a). (''['' @ nat_str (i + 1) @ '']'', annotation_card i a)) (enumerate 0 xs))) (at_result s)\<rparr>"

record summary_screen =
  sy_generate :: "string \<times> bool"
  sy_copy :: "string option"
  sy_error :: "(string \<times> string) option"
  sy_report :: "((string \<times> string option) option \<times> string list) option"

definition summary_screen_of :: "summary_tab \<Rightarrow> summary_screen" where
  "summary_screen_of s = \<lparr>sy_generate = (if su_loading s then ''ANALYZING...'' else ''GENERATE SUMMARY'', su_loading s),
     sy_copy = (if or_text (su_text s) [] = [] then None else Some (if su_copied s then ''Check'' else ''Copy'')),
     sy_error = llm_error_of (su_error s),
     sy_report = map_option (\<lambda>(agent, ps). (map_option (\<lambda>(m, n). (''Agent: '' @ m, map_option (\<lambda>k. int_str k @ '' Events Analysed'') n)) agent, ps))
       (summary_view s)\<rparr>"

text \<open>Copying the report: what the clipboard gets, and the tick.\<close>

definition copy_report :: "summary_tab \<Rightarrow> summary_tab \<times> string option" where
  "copy_report s = (if or_text (su_text s) [] = [] then (s, None) else (s\<lparr>su_copied := True\<rparr>, Some (or_text (su_text s) [])))"

definition report_tick_ends :: "summary_tab \<Rightarrow> summary_tab" where
  "report_tick_ends s = s\<lparr>su_copied := False\<rparr>"

record query_view =
  qv_suggestions :: "string list option"
  qv_talk :: "(string \<times> string \<times> string) list"
  qv_busy :: "string option"
  qv_error :: "(string \<times> string) option"
  qv_input :: "string \<times> bool"
  qv_clear :: bool
  qv_ask_disabled :: bool

definition talk_of :: "answered_question \<Rightarrow> string \<times> string \<times> string" where
  "talk_of h = (aq_question h, aq_model h @ '' '' @ [CHR 0xC2, CHR 0xB7] @ '' '' @ int_str (aq_events h) @ '' ctx events'', aq_answer h)"

definition query_view_of :: "query_tab \<Rightarrow> query_view" where
  "query_view_of s = \<lparr>qv_suggestions = (if suggestions_shown s then Some suggested_questions else None),
     qv_talk = map talk_of (qt_history s), qv_busy = (if qt_loading s then Some ''Processing Incident Context...'' else None),
     qv_error = llm_error_of (qt_error s), qv_input = (qt_question s, qt_loading s), qv_clear = (qt_history s \<noteq> []),
     qv_ask_disabled = (\<not> ask_enabled s)\<rparr>"

datatype ai_panel = AnnotatePanel annotate_view | SummaryPanel summary_screen | QueryPanel query_view

record ai_view =
  iv_subtitle :: string
  iv_back :: string
  iv_engine :: string
  iv_tabs :: "(string \<times> bool) list"
  iv_desc :: "string option"
  iv_panel :: "ai_panel option"

definition ai_view_of :: "string option \<Rightarrow> ai_page \<Rightarrow> ai_view" where
  "ai_view_of i p = \<lparr>iv_subtitle = ''SECTOR: '' @ (case i of Some x \<Rightarrow> x | None \<Rightarrow> ''UNKNOWN''),
     iv_back = ''/incidents/'' @ (case i of Some x \<Rightarrow> x | None \<Rightarrow> ''undefined''),
     iv_engine = ''Cognitive Reasoning Engine: ONLINE'',
     iv_tabs = map (\<lambda>(t, label, desc). (label, ai_active p = t)) ai_tabs,
     iv_desc = map_option snd (map_of ai_tabs (ai_active p)),
     iv_panel = (if or_text i [] = [] then None else Some (case ai_active p of
         AnnotateTab \<Rightarrow> AnnotatePanel (annotate_view_of (ai_annotate p))
       | SummaryTab \<Rightarrow> SummaryPanel (summary_screen_of (ai_summary p))
       | QueryTab \<Rightarrow> QueryPanel (query_view_of (ai_query p))))\<rparr>"

datatype annotate_event = TypeEvents string | RunAnnotator

fun annotate_handler :: "(string \<Rightarrow> string) \<Rightarrow> annotate_event \<Rightarrow> annotate_tab \<Rightarrow> (annotate_tab, ai_reply, jsval, unit) io" where
  "annotate_handler syntax (TypeEvents t) s = Update (\<lambda>s. s\<lparr>at_events := t\<rparr>) Done"
| "annotate_handler syntax RunAnnotator s = (if annotate_enabled s then handle_annotate syntax else Done)"

definition generate_clicked :: "string \<Rightarrow> summary_tab \<Rightarrow> (summary_tab, ai_reply, jsval, unit) io" where
  "generate_clicked i s = (if su_loading s then Done else handle_generate i)"

section \<open>Theorems\<close>

text \<open>C40. What the library sends follows the role: an account that may not edit only runs the queries listed, against a case
  that is not blank; a query that is saved has a name and a text, and is public when it is new, else what it was: no
  control of the form makes a query private.\<close>

theorem hunt_requests_follow_role:
  assumes "reachable (hunt_handler enc role incs qs) (initial_hunt i) (s, pool)" and "Await rq g \<in> set pool"
  shows "(\<exists>q \<in> set qs. \<exists>incident. incident \<noteq> [] \<and> rq = hunt_run_request enc (hq_id q) incident)
     \<or> can_edit role \<and> (\<forall>b. req_body rq = Some (QueryBody b) \<longrightarrow> hunt_save_ok qs rq b)"
  using hunts.waiting_allowed [OF assms] by (simp add: hunt_request_ok_def)

definition sample_hunt :: "string \<Rightarrow> hunt_query" where
  "sample_hunt i = \<lparr>hq_id = i, hq_name = i, hq_description = None, hq_category = ''Other'', hq_query = ''SELECT 1'', hq_sigma = None,
     hq_tags = [], hq_technique = None, hq_public = False, hq_created_by = ''u'', hq_created_at = ''t''\<rparr>"

lemma run_waits:
  assumes "trim (hp_incident s) \<noteq> []"
  shows "\<exists>g. settle (run_hunt enc i) yes s = (s\<lparr>hp_running := Some i, hp_results := None\<rparr>,
      [Await (hunt_run_request enc i (trim (hp_incident s))) g])
    \<and> (\<forall>r s'. settle (g (Inr (Ran r))) yes s' = (s'\<lparr>hp_results := Some r, hp_running := None\<rparr>, []))
    \<and> (\<forall>e s'. settle (g (Inl e)) yes s' = (s'\<lparr>hp_running := None\<rparr>, []))"
  using assms by (auto simp: run_hunt_def call_def expect_def hunt_run_request_def)

lemma hunt_requests_follow_role_witness:
  "\<exists>rq g. Await rq g \<in> set (snd (settle (run_hunt id ''a'') True (initial_hunt (Some ''c'')))) \<and> rq = hunt_run_request id ''a'' ''c''"
proof -
  let ?s = "initial_hunt (Some ''c'')" and ?h = "hunt_handler id None [] [sample_hunt ''a'']"
  have t: "trim (hp_incident ?s) = ''c''" by (simp add: initial_hunt_def trim_def is_space_def)
  then have "trim (hp_incident ?s) \<noteq> []" by simp
  from run_waits [OF this, of id "''a''" True] t
  obtain s' g where st: "settle (run_hunt id ''a'') True ?s = (s', [Await (hunt_run_request id ''a'' ''c'') g])" by auto
  then have "settle (?h (RunHunt (sample_hunt ''a'')) ?s) True ?s = (s', [Await (hunt_run_request id ''a'' ''c'') g])"
    by (simp add: sample_hunt_def run_button_def initial_hunt_def)
  then have "reachable ?h ?s (s', [Await (hunt_run_request id ''a'' ''c'') g])"
    by (rule reach_waiting [OF reachable.initially])
  from hunt_requests_follow_role [OF this, of "hunt_run_request id ''a'' ''c''" g] show ?thesis using st by auto
qed

text \<open>Runs are not told apart: when the answer of one arrives while a later one waits, the rows shown are those of the
  first and the button of the second works again, so that it can be started a second time.\<close>

theorem late_run_frees_other:
  assumes "trim (hp_incident s) \<noteq> []" and "hq_id a \<noteq> hq_id b"
    and "settle (run_hunt enc (hq_id a)) yes s = (s1, [Await rq1 k1])"
    and "settle (run_hunt enc (hq_id b)) yes s1 = (s2, [Await rq2 k2])"
  shows "run_button s1 b = (''RUN'', True) \<and> run_button s2 b = (''...'', False)
    \<and> (let s3 = fst (settle (k1 (Inr (Ran r))) yes s2) in run_button s3 b = (''RUN'', True) \<and> hp_results s3 = Some r)"
proof -
  have "s1 = s\<lparr>hp_running := Some (hq_id a), hp_results := None\<rparr>" and k: "settle (k1 (Inr (Ran r))) yes s2 = (s2\<lparr>hp_results := Some r, hp_running := None\<rparr>, [])"
    using run_waits [OF assms(1), of enc "hq_id a" yes] assms(3) by auto
  moreover from this have "trim (hp_incident s1) \<noteq> []" using assms(1) by simp
  then have "s2 = s1\<lparr>hp_running := Some (hq_id b), hp_results := None\<rparr>"
    using run_waits [of s1 enc "hq_id b" yes] assms(4) by auto
  ultimately show ?thesis using assms(2) by (simp add: run_button_def)
qed

lemma late_run_frees_other_witness:
  "\<exists>s1 rq1 k1 s2 rq2 k2. settle (run_hunt id ''a'') True (initial_hunt (Some ''c'')) = (s1, [Await rq1 k1])
     \<and> settle (run_hunt id ''b'') True s1 = (s2, [Await rq2 k2]) \<and> run_button s2 (sample_hunt ''b'') = (''...'', False)"
proof -
  have t: "trim (hp_incident (initial_hunt (Some ''c''))) \<noteq> []" by (simp add: initial_hunt_def trim_def is_space_def)
  obtain s1 rq1 k1 where 1: "settle (run_hunt id ''a'') True (initial_hunt (Some ''c'')) = (s1, [Await rq1 k1])"
      and "trim (hp_incident s1) \<noteq> []"
    using run_waits [OF t, of id "''a''" True] t by auto
  then obtain s2 rq2 k2 where 2: "settle (run_hunt id ''b'') True s1 = (s2, [Await rq2 k2])"
    using run_waits [of s1 id "''b''" True] by auto
  show ?thesis
    using late_run_frees_other [OF t, of "sample_hunt ''a''" "sample_hunt ''b''" id True s1 rq1 k1 s2 rq2 k2] 1 2
    by (simp add: sample_hunt_def)
qed

text \<open>The table of a run: as long as every row has the columns of the first, each cell stands under its own column, and the
  first eight columns of the first fifty rows are shown.\<close>

theorem cells_under_their_columns:
  assumes "\<forall>row \<in> set (rr_rows r). map fst row = ks" and "distinct ks" and "rr_rows r \<noteq> []"
    and "n < min 50 (length (rr_rows r))" and "j < min 8 (length ks)"
  shows "case results_table r of (title, cols, rows) \<Rightarrow> cols ! j = ks ! j \<and> length rows = min 50 (length (rr_rows r))
    \<and> rows ! n ! j = string_or (map_of (rr_rows r ! n) (ks ! j)) []"
proof -
  obtain row0 rest where rows: "rr_rows r = row0 # rest" using assms(3) by (cases "rr_rows r") auto
  have "rr_rows r ! n \<in> set (rr_rows r)" using assms(4) by simp
  then have ks: "map fst (rr_rows r ! n) = ks" using assms(1) by blast
  have k0: "map fst row0 = ks" using assms(1) rows by simp
  have j: "j < length (rr_rows r ! n)" using ks assms(5) by (metis length_map min_less_iff_conj)
  then have "(rr_rows r ! n) ! j \<in> set (rr_rows r ! n)" by simp
  moreover have "fst ((rr_rows r ! n) ! j) = ks ! j" using ks j by (metis nth_map)
  moreover have "distinct (map fst (rr_rows r ! n))" using ks assms(2) by simp
  ultimately have "map_of (rr_rows r ! n) (ks ! j) = Some (snd ((rr_rows r ! n) ! j))"
    by (metis map_of_eq_Some_iff prod.collapse)
  moreover obtain t where "results_table r = (t, take 8 (map fst row0),
      map (\<lambda>row. take 8 (map (\<lambda>(k, v). string_or (Some v) []) row)) (take 50 (rr_rows r)))"
    by (simp add: results_table_def rows del: take_Cons_numeral)
  ultimately show ?thesis using assms(4,5) j k0 by (simp add: split_beta min.commute)
qed

lemma cells_under_their_columns_witness:
  "case results_table \<lparr>rr_query = ''q'', rr_incident = ''c'', rr_count = 1, rr_rows = [[(''a'', JStr ''x''), (''b'', JNull)]]\<rparr>
     of (title, cols, rows) \<Rightarrow> cols ! 0 = ''a'' \<and> rows ! 0 ! 0 = string_or (Some (JStr ''x'')) []"
  using cells_under_their_columns [of "\<lparr>rr_query = ''q'', rr_incident = ''c'', rr_count = 1, rr_rows = [[(''a'', JStr ''x''), (''b'', JNull)]]\<rparr>"
      "[''a'', ''b'']" 0 0]
  by (simp add: results_table_def)

text \<open>The annotator does not look at what it sends: any JSON is posted as the events, also one that is not an array.\<close>

theorem object_sent_as_events:
  assumes "\<not> at_loading s" and "trim (at_events s) \<noteq> []" and "parse_json (at_events s) = Some v"
  shows "\<exists>g. snd (settle (annotate_handler syntax RunAnnotator s) yes s)
    = [Await (Request POST ''/ai/annotate'' (Some (JObj [(''events'', v), (''max_events'', JNum 20)]))) g]"
  using assms by (simp add: annotate_enabled_def handle_annotate_def call_def)

lemma object_sent_as_events_witness:
  "\<exists>g. snd (settle (annotate_handler (\<lambda>t. t) RunAnnotator (initial_annotate\<lparr>at_events := pretty 0 (JStr ''x'')\<rparr>)) True
      (initial_annotate\<lparr>at_events := pretty 0 (JStr ''x'')\<rparr>))
    = [Await (Request POST ''/ai/annotate'' (Some (JObj [(''events'', JStr ''x''), (''max_events'', JNum 20)]))) g]"
proof (rule object_sent_as_events)
  show "parse_json (at_events (initial_annotate\<lparr>at_events := pretty 0 (JStr ''x'')\<rparr>)) = Some (JStr ''x'')"
    using parse_pretty [of "JStr ''x''"] by simp
  show "trim (at_events (initial_annotate\<lparr>at_events := pretty 0 (JStr ''x'')\<rparr>)) \<noteq> []"
    by (simp add: trim_def is_space_def stringify.simps quoted_def quote_char_def)
qed (simp add: initial_annotate_def)

text \<open>The error box is headed as a configuration error whatever went wrong, while the line above it says that the engine is
  online.\<close>

theorem any_failure_is_configuration:
  assumes "at_error s = Some m" and "m \<noteq> []"
  shows "\<exists>x. av_error (annotate_view_of s) = Some (''Configuration Error'', x)"
    and "iv_engine (ai_view_of i p) = ''Cognitive Reasoning Engine: ONLINE''"
  using assms by (simp_all add: annotate_view_of_def llm_error_of_def llm_error_def or_text_def ai_view_of_def)

lemma any_failure_is_configuration_witness:
  "\<exists>x. av_error (annotate_view_of (initial_annotate\<lparr>at_error := Some ''Unexpected token''\<rparr>)) = Some (''Configuration Error'', x)"
  by (rule any_failure_is_configuration(1) [of _ "''Unexpected token''"]) simp_all

end
