(* ===== verification/HypothesisViews.thy ===== *)
theory HypothesisViews
  imports Hypotheses
begin

text \<open>
  What \<open>pages/HypothesisBuilder.tsx\<close> draws: its form with the selects and the buttons, the list of hypotheses, and
  the events they fire.  \<open>pending\<close> says that a save is under way; \<open>local_time\<close> is \<open>toLocaleString\<close> of a date.
\<close>

section \<open>The form and the list\<close>

record form_view =
  fv_title :: string
  fv_fields :: hypothesis_form
  fv_save :: "string \<times> bool"

definition form_view_of :: "bool \<Rightarrow> hypothesis_page \<Rightarrow> form_view option" where
  "form_view_of pending s = (if \<not> show_form s then None else Some
     \<lparr>fv_title = (if or_text (edit_id s) [] = [] then ''NEW HYPOTHESIS'' else ''EDIT HYPOTHESIS''), fv_fields = hform s,
      fv_save = (if pending then ''SAVING...'' else ''SAVE HYPOTHESIS'', hf_title (hform s) \<noteq> [] \<and> \<not> pending)\<rparr>)"

definition status_icon :: "hypothesis \<Rightarrow> string" where
  "status_icon h = (if h_status h = ''CONFIRMED'' then ''text-primary'' else if h_status h = ''REFUTED'' then ''text-destructive''
     else ''text-orange-400'')"

definition status_dot :: "hypothesis \<Rightarrow> string \<times> string" where
  "status_dot h = (if h_status h = ''CONFIRMED'' then ''verified'' else if h_status h = ''REFUTED'' then ''offline''
     else ''active'', h_status h)"

record hypothesis_card =
  hc_icon :: string
  hc_title :: string
  hc_confidence :: "string \<times> string option"
  hc_dot :: "string \<times> string"
  hc_buttons :: bool
  hc_attack :: "(string \<times> string) list"
  hc_description :: "string option"
  hc_refs :: "string list"

definition filled_text :: "string option \<Rightarrow> string option" where
  "filled_text v = (case v of Some t \<Rightarrow> if t = [] then None else Some t | None \<Rightarrow> None)"

definition hypothesis_card_of :: "string option \<Rightarrow> hypothesis \<Rightarrow> hypothesis_card" where
  "hypothesis_card_of role h = \<lparr>hc_icon = status_icon h, hc_title = h_title h,
     hc_confidence = (h_confidence h @ '' CONFIDENCE'', map_of confidence_colors (h_confidence h)),
     hc_dot = status_dot h, hc_buttons = can_edit role,
     hc_attack = (case filled_text (h_tactic h) of Some t \<Rightarrow> [(''Tactic'', t)] | None \<Rightarrow> []) @
       (case filled_text (h_technique h) of Some t \<Rightarrow> [(''Technique'', t)] | None \<Rightarrow> []),
     hc_description = filled_text (h_description h), hc_refs = h_refs h\<rparr>"

datatype hypothesis_list = LoadingList | EmptyList string | Cards "hypothesis_card list"

definition hypothesis_list_of :: "string option \<Rightarrow> bool \<Rightarrow> hypothesis list \<Rightarrow> (string \<times> string) \<times> hypothesis_list" where
  "hypothesis_list_of role loading hs = ((''HYPOTHESES ('' @ nat_str (length hs) @ '')'',
       if 0 < length hs then ''online'' else ''warning''),
     if loading then LoadingList
     else if hs = [] then EmptyList ''No hypotheses yet. Create one to track ATT&CK-framed investigation threads.''
     else Cards (map (hypothesis_card_of role) hs))"

definition new_offered :: "string option \<Rightarrow> bool" where
  "new_offered role \<longleftrightarrow> can_edit role"

section \<open>Events\<close>

datatype form_event =
    TypeTitle string | PickTactic string | TypeTechnique string | PickConfidence string | PickStatus string
  | TypeDescription string | TypeRefs string | CancelForm | NewForm | EditCard hypothesis

definition set_form :: "(hypothesis_form \<Rightarrow> hypothesis_form) \<Rightarrow> hypothesis_page \<Rightarrow> hypothesis_page" where
  "set_form f s = s\<lparr>hform := f (hform s)\<rparr>"

fun form_step :: "hypothesis list \<Rightarrow> form_event \<Rightarrow> hypothesis_page \<Rightarrow> hypothesis_page" where
  "form_step hs (TypeTitle t) s = set_form (\<lambda>f. f\<lparr>hf_title := t\<rparr>) s"
| "form_step hs (PickTactic t) s = set_form (\<lambda>f. f\<lparr>hf_tactic := t\<rparr>) s"
| "form_step hs (TypeTechnique t) s = set_form (\<lambda>f. f\<lparr>hf_technique := t\<rparr>) s"
| "form_step hs (PickConfidence v) s = (if is_hypothesis_confidence v then set_form (\<lambda>f. f\<lparr>hf_confidence := v\<rparr>) s else s)"
| "form_step hs (PickStatus v) s = (if is_hypothesis_status v then set_form (\<lambda>f. f\<lparr>hf_status := v\<rparr>) s else s)"
| "form_step hs (TypeDescription t) s = set_form (\<lambda>f. f\<lparr>hf_description := t\<rparr>) s"
| "form_step hs (TypeRefs t) s = set_form (\<lambda>f. f\<lparr>hf_refs := t\<rparr>) s"
| "form_step hs CancelForm s = reset_form s"
| "form_step hs NewForm s = new_hypothesis s"
| "form_step hs (EditCard h) s = (if h \<in> set hs then handle_edit h s else s)"

definition save_clicked :: "bool \<Rightarrow> string \<Rightarrow> hypothesis_page \<Rightarrow> hypothesis_io" where
  "save_clicked pending i s = (if (case form_view_of pending s of Some v \<Rightarrow> snd (fv_save v) | None \<Rightarrow> False)
     then save_hypothesis i else Done)"

section \<open>Lemmas\<close>

definition stored_ok :: "hypothesis \<Rightarrow> bool" where
  "stored_ok h \<longleftrightarrow> is_hypothesis_confidence (h_confidence h) \<and> is_hypothesis_status (h_status h)"

definition form_ok :: "hypothesis_page \<Rightarrow> bool" where
  "form_ok s \<longleftrightarrow> is_hypothesis_confidence (hf_confidence (hform s)) \<and> is_hypothesis_status (hf_status (hform s))"

lemma blank_form_ok: "is_hypothesis_confidence (hf_confidence blank_form) \<and> is_hypothesis_status (hf_status blank_form)"
  by (simp add: blank_form_def is_hypothesis_confidence_def is_hypothesis_status_def)

lemma form_step_ok:
  assumes "list_all stored_ok hs" and "form_ok s"
  shows "form_ok (form_step hs e s)"
  using assms blank_form_ok
  by (cases e) (auto simp: form_ok_def set_form_def reset_form_def new_hypothesis_def handle_edit_def list_all_iff stored_ok_def)

lemma form_steps_ok: "list_all stored_ok hs \<Longrightarrow> form_ok s \<Longrightarrow> form_ok (fold (form_step hs) es s)"
  by (induction es arbitrary: s) (simp_all add: form_step_ok)

lemma save_request_body:
  "rq \<in> set (requests_of srv yes (save_clicked pending i s) w s) \<Longrightarrow> req_body rq = Some (save_body (hform s))"
  by (auto simp: save_clicked_def save_hypothesis_def io_simps split: option.splits if_splits sum.splits)

section \<open>Theorems\<close>

text \<open>C31. Whatever is done with the form, the confidence and the status that are saved are ones the page knows, as long as
  those of the stored hypotheses are: the selects admit nothing else.\<close>

theorem saved_values_known:
  assumes "list_all stored_ok hs" and "s = fold (form_step hs) es (prefill_effect title evidence initial_hypotheses)"
    and "rq \<in> set (requests_of srv yes (save_clicked pending i s) w s)"
  shows "\<exists>b. req_body rq = Some b \<and> is_hypothesis_confidence (hb_confidence b) \<and> is_hypothesis_status (hb_status b)"
proof -
  have "form_ok (prefill_effect title evidence initial_hypotheses)"
    using blank_form_ok by (simp add: prefill_effect_def form_ok_def initial_hypotheses_def)
  then have "form_ok s" using form_steps_ok assms(1,2) by blast
  then show ?thesis using save_request_body [OF assms(3)] by (simp add: form_ok_def save_body_def)
qed

definition edited_title :: hypothesis_page where
  "edited_title = fold (form_step [sample_hypothesis]) [EditCard sample_hypothesis, PickConfidence ''CERTAIN''] initial_hypotheses"

lemma saved_values_known_witness:
  "\<exists>rq b. rq \<in> set (requests_of (stateless (\<lambda>_. Inr ())) True (save_clicked False ''i1'' edited_title) () edited_title)
     \<and> req_body rq = Some b \<and> is_hypothesis_confidence (hb_confidence b)"
proof -
  have e: "edited_title = fold (form_step [sample_hypothesis]) [EditCard sample_hypothesis, PickConfidence ''CERTAIN'']
      (prefill_effect None None initial_hypotheses)"
    by (simp add: edited_title_def prefill_effect_def or_text_def)
  have k: "list_all stored_ok [sample_hypothesis]"
    by (simp add: stored_ok_def sample_hypothesis_def is_hypothesis_confidence_def is_hypothesis_status_def)
  have "requests_of (stateless (\<lambda>_. Inr ())) True (save_clicked False ''i1'' edited_title) () edited_title \<noteq> []"
    by (simp add: edited_title_def save_clicked_def form_view_of_def handle_edit_def sample_hypothesis_def
        is_hypothesis_confidence_def save_hypothesis_def io_simps stateless_def)
  then obtain rq where "rq \<in> set (requests_of (stateless (\<lambda>_. Inr ())) True (save_clicked False ''i1'' edited_title) () edited_title)"
    by (meson last_in_set)
  with saved_values_known [OF k e this] show ?thesis by blast
qed

text \<open>The form that a pivot from the timeline opens does not ask for the role: an account that may not edit, and is
  offered no button for it, gets the form filled in with its SAVE button enabled.\<close>

theorem prefill_ignores_role:
  assumes "\<not> can_edit role" and "title \<noteq> []"
  shows "\<not> new_offered role \<and> (\<forall>h. \<not> hc_buttons (hypothesis_card_of role h))
    \<and> (\<exists>v. form_view_of False (prefill_effect (Some title) evidence s) = Some v \<and> snd (fv_save v) \<and> hf_title (fv_fields v) = title)"
  using assms by (simp add: new_offered_def hypothesis_card_of_def form_view_of_def prefill_effect_def or_text_def)

lemma prefill_ignores_role_witness:
  "\<exists>v. form_view_of False (prefill_effect (Some ''Pivot'') None initial_hypotheses) = Some v \<and> snd (fv_save v)"
  using prefill_ignores_role [of "Some ''viewer''" "''Pivot''" None initial_hypotheses] by (auto simp: can_edit_def)

text \<open>A save that is answered late closes the form of another hypothesis: CANCEL works while it is under way, and the
  hypothesis opened next loses what was typed; the message then speaks of an update although one was created.\<close>

theorem late_save_discards_other:
  assumes "edit_id s = None" and "h_id h \<noteq> []"
  shows "\<exists>g. settle (save_hypothesis i) True s = (s, [Await (Request POST (base_path i) (Some (save_body (hform s)))) g])
    \<and> (let s1 = fold (form_step [h]) [CancelForm, EditCard h, TypeTitle typed] s;
           s2 = fst (settle (g (Inr ())) True s1)
       in show_form s1 \<and> hf_title (hform s1) = typed \<and> s2 = reset_form s1 \<and> \<not> show_form s2
          \<and> effects_of (stateless (\<lambda>_. Inr ())) True (g (Inr ())) () s1
            = [Invalidate [''hypotheses'', i], Toast ''Hypothesis updated'' [] []])"
  using assms
  by (simp add: save_hypothesis_def io_simps set_form_def handle_edit_def reset_form_def Let_def or_text_def)

lemma late_save_discards_other_witness:
  "\<exists>g. settle (save_hypothesis ''i1'') True initial_hypotheses
     = (initial_hypotheses, [Await (Request POST (base_path ''i1'') (Some (save_body (hform initial_hypotheses)))) g])
   \<and> \<not> show_form (fst (settle (g (Inr ())) True (fold (form_step [sample_hypothesis]) [CancelForm, EditCard sample_hypothesis, TypeTitle ''x'']
        initial_hypotheses)))"
  using late_save_discards_other [of initial_hypotheses sample_hypothesis "''i1''" "''x''"]
  by (force simp: initial_hypotheses_def sample_hypothesis_def Let_def)

end
