(* ===== verification/Incidents.thy ===== *)
theory Incidents
  imports Hooks
begin

text \<open>
  \<open>pages/CreateIncident.tsx\<close> and \<open>pages/IncidentTemplates.tsx\<close>: the form that opens a case and the
  templates it can start from.  A handler that uses the list it was rendered with reads it once, when it
  starts, and sets the list from that copy after its call, as the code's closures do.
\<close>

section \<open>Shared operations of the two forms\<close>

datatype incident_type = Ransomware | AccountCompromise | DataExfiltration | Malware | UnauthorizedAccess | InsiderThreat

definition incident_types :: "(incident_type \<times> string) list" where
  "incident_types = [(Ransomware, ''RANSOMWARE''), (AccountCompromise, ''ACCOUNT COMPROMISE''),
     (DataExfiltration, ''DATA EXFILTRATION''), (Malware, ''MALWARE''),
     (UnauthorizedAccess, ''UNAUTHORIZED ACCESS''), (InsiderThreat, ''INSIDER THREAT'')]"

text \<open>Adding an endpoint: the list, and what is left in the field.\<close>

definition push_endpoint :: "string \<Rightarrow> string list \<Rightarrow> (string list \<times> string) option" where
  "push_endpoint field eps =
     (if trim field \<noteq> [] \<and> trim field \<notin> set eps then Some (eps @ [to_upper (trim field)], []) else None)"

section \<open>Opening a case\<close>

record template =
  t_id :: string
  t_name :: string
  t_type :: incident_type
  t_endpoints :: "string list"
  t_description :: string
  t_checklist :: "string list"
  t_created_at :: string
  t_created_by :: string
  t_usage :: nat

record create_page =
  c_type :: "incident_type option"
  c_title :: string
  c_description :: string
  c_severity :: string
  c_priority :: string
  c_endpoints :: "string list"
  c_new_endpoint :: string
  c_operator :: string
  c_starting :: bool
  c_checklist :: "string list"
  c_error :: "string option"
  c_incident_id :: string

record incident_body =
  ib_id :: string
  ib_type :: incident_type
  ib_title :: "string option"
  ib_description :: "string option"
  ib_severity :: string
  ib_priority :: string
  ib_status :: string
  ib_template :: "string option"
  ib_targets :: "string list"
  ib_operator :: string

definition initial_create :: create_page where
  "initial_create = \<lparr>c_type = None, c_title = [], c_description = [], c_severity = ''MEDIUM'', c_priority = ''P2'',
     c_endpoints = [], c_new_endpoint = [], c_operator = [], c_starting = False, c_checklist = [],
     c_error = None, c_incident_id = []\<rparr>"

definition apply_template_effect :: "template option \<Rightarrow> create_page \<Rightarrow> create_page" where
  "apply_template_effect tmpl s = (case tmpl of None \<Rightarrow> s
    | Some t \<Rightarrow> s\<lparr>c_type := Some (t_type t), c_title := t_name t, c_description := t_description t,
        c_endpoints := t_endpoints t, c_checklist := t_checklist t\<rparr>)"

definition incident_id_effect :: "nat \<Rightarrow> string \<Rightarrow> create_page \<Rightarrow> create_page" where
  "incident_id_effect year uuid s =
     s\<lparr>c_incident_id := ''INC-'' @ nat_str year @ ''-'' @ to_upper (take 8 uuid)\<rparr>"

definition add_endpoint :: "bool \<Rightarrow> create_page \<Rightarrow> create_page" where
  "add_endpoint viewer s = (if viewer then s else case push_endpoint (c_new_endpoint s) (c_endpoints s) of
      Some (eps, field) \<Rightarrow> s\<lparr>c_endpoints := eps, c_new_endpoint := field\<rparr> | None \<Rightarrow> s)"

definition remove_endpoint :: "bool \<Rightarrow> string \<Rightarrow> create_page \<Rightarrow> create_page" where
  "remove_endpoint viewer e s = (if viewer then s else s\<lparr>c_endpoints := filter (\<lambda>x. x \<noteq> e) (c_endpoints s)\<rparr>)"

definition or_null :: "string \<Rightarrow> string option" where
  "or_null t = (if trim t = [] then None else Some (trim t))"

definition incident_body_of :: "template option \<Rightarrow> incident_type \<Rightarrow> create_page \<Rightarrow> incident_body" where
  "incident_body_of tmpl ty s = \<lparr>ib_id = c_incident_id s, ib_type = ty, ib_title = or_null (c_title s),
     ib_description = or_null (c_description s), ib_severity = c_severity s, ib_priority = c_priority s,
     ib_status = ''PENDING'', ib_template = map_option t_id tmpl, ib_targets = c_endpoints s,
     ib_operator = to_upper (trim (c_operator s))\<rparr>"

definition start_incident :: "bool \<Rightarrow> template option \<Rightarrow> (create_page, unit, incident_body, unit) io" where
  "start_incident viewer tmpl = Read (\<lambda>s0.
     if viewer then Update (\<lambda>s. s\<lparr>c_error := Some ''Viewer accounts cannot start collections.''\<rparr>) Done
     else (case c_type s0 of
       None \<Rightarrow> Update (\<lambda>s. s\<lparr>c_error := Some ''Complete incident type, targets, and operator.''\<rparr>) Done
     | Some ty \<Rightarrow>
       if c_endpoints s0 = [] \<or> trim (c_operator s0) = []
       then Update (\<lambda>s. s\<lparr>c_error := Some ''Complete incident type, targets, and operator.''\<rparr>) Done
       else Update (\<lambda>s. s\<lparr>c_starting := True\<rparr>)
        (Update (\<lambda>s. s\<lparr>c_error := None\<rparr>)
        (tryFinally
          (tryCatch
            (apiPost ''/incidents'' (incident_body_of tmpl ty s0) (\<lambda>_.
               Emit (Navigate (''/incidents/'' @ c_incident_id s0 @ ''/setup'')) Done))
            (\<lambda>_. Update (\<lambda>s. s\<lparr>c_error := Some ''Failed to create incident. Verify backend connectivity.''\<rparr>) Done))
          (Update (\<lambda>s. s\<lparr>c_starting := False\<rparr>) Done)))))"

definition create_valid :: "create_page \<Rightarrow> bool" where
  "create_valid s \<longleftrightarrow> c_type s \<noteq> None \<and> 0 < length (c_endpoints s) \<and> trim (c_operator s) \<noteq> []"

definition create_checklist :: "create_page \<Rightarrow> string list" where
  "create_checklist s = (if 0 < length (c_checklist s) then c_checklist s else
     [''Target system(s) network isolated if required'', ''Incident ticket created in tracking system'',
      ''Legal/HR notified if insider threat'', ''Collection scope approved by incident commander''])"

definition clear_template :: "create_page \<Rightarrow> create_page" where
  "clear_template s = s\<lparr>c_type := None, c_endpoints := [], c_checklist := [], c_error := None\<rparr>"

section \<open>Templates\<close>

record template_response =
  tr_id :: string
  tr_name :: string
  tr_incident_type :: incident_type
  tr_default_endpoints :: "string list"
  tr_description :: string
  tr_preflight :: "string list"
  tr_created_at :: string
  tr_created_by :: string
  tr_usage_count :: nat

definition map_template :: "template_response \<Rightarrow> template" where
  "map_template r = \<lparr>t_id = tr_id r, t_name = tr_name r, t_type = tr_incident_type r,
     t_endpoints = tr_default_endpoints r, t_description = tr_description r, t_checklist = tr_preflight r,
     t_created_at = tr_created_at r, t_created_by = tr_created_by r, t_usage = tr_usage_count r\<rparr>"

definition to_template_payload :: "template \<Rightarrow> template_response" where
  "to_template_payload t = \<lparr>tr_id = t_id t, tr_name = t_name t, tr_incident_type = t_type t,
     tr_default_endpoints = t_endpoints t, tr_description = t_description t, tr_preflight = t_checklist t,
     tr_created_at = t_created_at t, tr_created_by = t_created_by t, tr_usage_count = t_usage t\<rparr>"

record template_form =
  f_name :: string
  f_type :: "incident_type option"
  f_endpoints :: "string list"
  f_description :: string
  f_checklist :: "string list"

definition initial_form :: template_form where
  "initial_form = \<lparr>f_name = [], f_type = None, f_endpoints = [], f_description = [], f_checklist = [[]]\<rparr>"

record template_page =
  templates :: "template list"
  dialog_open :: bool
  editing :: "template option"
  form :: template_form
  new_endpoint :: string
  saving :: bool
  template_error :: "string option"

definition initial_templates :: template_page where
  "initial_templates = \<lparr>templates = [], dialog_open = False, editing = None, form = initial_form,
     new_endpoint = [], saving = False, template_error = None\<rparr>"

record template_body =
  tb_name :: string
  tb_type :: incident_type
  tb_endpoints :: "string list"
  tb_description :: string
  tb_checklist :: "string list"
  tb_created_by :: "string option"
  tb_usage :: "nat option"

datatype template_request = TemplateBody template_body | NoBody

datatype template_reply = TTemplate template_response | TDone

fun the_template where "the_template (TTemplate t) = Some t" | "the_template _ = None"

type_synonym template_io = "(template_page, template_reply, template_request, unit) io"

definition templates_loaded :: "template_response list \<Rightarrow> template_page \<Rightarrow> template_page" where
  "templates_loaded rs s = s\<lparr>templates := map map_template rs, template_error := None\<rparr>"

definition templates_failed :: "template_page \<Rightarrow> template_page" where
  "templates_failed s = s\<lparr>template_error := Some ''Unable to load templates.''\<rparr>"

definition open_create_dialog :: "bool \<Rightarrow> template_page \<Rightarrow> template_page" where
  "open_create_dialog viewer s =
     (if viewer then s else s\<lparr>editing := None, form := initial_form, dialog_open := True\<rparr>)"

definition open_edit_dialog :: "bool \<Rightarrow> template \<Rightarrow> template_page \<Rightarrow> template_page" where
  "open_edit_dialog viewer t s = (if viewer then s else s\<lparr>editing := Some t,
     form := \<lparr>f_name = t_name t, f_type = Some (t_type t), f_endpoints = t_endpoints t,
       f_description = t_description t, f_checklist = t_checklist t\<rparr>, dialog_open := True\<rparr>)"

definition form_add_endpoint :: "bool \<Rightarrow> template_page \<Rightarrow> template_page" where
  "form_add_endpoint viewer s = (if viewer then s else case push_endpoint (new_endpoint s) (f_endpoints (form s)) of
      Some (eps, field) \<Rightarrow> s\<lparr>form := (form s)\<lparr>f_endpoints := eps\<rparr>, new_endpoint := field\<rparr> | None \<Rightarrow> s)"

definition sanitize_checklist :: "string list \<Rightarrow> string list" where
  "sanitize_checklist items = filter (\<lambda>i. 0 < length i) (map trim items)"

definition form_remove_endpoint :: "bool \<Rightarrow> string \<Rightarrow> template_page \<Rightarrow> template_page" where
  "form_remove_endpoint viewer e s =
     (if viewer then s else s\<lparr>form := (form s)\<lparr>f_endpoints := filter (\<lambda>x. x \<noteq> e) (f_endpoints (form s))\<rparr>\<rparr>)"

definition add_checklist_item :: "bool \<Rightarrow> template_page \<Rightarrow> template_page" where
  "add_checklist_item viewer s =
     (if viewer then s else s\<lparr>form := (form s)\<lparr>f_checklist := f_checklist (form s) @ [[]]\<rparr>\<rparr>)"

text \<open>The index is that of a rendered field, so it is in range.\<close>

definition update_checklist_item :: "bool \<Rightarrow> nat \<Rightarrow> string \<Rightarrow> template_page \<Rightarrow> template_page" where
  "update_checklist_item viewer i v s =
     (if viewer then s else s\<lparr>form := (form s)\<lparr>f_checklist := (f_checklist (form s))[i := v]\<rparr>\<rparr>)"

definition remove_checklist_item :: "bool \<Rightarrow> nat \<Rightarrow> template_page \<Rightarrow> template_page" where
  "remove_checklist_item viewer i s = (if viewer then s
     else s\<lparr>form := (form s)\<lparr>f_checklist := take i (f_checklist (form s)) @ drop (i + 1) (f_checklist (form s))\<rparr>\<rparr>)"

definition replace_template :: "template \<Rightarrow> template list \<Rightarrow> template list" where
  "replace_template m ts = map (\<lambda>t. if t_id t = t_id m then m else t) ts"

definition handle_save :: "bool \<Rightarrow> template_io" where
  "handle_save viewer = Read (\<lambda>s0.
     if viewer then Done
     else (case f_type (form s0) of None \<Rightarrow> Done
     | Some ty \<Rightarrow>
       if f_name (form s0) = [] then Done
       else Update (\<lambda>s. s\<lparr>saving := True\<rparr>)
        (andThen
          (tryCatch
            (case editing s0 of
               Some t \<Rightarrow>
                 apiPatch (''/templates/'' @ t_id t) (TemplateBody
                   \<lparr>tb_name = f_name (form s0), tb_type = ty, tb_endpoints = f_endpoints (form s0),
                    tb_description = f_description (form s0), tb_checklist = sanitize_checklist (f_checklist (form s0)),
                    tb_created_by = Some (t_created_by t), tb_usage = Some (t_usage t)\<rparr>)
                   (expect the_template (\<lambda>r.
                      Update (\<lambda>s. s\<lparr>templates := replace_template (map_template r) (templates s)\<rparr>) Done))
             | None \<Rightarrow>
                 apiPost ''/templates'' (TemplateBody
                   \<lparr>tb_name = to_upper (f_name (form s0)), tb_type = ty, tb_endpoints = f_endpoints (form s0),
                    tb_description = f_description (form s0), tb_checklist = sanitize_checklist (f_checklist (form s0)),
                    tb_created_by = None, tb_usage = None\<rparr>)
                   (expect the_template (\<lambda>r.
                      Update (\<lambda>s. s\<lparr>templates := templates s0 @ [map_template r]\<rparr>) Done)))
            (\<lambda>_. Update (\<lambda>s. s\<lparr>template_error := Some ''Unable to save template.''\<rparr>) Done))
          (\<lambda>_. Update (\<lambda>s. s\<lparr>saving := False\<rparr>) (Update (\<lambda>s. s\<lparr>dialog_open := False\<rparr>) Done)))))"

definition duplicate_template :: "bool \<Rightarrow> template \<Rightarrow> template_io" where
  "duplicate_template viewer t = Read (\<lambda>s0.
     if viewer then Done
     else tryCatch
       (apiPost ''/templates'' (TemplateBody
          \<lparr>tb_name = to_upper (t_name t @ '' (COPY)''), tb_type = t_type t, tb_endpoints = t_endpoints t,
           tb_description = t_description t, tb_checklist = sanitize_checklist (t_checklist t),
           tb_created_by = None, tb_usage = None\<rparr>)
          (expect the_template (\<lambda>r. Update (\<lambda>s. s\<lparr>templates := templates s0 @ [map_template r]\<rparr>) Done)))
       (\<lambda>_. Update (\<lambda>s. s\<lparr>template_error := Some ''Unable to duplicate template.''\<rparr>) Done))"

definition delete_template :: "bool \<Rightarrow> string \<Rightarrow> template_io" where
  "delete_template viewer i = Read (\<lambda>s0.
     if viewer then Done
     else tryCatch
       (apiDelete (''/templates/'' @ i) (\<lambda>_.
          Update (\<lambda>s. s\<lparr>templates := filter (\<lambda>t. t_id t \<noteq> i) (templates s0)\<rparr>) Done))
       (\<lambda>_. Update (\<lambda>s. s\<lparr>template_error := Some ''Unable to delete template.''\<rparr>) Done))"

definition apply_template :: "bool \<Rightarrow> template \<Rightarrow> template_io" where
  "apply_template viewer t =
     (if viewer then Done
      else tryCatch
        (apiPost (''/templates/'' @ t_id t @ ''/use'') NoBody (expect the_template (\<lambda>r.
           Update (\<lambda>s. s\<lparr>templates := replace_template (map_template r) (templates s)\<rparr>)
             (Emit (Navigate ''/incidents/create'') Done))))
        (\<lambda>_. Update (\<lambda>s. s\<lparr>template_error := Some ''Unable to update template usage.''\<rparr>) Done))"

definition form_valid :: "template_form \<Rightarrow> bool" where
  "form_valid f \<longleftrightarrow> trim (f_name f) \<noteq> [] \<and> f_type f \<noteq> None"

datatype template_event =
    OpenCreate | OpenEdit template | EditForm template_form | TypeEndpoint string | AddEndpoint
  | RemoveEndpoint string | AddItem | UpdateItem nat string | RemoveItem nat | Save | CloseDialog
  | Duplicate template | DeleteTemplate string | Apply template

fun template_handler :: "bool \<Rightarrow> template_event \<Rightarrow> template_page \<Rightarrow> template_io" where
  "template_handler v OpenCreate s = Update (open_create_dialog v) Done"
| "template_handler v (OpenEdit t) s = Update (open_edit_dialog v t) Done"
| "template_handler v (EditForm f) s = Update (\<lambda>s. s\<lparr>form := f\<rparr>) Done"
| "template_handler v (TypeEndpoint e) s = Update (\<lambda>s. s\<lparr>new_endpoint := e\<rparr>) Done"
| "template_handler v AddEndpoint s = Update (form_add_endpoint v) Done"
| "template_handler v (RemoveEndpoint e) s = Update (form_remove_endpoint v e) Done"
| "template_handler v AddItem s = Update (add_checklist_item v) Done"
| "template_handler v (UpdateItem i t) s = Update (update_checklist_item v i t) Done"
| "template_handler v (RemoveItem i) s = Update (remove_checklist_item v i) Done"
| "template_handler v Save s = (if \<not> form_valid (form s) \<or> saving s then Done else handle_save v)"
| "template_handler v CloseDialog s = Update (\<lambda>s. s\<lparr>dialog_open := False\<rparr>) Done"
| "template_handler v (Duplicate t) s = duplicate_template v t"
| "template_handler v (DeleteTemplate i) s = delete_template v i"
| "template_handler v (Apply t) s = apply_template v t"

section \<open>Properties\<close>

text \<open>A case can only be opened with a type, a target and an operator by an account that is not a viewer:
  the form sends exactly one request, with the trimmed fields, when all of that holds, and none
  otherwise; the page moves to the artifact selector exactly when the server accepts it, and an attempt
  never leaves the page in its starting state.\<close>

theorem case_opened_when_valid:
  "requests_of srv yes (start_incident viewer tmpl) w s =
     (if \<not> viewer \<and> create_valid s
      then [Request POST ''/incidents'' (Some (incident_body_of tmpl (the (c_type s)) s))] else []) \<and>
   (Navigate (''/incidents/'' @ c_incident_id s @ ''/setup'') \<in> set (effects_of srv yes (start_incident viewer tmpl) w s) \<longleftrightarrow>
      \<not> viewer \<and> create_valid s \<and>
      \<not> isl (fst (srv w (Request POST ''/incidents'' (Some (incident_body_of tmpl (the (c_type s)) s)))))) \<and>
   c_starting (final_state srv yes (start_incident viewer tmpl) w s) =
     (if \<not> viewer \<and> create_valid s then False else c_starting s)"
  by (auto simp: start_incident_def create_valid_def io_simps split: option.split sum.splits)

text \<open>The check against repeated endpoints compares what is typed with the upper-cased entries, so a
  name typed in lower case can be added again and again: the two forms hold it twice after two additions.\<close>

theorem lower_case_endpoint_repeats:
  assumes "trim e \<noteq> []" and "to_upper (trim e) \<noteq> trim e" and "trim e \<notin> set (c_endpoints s)"
  shows "let s1 = add_endpoint False (s\<lparr>c_new_endpoint := e\<rparr>); s2 = add_endpoint False (s1\<lparr>c_new_endpoint := e\<rparr>)
    in c_endpoints s2 = c_endpoints s @ [to_upper (trim e), to_upper (trim e)]"
  using assms by (simp add: add_endpoint_def push_endpoint_def Let_def)

theorem lower_case_endpoint_repeats_witness:
  "c_endpoints (add_endpoint False ((add_endpoint False (initial_create\<lparr>c_new_endpoint := ''ws''\<rparr>))\<lparr>c_new_endpoint := ''ws''\<rparr>))
     = [''WS'', ''WS'']"
proof -
  have t: "trim ''ws'' = ''ws''" "to_upper ''ws'' = ''WS''"
    by (simp_all add: char_eval)
  show ?thesis
    using lower_case_endpoint_repeats [of "''ws''" initial_create] t by (simp add: initial_create_def Let_def)
qed

text \<open>C38. Two deletions in flight undo each other: each sets the list from the copy it was started with.
  When \<open>i\<close> and \<open>j\<close> are deleted at the same time and both calls succeed, \<open>i\<close> first, the list loses \<open>i\<close> and
  then becomes the old list without \<open>j\<close>, with \<open>i\<close> back in it.\<close>

theorem concurrent_deletes_resurrect:
  "\<exists>g1 g2 s1.
     settle (template_handler False (DeleteTemplate i) s) True s = (s, [Await (Request DELETE (''/templates/'' @ i) None) g1]) \<and>
     settle (template_handler False (DeleteTemplate j) s) True s = (s, [Await (Request DELETE (''/templates/'' @ j) None) g2]) \<and>
     settle (g1 (Inr TDone)) True s = (s1, []) \<and> templates s1 = filter (\<lambda>t. t_id t \<noteq> i) (templates s) \<and>
     templates (fst (settle (g2 (Inr TDone)) True s1)) = filter (\<lambda>t. t_id t \<noteq> j) (templates s)"
  by (simp add: delete_template_def io_simps)

end
