(* ===== verification/IncidentViews.thy ===== *)
theory IncidentViews
  imports Incidents
begin

text \<open>
  What the pages \<open>CreateIncident.tsx\<close> and \<open>IncidentTemplates.tsx\<close> draw, and the controls they offer: the form of
  a new case with its events, the table of templates and its dialog.
\<close>

section \<open>The form of a new case\<close>

definition severity_options :: "string list" where
  "severity_options = [''CRITICAL'', ''HIGH'', ''MEDIUM'', ''LOW'', ''INFORMATIONAL'']"

definition priority_options :: "string list" where
  "priority_options = [''P0'', ''P1'', ''P2'', ''P3'']"

definition panel_online :: "bool \<Rightarrow> string option" where
  "panel_online b = (if b then Some ''online'' else None)"

record create_view =
  cv_banner :: "string option"
  cv_id :: string
  cv_error :: "string option"
  cv_types :: "(string \<times> bool) list"
  cv_type_status :: "string option"
  cv_targets :: "string list + string"
  cv_target_status :: "string option"
  cv_operator_status :: "string option"
  cv_start :: "string \<times> bool"
  cv_checklist :: "string list"

definition create_view_of :: "bool \<Rightarrow> template option \<Rightarrow> create_page \<Rightarrow> create_view" where
  "create_view_of viewer tmpl s = \<lparr>cv_banner = map_option t_name tmpl, cv_id = c_incident_id s, cv_error = c_error s,
     cv_types = map (\<lambda>(t, l). (l, c_type s = Some t)) incident_types, cv_type_status = panel_online (c_type s \<noteq> None),
     cv_targets = (if 0 < length (c_endpoints s) then Inl (c_endpoints s) else Inr ''NO TARGETS SPECIFIED''),
     cv_target_status = panel_online (0 < length (c_endpoints s)), cv_operator_status = panel_online (trim (c_operator s) \<noteq> []),
     cv_start = (if c_starting s then ''INITIALIZING COLLECTION_'' else ''START COLLECTION'',
        create_valid s \<and> \<not> c_starting s \<and> \<not> viewer),
     cv_checklist = create_checklist s\<rparr>"

text \<open>The navigation state holds the template; CLEAR replaces it by an empty one.  START and the type buttons are
  guarded, the fields of the triage are not.\<close>

datatype create_event =
    PickType incident_type | TypeTitle string | TypeDescription string | PickSeverity string | PickPriority string
  | TypeTarget string | AddTarget | RemoveTarget string | TypeOperator string | ClearTemplate | Start | Abort

type_synonym create_io = "(template option \<times> create_page, unit, incident_body, unit) io"

definition on_create :: "(create_page \<Rightarrow> create_page) \<Rightarrow> template option \<times> create_page \<Rightarrow> template option \<times> create_page" where
  "on_create f = (\<lambda>(tmpl, s). (tmpl, f s))"

fun create_edit :: "bool \<Rightarrow> create_event \<Rightarrow> template option \<times> create_page \<Rightarrow> template option \<times> create_page" where
  "create_edit v (PickType t) p = (if v then p else on_create (\<lambda>s. s\<lparr>c_type := Some t\<rparr>) p)"
| "create_edit v (TypeTitle t) p = on_create (\<lambda>s. s\<lparr>c_title := t\<rparr>) p"
| "create_edit v (TypeDescription t) p = on_create (\<lambda>s. s\<lparr>c_description := t\<rparr>) p"
| "create_edit v (PickSeverity t) p = on_create (\<lambda>s. s\<lparr>c_severity := t\<rparr>) p"
| "create_edit v (PickPriority t) p = on_create (\<lambda>s. s\<lparr>c_priority := t\<rparr>) p"
| "create_edit v (TypeTarget t) p = on_create (\<lambda>s. s\<lparr>c_new_endpoint := t\<rparr>) p"
| "create_edit v AddTarget p = on_create (add_endpoint v) p"
| "create_edit v (RemoveTarget t) p = on_create (remove_endpoint v t) p"
| "create_edit v (TypeOperator t) p = on_create (\<lambda>s. s\<lparr>c_operator := to_upper t\<rparr>) p"
| "create_edit v ClearTemplate p = (if fst p = None then p else (None, clear_template (snd p)))"
| "create_edit v Start p = p"
| "create_edit v Abort p = p"

definition start_clicked :: "bool \<Rightarrow> template option \<Rightarrow> create_page \<Rightarrow> (create_page, unit, incident_body, unit) io" where
  "start_clicked v tmpl s = (if snd (cv_start (create_view_of v tmpl s)) then start_incident v tmpl else Done)"

text \<open>Entering the page with a template in the navigation state, and editing it from there.\<close>

definition enter_create :: "template option \<Rightarrow> nat \<Rightarrow> string \<Rightarrow> template option \<times> create_page" where
  "enter_create tmpl year uuid = (tmpl, apply_template_effect tmpl (incident_id_effect year uuid initial_create))"

definition edits :: "bool \<Rightarrow> create_event list \<Rightarrow> template option \<times> create_page \<Rightarrow> template option \<times> create_page" where
  "edits v es p = fold (create_edit v) es p"

section \<open>The table of templates\<close>

definition type_code :: "incident_type \<Rightarrow> string" where
  "type_code t = (case t of Ransomware \<Rightarrow> ''RANSOMWARE'' | AccountCompromise \<Rightarrow> ''ACCOUNT_COMPROMISE''
     | DataExfiltration \<Rightarrow> ''DATA_EXFILTRATION'' | Malware \<Rightarrow> ''MALWARE''
     | UnauthorizedAccess \<Rightarrow> ''UNAUTHORIZED_ACCESS'' | InsiderThreat \<Rightarrow> ''INSIDER_THREAT'')"

definition type_badge :: "incident_type \<Rightarrow> string" where
  "type_badge t = map (\<lambda>c. if c = CHR ''_'' then CHR '' '' else c) (type_code t)"

definition template_cells :: "template \<Rightarrow> string list" where
  "template_cells t = [t_id t, t_name t, type_badge (t_type t), nat_str (length (t_endpoints t)) @ '' TARGETS'',
     t_created_by t, nat_str (t_usage t) @ ''x'']"

definition template_table :: "pagination \<Rightarrow> template_page \<Rightarrow> string \<times> (string + string list list)" where
  "template_table p s = (nat_str (length (templates s)) @ '' TOTAL'',
     (let ts = page_items (templates s) p in if ts = [] then Inl ''No templates available.'' else Inr (map template_cells ts)))"

record template_dialog =
  td_title :: string
  td_name :: string
  td_types :: "(string \<times> bool) list"
  td_description :: string
  td_endpoint :: string
  td_endpoints :: "string list"
  td_items :: "(string \<times> string) list"
  td_save :: "string \<times> bool"

definition template_dialog_of :: "bool \<Rightarrow> template_page \<Rightarrow> template_dialog option" where
  "template_dialog_of viewer s = (if \<not> dialog_open s then None else Some
     \<lparr>td_title = (case editing s of Some t \<Rightarrow> ''EDIT TEMPLATE'' | None \<Rightarrow> ''CREATE NEW TEMPLATE''),
      td_name = f_name (form s),
      td_types = map (\<lambda>(t, l). (l, f_type (form s) = Some t)) incident_types,
      td_description = f_description (form s), td_endpoint = new_endpoint s, td_endpoints = f_endpoints (form s),
      td_items = map (\<lambda>(i, x). (x, ''Checklist item '' @ nat_str (i + 1))) (enumerate 0 (f_checklist (form s))),
      td_save = (if saving s then ''SAVING_'' else case editing s of Some t \<Rightarrow> ''UPDATE TEMPLATE'' | None \<Rightarrow> ''CREATE TEMPLATE'',
        form_valid (form s) \<and> \<not> saving s \<and> \<not> viewer)\<rparr>)"

text \<open>The two text fields and the type buttons of the dialog; the name is upper-cased as it is typed.\<close>

definition type_name :: "string \<Rightarrow> template_page \<Rightarrow> template_page" where
  "type_name t s = s\<lparr>form := (form s)\<lparr>f_name := to_upper t\<rparr>\<rparr>"

definition type_description :: "string \<Rightarrow> template_page \<Rightarrow> template_page" where
  "type_description t s = s\<lparr>form := (form s)\<lparr>f_description := t\<rparr>\<rparr>"

definition pick_form_type :: "bool \<Rightarrow> incident_type \<Rightarrow> template_page \<Rightarrow> template_page" where
  "pick_form_type viewer t s = (if viewer then s else s\<lparr>form := (form s)\<lparr>f_type := Some t\<rparr>\<rparr>)"

section \<open>Lemmas\<close>

lemma start_enabled_iff: "snd (cv_start (create_view_of v tmpl s)) \<longleftrightarrow> create_valid s \<and> \<not> c_starting s \<and> \<not> v"
  by (simp add: create_view_of_def)

fun retypes :: "create_event \<Rightarrow> bool" where
  "retypes (TypeTitle t) = True" | "retypes (TypeDescription t) = True" | "retypes e = False"

lemma edit_keeps_titles:
  "\<not> retypes e \<Longrightarrow> c_title (snd (create_edit v e p)) = c_title (snd p)
     \<and> c_description (snd (create_edit v e p)) = c_description (snd p)
     \<and> (fst p = None \<longrightarrow> fst (create_edit v e p) = None)"
  by (cases p; cases e) (auto simp: on_create_def add_endpoint_def remove_endpoint_def clear_template_def split: option.split)

lemma edits_keep_titles:
  "list_all (\<lambda>e. \<not> retypes e) es \<Longrightarrow> c_title (snd (edits v es p)) = c_title (snd p)
     \<and> c_description (snd (edits v es p)) = c_description (snd p)
     \<and> (fst p = None \<longrightarrow> fst (edits v es p) = None)"
  by (induction es arbitrary: p) (auto simp: edits_def edit_keeps_titles)

lemma viewer_edit: "c_type (snd (create_edit True e p)) = None \<or> c_type (snd (create_edit True e p)) = c_type (snd p)"
  by (cases p; cases e) (auto simp: on_create_def add_endpoint_def remove_endpoint_def clear_template_def)

section \<open>Theorems\<close>

text \<open>CLEAR does not clear the template: the case that is opened afterwards, however the type, the targets, the
  severity and the operator were set, no longer names the template but still bears its title and its description,
  unless they are typed over.\<close>

theorem cleared_template_names_case:
  assumes "list_all (\<lambda>e. \<not> retypes e) es" and "es' = ClearTemplate # es"
    and "edits False es' (enter_create (Some t) year uuid) = (tmpl, s)"
    and "create_valid s" and "trim (t_name t) \<noteq> []"
  shows "\<exists>b. requests_of srv yes (start_clicked False tmpl s) w s
      = (if c_starting s then [] else [Request POST ''/incidents'' (Some b)])
    \<and> ib_template b = None \<and> ib_title b = Some (trim (t_name t)) \<and> ib_description b = or_null (t_description t)"
proof -
  let ?p = "create_edit False ClearTemplate (enter_create (Some t) year uuid)"
  have p: "fst ?p = None" "c_title (snd ?p) = t_name t" "c_description (snd ?p) = t_description t"
    by (simp_all add: enter_create_def apply_template_effect_def clear_template_def)
  have e: "edits False es ?p = (tmpl, s)" using assms(2,3) by (simp add: edits_def)
  from edits_keep_titles [OF assms(1), of False ?p] p e
  have k: "c_title s = t_name t" "c_description s = t_description t" "tmpl = None" by simp_all
  from assms(4) obtain ty where ty: "c_type s = Some ty" by (auto simp: create_valid_def)
  then show ?thesis
    using assms(4,5) k
    by (intro exI [where x = "incident_body_of None ty s"])
      (auto simp: start_clicked_def start_enabled_iff start_incident_def create_valid_def incident_body_of_def or_null_def
        io_simps split: sum.split)
qed

definition sample_template :: template where
  "sample_template = \<lparr>t_id = ''T1'', t_name = ''PHISHING'', t_type = Malware, t_endpoints = [''WS-01''], t_description = [],
     t_checklist = [], t_created_at = [], t_created_by = ''ANA'', t_usage = 0\<rparr>"

lemma cleared_template_names_case_witness:
  "\<exists>b s. edits False [ClearTemplate, PickType Ransomware, TypeTarget ''DB-01'', AddTarget, TypeOperator ''BO'']
       (enter_create (Some sample_template) 2026 ''0123abcd'') = (None, s)
    \<and> requests_of (stateless (\<lambda>_. Inr ())) True (start_clicked False None s) () s = [Request POST ''/incidents'' (Some b)]
    \<and> ib_title b = Some ''PHISHING''"
proof -
  let ?es = "[PickType Ransomware, TypeTarget ''DB-01'', AddTarget, TypeOperator ''BO'']"
  let ?p = "edits False (ClearTemplate # ?es) (enter_create (Some sample_template) 2026 ''0123abcd'')"
  have up: "to_upper ''DB-01'' = ''DB-01''" "to_upper ''BO'' = ''BO''" "trim ''DB-01'' = ''DB-01''" "trim ''BO'' = ''BO''"
    "trim ''PHISHING'' = ''PHISHING''"
    by (simp_all add: char_eval)
  have "fst ?p = None" "create_valid (snd ?p)" "\<not> c_starting (snd ?p)"
    by (simp_all add: edits_def enter_create_def apply_template_effect_def clear_template_def on_create_def add_endpoint_def
        push_endpoint_def create_valid_def up incident_id_effect_def initial_create_def)
  then obtain s where s: "?p = (None, s)" "create_valid s" "\<not> c_starting s" by (cases ?p) simp
  have n: "trim (t_name sample_template) \<noteq> []" by (simp add: sample_template_def up)
  have r: "list_all (\<lambda>e. \<not> retypes e) ?es" by simp
  from cleared_template_names_case [OF r refl s(1,2) n, of "stateless (\<lambda>_. Inr ())" True "()"] s
  show ?thesis by (auto simp: sample_template_def up)
qed

text \<open>The field of a half-typed endpoint belongs to the page, not to the dialog: what is left in it when a dialog is
  closed stands in the next one, and its button adds it to the template that is edited there.\<close>

theorem endpoint_field_leaks:
  assumes "trim e \<noteq> []" and "trim e \<notin> set (t_endpoints t)" and "s' = open_edit_dialog False t (s\<lparr>dialog_open := False, new_endpoint := e\<rparr>)"
  shows "map_option td_endpoint (template_dialog_of False s') = Some e
    \<and> f_endpoints (form (form_add_endpoint False s')) = t_endpoints t @ [to_upper (trim e)]"
  using assms by (simp add: open_edit_dialog_def template_dialog_of_def form_add_endpoint_def push_endpoint_def)

lemma endpoint_field_leaks_witness:
  "map_option td_endpoint (template_dialog_of False (open_edit_dialog False sample_template
     (initial_templates\<lparr>dialog_open := False, new_endpoint := ''X''\<rparr>))) = Some ''X''"
  using endpoint_field_leaks [of "''X''" sample_template _ initial_templates]
  by (simp add: sample_template_def trim_def is_space_def)

text \<open>A template that could not be saved is lost: a failed save closes its dialog as a successful one does, and the
  form is filled afresh by the next dialog.\<close>

theorem failed_save_loses_form:
  assumes "form_valid (form s)" and "\<not> saving s" and "editing s = None"
    and "\<And>rq. \<exists>e. fst (srv w rq) = Inl e"
  shows "let s' = final_state srv yes (template_handler False Save s) w s
    in template_dialog_of False s' = None \<and> template_error s' = Some ''Unable to save template.''
       \<and> templates s' = templates s \<and> form (open_create_dialog False s') = initial_form"
proof -
  have "f_name (form s) \<noteq> []" using assms(1) by (auto simp: form_valid_def trim_def)
  with assms(1) obtain ty where ty: "f_type (form s) = Some ty" "f_name (form s) \<noteq> []"
    by (auto simp: form_valid_def)
  let ?rq = "Request POST ''/templates'' (Some (TemplateBody \<lparr>tb_name = to_upper (f_name (form s)), tb_type = ty,
     tb_endpoints = f_endpoints (form s), tb_description = f_description (form s),
     tb_checklist = sanitize_checklist (f_checklist (form s)), tb_created_by = None, tb_usage = None\<rparr>))"
  obtain e w' where "srv w ?rq = (Inl e, w')" using assms(4) [of ?rq] by (cases "srv w ?rq") auto
  then show ?thesis
    using assms(1-3) ty
    by (simp add: handle_save_def io_simps template_dialog_of_def open_create_dialog_def)
qed

lemma failed_save_loses_form_witness:
  "template_dialog_of False (final_state (stateless (\<lambda>_. Inl NonError)) True (template_handler False Save
     (initial_templates\<lparr>dialog_open := True, form := initial_form\<lparr>f_name := ''A'', f_type := Some Malware\<rparr>\<rparr>)) ()
     (initial_templates\<lparr>dialog_open := True, form := initial_form\<lparr>f_name := ''A'', f_type := Some Malware\<rparr>\<rparr>)) = None"
  using failed_save_loses_form [of "initial_templates\<lparr>dialog_open := True, form := initial_form\<lparr>f_name := ''A'', f_type := Some Malware\<rparr>\<rparr>"
      "stateless (\<lambda>_. Inl NonError)" "()" True]
  by (simp add: initial_templates_def form_valid_def initial_form_def stateless_def trim_def is_space_def Let_def)

end
