(* ===== verification/SuperTimeline.thy ===== *)
theory SuperTimeline
  imports TimelineUtils Browser
begin

text \<open>
  \<open>pages/SuperTimeline.tsx\<close>: the filters, the event query, the shared annotations, the export and the
  panels of the merged timeline.  A row is known by the identity of its object, a number; its content
  is looked up in the data of the current query.  The encoders of URLs, the clock and the result of the
  status query are parameters.
\<close>

section \<open>Data\<close>

record bookmark =
  bm_hash :: string
  bm_note :: string
  bm_created :: string
  bm_datetime :: string
  bm_host :: string
  bm_message :: string
  bm_source :: string

record annotation =
  an_uid :: string
  an_bookmark :: "bookmark option"
  an_tag :: "string option"

record timeline_response =
  tl_rows :: "(nat \<times> event_row) list"
  tl_total :: nat
  tl_hosts :: "string list"
  tl_sources :: "string list"

datatype st_body =
    Trigger
  | BookmarkChange "bookmark option"
  | TagChange "string option"
  | ImportChange "jsval option" "jsval option"

datatype st_reply =
    SDone
  | SAnnotations "annotation list" "string option"
  | SHttp bool nat "string option"

fun the_page where "the_page (SAnnotations items cursor) = Some (items, cursor)" | "the_page _ = None"
fun the_export where "the_export (SHttp ok st d) = Some (ok, st, d)" | "the_export _ = None"

record super_timeline =
  narrative :: bool
  page :: int
  page_size :: nat
  sort_by :: string
  sort_desc :: bool
  search_input :: string
  debounced_search :: string
  date_from :: string
  date_to :: string
  date_active :: bool
  quick :: "string option"
  active_hosts :: "string jsset"
  all_hosts :: bool
  active_sources :: "string jsset"
  all_sources :: bool
  visible_cols :: "string jsset"
  selected_event :: "nat option"
  detail_collapsed :: bool
  compare_events :: "nat list option"
  hide_graph :: bool
  focused_row :: int
  show_bookmarks :: bool
  bookmarks :: "bookmark list"
  event_tags :: "string option jsobj"
  sidebar_collapsed :: bool
  is_building :: bool
  build_error :: "string option"
  is_exporting :: bool
  export_format :: string
  timeline_data :: "timeline_response option"
  annotations :: "annotation list option"
  annotations_loading :: bool
  annotations_failed :: bool

type_synonym 'a st_io = "(super_timeline, st_reply, st_body, 'a) io"

text \<open>The columns stored in the browser; anything but an array of column names is ignored.\<close>

definition column_names :: "string list" where
  "column_names = [''event_id'', ''user'', ''display_name'']"

definition stored_columns :: "string option \<Rightarrow> string jsset" where
  "stored_columns raw = (case parse_json (case raw of Some t \<Rightarrow> t | None \<Rightarrow> ''null'') of
      Some (JArr vs) \<Rightarrow> new_set (concat (map (\<lambda>v. case v of
          JStr k \<Rightarrow> if k \<in> set column_names then [k] else [] | _ \<Rightarrow> []) vs))
    | _ \<Rightarrow> new_set default_visible)"

definition initial_timeline :: "string \<Rightarrow> string \<Rightarrow> string \<Rightarrow> string option \<Rightarrow> super_timeline" where
  "initial_timeline q0 start0 end0 stored = \<lparr>narrative = False, page = 1, page_size = hd page_size_options,
     sort_by = ''datetime'', sort_desc = False, search_input = q0, debounced_search = q0,
     date_from = start0, date_to = end0, date_active = (start0 \<noteq> [] \<or> end0 \<noteq> []), quick = None,
     active_hosts = [], all_hosts = True, active_sources = [], all_sources = True,
     visible_cols = stored_columns stored, selected_event = None, detail_collapsed = False,
     compare_events = None, hide_graph = False, focused_row = -1, show_bookmarks = False, bookmarks = [],
     event_tags = [], sidebar_collapsed = False, is_building = False, build_error = None,
     is_exporting = False, export_format = ''csv'', timeline_data = None, annotations = None,
     annotations_loading = True, annotations_failed = False\<rparr>"

section \<open>The queries\<close>

definition check_sidebar :: "nat option \<Rightarrow> super_timeline \<Rightarrow> super_timeline" where
  "check_sidebar width s = (case width of Some x \<Rightarrow> s\<lparr>sidebar_collapsed := (x < 100)\<rparr> | None \<Rightarrow> s)"

definition status_refetch :: "string option \<Rightarrow> nat option" where
  "status_refetch st = (if st = Some ''BUILDING'' \<or> st = Some ''PENDING'' then Some 5000 else None)"

definition filter_params :: "super_timeline \<Rightarrow> (string \<times> string) list" where
  "filter_params s =
     (if \<not> all_hosts s \<and> 0 < length (active_hosts s) then [(''hosts'', join_with '','' (active_hosts s))] else []) @
     (if \<not> all_sources s \<and> 0 < length (active_sources s) then [(''source'', join_with '','' (active_sources s))] else [])"

definition timeline_params :: "super_timeline \<Rightarrow> (string \<times> string) list" where
  "timeline_params s =
     [(''page'', int_str (page s)), (''limit'', nat_str (page_size s)), (''sort_by'', sort_by s),
      (''sort_dir'', if sort_desc s then ''desc'' else ''asc'')] @
     (if debounced_search s \<noteq> [] then [(''q'', debounced_search s)] else []) @
     (if date_active s then
        (if date_from s \<noteq> [] then [(''date_from'', date_from s)] else []) @
        (if date_to s \<noteq> [] then [(''date_to'', date_to s)] else []) else []) @
     filter_params s"

definition debounce_fires :: "super_timeline \<Rightarrow> super_timeline" where
  "debounce_fires s = s\<lparr>debounced_search := search_input s\<rparr>"

text \<open>The annotations are read page by page, following the cursor; \<open>None\<close> is a spent fuel.\<close>

fun fetch_annotations :: "nat \<Rightarrow> (string \<Rightarrow> string) \<Rightarrow> string \<Rightarrow> string \<Rightarrow> annotation list
    \<Rightarrow> annotation list option st_io" where
  "fetch_annotations 0 enc i cursor rows = Ret None"
| "fetch_annotations (Suc fuel) enc i cursor rows =
     apiGet (''/processing/incident/'' @ i @ ''/annotations?limit=500&after='' @ enc cursor)
       (expect the_page (\<lambda>(items, next_cursor).
          let rows' = rows @ items; cursor' = (case next_cursor of Some c \<Rightarrow> c | None \<Rightarrow> [])
          in if cursor' \<noteq> [] \<and> 10000 \<le> length rows'
             then Raise (Error ''Annotation view exceeds 10,000 records'')
             else if cursor' \<noteq> [] then fetch_annotations fuel enc i cursor' rows'
             else Ret (Some rows')))"

definition incident_changed :: "super_timeline \<Rightarrow> super_timeline" where
  "incident_changed s = s\<lparr>bookmarks := [], event_tags := [], selected_event := None, compare_events := None\<rparr>"

definition annotations_arrived :: "annotation list \<Rightarrow> super_timeline \<Rightarrow> super_timeline" where
  "annotations_arrived rows s = s\<lparr>annotations := Some rows, annotations_loading := False,
     bookmarks := concat (map (\<lambda>row. case an_bookmark row of Some b \<Rightarrow> [b] | None \<Rightarrow> []) rows),
     event_tags := fold (\<lambda>row ob. obj_put (an_uid row) (an_tag row) ob) rows []\<rparr>"

section \<open>Annotations\<close>

definition annotation_path :: "(string \<Rightarrow> string) \<Rightarrow> string \<Rightarrow> string \<Rightarrow> string" where
  "annotation_path enc i hash = ''/processing/incident/'' @ i @ ''/annotations/'' @ enc hash"

definition save_annotation :: "(string \<Rightarrow> string) \<Rightarrow> string \<Rightarrow> string \<Rightarrow> st_body \<Rightarrow> bool st_io" where
  "save_annotation enc i hash change = Read (\<lambda>s0.
     if i = [] \<or> annotations_loading s0 \<or> annotations_failed s0
     then Emit (ToastError ''Annotations are unavailable. Wait for loading or retry the page.'') (Ret False)
     else tryCatch
       (apiPatch (annotation_path enc i hash) change (\<lambda>_.
          Emit (Invalidate [''timeline-annotations'', i]) (Ret True)))
       (\<lambda>err. Emit (ToastError (message_or ''Annotation was not saved'' err)) (Ret False)))"








definition field_text :: "string \<Rightarrow> jsval option \<Rightarrow> string" where
  "field_text d v = js_string (nullish_or v (Some (JStr d)))"

definition event_bookmark :: "event_row \<Rightarrow> string \<Rightarrow> string \<Rightarrow> bookmark" where
  "event_bookmark ev note now = \<lparr>bm_hash = hash_event ev, bm_note = note, bm_created = now,
     bm_datetime = field_text [] (row_get ev ''datetime''),
     bm_host = field_text ''UNKNOWN'' (nullish_or (row_get ev ''host'') (row_get ev ''computer'')),
     bm_message = field_text [] (nullish_or (row_get ev ''message'') (row_get ev ''description'')),
     bm_source = field_text [] (row_get ev ''source_short'')\<rparr>"

definition toggle_bookmark :: "(string \<Rightarrow> string) \<Rightarrow> string \<Rightarrow> event_row \<Rightarrow> string \<Rightarrow> string \<Rightarrow> bool st_io" where
  "toggle_bookmark enc i ev note now = Read (\<lambda>s0.
     let hash = hash_event ev
     in save_annotation enc i hash (BookmarkChange
          (if list_ex (\<lambda>b. bm_hash b = hash) (bookmarks s0) then None else Some (event_bookmark ev note now))))"

definition set_event_tag :: "(string \<Rightarrow> string) \<Rightarrow> string \<Rightarrow> string \<Rightarrow> string option \<Rightarrow> bool st_io" where
  "set_event_tag enc i hash tag = save_annotation enc i hash (TagChange tag)"

section \<open>Building, sorting and filtering\<close>

definition trigger_build :: "string \<Rightarrow> unit st_io" where
  "trigger_build i =
     Update (\<lambda>s. s\<lparr>is_building := True\<rparr>)
    (Update (\<lambda>s. s\<lparr>build_error := None\<rparr>)
    (tryFinally
      (tryCatch
        (apiPost (''/processing/incident/'' @ i @ ''/super-timeline/trigger'') Trigger (\<lambda>_.
           Emit (Invalidate [''super-timeline-status'', i]) Done))
        (\<lambda>err. Update (\<lambda>s. s\<lparr>build_error := Some (message_or ''Build trigger failed'' err)\<rparr>) Done))
      (Update (\<lambda>s. s\<lparr>is_building := False\<rparr>) Done)))"

definition handle_sort :: "string \<Rightarrow> super_timeline \<Rightarrow> super_timeline" where
  "handle_sort col s =
     (if sort_by s = col then s\<lparr>sort_desc := \<not> sort_desc s, page := 1\<rparr>
      else s\<lparr>sort_by := col, sort_desc := False, page := 1\<rparr>)"

text \<open>One facet, hosts or sources: whether all are shown, and the names picked.\<close>

type_synonym facet = "bool \<times> string jsset"

definition toggle_facet :: "string list \<Rightarrow> string \<Rightarrow> facet \<Rightarrow> facet" where
  "toggle_facet known x f =
     (if fst f then (False, fold set_add (filter (\<lambda>y. y \<noteq> x) known) [])
      else let next_set = set_toggle x (snd f)
           in if length next_set = 0 \<or> length next_set = length known then (True, []) else (False, next_set))"

definition known_hosts :: "super_timeline \<Rightarrow> string list" where
  "known_hosts s = (case timeline_data s of Some d \<Rightarrow> tl_hosts d | None \<Rightarrow> [])"

definition known_sources :: "super_timeline \<Rightarrow> string list" where
  "known_sources s = (case timeline_data s of Some d \<Rightarrow> tl_sources d | None \<Rightarrow> [])"

definition toggle_host :: "string \<Rightarrow> super_timeline \<Rightarrow> super_timeline" where
  "toggle_host h s = (let f = toggle_facet (known_hosts s) h (all_hosts s, active_hosts s)
     in s\<lparr>all_hosts := fst f, active_hosts := snd f, page := 1\<rparr>)"

definition toggle_source :: "string \<Rightarrow> super_timeline \<Rightarrow> super_timeline" where
  "toggle_source x s = (let f = toggle_facet (known_sources s) x (all_sources s, active_sources s)
     in s\<lparr>all_sources := fst f, active_sources := snd f, page := 1\<rparr>)"

definition apply_quick_filter :: "quick_filter \<Rightarrow> super_timeline \<Rightarrow> super_timeline" where
  "apply_quick_filter qf s =
     (if quick s = Some (qf_id qf)
      then s\<lparr>search_input := [], all_sources := True, active_sources := [], quick := None, page := 1\<rparr>
      else let s1 = (case qf_q qf of Some q \<Rightarrow> if q = [] then s else s\<lparr>search_input := q\<rparr> | None \<Rightarrow> s);
               s2 = (case qf_sources qf of
                       Some ss \<Rightarrow> s1\<lparr>all_sources := False, active_sources := new_set ss\<rparr>
                     | None \<Rightarrow> s1\<lparr>all_sources := True, active_sources := []\<rparr>)
           in s2\<lparr>quick := Some (qf_id qf), page := 1\<rparr>)"

text \<open>\<open>from.replace(" ", "T").replace(/(?:Z|\+00:00)$/, "")\<close>.\<close>

definition strip_zone :: "string \<Rightarrow> string" where
  "strip_zone t =
     (if length t \<ge> 1 \<and> last t = CHR ''Z'' then butlast t
      else if length t \<ge> 6 \<and> drop (length t - 6) t = ''+00:00'' then take (length t - 6) t else t)"

definition chart_time :: "string \<Rightarrow> string" where
  "chart_time t = strip_zone (replace_first CHR '' '' CHR ''T'' t)"

definition select_chart_window :: "string \<Rightarrow> string \<Rightarrow> super_timeline \<Rightarrow> super_timeline" where
  "select_chart_window from to s =
     s\<lparr>date_from := chart_time from, date_to := chart_time to, date_active := True, page := 1\<rparr>"

definition clear_date_filter :: "super_timeline \<Rightarrow> super_timeline" where
  "clear_date_filter s = s\<lparr>date_active := False, date_from := [], date_to := []\<rparr>"

definition show_all_hosts :: "super_timeline \<Rightarrow> super_timeline" where
  "show_all_hosts s = s\<lparr>all_hosts := True, active_hosts := [], page := 1\<rparr>"

definition show_all_sources :: "super_timeline \<Rightarrow> super_timeline" where
  "show_all_sources s = s\<lparr>all_sources := True, active_sources := [], page := 1\<rparr>"

definition filter_host :: "string \<Rightarrow> super_timeline \<Rightarrow> super_timeline" where
  "filter_host h s = s\<lparr>all_hosts := False, active_hosts := [h], page := 1\<rparr>"

definition clear_all :: "super_timeline \<Rightarrow> super_timeline" where
  "clear_all s = s\<lparr>search_input := [], debounced_search := [], all_hosts := True, active_hosts := [],
     all_sources := True, active_sources := [], date_active := False, date_from := [], date_to := [],
     quick := None, page := 1\<rparr>"

definition active_filter_count :: "super_timeline \<Rightarrow> nat" where
  "active_filter_count s = (if debounced_search s \<noteq> [] then 1 else 0) + (if date_active s then 1 else 0) +
     (if all_hosts s then 0 else 1) + (if all_sources s then 0 else 1)"

definition toggle_col :: "string \<Rightarrow> unit st_io" where
  "toggle_col k = Read (\<lambda>s0. let next_set = set_toggle k (visible_cols s0) in
     Update (\<lambda>s. s\<lparr>visible_cols := next_set\<rparr>)
    (Emit (LocalSet col_storage_key (stringify (JArr (map JStr next_set)))) Done))"

definition row_click :: "bool \<Rightarrow> nat \<Rightarrow> int \<Rightarrow> super_timeline \<Rightarrow> super_timeline" where
  "row_click shift row i s =
     (if shift then s\<lparr>compare_events := Some (case compare_events s of
          None \<Rightarrow> [row]
        | Some rows \<Rightarrow> if row \<in> set rows then filter (\<lambda>x. x \<noteq> row) rows else rows @ [row])\<rparr>
      else s\<lparr>selected_event := Some row, detail_collapsed := False, focused_row := i\<rparr>)"

definition close_detail :: "super_timeline \<Rightarrow> super_timeline" where
  "close_detail s = s\<lparr>selected_event := None, detail_collapsed := False\<rparr>"

definition filter_search :: "string \<Rightarrow> super_timeline \<Rightarrow> super_timeline" where
  "filter_search q s = s\<lparr>search_input := q, page := 1\<rparr>"

section \<open>Export and caches\<close>

definition export_params :: "super_timeline \<Rightarrow> (string \<times> string) list" where
  "export_params s = [(''format'', export_format s)] @
     (if debounced_search s \<noteq> [] then [(''q'', debounced_search s)] else []) @
     (if date_active s \<and> date_from s \<noteq> [] then [(''date_from'', date_from s)] else []) @
     (if date_active s \<and> date_to s \<noteq> [] then [(''date_to'', date_to s)] else []) @
     filter_params s"

definition handle_export :: "string option \<Rightarrow> ((string \<times> string) list \<Rightarrow> string) \<Rightarrow> string \<Rightarrow> unit st_io" where
  "handle_export base query i = Read (\<lambda>s0.
     if i = [] then Done
     else Update (\<lambda>s. s\<lparr>is_exporting := True\<rparr>)
      (tryFinally
        (tryCatch
          (call (Request GET ((case base of Some b \<Rightarrow> if b = [] then ''/api/v1'' else b | None \<Rightarrow> ''/api/v1'')
               @ ''/evidence/super-timeline/'' @ i @ ''/export?'' @ query (export_params s0)) None)
            (expect the_export (\<lambda>(ok, st, detail).
               if \<not> ok then Raise (Error (case detail of
                   Some d \<Rightarrow> if d = [] then ''Export failed ('' @ nat_str st @ '')'' else d
                 | None \<Rightarrow> ''Export failed ('' @ nat_str st @ '')''))
               else Emit (Download (''super-timeline-'' @ i @ ''.'' @
                      (if export_format s0 = ''stix'' then ''json'' else export_format s0))) Done)))
          (\<lambda>err. Emit (ToastError (message_or ''Export failed'' err)) Done))
        (Update (\<lambda>s. s\<lparr>is_exporting := False\<rparr>) Done)))"

definition highlight_cache :: "super_timeline \<Rightarrow> (nat \<times> highlighted) list" where
  "highlight_cache s = (case timeline_data s of
      None \<Rightarrow> []
    | Some d \<Rightarrow> (let terms = dsl_q (parse_dsl_query (debounced_search s))
        in if debounced_search s = [] \<or> terms = [] then []
           else map (\<lambda>(i, row). (i, highlight_terms
             (field_text [] (nullish_or (row_get row ''message'') (row_get row ''description''))) terms)) (tl_rows d)))"

definition event_hash_cache :: "super_timeline \<Rightarrow> (nat \<times> string) list" where
  "event_hash_cache s = (case timeline_data s of
      None \<Rightarrow> [] | Some d \<Rightarrow> map (\<lambda>(i, row). (i, hash_event row)) (tl_rows d))"

section \<open>Facets\<close>

text \<open>
  Hosts and sources obey one contract: a control that toggles a name in a facet.  The names shown
  are all of them when the facet sends no parameter, else the ones picked.
\<close>

definition shown :: "string list \<Rightarrow> facet \<Rightarrow> string set" where
  "shown known f = (if fst f \<or> length (snd f) = 0 then set known else set (snd f))"

definition facet_ok :: "string list \<Rightarrow> facet \<Rightarrow> bool" where
  "facet_ok known f \<longleftrightarrow> distinct (snd f) \<and> set (snd f) \<subseteq> set known \<and>
     (if fst f then snd f = [] else snd f \<noteq> [] \<and> length (snd f) < length known)"

definition flipped :: "string list \<Rightarrow> string \<Rightarrow> string set \<Rightarrow> string set" where
  "flipped known x S = (let T = (if x \<in> S then S - {x} else insert x S) in if T = {} then set known else T)"

lemma facet_full:
  assumes "distinct xs" "distinct known" "set xs \<subseteq> set known"
  shows "length xs = length known \<longleftrightarrow> set xs = set known"
proof
  assume "length xs = length known"
  then have "card (set xs) = card (set known)" using assms by (simp add: distinct_card)
  then show "set xs = set known" using assms(3) by (intro card_subset_eq) auto
next
  assume "set xs = set known"
  then show "length xs = length known" using assms by (metis distinct_card)
qed

lemma set_filter_differs: "set (filter (\<lambda>y. y \<noteq> x) xs) = set xs - {x}"
  by auto

lemma toggle_facet_flips:
  assumes d: "distinct known" and l: "2 \<le> length known" and x: "x \<in> set known" and ok: "facet_ok known f"
  shows "facet_ok known (toggle_facet known x f) \<and>
    shown known (toggle_facet known x f) = flipped known x (shown known f)"
proof (cases "fst f")
  case True
  define r where "r = filter (\<lambda>y. y \<noteq> x) known"
  have rs: "set r = set known - {x}" unfolding r_def by (rule set_filter_differs)
  have dr: "distinct r" using d by (simp add: r_def)
  have lr: "length r = length known - 1"
    using distinct_card [OF dr] distinct_card [OF d] x by (simp add: rs)
  have ne: "r \<noteq> []" using lr l by (cases r) auto
  have t: "toggle_facet known x f = (False, r)"
    using True fold_set_add_distinct [of "[]" r] dr by (simp add: toggle_facet_def r_def)
  have "snd f = []" using True ok by (simp add: facet_ok_def)
  then have "shown known f = set known" by (simp add: shown_def)
  then have "flipped known x (shown known f) = (if set r = {} then set known else set r)"
    using x by (simp add: flipped_def Let_def rs)
  moreover have "facet_ok known (False, r)"
    unfolding facet_ok_def using dr ne lr l rs by auto
  ultimately show ?thesis unfolding t using ne by (simp add: shown_def)
next
  case False
  define n where "n = set_toggle x (snd f)"
  have n: "distinct n" "set n \<subseteq> set known"
    using ok x by (auto simp: n_def facet_ok_def set_set_toggle)
  have full: "length n = length known \<longleftrightarrow> set n = set known" by (rule facet_full [OF n(1) d n(2)])
  have le: "length n \<le> length known"
    using card_mono [OF finite_set n(2)] distinct_card [OF n(1)] distinct_card [OF d] by simp
  have sf: "shown known f = set (snd f)" using False ok by (simp add: shown_def facet_ok_def)
  have fl: "flipped known x (shown known f) = (if set n = {} then set known else set n)"
    unfolding sf flipped_def n_def set_set_toggle Let_def by (rule refl)
  show ?thesis
  proof (cases "n = [] \<or> length n = length known")
    case True
    then have "toggle_facet known x f = (True, [])" using False by (simp add: toggle_facet_def n_def Let_def)
    moreover have "flipped known x (shown known f) = set known"
      using True unfolding fl full by (elim disjE) simp_all
    ultimately show ?thesis by (simp add: facet_ok_def shown_def)
  next
    case not: False
    then have "toggle_facet known x f = (False, n)" using False by (simp add: toggle_facet_def n_def Let_def)
    moreover have "facet_ok known (False, n)" unfolding facet_ok_def using not le n by simp
    moreover have "shown known (False, n) = set n" using not by (simp add: shown_def)
    moreover have "set n \<noteq> {}" using not by simp
    ultimately show ?thesis unfolding fl by simp
  qed
qed

locale facet_control =
  fixes known :: "'s \<Rightarrow> string list"
    and facet_of :: "'s \<Rightarrow> facet"
    and toggle :: "string \<Rightarrow> 's \<Rightarrow> 's"
  assumes toggles: "facet_of (toggle x s) = toggle_facet (known s) x (facet_of s)"
    and known_kept: "known (toggle x s) = known s"
begin

lemma flips:
  assumes "distinct (known s)" and "2 \<le> length (known s)" and "x \<in> set (known s)"
    and "facet_ok (known s) (facet_of s)"
  shows "facet_ok (known (toggle x s)) (facet_of (toggle x s))"
    and "shown (known s) (facet_of (toggle x s)) = flipped (known s) x (shown (known s) (facet_of s))"
  using toggle_facet_flips [OF assms] by (simp_all add: toggles known_kept)

end

definition host_facet :: "super_timeline \<Rightarrow> facet" where
  "host_facet s = (all_hosts s, active_hosts s)"

definition source_facet :: "super_timeline \<Rightarrow> facet" where
  "source_facet s = (all_sources s, active_sources s)"

interpretation hosts: facet_control known_hosts host_facet toggle_host
  by unfold_locales (simp_all add: host_facet_def toggle_host_def Let_def known_hosts_def)

interpretation sources: facet_control known_sources source_facet toggle_source
  by unfold_locales (simp_all add: source_facet_def toggle_source_def Let_def known_sources_def)

section \<open>Properties\<close>

text \<open>With at least two names known, clicking a host (or a source) flips exactly that name among those
  shown, going back to all when none would be left, and never leaves the facet picking all or none.\<close>

theorem facet_click_flips:
  assumes "distinct (known_hosts s)" and "2 \<le> length (known_hosts s)" and "h \<in> set (known_hosts s)"
    and "facet_ok (known_hosts s) (host_facet s)"
    and "distinct (known_sources s)" and "2 \<le> length (known_sources s)" and "x \<in> set (known_sources s)"
    and "facet_ok (known_sources s) (source_facet s)"
  shows "facet_ok (known_hosts s) (host_facet (toggle_host h s)) \<and>
    shown (known_hosts s) (host_facet (toggle_host h s)) = flipped (known_hosts s) h (shown (known_hosts s) (host_facet s)) \<and>
    facet_ok (known_sources s) (source_facet (toggle_source x s)) \<and>
    shown (known_sources s) (source_facet (toggle_source x s)) =
      flipped (known_sources s) x (shown (known_sources s) (source_facet s)) \<and>
    page (toggle_host h s) = 1 \<and> page (toggle_source x s) = 1"
  using hosts.flips [OF assms(1-4)] sources.flips [OF assms(5-8)]
  by (simp add: hosts.known_kept sources.known_kept) (simp add: toggle_host_def toggle_source_def Let_def)

definition sample_timeline :: super_timeline where
  "sample_timeline = (initial_timeline [] [] [] (Some ''[]''))\<lparr>timeline_data := Some
     \<lparr>tl_rows = [], tl_total = 0, tl_hosts = [''a'', ''b'', ''c''], tl_sources = [''EVTX'', ''MFT'']\<rparr>\<rparr>"

theorem facet_click_flips_witness:
  "shown [''a'', ''b'', ''c''] (host_facet (toggle_host ''b'' sample_timeline)) = {''a'', ''c''}"
proof -
  have k: "known_hosts sample_timeline = [''a'', ''b'', ''c'']" "known_sources sample_timeline = [''EVTX'', ''MFT'']"
    "host_facet sample_timeline = (True, [])" "source_facet sample_timeline = (True, [])"
    by (simp_all add: sample_timeline_def known_hosts_def known_sources_def host_facet_def source_facet_def
        initial_timeline_def)
  show ?thesis
    using facet_click_flips [of sample_timeline "''b''" "''MFT''"]
    by (simp add: k facet_ok_def) (auto simp: shown_def flipped_def Let_def)
qed

text \<open>The export covers what the table shows: after its format it sends the parameters of the table's
  query that come after the four of the page and the order, in the same order.\<close>

theorem export_matches_table:
  "export_params s = (''format'', export_format s) # drop 4 (timeline_params s)"
  by (simp add: export_params_def timeline_params_def)

lemma fetch_enough:
  assumes contract: "\<And>w rq items c w'. srv w rq = (Inr (SAnnotations items (Some c)), w') \<Longrightarrow> c \<noteq> [] \<Longrightarrow> items \<noteq> []"
    and "10000 \<le> fuel + length rows" and "0 < fuel"
  shows "outcome_of srv yes (fetch_annotations fuel enc i cur rows) w s \<noteq> Inr None"
  using assms(2,3)
proof (induction fuel arbitrary: cur rows w)
  case (Suc fuel)
  let ?rq = "Request GET (''/processing/incident/'' @ i @ ''/annotations?limit=500&after='' @ enc cur) None"
  obtain x w1 where x: "srv w ?rq = (x, w1)" by (cases "srv w ?rq")
  show ?case
  proof (cases "\<exists>items c. x = Inr (SAnnotations items (Some c)) \<and> c \<noteq> [] \<and> length (rows @ items) < 10000")
    case True
    then obtain items c where i: "x = Inr (SAnnotations items (Some c))" "c \<noteq> []" "length (rows @ items) < 10000"
      by blast
    then have ne: "items \<noteq> []" using contract x by blast
    then have "1 \<le> length items" by (cases items) auto
    then have "10000 \<le> fuel + length (rows @ items)" using Suc.prems by simp
    moreover from this i(3) have "0 < fuel" by simp
    ultimately have "outcome_of srv yes (fetch_annotations fuel enc i c (rows @ items)) w1 s \<noteq> Inr None"
      by (rule Suc.IH)
    then show ?thesis using x i by (simp add: io_simps)
  next
    case False
    then show ?thesis using x
      by (cases x) (auto simp: io_simps not_less split: option.split st_reply.split elim!: the_page.elims)
  qed
qed simp

text \<open>C35. Reading the annotations ends: whenever the server gives a next cursor only with at least one item,
  at most ten thousand pages are read, whatever the answers, before the rows are returned or an error is
  thrown.\<close>

theorem annotations_read_ends:
  assumes "\<And>w rq items c w'. srv w rq = (Inr (SAnnotations items (Some c)), w') \<Longrightarrow> c \<noteq> [] \<Longrightarrow> items \<noteq> []"
  shows "outcome_of srv yes (fetch_annotations 10000 enc i [] []) w s \<noteq> Inr None"
  by (rule fetch_enough [OF assms]) simp_all

definition one_annotation :: annotation where
  "one_annotation = \<lparr>an_uid = ''e1'', an_bookmark = None, an_tag = Some ''confirmed''\<rparr>"

theorem annotations_read_ends_witness:
  "outcome_of (stateless (\<lambda>_. Inr (SAnnotations [one_annotation] (Some ''next'')))) True
     (fetch_annotations 10000 (\<lambda>c. c) ''i1'' [] []) () sample_timeline \<noteq> Inr None"
  by (rule annotations_read_ends) (simp add: stateless_def)







end
