(* ===== verification/TimelinePanels.thy ===== *)
theory TimelinePanels
  imports SuperTimeline Evidence Detections Assistant "HOL-Library.List_Lexorder" "HOL-Library.Char_ord"
    "HOL-Library.Sorting_Algorithms"
begin

text \<open>
  The panels of the super timeline: \<open>SuperTimelineTable.tsx\<close>, \<open>SuperTimelinePanels.tsx\<close> (the event inspector and
  the comparison), \<open>NarrativeStoryline.tsx\<close>, \<open>SuperTimelineChart.tsx\<close>, \<open>SuperTimelineStatus.tsx\<close>,
  \<open>SuperTimelineCorrelations.tsx\<close>, \<open>SuperTimelineToolbar.tsx\<close> and \<open>SuperTimelineFilters.tsx\<close>.  The order
  of \<open>localeCompare\<close> and the formatting of numbers are parameters.
\<close>

section \<open>The table\<close>

definition row_text :: "event_row \<Rightarrow> string list \<Rightarrow> string \<Rightarrow> string" where
  "row_text row ks d = string_or (fold (\<lambda>k v. nullish_or v (row_get row k)) ks None) d"

text \<open>The columns, whatever optional ones were chosen in the toolbar.\<close>

definition table_columns :: "string jsset \<Rightarrow> string list" where
  "table_columns visible = [''seq'', ''host'', ''datetime'', ''source'', ''message'', ''tag'']"

definition sortable_header :: "super_timeline \<Rightarrow> string \<Rightarrow> bool \<times> bool" where
  "sortable_header s col = (sort_by s = col \<and> \<not> sort_desc s, sort_by s = col \<and> sort_desc s)"

text \<open>The number of a row; \<open>num\<close> is \<open>Number(v) + 1\<close> of a value that is no integer.\<close>

definition seq_cell :: "(jsval \<Rightarrow> string) \<Rightarrow> super_timeline \<Rightarrow> nat \<Rightarrow> event_row \<Rightarrow> string" where
  "seq_cell num s i row = (case nullish_or (row_get row ''event_seq'') None of
     Some (JNum n) \<Rightarrow> int_str (n + 1) | Some v \<Rightarrow> num v
   | None \<Rightarrow> int_str ((page s - 1) * int (page_size s) + int i + 1))"

definition event_pin :: "event_row \<Rightarrow> jsval jsobj" where
  "event_pin row = [(''id'', JStr (hash_event row)), (''type'', JStr ''event''),
     (''title'', JStr (truncate_text 60 (Some (JStr (row_text row [''message'', ''description''] []))))),
     (''content'', JStr (row_text row [''message'', ''description''] [])),
     (''timestamp'', JStr (row_text row [''datetime'', ''timestamp''] [])),
     (''metadata'', JObj [(''host'', JStr (row_text row [''host''] [])), (''source'', JStr (row_text row [''source_short''] []))])]"

definition is_pinned :: "jsval list \<Rightarrow> event_row \<Rightarrow> bool" where
  "is_pinned pins row \<longleftrightarrow> list_ex (\<lambda>p. item_id p = Some (JStr (hash_event row))) pins"

definition host_cell :: "string list \<Rightarrow> event_row \<Rightarrow> string \<times> host_color" where
  "host_cell known row = (let h = row_text row [''host'', ''computer''] ''UNKNOWN'' in (h, get_host_color h known))"

definition source_short :: "event_row \<Rightarrow> string" where
  "source_short row = to_upper (row_text row [''source_short''] [])"

definition source_cell :: "event_row \<Rightarrow> string \<times> string \<times> string" where
  "source_cell row = (source_short row, get_source_color (Some (source_short row)),
     truncate_text 18 (Some (JStr (row_text row [''source''] em_dash))))"

text \<open>\<open>String(row[k] || d)\<close>.\<close>

definition truthy_text :: "event_row \<Rightarrow> string \<Rightarrow> string \<Rightarrow> string" where
  "truthy_text row k d = (if truthy (row_get row k) then js_string (row_get row k) else d)"

definition message_cell :: "highlighted option \<Rightarrow> event_row \<Rightarrow> string option \<times> highlighted" where
  "message_cell h row = (let sev = to_lower (truthy_text row ''severity'' [])
     in (if sev \<in> set [''critical'', ''high'', ''medium'', ''low''] then Some sev else None,
         case h of Some x \<Rightarrow> x | None \<Rightarrow> Plain (row_text row [''message'', ''description''] em_dash)))"

definition event_tag_meta :: "(string \<times> string \<times> string) list" where
  "event_tag_meta = [(''confirmed'', ''C'', ''border-red-500/50 bg-red-500/15 text-red-400''),
     (''suspicious'', ''S'', ''border-orange-500/50 bg-orange-500/15 text-orange-400''),
     (''interesting'', ''I'', ''border-blue-500/50 bg-blue-500/15 text-blue-400''),
     (''fp'', ''F'', ''border-border/40 bg-secondary/30 text-muted-foreground line-through'')]"

definition tag_cell :: "super_timeline \<Rightarrow> event_row \<Rightarrow> string" where
  "tag_cell s row = (case map_of (event_tags s) (hash_event row) of
     Some (Some t) \<Rightarrow> (case map_of event_tag_meta t of Some (short, c) \<Rightarrow> short | None \<Rightarrow> ''+'')
   | _ \<Rightarrow> ''+'')"

text \<open>A click on the tag of a row stops there.\<close>

definition tag_clicked :: "event_row \<Rightarrow> super_timeline \<Rightarrow> super_timeline" where
  "tag_clicked row s = s"

definition row_class :: "super_timeline \<Rightarrow> nat set \<Rightarrow> nat \<Rightarrow> event_row \<Rightarrow> string" where
  "row_class s lateral i row = (let src = source_short row in
     if selected_event s = Some i then ''ring-1 ring-inset ring-primary/60 bg-primary/10 z-10''
     else if src \<in> {''SIGMA'', ''HAYABUSA''} then ''bg-red-500/5 border-l-red-500 hover:bg-red-500/10''
     else if src \<in> {''MFT'', ''FILE''} then ''bg-green-500/5 border-l-green-500 hover:bg-green-500/10''
     else if src \<in> {''REG'', ''REGISTRY''} then ''bg-purple-500/5 border-l-purple-500 hover:bg-purple-500/10''
     else if src \<in> {''EVTX'', ''LOG''} then ''bg-blue-500/5 border-l-blue-500 hover:bg-blue-500/10''
     else if i \<in> lateral then ''bg-orange-500/5 border-l-orange-500 hover:bg-orange-500/10'' else ''hover:bg-secondary/40'')"

subsection \<open>The footer\<close>

definition last_page :: "super_timeline \<Rightarrow> nat \<Rightarrow> int" where
  "last_page s tot = int ((tot + page_size s - 1) div page_size s)"

definition footer_shown :: "'a list \<Rightarrow> bool" where
  "footer_shown rows \<longleftrightarrow> rows \<noteq> []"

definition range_first :: "super_timeline \<Rightarrow> int" where
  "range_first s = (page s - 1) * int (page_size s) + 1"

definition range_last :: "super_timeline \<Rightarrow> nat \<Rightarrow> int" where
  "range_last s tot = min (page s * int (page_size s)) (int tot)"

definition set_page :: "int \<Rightarrow> super_timeline \<Rightarrow> super_timeline" where
  "set_page p s = s\<lparr>page := p\<rparr>"

definition set_page_size :: "nat \<Rightarrow> super_timeline \<Rightarrow> super_timeline" where
  "set_page_size n s = s\<lparr>page_size := n\<rparr>"

definition jump_enter :: "string \<Rightarrow> nat \<Rightarrow> super_timeline \<Rightarrow> super_timeline \<times> string" where
  "jump_enter input tot s = (case parse_int input of
     Some p \<Rightarrow> if 1 \<le> p \<and> p \<le> last_page s tot then (set_page p s, []) else (s, input)
   | None \<Rightarrow> (s, input))"

definition prev_offered :: "bool \<Rightarrow> super_timeline \<Rightarrow> bool" where
  "prev_offered loading s \<longleftrightarrow> 1 < page s \<and> \<not> loading"

definition next_offered :: "bool \<Rightarrow> nat \<Rightarrow> super_timeline \<Rightarrow> bool" where
  "next_offered loading tot s \<longleftrightarrow> page s < last_page s tot \<and> \<not> loading"

inductive footer_click :: "bool \<Rightarrow> nat \<Rightarrow> super_timeline \<Rightarrow> super_timeline \<Rightarrow> bool" for loading tot where
  goes_first: "prev_offered loading s \<Longrightarrow> footer_click loading tot s (set_page 1 s)"
| goes_prev: "prev_offered loading s \<Longrightarrow> footer_click loading tot s (set_page (max 1 (page s - 1)) s)"
| goes_next: "next_offered loading tot s \<Longrightarrow> footer_click loading tot s (set_page (page s + 1) s)"
| goes_last: "next_offered loading tot s \<Longrightarrow> footer_click loading tot s (set_page (last_page s tot) s)"
| jumps: "footer_click loading tot s (fst (jump_enter input tot s))"
| resizes: "n \<in> set page_size_options \<Longrightarrow> footer_click loading tot s (set_page_size n s)"

text \<open>The bookmarks, shown instead of the rows.\<close>

definition bookmark_lines :: "super_timeline \<Rightarrow> (string \<times> string \<times> string \<times> string \<times> string option) list" where
  "bookmark_lines s = map (\<lambda>b. (bm_datetime b, bm_host b, bm_source b, bm_message b,
     if bm_note b = [] then None else Some (''NOTE: '' @ bm_note b))) (bookmarks s)"

definition remove_bookmark :: "(string \<Rightarrow> string) \<Rightarrow> string \<Rightarrow> string \<Rightarrow> bool st_io" where
  "remove_bookmark enc i hash = save_annotation enc i hash (BookmarkChange None)"

section \<open>The event inspector\<close>

text \<open>The panel stays mounted while another event is selected: only \<open>ip_event\<close> changes then.\<close>

record inspector =
  ip_event :: event_row
  ip_note :: string
  ip_saving :: bool
  ip_copied :: "string option"

definition open_inspector :: "event_row \<Rightarrow> inspector" where
  "open_inspector ev = \<lparr>ip_event = ev, ip_note = [], ip_saving = False, ip_copied = None\<rparr>"

definition show_event :: "event_row \<Rightarrow> inspector \<Rightarrow> inspector" where
  "show_event ev p = p\<lparr>ip_event := ev\<rparr>"

definition type_note :: "string \<Rightarrow> inspector \<Rightarrow> inspector" where
  "type_note t p = p\<lparr>ip_note := t\<rparr>"

definition event_host :: "event_row \<Rightarrow> string" where
  "event_host ev = row_text ev [''host'', ''computer''] ''UNKNOWN''"

definition event_message :: "event_row \<Rightarrow> string" where
  "event_message ev = row_text ev [''message'', ''description''] []"

definition event_iocs :: "event_row \<Rightarrow> (ioc_type \<times> string) list" where
  "event_iocs ev = detect_iocs (event_message ev @ '' '' @ stringify (JObj ev))"

definition ioc_class :: "ioc_type \<Rightarrow> string" where
  "ioc_class t = (case t of IPv4 \<Rightarrow> ''border-cyan-500/40 bg-cyan-500/10 text-cyan-400''
     | Domain \<Rightarrow> ''border-green-500/40 bg-green-500/10 text-green-400''
     | _ \<Rightarrow> ''border-purple-500/40 bg-purple-500/10 text-purple-400'')"

text \<open>\<open>typeof value === "object"\<close> holds for arrays and \<open>null\<close> too.\<close>

definition format_value :: "jsval \<Rightarrow> string" where
  "format_value v = (case v of JArr _ \<Rightarrow> pretty 0 v | JObj _ \<Rightarrow> pretty 0 v | JNull \<Rightarrow> ''null'' | _ \<Rightarrow> js_string (Some v))"

definition source_text :: "event_row \<Rightarrow> string" where
  "source_text ev = to_lower (to_upper (truthy_text ev ''source_short'' []) @ '' '' @ truthy_text ev ''source'' []
     @ '' '' @ truthy_text ev ''source_artifact'' [])"

definition platform_of :: "string \<Rightarrow> string" where
  "platform_of t =
     (if list_ex (str_includes t) [''linux'', ''syslog'', ''journal'', ''auditd'', ''apt'', ''dpkg''] then ''LINUX''
      else if list_ex (str_includes t) [''mac'', ''darwin'', ''quarantine'', ''unified log''] then ''MACOS'' else ''WINDOWS'')"

definition first_truthy :: "event_row \<Rightarrow> string \<Rightarrow> string \<Rightarrow> jsval option" where
  "first_truthy ev a b = (if truthy (row_get ev a) then row_get ev a else row_get ev b)"

definition has_value :: "jsval option \<Rightarrow> bool" where
  "has_value v \<longleftrightarrow> v \<noteq> None \<and> v \<noteq> Some JNull \<and> v \<noteq> Some (JStr [])"

definition normalized_fields :: "event_row \<Rightarrow> (string \<times> string) list" where
  "normalized_fields ev = map (\<lambda>(l, v). (l, format_value (the v))) (filter (\<lambda>(l, v). has_value v)
     [(''EVENT ID'', row_get ev ''event_id''), (''ACTOR / USER'', first_truthy ev ''actor'' ''user''),
      (''TARGET'', row_get ev ''target''), (''ACTION'', row_get ev ''action''), (''RESULT'', row_get ev ''result''),
      (''CATEGORY'', row_get ev ''category''), (''SEVERITY'', first_truthy ev ''severity'' ''level''),
      (''PROCESS'', row_get ev ''process''), (''COMMAND LINE'', row_get ev ''command_line''),
      (''SOURCE IP'', row_get ev ''source_ip''), (''DESTINATION IP'', row_get ev ''dest_ip''),
      (''SOURCE PORT'', row_get ev ''source_port''), (''DESTINATION PORT'', row_get ev ''dest_port''),
      (''HASHES'', row_get ev ''hashes''), (''ATT&CK'', row_get ev ''mitre_techniques'')])"

definition is_process_event :: "event_row \<Rightarrow> bool" where
  "is_process_event ev \<longleftrightarrow> truthy_text ev ''event_id'' [] \<in> {''4688'', ''1''}
     \<or> to_upper (truthy_text ev ''source_short'' []) = ''SYSMON''
     \<or> str_includes (to_lower (event_message ev)) ''process creation''"

text \<open>\<open>a || b || d\<close> as texts, and the lineage: process ids and base names of parent and process.\<close>

definition any_truthy :: "event_row \<Rightarrow> string list \<Rightarrow> string \<Rightarrow> string" where
  "any_truthy ev ks d = fold (\<lambda>k x. truthy_text ev k x) (rev ks) d"

definition process_tree :: "event_row \<Rightarrow> (string \<times> string) \<times> (string \<times> string)" where
  "process_tree ev =
     ((truthy_text ev ''parent_process_id'' em_dash,
       base_name (any_truthy ev [''parent_process_name'', ''parent_image''] ''Unknown Parent'')),
      (truthy_text ev ''process_id'' em_dash,
       base_name (any_truthy ev [''process_name'', ''image'', ''display_name''] ''Current Process'')))"

text \<open>The attributes with what is shown and what their copy button puts on the clipboard.\<close>

definition attribute_rows :: "event_row \<Rightarrow> (string \<times> string \<times> string) list" where
  "attribute_rows ev = map (\<lambda>(k, v). (k, format_value v, js_string (Some v)))
     (filter (\<lambda>(k, v). k \<notin> {''message'', ''description'', ''datetime'', ''timestamp''} \<and> has_value (Some v)) ev)"

definition copy_attribute :: "string \<Rightarrow> inspector \<Rightarrow> inspector" where
  "copy_attribute label p = p\<lparr>ip_copied := Some label\<rparr>"

definition copy_expires :: "inspector \<Rightarrow> inspector" where
  "copy_expires p = p\<lparr>ip_copied := None\<rparr>"

definition pivot_title :: "event_row \<Rightarrow> string" where
  "pivot_title ev = ''Investigation: '' @ truncate_text 50 (Some (JStr (event_message ev)))"

definition pivot_evidence :: "event_row \<Rightarrow> string" where
  "pivot_evidence ev = ''Event at '' @ js_string (row_get ev ''datetime'') @ '' on '' @ event_host ev @ [newline]
     @ ''Source: '' @ js_string (row_get ev ''source'') @ [newline] @ ''Message: '' @ event_message ev"

definition pivot_hypothesis :: "(string \<Rightarrow> string) \<Rightarrow> string \<Rightarrow> event_row \<Rightarrow> string" where
  "pivot_hypothesis enc i ev = ''/incidents/'' @ i @ ''/hypotheses?''
     @ query_string enc [(''title'', pivot_title ev), (''evidence'', pivot_evidence ev)]"

text \<open>The bookmark button: what it sends, and what its answer does; \<open>marked\<close> is from the click.\<close>

definition bookmark_request :: "(string \<Rightarrow> string) \<Rightarrow> string \<Rightarrow> string \<Rightarrow> inspector \<Rightarrow> bool st_io" where
  "bookmark_request enc i now p = toggle_bookmark enc i (ip_event p) (ip_note p) now"

definition bookmark_starts :: "inspector \<Rightarrow> inspector" where
  "bookmark_starts p = p\<lparr>ip_saving := True\<rparr>"

definition bookmark_settles :: "bool \<Rightarrow> bool \<Rightarrow> inspector \<Rightarrow> inspector" where
  "bookmark_settles stored marked p = p\<lparr>ip_note := (if stored \<and> \<not> marked then [] else ip_note p), ip_saving := False\<rparr>"

section \<open>The comparison\<close>

definition compare_keys :: "event_row list \<Rightarrow> string list" where
  "compare_keys evs = sort_key (\<lambda>k. k) (new_set (concat (map (map fst) evs)))"

definition compare_values :: "event_row list \<Rightarrow> string \<Rightarrow> string list" where
  "compare_values evs k = map (\<lambda>e. string_or (row_get e k) em_dash) evs"

definition all_same :: "string list \<Rightarrow> bool" where
  "all_same vs \<longleftrightarrow> list_all (\<lambda>v. v = hd vs) vs"

definition compare_rows :: "event_row list \<Rightarrow> (string \<times> string list \<times> bool) list" where
  "compare_rows evs = map (\<lambda>k. (k, compare_values evs k, \<not> all_same (compare_values evs k)))
     (filter (\<lambda>k. \<not> all_same (compare_values evs k) \<or> k \<in> {''host'', ''datetime'', ''message''}) (compare_keys evs))"

section \<open>The storyline\<close>

definition storyline :: "string comparator \<Rightarrow> bookmark list \<Rightarrow> bookmark list" where
  "storyline loc bs = Sorting_Algorithms.sort (key bm_datetime loc) bs"

text \<open>A step: its number, the time, the host with its colour, the message, the note, and whether it is an alert.\<close>

definition story_step :: "string list \<Rightarrow> nat \<Rightarrow> bookmark \<Rightarrow> string \<times> string \<times> (string \<times> host_color) \<times> string \<times> string option \<times> bool" where
  "story_step known i b = (''STEP #'' @ pad_start2 (nat_str (i + 1)), bm_datetime b, (bm_host b, get_host_color (bm_host b) known),
     bm_message b, (if bm_note b = [] then None else Some (bm_note b)), bm_source b \<in> {''SIGMA'', ''HAYABUSA''})"

section \<open>The chart\<close>

record bucket =
  bu_start :: string
  bu_end :: string
  bu_count :: nat

definition display_hour :: "bucket \<Rightarrow> string" where
  "display_hour b = replace_first CHR ''T'' CHR '' '' (Prelude.slice 5 16 (bu_start b))"

definition bar_clicked :: "bucket \<Rightarrow> super_timeline \<Rightarrow> super_timeline" where
  "bar_clicked b s = (if bu_start b = [] then s else select_chart_window (bu_start b) (bu_end b) s)"

section \<open>The status\<close>

record snapshot_status =
  ss_status :: string
  ss_hosts :: "nat option"
  ss_events :: "nat option"
  ss_stale :: bool
  ss_partial :: "nat option"
  ss_error :: "string option"
  ss_completed :: "string option"

datatype status_view =
    CheckingStatus
  | StatusError string
  | BuildPanel bool "string option" "string option" "string option" string
  | DonePanel "string list" nat nat "string option" "nat option"
  | NoPanel

definition not_built_yet :: "string option \<Rightarrow> bool" where
  "not_built_yet e \<longleftrightarrow> (case e of None \<Rightarrow> False | Some m \<Rightarrow> m \<noteq> [] \<and> (str_includes m ''404''
     \<or> str_includes (to_lower m) ''not found'' \<or> str_includes (to_lower m) ''no super timeline''))"

definition done_notes :: "snapshot_status \<Rightarrow> string option \<Rightarrow> string list" where
  "done_notes d build_err =
     (if ss_stale d then [''New processing results are available. Rebuild to include them in this snapshot.''] else [])
     @ (case ss_partial d of Some n \<Rightarrow> if n = 0 then [] else
         [nat_str n @ '' processing job(s) have incomplete coverage. Review processing stage results.''] | None \<Rightarrow> [])
     @ (if or_text build_err [] = [] then [] else [or_text build_err []])"

definition the_or :: "nat option \<Rightarrow> nat" where
  "the_or n = (case n of Some k \<Rightarrow> k | None \<Rightarrow> 0)"

definition status_panel :: "snapshot_status option \<Rightarrow> bool \<Rightarrow> string option \<Rightarrow> bool \<Rightarrow> bool \<Rightarrow> bool \<Rightarrow> string option \<Rightarrow> nat
    \<Rightarrow> status_view" where
  "status_panel st loading err building failed done build_err lateral =
     (if loading then CheckingStatus
      else if or_text err [] \<noteq> [] \<and> \<not> not_built_yet err then StatusError (or_text err [])
      else if \<not> done then BuildPanel (not_built_yet err)
        (if failed then Option.bind st (\<lambda>d. some_text (ss_error d)) else None) (some_text build_err)
        (if building then Some (if map_option ss_status st = Some ''PENDING'' then ''QUEUED'' else ''BUILDING'') else None)
        (if failed then ''REBUILD SUPER TIMELINE'' else ''BUILD SUPER TIMELINE'')
      else case st of None \<Rightarrow> NoPanel
        | Some d \<Rightarrow> DonePanel (done_notes d build_err) (the_or (ss_hosts d)) (the_or (ss_events d)) (some_text (ss_completed d))
            (if 0 < lateral then Some lateral else None))"

section \<open>Correlations, toolbar and filters\<close>

record coverage =
  cv_examined :: nat
  cv_candidate_limit :: nat
  cv_truncated :: bool
  cv_results :: nat
  cv_result_limit :: nat
  cv_results_truncated :: bool

definition correlation_path :: "string \<Rightarrow> string" where
  "correlation_path i = ''/processing/incident/'' @ i @ ''/correlations?with_coverage=true''"

definition coverage_text :: "(nat \<Rightarrow> string) \<Rightarrow> coverage \<Rightarrow> string" where
  "coverage_text loc c = ''Examined '' @ loc (cv_examined c) @ '' relevant event candidates. '' @
     (if cv_truncated c then ''Coverage is partial (limit '' @ loc (cv_candidate_limit c) @ ''); later events were not analyzed.''
      else ''All candidates for the configured rules were examined.'')"

definition correlation_notes :: "(nat \<Rightarrow> string) \<Rightarrow> coverage \<Rightarrow> nat \<Rightarrow> string list" where
  "correlation_notes loc c items = coverage_text loc c
     # (if items = 0 then [''No correlations recorded within this coverage.''] else [])
     @ (if cv_results_truncated c then [''Showing the first '' @ loc (cv_result_limit c) @ '' of '' @ loc (cv_results c)
         @ '' findings, ordered by confidence.''] else [])"

definition export_offered :: "super_timeline \<Rightarrow> nat \<Rightarrow> bool" where
  "export_offered s tot \<longleftrightarrow> \<not> is_exporting s \<and> tot \<noteq> 0"

definition export_formats :: "string list" where
  "export_formats = [''csv'', ''jsonl'', ''cef'', ''leef'', ''stix'']"

definition export_label :: "super_timeline \<Rightarrow> string" where
  "export_label s = (if is_exporting s then ''EXPORTING...'' else ''EXPORT '' @ to_upper (export_format s))"

definition column_picker :: "super_timeline \<Rightarrow> (string \<times> string \<times> bool) list" where
  "column_picker s = map (\<lambda>(k, l). (k, l, k \<in> set (visible_cols s))) optional_cols"

definition toggle_bookmarks_view :: "super_timeline \<Rightarrow> super_timeline" where
  "toggle_bookmarks_view s = s\<lparr>show_bookmarks := \<not> show_bookmarks s\<rparr>"

definition host_chip :: "super_timeline \<Rightarrow> string list \<Rightarrow> string \<Rightarrow> string option" where
  "host_chip s known h = (if all_hosts s \<or> h \<in> set (active_hosts s) then Some (fg (get_host_color h known)) else None)"

definition apply_date_filter :: "super_timeline \<Rightarrow> super_timeline" where
  "apply_date_filter s = s\<lparr>date_active := True\<rparr>"

text \<open>The button beside the dates: its label and what it does, where a date is set.\<close>

definition date_button :: "super_timeline \<Rightarrow> (string \<times> super_timeline) option" where
  "date_button s = (if date_from s = [] \<and> date_to s = [] then None
     else Some (if date_active s then (''CLEAR'', clear_date_filter s) else (''APPLY'', apply_date_filter s)))"

section \<open>Properties of the table\<close>

lemmas footer_defs = set_page_def set_page_size_def jump_enter_def prev_offered_def next_offered_def
  range_first_def range_last_def

inductive_cases footer_clickE: "footer_click loading tot s t"

lemma last_page_bounds:
  assumes "0 < page_size s" and "1 \<le> p" and "p \<le> last_page s tot"
  shows "(p - 1) * int (page_size s) < int tot"
proof -
  have "nat p \<le> (tot + page_size s - 1) div page_size s"
    using assms by (simp add: last_page_def nat_le_iff)
  then have "nat p * page_size s \<le> tot + page_size s - 1"
    using assms(1) by (simp add: less_eq_div_iff_mult_less_eq)
  then have "int (nat p) * int (page_size s) \<le> int (tot + page_size s - 1)"
    by (metis of_nat_mult of_nat_mono)
  then show ?thesis
    using assms by (simp add: algebra_simps)
qed

lemma footer_click_page:
  assumes "footer_click loading tot s t" and "1 \<le> page s" and "page s \<le> last_page s tot"
  shows "1 \<le> page t \<and> page t \<le> last_page s tot \<and> page_size t = page_size s
    \<or> (\<exists>n \<in> set page_size_options. t = set_page_size n s)"
  using assms by (elim footer_clickE) (auto simp: footer_defs split: option.splits)

lemma footer_click_size: "footer_click loading tot s t \<Longrightarrow> 0 < page_size s \<Longrightarrow> 0 < page_size t"
  by (elim footer_clickE) (auto simp: footer_defs page_size_options_def split: option.splits)

lemma range_inside:
  assumes "0 < page_size t" and "1 \<le> page t" and "page t \<le> last_page t tot"
  shows "1 \<le> range_first t \<and> range_first t \<le> range_last t tot \<and> range_last t tot \<le> int tot
    \<and> range_last t tot < range_first t + int (page_size t)"
proof -
  have "(page t - 1) * int (page_size t) < int tot" using last_page_bounds assms by blast
  then show ?thesis using assms by (auto simp: range_first_def range_last_def algebra_simps)
qed

lemma pages_cover: "0 < n \<Longrightarrow> tot \<le> (tot + n - 1) div n * (n :: nat)"
proof -
  assume n: "0 < n"
  have "tot + n - 1 < (tot + n - 1) div n * n + n"
    using n by (metis add.commute div_mult_mod_eq mod_less_divisor nat_add_left_cancel_less)
  then show ?thesis using n by linarith
qed

text \<open>More rows per page do not make more pages.\<close>

lemma last_page_antimono:
  assumes "page_size t \<le> page_size s" and "0 < page_size t"
  shows "last_page s tot \<le> last_page t tot"
proof -
  let ?a = "page_size t" and ?b = "page_size s"
  have "tot \<le> (tot + ?a - 1) div ?a * ?a" by (rule pages_cover [OF assms(2)])
  also have "\<dots> \<le> (tot + ?a - 1) div ?a * ?b" using assms(1) by simp
  finally have "tot + ?b - 1 < ((tot + ?a - 1) div ?a + 1) * ?b" using assms by simp
  then have "(tot + ?b - 1) div ?b < (tot + ?a - 1) div ?a + 1" by (rule less_mult_imp_div_less)
  then show ?thesis by (simp add: last_page_def)
qed

text \<open>C27. From a page of the table, the page buttons of the footer and the number typed into it lead to a page of the
  table, whose range of rows is not empty, lies within the events there are and is no longer than the page size.  A
  choice of rows per page keeps the page number; fewer rows keep it inside the table, and more rows leave it inside or
  strand it behind the last page, where the table has no rows.\<close>

theorem paging_stays_inside:
  assumes "footer_click loading tot s t" and "0 < page_size s" and "1 \<le> page s" and "page s \<le> last_page s tot"
  shows "if page t \<le> last_page t tot
    then 1 \<le> page t \<and> 1 \<le> range_first t \<and> range_first t \<le> range_last t tot
      \<and> range_last t tot \<le> int tot \<and> range_last t tot < range_first t + int (page_size t)
    else (\<exists>n \<in> set page_size_options. page_size s < n \<and> t = set_page_size n s \<and> range_last t tot < range_first t)"
proof -
  have pos: "0 < page_size t" by (rule footer_click_size [OF assms(1,2)])
  consider (moved) "1 \<le> page t" "page t \<le> last_page s tot" "page_size t = page_size s"
    | (sized) n where "n \<in> set page_size_options" "t = set_page_size n s"
    using footer_click_page [OF assms(1,3,4)] by blast
  then show ?thesis
  proof cases
    case moved
    then have "page t \<le> last_page t tot" by (simp add: last_page_def)
    then show ?thesis using range_inside [OF pos moved(1)] moved(1) by simp
  next
    case sized
    then have pg: "page t = page s" and sz: "page_size t = n" by (simp_all add: set_page_size_def)
    have "page_size s < n" if "\<not> page t \<le> last_page t tot"
      using that last_page_antimono [OF _ pos, of s tot] assms(4) pg sz by force
    moreover have "range_last t tot < range_first t" if stranded: "\<not> page t \<le> last_page t tot"
    proof -
      have "tot \<le> (tot + n - 1) div n * n" using pos sz by (intro pages_cover) simp
      then have "int tot \<le> last_page t tot * int n" unfolding last_page_def sz by (metis of_nat_le_iff of_nat_mult)
      also have "\<dots> \<le> (page t - 1) * int n" using stranded by (intro mult_right_mono) auto
      finally show ?thesis by (simp add: range_first_def range_last_def sz)
    qed
    ultimately show ?thesis using range_inside [OF pos] assms(3) sized pg by auto
  qed
qed

theorem paging_stays_inside_witness:
  "\<exists>t. footer_click False 250 (set_page 2 sample_timeline\<lparr>page_size := 100\<rparr>) t \<and> range_first t = 201 \<and> range_last t 250 = 250
     \<and> 1 \<le> page t \<and> page t \<le> last_page t 250"
proof -
  let ?s = "set_page 2 sample_timeline\<lparr>page_size := 100\<rparr>"
  have c: "footer_click False 250 ?s (set_page (page ?s + 1) ?s)"
    by (rule goes_next) (simp add: footer_defs last_page_def)
  have "page (set_page (page ?s + 1) ?s) \<le> last_page (set_page (page ?s + 1) ?s) 250"
    by (simp add: set_page_def last_page_def)
  then have "1 \<le> page (set_page (page ?s + 1) ?s) \<and> page (set_page (page ?s + 1) ?s) \<le> last_page (set_page (page ?s + 1) ?s) 250"
    using paging_stays_inside [OF c] by (simp add: set_page_def last_page_def)
  with c show ?thesis
    by (intro exI [of _ "set_page (page ?s + 1) ?s"]) (simp add: footer_defs)
qed

text \<open>The footer's page sizes leave the page as it is: from any page but the first, choosing a size
  that holds all events asks for rows beyond the last of them, so the table shows no row and with it no
  footer, whose buttons alone would lead to a page again.\<close>

theorem size_change_strands:
  assumes "1 < page s" and "0 < n" and "length events \<le> n"
  shows "footer_shown (take n (drop (nat ((page s - 1) * int n)) events)) = False
    \<and> last_page (set_page_size n s) (length events) < page (set_page_size n s)
    \<and> (''page'', int_str (page s)) \<in> set (timeline_params (set_page_size n s))
    \<and> (''limit'', nat_str n) \<in> set (timeline_params (set_page_size n s))"
proof -
  have "int n \<le> (page s - 1) * int n" using assms mult_right_mono [of 1 "page s - 1" "int n"] by simp
  then have "length events \<le> nat ((page s - 1) * int n)" using assms(3) by linarith
  moreover have "(length events + n - 1) div n \<le> 1"
    using assms(2,3) less_mult_imp_div_less [of "length events + n - 1" 2 n] by linarith
  ultimately show ?thesis
    using assms by (simp add: footer_shown_def set_page_size_def last_page_def timeline_params_def)
qed

theorem size_change_strands_witness:
  "footer_shown (take 200 (drop (nat ((2 - 1) * int 200)) (replicate 150 (0::nat)))) = False
    \<and> footer_click False 150 (sample_timeline\<lparr>page_size := 50\<rparr>) (set_page 2 (sample_timeline\<lparr>page_size := 50\<rparr>))"
proof -
  let ?s = "set_page 2 (sample_timeline\<lparr>page_size := 50\<rparr>)"
  have p: "page (sample_timeline\<lparr>page_size := 50\<rparr>) = 1" by (simp add: sample_timeline_def initial_timeline_def)
  have "footer_shown (take 200 (drop (nat ((page ?s - 1) * int 200)) (replicate 150 (0::nat)))) = False"
    using size_change_strands [of ?s 200 "replicate 150 (0::nat)"] by (simp add: set_page_def)
  moreover have "footer_click False 150 (sample_timeline\<lparr>page_size := 50\<rparr>) (set_page (page (sample_timeline\<lparr>page_size := 50\<rparr>) + 1) (sample_timeline\<lparr>page_size := 50\<rparr>))"
    by (rule goes_next) (simp add: footer_defs last_page_def p)
  ultimately show ?thesis by (simp add: p) (simp add: set_page_def)
qed

section \<open>Properties of the inspector\<close>

definition only_accepts :: "(unit, st_reply, st_body) server" where
  "only_accepts = stateless (\<lambda>_. Inr SDone)"

text \<open>The inspector keeps its note when another event is selected: what was typed about the first event
  is sent as the note of the second one's bookmark.\<close>

theorem note_follows_selection:
  assumes "i \<noteq> []" and "\<not> annotations_loading s" and "\<not> annotations_failed s"
    and "hash_event second \<notin> bm_hash ` set (bookmarks s)"
  shows "requests_of srv yes (bookmark_request enc i now (show_event second (type_note note (open_inspector first)))) w s
    = [Request PATCH (annotation_path enc i (hash_event second)) (Some (BookmarkChange (Some (event_bookmark second note now))))]
    \<and> bm_note (event_bookmark second note now) = note"
  using assms
  by (auto simp: bookmark_request_def toggle_bookmark_def save_annotation_def show_event_def type_note_def
      open_inspector_def event_bookmark_def requests_tryCatch list_ex_iff Let_def image_iff io_simps split: sum.split)

theorem note_follows_selection_witness:
  "requests_of only_accepts True (bookmark_request (\<lambda>c. c) ''i1'' ''now''
      (show_event [(''message'', JStr ''logon'')] (type_note ''malware dropped'' (open_inspector [(''message'', JStr ''write'')])))) ()
      (sample_timeline\<lparr>annotations_loading := False\<rparr>)
    = [Request PATCH (annotation_path (\<lambda>c. c) ''i1'' (hash_event [(''message'', JStr ''logon'')]))
        (Some (BookmarkChange (Some (event_bookmark [(''message'', JStr ''logon'')] ''malware dropped'' ''now''))))]"
  by (rule conjunct1 [OF note_follows_selection]) (simp_all add: sample_timeline_def initial_timeline_def)

lemma split_at_joined: "c \<notin> set a \<Longrightarrow> split_at_char c (a @ c # b) = a # split_at_char c b"
  by (induction a) auto

lemma split_at_none: "c \<notin> set a \<Longrightarrow> split_at_char c a = [a]"
  by (induction a) auto

lemma trim_not_blank: "\<not> is_space c \<Longrightarrow> trim (c # t) \<noteq> []"
  by (simp add: trim_def dropWhile_append)

lemma newline_not_fixed: "newline \<notin> set ''Event at ''" "newline \<notin> set '' on ''" "newline \<notin> set ''Source: ''"
  "newline \<notin> set ''Message: ''"
  by (simp_all add: newline_def)

lemma refs_of_lines:
  assumes "\<forall>l \<in> set ls. newline \<notin> set l \<and> trim l \<noteq> []" and "ls \<noteq> []"
  shows "filter (\<lambda>r. r \<noteq> []) (map trim (split_at_char newline (join_with [newline] ls))) = map trim ls"
  using assms
proof (induction ls)
  case (Cons l ls)
  then show ?case by (cases ls) (simp_all add: split_at_none split_at_joined)
qed simp

text \<open>An event opened as a hypothesis: the form takes its title and the three lines about it, and saving
  it sends every line as an evidence reference of its own, without the spaces at its ends.\<close>

theorem pivot_fills_hypothesis:
  assumes "newline \<notin> set (js_string (row_get ev ''datetime'') @ event_host ev @ js_string (row_get ev ''source'') @ event_message ev)"
  shows "let f = hform (prefill_effect (Some (pivot_title ev)) (Some (pivot_evidence ev)) initial_hypotheses)
    in hb_title (save_body f) = ''Investigation: '' @ truncate_text 50 (Some (JStr (event_message ev)))
       \<and> hb_refs (save_body f) = [trim (''Event at '' @ js_string (row_get ev ''datetime'') @ '' on '' @ event_host ev),
            trim (''Source: '' @ js_string (row_get ev ''source'')), trim (''Message: '' @ event_message ev)]"
proof -
  let ?ls = "[''Event at '' @ js_string (row_get ev ''datetime'') @ '' on '' @ event_host ev,
    ''Source: '' @ js_string (row_get ev ''source''), ''Message: '' @ event_message ev]"
  have j: "pivot_evidence ev = join_with [newline] ?ls" by (simp add: pivot_evidence_def)
  have "refs_of (pivot_evidence ev) = map trim ?ls"
    unfolding refs_of_def j using refs_of_lines [of ?ls] assms by (simp add: trim_not_blank newline_def is_space_def)
  moreover have "pivot_title ev \<noteq> []" "pivot_evidence ev \<noteq> []" by (simp_all add: pivot_title_def pivot_evidence_def)
  ultimately show ?thesis
    by (simp add: prefill_effect_def or_text_def save_body_def Let_def) (simp add: pivot_title_def)
qed

section \<open>Properties of the comparison and the storyline\<close>

lemma all_same_iff: "all_same vs \<longleftrightarrow> \<not> (\<exists>v w. v \<in> set vs \<and> w \<in> set vs \<and> v \<noteq> w)"
proof
  assume "all_same vs"
  then have "v = hd vs" if "v \<in> set vs" for v using that by (simp add: all_same_def list_all_iff)
  then show "\<not> (\<exists>v w. v \<in> set vs \<and> w \<in> set vs \<and> v \<noteq> w)" by metis
next
  assume "\<not> (\<exists>v w. v \<in> set vs \<and> w \<in> set vs \<and> v \<noteq> w)"
  then show "all_same vs" by (cases vs) (auto simp: all_same_def list_all_iff)
qed

lemma compare_keys_iff: "k \<in> set (compare_keys evs) \<longleftrightarrow> (\<exists>e. e \<in> set evs \<and> k \<in> fst ` set e)"
  by (auto simp: compare_keys_def)

theorem pivot_fills_hypothesis_witness:
  "hb_refs (save_body (hform (prefill_effect
      (Some (pivot_title [(''datetime'', JStr ''2024''), (''host'', JStr ''WS1''), (''message'', JStr ''logon'')]))
      (Some (pivot_evidence [(''datetime'', JStr ''2024''), (''host'', JStr ''WS1''), (''message'', JStr ''logon'')]))
      initial_hypotheses)))
    = [''Event at 2024 on WS1'', ''Source: undefined'', ''Message: logon'']"
proof -
  let ?ev = "[(''datetime'', JStr ''2024''), (''host'', JStr ''WS1''), (''message'', JStr ''logon'')]"
  have e: "event_host ?ev = ''WS1''" "event_message ?ev = ''logon''" "js_string (row_get ?ev ''datetime'') = ''2024''"
    "js_string (row_get ?ev ''source'') = ''undefined''"
    by (simp_all add: event_host_def event_message_def row_text_def row_get_def string_or_def nullish_or_def)
  have "newline \<notin> set (js_string (row_get ?ev ''datetime'') @ event_host ?ev @ js_string (row_get ?ev ''source'') @ event_message ?ev)"
    unfolding e by (simp add: newline_def)
  from pivot_fills_hypothesis [OF this] show ?thesis
    by (simp add: Let_def e) (simp add: trim_def is_space_def)
qed

text \<open>What the comparison shows: one row for an attribute of any of the events, with the events' values as
  texts in their order, marked when two of them differ; equal values are shown for the host, the time and
  the message only.\<close>

theorem compare_outcome:
  "(k, vs, differs) \<in> set (compare_rows evs) \<longleftrightarrow>
    (\<exists>e. e \<in> set evs \<and> k \<in> fst ` set e) \<and> vs = map (\<lambda>e. string_or (row_get e k) em_dash) evs
    \<and> differs = (\<exists>v w. v \<in> set vs \<and> w \<in> set vs \<and> v \<noteq> w) \<and> (differs \<or> k \<in> {''host'', ''datetime'', ''message''})"
proof -
  have "(k, vs, differs) \<in> set (compare_rows evs) \<longleftrightarrow> k \<in> set (compare_keys evs) \<and> vs = compare_values evs k
    \<and> differs = (\<not> all_same vs) \<and> (\<not> all_same vs \<or> k \<in> {''host'', ''datetime'', ''message''})"
    by (auto simp: compare_rows_def)
  then show ?thesis unfolding all_same_iff compare_keys_iff compare_values_def by blast
qed

text \<open>Two events that differ in an attribute that is an object look the same: the comparison leaves the
  attribute out, however different the objects are.\<close>

theorem compare_hides_objects:
  assumes "list_all (\<lambda>e. \<exists>ms. row_get e k = Some (JObj ms)) evs" and "k \<notin> {''host'', ''datetime'', ''message''}"
  shows "k \<notin> fst ` set (compare_rows evs)"
proof -
  have "compare_values evs k = map (\<lambda>e. ''[object Object]'') evs"
    using assms(1) by (fastforce simp: compare_values_def list_all_iff string_or_def)
  then have "all_same (compare_values evs k)"
    by (auto simp: all_same_iff)
  then show ?thesis using assms(2) by (auto simp: compare_rows_def)
qed

theorem compare_hides_objects_witness:
  "''details'' \<notin> fst ` set (compare_rows [[(''details'', JObj [(''pid'', JNum 1)])], [(''details'', JObj [(''pid'', JNum 2)])]])"
  by (rule compare_hides_objects) (simp_all add: row_get_def)

text \<open>The storyline tells every bookmark once, ordered by the locale's order of their times, and those of
  equal times in the order of the bookmarks.\<close>

theorem storyline_sorted:
  "mset (storyline loc bs) = mset bs \<and> Sorting_Algorithms.sorted (key bm_datetime loc) (storyline loc bs)
    \<and> filter (\<lambda>x. compare (key bm_datetime loc) b x = Equiv) (storyline loc bs)
      = filter (\<lambda>x. compare (key bm_datetime loc) b x = Equiv) bs"
  unfolding storyline_def by (intro conjI mset_sort sorted_sort stable_sort)

end
