(* ===== verification/InspectorViews.thy ===== *)
theory InspectorViews
  imports TimelinePanels
begin

text \<open>
  The two panels of \<open>SuperTimelinePanels.tsx\<close> as they are drawn: the event inspector, open or collapsed, with the
  events it takes, and the comparison of several events.  The timers that take a tick away after a copy are kept by
  the time they fire.
\<close>

section \<open>The inspector\<close>

record lineage_view =
  lv_parent :: "string \<times> string"
  lv_current :: "string \<times> string"
  lv_child :: string

definition lineage_view_of :: "event_row \<Rightarrow> lineage_view" where
  "lineage_view_of ev = (case process_tree ev of ((ppid, parent), (pid, current)) \<Rightarrow>
     \<lparr>lv_parent = (''Parent (PID: '' @ ppid @ '')'', parent), lv_current = (''Inspected (PID: '' @ pid @ '')'', current),
      lv_child = ''Subsequent Activity...''\<rparr>)"

text \<open>An indicator is drawn shortened, and its button searches for all of it.\<close>

definition ioc_button :: "ioc_type \<times> string \<Rightarrow> string \<times> string \<times> string \<times> (string \<times> string)" where
  "ioc_button i = (ioc_class (fst i), ioc_name (fst i), truncate_text 30 (Some (JStr (snd i))), (snd i, ioc_name (fst i)))"

definition attribute_view :: "string option \<Rightarrow> string \<times> string \<times> string \<Rightarrow> string \<times> string \<times> string" where
  "attribute_view copied r = (case r of (k, txt, clip) \<Rightarrow> (k @ '':'', txt, if copied = Some k then ''Check'' else ''Copy''))"

record open_panel =
  op_host :: "string \<times> host_color"
  op_time :: string
  op_message :: string
  op_lineage :: "lineage_view option"
  op_chips :: "string list"
  op_artifact :: "(string \<times> string) list"
  op_fields :: "(string \<times> string) list"
  op_iocs :: "(string \<times> string \<times> string \<times> (string \<times> string)) list"
  op_attributes :: "(string \<times> string \<times> string) list"
  op_note :: string
  op_button :: "string \<times> bool"

datatype inspector_panel = Collapsed string | OpenPanel open_panel

definition open_panel_of :: "string list \<Rightarrow> bool \<Rightarrow> inspector \<Rightarrow> open_panel" where
  "open_panel_of known marked p = (let ev = ip_event p; short = to_upper (truthy_text ev ''source_short'' []) in
     \<lparr>op_host = (event_host ev, get_host_color (event_host ev) known), op_time = js_string (row_get ev ''datetime''),
      op_message = event_message ev, op_lineage = (if is_process_event ev then Some (lineage_view_of ev) else None),
      op_chips = [''PLATFORM: '' @ platform_of (source_text ev), ''SOURCE: '' @ (if short \<noteq> [] then short else ''UNKNOWN'')],
      op_artifact = [(''SOURCE'', js_string (row_get ev ''source'')), (''TYPE'', js_string (row_get ev ''timestamp_desc''))],
      op_fields = normalized_fields ev, op_iocs = map ioc_button (event_iocs ev),
      op_attributes = map (attribute_view (ip_copied p)) (attribute_rows ev), op_note = ip_note p,
      op_button = (if marked then ''REMOVE FROM BOOKMARKS'' else ''ADD TO INVESTIGATION'', ip_saving p)\<rparr>)"

definition inspector_panel_of :: "string list \<Rightarrow> bool \<Rightarrow> bool \<Rightarrow> inspector \<Rightarrow> inspector_panel" where
  "inspector_panel_of known marked is_collapsed p = (if is_collapsed then Collapsed ''EVENT DETAILS'' else OpenPanel (open_panel_of known marked p))"

definition panel_widths :: "bool \<Rightarrow> string" where
  "panel_widths is_collapsed = (if is_collapsed then ''w-12'' else ''w-full max-w-[500px]'')"

section \<open>Its events\<close>

text \<open>The inspector with the clock and the times at which its timers fire; every copy starts a timer and none is
  cancelled.\<close>

record live_inspector =
  li_panel :: inspector
  li_now :: nat
  li_timers :: "nat list"

datatype inspector_event =
    TypeNote string | ShowEvent event_row | CopyClicked string | TimePasses nat
  | SaveStarts | SaveEnds bool bool

fun inspector_step :: "inspector_event \<Rightarrow> live_inspector \<Rightarrow> live_inspector" where
  "inspector_step (TypeNote t) s = s\<lparr>li_panel := type_note t (li_panel s)\<rparr>"
| "inspector_step (ShowEvent ev) s = s\<lparr>li_panel := show_event ev (li_panel s)\<rparr>"
| "inspector_step (CopyClicked k) s = s\<lparr>li_panel := copy_attribute k (li_panel s), li_timers := li_timers s @ [li_now s + 2000]\<rparr>"
| "inspector_step (TimePasses d) s = (let t = li_now s + d in
     s\<lparr>li_now := t, li_timers := filter (\<lambda>x. t < x) (li_timers s),
       li_panel := (if list_ex (\<lambda>x. x \<le> t) (li_timers s) then copy_expires (li_panel s) else li_panel s)\<rparr>)"
| "inspector_step SaveStarts s = (if ip_saving (li_panel s) then s else s\<lparr>li_panel := bookmark_starts (li_panel s)\<rparr>)"
| "inspector_step (SaveEnds stored marked) s = s\<lparr>li_panel := bookmark_settles stored marked (li_panel s)\<rparr>"

definition live :: "event_row \<Rightarrow> live_inspector" where
  "live ev = \<lparr>li_panel = open_inspector ev, li_now = 0, li_timers = []\<rparr>"

section \<open>The comparison\<close>

record compare_page =
  cmp_title :: string
  cmp_left :: string
  cmp_heads :: "string list"
  cmp_rows :: "(string \<times> string \<times> string list) list"

definition compare_page_of :: "bool \<Rightarrow> event_row list \<Rightarrow> compare_page" where
  "compare_page_of narrow evs = \<lparr>cmp_title = ''DIFFERENTIAL ANALYSIS '' @ em_dash @ '' '' @ nat_str (length evs) @ '' EVENTS'',
     cmp_left = (if narrow then ''left-[80px]'' else ''left-[272px]''),
     cmp_heads = ''ATTRIBUTE'' # map (\<lambda>i. ''EVENT #'' @ nat_str (i + 1)) [0..<length evs],
     cmp_rows = map (\<lambda>(k, vs, differs). (if differs then ''bg-primary/5'' else [], k, vs)) (compare_rows evs)\<rparr>"

section \<open>Theorems\<close>

text \<open>While the bookmark of one event is being stored the inspector can show another: when the answer comes, the note
  typed about that one is erased, and nothing was stored of it.\<close>

theorem late_bookmark_erases_note:
  assumes "\<not> ip_saving (li_panel s)"
  shows "ip_note (li_panel (fold inspector_step [SaveStarts, ShowEvent ev, TypeNote t, SaveEnds True False] s)) = []
    \<and> ip_event (li_panel (fold inspector_step [SaveStarts, ShowEvent ev, TypeNote t, SaveEnds True False] s)) = ev"
  using assms by (simp add: bookmark_starts_def show_event_def type_note_def bookmark_settles_def)

lemma late_bookmark_erases_note_witness:
  "ip_note (li_panel (fold inspector_step [SaveStarts, ShowEvent [(''message'', JStr ''b'')], TypeNote ''found it'', SaveEnds True False]
     (live [(''message'', JStr ''a'')]))) = []"
  using late_bookmark_erases_note [of "live [(''message'', JStr ''a'')]" "[(''message'', JStr ''b'')]" "''found it''"]
  by (simp add: live_def open_inspector_def)

text \<open>The tick of a copy lasts for two seconds after the first of the copies made within them: a second copy loses its
  tick when the timer of the first fires.\<close>

theorem second_tick_cut_short:
  assumes "li_timers s = []" and "d < 2000"
  shows "ip_copied (li_panel (fold inspector_step [CopyClicked a, TimePasses d, CopyClicked b] s)) = Some b
    \<and> ip_copied (li_panel (fold inspector_step [CopyClicked a, TimePasses d, CopyClicked b, TimePasses (2000 - d)] s)) = None"
  using assms by (simp add: copy_attribute_def copy_expires_def Let_def)

lemma second_tick_cut_short_witness:
  "ip_copied (li_panel (fold inspector_step [CopyClicked ''user'', TimePasses 1900, CopyClicked ''host'', TimePasses (2000 - 1900)] (live []))) = None"
  using second_tick_cut_short [of "live []" 1900 "''user''" "''host''"] by (simp add: live_def)

text \<open>A note that is not saved stays: as long as no bookmark is stored, the panel shows what was typed last,
  whatever events are shown, copied from or collapsed meanwhile.\<close>

definition no_store :: "inspector_event \<Rightarrow> bool" where
  "no_store e = (case e of TypeNote t \<Rightarrow> False | SaveEnds stored marked \<Rightarrow> \<not> stored \<or> marked | _ \<Rightarrow> True)"

lemma note_kept: "list_all no_store es \<Longrightarrow> ip_note (li_panel (fold inspector_step es s)) = ip_note (li_panel s)"
proof (induction es arbitrary: s)
  case (Cons e es)
  have "ip_note (li_panel (inspector_step e s)) = ip_note (li_panel s)"
    using Cons.prems by (cases e) (auto simp: no_store_def show_event_def copy_attribute_def copy_expires_def bookmark_starts_def
        bookmark_settles_def Let_def)
  then show ?case using Cons by simp
qed simp

theorem typed_note_shown:
  assumes "list_all no_store es"
  shows "case inspector_panel_of known marked False (li_panel (fold inspector_step (TypeNote t # es) s)) of
      OpenPanel v \<Rightarrow> op_note v = t | Collapsed x \<Rightarrow> False"
  using note_kept [OF assms] by (simp add: inspector_panel_of_def open_panel_of_def Let_def type_note_def)

lemma typed_note_shown_witness:
  "case inspector_panel_of [] False False (li_panel (fold inspector_step [TypeNote ''x'', ShowEvent [], SaveStarts, SaveEnds False False] (live []))) of
      OpenPanel v \<Rightarrow> op_note v = ''x'' | Collapsed x \<Rightarrow> False"
  using typed_note_shown [of "[ShowEvent [], SaveStarts, SaveEnds False False]"] by (simp add: no_store_def)

text \<open>The comparison leaves out an attribute exactly when all events agree on it, but for host, time and message, and it
  marks exactly the rows in which they differ.\<close>

theorem compare_shows_differences:
  "cmp_rows (compare_page_of narrow evs) = map (\<lambda>k. (if all_same (compare_values evs k) then [] else ''bg-primary/5'', k, compare_values evs k))
     (filter (\<lambda>k. \<not> all_same (compare_values evs k) \<or> k \<in> {''host'', ''datetime'', ''message''}) (compare_keys evs))
   \<and> length (cmp_heads (compare_page_of narrow evs)) = length evs + 1
   \<and> (\<forall>r \<in> set (cmp_rows (compare_page_of narrow evs)). length (snd (snd r)) = length evs)"
  by (auto simp: compare_page_of_def compare_rows_def compare_values_def)

end
