(* ===== verification/LateralMap.thy ===== *)
theory LateralMap
  imports TimelineUtils
begin

text \<open>
  \<open>pages/SuperTimeline/LateralMovementMap.tsx\<close>: the layout of the hosts on the canvas, the arrows
  between them, what is selected and highlighted, and the cards of the detections.  Coordinates are real
  numbers; what is drawn is described by its shape and by which of its looks applies.
\<close>

section \<open>Data\<close>

datatype detection_type = AccountPivot | ProcessSpread | CredentialReuse

record detection =
  det_type :: detection_type
  source_host :: string
  target_host :: string
  confidence :: real
  actor :: "string option"
  first_seen :: "string option"
  last_seen :: "string option"
  event_count :: nat
  details :: "jsval jsobj"

fun type_color :: "detection_type \<Rightarrow> string" where
  "type_color AccountPivot = ''#ef4444''" | "type_color ProcessSpread = ''#f97316''"
| "type_color CredentialReuse = ''#eab308''"

fun type_label :: "detection_type \<Rightarrow> string" where
  "type_label AccountPivot = ''Account Pivot''" | "type_label ProcessSpread = ''Process Spread''"
| "type_label CredentialReuse = ''Credential Reuse''"

fun type_short :: "detection_type \<Rightarrow> string" where
  "type_short AccountPivot = ''ACCT''" | "type_short ProcessSpread = ''PROC''"
| "type_short CredentialReuse = ''CRED''"

section \<open>Layout\<close>

record layout_config =
  width :: real
  height :: real
  node_r :: real
  rx_scale :: real
  ry_scale :: real

definition get_layout_config :: "nat \<Rightarrow> layout_config" where
  "get_layout_config n =
     (if n \<le> 4 then \<lparr>width = 520, height = 340, node_r = 30, rx_scale = 36 / 100, ry_scale = 36 / 100\<rparr>
      else if n \<le> 8 then \<lparr>width = 660, height = 440, node_r = 26, rx_scale = 38 / 100, ry_scale = 38 / 100\<rparr>
      else if n \<le> 14 then \<lparr>width = 820, height = 560, node_r = 22, rx_scale = 40 / 100, ry_scale = 40 / 100\<rparr>
      else \<lparr>width = 960, height = 660, node_r = 19, rx_scale = 42 / 100, ry_scale = 42 / 100\<rparr>)"

definition ellipse_point :: "layout_config \<Rightarrow> nat \<Rightarrow> nat \<Rightarrow> real \<times> real" where
  "ellipse_point cfg n i =
     (let angle = 2 * pi * real i / real n - pi / 2
      in (width cfg / 2 + width cfg * rx_scale cfg * cos angle,
          height cfg / 2 + height cfg * ry_scale cfg * sin angle))"

definition compute_layout :: "string list \<Rightarrow> layout_config \<Rightarrow> string \<rightharpoonup> real \<times> real" where
  "compute_layout hosts cfg = (case hosts of
      [a] \<Rightarrow> [a \<mapsto> (width cfg / 2, height cfg / 2)]
    | [a, b] \<Rightarrow> [a \<mapsto> (width cfg * 3 / 10, height cfg / 2), b \<mapsto> (width cfg * 7 / 10, height cfg / 2)]
    | _ \<Rightarrow> map_of (rev (zip hosts (map (ellipse_point cfg (length hosts)) [0..<length hosts]))))"

text \<open>An arrow: its start, its control point and its end; \<open>None\<close> when an end has no position.\<close>

definition build_arrow_path :: "(string \<rightharpoonup> real \<times> real) \<Rightarrow> string \<Rightarrow> string \<Rightarrow> nat \<Rightarrow> nat \<Rightarrow> real
    \<Rightarrow> ((real \<times> real) \<times> (real \<times> real) \<times> (real \<times> real)) option" where
  "build_arrow_path positions src tgt edge_index edges nr =
     (case (positions src, positions tgt) of
        (Some (x1, y1), Some (x2, y2)) \<Rightarrow>
          (let dx = x2 - x1; dy = y2 - y1;
               dist0 = sqrt (dx * dx + dy * dy); dist = (if dist0 = 0 then 1 else dist0);
               ux = dx / dist; uy = dy / dist;
               sx = x1 + ux * (nr + 4); sy = y1 + uy * (nr + 4);
               ex = x2 - ux * (nr + 14); ey = y2 - uy * (nr + 14);
               curvature = 2 / 10 + (real edge_index / real (max edges 1)) * (4 / 10);
               offset = dist * curvature
           in Some ((sx, sy), ((sx + ex) / 2 + (- dy / dist) * offset, (sy + ey) / 2 + (dx / dist) * offset), (ex, ey)))
      | _ \<Rightarrow> None)"

section \<open>Derived values\<close>

definition filtered :: "detection_type option \<Rightarrow> detection list \<Rightarrow> detection list" where
  "filtered active ds = (case active of Some t \<Rightarrow> filter (\<lambda>d. det_type d = t) ds | None \<Rightarrow> ds)"

text \<open>The set of hosts in order of their names; \<open>lt\<close> is the comparison of strings.\<close>

fun insert_by :: "(string \<Rightarrow> string \<Rightarrow> bool) \<Rightarrow> string \<Rightarrow> string list \<Rightarrow> string list" where
  "insert_by lt x [] = [x]"
| "insert_by lt x (y # ys) = (if lt x y then x # y # ys else y # insert_by lt x ys)"

definition all_hosts :: "(string \<Rightarrow> string \<Rightarrow> bool) \<Rightarrow> detection list \<Rightarrow> string list" where
  "all_hosts lt ds = fold (insert_by lt) (new_set (concat (map (\<lambda>d. [source_host d, target_host d]) ds))) []"

datatype host_role = Source | Target | Both | NoRole

definition host_role :: "detection list \<Rightarrow> string \<Rightarrow> host_role" where
  "host_role ds h =
     (let src = h \<in> set (map source_host ds); tgt = h \<in> set (map target_host ds)
      in if src \<and> tgt then Both else if src then Source else if tgt then Target else NoRole)"

fun role_label :: "host_role \<Rightarrow> string" where
  "role_label Source = ''SOURCE''" | "role_label Target = ''TARGET''" | "role_label Both = ''PIVOT''"
| "role_label NoRole = ''HOST''"

fun role_stroke :: "host_role \<Rightarrow> string" where
  "role_stroke Source = ''#ef4444''" | "role_stroke Target = ''#f97316''" | "role_stroke Both = ''#a855f7''"
| "role_stroke NoRole = ''#6366f1''"

definition node_label :: "string \<Rightarrow> string" where
  "node_label h = (if 11 < length h then take 10 h @ ellipsis else h)"

definition type_count :: "detection list \<Rightarrow> detection_type \<Rightarrow> nat" where
  "type_count ds t = length (filter (\<lambda>d. det_type d = t) ds)"

definition max_confidence :: "detection list \<Rightarrow> real" where
  "max_confidence ds = fold (\<lambda>d m. max m (confidence d)) ds 0"

definition edge_key :: "detection \<Rightarrow> string" where
  "edge_key d = source_host d @ ''|'' @ target_host d"

definition edge_total :: "detection list \<Rightarrow> string \<Rightarrow> nat" where
  "edge_total ds k = length (filter (\<lambda>d. edge_key d = k) ds)"

definition edge_index :: "detection list \<Rightarrow> nat \<Rightarrow> nat" where
  "edge_index ds i = length (filter (\<lambda>d. edge_key d = edge_key (ds ! i)) (take i ds))"

record map_state =
  selected_idx :: "nat option"
  active_type :: "detection_type option"
  highlighted :: "string option"

definition selected_detection :: "detection list \<Rightarrow> map_state \<Rightarrow> detection option" where
  "selected_detection ds s = (case selected_idx s of
      Some i \<Rightarrow> if i < length (filtered (active_type s) ds) then Some (filtered (active_type s) ds ! i) else None
    | None \<Rightarrow> None)"

definition choose_type :: "detection_type option \<Rightarrow> map_state \<Rightarrow> map_state" where
  "choose_type t s = s\<lparr>active_type := (if active_type s = t then None else t), selected_idx := None\<rparr>"

definition click_edge :: "nat \<Rightarrow> map_state \<Rightarrow> map_state" where
  "click_edge i s = s\<lparr>selected_idx := (if selected_idx s = Some i then None else Some i)\<rparr>"

definition click_host :: "string \<Rightarrow> map_state \<Rightarrow> map_state" where
  "click_host h s = s\<lparr>highlighted := (if highlighted s = Some h then None else Some h)\<rparr>"

section \<open>What is drawn\<close>

text \<open>An edge: its path, its colour (\<open>None\<close> is the dimmed look), whether it is selected.\<close>

record edge_view =
  ev_path :: "(real \<times> real) \<times> (real \<times> real) \<times> (real \<times> real)"
  ev_color :: "string option"
  ev_selected :: bool

definition is_related :: "map_state \<Rightarrow> detection \<Rightarrow> bool" where
  "is_related s d = (case highlighted s of
      Some h \<Rightarrow> h = [] \<or> source_host d = h \<or> target_host d = h | None \<Rightarrow> True)"

definition dimmed :: "map_state \<Rightarrow> nat \<Rightarrow> detection \<Rightarrow> bool" where
  "dimmed s i d \<longleftrightarrow> \<not> is_related s d \<and> selected_idx s \<noteq> None \<and> selected_idx s \<noteq> Some i"

definition edge_path :: "(string \<Rightarrow> string \<Rightarrow> bool) \<Rightarrow> detection list \<Rightarrow> detection list \<Rightarrow> nat
    \<Rightarrow> ((real \<times> real) \<times> (real \<times> real) \<times> (real \<times> real)) option" where
  "edge_path lt ds shown_ds i =
     (let cfg = get_layout_config (length (all_hosts lt ds)); d = shown_ds ! i
      in build_arrow_path (compute_layout (all_hosts lt ds) cfg) (source_host d) (target_host d)
           (edge_index shown_ds i) (edge_total shown_ds (edge_key d)) (node_r cfg))"

definition edge_views :: "(string \<Rightarrow> string \<Rightarrow> bool) \<Rightarrow> detection list \<Rightarrow> map_state \<Rightarrow> edge_view option list" where
  "edge_views lt ds s = (let shown_ds = filtered (active_type s) ds in
     map (\<lambda>i. map_option (\<lambda>p. \<lparr>ev_path = p,
         ev_color = (if dimmed s i (shown_ds ! i) then None else Some (type_color (det_type (shown_ds ! i)))),
         ev_selected = (selected_idx s = Some i)\<rparr>) (edge_path lt ds shown_ds i)) [0..<length shown_ds])"

definition host_highlighted :: "detection list \<Rightarrow> map_state \<Rightarrow> string \<Rightarrow> bool" where
  "host_highlighted ds s h \<longleftrightarrow> highlighted s = Some h
     \<or> (case selected_detection ds s of Some d \<Rightarrow> source_host d = h \<or> target_host d = h | None \<Rightarrow> False)"

text \<open>A node: its centre, label, role and whether it is highlighted.\<close>

definition node_view :: "(string \<Rightarrow> string \<Rightarrow> bool) \<Rightarrow> detection list \<Rightarrow> map_state \<Rightarrow> string
    \<Rightarrow> (real \<times> real) \<times> string \<times> host_role \<times> bool" where
  "node_view lt ds s h =
     ((case compute_layout (all_hosts lt ds) (get_layout_config (length (all_hosts lt ds))) h of Some p \<Rightarrow> p | None \<Rightarrow> (0, 0)),
      node_label h, host_role ds h, host_highlighted ds s h)"

definition node_views :: "(string \<Rightarrow> string \<Rightarrow> bool) \<Rightarrow> detection list \<Rightarrow> map_state
    \<Rightarrow> ((real \<times> real) \<times> string \<times> host_role \<times> bool) list" where
  "node_views lt ds s = map (node_view lt ds s) (all_hosts lt ds)"

definition legend :: "detection list \<Rightarrow> (detection_type \<times> nat) list" where
  "legend ds = (let ts = filter (\<lambda>t. type_count ds t \<noteq> 0) [AccountPivot, ProcessSpread, CredentialReuse]
     in zip ts (map (\<lambda>i. i * 16) [0..<length ts]))"

section \<open>The header, the filter and the cards\<close>

definition percent :: "real \<Rightarrow> int" where
  "percent c = \<lfloor>c * 100 + 1 / 2\<rfloor>"

definition map_headline :: "(string \<Rightarrow> string \<Rightarrow> bool) \<Rightarrow> detection list \<Rightarrow> string" where
  "map_headline lt ds = nat_str (length ds) @ '' detection'' @ (if length ds = 1 then [] else ''s'') @ '' across ''
     @ nat_str (length (all_hosts lt ds)) @ '' hosts '' @ [CHR 0xB7] @ '' max confidence '' @ int_str (percent (max_confidence ds)) @ ''%''"

text \<open>The filter buttons: the type (\<open>None\<close> is all), the label and whether it is chosen.\<close>

definition type_buttons :: "detection list \<Rightarrow> map_state \<Rightarrow> (detection_type option \<times> string \<times> bool) list" where
  "type_buttons ds s = (None, ''ALL ('' @ nat_str (length ds) @ '')'', active_type s = None)
     # map (\<lambda>t. (Some t, type_short t @ '' ('' @ nat_str (type_count ds t) @ '')'', active_type s = Some t))
         (filter (\<lambda>t. type_count ds t \<noteq> 0) [AccountPivot, ProcessSpread, CredentialReuse])"

definition map_footer :: "detection list \<Rightarrow> nat \<times> nat \<times> int" where
  "map_footer ds = (length (new_set (map source_host ds)), length (new_set (map target_host ds)), percent (max_confidence ds))"

text \<open>What an expanded card shows below its heading; dates are formatted by the locale.\<close>

record card_detail =
  cd_label :: string
  cd_events :: string
  cd_actor :: "string option"
  cd_seen :: "string option \<times> string option"
  cd_details :: "(string \<times> string) list"

definition seen_text :: "(string \<Rightarrow> string) \<Rightarrow> string option \<Rightarrow> string option" where
  "seen_text loc t = (case t of Some x \<Rightarrow> if x = [] then None else Some (loc x) | None \<Rightarrow> None)"

definition card_detail_of :: "(string \<Rightarrow> string) \<Rightarrow> detection \<Rightarrow> card_detail" where
  "card_detail_of loc d = \<lparr>cd_label = type_label (det_type d), cd_events = nat_str (event_count d) @ '' events'',
     cd_actor = (case actor d of Some a \<Rightarrow> if a = [] then None else Some a | None \<Rightarrow> None),
     cd_seen = (seen_text loc (first_seen d), seen_text loc (last_seen d)),
     cd_details = map (\<lambda>(k, v). (k, js_string (Some v))) (details d)\<rparr>"

text \<open>A card: the short type, the two hosts, the actor, the confidence and the details when it is selected.\<close>

definition card_view :: "(string \<Rightarrow> string) \<Rightarrow> map_state \<Rightarrow> nat \<Rightarrow> detection
    \<Rightarrow> string \<times> (string \<times> string) \<times> string \<times> int \<times> card_detail option" where
  "card_view loc s i d = (type_short (det_type d), (source_host d, target_host d),
     (case actor d of Some a \<Rightarrow> a | None \<Rightarrow> ''Unknown actor''), percent (confidence d),
     (if selected_idx s = Some i then Some (card_detail_of loc d) else None))"

definition card_views :: "(string \<Rightarrow> string) \<Rightarrow> detection list \<Rightarrow> map_state
    \<Rightarrow> (string \<times> (string \<times> string) \<times> string \<times> int \<times> card_detail option) list option" where
  "card_views loc ds s = (let shown_ds = filtered (active_type s) ds in
     if shown_ds = [] then None else Some (map (\<lambda>i. card_view loc s i (shown_ds ! i)) [0..<length shown_ds]))"

text \<open>The clicks: on a type, on an edge or its card, on a host.\<close>

inductive map_click :: "detection list \<Rightarrow> map_state \<Rightarrow> map_state \<Rightarrow> bool" for ds where
  on_type: "t \<in> fst ` set (type_buttons ds s) \<Longrightarrow> map_click ds s (choose_type t s)"
| on_edge: "i < length (filtered (active_type s) ds) \<Longrightarrow> map_click ds s (click_edge i s)"
| on_host: "map_click ds s (click_host h s)"

definition initial_map :: map_state where
  "initial_map = \<lparr>selected_idx = None, active_type = None, highlighted = None\<rparr>"

section \<open>Lemmas\<close>

text \<open>A node whose centre is at \<open>p\<close> fits in the canvas.\<close>

definition on_canvas :: "layout_config \<Rightarrow> real \<times> real \<Rightarrow> bool" where
  "on_canvas cfg p \<longleftrightarrow> node_r cfg \<le> fst p \<and> fst p + node_r cfg \<le> width cfg \<and>
     node_r cfg \<le> snd p \<and> snd p + node_r cfg \<le> height cfg"

lemma ellipse_on_canvas: "on_canvas (get_layout_config n) (ellipse_point (get_layout_config n) m i)"
proof -
  define c where "c = cos (2 * pi * real i / real m - pi / 2)"
  define t where "t = sin (2 * pi * real i / real m - pi / 2)"
  have b: "- 1 \<le> c" "c \<le> 1" "- 1 \<le> t" "t \<le> 1" by (simp_all add: c_def t_def)
  have e: "ellipse_point cfg m i = (width cfg / 2 + width cfg * rx_scale cfg * c,
      height cfg / 2 + height cfg * ry_scale cfg * t)" for cfg
    by (simp add: ellipse_point_def Let_def c_def t_def)
  show ?thesis
    unfolding e on_canvas_def get_layout_config_def
    by (simp, intro conjI impI; use b in linarith)
qed

lemma layout_points:
  assumes "compute_layout hosts (get_layout_config (length hosts)) h = Some p"
  shows "on_canvas (get_layout_config (length hosts)) p"
proof -
  consider "hosts = []" | a where "hosts = [a]" | a b where "hosts = [a, b]" | a b c t where "hosts = a # b # c # t"
    by (metis neq_Nil_conv)
  then show ?thesis
  proof cases
    case 4
    let ?cfg = "get_layout_config (length hosts)"
    have "map_of (rev (zip hosts (map (ellipse_point ?cfg (length hosts)) [0..<length hosts]))) h = Some p"
      using assms 4 by (simp add: compute_layout_def)
    then have "(h, p) \<in> set (zip hosts (map (ellipse_point ?cfg (length hosts)) [0..<length hosts]))"
      using map_of_SomeD by fastforce
    then have "p \<in> set (map (ellipse_point ?cfg (length hosts)) [0..<length hosts])" by (rule set_zip_rightD)
    then show ?thesis using ellipse_on_canvas by auto
  qed (use assms in \<open>auto simp: compute_layout_def get_layout_config_def on_canvas_def split: if_splits\<close>)
qed

section \<open>Properties\<close>

text \<open>Every node of the map lies inside the canvas with its whole circle, for any number of hosts.\<close>

theorem hosts_inside_canvas:
  assumes "compute_layout hosts (get_layout_config (length hosts)) h = Some p"
  shows "on_canvas (get_layout_config (length hosts)) p"
  using layout_points [OF assms] .

theorem hosts_inside_canvas_witness:
  "on_canvas (get_layout_config 2) (364, 170)"
  using hosts_inside_canvas [of "[''a'', ''b'']" "''b''" "(364, 170)"]
  by (simp add: compute_layout_def get_layout_config_def)

subsection \<open>The positions of the hosts\<close>

lemma set_insert_by [simp]: "set (insert_by lt x xs) = insert x (set xs)"
  by (induction xs) auto

lemma distinct_insert_by: "distinct xs \<Longrightarrow> x \<notin> set xs \<Longrightarrow> distinct (insert_by lt x xs)"
  by (induction xs) auto

lemma fold_insert_by:
  "distinct (xs @ acc) \<Longrightarrow> distinct (fold (insert_by lt) xs acc) \<and> set (fold (insert_by lt) xs acc) = set xs \<union> set acc"
  by (induction xs arbitrary: acc) (auto simp: distinct_insert_by)

lemma all_hosts_set:
  "distinct (all_hosts lt ds)" "set (all_hosts lt ds) = source_host ` set ds \<union> target_host ` set ds"
  using fold_insert_by [of "new_set (concat (map (\<lambda>d. [source_host d, target_host d]) ds))" "[]" lt]
  by (auto simp: all_hosts_def)

definition host_point :: "layout_config \<Rightarrow> nat \<Rightarrow> nat \<Rightarrow> real \<times> real" where
  "host_point cfg n k = (if n = 1 then (width cfg / 2, height cfg / 2)
     else if n = 2 then (if k = 0 then width cfg * 3 / 10 else width cfg * 7 / 10, height cfg / 2)
     else ellipse_point cfg n k)"

lemma layout_at:
  assumes "distinct hosts" and "k < length hosts"
  shows "compute_layout hosts cfg (hosts ! k) = Some (host_point cfg (length hosts) k)"
proof -
  consider a where "hosts = [a]" | a b where "hosts = [a, b]" | a b c t where "hosts = a # b # c # t"
    using assms(2) by (metis neq_Nil_conv list.size(3) not_less_zero)
  then show ?thesis
  proof cases
    case 3
    let ?z = "zip hosts (map (ellipse_point cfg (length hosts)) [0..<length hosts])"
    have "distinct (map fst (rev ?z))" using assms(1) by (simp add: rev_map [symmetric])
    moreover have "(hosts ! k, ellipse_point cfg (length hosts) k) \<in> set (rev ?z)"
      using assms(2) by (force simp: set_zip)
    ultimately have "map_of (rev ?z) (hosts ! k) = Some (ellipse_point cfg (length hosts) k)" by (rule map_of_is_SomeI)
    then show ?thesis using 3 by (simp add: compute_layout_def host_point_def)
  qed (use assms in \<open>auto simp: compute_layout_def host_point_def less_Suc_eq\<close>)
qed

lemma config_positive:
  "0 < width (get_layout_config n)" "0 < height (get_layout_config n)"
  "0 < rx_scale (get_layout_config n)" "0 < ry_scale (get_layout_config n)"
  by (simp_all add: get_layout_config_def)

lemma ellipse_point_inj:
  assumes "i < n" and "j < n" and "ellipse_point (get_layout_config m) n i = ellipse_point (get_layout_config m) n j"
  shows "i = j"
proof -
  let ?a = "2 * pi * real i / real n - pi / 2" and ?b = "2 * pi * real j / real n - pi / 2"
  have "cos ?a = cos ?b" "sin ?a = sin ?b"
    using assms(3) config_positive [of m] by (simp_all add: ellipse_point_def Let_def)
  then obtain k :: int where k: "?a = ?b + 2 * pi * k" by (metis sin_cos_eq_iff)
  have n: "real n > 0" using assms(1) by simp
  have "2 * pi * (real i / real n) = 2 * pi * (real j / real n + k)" using k by (simp add: algebra_simps)
  then have "real i / real n = real j / real n + k" by (rule mult_left_cancel [THEN iffD1, rotated]) simp
  then have "real i = real j + k * real n" using n by (simp add: field_simps)
  then have e: "int i = int j + k * int n" by (metis (mono_tags) of_int_add of_int_eq_iff of_int_mult of_int_of_nat_eq)
  moreover have "k = 0"
  proof (rule ccontr)
    assume "k \<noteq> 0"
    then have "1 \<le> \<bar>k\<bar>" by linarith
    then have "int n \<le> \<bar>k\<bar> * int n" using mult_right_mono [of 1 "\<bar>k\<bar>" "int n"] by simp
    moreover have "\<bar>int i - int j\<bar> = \<bar>k\<bar> * int n" using e by (simp add: abs_mult)
    ultimately show False using assms(1,2) by linarith
  qed
  ultimately show ?thesis by simp
qed

lemma host_point_inj:
  assumes "i < n" and "j < n" and "host_point (get_layout_config m) n i = host_point (get_layout_config m) n j"
  shows "i = j"
  using assms config_positive [of m] ellipse_point_inj [of i n j m]
  by (auto simp: host_point_def less_Suc_eq numeral_2_eq_2 split: if_splits)

lemma hosts_have_points:
  assumes "h \<in> set hosts" and "distinct hosts"
  obtains p where "compute_layout hosts cfg h = Some p"
  using assms layout_at [of hosts _ cfg] by (metis in_set_conv_nth)

lemma layout_inj:
  assumes "distinct hosts" and "g \<in> set hosts" and "h \<in> set hosts"
    and "compute_layout hosts (get_layout_config m) g = compute_layout hosts (get_layout_config m) h"
  shows "g = h"
  using assms layout_at [of hosts _ "get_layout_config m"] host_point_inj [of _ "length hosts" _ m]
  by (metis in_set_conv_nth option.inject)

subsection \<open>Parallel edges\<close>

lemma filter_take_less:
  assumes "i < j" and "j \<le> length ds" and "P (ds ! i)"
  shows "length (filter P (take i ds)) < length (filter P (take j ds))"
proof -
  have "take j ds = take i ds @ ds ! i # take (j - Suc i) (drop (Suc i) ds)"
    using assms(1,2) take_add [of "Suc i" "j - Suc i" ds] by (simp add: take_Suc_conv_app_nth)
  then show ?thesis using assms(3) by simp
qed

lemma edge_index_less:
  assumes "i < j" and "j < length ds" and "edge_key (ds ! i) = edge_key (ds ! j)"
  shows "edge_index ds i < edge_index ds j"
  using filter_take_less [of i j ds "\<lambda>d. edge_key d = edge_key (ds ! j)"] assms by (simp add: edge_index_def)

lemma filtered_subset: "set (filtered active ds) \<subseteq> set ds"
  by (auto simp: filtered_def split: option.splits)

lemma arrow_inj:
  assumes "P s = Some (x1, y1)" and "P t = Some (x2, y2)" and "(x1, y1) \<noteq> (x2, y2)"
    and "build_arrow_path P s t e n r = build_arrow_path P s t f n r"
  shows "e = f"
proof -
  define d where "d = sqrt ((x2 - x1) * (x2 - x1) + (y2 - y1) * (y2 - y1))"
  define g where "g = (\<lambda>e. 2 / 10 + (real e / real (max n 1)) * (4 / 10))"
  have d: "d \<noteq> 0" using assms(3) by (auto simp: d_def sum_squares_eq_zero_iff)
  define mx where "mx = (x1 + (x2 - x1) / d * (r + 4) + (x2 - (x2 - x1) / d * (r + 14))) / 2"
  define my where "my = (y1 + (y2 - y1) / d * (r + 4) + (y2 - (y2 - y1) / d * (r + 14))) / 2"
  have "fst (snd (the (build_arrow_path P s t k n r))) =
      (mx + - (y2 - y1) / d * (d * g k), my + (x2 - x1) / d * (d * g k))" for k
    unfolding build_arrow_path_def assms(1,2) Let_def mx_def my_def g_def
    by (simp only: option.case prod.case option.sel fst_conv snd_conv d_def [symmetric] d if_False)
  from this [of e] this [of f]
  have "- (y2 - y1) / d * (d * g e) = - (y2 - y1) / d * (d * g f)" "(x2 - x1) / d * (d * g e) = (x2 - x1) / d * (d * g f)"
    unfolding assms(4) by simp_all
  then have "(y2 - y1) * g e = (y2 - y1) * g f" "(x2 - x1) * g e = (x2 - x1) * g f" using d by auto
  then have "g e = g f" using assms(3) by auto
  then show ?thesis by (simp add: g_def)
qed

text \<open>Detections of one kind of movement between the same two hosts are never drawn on top of each other: any
  two edges that lead from one host to another one are drawn, along different paths.\<close>

theorem parallel_edges_apart:
  assumes "i < j" and "j < length shown_ds" and "shown_ds = filtered active ds"
    and "source_host (shown_ds ! i) = source_host (shown_ds ! j)" and "target_host (shown_ds ! i) = target_host (shown_ds ! j)"
    and "source_host (shown_ds ! j) \<noteq> target_host (shown_ds ! j)"
  shows "edge_path lt ds shown_ds i \<noteq> None \<and> edge_path lt ds shown_ds i \<noteq> edge_path lt ds shown_ds j"
proof -
  let ?h = "all_hosts lt ds" and ?d = "shown_ds ! j"
  let ?P = "compute_layout ?h (get_layout_config (length ?h))"
  have "?d \<in> set ds" using assms(2,3) by (metis filtered_subset nth_mem subsetD)
  then have h: "source_host ?d \<in> set ?h" "target_host ?d \<in> set ?h" by (auto simp: all_hosts_set)
  obtain x1 y1 where p: "?P (source_host ?d) = Some (x1, y1)" using hosts_have_points [OF h(1) all_hosts_set(1)] by (metis surj_pair)
  obtain x2 y2 where q: "?P (target_host ?d) = Some (x2, y2)" using hosts_have_points [OF h(2) all_hosts_set(1)] by (metis surj_pair)
  have ne: "(x1, y1) \<noteq> (x2, y2)" using layout_inj [OF all_hosts_set(1) h] p q assms(6) by metis
  have k: "edge_key (shown_ds ! i) = edge_key ?d" using assms(4,5) by (simp add: edge_key_def)
  have "edge_index shown_ds i \<noteq> edge_index shown_ds j" using edge_index_less [OF assms(1,2) k] by simp
  then have "edge_path lt ds shown_ds i \<noteq> edge_path lt ds shown_ds j"
    using arrow_inj [OF p q ne] by (auto simp: edge_path_def Let_def assms(4,5) k)
  moreover have "edge_path lt ds shown_ds i \<noteq> None"
    by (simp add: edge_path_def Let_def assms(4,5) build_arrow_path_def p q)
  ultimately show ?thesis by blast
qed

definition sample_detection :: "string \<Rightarrow> string \<Rightarrow> detection" where
  "sample_detection a b = \<lparr>det_type = AccountPivot, source_host = a, target_host = b, confidence = 9 / 10,
     actor = None, first_seen = None, last_seen = None, event_count = 2, details = []\<rparr>"

theorem parallel_edges_apart_witness:
  "let ds = [sample_detection ''a'' ''b'', sample_detection ''b'' ''c'', sample_detection ''a'' ''b''] in
     edge_path (\<lambda>_ _. True) ds ds 0 \<noteq> None \<and> edge_path (\<lambda>_ _. True) ds ds 0 \<noteq> edge_path (\<lambda>_ _. True) ds ds 2"
  unfolding Let_def by (rule parallel_edges_apart [where active = None]) (simp_all add: filtered_def sample_detection_def)

text \<open>A detection that stays on one host has its edge drawn as a single point.\<close>

lemma self_edge_is_a_point:
  assumes "P h = Some p"
  shows "build_arrow_path P h h e n r = Some (p, p, p)"
  using assms by (cases p) (simp add: build_arrow_path_def Let_def)

text \<open>The map never points outside its list: whatever types, edges, cards and hosts are clicked, the selected
  index is one of a detection of the type shown, and that detection's two hosts are highlighted.\<close>

theorem selection_stays_shown:
  assumes "(map_click ds)\<^sup>*\<^sup>* initial_map s" and "selected_idx s = Some i"
  shows "\<exists>d. selected_detection ds s = Some d \<and> d = filtered (active_type s) ds ! i \<and> i < length (filtered (active_type s) ds)
    \<and> host_highlighted ds s (source_host d) \<and> host_highlighted ds s (target_host d)"
proof -
  have "case selected_idx t of Some k \<Rightarrow> k < length (filtered (active_type t) ds) | None \<Rightarrow> True"
    if "(map_click ds)\<^sup>*\<^sup>* initial_map t" for t
    using that
    by (induction rule: rtranclp_induct)
      (auto simp: initial_map_def choose_type_def click_edge_def click_host_def split: option.splits if_splits elim!: map_click.cases)
  from this [OF assms(1)] show ?thesis
    using assms(2) by (simp add: selected_detection_def host_highlighted_def)
qed

theorem selection_stays_shown_witness:
  "host_highlighted [sample_detection ''a'' ''b''] (click_edge 0 initial_map) ''b''"
proof -
  let ?ds = "[sample_detection ''a'' ''b'']"
  have "map_click ?ds initial_map (click_edge 0 initial_map)"
    by (rule on_edge) (simp add: filtered_def initial_map_def)
  from selection_stays_shown [OF r_into_rtranclp [of "map_click ?ds", OF this], of 0] show ?thesis
    by (auto simp: click_edge_def initial_map_def filtered_def sample_detection_def)
qed

text \<open>Highlighting a host dims nothing as long as no edge is selected.\<close>

lemma highlight_alone_dims_nothing: "selected_idx s = None \<Longrightarrow> \<not> dimmed s i d"
  by (simp add: dimmed_def)

end
