(* ===== verification/Login.thy ===== *)
theory Login
  imports Auth
begin

text \<open>
  \<open>pages/Login.tsx\<close>: the boot and authentication sequences, the login request, the session it stores
  and the redirect.  The pauses between the lines of a sequence are timers that change nothing, so a
  sequence is its lines in order; the flag of a mounted component is read before each of them.  The
  session storage is the field \<open>store\<close>; the clock, \<open>Date.parse\<close> and the locale are parameters.
\<close>

section \<open>Connection and formatting\<close>

definition bullets :: string where
  "bullets = concat (replicate 4 [CHR 0xE2, CHR 0x80, CHR 0xA2])"

definition bullets3 :: string where
  "bullets3 = concat (replicate 3 [CHR 0xE2, CHR 0x80, CHR 0xA2])"

definition middle_dot :: string where
  "middle_dot = [CHR 0xB7]"

record connection_info =
  effective_type :: "string option"
  downlink :: "rat option"
  rtt :: "int option"

definition no_text :: "string option \<Rightarrow> bool" where
  "no_text v = (v = None \<or> v = Some [])"

text \<open>The three vendor names of the browser's connection object, in order of preference.\<close>

definition get_connection_details :: "connection_info option list \<Rightarrow> connection_info" where
  "get_connection_details vendors = (case filter (\<lambda>c. c \<noteq> None) vendors of
      Some c # _ \<Rightarrow> c | _ \<Rightarrow> \<lparr>effective_type = None, downlink = None, rtt = None\<rparr>)"

definition format_connection_label :: "connection_info \<Rightarrow> string" where
  "format_connection_label info =
     (let parts = (case effective_type info of Some t \<Rightarrow> if t = [] then [] else [to_upper t] | None \<Rightarrow> []) @
            (case downlink info of Some d \<Rightarrow> [to_fixed 1 d @ ''Mbps''] | None \<Rightarrow> []) @
            (case rtt info of Some r \<Rightarrow> if 0 < r then [int_str r @ ''ms''] else [] | None \<Rightarrow> [])
      in if parts = [] then ''link pending'' else join_with '' / '' parts)"

definition get_connection_speed_factor :: "connection_info \<Rightarrow> rat" where
  "get_connection_speed_factor info =
     (let base = (case downlink info of None \<Rightarrow> 1
            | Some d \<Rightarrow> if 50 \<le> d then 3 / 5 else if 20 \<le> d then 3 / 4 else if 10 \<le> d then 9 / 10
                else if 2 \<le> d then 1 else 6 / 5);
          factor = base + (if effective_type info = Some ''slow-2g'' then 3 / 5
            else if effective_type info = Some ''2g'' then 2 / 5
            else if effective_type info = Some ''3g'' then 1 / 5 else 0)
      in min (max factor (3 / 5)) (8 / 5))"

record memory_snapshot =
  mem_used :: rat
  mem_total :: rat
  mem_percent :: int

definition capture_memory_usage :: "(rat \<times> rat) option \<Rightarrow> rat option \<Rightarrow> memory_snapshot option" where
  "capture_memory_usage heap device_memory = (case heap of
      Some (used, limit) \<Rightarrow>
        (let u = used / 1024 / 1024 / 1024; t = limit / 1024 / 1024 / 1024
         in Some \<lparr>mem_used = u, mem_total = t, mem_percent = min 100 (math_round (u / t * 100))\<rparr>)
    | None \<Rightarrow> map_option (\<lambda>m. \<lparr>mem_used = m, mem_total = m, mem_percent = 100\<rparr>) device_memory)"

definition format_memory_label :: "memory_snapshot option \<Rightarrow> string" where
  "format_memory_label snapshot = (case snapshot of
      None \<Rightarrow> ''Detecting...''
    | Some m \<Rightarrow> int_str (mem_percent m) @ ''% ('' @ to_fixed 2 (mem_used m) @ '' GB / '' @
        to_fixed 1 (mem_total m) @ '' GB)'')"

definition format_network_throughput :: "connection_info \<Rightarrow> string" where
  "format_network_throughput info = (case downlink info of
      Some d \<Rightarrow> to_fixed 1 d @ '' Mbps'' | None \<Rightarrow> ''Detecting...'')"

definition format_latency_label :: "rat option \<Rightarrow> string" where
  "format_latency_label latency = (case latency of None \<Rightarrow> ''Detecting...''
    | Some l \<Rightarrow> if l < 1 then ''<1 ms'' else int_str (math_round l) @ '' ms'')"

definition format_db_status_label :: "string option \<Rightarrow> string" where
  "format_db_status_label st = (case st of None \<Rightarrow> ''pending''
    | Some v \<Rightarrow> if v = [] then ''pending'' else
        (let n = to_lower v in if n = ''ok'' then ''ONLINE'' else if n = ''degraded'' then ''DEGRADED''
         else if n = ''error'' then ''ERROR'' else to_upper v))"

definition format_server_timestamp :: "(string \<Rightarrow> string option) \<Rightarrow> string option \<Rightarrow> string" where
  "format_server_timestamp locale_time stamp = (case stamp of None \<Rightarrow> ''pending''
    | Some v \<Rightarrow> if v = [] then ''pending'' else (case locale_time v of Some t \<Rightarrow> t | None \<Rightarrow> v))"

definition mask_ip_address :: "string option \<Rightarrow> string" where
  "mask_ip_address ip = (case ip of None \<Rightarrow> ''resolving...''
    | Some v \<Rightarrow> if v = [] then ''resolving...''
        else if str_includes v '':'' then take 5 v @ '':'' @ bullets @ '':'' @ bullets
        else (case split_at_char CHR ''.'' v of
            [a, b, c, d] \<Rightarrow> a @ ''.'' @ b @ ''.'' @ bullets3 @ ''.'' @ bullets3
          | _ \<Rightarrow> ''protected''))"

definition get_browser_label :: "string \<Rightarrow> string" where
  "get_browser_label ua =
     (if str_includes ua ''Edg/'' then ''Microsoft Edge'' else if str_includes ua ''Firefox/'' then ''Firefox''
      else if str_includes ua ''Chrome/'' then ''Chrome'' else if str_includes ua ''Safari/'' then ''Safari''
      else ''Unknown browser'')"

text \<open>The minutes a session lasts; an unreadable date gives \<open>NaN\<close>, which is neither positive nor null.\<close>

datatype ttl = NoTtl | Minutes int | NotANumber

definition compute_session_ttl :: "(string \<Rightarrow> int option) \<Rightarrow> int \<Rightarrow> string option \<Rightarrow> ttl" where
  "compute_session_ttl date_parse now expires = (case expires of None \<Rightarrow> NoTtl
    | Some e \<Rightarrow> if e = [] then NoTtl
        else (case date_parse e of None \<Rightarrow> NotANumber
          | Some t \<Rightarrow> if t - now \<le> 0 then NoTtl else Minutes (math_round (of_int (t - now) / 60000))))"

definition ttl_label :: "ttl \<Rightarrow> string" where
  "ttl_label t = (case t of NoTtl \<Rightarrow> em_dash | Minutes m \<Rightarrow> int_str m @ '' MIN'' | NotANumber \<Rightarrow> ''NaN MIN'')"

section \<open>Sequences\<close>

record sequence_context =
  ctx_username :: string
  ctx_role :: string
  ctx_ttl :: ttl
  ctx_ip :: "string option"
  ctx_label :: string
  ctx_db :: string
  ctx_latency :: "rat option"
  ctx_reason :: "string option"

record sequence_step =
  get_text :: "sequence_context \<Rightarrow> string"
  min_delay :: nat

definition step_of :: "(sequence_context \<Rightarrow> string) \<Rightarrow> nat \<Rightarrow> sequence_step" where
  "step_of t d = \<lparr>get_text = t, min_delay = d\<rparr>"

definition boot_steps :: "sequence_step list" where
  "boot_steps = [
     step_of (\<lambda>_. ''[SYS ] Initializing secure boot sequence'') 400,
     step_of (\<lambda>_. ''[SYS ] Loading tactical UI modules'') 320,
     step_of (\<lambda>_. ''[SYS ] Establishing encrypted channel'') 300,
     step_of (\<lambda>_. ''[NET ] Network handshake verified'') 280,
     step_of (\<lambda>_. ''[DB  ] Backend diagnostics complete'') 260,
     step_of (\<lambda>c. if ctx_reason c = Some ''manual'' then ''[AUTH] Operator logout acknowledged''
        else if ctx_reason c = Some ''timeout'' then ''[AUTH] Session expired '' @ em_dash @ '' logout enforced''
        else if ctx_reason c = Some ''forced'' then ''[AUTH] Administrative logout enforced''
        else ''[AUTH] Security checks complete'') 240,
     step_of (\<lambda>_. ''[SYS ] Operator console ready'') 200]"

definition operator_name :: "sequence_context \<Rightarrow> string" where
  "operator_name c = (if ctx_username c = [] then ''OPERATOR'' else to_upper (ctx_username c))"

definition known_ip :: "sequence_context \<Rightarrow> string" where
  "known_ip c = (case ctx_ip c of Some ip \<Rightarrow> ip | None \<Rightarrow> ''unknown'')"

definition pre_auth_steps :: "sequence_step list" where
  "pre_auth_steps = [
     step_of (\<lambda>c. ''[AUTH] Validating credentials for '' @ operator_name c @ ''...'') 0,
     step_of (\<lambda>_. ''[AUTH] Verifying access level policies...'') 360,
     step_of (\<lambda>_. ''[SEC ] Verifying security clearance tokens...'') 360,
     step_of (\<lambda>c. ''[SYS ] Establishing secure session via '' @
        (if ctx_label c = [] then ''network'' else ctx_label c) @ ''...'') 400]"

definition success_auth_steps :: "sequence_step list" where
  "success_auth_steps = [
     step_of (\<lambda>c. ''[SYS ] Session token generated'' @
        (case ctx_ttl c of Minutes t \<Rightarrow> if t = 0 then [] else '' '' @ middle_dot @ '' TTL '' @ int_str t @ ''m'' | _ \<Rightarrow> [])) 260,
     step_of (\<lambda>c. ''[LOG ] Access logged to audit trail (IP '' @ known_ip c @ '')'') 320,
     step_of (\<lambda>_. ''[RDY ] Authentication successful'') 340,
     step_of (\<lambda>_. ''[NAV ] Redirecting to command center...'') 360]"

definition failure_auth_steps :: "sequence_step list" where
  "failure_auth_steps = [
     step_of (\<lambda>c. ''[FAIL] Credential verification failed for '' @ operator_name c) 0,
     step_of (\<lambda>c. ''[LOG ] Unauthorized attempt recorded '' @ middle_dot @ '' Public IP '' @ known_ip c) 320]"

definition step_delay :: "rat \<Rightarrow> sequence_step \<Rightarrow> rat" where
  "step_delay speed st = max 100 (of_nat (min_delay st) * speed + 0)"

section \<open>Errors\<close>

definition login_failed :: string where
  "login_failed = ''Login failed. Please check your credentials.''"

definition text_of :: "jsval option \<Rightarrow> string option" where
  "text_of v = (case v of Some (JStr t) \<Rightarrow> Some t | _ \<Rightarrow> None)"

fun error_text :: "jserr \<Rightarrow> string option" where
  "error_text (Error m) = Some m" | "error_text (DOMException n m) = Some m" | "error_text NonError = None"

definition plain_error :: "string \<Rightarrow> string \<times> string option" where
  "plain_error m =
     (if str_includes m ''401'' \<or> str_includes (to_lower m) ''invalid credentials'' then (login_failed, None)
      else if 0 < length (trim m) then (m, None) else (login_failed, None))"

definition parse_error_message :: "jserr \<Rightarrow> string \<times> string option" where
  "parse_error_message err = (case error_text err of None \<Rightarrow> (login_failed, None)
    | Some m \<Rightarrow> (case parse_json m of None \<Rightarrow> plain_error m
      | Some v \<Rightarrow> (case js_prop v ''detail'' of
          Some (JStr d) \<Rightarrow> (d, text_of (js_prop v ''client_ip''))
        | Some (JObj ob) \<Rightarrow>
            ((case text_of (map_of ob ''message'') of Some t \<Rightarrow> t | None \<Rightarrow> login_failed),
             (case text_of (map_of ob ''client_ip'') of Some ip \<Rightarrow> Some ip
              | None \<Rightarrow> text_of (js_prop v ''client_ip'')))
        | Some (JArr xs) \<Rightarrow> (login_failed, text_of (js_prop v ''client_ip''))
        | _ \<Rightarrow> plain_error m)))"

section \<open>State\<close>

record login_success =
  ls_username :: string
  ls_role :: string
  ls_ip :: "string option"
  ls_ip_version :: "int option"
  ls_secure :: bool
  ls_ttl :: ttl
  ls_redirect :: string

record connection_context =
  cc_ip :: "string option"
  cc_ip_version :: "int option"
  cc_secure :: "bool option"

record login_page =
  username_field :: string
  password_field :: string
  is_loading :: bool
  error_message :: "string option"
  login_success :: "login_success option"
  redirect_countdown :: int
  is_booting :: bool
  boot_messages :: "string list"
  boot_complete :: bool
  auth_messages :: "string list"
  auth_total_steps :: nat
  failure_open :: bool
  failure_message :: string
  failure_ip :: "string option"
  logout_reason :: "string option"
  logout_timestamp :: "string option"
  db_status :: string
  handshake_latency :: "rat option"
  connection_label :: string
  client_ip :: "string option"
  conn_context :: "connection_context option"
  reveal_ip :: bool
  boot_context :: sequence_context
  auth_context :: sequence_context
  memory_label :: string
  network_label :: string
  speed_factor :: rat
  mounted :: bool
  store :: browser

datatype login_reply =
    LHttp bool nat
  | LContext bool connection_context
  | LLogin "string option" "string option" "string option" "string option"
  | LMe string string
  | LClient bool "jserr + login_reply"

fun the_http where "the_http (LHttp ok st) = Some (ok, st)" | "the_http _ = None"
fun the_context where "the_context (LContext ok c) = Some (ok, c)" | "the_context _ = None"
fun the_login where "the_login (LLogin u r e ip) = Some (u, r, e, ip)" | "the_login _ = None"
fun the_me where "the_me (LMe u r) = Some (u, r)" | "the_me _ = None"

datatype login_body = Credentials string string

type_synonym login_io = "(login_page, login_reply, login_body, unit) io"

text \<open>
  The two calls through \<open>lib/api.ts\<close>.  \<open>LClient refused y\<close> is a call that settled with \<open>y\<close>; \<open>refused\<close> says that one of
  its attempts was answered with 401, on which the client logs out before it goes on (theory \<open>Api\<close>, event
  \<open>LoggedOut\<close>): it clears the stored session, and stays on the page because this is \<open>/login\<close>.
\<close>

definition client :: "login_body request \<Rightarrow> (jserr + login_reply \<Rightarrow> login_io) \<Rightarrow> login_io" where
  "client rq k = Await rq (\<lambda>x. case x of
     Inr (LClient refused y) \<Rightarrow>
       (if refused then Update (\<lambda>s. s\<lparr>store := logout (Some ''expired'') (store s)\<rparr>) (k y) else k y)
   | _ \<Rightarrow> k x)"

definition blank_context :: "string \<Rightarrow> sequence_context" where
  "blank_context label = \<lparr>ctx_username = [], ctx_role = [], ctx_ttl = NoTtl, ctx_ip = None, ctx_label = label,
     ctx_db = ''unknown'', ctx_latency = None, ctx_reason = None\<rparr>"

definition initial_login :: "connection_info \<Rightarrow> browser \<Rightarrow> login_page" where
  "initial_login info b = (let label = format_connection_label info in
     \<lparr>username_field = [], password_field = [], is_loading = False, error_message = None,
      login_success = None, redirect_countdown = 3, is_booting = True, boot_messages = [],
      boot_complete = False, auth_messages = [],
      auth_total_steps = length pre_auth_steps + length success_auth_steps, failure_open = False,
      failure_message = [], failure_ip = None, logout_reason = None, logout_timestamp = None,
      db_status = ''unknown'', handshake_latency = None, connection_label = label, client_ip = None,
      conn_context = None, reveal_ip = False, boot_context = blank_context label,
      auth_context = blank_context label, memory_label = ''Detecting...'',
      network_label = format_network_throughput info, speed_factor = get_connection_speed_factor info,
      mounted = True, store = b\<rparr>)"

section \<open>Effects\<close>

definition unmount :: "login_page \<Rightarrow> login_page" where
  "unmount s = s\<lparr>mounted := False\<rparr>"

definition update_connection :: "connection_info \<Rightarrow> login_page \<Rightarrow> login_page" where
  "update_connection info s = s\<lparr>speed_factor := get_connection_speed_factor info,
     connection_label := format_connection_label info, network_label := format_network_throughput info\<rparr>"

definition load_context :: login_io where
  "load_context = tryCatch
     (call (Request GET ''/status/connection-context'' None) (expect the_context (\<lambda>(ok, c).
        if \<not> ok then Done
        else Read (\<lambda>s0. if \<not> mounted s0 then Done
          else Update (\<lambda>s. s\<lparr>conn_context := Some c\<rparr>)
            (if no_text (cc_ip c) then Done else Update (\<lambda>s. s\<lparr>client_ip := cc_ip c\<rparr>) Done)))))
     (\<lambda>_. Done)"

definition normalize_db_status :: "string option \<Rightarrow> string" where
  "normalize_db_status st = (case st of None \<Rightarrow> ''unknown''
    | Some v \<Rightarrow> (let n = to_lower v in if n = ''ok'' \<or> n = ''degraded'' \<or> n = ''error'' then n else ''unknown''))"

definition sync_diagnostics :: "login_page \<Rightarrow> login_page" where
  "sync_diagnostics s = s\<lparr>
     boot_context := (boot_context s)\<lparr>ctx_db := db_status s, ctx_latency := handshake_latency s\<rparr>,
     auth_context := (auth_context s)\<lparr>ctx_db := db_status s, ctx_latency := handshake_latency s\<rparr>\<rparr>"

definition fetch_diagnostics :: "rat \<Rightarrow> login_io" where
  "fetch_diagnostics latency = tryCatch
     (call (Request GET ''/status/health'' None) (expect the_http (\<lambda>(ok, st).
        if \<not> ok then Raise (Error (''Backend unreachable: '' @ nat_str st))
        else Read (\<lambda>s0. if \<not> mounted s0 then Done
          else Update (\<lambda>s. sync_diagnostics (s\<lparr>db_status := ''ok'', handshake_latency := Some latency\<rparr>)) Done))))
     (\<lambda>_. Done)"

text \<open>The reason of the last logout: the stored one, overridden by the navigation state.\<close>

definition read_logout_reason :: "string option \<Rightarrow> string \<Rightarrow> login_page \<Rightarrow> login_page" where
  "read_logout_reason state_reason now s =
     (let s1 = (case local_get (store s) ''dfir_logout_reason'' of
            Some raw \<Rightarrow> (if raw = [] then s else case parse_json raw of
                Some v \<Rightarrow> (case text_of (js_prop v ''reason'') of
                    Some r \<Rightarrow> if r = [] then s
                      else s\<lparr>logout_reason := Some r, logout_timestamp := text_of (js_prop v ''timestamp'')\<rparr>
                  | None \<Rightarrow> s)
              | None \<Rightarrow> s)
          | None \<Rightarrow> s)
      in if no_text state_reason then s1
         else s1\<lparr>logout_reason := state_reason, logout_timestamp := Some now\<rparr>)"

definition sync_failure_ip :: "login_page \<Rightarrow> login_page" where
  "sync_failure_ip s = (if no_text (failure_ip s) then s
     else s\<lparr>auth_context := (auth_context s)\<lparr>ctx_ip := failure_ip s\<rparr>\<rparr>)"

definition sync_reason :: "login_page \<Rightarrow> login_page" where
  "sync_reason s = (if no_text (logout_reason s) then s
     else s\<lparr>auth_context := (auth_context s)\<lparr>ctx_reason := logout_reason s\<rparr>,
            boot_context := (boot_context s)\<lparr>ctx_reason := logout_reason s\<rparr>\<rparr>)"

definition sync_label :: "login_page \<Rightarrow> login_page" where
  "sync_label s = s\<lparr>boot_context := (boot_context s)\<lparr>ctx_label := connection_label s\<rparr>,
     auth_context := (auth_context s)\<lparr>ctx_label := connection_label s\<rparr>\<rparr>"

definition sync_ip :: "login_page \<Rightarrow> login_page" where
  "sync_ip s = s\<lparr>boot_context := (boot_context s)\<lparr>ctx_ip := client_ip s\<rparr>,
     auth_context := (auth_context s)\<lparr>ctx_ip := client_ip s\<rparr>\<rparr>"

text \<open>One second of the redirect countdown: the new state and where it navigates, if it does.\<close>

definition countdown_tick :: "login_page \<Rightarrow> login_page \<times> string option" where
  "countdown_tick s = (case login_success s of None \<Rightarrow> (s, None)
    | Some d \<Rightarrow> if redirect_countdown s \<le> 1 then (s\<lparr>redirect_countdown := 0\<rparr>, Some (ls_redirect d))
        else (s\<lparr>redirect_countdown := redirect_countdown s - 1\<rparr>, None))"

definition push_once :: "string \<Rightarrow> string list \<Rightarrow> string list" where
  "push_once m ms = (if m \<in> set ms then ms else ms @ [m])"

fun play_sequence :: "sequence_step list \<Rightarrow> (login_page \<Rightarrow> sequence_context) \<Rightarrow> (string \<Rightarrow> login_page \<Rightarrow> login_page)
    \<Rightarrow> login_io \<Rightarrow> login_io" where
  "play_sequence [] context add k = k"
| "play_sequence (st # sts) context add k = Read (\<lambda>s0.
     if \<not> mounted s0 then k
     else Update (add (get_text st (context s0))) (play_sequence sts context add k))"

definition boot_sequence :: login_io where
  "boot_sequence = Update (\<lambda>s. s\<lparr>boot_messages := []\<rparr>)
    (Update (\<lambda>s. s\<lparr>boot_context := (boot_context s)\<lparr>ctx_username := [], ctx_role := [], ctx_ttl := NoTtl,
        ctx_label := connection_label s\<rparr>\<rparr>)
    (play_sequence boot_steps boot_context (\<lambda>m s. s\<lparr>boot_messages := push_once m (boot_messages s)\<rparr>)
      (Read (\<lambda>s0. if mounted s0 then Update (\<lambda>s. s\<lparr>is_booting := False, boot_complete := True\<rparr>) Done else Done))))"

definition update_stats :: "memory_snapshot option \<Rightarrow> connection_info \<Rightarrow> login_page \<Rightarrow> login_page" where
  "update_stats memory info s =
     (if \<not> is_booting s \<and> \<not> is_loading s then s
      else s\<lparr>memory_label := format_memory_label memory, network_label := format_network_throughput info\<rparr>)"

section \<open>Logging in\<close>

definition push_message :: "string \<Rightarrow> login_page \<Rightarrow> login_page" where
  "push_message m s = s\<lparr>auth_messages := push_once m (auth_messages s)\<rparr>"

definition start_login :: "login_page \<Rightarrow> login_page" where
  "start_login s = s\<lparr>error_message := None, is_loading := True, auth_messages := [],
     auth_total_steps := length pre_auth_steps + length success_auth_steps,
     auth_context := (auth_context s)\<lparr>ctx_username := username_field s, ctx_role := [], ctx_ttl := NoTtl,
        ctx_ip := client_ip s, ctx_label := connection_label s, ctx_reason := None\<rparr>,
     failure_open := False, failure_message := [], failure_ip := None, logout_reason := None,
     logout_timestamp := None, store := local_remove ''dfir_logout_reason'' (store s)\<rparr>"

definition redirect_target :: "string option \<Rightarrow> login_page \<Rightarrow> string" where
  "redirect_target state_from s = (case state_from of Some f \<Rightarrow> f
    | None \<Rightarrow> (case local_get (store s) ''dfir_redirect_after_login'' of Some f \<Rightarrow> f | None \<Rightarrow> ''/dashboard''))"

definition grant_access :: "string option \<Rightarrow> bool \<Rightarrow> connection_context option \<Rightarrow> string \<Rightarrow> string \<Rightarrow> login_io" where
  "grant_access state_from https conn user rl = Read (\<lambda>s0.
     let target = redirect_target state_from s0
     in Update (\<lambda>s. s\<lparr>store := local_remove ''dfir_redirect_after_login'' (store s)\<rparr>)
       (if \<not> mounted s0 then Done
        else Update (\<lambda>s. s\<lparr>login_success := Some \<lparr>ls_username = user, ls_role = rl,
               ls_ip = ctx_ip (auth_context s),
               ls_ip_version = Option.bind conn cc_ip_version,
               ls_secure = (case Option.bind conn cc_secure of Some b \<Rightarrow> b | None \<Rightarrow> https),
               ls_ttl = ctx_ttl (auth_context s), ls_redirect = target\<rparr>\<rparr>)
          (Update (\<lambda>s. s\<lparr>redirect_countdown := 3\<rparr>) Done)))"

text \<open>What the call for the own record delivered, if it did; the page ignores any error.\<close>

definition user_record :: "jserr + login_reply \<Rightarrow> (string \<times> string) option" where
  "user_record x = (case x of Inl _ \<Rightarrow> None | Inr m \<Rightarrow> the_me m)"

definition accept_login :: "(string \<Rightarrow> int option) \<Rightarrow> int \<Rightarrow> string option \<Rightarrow> bool \<Rightarrow> connection_context option
    \<Rightarrow> string \<Rightarrow> string \<Rightarrow> string \<Rightarrow> string option \<Rightarrow> login_io" where
  "accept_login date_parse now state_from https conn u r e ip =
     Update (\<lambda>s. s\<lparr>store := set_stored_auth u r e (store s)\<rparr>)
    (Update (\<lambda>s. if no_text ip then s
        else s\<lparr>client_ip := ip, auth_context := (auth_context s)\<lparr>ctx_ip := ip\<rparr>,
               conn_context := Some (case conn_context s of
                   Some c \<Rightarrow> c\<lparr>cc_ip := ip\<rparr> | None \<Rightarrow> \<lparr>cc_ip = ip, cc_ip_version = None, cc_secure = None\<rparr>)\<rparr>)
    (Update (\<lambda>s. s\<lparr>auth_context := (auth_context s)\<lparr>ctx_ttl := compute_session_ttl date_parse now (Some e)\<rparr>\<rparr>)
    (play_sequence success_auth_steps auth_context push_message
      (client (Request GET ''/users/me'' None) (\<lambda>x.
        (case user_record x of
           Some (mu, mr) \<Rightarrow> Update (\<lambda>s. s\<lparr>store := set_stored_auth mu mr e (store s)\<rparr>)
             (grant_access state_from https conn u r)
         | None \<Rightarrow> grant_access state_from https conn u r))))))"

definition reject_login :: "jserr \<Rightarrow> login_io" where
  "reject_login err = (let (message, ip) = parse_error_message err in
     Update (\<lambda>s. s\<lparr>store := clear_stored_auth (store s)\<rparr>)
    (Update (\<lambda>s. if no_text ip then s else s\<lparr>auth_context := (auth_context s)\<lparr>ctx_ip := ip\<rparr>\<rparr>)
    (Update (\<lambda>s. s\<lparr>auth_total_steps := length pre_auth_steps + length failure_auth_steps\<rparr>)
    (play_sequence failure_auth_steps auth_context push_message
      (Read (\<lambda>s0. if \<not> mounted s0 then Done
        else Update (\<lambda>s. s\<lparr>error_message := Some message,
              failure_message := (if message = [] then login_failed else message),
              failure_ip := ip, failure_open := True\<rparr>) Done))))))"

definition handle_login :: "(string \<Rightarrow> int option) \<Rightarrow> int \<Rightarrow> string option \<Rightarrow> bool \<Rightarrow> login_io" where
  "handle_login date_parse now state_from https = Read (\<lambda>s0.
     Update start_login
    (Update (\<lambda>s. s\<lparr>auth_messages := []\<rparr>)
    (play_sequence pre_auth_steps auth_context push_message
      (tryFinally
        (tryCatch
          (client (Request POST ''/auth/login'' (Some (Credentials (username_field s0) (password_field s0))))
            (case_sum Raise (expect the_login (\<lambda>(u, r, e, ip).
             if no_text u \<or> no_text r \<or> no_text e
             then Raise (Error (stringify (JObj [(''detail'', JStr ''Invalid login response''), (''status'', JNum 502)])))
             else accept_login date_parse now state_from https (conn_context s0) (the u) (the r) (the e) ip))))
          reject_login)
        (Read (\<lambda>s1. if mounted s1 then Update (\<lambda>s. s\<lparr>is_loading := False\<rparr>) Done else Done))))))"

definition role_color :: "string \<Rightarrow> string" where
  "role_color r = (if r = ''admin'' then ''text-red-400'' else if r = ''operator'' then ''text-primary''
     else if r = ''viewer'' then ''text-blue-400'' else ''text-primary'')"

definition shown_ip :: "login_page \<Rightarrow> login_success \<Rightarrow> string" where
  "shown_ip s d = (if reveal_ip s then (case ls_ip d of Some ip \<Rightarrow> ip | None \<Rightarrow> em_dash) else mask_ip_address (ls_ip d))"

definition boot_progress :: "login_page \<Rightarrow> rat" where
  "boot_progress s = min 1 (of_nat (length (boot_messages s)) / of_nat (length boot_steps))"

section \<open>The screens\<close>

definition forget_error :: "string option \<Rightarrow> string option" where
  "forget_error e = (if no_text e then e else None)"

definition type_username :: "string \<Rightarrow> login_page \<Rightarrow> login_page" where
  "type_username t s = s\<lparr>username_field := t, error_message := forget_error (error_message s)\<rparr>"

definition type_password :: "string \<Rightarrow> login_page \<Rightarrow> login_page" where
  "type_password t s = s\<lparr>password_field := t, error_message := forget_error (error_message s)\<rparr>"

definition toggle_reveal :: "login_page \<Rightarrow> login_page" where
  "toggle_reveal s = s\<lparr>reveal_ip := \<not> reveal_ip s\<rparr>"

definition close_failure :: "login_page \<Rightarrow> login_page" where
  "close_failure s = s\<lparr>failure_open := False\<rparr>"

text \<open>The dialog of a failed attempt: the message, the user and the address it names.\<close>

definition failure_dialog :: "login_page \<Rightarrow> (string \<times> string \<times> string) option" where
  "failure_dialog s = (if \<not> failure_open s then None
     else Some (if failure_message s = [] then ''Invalid username or password.'' else failure_message s,
       if username_field s = [] then em_dash else username_field s,
       case failure_ip s of Some ip \<Rightarrow> ip | None \<Rightarrow> ''resolving...''))"

record success_screen =
  sv_operator :: string
  sv_clearance :: "string \<times> string"
  sv_ip :: string
  sv_ttl :: string
  sv_transport :: string
  sv_browser :: string
  sv_countdown :: "string \<times> rat"
  sv_redirect :: string
  sv_footer :: string

definition transport_text :: "login_success \<Rightarrow> string" where
  "transport_text d = (if ls_secure d then ''HTTPS VERIFIED'' else ''UNVERIFIED'')
     @ (case ls_ip_version d of Some v \<Rightarrow> if v = 0 then [] else '' '' @ middle_dot @ '' IPv'' @ int_str v | None \<Rightarrow> [])"

definition success_screen_of :: "string \<Rightarrow> login_page \<Rightarrow> login_success \<Rightarrow> success_screen" where
  "success_screen_of user_agent s d = \<lparr>sv_operator = to_upper (ls_username d), sv_clearance = (ls_role d, role_color (ls_role d)),
     sv_ip = shown_ip s d, sv_ttl = ttl_label (ls_ttl d), sv_transport = transport_text d, sv_browser = get_browser_label user_agent,
     sv_countdown = (int_str (redirect_countdown s) @ ''s'', of_int (3 - redirect_countdown s) / 3 * 100),
     sv_redirect = ls_redirect d, sv_footer = to_upper (ls_username d) @ '' @ '' @ to_upper (ls_role d)\<rparr>"

text \<open>The boot screen: its gauges, the connection and the lines of the log with whether they are emphasised.\<close>

record boot_screen =
  bv_cpu :: string
  bv_memory :: string
  bv_network :: string
  bv_handshake :: string
  bv_db :: string
  bv_build :: string
  bv_visitor :: string
  bv_link :: string
  bv_progress :: string
  bv_log :: "(string \<times> bool) list"

definition visitor_text :: "string option \<Rightarrow> connection_context option \<Rightarrow> string" where
  "visitor_text scope c = mask_ip_address (case c of Some x \<Rightarrow> cc_ip x | None \<Rightarrow> None)
     @ (if scope = Some ''private'' then '' (PRIVATE/NAT)'' else [])"

definition link_text :: "connection_context option \<Rightarrow> string" where
  "link_text c = (case c of Some x \<Rightarrow> if cc_secure x = Some True then ''HTTPS VERIFIED'' else ''UNVERIFIED'' | None \<Rightarrow> ''DETECTING...'')"

definition boot_screen_of :: "int option \<Rightarrow> string option \<Rightarrow> login_page \<Rightarrow> boot_screen" where
  "boot_screen_of cpu scope s = \<lparr>bv_cpu = (case cpu of Some n \<Rightarrow> int_str n @ ''%'' | None \<Rightarrow> ''Detecting...''),
     bv_memory = memory_label s, bv_network = network_label s, bv_handshake = format_latency_label (handshake_latency s),
     bv_db = format_db_status_label (Some (db_status s)), bv_build = ''Detecting...'', bv_visitor = visitor_text scope (conn_context s),
     bv_link = link_text (conn_context s), bv_progress = int_str (\<lfloor>boot_progress s * 100 + 1 / 2\<rfloor>) @ ''% COMPLETE'',
     bv_log = map (\<lambda>m. (m, str_includes m ''RDY'')) (boot_messages s)\<rparr>"

definition system_status_label :: "login_page \<Rightarrow> string" where
  "system_status_label s = (if db_status s = ''ok'' then ''OPERATIONAL'' else if db_status s = ''degraded'' then ''DEGRADED''
     else if db_status s = ''error'' then ''OFFLINE'' else ''UNKNOWN'')"

text \<open>The health probe delivers no numbers of collectors; the label has them as arguments all the same.\<close>

definition collectors_label :: "nat option \<Rightarrow> nat option \<Rightarrow> string" where
  "collectors_label online all = (case online of None \<Rightarrow> ''COLLECTORS: --''
     | Some n \<Rightarrow> ''COLLECTORS: '' @ nat_str n @ '' ONLINE'' @ (case all of Some k \<Rightarrow> '' / '' @ nat_str k @ '' TOTAL'' | None \<Rightarrow> []))"

record login_screen =
  lv_error :: "string option"
  lv_dialog :: "(string \<times> string \<times> string) option"
  lv_button :: "string \<times> bool"
  lv_ready :: bool
  lv_status :: string
  lv_collectors :: string

definition login_screen_of :: "login_page \<Rightarrow> login_screen" where
  "login_screen_of s = \<lparr>lv_error = (case error_message s of Some m \<Rightarrow> if m = [] then None else Some m | None \<Rightarrow> None),
     lv_dialog = failure_dialog s, lv_button = (if is_loading s then ''AUTHENTICATING...'' else ''ACCESS SYSTEM'', \<not> is_loading s),
     lv_ready = boot_complete s, lv_status = ''SYS: '' @ system_status_label s, lv_collectors = collectors_label None None\<rparr>"

datatype login_view = SuccessView success_screen | BootView boot_screen "(string \<times> string \<times> string) option" | LoginView login_screen

definition login_view_of :: "string \<Rightarrow> int option \<Rightarrow> string option \<Rightarrow> login_page \<Rightarrow> login_view" where
  "login_view_of user_agent cpu scope s = (case login_success s of Some d \<Rightarrow> SuccessView (success_screen_of user_agent s d)
     | None \<Rightarrow> if is_booting s then BootView (boot_screen_of cpu scope s) (failure_dialog s) else LoginView (login_screen_of s))"

section \<open>Lemmas\<close>

lemma wp_play_sequence:
  assumes "R s" and "\<And>m s. R s \<Longrightarrow> R (add m s)" and "\<And>s. R s \<Longrightarrow> wp A Q F k s"
  shows "wp A Q F (play_sequence sts context add k) s"
  using assms by (induction sts arbitrary: s) auto


definition drops_session :: "jserr + login_reply \<Rightarrow> bool" where
  "drops_session x = (case x of Inr (LClient refused y) \<Rightarrow> refused \<and> user_record y = None | _ \<Rightarrow> False)"


text \<open>A session in the storage or, if the client may have been refused, none.\<close>

definition session_left :: "bool \<Rightarrow> browser \<Rightarrow> bool" where
  "session_left refused b \<longleftrightarrow> session_get b auth_storage_key \<noteq> None \<or> refused \<and> get_stored_auth b = None"


definition waiting :: "login_page \<Rightarrow> bool" where
  "waiting s \<longleftrightarrow> mounted s \<and> login_success s = None"

definition holding :: "bool \<Rightarrow> login_page \<Rightarrow> bool" where
  "holding refused s \<longleftrightarrow> waiting s \<and> session_left refused (store s)"

definition cleared :: "login_page \<Rightarrow> bool" where
  "cleared s \<longleftrightarrow> waiting s \<and> get_stored_auth (store s) = None"

lemma push_message_keeps [simp]:
  "waiting (push_message m s) = waiting s" "holding b (push_message m s) = holding b s"
  "cleared (push_message m s) = cleared s"
  by (simp_all add: push_message_def waiting_def holding_def cleared_def)

lemma waiting_store [simp]: "waiting (s\<lparr>store := b\<rparr>) = waiting s"
  by (simp add: waiting_def)


lemma local_remove_session: "session_get (local_remove k b) = session_get b"
  by (simp add: session_get_def local_remove_def fun_eq_iff)

lemma local_remove_auth [simp]: "get_stored_auth (local_remove k b) = get_stored_auth b"
  by (simp add: get_stored_auth_def local_remove_session)



text \<open>A call of the client, whose refusal may clear the session.\<close>

lemma wp_client:
  assumes "\<And>y refused. A rq (Inr (LClient refused y)) \<Longrightarrow>
      wp A Q E (k y) (if refused then s\<lparr>store := logout (Some ''expired'') (store s)\<rparr> else s)"
    and "\<And>x. A rq x \<Longrightarrow> \<not> (\<exists>refused y. x = Inr (LClient refused y)) \<Longrightarrow> wp A Q E (k x) s"
  shows "wp A Q E (client rq k) s"
proof -
  have "wp A Q E (case x of
      Inr (LClient refused y) \<Rightarrow> (if refused then Update (\<lambda>s. s\<lparr>store := logout (Some ''expired'') (store s)\<rparr>) (k y) else k y)
    | _ \<Rightarrow> k x) s" if x: "A rq x" for x
  proof (cases "\<exists>refused y. x = Inr (LClient refused y)")
    case True
    then obtain refused y where "x = Inr (LClient refused y)" by blast
    then show ?thesis using assms(1) [of refused y] x by (cases refused) simp_all
  next
    case False
    have "wp A Q E (k x) s" by (rule assms(2) [OF x False])
    then show ?thesis using False by (auto split: sum.split login_reply.split)
  qed
  then show ?thesis by (simp only: client_def wp.simps) blast
qed




text \<open>What the page makes of the answer to a login.\<close>

definition login_answer :: "(string \<Rightarrow> int option) \<Rightarrow> int \<Rightarrow> string option \<Rightarrow> bool \<Rightarrow> connection_context option
    \<Rightarrow> jserr + login_reply \<Rightarrow> login_io" where
  "login_answer dp now f h c = case_sum Raise (expect the_login (\<lambda>(u, r, e, ip).
     if no_text u \<or> no_text r \<or> no_text e
     then Raise (Error (stringify (JObj [(''detail'', JStr ''Invalid login response''), (''status'', JNum 502)])))
     else accept_login dp now f h c (the u) (the r) (the e) ip))"



section \<open>Properties\<close>


definition offline_page :: login_page where
  "offline_page = initial_login \<lparr>effective_type = None, downlink = None, rtt = None\<rparr> sample_browser"


text \<open>A refusal of the own record right after a login that was accepted: the page says that access is granted and the
  countdown runs, while the session it stored is gone, so that the page it leads to asks for a login again.\<close>

definition accepts_then_refuses :: "string \<Rightarrow> string \<Rightarrow> string \<Rightarrow> login_body request \<Rightarrow> jserr + login_reply \<Rightarrow> bool" where
  "accepts_then_refuses u r e rq x \<longleftrightarrow>
     (if req_path rq = ''/users/me'' then drops_session x
      else x = Inr (LClient False (Inr (LLogin (Some u) (Some r) (Some e) None))))"

definition granted_bare :: "login_page \<Rightarrow> bool" where
  "granted_bare s \<longleftrightarrow> mounted s \<and> login_success s \<noteq> None \<and> get_stored_auth (store s) = None"

lemma refused_settles:
  assumes "waiting t"
  shows "wp (accepts_then_refuses u r e) (\<lambda>_. granted_bare) (\<lambda>_ _. False) (accept_login dp now f h c u r e ip) t"
proof -
  let ?A = "accepts_then_refuses u r e"
  let ?me = "client (Request GET ''/users/me'' None) (\<lambda>x.
        (case user_record x of
           Some (mu, mr) \<Rightarrow> Update (\<lambda>s. s\<lparr>store := set_stored_auth mu mr e (store s)\<rparr>) (grant_access f h c u r)
         | None \<Rightarrow> grant_access f h c u r))"
  have me: "wp ?A (\<lambda>_. granted_bare) (\<lambda>_ _. False) ?me t" if "waiting t" for t
    by (rule wp_client) (use that in \<open>auto simp: accepts_then_refuses_def drops_session_def waiting_def granted_bare_def
        grant_access_def Let_def split: sum.splits login_reply.splits\<close>)
  have seq: "wp ?A (\<lambda>_. granted_bare) (\<lambda>_ _. False) (play_sequence success_auth_steps auth_context push_message ?me) t"
    if "waiting t" for t
    using that me by (intro wp_play_sequence [where R = waiting]) simp_all
  show ?thesis unfolding accept_login_def wp.simps by (rule seq) (use assms in \<open>simp add: waiting_def\<close>)
qed

theorem granted_without_session:
  assumes "mounted s" and "login_success s = None" and "u \<noteq> []" and "r \<noteq> []" and "e \<noteq> []"
    and "\<And>w rq. accepts_then_refuses u r e rq (fst (srv w rq))"
  shows "let s' = final_state srv yes (handle_login dp now state_from https) w s
    in login_success s' \<noteq> None \<and> get_stored_auth (store s') = None"
proof -
  let ?A = "accepts_then_refuses u r e"
  let ?finish = "Read (\<lambda>s1. if mounted s1 then Update (\<lambda>s. s\<lparr>is_loading := False\<rparr>) Done else Done) :: login_io"
  have fin: "wp ?A (\<lambda>_. granted_bare) (\<lambda>_ _. False) ?finish t" if "granted_bare t" for t
    using that by (auto simp: granted_bare_def)
  have acc: "wp ?A (\<lambda>_. granted_bare) (\<lambda>e'. wp ?A (\<lambda>_. granted_bare) (\<lambda>_ _. False) (reject_login e')) (accept_login dp now f h c u r e ip) t"
    if "waiting t" for f h c ip t
    by (rule wp_mono [OF refused_settles [OF that]]) simp_all
  have "wp ?A (\<lambda>_. granted_bare) (\<lambda>_ _. False)
      (tryCatch (client (Request POST ''/auth/login'' (Some (Credentials u0 p0))) (login_answer dp now state_from https c0)) reject_login) t"
    if "waiting t" for t u0 p0 c0
    unfolding wp_tryCatch
    by (rule wp_client)
      (use that acc assms(3-5) in \<open>auto simp: accepts_then_refuses_def login_answer_def no_text_def expect_def\<close>)
  then have post: "wp ?A (\<lambda>_. granted_bare) (\<lambda>_ _. False) (tryFinally
      (tryCatch (client (Request POST ''/auth/login'' (Some (Credentials u0 p0))) (login_answer dp now state_from https c0)) reject_login)
      ?finish) t" if "waiting t" for t u0 p0 c0
    unfolding wp_tryFinally using that by - (rule wp_mono, assumption, simp_all only: fin)
  have "wp ?A (\<lambda>_. granted_bare) (\<lambda>_ _. False) (handle_login dp now state_from https) s"
    unfolding handle_login_def wp.simps login_answer_def [symmetric]
    by (rule wp_play_sequence [where R = waiting])
      (use assms(1,2) post in \<open>simp_all add: start_login_def\<close>, use assms(1,2) in \<open>simp add: waiting_def start_login_def\<close>)
  then have "wp ?A (\<lambda>_. granted_bare) (\<lambda>_. granted_bare) (handle_login dp now state_from https) s"
    by (rule wp_mono) simp_all
  then have "granted_bare (final_state srv yes (handle_login dp now state_from https) w s)"
    by (rule wp_final [rotated]) (rule assms(6))
  then show ?thesis by (simp add: granted_bare_def Let_def)
qed

lemma granted_without_session_witness:
  "get_stored_auth (store (final_state (stateless (\<lambda>rq. if req_path rq = ''/users/me'' then Inr (LClient True (Inl NonError))
      else Inr (LClient False (Inr (LLogin (Some ''ana'') (Some ''admin'') (Some ''t'') None))))) True
     (handle_login (\<lambda>_. None) 0 None False) () offline_page)) = None"
proof -
  let ?srv = "stateless (\<lambda>rq. if req_path rq = ''/users/me'' then Inr (LClient True (Inl NonError))
      else Inr (LClient False (Inr (LLogin (Some ''ana'') (Some ''admin'') (Some ''t'') None))))
    :: (unit, login_reply, login_body) server"
  have "accepts_then_refuses ''ana'' ''admin'' ''t'' rq (fst (?srv w rq))" for w rq
    by (simp add: accepts_then_refuses_def stateless_def drops_session_def user_record_def)
  from granted_without_session [OF _ _ _ _ _ this, of offline_page] show ?thesis
    by (simp add: Let_def offline_page_def initial_login_def)
qed

text \<open>The countdown of a granted access navigates once, on the third second, to the page the user came
  from.\<close>

theorem countdown_redirects:
  assumes "login_success s = Some d" and "redirect_countdown s = 3"
  shows "let (s1, n1) = countdown_tick s; (s2, n2) = countdown_tick s1; (s3, n3) = countdown_tick s2
    in n1 = None \<and> n2 = None \<and> n3 = Some (ls_redirect d) \<and> redirect_countdown s3 = 0"
  using assms by (simp add: countdown_tick_def)

theorem countdown_redirects_witness:
  "snd (countdown_tick (fst (countdown_tick (fst (countdown_tick (offline_page\<lparr>login_success := Some
     \<lparr>ls_username = ''ana'', ls_role = ''admin'', ls_ip = None, ls_ip_version = None, ls_secure = True,
      ls_ttl = NoTtl, ls_redirect = ''/devices''\<rparr>\<rparr>)))))) = Some ''/devices''"
  using countdown_redirects [of "offline_page\<lparr>login_success := Some
     \<lparr>ls_username = ''ana'', ls_role = ''admin'', ls_ip = None, ls_ip_version = None, ls_secure = True,
      ls_ttl = NoTtl, ls_redirect = ''/devices''\<rparr>\<rparr>"
     "\<lparr>ls_username = ''ana'', ls_role = ''admin'', ls_ip = None, ls_ip_version = None, ls_secure = True,
      ls_ttl = NoTtl, ls_redirect = ''/devices''\<rparr>"]
  by (simp add: offline_page_def initial_login_def Let_def split: prod.splits)

text \<open>The status bar of the login page reports no outage: once the health probe has been answered the page says that
  the system is operational, and every later probe, refused or not answered at all, leaves it so.\<close>

theorem outage_not_shown:
  assumes "system_status_label s = ''OPERATIONAL''"
  shows "lv_status (login_screen_of (final_state srv yes (fetch_diagnostics latency) w s)) = ''SYS: OPERATIONAL''"
  using assms
  by (auto simp: fetch_diagnostics_def sync_diagnostics_def system_status_label_def login_screen_of_def io_simps
      split: sum.split option.split prod.split if_splits)

theorem outage_not_shown_witness:
  "lv_status (login_screen_of (final_state (stateless (\<lambda>_. Inl NonError)) True (fetch_diagnostics 5) ()
     (offline_page\<lparr>db_status := ''ok''\<rparr>))) = ''SYS: OPERATIONAL''"
  by (rule outage_not_shown) (simp add: system_status_label_def)

end
