(* ===== verification/Pivot.thy ===== *)
theory Pivot
  imports Detections
begin

text \<open>
  From a detection to the super timeline: the search that \<open>PIVOT_TO_TIMELINE\<close> and \<open>CROSS_REFERENCE TIMELINE\<close>
  put in the URL, read by the search language of \<open>SuperTimelineUtils.tsx\<close>.
\<close>

section \<open>Matching a pivoted query\<close>

lemma match_star_class:
  "\<exists>q rest. re_match (Star (Cls P)) p s = (q, dropWhile P s) # rest"
proof -
  have "\<exists>rest. repeat_greedy (re_match (Cls P)) (length s) 0 p s =
      ((if takeWhile P s = [] then p else Some (last (takeWhile P s))), dropWhile P s) # rest"
    by (rule repeat_cls_greedy) auto
  then show ?thesis by (simp, blast)
qed

lemma takeWhile_not_quote: "quote_char \<notin> set r \<Longrightarrow> dropWhile (\<lambda>c. c \<noteq> quote_char) (r @ quote_char # t) = quote_char # t"
  by (induction r) auto

lemma match_quoted:
  assumes "quote_char \<notin> set r"
  shows "\<exists>rest. re_match quoted_re p (in_quotes r @ t) = (Some quote_char, t) # rest"
proof -
  obtain q rest where s: "re_match (Star (Cls (\<lambda>c. c \<noteq> quote_char))) (Some quote_char) (r @ quote_char # t)
      = (q, quote_char # t) # rest"
    using match_star_class [of "\<lambda>c. c \<noteq> quote_char" "Some quote_char" "r @ quote_char # t"] takeWhile_not_quote [OF assms]
    by auto
  have first: "re_match (Seq (Chr c) b) p (c # x) = re_match b (Some c) x" for b c p x by simp
  have "re_match (Seq (Star (Cls (\<lambda>c. c \<noteq> quote_char))) (Seq (Chr quote_char) Eps)) (Some quote_char) (r @ quote_char # t)
      = (Some quote_char, t) # concat (map (\<lambda>(q, t). re_match (Seq (Chr quote_char) Eps) q t) rest)"
    by (simp only: re_match.simps(3) [of "Star (Cls (\<lambda>c. c \<noteq> quote_char))"] s list.map concat.simps prod.case first)
      (simp only: re_match.simps(1) append_Cons append_Nil)
  then show ?thesis
    by (simp only: quoted_re_def quote_re_def in_quotes_def InOrder.simps append_Cons append_assoc first append_Nil) blast
qed

lemma no_match_quoted: "s = [] \<or> hd s \<noteq> quote_char \<Longrightarrow> re_match quoted_re p s = []"
  by (cases s) (auto simp: quoted_re_def quote_re_def)

lemma name_chars:
  "name_char CHR ''h''" "name_char CHR ''o''" "name_char CHR ''s''" "name_char CHR ''t''" "name_char CHR ''r''"
  "name_char CHR ''u''" "name_char CHR ''l''" "name_char CHR ''e''" "\<not> name_char CHR '':''"
  by (simp_all add: name_char_def lower_char_def char_of_def bit_0)

lemma lower_chars:
  "lower_char CHR ''h'' = CHR ''h''" "lower_char CHR ''o'' = CHR ''o''" "lower_char CHR ''s'' = CHR ''s''"
  "lower_char CHR ''t'' = CHR ''t''" "lower_char CHR ''r'' = CHR ''r''" "lower_char CHR ''u'' = CHR ''u''"
  "lower_char CHR ''l'' = CHR ''l''" "lower_char CHR ''e'' = CHR ''e''" "lower_char CHR ''N'' = CHR ''n''"
  "lower_char CHR ''A'' = CHR ''a''" "lower_char CHR ''O'' = CHR ''o''"
  by (simp_all add: lower_char_def char_of_def bit_0)

definition pivot_field :: "string \<Rightarrow> bool" where
  "pivot_field f \<longleftrightarrow> f = ''host'' \<or> f = ''rule''"

lemma field_value_matched:
  assumes "pivot_field f" "re_match v (Some CHR '':'') x = (q, t) # rest"
  shows "\<exists>rest. re_match (field_re v) p (f @ CHR '':'' # x) = (q, t) # rest"
  using assms by (auto simp: pivot_field_def field_re_def not_re_def name_chars lower_chars numeral_eq_Suc)

lemma field_value_unmatched:
  assumes "pivot_field f" "re_match v (Some CHR '':'') x = []"
  shows "re_match (field_re v) p (f @ CHR '':'' # x) = []"
  using assms by (auto simp: pivot_field_def field_re_def not_re_def name_chars lower_chars numeral_eq_Suc)

lemma match_at_head:
  assumes "re_match r p (m @ t) = (q, t) # rest"
  shows "match_at r p (m @ t) = Some (m, t)"
  using assms by (simp add: match_at_def)

lemma match_rule_token:
  assumes "quote_char \<notin> set r"
  shows "match_at dsl_re p (''rule:'' @ in_quotes r) = Some (''rule:'' @ in_quotes r, [])"
proof -
  obtain rest where q: "re_match quoted_re (Some CHR '':'') (in_quotes r) = (Some quote_char, []) # rest"
    using match_quoted [OF assms, of "Some CHR '':''" "[]"] by auto
  obtain rest' where "re_match (field_re quoted_re) p (''rule:'' @ in_quotes r) = (Some quote_char, []) # rest'"
    using field_value_matched [of "''rule''", OF _ q] by (auto simp: pivot_field_def)
  then have "re_match dsl_re p ((''rule:'' @ in_quotes r) @ []) = (Some quote_char, []) # (rest' @
      re_match (AnyOf [field_re (Plus (Cls non_space)), quoted_re, Plus (Cls non_space)]) p (''rule:'' @ in_quotes r))"
    by (simp only: dsl_re_def AnyOf.simps re_match.simps(4) append_Nil2 append_Cons append_assoc append_Nil)
  from match_at_head [OF this] show ?thesis by simp
qed

lemma takeWhile_host: "\<forall>c \<in> set h. non_space c \<Longrightarrow>
    takeWhile non_space (h @ CHR '' '' # t) = h \<and> dropWhile non_space (h @ CHR '' '' # t) = CHR '' '' # t"
  by (induction h) (auto simp: non_space_def is_space_def)

lemma match_host_token:
  assumes "h \<noteq> []" "\<forall>c \<in> set h. non_space c" "hd h \<noteq> quote_char"
  shows "match_at dsl_re p (''host:'' @ h @ CHR '' '' # t) = Some (''host:'' @ h, CHR '' '' # t)"
proof -
  let ?x = "h @ CHR '' '' # t"
  have u: "re_match (field_re quoted_re) p (''host'' @ CHR '':'' # ?x) = []"
    using assms(1,3) by (intro field_value_unmatched no_match_quoted) (auto simp: pivot_field_def)
  obtain c cs where h: "h = c # cs" "non_space c" using assms(1,2) by (cases h) auto
  have "takeWhile non_space (cs @ CHR '' '' # t) = cs \<and> dropWhile non_space (cs @ CHR '' '' # t) = CHR '' '' # t"
    using assms(2) h by (intro takeWhile_host) simp
  then obtain q rest where q: "re_match (Plus (Cls non_space)) (Some CHR '':'') ?x = (q, CHR '' '' # t) # rest"
    using match_plus_class [of non_space c "Some CHR '':''" "cs @ CHR '' '' # t"] h by (simp del: re_match.simps) blast
  obtain rest' where f: "re_match (field_re (Plus (Cls non_space))) p (''host'' @ CHR '':'' # ?x) = (q, CHR '' '' # t) # rest'"
    using field_value_matched [of "''host''", OF _ q] by (auto simp: pivot_field_def)
  have "re_match dsl_re p ((''host:'' @ h) @ CHR '' '' # t) = (q, CHR '' '' # t) # (rest' @
      re_match (AnyOf [quoted_re, Plus (Cls non_space)]) p (''host'' @ CHR '':'' # ?x))"
    using u f by (simp only: dsl_re_def AnyOf.simps re_match.simps(4) append_Nil append_Cons append_assoc)
  from match_at_head [OF this] show ?thesis by simp
qed

lemma no_match_at_space: "match_at dsl_re p (CHR '' '' # CHR ''r'' # t) = None"
proof -
  have n: "\<not> name_char CHR '' ''" "lower_char CHR '' '' = CHR '' ''" "is_space CHR '' ''"
    by (simp_all add: name_char_def lower_char_def char_of_def bit_0 is_space_def)
  have f: "re_match (field_re v) p (CHR '' '' # CHR ''r'' # t) = []" for v
    by (simp add: field_re_def not_re_def n lower_chars)
  have "re_match quoted_re p (CHR '' '' # CHR ''r'' # t) = []"
    by (rule no_match_quoted) (simp add: quote_char_def)
  moreover have "re_match (Plus (Cls non_space)) p (CHR '' '' # CHR ''r'' # t) = []"
    by (simp add: non_space_def n)
  moreover have "re_match (Rep Eps 1 (Some 0)) p (CHR '' '' # CHR ''r'' # t) = []" by simp
  ultimately show ?thesis
    by (simp only: match_at_def dsl_re_def AnyOf.simps re_match.simps(4) f append_Nil list.case)
qed

lemma pivot_tokens:
  assumes "h \<noteq> []" "\<forall>c \<in> set h. non_space c" "hd h \<noteq> quote_char" "quote_char \<notin> set r"
  shows "all_matches dsl_re p (''host:'' @ h @ '' rule:'' @ in_quotes r) = [''host:'' @ h, ''rule:'' @ in_quotes r]"
    and "all_matches dsl_re p (''rule:'' @ in_quotes r) = [''rule:'' @ in_quotes r]"
proof -
  have e: "match_at dsl_re p [] = None" for p
    by (simp add: match_at_def dsl_re_def field_re_def not_re_def quoted_re_def quote_re_def)
  have r: "all_matches dsl_re p (''rule:'' @ in_quotes r) = [''rule:'' @ in_quotes r]" for p
    using match_rule_token [OF assms(4), of p]
    by (simp add: all_matches.simps [of dsl_re p "CHR ''r'' # _"] all_matches.simps [of dsl_re _ "[]"] e)
  show "all_matches dsl_re p (''rule:'' @ in_quotes r) = [''rule:'' @ in_quotes r]" by (rule r)
  have s: "all_matches dsl_re q (CHR '' '' # ''rule:'' @ in_quotes r) = [''rule:'' @ in_quotes r]" for q
    using r no_match_at_space [of q "''ule:'' @ in_quotes r"]
    by (simp add: all_matches.simps [of dsl_re q "CHR '' '' # _"])
  show "all_matches dsl_re p (''host:'' @ h @ '' rule:'' @ in_quotes r) = [''host:'' @ h, ''rule:'' @ in_quotes r]"
    using match_host_token [OF assms(1-3), of p "''rule:'' @ in_quotes r"] s
    by (simp add: all_matches.simps [of dsl_re p "CHR ''h'' # _"])
qed

lemma and_or_only_at_begin: "search and_or_re (Some c) s = None"
  by (induction s arbitrary: c) (simp_all add: match_at_def and_or_re_def)

lemma no_and_or: "match_at and_or_re None (c # cs) = None \<Longrightarrow> \<not> test and_or_re (c # cs)"
  by (simp add: test_def and_or_only_at_begin)

lemma pivot_not_and_or: "\<not> test and_or_re (''host:'' @ h)" "\<not> test and_or_re (''rule:'' @ h)"
  unfolding append_Cons append_Nil
  by (rule no_and_or, simp add: match_at_def and_or_re_def lower_chars)+

lemma pivot_not_negated: "\<not> starts_not (''host:'' @ h)" "\<not> starts_not (''rule:'' @ h)"
  by (simp_all add: starts_not_def match_at_def lower_chars)

lemma field_token:
  assumes "pivot_field f" "\<forall>c \<in> set v. \<not> line_end c"
  shows "field_match (f @ CHR '':'' # v) = Some (f, v)"
  using assms by (auto simp: field_match_def pivot_field_def name_chars takeWhile_eq_all_conv)

lemma strip_in_quotes: "strip_quotes (in_quotes r) = r"
  by (simp add: strip_quotes_def in_quotes_def)

lemma lower_pivot: "to_lower ''host'' = ''host''" "to_lower ''rule'' = ''rule''"
  by (simp_all add: to_lower_def lower_chars)

lemma host_token:
  assumes "h \<noteq> []" "\<forall>c \<in> set h. non_space c" "quote_char \<notin> set h"
  shows "dsl_token (''host:'' @ h) (d, free) = (d\<lparr>dsl_hosts := dsl_hosts d @ [h]\<rparr>, free)"
proof -
  have "\<forall>c \<in> set h. \<not> line_end c"
    using assms(2) by (auto simp: non_space_def is_space_def line_end_def)
  from field_token [of "''host''", OF _ this] show ?thesis
    using assms pivot_not_and_or(1) [of h] pivot_not_negated(1) [of h]
    by (simp add: dsl_token_def starts_with_def pivot_field_def strip_quotes_none trim_no_space lower_pivot dsl_field_def)
qed

lemma rule_token:
  assumes "\<forall>c \<in> set r. \<not> line_end c" "trim r \<noteq> []"
  shows "dsl_token (''rule:'' @ in_quotes r) (d, free) = (d\<lparr>dsl_rules := dsl_rules d @ [trim r]\<rparr>, free)"
proof -
  have "\<forall>c \<in> set (in_quotes r). \<not> line_end c"
    using assms(1) by (auto simp: in_quotes_def line_end_def quote_char_def)
  from field_token [of "''rule''", OF _ this] show ?thesis
    using assms(2) pivot_not_and_or(2) [of "in_quotes r"] pivot_not_negated(2) [of "in_quotes r"]
    by (simp add: dsl_token_def starts_with_def pivot_field_def strip_in_quotes lower_pivot dsl_field_def)
qed

section \<open>Theorems\<close>

definition sample_hit :: sigma_hit where
  "sample_hit = \<lparr>sh_id = ''h1'', sh_rule_id = ''r1'', sh_rule_name = ''Mimikatz use'', sh_tags = [], sh_severity = ''high'',
     sh_description = [], sh_artifact = ''c/evtx'', sh_timestamp = None, sh_record_id = None,
     sh_data = [(''Computer'', JStr ''ws-01'')], sh_detected = ''t''\<rparr>"

text \<open>C17.  A pivot reads back: the search that a Sigma hit puts in the URL of the timeline is parsed as exactly its host
  and its rule, for a host without spaces or quotes and a rule name on one line and without quotes; without a host,
  as the rule alone.
\<close>

theorem pivot_reads_back:
  assumes "quote_char \<notin> set (sh_rule_name x)" "\<forall>c \<in> set (sh_rule_name x). \<not> line_end c" "trim (sh_rule_name x) \<noteq> []"
    and "case event_host (sh_data x) of None \<Rightarrow> True
      | Some v \<Rightarrow> (\<exists>h. v = JStr h \<and> (\<forall>c \<in> set h. non_space c) \<and> quote_char \<notin> set h)"
  shows "parse_dsl_query (sigma_pivot x) = empty_dsl\<lparr>dsl_rules := [trim (sh_rule_name x)],
     dsl_hosts := (case event_host (sh_data x) of None \<Rightarrow> [] | Some v \<Rightarrow> [js_string (Some v)])\<rparr>"
proof -
  let ?r = "sh_rule_name x"
  note rule = rule_token [OF assms(2,3)]
  have sp: "\<not> is_space CHR ''r''" "\<not> is_space CHR ''h''" by (simp_all add: is_space_def)
  show ?thesis
  proof (cases "event_host (sh_data x)")
    case None
    have "trim (''rule:'' @ in_quotes ?r) \<noteq> []" by (simp add: trim_def sp dropWhile_eq_Nil_conv)
    then show ?thesis
      using pivot_tokens(2) [of "''h''" ?r None] assms(1) rule None
      by (simp add: parse_dsl_query_def sigma_pivot_def empty_dsl_def non_space_def is_space_def quote_char_def)
  next
    case (Some v)
    then obtain h where h: "v = JStr h" "\<forall>c \<in> set h. non_space c" "quote_char \<notin> set h" using assms(4) by auto
    have "truthy (Some v)"
      using Some by (auto simp: event_host_def split: option.splits if_splits)
    then have ne: "h \<noteq> []" using h by (simp add: truthy_def)
    have hd: "hd h \<noteq> quote_char" using h(3) ne by (cases h) auto
    have "trim (''host:'' @ h @ '' rule:'' @ in_quotes ?r) \<noteq> []" by (simp add: trim_def sp dropWhile_eq_Nil_conv)
    then show ?thesis
      using pivot_tokens(1) [OF ne h(2) hd assms(1), of None] host_token [OF ne h(2,3)] rule Some h(1)
      by (simp add: parse_dsl_query_def sigma_pivot_def empty_dsl_def)
  qed
qed

lemma pivot_reads_back_witness:
  "parse_dsl_query (sigma_pivot sample_hit) = empty_dsl\<lparr>dsl_rules := [''Mimikatz use''], dsl_hosts := [''ws-01'']\<rparr>"
proof -
  have t: "trim ''Mimikatz use'' = ''Mimikatz use''" by (simp add: trim_def is_space_def)
  have "event_host (sh_data sample_hit) = Some (JStr ''ws-01'')"
    by (simp add: event_host_def sample_hit_def truthy_def)
  then show ?thesis
    using pivot_reads_back [of sample_hit] t
    by (simp add: sample_hit_def quote_char_def line_end_def non_space_def is_space_def)
qed

end
