(* ===== verification/Report.thy ===== *)
theory Report
  imports IncidentHub
begin

text \<open>
  \<open>pages/IncidentReport.tsx\<close>: the printable report.  Six of its eight queries catch every error and put
  \<open>null\<close> or an empty list in its place; the analyst notes are copied from their query whenever it brings new data.
\<close>

section \<open>Data\<close>

record note_out =
  no_content :: string
  no_updated_by :: string
  no_updated_at :: string

record report_movement =
  rm_id :: string
  rm_type :: string
  rm_source :: string
  rm_target :: string
  rm_actor :: "string option"
  rm_confidence :: rat
  rm_first :: "string option"
  rm_last :: "string option"

text \<open>The data of the queries, after they have settled.\<close>

record report =
  rp_id :: string
  rp_incident :: "hub_incident option"
  rp_note :: "note_out option"
  rp_job :: "hub_job option"
  rp_timeline :: "hub_timeline option"
  rp_lateral :: "report_movement list"
  rp_folders :: "evidence_folder_response list"
  rp_sigma :: "sigma_summary option"
  rp_yara :: "int option"
  rp_notes :: string

definition initial_report :: "string \<Rightarrow> report" where
  "initial_report i = \<lparr>rp_id = i, rp_incident = None, rp_note = None, rp_job = None, rp_timeline = None, rp_lateral = [],
     rp_folders = [], rp_sigma = None, rp_yara = None, rp_notes = []\<rparr>"

datatype report_reply =
    RIncident hub_incident | RNote "note_out option" | RJob hub_job | RTimeline hub_timeline | RLateral "report_movement list"
  | RFolders "evidence_folder_response list" | RSigma sigma_summary | RYara int | RDone

fun r_incident where "r_incident (RIncident x) = Some x" | "r_incident _ = None"
fun r_note where "r_note (RNote x) = Some x" | "r_note _ = None"
fun r_job where "r_job (RJob x) = Some x" | "r_job _ = None"
fun r_timeline where "r_timeline (RTimeline x) = Some x" | "r_timeline _ = None"
fun r_lateral where "r_lateral (RLateral x) = Some x" | "r_lateral _ = None"
fun r_folders where "r_folders (RFolders x) = Some x" | "r_folders _ = None"
fun r_sigma where "r_sigma (RSigma x) = Some x" | "r_sigma _ = None"
fun r_yara where "r_yara (RYara x) = Some x" | "r_yara _ = None"

type_synonym report_io = "(report, report_reply, string, unit) io"

section \<open>The queries\<close>

text \<open>\<open>try { return await apiGet(path) } catch { return fallback }\<close>.\<close>

definition get_or :: "string \<Rightarrow> (report_reply \<Rightarrow> 'x option) \<Rightarrow> 'x \<Rightarrow> ('x \<Rightarrow> report_io) \<Rightarrow> report_io" where
  "get_or path sel fallback k = Await (Request GET path None) (\<lambda>x.
     k (case x of Inl e \<Rightarrow> fallback | Inr r \<Rightarrow> (case sel r of Some v \<Rightarrow> v | None \<Rightarrow> fallback)))"

definition some_of :: "(report_reply \<Rightarrow> 'x option) \<Rightarrow> report_reply \<Rightarrow> 'x option option" where
  "some_of sel r = map_option Some (sel r)"

definition load_processing :: report_io where
  "load_processing = Read (\<lambda>s0. get_or (''/processing/incident/'' @ rp_id s0 @ ''/status'') (some_of r_job) None
     (\<lambda>v. Update (\<lambda>s. s\<lparr>rp_job := v\<rparr>) Done))"

definition load_timeline :: report_io where
  "load_timeline = Read (\<lambda>s0. get_or (''/processing/incident/'' @ rp_id s0 @ ''/super-timeline/status'') (some_of r_timeline) None
     (\<lambda>v. Update (\<lambda>s. s\<lparr>rp_timeline := v\<rparr>) Done))"

definition load_lateral :: report_io where
  "load_lateral = Read (\<lambda>s0. get_or (''/processing/incident/'' @ rp_id s0 @ ''/super-timeline/lateral-movement'') r_lateral []
     (\<lambda>v. Update (\<lambda>s. s\<lparr>rp_lateral := v\<rparr>) Done))"

definition load_folders :: "(string \<Rightarrow> string) \<Rightarrow> report_io" where
  "load_folders enc = Read (\<lambda>s0. get_or (''/evidence/folders?incident_id='' @ enc (rp_id s0)) r_folders []
     (\<lambda>v. Update (\<lambda>s. s\<lparr>rp_folders := v\<rparr>) Done))"

definition load_sigma :: report_io where
  "load_sigma = Read (\<lambda>s0. get_or (''/processing/incident/'' @ rp_id s0 @ ''/sigma-hits?limit=1'') (some_of r_sigma) None
     (\<lambda>v. Update (\<lambda>s. s\<lparr>rp_sigma := v\<rparr>) Done))"

definition load_yara :: report_io where
  "load_yara = Read (\<lambda>s0. get_or (''/processing/incident/'' @ rp_id s0 @ ''/yara-matches?limit=1'') (some_of r_yara) None
     (\<lambda>v. Update (\<lambda>s. s\<lparr>rp_yara := v\<rparr>) Done))"

definition load_findings :: "(string \<Rightarrow> string) \<Rightarrow> report_io" where
  "load_findings enc = andThen load_processing (\<lambda>_. andThen load_timeline (\<lambda>_. andThen load_lateral (\<lambda>_.
     andThen (load_folders enc) (\<lambda>_. andThen load_sigma (\<lambda>_. load_yara)))))"

text \<open>The shared note: new data of its query replaces the text in the field; equal data does not.\<close>

definition receive_note :: "note_out option \<Rightarrow> report \<Rightarrow> report" where
  "receive_note n s = (if n = rp_note s then s
     else case n of None \<Rightarrow> s\<lparr>rp_note := None\<rparr> | Some x \<Rightarrow> s\<lparr>rp_note := Some x, rp_notes := no_content x\<rparr>)"

definition load_note :: report_io where
  "load_note = Read (\<lambda>s0. tryCatch (apiGet (''/platform/incidents/'' @ rp_id s0 @ ''/notes'') (expect r_note (\<lambda>n.
     Update (receive_note n) Done))) (\<lambda>_. Done))"

definition type_note :: "string \<Rightarrow> report \<Rightarrow> report" where
  "type_note t s = s\<lparr>rp_notes := t\<rparr>"

text \<open>The mutation, and the refetch that its success starts.\<close>

definition save_note :: report_io where
  "save_note = Read (\<lambda>s0. tryCatch (apiPut (''/platform/incidents/'' @ rp_id s0 @ ''/notes'') (rp_notes s0)
     (\<lambda>_. Emit (Invalidate [''incident-note'', rp_id s0]) load_note)) (\<lambda>_. Done))"

section \<open>What the report says\<close>

definition report_badge_class :: "string \<Rightarrow> string" where
  "report_badge_class st = (if st = ''DONE'' \<or> st = ''COLLECTION_COMPLETE'' then ''text-green-400 border-green-500/40 bg-green-500/10''
     else if st = ''FAILED'' then ''text-red-400 border-red-500/40 bg-red-500/10''
     else if st = ''RUNNING'' \<or> st = ''BUILDING'' then ''text-yellow-400 border-yellow-500/40 bg-yellow-500/10''
     else ''text-muted-foreground border-border/40 bg-secondary/30'')"

definition total_files :: "report \<Rightarrow> int" where
  "total_files s = fold (\<lambda>f n. n + ef_files f) (rp_folders s) 0"

definition report_collection_done :: "report \<Rightarrow> bool" where
  "report_collection_done s \<longleftrightarrow> map_option hi_status (rp_incident s) \<in> {Some ''COLLECTION_COMPLETE'', Some ''ANALYSIS_COMPLETE''}"

definition report_processing_done :: "report \<Rightarrow> bool" where
  "report_processing_done s \<longleftrightarrow> map_option hj_status (rp_job s) \<in> {Some ''DONE'', Some ''PARTIAL''}"

definition report_st_done :: "report \<Rightarrow> bool" where
  "report_st_done s \<longleftrightarrow> map_option ht_status (rp_timeline s) = Some ''DONE''"

definition confidence_color :: "string \<Rightarrow> string" where
  "confidence_color t = (if t = ''account_pivot'' then ''text-red-400'' else if t = ''process_spread'' then ''text-orange-400''
     else if t = ''credential_reuse'' then ''text-yellow-400'' else ''text-muted-foreground'')"

definition partial_warning :: "report \<Rightarrow> bool" where
  "partial_warning s \<longleftrightarrow> map_option hj_status (rp_job s) = Some ''PARTIAL''"

definition report_operator :: "report \<Rightarrow> string option \<Rightarrow> string" where
  "report_operator s user = (case rp_incident s of Some i \<Rightarrow> hi_operator i
     | None \<Rightarrow> (case user of Some u \<Rightarrow> u | None \<Rightarrow> em_dash))"

definition host_count :: "report \<Rightarrow> int" where
  "host_count s = (case rp_timeline s of Some t \<Rightarrow> (case ht_hosts t of Some n \<Rightarrow> n
       | None \<Rightarrow> (case rp_incident s of Some i \<Rightarrow> int (length (hi_targets i)) | None \<Rightarrow> 0))
     | None \<Rightarrow> (case rp_incident s of Some i \<Rightarrow> int (length (hi_targets i)) | None \<Rightarrow> 0))"

definition report_checks :: "(string \<Rightarrow> string) \<Rightarrow> report \<Rightarrow> (string \<times> bool \<times> string option) list" where
  "report_checks loc s =
    [(''EVIDENCE COLLECTION'', report_collection_done s,
       if report_collection_done s then Some (fmt_ts loc (map_option hi_updated (rp_incident s))) else None),
     (''FORENSIC PROCESSING (YARA / SIGMA / IOC)'', report_processing_done s,
       if report_processing_done s then Some (fmt_ts loc (Option.bind (rp_job s) hj_completed)) else None),
     (''SUPER TIMELINE BUILD'', report_st_done s,
       if report_st_done s then Some (fmt_ts loc (Option.bind (rp_timeline s) ht_completed)) else None),
     (''LATERAL MOVEMENT ANALYSIS'', report_st_done s \<and> rp_lateral s \<noteq> [], None)]"

definition timeline_statistics :: "(string \<Rightarrow> string) \<Rightarrow> report \<Rightarrow> (string \<times> string) list option" where
  "timeline_statistics loc s = map_option (\<lambda>t. [(''STATUS'', ht_status t),
     (''HOSTS MERGED'', case ht_hosts t of Some n \<Rightarrow> int_str n | None \<Rightarrow> em_dash),
     (''TOTAL EVENTS'', case ht_events t of Some n \<Rightarrow> int_str n | None \<Rightarrow> em_dash)]) (rp_timeline s)"

definition movement_cells :: "(string \<Rightarrow> string) \<Rightarrow> report_movement \<Rightarrow> string list" where
  "movement_cells loc d = [spaced (rm_type d), rm_source d, rm_target d, (case rm_actor d of Some a \<Rightarrow> a | None \<Rightarrow> em_dash),
     int_str (math_round (rm_confidence d * 100)) @ ''%'', fmt_ts loc (rm_first d), fmt_ts loc (rm_last d)]"

definition lateral_section :: "(string \<Rightarrow> string) \<Rightarrow> report \<Rightarrow> (string \<times> string list list) option" where
  "lateral_section loc s = (if rp_lateral s = [] then None
     else Some (''LATERAL MOVEMENT DETECTIONS ('' @ nat_str (length (rp_lateral s)) @ '')'', map (movement_cells loc) (rp_lateral s)))"

definition sigma_panel :: "report \<Rightarrow> string \<times> string" where
  "sigma_panel s = (case rp_sigma s of Some x \<Rightarrow> (if 0 < ss_total x then ''offline'' else ''online'', int_str (ss_total x))
     | None \<Rightarrow> (''online'', ''NO DATA''))"

definition severity_chip :: "string \<Rightarrow> string" where
  "severity_chip v = (let l = to_lower v in if l = ''critical'' then ''border-red-500/50 bg-red-500/10 text-red-400''
     else if l = ''high'' then ''border-orange-500/50 bg-orange-500/10 text-orange-400''
     else if l = ''medium'' then ''border-yellow-500/50 bg-yellow-500/10 text-yellow-400''
     else ''border-border/40 bg-secondary/30 text-muted-foreground'')"

definition yara_panel :: "report \<Rightarrow> string \<times> string" where
  "yara_panel s = (case rp_yara s of Some n \<Rightarrow> (if 0 < n then ''offline'' else ''online'', int_str n) | None \<Rightarrow> (''online'', em_dash))"

definition printed_notes :: "report \<Rightarrow> string option" where
  "printed_notes s = (if trim (rp_notes s) = [] then None else Some (rp_notes s))"

definition note_footer :: "(string \<Rightarrow> string) \<Rightarrow> report \<Rightarrow> string" where
  "note_footer loc s = (case rp_note s of Some n \<Rightarrow> ''LAST UPDATED '' @ fmt_ts loc (Some (no_updated_at n)) | None \<Rightarrow> ''NOT YET SAVED'')"

text \<open>Everything the report prints about the analysis.\<close>

definition analysis_sections :: "(string \<Rightarrow> string) \<Rightarrow> report \<Rightarrow>
    (string \<times> bool \<times> string option) list \<times> (string \<times> string) list option \<times> (string \<times> string list list) option \<times>
    (string \<times> string) \<times> (string \<times> string) \<times> int \<times> int" where
  "analysis_sections loc s = (report_checks loc s, timeline_statistics loc s, lateral_section loc s, sigma_panel s, yara_panel s,
     int (length (rp_folders s)), total_files s)"

section \<open>Properties\<close>

text \<open>A report whose queries all failed prints, for the analysis of the case, what a report without any
  findings prints: the panels of detections are green, and nothing says that something could not be read.\<close>

theorem report_hides_failures:
  "analysis_sections loc (final_state (stateless (\<lambda>_. Inl e)) yes (load_findings enc) w s) =
   analysis_sections loc (s\<lparr>rp_job := None, rp_timeline := None, rp_lateral := [], rp_folders := [], rp_sigma := None, rp_yara := None\<rparr>)
   \<and> fst (sigma_panel (final_state (stateless (\<lambda>_. Inl e)) yes (load_findings enc) w s)) = ''online''
   \<and> fst (yara_panel (final_state (stateless (\<lambda>_. Inl e)) yes (load_findings enc) w s)) = ''online''"
proof -
  have "final_state (stateless (\<lambda>_. Inl e)) yes (load_findings enc) w s =
      s\<lparr>rp_job := None, rp_timeline := None, rp_lateral := [], rp_folders := [], rp_sigma := None, rp_yara := None\<rparr>"
    by (simp add: load_findings_def load_processing_def load_timeline_def load_lateral_def load_folders_def load_sigma_def
        load_yara_def get_or_def stateless_def)
  then show ?thesis by (simp add: sigma_panel_def yara_panel_def)
qed

text \<open>The report and the page of the case agree that a collection is over, but for a closed case, whose report
  says that nothing was collected.\<close>

theorem closed_case_report:
  assumes "q_incident h = Some (Some i)" and "rp_incident s = Some i" and "hi_status i \<noteq> ''ANALYSIS_COMPLETE''"
  shows "collection_done h = (report_collection_done s \<or> hi_status i = ''CLOSED'') \<and>
    (hi_status i = ''CLOSED'') = (collection_done h \<and> \<not> report_collection_done s)"
  using assms by (auto simp: collection_done_def report_collection_done_def incident_status_def)

definition closed_incident :: hub_incident where
  "closed_incident = (the (the (q_incident sample_hub)))\<lparr>hi_status := ''CLOSED''\<rparr>"

theorem closed_case_report_witness:
  "collection_done (sample_hub\<lparr>q_incident := Some (Some closed_incident)\<rparr>) \<and>
   \<not> report_collection_done ((initial_report ''INC-1'')\<lparr>rp_incident := Some closed_incident\<rparr>)"
  using closed_case_report [of "sample_hub\<lparr>q_incident := Some (Some closed_incident)\<rparr>" closed_incident
      "(initial_report ''INC-1'')\<lparr>rp_incident := Some closed_incident\<rparr>"]
  by (simp add: closed_incident_def sample_hub_def initial_hub_def)

text \<open>What an analyst types while a saved note is read back is lost: the answer brings a new note, whose
  content replaces the field.\<close>

theorem typed_note_is_lost:
  assumes "Some n \<noteq> rp_note s" and "settle load_note yes s = (s1, [Await rq k])"
  shows "rp_notes (fst (settle (k (Inr (RNote (Some n)))) yes (type_note t s1))) = no_content n"
proof -
  have "s1 = s" and k: "k (Inr (RNote (Some n))) = Update (receive_note (Some n)) Done"
    using assms(2) by (auto simp: load_note_def io_simps)
  then show ?thesis using assms(1) by (simp add: k receive_note_def type_note_def)
qed

theorem typed_note_is_lost_witness:
  "\<exists>s1 rq k. settle load_note True (initial_report ''INC-1'') = (s1, [Await rq k]) \<and>
     rp_notes (fst (settle (k (Inr (RNote (Some \<lparr>no_content = ''a'', no_updated_by = ''ana'', no_updated_at = ''t''\<rparr>)))) True
       (type_note ''ab'' s1))) = ''a''"
proof -
  obtain s1 rq k where st: "settle load_note True (initial_report ''INC-1'') = (s1, [Await rq k])"
    by (simp add: load_note_def io_simps)
  moreover have "Some \<lparr>no_content = ''a'', no_updated_by = ''ana'', no_updated_at = ''t''\<rparr> \<noteq> rp_note (initial_report ''INC-1'')"
    by (simp add: initial_report_def)
  ultimately show ?thesis using typed_note_is_lost [OF _ st] by fastforce
qed

end
