(* ===== verification/ReportViews.thy ===== *)
theory ReportViews
  imports Report
begin

text \<open>
  The sections of \<open>pages/IncidentReport.tsx\<close>, on the screen and on paper: what carries the class \<open>no-print\<close> is left
  out of the printed page, and the printed notes are hidden on the screen.  \<open>loc\<close> is \<open>toLocaleString\<close> of a date,
  \<open>now\<close> the time of the render, \<open>num\<close> \<open>toLocaleString\<close> of a number and \<open>user\<close> the name in the stored session.
\<close>

section \<open>The sections\<close>

definition report_badge :: "string \<Rightarrow> string \<times> string" where
  "report_badge st = (report_badge_class st, st)"

text \<open>A line of the analysis: its icon, the style of its label, and its note unless that is empty.\<close>

definition check_row :: "string \<times> bool \<times> string option \<Rightarrow> string \<times> string \<times> string \<times> string option" where
  "check_row r = (case r of (label, finished, note) \<Rightarrow>
     (if finished then ''CheckCircle2'' else ''XCircle'', if finished then ''text-foreground'' else ''text-muted-foreground/60'', label,
      case note of Some n \<Rightarrow> (if n \<noteq> [] then Some n else None) | None \<Rightarrow> None))"

definition report_actions :: "string \<Rightarrow> (string \<times> string option) list" where
  "report_actions i = [(''BACK TO HUB'', Some (''/incidents/'' @ i)), (''PRINT / SAVE PDF'', None)]"

record report_header =
  rh_incident :: string
  rh_generated :: string
  rh_operator :: string
  rh_status :: "(string \<times> string) option"

definition report_header_of :: "string \<Rightarrow> string option \<Rightarrow> report \<Rightarrow> report_header" where
  "report_header_of now user s = \<lparr>rh_incident = rp_id s, rh_generated = now, rh_operator = report_operator s user,
     rh_status = map_option (\<lambda>i. report_badge (hi_status i)) (rp_incident s)\<rparr>"

definition incident_summary :: "(string \<Rightarrow> string) \<Rightarrow> hub_incident \<Rightarrow> (string \<times> string) list \<times> (string \<times> string list) option" where
  "incident_summary loc i = ([(''TYPE: '', hi_type i), (''COLLECTION PROGRESS: '', int_str (hi_progress i) @ ''%''),
     (''CREATED: '', fmt_ts loc (Some (hi_created i))), (''LAST UPDATED: '', fmt_ts loc (Some (hi_updated i)))],
     if 0 < length (hi_targets i) then Some (''TARGET ENDPOINTS ('' @ nat_str (length (hi_targets i)) @ '')'', hi_targets i) else None)"

definition collection_summary :: "(int \<Rightarrow> string) \<Rightarrow> report \<Rightarrow> (string \<times> string) list" where
  "collection_summary num s = [(''FOLDERS'', nat_str (length (rp_folders s))), (''FILES'', num (total_files s)),
     (''HOSTS'', int_str (host_count s))]"

definition build_time :: "(string \<Rightarrow> string) \<Rightarrow> hub_timeline \<Rightarrow> string option" where
  "build_time loc t = (case (ht_started t, ht_completed t) of
       (Some a, Some b) \<Rightarrow> (if a \<noteq> [] \<and> b \<noteq> [] then Some (''BUILD TIME: '' @ fmt_ts loc (Some a) @ '' '' @ [CHR 0xE2, CHR 0x86, CHR 0x92] @ '' '' @ fmt_ts loc (Some b)) else None)
     | _ \<Rightarrow> None)"

definition timeline_panel :: "(string \<Rightarrow> string) \<Rightarrow> report \<Rightarrow> (string \<times> (string \<times> string) list \<times> string option) option" where
  "timeline_panel loc s = (case rp_timeline s of None \<Rightarrow> None | Some t \<Rightarrow>
     Some (if report_st_done s then ''verified'' else ''warning'',
           (case timeline_statistics loc s of Some x \<Rightarrow> x | None \<Rightarrow> []), build_time loc t))"

definition severity_chips :: "(int \<Rightarrow> string) \<Rightarrow> report \<Rightarrow> (string \<times> string) list" where
  "severity_chips num s = (case rp_sigma s of None \<Rightarrow> []
     | Some x \<Rightarrow> map (\<lambda>(k, n). (severity_chip k, to_upper k @ '': '' @ num n)) (ss_counts x))"

record notes_editor =
  ne_text :: string
  ne_footer :: string
  ne_button :: string
  ne_disabled :: bool

definition notes_editor_of :: "(string \<Rightarrow> string) \<Rightarrow> bool \<Rightarrow> report \<Rightarrow> notes_editor" where
  "notes_editor_of loc saving s = \<lparr>ne_text = rp_notes s, ne_footer = note_footer loc s,
     ne_button = (if saving then ''SAVING...'' else ''SAVE NOTES''), ne_disabled = saving\<rparr>"

definition report_footer :: "string \<Rightarrow> string list" where
  "report_footer now = [''Generated by DFIR Rapid Collection Kit V0.1.0'', now]"

section \<open>The page\<close>

record report_page =
  pg_actions :: "(string \<times> string option) list"
  pg_warning :: "string option"
  pg_header :: report_header
  pg_summary :: "((string \<times> string) list \<times> (string \<times> string list) option) option"
  pg_collection :: "(string \<times> string) list"
  pg_checks :: "(string \<times> string \<times> string \<times> string option) list"
  pg_timeline :: "(string \<times> (string \<times> string) list \<times> string option) option"
  pg_lateral :: "(string \<times> string list list) option"
  pg_sigma :: "(string \<times> string) \<times> (string \<times> string) list"
  pg_yara :: "string \<times> string"
  pg_editor :: "notes_editor option"
  pg_notes :: "string option"
  pg_footer :: "string list"

definition report_page_of :: "(string \<Rightarrow> string) \<Rightarrow> (int \<Rightarrow> string) \<Rightarrow> string \<Rightarrow> string option \<Rightarrow> bool \<Rightarrow> bool \<Rightarrow> report \<Rightarrow> report_page" where
  "report_page_of loc num now user saving paper s =
     \<lparr>pg_actions = (if paper then [] else report_actions (rp_id s)),
      pg_warning = (if partial_warning s then Some (''Processing coverage is partial. Missing or unconfigured tools may leave evidence unexamined; ''
        @ ''review processing coverage before drawing conclusions.'') else None),
      pg_header = report_header_of now user s, pg_summary = map_option (incident_summary loc) (rp_incident s),
      pg_collection = collection_summary num s, pg_checks = map check_row (report_checks loc s),
      pg_timeline = timeline_panel loc s, pg_lateral = lateral_section loc s, pg_sigma = (sigma_panel s, severity_chips num s),
      pg_yara = yara_panel s, pg_editor = (if paper then None else Some (notes_editor_of loc saving s)),
      pg_notes = (if paper then printed_notes s else None), pg_footer = report_footer now\<rparr>"

datatype report_screen = ReportLoading string | ReportReady report_page

definition report_screen_of :: "(string \<Rightarrow> string) \<Rightarrow> (int \<Rightarrow> string) \<Rightarrow> string \<Rightarrow> string option \<Rightarrow> bool \<Rightarrow> bool \<Rightarrow> bool \<Rightarrow> report \<Rightarrow> report_screen" where
  "report_screen_of loc num now user loading saving paper s = (if loading then ReportLoading ''LOADING REPORT DATA...''
     else ReportReady (report_page_of loc num now user saving paper s))"

section \<open>What the note does not reach\<close>

lemma done_unread [simp]:
  "report_collection_done (s\<lparr>rp_note := n, rp_notes := t\<rparr>) = report_collection_done s"
  "report_processing_done (s\<lparr>rp_note := n, rp_notes := t\<rparr>) = report_processing_done s"
  "report_st_done (s\<lparr>rp_note := n, rp_notes := t\<rparr>) = report_st_done s"
  "total_files (s\<lparr>rp_note := n, rp_notes := t\<rparr>) = total_files s"
  by (simp_all add: report_collection_done_def report_processing_done_def report_st_done_def total_files_def)

lemma checks_unread: "report_checks loc (s\<lparr>rp_note := n, rp_notes := t\<rparr>) = report_checks loc s"
  by (simp add: report_checks_def del: if_split)

lemma hosts_unread: "host_count (s\<lparr>rp_note := n, rp_notes := t\<rparr>) = host_count s"
  by (cases "rp_timeline s"; cases "rp_incident s") (simp_all add: host_count_def split: option.split)

lemma timeline_unread: "timeline_panel loc (s\<lparr>rp_note := n, rp_notes := t\<rparr>) = timeline_panel loc s"
  by (cases "rp_timeline s") (simp_all add: timeline_panel_def timeline_statistics_def)

lemma collection_unread: "collection_summary num (s\<lparr>rp_note := n, rp_notes := t\<rparr>) = collection_summary num s"
  by (simp add: collection_summary_def hosts_unread)

lemma header_unread: "report_header_of now user (s\<lparr>rp_note := n, rp_notes := t\<rparr>) = report_header_of now user s"
  by (simp add: report_header_of_def report_operator_def)

lemma findings_unread:
  "partial_warning (s\<lparr>rp_note := n, rp_notes := t\<rparr>) = partial_warning s"
  "lateral_section loc (s\<lparr>rp_note := n, rp_notes := t\<rparr>) = lateral_section loc s"
  "sigma_panel (s\<lparr>rp_note := n, rp_notes := t\<rparr>) = sigma_panel s"
  "severity_chips num (s\<lparr>rp_note := n, rp_notes := t\<rparr>) = severity_chips num s"
  "yara_panel (s\<lparr>rp_note := n, rp_notes := t\<rparr>) = yara_panel s"
  by (simp_all add: partial_warning_def lateral_section_def sigma_panel_def severity_chips_def yara_panel_def)

lemmas note_unread = checks_unread timeline_unread collection_unread header_unread findings_unread

section \<open>Theorems\<close>

text \<open>The findings are the same on paper and on the screen; what differs is that the paper has no buttons, and
  the text of the notes in the place of their editor.\<close>

theorem paper_differs_in_notes:
  "report_page_of loc num now user saving True s = (report_page_of loc num now user saving False s)
     \<lparr>pg_actions := [], pg_editor := None, pg_notes := printed_notes s\<rparr>"
  by (simp add: report_page_of_def)

text \<open>The paper prints the text of the field and not the note that is stored: whatever was saved, it is the text
  typed last, saved or not, and the page does not say that it was not saved.\<close>

theorem paper_prints_unsaved_notes:
  assumes "trim t \<noteq> []"
  shows "report_page_of loc num now user saving True (type_note t (s\<lparr>rp_note := n\<rparr>)) = report_page_of loc num now user saving' True (type_note t (s\<lparr>rp_note := n'\<rparr>))
    \<and> pg_notes (report_page_of loc num now user saving True (type_note t s)) = Some t"
  using assms by (simp add: report_page_of_def type_note_def printed_notes_def note_unread)

lemma paper_prints_unsaved_notes_witness:
  "pg_notes (report_page_of (\<lambda>t. t) int_str ''now'' None False True (type_note ''draft'' (initial_report ''INC-1''))) = Some ''draft''"
proof -
  have "trim ''draft'' \<noteq> []" by (simp add: char_eval)
  from paper_prints_unsaved_notes [OF this] show ?thesis by blast
qed

text \<open>When the case itself cannot be read the report is drawn all the same: it has no summary, the sign for nothing
  as its status, and names whoever is signed in as the operator of the case.\<close>

theorem unread_case_names_reader:
  assumes "rp_incident s = None"
  shows "case report_screen_of loc num now (Some u) False saving paper s of
      ReportReady p \<Rightarrow> rh_operator (pg_header p) = u \<and> rh_status (pg_header p) = None \<and> pg_summary p = None
        \<and> rh_incident (pg_header p) = rp_id s
    | _ \<Rightarrow> False"
  using assms by (simp add: report_screen_of_def report_page_of_def report_header_of_def report_operator_def)

lemma unread_case_names_reader_witness:
  "case report_screen_of (\<lambda>t. t) int_str ''now'' (Some ''eve'') False False True (initial_report ''INC-1'') of
      ReportReady p \<Rightarrow> rh_operator (pg_header p) = ''eve'' | _ \<Rightarrow> False"
  using unread_case_names_reader [where s = "initial_report ''INC-1''" and loc = "\<lambda>t. t" and num = int_str and now = "''now''" and u = "''eve''"
      and saving = False and paper = True]
  by (simp add: initial_report_def split: report_screen.splits)

text \<open>The badge of the report knows the status of a failed processing and not that of a failed collection, which is
  drawn like a pending case.\<close>

theorem failed_collection_looks_pending:
  assumes "rp_incident s = Some i" and "hi_status i = ''COLLECTION_FAILED''"
  shows "map_option fst (rh_status (pg_header (report_page_of loc num now user saving paper s))) = Some (fst (report_badge ''PENDING''))
    \<and> fst (report_badge ''FAILED'') \<noteq> fst (report_badge ''PENDING'')"
  using assms by (simp add: report_page_of_def report_header_of_def report_badge_def report_badge_class_def)

lemma failed_collection_looks_pending_witness:
  "map_option fst (rh_status (pg_header (report_page_of (\<lambda>t. t) int_str ''now'' None False True
     ((initial_report ''INC-1'')\<lparr>rp_incident := Some (closed_incident\<lparr>hi_status := ''COLLECTION_FAILED''\<rparr>)\<rparr>)))) = Some (fst (report_badge ''PENDING''))"
  using failed_collection_looks_pending
    [of "(initial_report ''INC-1'')\<lparr>rp_incident := Some (closed_incident\<lparr>hi_status := ''COLLECTION_FAILED''\<rparr>)\<rparr>"
      "closed_incident\<lparr>hi_status := ''COLLECTION_FAILED''\<rparr>"] by simp

end
