(* ===== verification/Users.thy ===== *)
theory Users
  imports Prelude
begin

text \<open>
  \<open>pages/UserManagement.tsx\<close>: the operator accounts.  The list arrives by a query; the controls of the
  own account are disabled, which the events carry as their guard.
\<close>

section \<open>Data and state\<close>

record user =
  u_id :: string
  u_name :: string
  u_role :: string
  u_status :: string
  u_last_login :: string

definition password_strength :: "string \<Rightarrow> nat" where
  "password_strength pw =
     (if pw = [] then 0
      else min 3 ((if 8 \<le> length pw then 1 else 0) + (if 12 \<le> length pw then 1 else 0) +
        (if list_ex (\<lambda>c. 65 \<le> code c \<and> code c \<le> 90) pw \<and> list_ex (\<lambda>c. 48 \<le> code c \<and> code c \<le> 57) pw then 1 else 0)))"

definition strength_label :: "nat \<Rightarrow> string" where
  "strength_label n = [[], ''WEAK'', ''MEDIUM'', ''STRONG''] ! n"

definition strength_color :: "nat \<Rightarrow> string" where
  "strength_color n = [[], ''bg-destructive'', ''bg-yellow-500'', ''bg-green-500''] ! n"

record users_page =
  users :: "user list"
  show_create :: bool
  new_username :: string
  new_password :: string
  show_password :: bool
  new_role :: string
  new_status :: string
  creating :: bool
  confirm_delete :: "string option"
  reset_target :: "string option"
  reset_pw :: string
  show_reset_pw :: bool
  resetting :: bool
  error_msg :: "string option"

definition initial_users :: users_page where
  "initial_users = \<lparr>users = [], show_create = False, new_username = [], new_password = [], show_password = False,
     new_role = ''operator'', new_status = ''active'', creating = False, confirm_delete = None,
     reset_target = None, reset_pw = [], show_reset_pw = False, resetting = False, error_msg = None\<rparr>"

datatype user_body = NewUser string string string string | RolePatch string | StatusChange string | PasswordPatch string

type_synonym users_io = "(users_page, unit, user_body, unit) io"

section \<open>Operations\<close>

definition handle_create :: users_io where
  "handle_create = Read (\<lambda>s0.
     if trim (new_username s0) = [] \<or> new_password s0 = []
     then Update (\<lambda>s. s\<lparr>error_msg := Some ''Username and password required.''\<rparr>) Done
     else Update (\<lambda>s. s\<lparr>creating := True\<rparr>)
      (Update (\<lambda>s. s\<lparr>error_msg := None\<rparr>)
      (tryFinally
        (tryCatch
          (apiPost ''/users/'' (NewUser (trim (new_username s0)) (new_password s0) (new_role s0) (new_status s0)) (\<lambda>_.
             Emit (Invalidate [''admin-users''])
            (Update (\<lambda>s. s\<lparr>new_username := [], new_password := [], new_role := ''operator'', new_status := ''active'',
                show_create := False\<rparr>) Done)))
          (\<lambda>err. Update (\<lambda>s. s\<lparr>error_msg := Some (message_or ''Failed to create user.'' err)\<rparr>) Done))
        (Update (\<lambda>s. s\<lparr>creating := False\<rparr>) Done))))"

definition patch_user :: "string \<Rightarrow> user_body \<Rightarrow> string \<Rightarrow> users_io" where
  "patch_user i body failed = Update (\<lambda>s. s\<lparr>error_msg := None\<rparr>)
     (tryCatch
       (apiPatch (''/users/'' @ i) body (\<lambda>_. Emit (Invalidate [''admin-users'']) Done))
       (\<lambda>err. Update (\<lambda>s. s\<lparr>error_msg := Some (message_or failed err)\<rparr>) Done))"

definition handle_role_change :: "string \<Rightarrow> string \<Rightarrow> users_io" where
  "handle_role_change i r = patch_user i (RolePatch r) ''Failed to update role.''"

definition handle_toggle_status :: "user \<Rightarrow> users_io" where
  "handle_toggle_status u = patch_user (u_id u)
     (StatusChange (if u_status u = ''active'' then ''inactive'' else ''active'')) ''Failed to update status.''"

definition handle_password_reset :: "string \<Rightarrow> users_io" where
  "handle_password_reset i = Read (\<lambda>s0.
     if trim (reset_pw s0) = [] then Update (\<lambda>s. s\<lparr>error_msg := Some ''New password cannot be empty.''\<rparr>) Done
     else Update (\<lambda>s. s\<lparr>resetting := True\<rparr>)
      (Update (\<lambda>s. s\<lparr>error_msg := None\<rparr>)
      (tryFinally
        (tryCatch
          (apiPatch (''/users/'' @ i) (PasswordPatch (reset_pw s0)) (\<lambda>_.
             Update (\<lambda>s. s\<lparr>reset_target := None, reset_pw := []\<rparr>) Done))
          (\<lambda>err. Update (\<lambda>s. s\<lparr>error_msg := Some (message_or ''Failed to reset password.'' err)\<rparr>) Done))
        (Update (\<lambda>s. s\<lparr>resetting := False\<rparr>) Done))))"

definition handle_delete :: "string \<Rightarrow> users_io" where
  "handle_delete i = Read (\<lambda>s0.
     if confirm_delete s0 \<noteq> Some i then Update (\<lambda>s. s\<lparr>confirm_delete := Some i\<rparr>) Done
     else Update (\<lambda>s. s\<lparr>confirm_delete := None\<rparr>)
      (Update (\<lambda>s. s\<lparr>error_msg := None\<rparr>)
      (tryCatch
        (apiDelete (''/users/'' @ i) (\<lambda>_. Emit (Invalidate [''admin-users'']) Done))
        (\<lambda>err. Update (\<lambda>s. s\<lparr>error_msg := Some (message_or ''Failed to delete user.'' err)\<rparr>) Done))))"

definition toggle_reset :: "string \<Rightarrow> users_page \<Rightarrow> users_page" where
  "toggle_reset i s = s\<lparr>reset_target := (if reset_target s = Some i then None else Some i),
     reset_pw := [], confirm_delete := None\<rparr>"

definition admin_count :: "users_page \<Rightarrow> nat" where
  "admin_count s = length (filter (\<lambda>u. u_role u = ''admin'') (users s))"

definition active_count :: "users_page \<Rightarrow> nat" where
  "active_count s = length (filter (\<lambda>u. u_status u = ''active'') (users s))"

definition is_self :: "string \<Rightarrow> user \<Rightarrow> bool" where
  "is_self self u = (u_name u = self)"

text \<open>The forms of the page: opening and leaving them, and showing what is typed.\<close>

definition open_create :: "users_page \<Rightarrow> users_page" where
  "open_create s = s\<lparr>show_create := True\<rparr>"

definition cancel_create :: "users_page \<Rightarrow> users_page" where
  "cancel_create s = s\<lparr>show_create := False, error_msg := None\<rparr>"

definition toggle_show_password :: "users_page \<Rightarrow> users_page" where
  "toggle_show_password s = s\<lparr>show_password := \<not> show_password s\<rparr>"

definition toggle_show_reset :: "users_page \<Rightarrow> users_page" where
  "toggle_show_reset s = s\<lparr>show_reset_pw := \<not> show_reset_pw s\<rparr>"

definition cancel_reset :: "users_page \<Rightarrow> users_page" where
  "cancel_reset s = s\<lparr>reset_target := None, reset_pw := []\<rparr>"

section \<open>What is shown\<close>

definition role_chip :: "string \<Rightarrow> string" where
  "role_chip r = (if r = ''admin'' then ''border-red-500/40 bg-red-500/10 text-red-400''
     else if r = ''operator'' then ''border-primary/40 bg-primary/10 text-primary''
     else if r = ''viewer'' then ''border-blue-500/40 bg-blue-500/10 text-blue-400'' else [])"

text \<open>The bar under a typed password: its width in thirds, its colour and the label.\<close>

definition strength_bar :: "string \<Rightarrow> (nat \<times> string \<times> string) option" where
  "strength_bar pw = (if pw = [] then None else Some (password_strength pw, strength_color (password_strength pw),
     strength_label (password_strength pw)))"

definition user_stats :: "users_page \<Rightarrow> nat \<times> nat \<times> nat \<times> string" where
  "user_stats s = (length (users s), active_count s, admin_count s,
     nat_str (active_count s) @ ''/'' @ nat_str (length (users s)) @ '' ACTIVE'')"

record create_form =
  cf_fields :: "string \<times> string \<times> string \<times> string"
  cf_plain :: bool
  cf_bar :: "(nat \<times> string \<times> string) option"
  cf_enabled :: bool

definition create_form_of :: "users_page \<Rightarrow> create_form option" where
  "create_form_of s = (if \<not> show_create s then None else Some
     \<lparr>cf_fields = (new_username s, new_password s, new_role s, new_status s), cf_plain = show_password s,
      cf_bar = strength_bar (new_password s), cf_enabled = (\<not> creating s)\<rparr>)"

text \<open>The inline form of a password reset: the text, whether it is readable, its bar and whether SAVE is offered.\<close>

record reset_form =
  rf_text :: string
  rf_plain :: bool
  rf_bar :: "(nat \<times> string) option"
  rf_enabled :: bool

definition reset_form_of :: "users_page \<Rightarrow> user \<Rightarrow> reset_form option" where
  "reset_form_of s u = (if reset_target s \<noteq> Some (u_id u) then None else Some
     \<lparr>rf_text = reset_pw s, rf_plain = show_reset_pw s,
      rf_bar = (if reset_pw s = [] then None else Some (password_strength (reset_pw s), strength_color (password_strength (reset_pw s)))),
      rf_enabled = (\<not> resetting s \<and> trim (reset_pw s) \<noteq> [])\<rparr>)"

record user_row =
  ur_name :: string
  ur_you :: bool
  ur_role :: "string \<times> string"
  ur_status :: "string \<times> string"
  ur_login :: string
  ur_titles :: "string \<times> string"
  ur_confirm :: bool
  ur_enabled :: bool
  ur_reset :: "reset_form option"

definition user_row_of :: "(string \<Rightarrow> string) \<Rightarrow> string \<Rightarrow> users_page \<Rightarrow> user \<Rightarrow> user_row" where
  "user_row_of date self s u = \<lparr>ur_name = u_name u, ur_you = is_self self u, ur_role = (u_role u, role_chip (u_role u)),
     ur_status = ((if u_status u = ''active'' then ''online'' else ''offline''), to_upper (u_status u)),
     ur_login = (if u_last_login u = [] then em_dash else date (u_last_login u)),
     ur_titles = ((if u_status u = ''active'' then ''Deactivate'' else ''Activate''),
        (if confirm_delete s = Some (u_id u) then ''Click again to confirm'' else ''Delete user'')),
     ur_confirm = (confirm_delete s = Some (u_id u)), ur_enabled = (\<not> is_self self u), ur_reset = reset_form_of s u\<rparr>"

definition user_rows :: "(string \<Rightarrow> string) \<Rightarrow> string \<Rightarrow> bool \<Rightarrow> users_page \<Rightarrow> user_row list option" where
  "user_rows date self loading s = (if loading then None else Some (map (user_row_of date self s) (users s)))"

section \<open>Events\<close>

datatype user_event =
    UsersLoaded "user list" | Create | EditNew "users_page \<Rightarrow> users_page" | ChangeRole user string | ToggleStatus user
  | ToggleReset user | TypeReset string | ResetPassword user | EnterReset user | CancelReset | Delete user | CancelDelete
  | OpenCreate | CancelCreate | ShowPassword | ShowReset

text \<open>The controls of a row act on one of the users listed.\<close>

fun users_handler :: "string \<Rightarrow> user_event \<Rightarrow> users_page \<Rightarrow> users_io" where
  "users_handler self (UsersLoaded us) s = Update (\<lambda>s. s\<lparr>users := us\<rparr>) Done"
| "users_handler self Create s = (if creating s then Done else handle_create)"
| "users_handler self (EditNew f) s = Update (\<lambda>s. s\<lparr>new_username := new_username (f s), new_password := new_password (f s),
      new_role := new_role (f s), new_status := new_status (f s), show_create := show_create (f s)\<rparr>) Done"
| "users_handler self (ChangeRole u r) s = (if is_self self u then Done else handle_role_change (u_id u) r)"
| "users_handler self (ToggleStatus u) s = (if is_self self u then Done else handle_toggle_status u)"
| "users_handler self (ToggleReset u) s = (if is_self self u then Done else Update (toggle_reset (u_id u)) Done)"
| "users_handler self (TypeReset p) s = Update (\<lambda>s. s\<lparr>reset_pw := p\<rparr>) Done"
| "users_handler self (ResetPassword u) s =
     (if reset_target s \<noteq> Some (u_id u) \<or> resetting s \<or> trim (reset_pw s) = [] then Done
      else handle_password_reset (u_id u))"
| "users_handler self (EnterReset u) s = (if reset_target s \<noteq> Some (u_id u) then Done else handle_password_reset (u_id u))"
| "users_handler self CancelReset s = Update cancel_reset Done"
| "users_handler self (Delete u) s = (if is_self self u then Done else handle_delete (u_id u))"
| "users_handler self CancelDelete s = Update (\<lambda>s. s\<lparr>confirm_delete := None\<rparr>) Done"
| "users_handler self OpenCreate s = Update open_create Done"
| "users_handler self CancelCreate s = Update cancel_create Done"
| "users_handler self ShowPassword s = Update toggle_show_password Done"
| "users_handler self ShowReset s = Update toggle_show_reset Done"

section \<open>Properties\<close>

definition own_path :: "string \<Rightarrow> user_body request \<Rightarrow> bool" where
  "own_path i rq = (req_path rq = ''/users/'' @ i)"

lemma users_handler_spares:
  assumes "self_id \<noteq> []" and "reset_target s \<noteq> Some self_id"
    and "case e of ChangeRole u r \<Rightarrow> (u_id u = self_id) = is_self self u
      | ToggleStatus u \<Rightarrow> (u_id u = self_id) = is_self self u
      | Delete u \<Rightarrow> (u_id u = self_id) = is_self self u | _ \<Rightarrow> True"
  shows "list_all (\<lambda>rq. \<not> own_path self_id rq) (requests_of srv yes (users_handler self e s) w s)"
  using assms
  by (cases e) (auto simp: own_path_def handle_create_def handle_role_change_def handle_toggle_status_def
      patch_user_def handle_password_reset_def handle_delete_def io_simps split: sum.split)

lemma delete_requests:
  "requests_of srv yes (handle_delete i) w s =
     (if confirm_delete s = Some i then [Request DELETE (''/users/'' @ i) None] else [])"
  by (auto simp: handle_delete_def io_simps split: sum.split)

text \<open>An administrator cannot change or delete the own account here: when ids belong to one account each
  and the password of the own account is not being reset, no event sends a request to the own account's
  path, and a deletion sends one request only on the second click on the same account.\<close>

theorem own_account_spared:
  assumes "self_id \<noteq> []" and "reset_target s \<noteq> Some self_id"
    and "case e of ChangeRole u r \<Rightarrow> (u_id u = self_id) = is_self self u
      | ToggleStatus u \<Rightarrow> (u_id u = self_id) = is_self self u
      | Delete u \<Rightarrow> (u_id u = self_id) = is_self self u | _ \<Rightarrow> True"
  shows "list_all (\<lambda>rq. \<not> own_path self_id rq) (requests_of srv yes (users_handler self e s) w s) \<and>
    requests_of srv yes (handle_delete i) w s =
      (if confirm_delete s = Some i then [Request DELETE (''/users/'' @ i) None] else [])"
  by (intro conjI users_handler_spares [OF assms] delete_requests)

theorem own_account_spared_witness:
  "list_all (\<lambda>rq. \<not> own_path ''u1'' rq) (requests_of (stateless (\<lambda>_. Inr ())) True
     (users_handler ''ana'' (Delete \<lparr>u_id = ''u2'', u_name = ''bo'', u_role = ''viewer'', u_status = ''active'', u_last_login = []\<rparr>) initial_users) () initial_users)"
  using own_account_spared [where self_id = "''u1''" and s = initial_users and self = "''ana''"
      and e = "Delete \<lparr>u_id = ''u2'', u_name = ''bo'', u_role = ''viewer'', u_status = ''active'', u_last_login = []\<rparr>"
      and srv = "stateless (\<lambda>_. Inr ())" and yes = True and w = "()"]
  by (simp add: initial_users_def is_self_def)

text \<open>A password reset that is answered late closes another account's form: the request carries the password
  typed for its own account, but its success closes whatever reset form is open by then and forgets the
  password typed into it, and ENTER sends the same request again while the first one is under way.\<close>

theorem late_reset_closes_other:
  assumes "trim (reset_pw s) \<noteq> []" and "reset_target s = Some (u_id u)"
  shows "\<exists>t g. settle (handle_password_reset (u_id u)) yes s = (t, [Await (Request PATCH (''/users/'' @ u_id u) (Some (PasswordPatch (reset_pw s)))) g])
    \<and> settle (users_handler self (EnterReset u) t) yes t = (t, [Await (Request PATCH (''/users/'' @ u_id u) (Some (PasswordPatch (reset_pw s)))) g])
    \<and> (\<forall>other typed. settle (g (Inr ())) yes (t\<lparr>reset_target := Some other, reset_pw := typed\<rparr>)
        = (t\<lparr>reset_target := None, reset_pw := [], resetting := False\<rparr>, []))"
  using assms by (simp add: handle_password_reset_def call_def)

theorem late_reset_closes_other_witness:
  "\<exists>t g. settle (handle_password_reset ''u2'') True (initial_users\<lparr>reset_target := Some ''u2'', reset_pw := ''Secret99''\<rparr>)
      = (t, [Await (Request PATCH ''/users/u2'' (Some (PasswordPatch ''Secret99''))) g])
    \<and> settle (g (Inr ())) True (t\<lparr>reset_target := Some ''u3'', reset_pw := ''Other1234''\<rparr>)
      = (t\<lparr>reset_target := None, reset_pw := [], resetting := False\<rparr>, [])"
proof -
  let ?u = "\<lparr>u_id = ''u2'', u_name = ''bo'', u_role = ''viewer'', u_status = ''active'', u_last_login = []\<rparr>"
  let ?s = "initial_users\<lparr>reset_target := Some ''u2'', reset_pw := ''Secret99''\<rparr>"
  have "trim (reset_pw ?s) \<noteq> []" "reset_target ?s = Some (u_id ?u)" by (simp_all add: trim_def is_space_def)
  from late_reset_closes_other [OF this, of True "[]"] show ?thesis by fastforce
qed

end
