(* ===== verification/Devices.thy ===== *)
theory Devices
  imports Hooks
begin

text \<open>
  \<open>pages/Devices.tsx\<close>: the endpoint inventory.  The clock, \<open>crypto.randomUUID\<close> and the parser of
  timestamps are parameters; the query of the device list delivers its result as an event.
\<close>

section \<open>Data\<close>

datatype device_type = Workstation | Server | Laptop | Virtual
datatype device_status = Online | Offline | Degraded | PendingDevice
datatype collection_state = Idle | Collecting | Queued

record device =
  dev_id :: string
  hostname :: string
  ip_address :: string
  dev_type :: device_type
  dev_os :: string
  agent_version :: string
  dev_status :: device_status
  last_seen :: string
  cpu_usage :: "rat option"
  memory_usage :: "rat option"
  coll_status :: collection_state
  registered_at :: string

text \<open>The server's row: the two statuses arrive as text.\<close>

record device_response =
  r_id :: string
  r_hostname :: string
  r_ip :: string
  r_type :: device_type
  r_os :: string
  r_agent :: string
  r_status :: "string option"
  r_last_seen :: string
  r_cpu :: "rat option"
  r_memory :: "rat option"
  r_collection :: "string option"
  r_registered :: string

definition or_empty :: "string option \<Rightarrow> string" where
  "or_empty v = (case v of Some s \<Rightarrow> s | None \<Rightarrow> [])"

definition normalize_device_status :: "string option \<Rightarrow> device_status" where
  "normalize_device_status st =
     (let n = to_lower (trim (or_empty st))
      in if n = ''online'' then Online else if n = ''offline'' then Offline
         else if n = ''degraded'' then Degraded else PendingDevice)"

definition normalize_collection_status :: "string option \<Rightarrow> collection_state" where
  "normalize_collection_status st =
     (let n = to_lower (trim (or_empty st))
      in if n = ''collecting'' then Collecting else if n = ''queued'' then Queued else Idle)"

definition map_device :: "device_response \<Rightarrow> device" where
  "map_device d = \<lparr>dev_id = r_id d, hostname = r_hostname d, ip_address = r_ip d, dev_type = r_type d,
     dev_os = r_os d, agent_version = r_agent d, dev_status = normalize_device_status (r_status d),
     last_seen = r_last_seen d, cpu_usage = r_cpu d, memory_usage = r_memory d,
     coll_status = normalize_collection_status (r_collection d), registered_at = r_registered d\<rparr>"

fun status_text :: "device_status \<Rightarrow> string" where
  "status_text Online = ''online''" | "status_text Offline = ''offline''"
| "status_text Degraded = ''degraded''" | "status_text PendingDevice = ''pending''"

record new_device =
  nd_hostname :: string
  nd_ip :: string
  nd_type :: device_type
  nd_os :: string
  nd_agent :: string
  nd_status :: device_status
  nd_collection :: collection_state

definition blank_device :: new_device where
  "blank_device = \<lparr>nd_hostname = [], nd_ip = [], nd_type = Workstation, nd_os = [], nd_agent = ''2.1.0'',
     nd_status = Online, nd_collection = Idle\<rparr>"

datatype device_body = CreateDevice device | StatusPatch string string

datatype device_reply = DDevice device_response | DDone | DHttp bool nat

fun the_device where "the_device (DDevice d) = Some d" | "the_device _ = None"
fun the_http where "the_http (DHttp ok st) = Some (ok, st)" | "the_http _ = None"

section \<open>State and operations\<close>

record device_page =
  search_query :: string
  filter_status :: "device_status option"
  filter_type :: "device_type option"
  devices :: "device list"
  device_error :: "string option"
  add_open :: bool
  is_saving :: bool
  confirm_toggle :: "string option"
  draft :: new_device
  downloading :: "bool jsobj"
  download_error :: "string option"
  guide_collapsed :: bool

definition initial_devices :: "string option \<Rightarrow> device_page" where
  "initial_devices stored = \<lparr>search_query = [], filter_status = None, filter_type = None, devices = [],
     device_error = None, add_open = False, is_saving = False, confirm_toggle = None, draft = blank_device,
     downloading = [], download_error = None, guide_collapsed = (stored = Some ''true'')\<rparr>"

type_synonym device_io = "(device_page, device_reply, device_body, unit) io"

definition toggle_enroll_guide :: device_io where
  "toggle_enroll_guide = Read (\<lambda>s0. let next_value = \<not> guide_collapsed s0 in
     Emit (LocalSet ''dfir_enroll_guide_collapsed'' (if next_value then ''true'' else ''false''))
    (Update (\<lambda>s. s\<lparr>guide_collapsed := next_value\<rparr>) Done))"

definition agent_url :: "string option \<Rightarrow> (string \<Rightarrow> string) \<Rightarrow> string \<Rightarrow> string \<Rightarrow> string" where
  "agent_url base encode os arch =
     (case map_option trim base of Some b \<Rightarrow> if b = [] then ''/api/v1'' else b | None \<Rightarrow> ''/api/v1'')
     @ ''/agent-binary/download?os='' @ encode os @ ''&arch='' @ encode arch"

definition download_agent_binary :: "string option \<Rightarrow> (string \<Rightarrow> string) \<Rightarrow> string \<Rightarrow> string \<Rightarrow> string \<Rightarrow> device_io" where
  "download_agent_binary base encode os arch filename =
     (let key = os @ ''-'' @ arch in
     Update (\<lambda>s. s\<lparr>downloading := obj_put key True (downloading s)\<rparr>)
    (Update (\<lambda>s. s\<lparr>download_error := None\<rparr>)
    (tryFinally
      (tryCatch
        (call (Request GET (agent_url base encode os arch) None) (expect the_http (\<lambda>(ok, st).
           if \<not> ok then Raise (Error (''HTTP '' @ nat_str st)) else Emit (Download filename) Done)))
        (\<lambda>err. Update (\<lambda>s. s\<lparr>download_error := Some (message_or ''Download failed'' err)\<rparr>) Done))
      (Update (\<lambda>s. s\<lparr>downloading := obj_put key False (downloading s)\<rparr>) Done))))"

text \<open>The effects on the query of the list.\<close>

definition devices_loaded :: "device_response list \<Rightarrow> device_io" where
  "devices_loaded rows = Update (\<lambda>s. s\<lparr>devices := map map_device rows\<rparr>)
    (Update (\<lambda>s. s\<lparr>device_error := None\<rparr>) Done)"

definition devices_failed :: device_io where
  "devices_failed = Update (\<lambda>s. s\<lparr>device_error := Some ''Unable to load devices.''\<rparr>) Done"

definition or_unknown :: "string \<Rightarrow> string" where
  "or_unknown v = (if trim v = [] then ''unknown'' else trim v)"

definition created_device :: "string \<Rightarrow> string \<Rightarrow> new_device \<Rightarrow> device" where
  "created_device uuid now d = \<lparr>dev_id = uuid, hostname = to_upper (trim (nd_hostname d)),
     ip_address = trim (nd_ip d), dev_type = nd_type d, dev_os = or_unknown (nd_os d),
     agent_version = or_unknown (nd_agent d), dev_status = nd_status d, last_seen = now, cpu_usage = None,
     memory_usage = None, coll_status = nd_collection d, registered_at = now\<rparr>"

definition handle_add_device :: "bool \<Rightarrow> string \<Rightarrow> string \<Rightarrow> device_io" where
  "handle_add_device admin uuid now = Read (\<lambda>s0.
     if \<not> admin then Update (\<lambda>s. s\<lparr>device_error := Some ''Only admin accounts can add devices.''\<rparr>) Done
     else if trim (nd_hostname (draft s0)) = [] \<or> trim (nd_ip (draft s0)) = []
     then Update (\<lambda>s. s\<lparr>device_error := Some ''Hostname and IP address are required.''\<rparr>) Done
     else Update (\<lambda>s. s\<lparr>is_saving := True\<rparr>)
      (Update (\<lambda>s. s\<lparr>device_error := None\<rparr>)
      (tryFinally
        (tryCatch
          (apiPost ''/devices'' (CreateDevice (created_device uuid now (draft s0))) (expect the_device (\<lambda>r.
             Update (\<lambda>s. s\<lparr>devices := devices s @ [map_device r]\<rparr>)
            (Update (\<lambda>s. s\<lparr>add_open := False\<rparr>)
            (Update (\<lambda>s. s\<lparr>draft := blank_device\<rparr>) Done)))))
          (\<lambda>_. Update (\<lambda>s. s\<lparr>device_error := Some ''Unable to add device.''\<rparr>) Done))
        (Update (\<lambda>s. s\<lparr>is_saving := False\<rparr>) Done))))"

definition refresh_devices :: device_io where
  "refresh_devices = Update (\<lambda>s. s\<lparr>device_error := None\<rparr>) (Emit (Invalidate [''devices'']) Done)"

definition next_status :: "device \<Rightarrow> string" where
  "next_status d = (if dev_status d = Online then ''offline'' else ''online'')"

definition toggle_device_status :: "bool \<Rightarrow> string \<Rightarrow> device \<Rightarrow> device_io" where
  "toggle_device_status admin now d = Read (\<lambda>s0.
     if \<not> admin then Update (\<lambda>s. s\<lparr>device_error := Some ''Only admin accounts can update devices.''\<rparr>) Done
     else if confirm_toggle s0 \<noteq> Some (dev_id d) then Update (\<lambda>s. s\<lparr>confirm_toggle := Some (dev_id d)\<rparr>) Done
     else Update (\<lambda>s. s\<lparr>confirm_toggle := None\<rparr>)
      (tryCatch
        (apiPatch (''/devices/'' @ dev_id d) (StatusPatch (next_status d) now) (expect the_device (\<lambda>r.
           let mapped = map_device r
           in Update (\<lambda>s. s\<lparr>devices := map (\<lambda>item. if dev_id item = dev_id mapped then mapped else item) (devices s)\<rparr>) Done)))
        (\<lambda>_. Update (\<lambda>s. s\<lparr>device_error := Some ''Unable to update device status.''\<rparr>) Done)))"

definition cancel_toggle :: device_io where
  "cancel_toggle = Update (\<lambda>s. s\<lparr>confirm_toggle := None\<rparr>) Done"

definition remove_device :: "bool \<Rightarrow> string \<Rightarrow> device_io" where
  "remove_device admin i =
     (if \<not> admin then Update (\<lambda>s. s\<lparr>device_error := Some ''Only admin accounts can remove devices.''\<rparr>) Done
      else tryCatch
        (apiDelete (''/devices/'' @ i) (\<lambda>_.
           Update (\<lambda>s. s\<lparr>devices := filter (\<lambda>d. dev_id d \<noteq> i) (devices s)\<rparr>) Done))
        (\<lambda>_. Update (\<lambda>s. s\<lparr>device_error := Some ''Unable to remove device.''\<rparr>) Done))"

section \<open>Derived values\<close>

definition device_matches :: "string \<Rightarrow> device_status option \<Rightarrow> device_type option \<Rightarrow> device \<Rightarrow> bool" where
  "device_matches debounced fs ft d =
     (let q = to_lower debounced
      in (q = [] \<or> str_includes (to_lower (hostname d)) q \<or> str_includes (ip_address d) debounced
            \<or> str_includes (to_lower (dev_os d)) q)
         \<and> (fs = None \<or> fs = Some (dev_status d)) \<and> (ft = None \<or> ft = Some (dev_type d)))"

definition filtered_devices :: "string \<Rightarrow> device_page \<Rightarrow> device list" where
  "filtered_devices debounced s = filter (device_matches debounced (filter_status s) (filter_type s)) (devices s)"

definition count_status :: "device_status \<Rightarrow> device_page \<Rightarrow> nat" where
  "count_status st s = length (filter (\<lambda>d. dev_status d = st) (devices s))"

fun device_icon :: "device_type \<Rightarrow> string" where
  "device_icon Server = ''Server''" | "device_icon Laptop = ''Laptop''"
| "device_icon Virtual = ''HardDrive''" | "device_icon Workstation = ''Monitor''"

fun status_indicator :: "device_status \<Rightarrow> string \<times> string" where
  "status_indicator Online = (''online'', ''ONLINE'')"
| "status_indicator Offline = (''offline'', ''OFFLINE'')"
| "status_indicator Degraded = (''pending'', ''DEGRADED'')"
| "status_indicator PendingDevice = (''pending'', ''PENDING'')"

fun collection_badge :: "collection_state \<Rightarrow> string" where
  "collection_badge Collecting = ''COLLECTING''" | "collection_badge Queued = ''QUEUED''"
| "collection_badge Idle = ''IDLE''"

text \<open>\<open>date\<close> reads a timestamp in milliseconds; an unreadable one makes every comparison false.\<close>

definition format_last_seen :: "(string \<Rightarrow> int option) \<Rightarrow> int \<Rightarrow> string \<Rightarrow> string" where
  "format_last_seen date now seen =
     (if seen = ''-'' then ''NEVER''
      else case date seen of None \<Rightarrow> ''NaNd AGO''
      | Some t \<Rightarrow> (let mins = (now - t) div 60000
          in if mins < 1 then ''JUST NOW''
             else if mins < 60 then int_str mins @ ''m AGO''
             else if mins < 1440 then int_str (mins div 60) @ ''h AGO''
             else int_str (mins div 1440) @ ''d AGO''))"

section \<open>What is shown\<close>

text \<open>The agent binaries: their system, architecture, file name and the label of their button; the server says
  which of them it has.\<close>

record agent_binary =
  ab_os :: string
  ab_arch :: string
  ab_file :: string
  ab_label :: string

definition agent_binaries :: "agent_binary list" where
  "agent_binaries = [
     \<lparr>ab_os = ''windows'', ab_arch = ''amd64'', ab_file = ''dfir-agent.exe'', ab_label = ''WINDOWS x64 (.exe)''\<rparr>,
     \<lparr>ab_os = ''linux'', ab_arch = ''amd64'', ab_file = ''dfir-agent-linux'', ab_label = ''LINUX x64''\<rparr>,
     \<lparr>ab_os = ''linux'', ab_arch = ''arm64'', ab_file = ''dfir-agent-linux-arm64'', ab_label = ''LINUX ARM64''\<rparr>,
     \<lparr>ab_os = ''macos'', ab_arch = ''arm64'', ab_file = ''dfir-agent-darwin-arm64'', ab_label = ''macOS APPLE SILICON''\<rparr>,
     \<lparr>ab_os = ''macos'', ab_arch = ''amd64'', ab_file = ''dfir-agent-darwin-amd64'', ab_label = ''macOS INTEL''\<rparr>]"

definition download_key :: "agent_binary \<Rightarrow> string" where
  "download_key b = ab_os b @ ''-'' @ ab_arch b"

text \<open>The fields of \<open>AgentBinaryInfo\<close> by name, as \<open>windows_amd64\<close>.\<close>

definition info_key :: "agent_binary \<Rightarrow> string" where
  "info_key b = ab_os b @ ''_'' @ ab_arch b"

definition agent_button :: "device_page \<Rightarrow> agent_binary \<Rightarrow> string \<times> bool" where
  "agent_button s b = (ab_label b, map_of (downloading s) (download_key b) \<noteq> Some True)"

datatype agent_panel = CheckingBinaries | NotConfigured | NoBinaries | Binaries "(string \<times> bool) list"

definition has_binary :: "bool jsobj \<Rightarrow> agent_binary \<Rightarrow> bool" where
  "has_binary info b \<longleftrightarrow> map_of info (info_key b) = Some True"

definition agent_panel_of :: "bool \<Rightarrow> bool \<Rightarrow> bool jsobj option \<Rightarrow> device_page \<Rightarrow> agent_panel list" where
  "agent_panel_of loading failed info s = (if loading then [CheckingBinaries] else []) @ (if failed then [NotConfigured] else [])
     @ (case info of None \<Rightarrow> [] | Some i \<Rightarrow> let bs = filter (has_binary i) agent_binaries
          in if bs = [] then [NoBinaries] else [Binaries (map (agent_button s) bs)])"

text \<open>The word on the guide's button, which follows an arrow.\<close>

definition guide_label :: "device_page \<Rightarrow> string" where
  "guide_label s = (if guide_collapsed s then ''SHOW'' else ''HIDE'')"

fun type_text :: "device_type \<Rightarrow> string" where
  "type_text Workstation = ''workstation''" | "type_text Server = ''server''" | "type_text Laptop = ''laptop''"
| "type_text Virtual = ''virtual''"

text \<open>The filter buttons: their label and whether they are chosen.\<close>

definition status_filters :: "device_page \<Rightarrow> (device_status option \<times> string \<times> bool) list" where
  "status_filters s = map (\<lambda>f. (f, (case f of None \<Rightarrow> ''all'' | Some st \<Rightarrow> status_text st), filter_status s = f))
     [None, Some Online, Some Offline, Some Degraded]"

definition type_filters :: "device_page \<Rightarrow> (device_type option \<times> string \<times> bool) list" where
  "type_filters s = map (\<lambda>f. (f, (case f of None \<Rightarrow> ''ALL'' | Some t \<Rightarrow> to_upper (take 3 (type_text t))), filter_type s = f))
     [None, Some Workstation, Some Server, Some Laptop, Some Virtual]"

definition header_counts :: "device_page \<Rightarrow> nat \<times> nat \<times> nat" where
  "header_counts s = (count_status Online s, count_status Offline s, count_status Degraded s)"

record device_row =
  dw_icon :: string
  dw_host :: string
  dw_kind :: string
  dw_ip :: string
  dw_os :: string
  dw_agent :: "string \<times> bool"
  dw_status :: "string \<times> string"
  dw_seen :: string
  dw_badge :: string
  dw_console :: "string option"
  dw_armed :: bool

definition device_row_of :: "(string \<Rightarrow> int option) \<Rightarrow> int \<Rightarrow> device_page \<Rightarrow> device \<Rightarrow> device_row" where
  "device_row_of date now s d = \<lparr>dw_icon = device_icon (dev_type d), dw_host = hostname d, dw_kind = to_upper (type_text (dev_type d)),
     dw_ip = ip_address d, dw_os = dev_os d, dw_agent = (''v'' @ agent_version d, agent_version d = ''2.1.0''),
     dw_status = status_indicator (dev_status d), dw_seen = format_last_seen date now (last_seen d),
     dw_badge = collection_badge (coll_status d),
     dw_console = (if dev_status d = Online then Some (''/agents/'' @ dev_id d @ ''/console'') else None),
     dw_armed = (confirm_toggle s = Some (dev_id d))\<rparr>"

datatype device_table = LoadingDevices | NoDevices | DeviceRows "device_row list"

definition device_table_of :: "(string \<Rightarrow> int option) \<Rightarrow> int \<Rightarrow> bool \<Rightarrow> string \<Rightarrow> pagination \<Rightarrow> device_page \<Rightarrow> device_table" where
  "device_table_of date now loading debounced p s = (if loading then LoadingDevices
     else let ds = page_items (filtered_devices debounced s) p
       in if ds = [] then NoDevices else DeviceRows (map (device_row_of date now s) ds))"

text \<open>The dialog's fields.\<close>

definition edit_hostname :: "string \<Rightarrow> new_device \<Rightarrow> new_device" where
  "edit_hostname t d = d\<lparr>nd_hostname := to_upper t\<rparr>"

definition edit_ip :: "string \<Rightarrow> new_device \<Rightarrow> new_device" where
  "edit_ip t d = d\<lparr>nd_ip := t\<rparr>"

definition edit_type :: "device_type \<Rightarrow> new_device \<Rightarrow> new_device" where
  "edit_type t d = d\<lparr>nd_type := t\<rparr>"

definition edit_agent :: "string \<Rightarrow> new_device \<Rightarrow> new_device" where
  "edit_agent t d = d\<lparr>nd_agent := t\<rparr>"

definition edit_status :: "device_status \<Rightarrow> new_device \<Rightarrow> new_device" where
  "edit_status t d = d\<lparr>nd_status := t\<rparr>"

definition edit_collection :: "collection_state \<Rightarrow> new_device \<Rightarrow> new_device" where
  "edit_collection t d = d\<lparr>nd_collection := t\<rparr>"

definition edit_os :: "string \<Rightarrow> new_device \<Rightarrow> new_device" where
  "edit_os t d = d\<lparr>nd_os := t\<rparr>"

definition add_button :: "device_page \<Rightarrow> string \<times> bool" where
  "add_button s = (if is_saving s then ''ADDING'' else ''ADD DEVICE'', \<not> is_saving s)"

definition refresh_button :: "bool \<Rightarrow> string \<times> bool" where
  "refresh_button fetching = (if fetching then ''REFRESHING'' else ''REFRESH'', \<not> fetching)"

section \<open>Events\<close>

datatype device_event =
    Loaded "device_response list" | LoadFailed | Refresh | TypeQuery string
  | SetStatusFilter "device_status option" | SetTypeFilter "device_type option"
  | OpenAdd bool | EditDraft new_device | AddDevice string string
  | ToggleStatus string device | CancelToggle | RemoveDevice string
  | DownloadAgent string string string | ToggleGuide

fun device_handler :: "bool \<Rightarrow> string option \<Rightarrow> (string \<Rightarrow> string) \<Rightarrow> device_event \<Rightarrow> device_page \<Rightarrow> device_io" where
  "device_handler admin base enc (Loaded rows) s = devices_loaded rows"
| "device_handler admin base enc LoadFailed s = devices_failed"
| "device_handler admin base enc Refresh s = refresh_devices"
| "device_handler admin base enc (TypeQuery q) s = Update (\<lambda>s. s\<lparr>search_query := q\<rparr>) Done"
| "device_handler admin base enc (SetStatusFilter f) s = Update (\<lambda>s. s\<lparr>filter_status := f\<rparr>) Done"
| "device_handler admin base enc (SetTypeFilter f) s = Update (\<lambda>s. s\<lparr>filter_type := f\<rparr>) Done"
| "device_handler admin base enc (OpenAdd b) s = Update (\<lambda>s. s\<lparr>add_open := b\<rparr>) Done"
| "device_handler admin base enc (EditDraft d) s = Update (\<lambda>s. s\<lparr>draft := d\<rparr>) Done"
| "device_handler admin base enc (AddDevice u n) s = (if is_saving s then Done else handle_add_device admin u n)"
| "device_handler admin base enc (ToggleStatus n d) s = toggle_device_status admin n d"
| "device_handler admin base enc CancelToggle s = cancel_toggle"
| "device_handler admin base enc (RemoveDevice i) s = remove_device admin i"
| "device_handler admin base enc (DownloadAgent os arch f) s = download_agent_binary base enc os arch f"
| "device_handler admin base enc ToggleGuide s = toggle_enroll_guide"

section \<open>Properties\<close>

lemmas device_ops = toggle_enroll_guide_def download_agent_binary_def devices_loaded_def devices_failed_def
  handle_add_device_def refresh_devices_def toggle_device_status_def cancel_toggle_def remove_device_def

definition is_write :: "device_body request \<Rightarrow> bool" where
  "is_write rq \<longleftrightarrow> req_method rq \<noteq> GET"

lemma non_admin_reads:
  "sends_only (\<lambda>rq. \<not> is_write rq) (device_handler False base enc e s)"
  by (cases e) (auto simp: device_ops is_write_def Let_def expect_def
      intro!: sends_only_tryFinally sends_only_tryCatch split: option.split)

text \<open>Whatever they click and whatever the server answers, an account that is not an administrator
  sends no request that writes.\<close>

theorem device_writes_need_admin:
  "list_all (\<lambda>rq. \<not> is_write rq) (requests_of srv yes (device_handler False base enc e s) w s0)"
  unfolding list_all_iff by (intro ballI) (rule sends_only_requests [OF non_admin_reads])

text \<open>A device's status is changed only on the second click: the first click on a device sends nothing
  and arms that device alone, and the click that follows sends one patch, to the opposite of
  online, disarms, and replaces the patched device alone, or reports the failure.\<close>

theorem toggle_needs_confirmation:
  assumes "confirm_toggle s \<noteq> Some (dev_id d)"
  shows "(let toggle = toggle_device_status True now d; armed = s\<lparr>confirm_toggle := Some (dev_id d)\<rparr>;
       s2 = final_state srv yes toggle w armed
     in requests_of srv yes toggle w s = [] \<and> final_state srv yes toggle w s = armed \<and>
        requests_of srv yes toggle w armed = [Request PATCH (''/devices/'' @ dev_id d)
          (Some (StatusPatch (if dev_status d = Online then ''offline'' else ''online'') now))] \<and>
        confirm_toggle s2 = None \<and> map dev_id (devices s2) = map dev_id (devices s) \<and>
        (devices s2 = devices s \<or>
         (\<exists>r. devices s2 = map (\<lambda>x. if dev_id x = dev_id (map_device r) then map_device r else x) (devices s))))"
proof -
  let ?m = "toggle_device_status True now d" and ?a = "s\<lparr>confirm_toggle := Some (dev_id d)\<rparr>"
  have ids: "map dev_id (map (\<lambda>x. if dev_id x = dev_id m then m else x) ds) = map dev_id ds" for m :: device and ds
    by simp
  have res: "confirm_toggle (final_state srv yes ?m w ?a) = None \<and>
     (devices (final_state srv yes ?m w ?a) = devices s \<or>
      (\<exists>r. devices (final_state srv yes ?m w ?a) =
          map (\<lambda>x. if dev_id x = dev_id (map_device r) then map_device r else x) (devices s)))"
    by (auto simp: toggle_device_status_def io_simps split: sum.split option.split)
  then have "map dev_id (devices (final_state srv yes ?m w ?a)) = map dev_id (devices s)"
  proof (elim conjE disjE exE)
    fix r
    assume "devices (final_state srv yes ?m w ?a) =
        map (\<lambda>x. if dev_id x = dev_id (map_device r) then map_device r else x) (devices s)"
    then show ?thesis by (simp only: ids)
  qed simp
  moreover have "requests_of srv yes ?m w ?a = [Request PATCH (''/devices/'' @ dev_id d)
      (Some (StatusPatch (if dev_status d = Online then ''offline'' else ''online'') now))]"
    by (simp add: toggle_device_status_def io_simps next_status_def split: sum.split option.split)
  moreover have "requests_of srv yes ?m w s = []" "final_state srv yes ?m w s = ?a"
    using assms by (simp_all add: toggle_device_status_def)
  ultimately show ?thesis using res by (simp only: Let_def)
qed

theorem toggle_needs_confirmation_witness:
  "requests_of (stateless (\<lambda>_. Inr DDone)) True
     (toggle_device_status True ''now'' (created_device ''d1'' ''t0'' blank_device)) () (initial_devices None) = []"
  using toggle_needs_confirmation [of "initial_devices None" "created_device ''d1'' ''t0'' blank_device"
      "''now''" "stateless (\<lambda>_. Inr DDone)" True "()"]
  by (simp add: initial_devices_def Let_def)

lemma fold_download_key: "ab_os b @ CHR ''-'' # ab_arch b = download_key b"
  by (simp add: download_key_def)

lemma download_keys_distinct: "distinct (map download_key agent_binaries)"
  by (simp add: agent_binaries_def download_key_def)

lemma download_key_inj: "b \<in> set agent_binaries \<Longrightarrow> c \<in> set agent_binaries \<Longrightarrow> (download_key b = download_key c) = (b = c)"
  using download_keys_distinct by (auto simp: distinct_map inj_on_def)

text \<open>A download occupies its own button alone and always gives it back: while the binary is fetched only its own
  button is disabled, and when the answer has come, whatever it is, the button is offered again, the others
  are as they were, and either the file was saved or an error is shown.\<close>

theorem download_frees_button:
  assumes "b \<in> set agent_binaries" and "c \<in> set agent_binaries"
  shows "(let m = download_agent_binary base enc (ab_os b) (ab_arch b) (ab_file b); t = final_state srv yes m w s;
      during = fst (settle m yes s)
    in (snd (agent_button during c) = (c \<noteq> b \<and> snd (agent_button s c)))
       \<and> (snd (agent_button t c) = (c = b \<or> snd (agent_button s c)))
       \<and> (Download (ab_file b) \<in> set (effects_of srv yes m w s)) = (download_error t = None))"
  using download_key_inj [OF assms]
  by (simp add: download_agent_binary_def agent_button_def fold_download_key io_simps
      split: sum.split option.split prod.split) auto

theorem download_frees_button_witness:
  "snd (agent_button (final_state (stateless (\<lambda>_. Inr (DHttp False 404))) True
     (download_agent_binary None (\<lambda>x. x) ''linux'' ''amd64'' ''dfir-agent-linux'') () (initial_devices None)) (agent_binaries ! 1))"
proof -
  have m: "agent_binaries ! 1 \<in> set agent_binaries" by (simp add: agent_binaries_def)
  have f: "ab_os (agent_binaries ! 1) = ''linux''" "ab_arch (agent_binaries ! 1) = ''amd64''" "ab_file (agent_binaries ! 1) = ''dfir-agent-linux''"
    by (simp_all add: agent_binaries_def)
  show ?thesis
    using download_frees_button [OF m m, of None "\<lambda>x. x" "stateless (\<lambda>_. Inr (DHttp False 404))" True "()" "initial_devices None"]
    unfolding f Let_def by blast
qed

text \<open>A device waiting for its agent is shown under no status filter but \<open>all\<close>.\<close>

lemma pending_has_no_filter:
  assumes "dev_status d = PendingDevice" and "(f, l, c) \<in> set (status_filters s)" and "d \<in> set (filtered_devices q (s\<lparr>filter_status := f\<rparr>))"
  shows "f = None"
  using assms by (auto simp: status_filters_def filtered_devices_def device_matches_def)

end
