(* ===== verification/Roles.thy ===== *)
theory Roles
  imports Users Devices Incidents Requests
begin

text \<open>
  Three more pages under the contract of \<open>Requests\<close>: what \<open>pages/UserManagement.tsx\<close> may send about the own account,
  \<open>pages/Devices.tsx\<close> for an account that is no administrator and \<open>pages/IncidentTemplates.tsx\<close> for a viewer, however
  their events and the answers are interleaved.
\<close>

section \<open>The own account\<close>

text \<open>The events of a list in which the id \<open>own\<close> belongs to the account \<open>self\<close> and to no other.\<close>

definition names_own :: "string \<Rightarrow> string \<Rightarrow> user \<Rightarrow> bool" where
  "names_own own self u \<longleftrightarrow> (u_id u = own \<longleftrightarrow> is_self self u)"

fun of_the_list :: "string \<Rightarrow> string \<Rightarrow> user_event \<Rightarrow> bool" where
  "of_the_list own self (ChangeRole u r) = names_own own self u"
| "of_the_list own self (Users.ToggleStatus u) = names_own own self u"
| "of_the_list own self (ToggleReset u) = names_own own self u"
| "of_the_list own self (Users.Delete u) = names_own own self u"
| "of_the_list own self e = True"

definition listed_handler :: "string \<Rightarrow> string \<Rightarrow> user_event \<Rightarrow> users_page \<Rightarrow> users_io" where
  "listed_handler own self e s = (if of_the_list own self e then users_handler self e s else Done)"

definition own_spared :: "string \<Rightarrow> users_page \<Rightarrow> bool" where
  "own_spared own s \<longleftrightarrow> own \<noteq> [] \<longrightarrow> reset_target s \<noteq> Some own \<and> confirm_delete s \<noteq> Some own"

definition not_own :: "string \<Rightarrow> user_body request \<Rightarrow> bool" where
  "not_own own rq \<longleftrightarrow> own \<noteq> [] \<longrightarrow> req_path rq \<noteq> ''/users/'' @ own"

lemma own_spared_fields [simp]:
  "own_spared own (s\<lparr>error_msg := e\<rparr>) = own_spared own s" "own_spared own (s\<lparr>creating := b\<rparr>) = own_spared own s"
  "own_spared own (s\<lparr>resetting := b\<rparr>) = own_spared own s" "own_spared own (s\<lparr>users := us\<rparr>) = own_spared own s"
  "own_spared own (s\<lparr>reset_pw := p\<rparr>) = own_spared own s" "own_spared own (s\<lparr>show_create := b\<rparr>) = own_spared own s"
  "own_spared own (s\<lparr>new_username := p\<rparr>) = own_spared own s" "own_spared own (s\<lparr>new_password := p\<rparr>) = own_spared own s"
  "own_spared own (s\<lparr>new_role := p\<rparr>) = own_spared own s" "own_spared own (s\<lparr>new_status := p\<rparr>) = own_spared own s"
  "own_spared own s \<Longrightarrow> own_spared own (s\<lparr>confirm_delete := None\<rparr>)" "own_spared own s \<Longrightarrow> own_spared own (cancel_reset s)"
  "own_spared own s \<Longrightarrow> own_spared own (s\<lparr>reset_target := None\<rparr>)"
  by (auto simp: own_spared_def cancel_reset_def)

lemma create_contract:
  "own_spared own s \<Longrightarrow> keeps (own_spared own) handle_create s \<and> asks (own_spared own) (not_own own) handle_create s"
  unfolding handle_create_def keeps.simps asks.simps
  by (auto intro!: keeps_tryFinally keeps_tryCatch asks_tryFinally asks_tryCatch simp: not_own_def)

lemma patch_contract:
  "own_spared own s \<Longrightarrow> i \<noteq> own \<Longrightarrow> keeps (own_spared own) (patch_user i b f) s \<and> asks (own_spared own) (not_own own) (patch_user i b f) s"
  unfolding patch_user_def keeps.simps asks.simps
  by (auto intro!: keeps_tryCatch asks_tryCatch simp: not_own_def)

lemma reset_contract:
  "own_spared own s \<Longrightarrow> own \<noteq> [] \<longrightarrow> i \<noteq> own \<Longrightarrow>
   keeps (own_spared own) (handle_password_reset i) s \<and> asks (own_spared own) (not_own own) (handle_password_reset i) s"
  unfolding handle_password_reset_def keeps.simps asks.simps
  by (auto intro!: keeps_tryFinally keeps_tryCatch asks_tryFinally asks_tryCatch simp: not_own_def)

lemma delete_contract:
  "own_spared own s \<Longrightarrow> i \<noteq> own \<Longrightarrow> keeps (own_spared own) (Users.handle_delete i) s
   \<and> asks (own_spared own) (not_own own) (Users.handle_delete i) s"
  unfolding Users.handle_delete_def keeps.simps asks.simps
  by (auto intro!: keeps_tryCatch asks_tryCatch simp: not_own_def, simp add: own_spared_def)

lemma listed_contract:
  "own_spared own s \<Longrightarrow> keeps (own_spared own) (listed_handler own self e s) s
   \<and> asks (own_spared own) (not_own own) (listed_handler own self e s) s"
  by (cases e)
    (auto simp: listed_handler_def names_own_def create_contract patch_contract reset_contract delete_contract handle_role_change_def
      handle_toggle_status_def, auto simp: own_spared_def toggle_reset_def open_create_def cancel_create_def
      toggle_show_password_def toggle_show_reset_def reset_contract)

interpretation own: component_requests "listed_handler own self" initial_users "own_spared own" "not_own own" for own self
  by unfold_locales (auto simp: listed_contract, simp add: own_spared_def initial_users_def)

section \<open>Devices and templates\<close>

lemma devices_contract:
  "keeps (\<lambda>_. True) (device_handler False base enc e s) s
   \<and> asks (\<lambda>_. True) (\<lambda>rq. \<not> is_write rq) (device_handler False base enc e s) s"
  by (cases e) (auto simp: device_ops Let_def is_write_def intro!: keeps_tryFinally keeps_tryCatch asks_tryFinally asks_tryCatch
    split: option.split)

interpretation devices: component_requests "device_handler False base enc" "initial_devices st" "\<lambda>_. True" "\<lambda>rq. \<not> is_write rq"
  for base enc st
  by unfold_locales (auto simp: devices_contract)

lemma templates_contract:
  "keeps (\<lambda>_. True) (template_handler True e s) s \<and> asks (\<lambda>_. True) (\<lambda>_. False) (template_handler True e s) s"
  by (cases e) (auto simp: Incidents.handle_save_def duplicate_template_def delete_template_def apply_template_def)

interpretation templates: component_requests "template_handler True" s0 "\<lambda>_. True" "\<lambda>_. False" for s0
  by unfold_locales (auto simp: templates_contract)

section \<open>Theorems\<close>

text \<open>C30. An administrator cannot change, disable or delete the own account on this page, nor reset its password: as long as the
  list gives the own id to the own name and to no other, no request that is ever waiting names it, and neither the form of a
  password nor the confirmation of a deletion is open for it, however events and answers are interleaved.\<close>

theorem own_account_out_of_reach:
  assumes "own \<noteq> []" and "reachable (listed_handler own self) initial_users (s, pool)"
  shows "(\<forall>rq g. Await rq g \<in> set pool \<longrightarrow> req_path rq \<noteq> ''/users/'' @ own)
    \<and> reset_target s \<noteq> Some own \<and> confirm_delete s \<noteq> Some own"
  using own.waiting_allowed [OF assms(2)] own.reachable_inv [OF assms(2)] assms(1) by (auto simp: not_own_def own_spared_def)

definition other_user :: user where
  "other_user = \<lparr>u_id = ''u2'', u_name = ''bo'', u_role = ''viewer'', u_status = ''active'', u_last_login = []\<rparr>"

lemma own_account_out_of_reach_witness:
  "\<exists>s rq g. reachable (listed_handler ''u1'' ''ana'') initial_users (s, [Await rq g])
     \<and> req_path rq = ''/users/u2'' \<and> req_path rq \<noteq> ''/users/'' @ ''u1''"
proof -
  let ?h = "listed_handler ''u1'' ''ana''"
  obtain s g where st: "settle (?h (ChangeRole other_user ''admin'') initial_users) True initial_users
      = (s, [Await (Request PATCH ''/users/u2'' (Some (RolePatch ''admin''))) g])"
    by (simp add: listed_handler_def names_own_def other_user_def is_self_def handle_role_change_def patch_user_def call_def)
  have r: "reachable ?h initial_users (s, [Await (Request PATCH ''/users/u2'' (Some (RolePatch ''admin''))) g])"
    by (rule reach_waiting [OF reachable.initially]) (rule st)
  from own_account_out_of_reach [OF _ this] show ?thesis using r by fastforce
qed

text \<open>Under every interleaving the devices are written by administrators only, and a viewer of the templates sends nothing.\<close>

theorem roles_kept_while_waiting:
  "reachable (device_handler False base enc) (initial_devices st) (s, pool) \<Longrightarrow> Await rq g \<in> set pool \<Longrightarrow> req_method rq = GET"
  "reachable (template_handler True) s0 (s', pool') \<Longrightarrow> Await rq' g' \<notin> set pool'"
  using devices.waiting_allowed [of base enc st s pool rq g] templates.waiting_allowed [of s0 s' pool' rq' g']
  by (auto simp: is_write_def)

lemma roles_kept_while_waiting_witness:
  "\<exists>s rq g. reachable (device_handler False None id) (initial_devices None) (s, [Await rq g]) \<and> req_method rq = GET"
proof -
  obtain s g where st: "settle (device_handler False None id (DownloadAgent ''linux'' ''amd64'' ''f'') (initial_devices None)) True (initial_devices None)
      = (s, [Await (Request GET (agent_url None id ''linux'' ''amd64'') None) g])"
    by (simp add: download_agent_binary_def Let_def call_def)
  have r: "reachable (device_handler False None id) (initial_devices None)
      (s, [Await (Request GET (agent_url None id ''linux'' ''amd64'') None) g])"
    by (rule reach_waiting [OF reachable.initially]) (rule st)
  from roles_kept_while_waiting(1) [OF this] show ?thesis using r by fastforce
qed

end
