(* ===== verification/SettingsTypes.thy ===== *)
theory SettingsTypes
  imports AiConfig
begin

text \<open>
  The interface \<open>SystemSettingsResponse\<close> of \<open>pages/AdminSettings.tsx\<close> as a type system for the settings object,
  and the proof that the page keeps to it: edits, loading, saving and the AI form preserve the types, both in the
  page and in the stored settings.  TypeScript checks this at compile time for the literals of the page, but not for
  what \<open>apiGet\<close> and the spread of \<open>Record<string, unknown>\<close> bring in.
\<close>

section \<open>Types of the fields\<close>

datatype field_type = NumberField | TextField | BoolField | TextOrNull

fun has_type :: "jsval \<Rightarrow> field_type \<Rightarrow> bool" where
  "has_type (JNum n) t = (t = NumberField)"
| "has_type (JStr x) t = (t = TextField \<or> t = TextOrNull)"
| "has_type (JBool b) t = (t = BoolField)"
| "has_type JNull t = (t = TextOrNull)"
| "has_type (JArr xs) t = False"
| "has_type (JObj ob) t = False"

definition settings_interface :: "(string \<times> field_type) list" where
  "settings_interface = [(''id'', TextField), (''evidence_storage_path'', TextField), (''max_file_size_gb'', NumberField),
     (''hash_algorithm'', TextField), (''collection_timeout_min'', NumberField), (''max_concurrent_jobs'', NumberField),
     (''retry_attempts'', NumberField), (''session_timeout_min'', NumberField), (''max_failed_logins'', NumberField),
     (''log_retention_days'', NumberField), (''export_format'', TextField), (''ez_tools_path'', TextOrNull),
     (''chainsaw_path'', TextOrNull), (''hayabusa_path'', TextOrNull), (''sigma_rules_path'', TextOrNull),
     (''yara_rules_path'', TextOrNull), (''timesketch_url'', TextOrNull), (''auto_process'', BoolField),
     (''webhook_url'', TextOrNull), (''notification_email'', TextOrNull), (''agent_binary_path'', TextOrNull)]"

text \<open>The text inputs that store \<open>event.target.value || null\<close>.\<close>

definition text_fields :: "string list" where
  "text_fields = [''webhook_url'', ''notification_email'', ''agent_binary_path'', ''timesketch_url''] @ map tool_field tool_rows"

definition field_ok :: "settings \<Rightarrow> string \<times> field_type \<Rightarrow> bool" where
  "field_ok cfg f = (case map_of cfg (fst f) of Some v \<Rightarrow> has_type v (snd f) | None \<Rightarrow> False)"

definition well_typed :: "settings \<Rightarrow> bool" where
  "well_typed cfg \<longleftrightarrow> distinct (map fst cfg) \<and> list_all (field_ok cfg) settings_interface"

definition page_typed :: "admin_page \<Rightarrow> bool" where
  "page_typed s = (case system_settings s of None \<Rightarrow> True | Some cfg \<Rightarrow> well_typed cfg)"

section \<open>Sessions\<close>

text \<open>
  What an administrator does with the page, one step after another, over the page and the stored settings: an edit of
  a field, anything else that leaves the settings alone, the loading of the page, the two saves, and another
  client's save.
\<close>

inductive settings_step :: "(settings \<Rightarrow> bool) \<Rightarrow> (admin_body request \<Rightarrow> jserr + admin_reply) \<Rightarrow>
    admin_page \<times> settings \<Rightarrow> admin_page \<times> settings \<Rightarrow> bool" for accepts others where
  type_number: "f \<in> set number_fields \<Longrightarrow> settings_step accepts others (s, w) (set_number_setting f n s, w)"
| type_text: "f \<in> set text_fields \<Longrightarrow> settings_step accepts others (s, w) (set_text_setting f t s, w)"
| tick_auto: "settings_step accepts others (s, w) (set_auto_process b s, w)"
| elsewhere: "system_settings s' = system_settings s \<Longrightarrow> settings_step accepts others (s, w) (s', w)"
| load: "settings_step accepts others (s, w)
    (final_state (settings_server accepts others) yes load_admin_data w s,
     final_world (settings_server accepts others) yes load_admin_data w s)"
| save: "settings_step accepts others (s, w)
    (final_state (settings_server accepts others) yes handle_save_settings w s,
     final_world (settings_server accepts others) yes handle_save_settings w s)"
| save_ai: "settings_step accepts others (s, w)
    (final_state (settings_server accepts others) yes handle_save_ai_config w s,
     final_world (settings_server accepts others) yes handle_save_ai_config w s)"
| other_client: "well_typed w' \<Longrightarrow> settings_step accepts others (s, w) (s, w')"

section \<open>Preservation\<close>

lemma well_typed_put:
  assumes "well_typed cfg" and "\<And>t. (f, t) \<in> set settings_interface \<Longrightarrow> has_type v t"
  shows "well_typed (obj_put f v cfg)"
  using assms by (auto simp: well_typed_def distinct_obj_put list_all_iff field_ok_def)

lemma page_typed_set:
  assumes "page_typed s" and "\<And>t. (f, t) \<in> set settings_interface \<Longrightarrow> has_type v t"
  shows "page_typed (set_setting f v s)"
  using assms by (auto simp: page_typed_def set_setting_def split: option.splits intro: well_typed_put)

lemma number_field_type:
  "f \<in> set number_fields \<Longrightarrow> (f, t) \<in> set settings_interface \<Longrightarrow> has_type (JNum n) t"
  by (auto simp: number_fields_def settings_interface_def)

lemma text_field_type:
  "f \<in> set text_fields \<Longrightarrow> (f, t) \<in> set settings_interface \<Longrightarrow> has_type (text_or_null x) t"
  by (auto simp: text_fields_def tool_rows_def settings_interface_def text_or_null_def)

lemma auto_field_type: "(''auto_process'', t) \<in> set settings_interface \<Longrightarrow> has_type (JBool b) t"
  by (auto simp: settings_interface_def)

lemma no_secret_in_interface: "(k, t) \<in> set settings_interface \<Longrightarrow> k \<notin> set secret_fields"
  by (auto simp: settings_interface_def secret_fields_def)

lemma well_typed_mask:
  assumes "well_typed w"
  shows "well_typed (mask_secrets w)"
proof -
  have "field_ok (mask_secrets w) f = field_ok w f" if "f \<in> set settings_interface" for f
    using no_secret_in_interface [of "fst f" "snd f"] that
    by (simp add: field_ok_def map_of_mask option.map_ident split: option.split)
  then show ?thesis
    using assms by (simp add: well_typed_def list_all_iff)
qed

lemma well_typed_spread:
  assumes "well_typed w" "distinct (map fst b)"
    and "\<And>k t v. (k, t) \<in> set settings_interface \<Longrightarrow> map_of b k = Some v \<Longrightarrow> has_type v t"
  shows "well_typed (spread_over w b)"
proof -
  have "field_ok (spread_over w b) (k, t)" if i: "(k, t) \<in> set settings_interface" for k t
  proof (cases "map_of b k")
    case None
    with i show ?thesis
      using assms(1,2) by (simp add: well_typed_def list_all_iff field_ok_def map_of_spread_over)
        (metis fst_conv snd_conv)
  next
    case (Some v)
    then show ?thesis
      using assms(2) assms(3) [OF i Some] by (simp add: field_ok_def map_of_spread_over)
  qed
  then show ?thesis
    using assms(1) by (auto simp: well_typed_def list_all_iff distinct_spread_over)
qed

lemma defaults_checked:
  "list_all (\<lambda>(k, t). case map_of settings_defaults k of None \<Rightarrow> True | Some v \<Rightarrow> has_type v t) settings_interface"
  by (simp add: settings_defaults_def settings_interface_def)

lemma defaults_typed:
  "(k, t) \<in> set settings_interface \<Longrightarrow> map_of settings_defaults k = Some v \<Longrightarrow> has_type v t"
  using defaults_checked by (fastforce simp: list_all_iff)

text \<open>A body whose fields have their types keeps the stored settings typed, complete or not.\<close>

lemma upsert_typed:
  assumes "well_typed w" "distinct (map fst b)"
    and "\<And>k t v. (k, t) \<in> set settings_interface \<Longrightarrow> map_of b k = Some v \<Longrightarrow> has_type v t"
  shows "well_typed (upsert_settings w b)"
  unfolding upsert_settings_def
  using assms(1)
proof (rule well_typed_spread)
  show "distinct (map fst (spread_over settings_defaults b))"
    by (simp add: distinct_spread_over distinct_settings_defaults)
  show "has_type v t" if "(k, t) \<in> set settings_interface" "map_of (spread_over settings_defaults b) k = Some v" for k t v
    using that assms(2,3) by (auto simp: map_of_spread_over defaults_typed split: option.splits)
qed

lemma well_typed_field:
  "well_typed b \<Longrightarrow> (k, t) \<in> set settings_interface \<Longrightarrow> map_of b k = Some v \<Longrightarrow> has_type v t"
  by (auto simp: well_typed_def list_all_iff field_ok_def)

lemma upsert_typed_body: "well_typed w \<Longrightarrow> well_typed b \<Longrightarrow> well_typed (upsert_settings w b)"
  by (rule upsert_typed) (simp_all add: well_typed_field, simp add: well_typed_def)

lemma load_settings_result:
  "system_settings (final_state (settings_server accepts others) yes load_admin_data w s)
     \<in> {system_settings s, Some (mask_secrets w)}
   \<and> final_world (settings_server accepts others) yes load_admin_data w s = w"
  by (auto simp: load_admin_data_def refetch_def set_error_def settings_server_def receive_settings_def receive_users_def
      receive_collectors_def query_failed_def split: sum.split option.split Option.bind_split)

lemma load_typed:
  assumes "page_typed s" "well_typed w"
  shows "page_typed (final_state (settings_server accepts others) yes load_admin_data w s)"
  using load_settings_result [of accepts others yes w s] assms by (auto simp: page_typed_def well_typed_mask)

lemma save_typed:
  assumes "page_typed s" "well_typed w"
  shows "page_typed (final_state (settings_server accepts others) yes handle_save_settings w s)
    \<and> well_typed (final_world (settings_server accepts others) yes handle_save_settings w s)"
proof (cases "system_settings s")
  case None
  then show ?thesis using assms by (simp add: handle_save_settings_def)
next
  case (Some cfg)
  show ?thesis
  proof (cases "accepts cfg")
    case True
    let ?u = "upsert_settings w cfg"
    let ?s = "s\<lparr>saving_settings := True, ad_error := None, system_settings := Some (mask_secrets ?u)\<rparr>"
    have u: "well_typed ?u" using assms Some by (simp add: page_typed_def upsert_typed_body)
    then have "page_typed (final_state (settings_server accepts others) yes load_admin_data ?u ?s)"
      by (intro load_typed) (simp add: page_typed_def well_typed_mask, assumption)
    moreover have "system_settings (final_state (settings_server accepts others) yes handle_save_settings w s)
        = system_settings (final_state (settings_server accepts others) yes load_admin_data ?u ?s)"
      using True Some
      by (auto simp: handle_save_settings_def load_admin_data_def refetch_def set_error_def settings_server_def io_simps
          split: sum.split option.split Option.bind_split)
    ultimately show ?thesis
      using u by (simp add: page_typed_def save_settings_world Some True)
  next
    case False
    then show ?thesis
      using assms Some by (simp add: handle_save_settings_def set_error_def settings_server_def io_simps page_typed_def)
  qed
qed

lemma spread_fields:
  assumes "distinct (map fst b)" "map_of (spread_over a b) k = Some v"
  shows "map_of b k = Some v \<or> map_of b k = None \<and> map_of a k = Some v"
  using assms by (auto simp: map_of_spread_over split: option.splits)

lemma ai_body_outside_interface: "(k, t) \<in> set settings_interface \<Longrightarrow> map_of (ai_body s) k = None"
  by (auto simp: settings_interface_def ai_body_def Let_def)

lemma ai_save_typed:
  assumes "page_typed s" "well_typed w"
  shows "page_typed (final_state (settings_server accepts others) yes handle_save_ai_config w s)
    \<and> well_typed (final_world (settings_server accepts others) yes handle_save_ai_config w s)"
proof -
  let ?b = "spread_over (settings_of (system_settings s)) (ai_body s)"
  have d: "distinct (map fst (settings_of (system_settings s)))"
    using assms(1) by (auto simp: settings_of_def page_typed_def well_typed_def split: option.splits)
  have t: "has_type v t" if i: "(k, t) \<in> set settings_interface" and m: "map_of ?b k = Some v" for k t v
  proof -
    have "map_of (settings_of (system_settings s)) k = Some v"
      using spread_fields [OF distinct_ai_body m] ai_body_outside_interface [OF i, of s] by auto
    then show ?thesis
      using assms(1) i by (auto simp: settings_of_def page_typed_def split: option.splits dest: well_typed_field)
  qed
  have u: "well_typed (upsert_settings w ?b)"
    by (rule upsert_typed [OF assms(2)]) (auto simp: distinct_spread_over d intro: t)
  have s: "system_settings (final_state (settings_server accepts others) yes handle_save_ai_config w s) = system_settings s"
    by (simp add: handle_save_ai_config_def settings_server_def io_simps)
  show ?thesis
  proof (cases "accepts ?b")
    case True
    then show ?thesis using u s assms(1) by (simp add: save_ai_world page_typed_def)
  next
    case False
    then have "final_world (settings_server accepts others) yes handle_save_ai_config w s = w"
      by (simp add: handle_save_ai_config_def settings_server_def io_simps)
    then show ?thesis using s assms by (simp add: page_typed_def)
  qed
qed

lemma settings_step_typed:
  assumes "settings_step accepts others c c'" "page_typed (fst c)" "well_typed (snd c)"
  shows "page_typed (fst c') \<and> well_typed (snd c')"
  using assms
proof cases
  case (type_number f s w n)
  then show ?thesis using assms(2,3)
    by (auto simp: set_number_setting_def intro: page_typed_set number_field_type)
next
  case (type_text f s w t)
  then show ?thesis using assms(2,3)
    by (auto simp: set_text_setting_def intro: page_typed_set text_field_type)
next
  case (tick_auto s w b)
  then show ?thesis using assms(2,3)
    by (auto simp: set_auto_process_def intro: page_typed_set auto_field_type)
next
  case (elsewhere s' s w)
  then show ?thesis using assms(2,3) by (simp add: page_typed_def)
next
  case (load s w yes)
  then show ?thesis using assms(2,3) load_settings_result [of accepts others yes w s] by (simp add: load_typed)
next
  case (save s w yes)
  then show ?thesis using assms(2,3) save_typed by simp
next
  case (save_ai s w yes)
  then show ?thesis using assms(2,3) ai_save_typed by simp
next
  case (other_client w' s w)
  then show ?thesis using assms(2,3) by simp
qed

section \<open>The theorem\<close>

definition typed_store :: settings where
  "typed_store = [(''id'', JStr ''1''), (''evidence_storage_path'', JStr ''/vault''), (''max_file_size_gb'', JNum 10),
     (''hash_algorithm'', JStr ''sha256''), (''collection_timeout_min'', JNum 60), (''max_concurrent_jobs'', JNum 2),
     (''retry_attempts'', JNum 3), (''session_timeout_min'', JNum 30), (''max_failed_logins'', JNum 5),
     (''log_retention_days'', JNum 90), (''export_format'', JStr ''zip''), (''ez_tools_path'', JNull),
     (''chainsaw_path'', JNull), (''hayabusa_path'', JNull), (''sigma_rules_path'', JNull), (''yara_rules_path'', JNull),
     (''timesketch_url'', JNull), (''auto_process'', JBool True), (''webhook_url'', JNull), (''notification_email'', JNull),
     (''agent_binary_path'', JNull), (''ai_api_key'', JStr ''sk-1'')]"

text \<open>C18.  The settings keep their types: through any sequence of edits, loads, saves of either form and saves of other
  clients, the settings that the page shows and those that are stored have every field of the interface with its
  declared type, whatever else the server answers and accepts.
\<close>

theorem settings_stay_typed:
  assumes "(settings_step accepts others)\<^sup>*\<^sup>* (initial_admin tab b, w0) (s, w)" and "well_typed w0"
  shows "page_typed s \<and> well_typed w"
proof -
  have "page_typed (fst c) \<and> well_typed (snd c)"
    if "(settings_step accepts others)\<^sup>*\<^sup>* (initial_admin tab b, w0) c" for c
    using that
    by (induction rule: rtranclp_induct) (use assms(2) settings_step_typed in \<open>auto simp: page_typed_def initial_admin_def\<close>)
  from this [OF assms(1)] show ?thesis by simp
qed

lemma typed_store_typed: "well_typed typed_store"
  by (simp add: well_typed_def typed_store_def settings_interface_def field_ok_def)

lemma settings_stay_typed_witness:
  "well_typed (final_world (settings_server (\<lambda>_. True) admin_elsewhere) True handle_save_settings typed_store
     (final_state (settings_server (\<lambda>_. True) admin_elsewhere) True load_admin_data typed_store (initial_admin None sample_browser)))
   \<and> map_of (final_world (settings_server (\<lambda>_. True) admin_elsewhere) True handle_save_settings typed_store
     (final_state (settings_server (\<lambda>_. True) admin_elsewhere) True load_admin_data typed_store (initial_admin None sample_browser)))
     ''ai_api_key'' = Some (JStr secret_mask)"
proof -
  let ?srv = "settings_server (\<lambda>_. True) admin_elsewhere"
  let ?s0 = "initial_admin None sample_browser"
  let ?s1 = "final_state ?srv True load_admin_data typed_store ?s0"
  have w1: "final_world ?srv True load_admin_data typed_store ?s0 = typed_store"
    using load_settings_result [of "\<lambda>_. True" admin_elsewhere True typed_store ?s0] by simp
  have p1: "system_settings ?s1 = Some (mask_secrets typed_store)"
    by (simp add: loaded_settings initial_admin_def)
  have m: "distinct (map fst (mask_secrets typed_store))
      \<and> map_of (mask_secrets typed_store) ''ai_api_key'' = Some (JStr secret_mask)"
    by (simp add: map_of_mask typed_store_def secret_fields_def truthy_def)
  have "settings_step (\<lambda>_. True) admin_elsewhere (?s0, typed_store) (?s1, typed_store)"
    using settings_step.load [of "\<lambda>_. True" admin_elsewhere ?s0 typed_store True] w1 by simp
  moreover have "settings_step (\<lambda>_. True) admin_elsewhere (?s1, typed_store)
      (final_state ?srv True handle_save_settings typed_store ?s1, final_world ?srv True handle_save_settings typed_store ?s1)"
    by (rule settings_step.save)
  ultimately have "(settings_step (\<lambda>_. True) admin_elsewhere)\<^sup>*\<^sup>* (?s0, typed_store)
      (final_state ?srv True handle_save_settings typed_store ?s1, final_world ?srv True handle_save_settings typed_store ?s1)"
    by (meson converse_rtranclp_into_rtranclp rtranclp.rtrancl_refl)
  from settings_stay_typed [OF this typed_store_typed] m p1 show ?thesis
    by (simp add: save_settings_world upsert_written)
qed

end
