(* ===== verification/Tables.thy ===== *)
theory Tables
  imports TimelineUtils
begin

text \<open>
  Components that several pages share or could share: \<open>components/common/VirtualizedDataTable.tsx\<close> (a table of
  which only the rows in view are drawn), \<open>components/TimelineExplorer.tsx\<close> (a search in the timeline of one
  piece of evidence) and \<open>components/common/PageErrorBoundary.tsx\<close> with the \<open>RouteBoundary\<close> of \<open>App.tsx\<close>.
  The virtualizer, a library, is a parameter: the rows in view it reports.
\<close>

section \<open>The virtualized table\<close>

datatype col_width = WidthText string | WidthPx int

record 'c column =
  vc_id :: string
  vc_width :: "col_width option"
  vc_cell :: 'c

text \<open>\<open>c.width || "1fr"\<close>, with numbers as pixels.\<close>

definition width_text :: "col_width option \<Rightarrow> string" where
  "width_text w = (case w of None \<Rightarrow> ''1fr'' | Some (WidthText t) \<Rightarrow> if t = [] then ''1fr'' else t
     | Some (WidthPx n) \<Rightarrow> if n = 0 then ''1fr'' else int_str n @ ''px'')"

definition grid_template :: "'c column list \<Rightarrow> string" where
  "grid_template cs = join_with '' '' (map (\<lambda>c. width_text (vc_width c)) cs)"

text \<open>What the virtualizer reports of a row in view: its index, its height and its offset.\<close>

record virtual_row =
  vr_index :: nat
  vr_size :: int
  vr_start :: int

text \<open>A row as drawn: its position in the accessibility tree, whether it takes the focus, its class, style and cells.\<close>

record 'v drawn_row =
  dr_aria :: nat
  dr_focusable :: bool
  dr_class :: "string list"
  dr_style :: "string \<times> string \<times> string"
  dr_cells :: "(string \<times> 'v) list"

record ('a, 's, 'v) row_props =
  rp_item :: 'a
  rp_index :: nat
  rp_columns :: "('a \<Rightarrow> nat \<Rightarrow> 'v) column list"
  rp_grid :: string
  rp_click :: "('a \<Rightarrow> nat \<Rightarrow> 's \<Rightarrow> 's) option"
  rp_row_class :: "('a \<Rightarrow> nat \<Rightarrow> string) option"
  rp_size :: int
  rp_start :: int

definition extra_class :: "('a, 's, 'v) row_props \<Rightarrow> string option" where
  "extra_class p = map_option (\<lambda>f. f (rp_item p) (rp_index p)) (rp_row_class p)"

definition draw_row :: "('a, 's, 'v) row_props \<Rightarrow> 'v drawn_row" where
  "draw_row p = \<lparr>dr_aria = rp_index p + 2, dr_focusable = (rp_click p \<noteq> None),
     dr_class = (if rp_click p \<noteq> None then [''cursor-pointer hover:bg-secondary/40''] else [])
       @ (case extra_class p of Some c \<Rightarrow> [c] | None \<Rightarrow> []),
     dr_style = (int_str (rp_size p) @ ''px'', ''translateY('' @ int_str (rp_start p) @ ''px)'', rp_grid p),
     dr_cells = map (\<lambda>c. (vc_id c, vc_cell c (rp_item p) (rp_index p))) (rp_columns p)\<rparr>"

text \<open>The comparison that lets a row keep what it drew: identical props, the class compared by its value.\<close>

definition same_row :: "('a, 's, 'v) row_props \<Rightarrow> ('a, 's, 'v) row_props \<Rightarrow> bool" where
  "same_row p q \<longleftrightarrow> rp_item p = rp_item q \<and> rp_index p = rp_index q \<and> rp_columns p = rp_columns q
     \<and> rp_grid p = rp_grid q \<and> rp_size p = rp_size q \<and> rp_start p = rp_start q \<and> rp_click p = rp_click q
     \<and> extra_class p = extra_class q"

text \<open>\<open>React.memo\<close>: what a row shows after it was drawn with \<open>p\<close> and rendered again with \<open>q\<close>.\<close>

definition memo_row :: "('a, 's, 'v) row_props \<Rightarrow> ('a, 's, 'v) row_props \<Rightarrow> 'v drawn_row" where
  "memo_row p q = (if same_row p q then draw_row p else draw_row q)"

text \<open>A key on a row: a click for Enter and blank on the row itself, which then does not scroll; a key in one of
  its cells is left alone.\<close>

definition row_clicked :: "('a, 's, 'v) row_props \<Rightarrow> 's \<Rightarrow> 's" where
  "row_clicked p = (case rp_click p of Some f \<Rightarrow> f (rp_item p) (rp_index p) | None \<Rightarrow> (\<lambda>s. s))"

definition row_key :: "('a, 's, 'v) row_props \<Rightarrow> string \<Rightarrow> bool \<Rightarrow> 's \<Rightarrow> 's \<times> bool" where
  "row_key p k on_row s = (if rp_click p \<noteq> None \<and> on_row \<and> (k = ''Enter'' \<or> k = '' '') then (row_clicked p s, True) else (s, False))"

datatype 'v table_view =
    TableFailed
  | TableLoading
  | TableEmpty string
  | TableRows "nat \<times> nat" "string list" "'v drawn_row list"

definition table_view :: "'a list \<Rightarrow> ('a \<Rightarrow> nat \<Rightarrow> 'v) column list \<Rightarrow> bool \<Rightarrow> bool \<Rightarrow> string
    \<Rightarrow> ('a \<Rightarrow> nat \<Rightarrow> 's \<Rightarrow> 's) option \<Rightarrow> ('a \<Rightarrow> nat \<Rightarrow> string) option \<Rightarrow> virtual_row list \<Rightarrow> 'v table_view" where
  "table_view data cs loading failed no_data click row_class in_view =
     (if failed then TableFailed
      else if loading \<and> data = [] then TableLoading
      else if data = [] then TableEmpty no_data
      else TableRows (length data + 1, length cs) (map vc_id cs)
        (map (\<lambda>v. draw_row \<lparr>rp_item = data ! vr_index v, rp_index = vr_index v, rp_columns = cs, rp_grid = grid_template cs,
            rp_click = click, rp_row_class = row_class, rp_size = vr_size v, rp_start = vr_start v\<rparr>) in_view))"

text \<open>The virtualizer reports rows of the data only, in their order, for its count and row height.\<close>

definition virtualizes :: "nat \<Rightarrow> int \<Rightarrow> virtual_row list \<Rightarrow> bool" where
  "virtualizes n h vs \<longleftrightarrow> sorted_wrt (<) (map vr_index vs)
     \<and> list_all (\<lambda>v. vr_index v < n \<and> vr_size v = h \<and> vr_start v = int (vr_index v) * h) vs"

section \<open>The explorer of one timeline\<close>

record explorer_data =
  ed_rows :: "event_row list"
  ed_total :: nat

record explorer =
  ex_input :: string
  ex_query :: string
  ex_page :: int

definition open_explorer :: explorer where
  "open_explorer = \<lparr>ex_input = [], ex_query = [], ex_page = 1\<rparr>"

definition type_query :: "string \<Rightarrow> explorer \<Rightarrow> explorer" where
  "type_query t s = s\<lparr>ex_input := t\<rparr>"

definition submit_query :: "explorer \<Rightarrow> explorer" where
  "submit_query s = s\<lparr>ex_query := ex_input s, ex_page := 1\<rparr>"

text \<open>The quick hunts: the label of the button and the text it searches.\<close>

definition quick_hunts :: "(string \<times> string) list" where
  "quick_hunts = [(''mimikatz'', ''mimikatz''), (''suspicious_powershell'', ''suspicious_powershell''), (''whoami /all'', ''whoami'')]"

definition quick_hunt :: "string \<Rightarrow> explorer \<Rightarrow> explorer" where
  "quick_hunt t s = s\<lparr>ex_input := t, ex_query := t, ex_page := 1\<rparr>"

definition explorer_limit :: nat where
  "explorer_limit = 100"

definition explorer_path :: "(string \<Rightarrow> string) \<Rightarrow> string \<Rightarrow> explorer \<Rightarrow> string" where
  "explorer_path enc evidence s = ''/evidence/timeline/'' @ evidence @ ''?page='' @ int_str (ex_page s)
     @ ''&limit='' @ nat_str explorer_limit @ ''&q='' @ enc (ex_query s)"

definition explorer_pages :: "explorer_data option \<Rightarrow> nat" where
  "explorer_pages d = (case d of Some x \<Rightarrow> (ed_total x + explorer_limit - 1) div explorer_limit | None \<Rightarrow> 0)"

definition explorer_columns :: "explorer_data option \<Rightarrow> string list" where
  "explorer_columns d = (case d of
      Some x \<Rightarrow> (case ed_rows x of
          row # _ \<Rightarrow> take 6 (filter (\<lambda>k. \<not> starts_with ''_'' k) (map fst row))
        | [] \<Rightarrow> [''datetime'', ''source'', ''computer'', ''message'', ''event_id''])
    | None \<Rightarrow> [''datetime'', ''source'', ''computer'', ''message'', ''event_id''])"

text \<open>The two page buttons: whether they are offered, and the page they lead to.\<close>

definition explorer_prev :: "bool \<Rightarrow> explorer \<Rightarrow> explorer option" where
  "explorer_prev loading s = (if ex_page s = 1 \<or> loading then None else Some (s\<lparr>ex_page := max 1 (ex_page s - 1)\<rparr>))"

definition explorer_next :: "bool \<Rightarrow> explorer_data option \<Rightarrow> explorer \<Rightarrow> explorer option" where
  "explorer_next loading d s = (let n = int (explorer_pages d) in
     if ex_page s = n \<or> n = 0 \<or> loading then None else Some (s\<lparr>ex_page := min n (ex_page s + 1)\<rparr>))"

definition page_label :: "explorer_data option \<Rightarrow> explorer \<Rightarrow> string" where
  "page_label d s = ''PAGE '' @ int_str (ex_page s) @ '' OF '' @ nat_str (if explorer_pages d = 0 then 1 else explorer_pages d)"

text \<open>A cell: a text of more than a hundred characters is cut; a missing one is a dash, but for the time.\<close>

definition explorer_cell :: "event_row \<Rightarrow> string \<Rightarrow> string" where
  "explorer_cell row col = (case row_get row col of
      Some (JStr t) \<Rightarrow> let v = (if 100 < length t then take 100 t @ ''...'' else t)
        in if v = [] \<and> col \<noteq> ''datetime'' then ''-'' else v
    | _ \<Rightarrow> if col = ''datetime'' then [] else ''-'')"

definition explorer_alert :: "event_row \<Rightarrow> bool" where
  "explorer_alert row \<longleftrightarrow> truthy (row_get row ''rule_title'') \<or> truthy (row_get row ''sigma_level'')"

datatype explorer_view =
    QueryFailed string
  | Searching
  | NothingFound
  | Found "string list" "(bool \<times> string list) list"

definition explorer_view :: "string option \<Rightarrow> bool \<Rightarrow> explorer_data option \<Rightarrow> explorer_view" where
  "explorer_view failure loading d = (case failure of Some m \<Rightarrow> QueryFailed (''ERROR EXECUTING QUERY: '' @ m)
     | None \<Rightarrow> if loading then Searching
        else case d of None \<Rightarrow> NothingFound
          | Some x \<Rightarrow> if ed_rows x = [] then NothingFound
              else Found (explorer_columns d)
                (map (\<lambda>row. (explorer_alert row, map (explorer_cell row) (explorer_columns d))) (ed_rows x)))"

section \<open>The error boundary\<close>

text \<open>The boundary keeps the error its page threw while it was drawn.\<close>

record boundary =
  has_error :: bool
  caught :: "jserr option"

definition fresh_boundary :: boundary where
  "fresh_boundary = \<lparr>has_error = False, caught = None\<rparr>"

definition derived_state :: "jserr \<Rightarrow> boundary" where
  "derived_state e = \<lparr>has_error = True, caught = Some e\<rparr>"

definition handle_reset :: "boundary \<Rightarrow> boundary" where
  "handle_reset b = fresh_boundary"

datatype 'v boundary_view = PageShown 'v | Fallback 'v | CrashScreen "jserr option"

definition crash_view :: "'v option \<Rightarrow> boundary \<Rightarrow> 'v boundary_view" where
  "crash_view fallback b = (case fallback of Some v \<Rightarrow> Fallback v | None \<Rightarrow> CrashScreen (caught b))"

text \<open>Drawing the page \<open>draw\<close>, which may throw.\<close>

definition render_boundary :: "'v option \<Rightarrow> jserr + 'v \<Rightarrow> boundary \<Rightarrow> boundary \<times> 'v boundary_view" where
  "render_boundary fallback draw b = (if has_error b then (b, crash_view fallback b)
     else case draw of Inl e \<Rightarrow> (derived_state e, crash_view fallback (derived_state e)) | Inr v \<Rightarrow> (b, PageShown v))"

definition crash_text :: "(jserr \<Rightarrow> string) \<Rightarrow> jserr option \<Rightarrow> string" where
  "crash_text name e = (case e of Some x \<Rightarrow> name x @ '': '' @ message_or ''undefined'' x | None \<Rightarrow> ''undefined: undefined'')"

text \<open>\<open>RouteBoundary\<close>: another path mounts another boundary, the same path (another query, say) keeps it.\<close>

record route_boundary =
  rb_path :: string
  rb_boundary :: boundary

definition navigate_boundary :: "string \<Rightarrow> route_boundary \<Rightarrow> route_boundary" where
  "navigate_boundary path r = (if path = rb_path r then r else \<lparr>rb_path = path, rb_boundary = fresh_boundary\<rparr>)"

definition render_route_boundary :: "(string \<Rightarrow> jserr + 'v) \<Rightarrow> route_boundary \<Rightarrow> route_boundary \<times> 'v boundary_view" where
  "render_route_boundary draw r =
     (case render_boundary None (draw (rb_path r)) (rb_boundary r) of (b, v) \<Rightarrow> (r\<lparr>rb_boundary := b\<rparr>, v))"

section \<open>Properties\<close>

text \<open>Keeping what a row drew is never visible: when the comparison lets a row skip a new drawing, the new drawing
  would have been the same, although the function that gives the row's class may be another one.\<close>

theorem memo_is_sound: "memo_row p q = draw_row q"
  by (simp add: memo_row_def same_row_def draw_row_def)

lemma in_view:
  assumes "virtualizes n h vs" and "i < length vs"
  shows "vr_index (vs ! i) < n" "vr_size (vs ! i) = h" "vr_start (vs ! i) = int (vr_index (vs ! i)) * h"
    "\<And>j. i < j \<Longrightarrow> j < length vs \<Longrightarrow> vr_index (vs ! i) < vr_index (vs ! j)"
  using assms by (auto simp: virtualizes_def list_all_length sorted_wrt_iff_nth_less)

text \<open>How a browser reads the style of a row: a length in pixels, and a translation by one.\<close>

definition read_px :: "string \<Rightarrow> nat option" where
  "read_px t = (let ds = takeWhile is_digit t
     in if ds \<noteq> [] \<and> drop (length ds) t = ''px'' then Some (digits_value ds) else None)"

definition read_translate :: "string \<Rightarrow> nat option" where
  "read_translate t = (if starts_with ''translateY('' t \<and> last t = CHR '')'' then read_px (butlast (drop 11 t)) else None)"

definition drawn_height :: "'v drawn_row \<Rightarrow> nat option" where
  "drawn_height r = read_px (fst (dr_style r))"

definition drawn_top :: "'v drawn_row \<Rightarrow> nat option" where
  "drawn_top r = read_translate (fst (snd (dr_style r)))"

lemma read_px_nat: "read_px (nat_str n @ ''px'') = Some n"
proof -
  have "takeWhile is_digit (nat_str n @ ''px'') = nat_str n"
    using takeWhile_digits [of "''px''" n] by (simp add: number_end_def is_digit_def)
  then show ?thesis by (simp add: read_px_def digits_value_nat_str)
qed

lemma read_translate_nat: "read_translate (''translateY('' @ nat_str n @ ''px)'') = Some n"
  using read_px_nat [of n] by (simp add: read_translate_def starts_with_def butlast_append)

lemma drawn_where:
  "0 \<le> rp_size p \<Longrightarrow> drawn_height (draw_row p) = Some (nat (rp_size p))"
  "0 \<le> rp_start p \<Longrightarrow> drawn_top (draw_row p) = Some (nat (rp_start p))"
  using read_px_nat read_translate_nat
  by (simp_all add: draw_row_def drawn_height_def drawn_top_def int_str_def)

text \<open>C39. The rows in view are those of the data: for a virtualizer that keeps its contract, every row drawn shows
  the datum at its index in every column and is announced by the number of that datum after the heading; and where its
  style puts it, it is as high as a row, stands at the place of that datum within the height of all rows, and ends before
  the next row drawn begins.\<close>

theorem window_shows_data:
  fixes h :: nat
  assumes "virtualizes (length data) (int h) vs" and "i < length vs"
    and "table_view data cs loading False no_data click row_class vs = TableRows counts heads rows"
  shows "length rows = length vs \<and> fst counts = length data + 1
    \<and> dr_cells (rows ! i) = map (\<lambda>c. (vc_id c, vc_cell c (data ! vr_index (vs ! i)) (vr_index (vs ! i)))) cs
    \<and> dr_aria (rows ! i) = vr_index (vs ! i) + 2 \<and> dr_aria (rows ! i) \<le> fst counts
    \<and> drawn_height (rows ! i) = Some h
    \<and> (\<exists>y0. drawn_top (rows ! i) = Some y0 \<and> y0 = vr_index (vs ! i) * h \<and> y0 + h \<le> length data * h
        \<and> (Suc i < length rows \<longrightarrow> (\<exists>y1. drawn_top (rows ! Suc i) = Some y1 \<and> y0 + h \<le> y1)))"
proof -
  have rows: "counts = (length data + 1, length cs)" "rows = map (\<lambda>v. draw_row \<lparr>rp_item = data ! vr_index v, rp_index = vr_index v,
      rp_columns = cs, rp_grid = grid_template cs, rp_click = click, rp_row_class = row_class, rp_size = vr_size v, rp_start = vr_start v\<rparr>) vs"
    using assms(3) by (auto simp: table_view_def split: if_splits)
  note v = in_view [OF assms(1)]
  have place: "drawn_height (rows ! j) = Some h" "drawn_top (rows ! j) = Some (vr_index (vs ! j) * h)" if "j < length vs" for j
    using v(2,3) [OF that] that by (simp_all add: rows drawn_where nat_mult_distrib)
  have step: "a * h + h \<le> b * h" if "a < b" for a b :: nat
    using mult_le_mono1 [of "Suc a" b h] that by simp
  have "vr_index (vs ! i) * h + h \<le> vr_index (vs ! Suc i) * h" if "Suc i < length vs"
    using step [OF v(4) [OF assms(2), of "Suc i"]] that by simp
  then show ?thesis
    using assms(2) v(1) [OF assms(2)] step [OF v(1) [OF assms(2)]] place [OF assms(2)] place [of "Suc i"]
    by (simp add: rows draw_row_def [of "_"])
qed

theorem window_shows_data_witness:
  "\<exists>counts heads rows. table_view [10, 20, 30] [\<lparr>vc_id = ''n'', vc_width = None, vc_cell = (\<lambda>x i. x + int i)\<rparr>] False False []
      (None :: (int \<Rightarrow> nat \<Rightarrow> unit \<Rightarrow> unit) option) None
      [\<lparr>vr_index = 1, vr_size = 40, vr_start = 40\<rparr>, \<lparr>vr_index = 2, vr_size = 40, vr_start = 80\<rparr>] = TableRows counts heads rows
    \<and> dr_cells (rows ! 1) = [(''n'', 32)] \<and> dr_aria (rows ! 1) = 4 \<and> drawn_top (rows ! 1) = Some 80"
proof -
  let ?vs = "[\<lparr>vr_index = 1, vr_size = 40, vr_start = 40\<rparr>, \<lparr>vr_index = 2, vr_size = 40, vr_start = 80\<rparr>]"
  let ?cs = "[\<lparr>vc_id = ''n'', vc_width = None, vc_cell = (\<lambda>x i. x + int i)\<rparr>]"
  have v: "virtualizes (length [10, 20, 30::int]) (int 40) ?vs" by (simp add: virtualizes_def)
  obtain counts heads rows where r: "table_view [10, 20, 30] ?cs False False [] (None :: (int \<Rightarrow> nat \<Rightarrow> unit \<Rightarrow> unit) option) None ?vs
      = TableRows counts heads rows"
    by (simp add: table_view_def)
  have "dr_cells (rows ! 1) = [(''n'', 32)] \<and> dr_aria (rows ! 1) = 4 \<and> drawn_top (rows ! 1) = Some 80"
    using window_shows_data [OF v _ r, of 1] by simp
  with r show ?thesis by blast
qed

text \<open>What happens on the explorer page; the data and whether they are loading may change in between.\<close>

inductive explorer_step :: "explorer \<Rightarrow> explorer \<Rightarrow> bool" where
  types: "explorer_step s (type_query t s)"
| submits: "explorer_step s (submit_query s)"
| hunts: "h \<in> set quick_hunts \<Longrightarrow> explorer_step s (quick_hunt (snd h) s)"
| goes_back: "explorer_prev loading s = Some t \<Longrightarrow> explorer_step s t"
| goes_on: "explorer_next loading d s = Some t \<Longrightarrow> explorer_step s t"

text \<open>The explorer never asks for a page before the first, whatever results arrive between the clicks.\<close>

lemma explorer_page_positive: "explorer_step\<^sup>*\<^sup>* open_explorer s \<Longrightarrow> 1 \<le> ex_page s"
  by (induction rule: rtranclp_induct)
    (auto simp: open_explorer_def type_query_def submit_query_def quick_hunt_def explorer_prev_def explorer_next_def Let_def
      elim!: explorer_step.cases split: if_splits)

text \<open>When the results have become fewer than the page, NEXT leads back.\<close>

lemma next_may_go_back:
  assumes "int (explorer_pages d) < ex_page s" and "0 < explorer_pages d"
  shows "explorer_next False d s = Some (s\<lparr>ex_page := int (explorer_pages d)\<rparr>)"
  using assms by (simp add: explorer_next_def Let_def)

text \<open>A page that crashed stays crashed as long as its path does: HOT RELOAD draws it again and meets the same
  error, and following a link to the same path with other parameters keeps the crash screen although the page
  could be drawn by then; any other path is drawn anew.\<close>

theorem crash_bound_to_path:
  assumes "\<not> has_error (rb_boundary r)" and "draw (rb_path r) = Inl e"
  shows "let crashed = fst (render_route_boundary draw r) in
    snd (render_route_boundary draw r) = CrashScreen (Some e)
    \<and> snd (render_route_boundary draw (crashed\<lparr>rb_boundary := handle_reset (rb_boundary crashed)\<rparr>)) = CrashScreen (Some e)
    \<and> snd (render_route_boundary later (navigate_boundary (rb_path r) crashed)) = CrashScreen (Some e)
    \<and> (path \<noteq> rb_path r \<longrightarrow> snd (render_route_boundary later (navigate_boundary path crashed))
        = (case later path of Inr v \<Rightarrow> PageShown v | Inl e' \<Rightarrow> CrashScreen (Some e')))"
  using assms
  by (simp add: render_route_boundary_def render_boundary_def derived_state_def crash_view_def handle_reset_def
      fresh_boundary_def navigate_boundary_def Let_def split: sum.split)

theorem crash_bound_to_path_witness:
  "snd (render_route_boundary (\<lambda>_. Inr (0::nat)) (navigate_boundary ''/threat-intel''
     (fst (render_route_boundary (\<lambda>p. if p = ''/threat-intel'' then Inl type_error else Inr (0::nat))
       \<lparr>rb_path = ''/threat-intel'', rb_boundary = fresh_boundary\<rparr>)))) = CrashScreen (Some type_error)"
  using crash_bound_to_path [of "\<lparr>rb_path = ''/threat-intel'', rb_boundary = fresh_boundary\<rparr>"
      "\<lambda>p. if p = ''/threat-intel'' then Inl type_error else Inr (0::nat)" type_error "\<lambda>_. Inr (0::nat)"]
  by (simp add: Let_def fresh_boundary_def)

end
