(* ===== verification/TimelineViews.thy ===== *)
theory TimelineViews
  imports TimelinePanels
begin

text \<open>
  \<open>SuperTimelineFilters.tsx\<close> and the frame of \<open>pages/SuperTimeline.tsx\<close>: the bar of filters with the controls it
  offers, the notices above it, the switch between the views and what the main area shows.  \<open>local_number\<close> is
  \<open>toLocaleString\<close> of a number.
\<close>

section \<open>The bar of filters\<close>

record filter_bar =
  fb_search :: string
  fb_clear :: bool
  fb_dates :: "string \<times> string"
  fb_date_button :: "(string \<times> string) option"
  fb_reset :: bool
  fb_quick :: "(string \<times> string) list"
  fb_all_hosts :: "(string \<times> string) option"
  fb_hosts :: "(string \<times> string option) list"

definition quick_class :: "super_timeline \<Rightarrow> quick_filter \<Rightarrow> string" where
  "quick_class s qf = (if quick s = Some (qf_id qf)
     then ''border-warning bg-warning/15 text-warning shadow-[0_0_8px_rgba(245,158,11,0.2)]''
     else ''border-border/40 text-muted-foreground hover:border-border/80 hover:text-foreground'')"

definition date_button_class :: "super_timeline \<Rightarrow> string" where
  "date_button_class s = (if date_active s then ''bg-primary text-primary-foreground''
     else ''bg-secondary text-muted-foreground hover:text-foreground'')"

definition filter_bar_of :: "super_timeline \<Rightarrow> filter_bar" where
  "filter_bar_of s = \<lparr>fb_search = search_input s, fb_clear = (search_input s \<noteq> []), fb_dates = (date_from s, date_to s),
     fb_date_button = map_option (\<lambda>(l, t). (l, date_button_class s)) (date_button s),
     fb_reset = (0 < active_filter_count s),
     fb_quick = map (\<lambda>q. (qf_label q, quick_class s q)) quick_filters,
     fb_all_hosts = (if 0 < length (known_hosts s) then Some (''ALL ('' @ nat_str (length (known_hosts s)) @ '')'',
        if all_hosts s then ''border-primary bg-primary/10 text-primary''
        else ''border-border/40 text-muted-foreground hover:border-border'') else None),
     fb_hosts = map (\<lambda>h. (h, host_chip s (known_hosts s) h)) (known_hosts s)\<rparr>"

definition query_help :: "(string \<times> string) list" where
  "query_help = [(''host:DC01'', ''filter by hostname''), (''source:EVTX'', ''filter by source type''),
     (''user:admin'', ''filter by username''), (''eid:4624'', ''filter by event ID''),
     (''rule:mimikatz'', ''filter by Sigma rule''), (''user:*admin*'', ''wildcard match''),
     ([CHR 0x22] @ ''lateral movement'' @ [CHR 0x22], ''exact phrase''), (''-source:SIGMA'', ''exclude (NOT)''),
     (''host:DC01 eid:4624'', ''implicit AND'')]"

text \<open>
  What the bar lets an analyst do.  The component also takes the known and the active sources and their toggles, and
  defines a chip for a source, but draws none.
\<close>

datatype bar_event =
    TypeSearch string | SetFrom string | SetTo string | DateButton | PressQuick quick_filter
  | PressHost string | PressAllHosts | ResetAll | SearchSettles

fun bar_step :: "bar_event \<Rightarrow> super_timeline \<Rightarrow> super_timeline" where
  "bar_step (TypeSearch q) s = s\<lparr>search_input := q\<rparr>"
| "bar_step (SetFrom d) s = s\<lparr>date_from := d\<rparr>"
| "bar_step (SetTo d) s = s\<lparr>date_to := d\<rparr>"
| "bar_step DateButton s = (case date_button s of Some (l, t) \<Rightarrow> t | None \<Rightarrow> s)"
| "bar_step (PressQuick q) s = (if q \<in> set quick_filters then apply_quick_filter q s else s)"
| "bar_step (PressHost h) s = (if h \<in> set (known_hosts s) then toggle_host h s else s)"
| "bar_step PressAllHosts s = (if 0 < length (known_hosts s) then show_all_hosts s else s)"
| "bar_step ResetAll s = (if fb_reset (filter_bar_of s) then clear_all s else s)"
| "bar_step SearchSettles s = debounce_fires s"

section \<open>The frame of the page\<close>

definition header_counts :: "(nat \<Rightarrow> string) \<Rightarrow> snapshot_status option \<Rightarrow> (string \<times> string) list" where
  "header_counts local_number st = (case st of
      Some d \<Rightarrow> (if ss_status d = ''DONE'' then [(''Hosts'', nat_str (the_or (ss_hosts d))),
        (''Total Events'', case ss_events d of Some n \<Rightarrow> local_number n | None \<Rightarrow> ''0'')] else [])
    | None \<Rightarrow> [])"

definition overlay_building :: "snapshot_status option \<Rightarrow> super_timeline \<Rightarrow> bool" where
  "overlay_building st s \<longleftrightarrow> is_building s \<or> map_option ss_status st \<in> {Some ''BUILDING'', Some ''PENDING''}"

text \<open>The notice above the bar, if there is one, with its REBUILD button: its text and whether the button works.\<close>

definition partial_count :: "snapshot_status \<Rightarrow> nat" where
  "partial_count d = the_or (ss_partial d)"

definition snapshot_notice :: "snapshot_status \<Rightarrow> super_timeline \<Rightarrow> (string \<times> bool) option" where
  "snapshot_notice d s = (let e = or_text (build_error s) [] in
     if ss_stale d \<or> partial_count d \<noteq> 0 \<or> e \<noteq> []
     then Some ((if e \<noteq> [] then e
         else (if ss_stale d then ''New processing results are available; rebuild this snapshot. '' else []) @
           (if partial_count d \<noteq> 0 then nat_str (partial_count d) @ '' job(s) have incomplete processing coverage.'' else [])),
       \<not> is_building s)
     else None)"

definition annotation_status :: "super_timeline \<Rightarrow> string" where
  "annotation_status s = (if annotations_failed s then ''ANNOTATIONS UNAVAILABLE '' @ em_dash @ '' CHANGES WILL NOT BE SAVED''
     else if annotations_loading s then ''LOADING SHARED ANNOTATIONS'' @ ellipsis
     else ''ANNOTATIONS SAVED TO INCIDENT '' @ [CHR 0xC2, CHR 0xB7] @ '' SHARED WITH INVESTIGATORS'')"

definition import_offered :: "super_timeline \<Rightarrow> bool" where
  "import_offered s \<longleftrightarrow> \<not> annotations_loading s \<and> \<not> annotations_failed s"

definition set_view :: "bool \<Rightarrow> super_timeline \<Rightarrow> super_timeline" where
  "set_view story s = s\<lparr>narrative := story\<rparr>"

definition view_buttons :: "super_timeline \<Rightarrow> (string \<times> bool) list" where
  "view_buttons s = [(''TABLE VIEW'', \<not> narrative s), (''NARRATIVE VIEW'', narrative s)]"

definition toggle_graph :: "super_timeline \<Rightarrow> super_timeline" where
  "toggle_graph s = s\<lparr>hide_graph := \<not> hide_graph s\<rparr>"

definition graph_button :: "nat \<Rightarrow> super_timeline \<Rightarrow> string option" where
  "graph_button detections s = (if 0 < detections then Some (if hide_graph s then ''SHOW GRAPH'' else ''HIDE GRAPH'') else None)"

definition graph_shown :: "nat \<Rightarrow> super_timeline \<Rightarrow> bool" where
  "graph_shown detections s \<longleftrightarrow> 0 < detections \<and> \<not> hide_graph s"

definition main_margin :: "super_timeline \<Rightarrow> string" where
  "main_margin s = (if compare_events s \<noteq> None then ''mr-[400px]''
     else if selected_event s \<noteq> None then (if detail_collapsed s then ''mr-12'' else ''mr-[500px]'') else ''mr-0'')"

definition chart_shown :: "super_timeline \<Rightarrow> bool" where
  "chart_shown s \<longleftrightarrow> \<not> show_bookmarks s \<and> \<not> narrative s \<and> timeline_data s \<noteq> None"

datatype main_area = Story "bookmark list" | TableOf "nat list" nat

definition main_area_of :: "super_timeline \<Rightarrow> main_area" where
  "main_area_of s = (if narrative s then Story (bookmarks s)
     else TableOf (if show_bookmarks s then [] else (case timeline_data s of Some d \<Rightarrow> map fst (tl_rows d) | None \<Rightarrow> []))
       (case timeline_data s of Some d \<Rightarrow> tl_total d | None \<Rightarrow> 0))"

section \<open>Lemmas\<close>

text \<open>The part of the query that the source facet makes.\<close>

definition source_params :: "super_timeline \<Rightarrow> (string \<times> string) list" where
  "source_params s = filter (\<lambda>(k, v). k = ''source'') (filter_params s)"

fun touches_sources :: "bar_event \<Rightarrow> bool" where
  "touches_sources (PressQuick q) = True" | "touches_sources ResetAll = True" | "touches_sources e = False"

lemma bar_keeps_sources:
  "\<not> touches_sources e \<Longrightarrow> all_sources (bar_step e s) = all_sources s \<and> active_sources (bar_step e s) = active_sources s"
  by (cases e) (auto simp: date_button_def clear_date_filter_def apply_date_filter_def toggle_host_def Let_def
      show_all_hosts_def debounce_fires_def)

lemma bar_keeps_all_sources:
  "list_all (\<lambda>e. \<not> touches_sources e) es \<Longrightarrow>
   all_sources (fold bar_step es s) = all_sources s \<and> active_sources (fold bar_step es s) = active_sources s"
  by (induction es arbitrary: s) (auto simp: bar_keeps_sources)

lemma source_params_of:
  "source_params s = (if \<not> all_sources s \<and> 0 < length (active_sources s)
     then [(''source'', join_with '','' (active_sources s))] else [])"
  by (simp add: source_params_def filter_params_def)

text \<open>What is shown of the sources: nothing of the bar depends on them but the quick filters and RESET ALL.\<close>

lemma bar_blind_to_sources:
  "filter_bar_of (s\<lparr>all_sources := a, active_sources := xs\<rparr>)
     = (filter_bar_of s)\<lparr>fb_reset := 0 < active_filter_count (s\<lparr>all_sources := a, active_sources := xs\<rparr>)\<rparr>"
  by (simp add: filter_bar_of_def quick_class_def date_button_class_def date_button_def known_hosts_def host_chip_def
      clear_date_filter_def apply_date_filter_def option.map_comp comp_def split: option.split)

section \<open>Theorems\<close>

text \<open>A filter on the sources is not shown and not offered: once a quick filter has set one, whatever is typed, dated or
  picked in the bar afterwards keeps it in every query, and the bar draws the same as without it, but for RESET ALL.
\<close>

theorem source_filter_sticks:
  assumes "qf \<in> set quick_filters" and "qf_sources qf = Some srcs" and "quick s \<noteq> Some (qf_id qf)" and "srcs \<noteq> []"
    and "list_all (\<lambda>e. \<not> touches_sources e) es" and "s' = fold bar_step es (apply_quick_filter qf s)"
  shows "source_params s' = [(''source'', join_with '','' (new_set srcs))]
    \<and> (filter_bar_of s')\<lparr>fb_reset := r\<rparr> = (filter_bar_of (s'\<lparr>all_sources := True, active_sources := []\<rparr>))\<lparr>fb_reset := r\<rparr>"
proof -
  let ?q = "apply_quick_filter qf s"
  have q: "all_sources ?q = False" "active_sources ?q = new_set srcs"
    using assms(2,3) by (auto simp: apply_quick_filter_def Let_def split: option.split)
  have "set (new_set srcs) = set srcs" by simp
  with assms(4) have "new_set srcs \<noteq> []" by (metis set_empty)
  then have "source_params s' = [(''source'', join_with '','' (new_set srcs))]"
    using bar_keeps_all_sources [OF assms(5), of ?q] q assms(6) by (simp add: source_params_of)
  moreover have "filter_bar_of (s'\<lparr>all_sources := True, active_sources := []\<rparr>)
      = (filter_bar_of s')\<lparr>fb_reset := 0 < active_filter_count (s'\<lparr>all_sources := True, active_sources := []\<rparr>)\<rparr>"
    by (rule bar_blind_to_sources)
  ultimately show ?thesis by simp
qed

definition fresh_timeline :: super_timeline where
  "fresh_timeline = initial_timeline [] [] [] None"

lemma source_filter_sticks_witness:
  "source_params (fold bar_step [TypeSearch ''logon'', SearchSettles] (apply_quick_filter (quick_filters ! 0) fresh_timeline))
     = [(''source'', ''SIGMA,HAYABUSA'')]"
proof -
  have s: "qf_sources (quick_filters ! 0) = Some [''SIGMA'', ''HAYABUSA'']" and m: "quick_filters ! 0 \<in> set quick_filters"
    by (simp_all add: quick_filters_def)
  have q: "quick fresh_timeline \<noteq> Some (qf_id (quick_filters ! 0))" by (simp add: fresh_timeline_def initial_timeline_def)
  have j: "join_with '','' (new_set [''SIGMA'', ''HAYABUSA'']) = ''SIGMA,HAYABUSA''" by (simp add: new_set_def set_add_def)
  show ?thesis
    using source_filter_sticks [OF m s q, of "[TypeSearch ''logon'', SearchSettles]", OF _ _ refl] by (simp add: j)
qed

text \<open>A quick filter stays lit while the search is typed over, and pressing it again, to turn it off, erases the search
  that was typed since.\<close>

theorem quick_filter_erases_search:
  assumes "qf \<in> set quick_filters" and "quick s \<noteq> Some (qf_id qf)"
  shows "let s1 = fold bar_step [PressQuick qf, TypeSearch typed] s; s2 = bar_step (PressQuick qf) s1
    in quick_class s1 qf = quick_class (apply_quick_filter qf s) qf \<and> fb_search (filter_bar_of s1) = typed
       \<and> fb_search (filter_bar_of s2) = [] \<and> quick s2 = None"
  using assms by (auto simp: Let_def quick_class_def filter_bar_of_def apply_quick_filter_def split: option.split)

lemma quick_filter_erases_search_witness:
  "fb_search (filter_bar_of (bar_step (PressQuick (quick_filters ! 1))
     (fold bar_step [PressQuick (quick_filters ! 1), TypeSearch ''host:DC01''] fresh_timeline))) = []"
proof -
  have "quick_filters ! 1 \<in> set quick_filters" "quick fresh_timeline \<noteq> Some (qf_id (quick_filters ! 1))"
    by (simp_all add: quick_filters_def fresh_timeline_def initial_timeline_def)
  from quick_filter_erases_search [OF this, of "''host:DC01''"] show ?thesis by (simp add: Let_def)
qed

text \<open>An applied date filter whose two dates are emptied can no longer be turned off by its own button, which is only
  there beside a date; it still counts as a filter although the query has no date, and a date entered later is
  applied at once.\<close>

theorem emptied_dates_stay_applied:
  assumes "date_active s" and "s' = fold bar_step [SetFrom [], SetTo []] s"
  shows "fb_date_button (filter_bar_of s') = None \<and> 0 < active_filter_count s'
    \<and> map_of (timeline_params s') ''date_from'' = None \<and> map_of (timeline_params s') ''date_to'' = None
    \<and> (d \<noteq> [] \<longrightarrow> map_of (timeline_params (bar_step (SetFrom d) s')) ''date_from'' = Some d)"
  using assms by (simp add: filter_bar_of_def date_button_def active_filter_count_def timeline_params_def filter_params_def)

lemma emptied_dates_stay_applied_witness:
  "fb_date_button (filter_bar_of (fold bar_step [SetFrom [], SetTo []] (fresh_timeline\<lparr>date_from := ''x'', date_active := True\<rparr>))) = None"
  using emptied_dates_stay_applied [of "fresh_timeline\<lparr>date_from := ''x'', date_active := True\<rparr>" _ "[]", OF _ refl] by simp

end
