(* ===== verification/Vault.thy ===== *)
theory Vault
  imports Hooks Api Browser
begin

text \<open>
  \<open>pages/EvidenceVault.tsx\<close>, \<open>ChainOfCustody.tsx\<close> and \<open>LegalHolds.tsx\<close>, with the components that show
  untrusted text and tables (\<open>SafeText.tsx\<close>, \<open>ApiErrorAlert.tsx\<close>, \<open>DataTable.tsx\<close>).  The browser's
  \<open>URL\<close> is two parameters: \<open>resolve\<close> is \<open>new URL(u, origin)\<close> (\<open>None\<close> when it throws) and \<open>sign\<close> sets the
  parameter \<open>signature\<close>; a \<open>fetch\<close> is an awaited \<open>GET\<close> whose reply is the response.
\<close>

section \<open>Text and tables\<close>

text \<open>What is shown, and whether the copy button is there; the copy is of the whole text.\<close>

definition safe_text :: "string option \<Rightarrow> nat option \<Rightarrow> bool \<Rightarrow> string \<times> bool" where
  "safe_text t limit copy = (case t of None \<Rightarrow> (em_dash, False)
     | Some x \<Rightarrow> if x = [] then (em_dash, False)
        else ((case limit of Some n \<Rightarrow> (if n \<noteq> 0 \<and> n < length x then take n x @ ''...'' else x) | None \<Rightarrow> x), copy))"

datatype table_view = TableError | TableLoading | TableEmpty string | TableRows nat

definition data_table :: "'a list \<Rightarrow> bool \<Rightarrow> bool \<Rightarrow> string \<Rightarrow> table_view" where
  "data_table rows loading failed msg = (if failed then TableError
     else if loading \<and> rows = [] then TableLoading else if rows = [] then TableEmpty msg else TableRows (length rows))"

text \<open>The alert for an error: message, code and status, read from JSON when the text of the error is JSON.  \<open>js_or\<close>
  is \<open>a || b\<close>.\<close>

definition js_or :: "jsval option \<Rightarrow> jsval option \<Rightarrow> jsval option" where
  "js_or a b = (if truthy a then a else b)"

definition default_message :: string where
  "default_message = ''An unexpected error occurred. Please contact an administrator.''"

record alert_view =
  al_message :: jsval
  al_code :: jsval
  al_status :: "jsval option"

definition alert_of_value :: "jsval \<Rightarrow> alert_view" where
  "alert_of_value v = \<lparr>
     al_message = the (js_or (js_prop v ''detail'') (js_or (js_prop v ''message'') (Some (JStr default_message)))),
     al_code = the (js_or (js_prop v ''code'') (Some (JStr ''UNKNOWN_ERROR''))), al_status = js_prop v ''status''\<rparr>"

definition alert_of_text :: "string \<Rightarrow> alert_view" where
  "alert_of_text t = (case parse_json t of
      Some JNull \<Rightarrow> \<lparr>al_message = JStr t, al_code = JStr ''UNKNOWN_ERROR'', al_status = None\<rparr>
    | Some v \<Rightarrow> alert_of_value v
    | None \<Rightarrow> \<lparr>al_message = JStr t, al_code = JStr ''UNKNOWN_ERROR'', al_status = None\<rparr>)"

definition alert_of :: "jserr \<Rightarrow> alert_view" where
  "alert_of e = alert_of_text (message_or [] e)"

text \<open>The message that is rendered; \<open>None\<close> for a value that React cannot render.\<close>

definition rendered_message :: "alert_view \<Rightarrow> string option" where
  "rendered_message a = (case al_message a of
      JStr m \<Rightarrow> Some (if 500 < length m then take 500 m @ ''... (truncated)'' else m)
    | JNum n \<Rightarrow> Some (int_str n) | JBool b \<Rightarrow> Some [] | JNull \<Rightarrow> Some [] | _ \<Rightarrow> None)"

section \<open>The evidence vault\<close>

record vault_folder =
  vf_id :: string
  vf_incident :: string
  vf_type :: string
  vf_date :: string
  vf_files :: int
  vf_size :: string
  vf_status :: string

record vault_item =
  vi_id :: string
  vi_incident :: string
  vi_name :: string
  vi_type :: string
  vi_size :: string
  vi_status :: string
  vi_hash :: string
  vi_collected :: string

text \<open>An entry of the activity history is kept as the object that is stored.\<close>

record vault =
  v_incident :: "string option"
  v_search :: string
  v_selected :: "vault_item option"
  v_download_error :: "string option"
  v_downloading :: "string option"
  v_exporting :: bool
  v_activity_query :: string
  v_history :: "jsval list"
  v_browser :: browser

definition activity_key :: string where
  "activity_key = ''evidence-vault-activity''"

text \<open>\<open>JSON.parse(stored || "[]")\<close>, \<open>[]\<close> for text that is not JSON; \<open>None\<close> when it is JSON but no array, and
  rendering the page throws.\<close>

definition stored_history :: "browser \<Rightarrow> jsval list option" where
  "stored_history b = (let raw = (case local_get b activity_key of Some r \<Rightarrow> (if r = [] then ''[]'' else r) | None \<Rightarrow> ''[]'')
     in case parse_json raw of None \<Rightarrow> Some [] | Some (JArr vs) \<Rightarrow> Some vs | Some _ \<Rightarrow> None)"

definition open_vault :: "string option \<Rightarrow> browser \<Rightarrow> vault option" where
  "open_vault i b = map_option (\<lambda>h. \<lparr>v_incident = i, v_search = [], v_selected = None, v_download_error = None,
     v_downloading = None, v_exporting = False, v_activity_query = [], v_history = h, v_browser = b\<rparr>) (stored_history b)"

datatype vault_body = ExportItem string | ExportCase string

datatype vault_reply =
    VExport string "string option"
  | VResponse nat "string option"
  | VItems "vault_item list"

fun the_export where "the_export (VExport u g) = Some (u, g)" | "the_export _ = None"
fun the_response where "the_response (VResponse st d) = Some (st, d)" | "the_response _ = None"

type_synonym vault_io = "(vault, vault_reply, vault_body, unit) io"

definition activity_json :: "string \<Rightarrow> string \<Rightarrow> string \<Rightarrow> string \<Rightarrow> string \<Rightarrow> jsval" where
  "activity_json uuid now action status detail = JObj [(''id'', JStr uuid), (''timestamp'', JStr now), (''action'', JStr action),
     (''status'', JStr status), (''detail'', JStr detail)]"

definition push_activity :: "jsval \<Rightarrow> vault \<Rightarrow> vault" where
  "push_activity e s = (let next = take 50 (e # v_history s)
     in s\<lparr>v_history := next, v_browser := local_put activity_key (stringify (JArr next)) (v_browser s)\<rparr>)"

definition record_activity :: "string \<Rightarrow> string \<Rightarrow> string \<Rightarrow> string \<Rightarrow> string \<Rightarrow> vault_io \<Rightarrow> vault_io" where
  "record_activity uuid now action status detail k =
     Update (push_activity (activity_json uuid now action status detail)) (Emit (Toast action detail status) k)"

definition active_folder :: "vault \<Rightarrow> vault_folder list \<Rightarrow> vault_folder option" where
  "active_folder s fs = find (\<lambda>f. Some (vf_incident f) = v_incident s) fs"

text \<open>The item query, which is enabled only on a route with a case.\<close>

definition items_path :: "(string \<Rightarrow> string) \<Rightarrow> vault \<Rightarrow> string option" where
  "items_path enc s = (case v_incident s of Some i \<Rightarrow> (if i = [] then None else Some (''/evidence/items?incident_id='' @ enc i)) | None \<Rightarrow> None)"

definition filtered_items :: "string \<Rightarrow> vault_item list \<Rightarrow> vault_item list" where
  "filtered_items term items = (if trim term = [] then items
     else let q = to_lower term in filter (\<lambda>i. str_includes (to_lower (vi_name i)) q \<or> str_includes (to_lower (vi_type i)) q \<or>
       str_includes (to_lower (vi_hash i)) q) items)"

definition ok_response :: "nat \<Rightarrow> bool" where
  "ok_response st \<longleftrightarrow> 200 \<le> st \<and> st < 300"

definition signed_url :: "(string \<Rightarrow> string option) \<Rightarrow> (string \<Rightarrow> string \<Rightarrow> string) \<Rightarrow> string \<Rightarrow> string option \<Rightarrow> string option" where
  "signed_url resolve sign u g = map_option (\<lambda>x. case g of Some k \<Rightarrow> (if k = [] then x else sign k x) | None \<Rightarrow> x) (resolve u)"

definition fetch_export :: "(string \<Rightarrow> string option) \<Rightarrow> (string \<Rightarrow> string \<Rightarrow> string) \<Rightarrow> vault_body
    \<Rightarrow> (nat \<Rightarrow> string option \<Rightarrow> vault_io) \<Rightarrow> vault_io" where
  "fetch_export resolve sign body k = apiPost ''/evidence/exports'' body (expect the_export (\<lambda>(u, g).
     case signed_url resolve sign u g of None \<Rightarrow> Raise type_error
     | Some x \<Rightarrow> call (Request GET x None) (expect the_response (\<lambda>(st, d). k st d))))"

definition download_evidence :: "(string \<Rightarrow> string option) \<Rightarrow> (string \<Rightarrow> string \<Rightarrow> string) \<Rightarrow> string \<Rightarrow> string \<Rightarrow> vault_item \<Rightarrow> vault_io" where
  "download_evidence resolve sign uuid now item =
     Update (\<lambda>s. s\<lparr>v_download_error := None\<rparr>)
    (Update (\<lambda>s. s\<lparr>v_downloading := Some (vi_id item)\<rparr>)
    (tryFinally
      (tryCatch
        (fetch_export resolve sign (ExportItem (vi_id item)) (\<lambda>st d.
           if ok_response st then Emit (Download (vi_name item)) (record_activity uuid now ''Evidence downloaded'' ''success'' (vi_name item) Done)
           else Raise (Error (case d of Some m \<Rightarrow> (if m = [] then ''Download failed ('' @ nat_str st @ '')'' else m)
             | None \<Rightarrow> ''Download failed ('' @ nat_str st @ '')''))))
        (\<lambda>err. let detail = message_or ''Unable to download this evidence item.'' err
           in Update (\<lambda>s. s\<lparr>v_download_error := Some detail\<rparr>)
              (record_activity uuid now ''Evidence download failed'' ''error'' detail Done)))
      (Update (\<lambda>s. s\<lparr>v_downloading := None\<rparr>) Done)))"

definition export_case :: "(string \<Rightarrow> string option) \<Rightarrow> (string \<Rightarrow> string \<Rightarrow> string) \<Rightarrow> string \<Rightarrow> string \<Rightarrow> vault_io" where
  "export_case resolve sign uuid now = Read (\<lambda>s0. case v_incident s0 of None \<Rightarrow> Done
   | Some i \<Rightarrow> if i = [] then Done else
     Update (\<lambda>s. s\<lparr>v_download_error := None\<rparr>)
    (Update (\<lambda>s. s\<lparr>v_exporting := True\<rparr>)
    (tryFinally
      (tryCatch
        (fetch_export resolve sign (ExportCase i) (\<lambda>st d.
           if ok_response st then Emit (Download (i @ ''-evidence-export.zip''))
             (record_activity uuid now ''Case export downloaded'' ''success'' i Done)
           else Raise (Error (''Case export failed ('' @ nat_str st @ '')''))))
        (\<lambda>err. let detail = message_or ''Unable to export this case.'' err
           in Update (\<lambda>s. s\<lparr>v_download_error := Some detail\<rparr>)
              (record_activity uuid now ''Case export failed'' ''error'' detail Done)))
      (Update (\<lambda>s. s\<lparr>v_exporting := False\<rparr>) Done))))"

text \<open>The entries that match the activity filter.\<close>

definition text_prop :: "jsval \<Rightarrow> string \<Rightarrow> string" where
  "text_prop v k = (case js_prop v k of Some (JStr t) \<Rightarrow> t | _ \<Rightarrow> ''undefined'')"

definition shown_activity :: "vault \<Rightarrow> jsval list" where
  "shown_activity s = filter (\<lambda>e. str_includes (to_lower (text_prop e ''action'' @ '' '' @ text_prop e ''detail''))
     (to_lower (v_activity_query s))) (v_history s)"

text \<open>The keyboard in the detail panel: the index of the focused element among \<open>n\<close>, \<open>None\<close> when it closes.  Away
  from the ends the browser moves the focus.\<close>

definition panel_key :: "nat \<Rightarrow> string \<Rightarrow> bool \<Rightarrow> nat \<Rightarrow> nat option" where
  "panel_key n key shift i = (if key = ''Escape'' then None
     else if key \<noteq> ''Tab'' \<or> n = 0 then Some i
     else if shift \<and> i = 0 then Some (n - 1)
     else if \<not> shift \<and> i = n - 1 then Some 0
     else Some (if shift then i - 1 else i + 1))"

datatype vault_main = VaultEmpty | VaultTable table_view | VaultStandby

definition vault_main_of :: "vault \<Rightarrow> vault_folder list \<Rightarrow> vault_item list \<Rightarrow> bool \<Rightarrow> bool \<Rightarrow> vault_main" where
  "vault_main_of s fs items loading failed = (case active_folder s fs of
      None \<Rightarrow> VaultStandby
    | Some f \<Rightarrow> if \<not> loading \<and> \<not> failed \<and> items = [] then VaultEmpty
       else VaultTable (data_table (filtered_items (v_search s) items) loading failed
         (if v_search s \<noteq> [] then ''No objects matching filter'' else ''Sector is empty'')))"

section \<open>Chain of custody\<close>

record custody_entry =
  ce_id :: string
  ce_incident :: string
  ce_timestamp :: string
  ce_action :: string
  ce_actor :: string
  ce_target :: string

record custody =
  cu_search :: string
  cu_selected :: "string option"
  cu_log :: "custody_entry list"
  cu_error :: "string option"
  cu_exporting :: bool

definition initial_custody :: "string option \<Rightarrow> custody" where
  "initial_custody i = \<lparr>cu_search = [], cu_selected = i, cu_log = [], cu_error = None, cu_exporting = False\<rparr>"

definition has_integrity_error :: "custody \<Rightarrow> bool" where
  "has_integrity_error s = (case cu_error s of Some m \<Rightarrow> str_includes (to_lower m) ''integrity'' | None \<Rightarrow> False)"

definition only_integrity :: "string \<Rightarrow> string \<Rightarrow> jserr \<Rightarrow> string" where
  "only_integrity d fallback err = (let m = message_or d err in if str_includes m ''integrity'' then m else fallback)"

datatype custody_reply = CustodyLog "custody_entry list" | CustodyFile nat string

type_synonym custody_io = "(custody, custody_reply, unit, unit) io"

fun the_log where "the_log (CustodyLog es) = Some es" | "the_log _ = None"
fun the_file where "the_file (CustodyFile st t) = Some (st, t)" | "the_file _ = None"

definition load_custody :: custody_io where
  "load_custody = tryCatch
     (apiGet ''/chain-of-custody'' (expect the_log (\<lambda>es. Update (\<lambda>s. s\<lparr>cu_log := es, cu_error := None\<rparr>) Done)))
     (\<lambda>err. Update (\<lambda>s. s\<lparr>cu_error := Some (only_integrity ''Unable to load custody log.'' ''Unable to load custody log.'' err)\<rparr>) Done)"

definition custody_base :: "string option \<Rightarrow> string" where
  "custody_base env = (let b = (case env of Some e \<Rightarrow> (if trim e = [] then ''/api/v1'' else trim e) | None \<Rightarrow> ''/api/v1'')
     in if b \<noteq> [] \<and> last b = CHR ''/'' then butlast b else b)"

definition custody_file_name :: "string option \<Rightarrow> string" where
  "custody_file_name i = (case i of Some x \<Rightarrow> (if x = [] then ''chain_of_custody.csv'' else ''chain_of_custody_'' @ x @ ''.csv'')
     | None \<Rightarrow> ''chain_of_custody.csv'')"

definition export_custody :: "string option \<Rightarrow> (string \<Rightarrow> string) \<Rightarrow> custody_io" where
  "export_custody env enc = Read (\<lambda>s0.
     Update (\<lambda>s. s\<lparr>cu_exporting := True\<rparr>)
    (Update (\<lambda>s. s\<lparr>cu_error := None\<rparr>)
    (tryFinally
      (tryCatch
        (apiGet (custody_base env @ ''/chain-of-custody/export'' @ (case cu_selected s0 of
             Some i \<Rightarrow> (if i = [] then [] else ''?incident_id='' @ enc i) | None \<Rightarrow> []))
          (expect the_file (\<lambda>(st, body).
             if ok_response st then Emit (Download (custody_file_name (cu_selected s0))) Done
             else Raise (Error (if body \<noteq> [] then body else ''Request failed: '' @ nat_str st)))))
        (\<lambda>err. Update (\<lambda>s. s\<lparr>cu_error := Some (only_integrity ''Unable to export custody log.'' ''Unable to export custody log.'' err)\<rparr>) Done))
      (Update (\<lambda>s. s\<lparr>cu_exporting := False\<rparr>) Done))))"

definition custody_incidents :: "custody \<Rightarrow> string list" where
  "custody_incidents s = new_set (map ce_incident (cu_log s))"

definition filtered_log :: "custody \<Rightarrow> custody_entry list" where
  "filtered_log s = filter (\<lambda>e. (str_includes (to_lower (ce_action e)) (to_lower (cu_search s)) \<or>
       str_includes (to_lower (ce_actor e)) (to_lower (cu_search s)) \<or> str_includes (to_lower (ce_target e)) (to_lower (cu_search s)))
     \<and> (case cu_selected s of Some i \<Rightarrow> (if i = [] then True else ce_incident e = i) | None \<Rightarrow> True)) (cu_log s)"

definition incident_buttons :: "custody \<Rightarrow> (string \<times> bool) list" where
  "incident_buttons s = (''ALL'', cu_selected s = None) # map (\<lambda>i. (i, cu_selected s = Some i)) (take 3 (custody_incidents s))"

definition action_color :: "string \<Rightarrow> string" where
  "action_color a = (if str_includes a ''CREATED'' then ''text-primary'' else if str_includes a ''STARTED'' then ''text-warning''
     else if str_includes a ''COMPLETE'' then ''text-primary''
     else if str_includes a ''VERIFIED'' \<or> str_includes a ''LOCKED'' then ''text-status-verified''
     else if str_includes a ''EXPORTED'' then ''text-foreground'' else ''text-muted-foreground'')"

definition custody_rows :: "pagination \<Rightarrow> custody \<Rightarrow> custody_entry list" where
  "custody_rows p s = page_items (filtered_log s) p"

section \<open>Legal holds\<close>

record legal_hold =
  lh_id :: string
  lh_incident :: string
  lh_reason :: string
  lh_custodian :: string
  lh_days :: int
  lh_status :: string
  lh_created_by :: string
  lh_created :: string
  lh_expires :: "string option"
  lh_released :: "string option"

record holds_page =
  hp_show_form :: bool
  hp_reason :: string
  hp_custodian :: string
  hp_days :: string

definition initial_holds :: holds_page where
  "initial_holds = \<lparr>hp_show_form = False, hp_reason = [], hp_custodian = [], hp_days = ''0''\<rparr>"

datatype hold_body = NewHold string string int | ReleaseBody

type_synonym holds_io = "(holds_page, unit, hold_body, unit) io"

definition retention_of :: "string \<Rightarrow> int" where
  "retention_of t = (case parse_int t of Some n \<Rightarrow> n | None \<Rightarrow> 0)"

definition create_hold :: "string \<Rightarrow> holds_io" where
  "create_hold inc = Read (\<lambda>s0. tryCatch
     (apiPost (''/platform/incidents/'' @ inc @ ''/legal-holds'') (NewHold (hp_reason s0) (hp_custodian s0) (retention_of (hp_days s0)))
       (\<lambda>_. Emit (Invalidate [''legal-holds'', inc])
           (Emit (Toast ''Legal hold created'' [] ''default'') (Update (\<lambda>s. initial_holds) Done))))
     (\<lambda>_. Emit (Toast ''Failed to create legal hold'' [] ''destructive'') Done))"

definition release_hold :: "string \<Rightarrow> string \<Rightarrow> holds_io" where
  "release_hold inc i = tryCatch
     (apiPost (''/platform/incidents/'' @ inc @ ''/legal-holds/'' @ i @ ''/release'') ReleaseBody
       (\<lambda>_. Emit (Invalidate [''legal-holds'', inc]) (Emit (Toast ''Legal hold released'' [] ''default'') Done)))
     (\<lambda>_. Emit (Toast ''Failed to release hold'' [] ''destructive'') Done)"

definition active_holds :: "legal_hold list \<Rightarrow> legal_hold list" where
  "active_holds hs = filter (\<lambda>h. lh_status h = ''ACTIVE'') hs"

definition holds_title :: "legal_hold list \<Rightarrow> string" where
  "holds_title hs = ''LEGAL HOLDS ('' @ nat_str (length hs) @ '') '' @ em_dash @ '' '' @ nat_str (length (active_holds hs)) @ '' ACTIVE''"

definition create_hold_enabled :: "bool \<Rightarrow> holds_page \<Rightarrow> bool" where
  "create_hold_enabled busy s \<longleftrightarrow> hp_reason s \<noteq> [] \<and> hp_custodian s \<noteq> [] \<and> \<not> busy"

definition toggle_hold_form :: "holds_page \<Rightarrow> holds_page" where
  "toggle_hold_form s = s\<lparr>hp_show_form := \<not> hp_show_form s\<rparr>"

definition release_offered :: "bool \<Rightarrow> legal_hold \<Rightarrow> bool" where
  "release_offered admin h \<longleftrightarrow> admin \<and> lh_status h = ''ACTIVE''"

definition hold_rows :: "(string \<Rightarrow> string) \<Rightarrow> legal_hold \<Rightarrow> (string \<times> string) list" where
  "hold_rows day h = (let dated = (\<lambda>l t. case t of Some x \<Rightarrow> (if x = [] then [] else [(l, day x)]) | None \<Rightarrow> []) in
     [(''CUSTODIAN:'', lh_custodian h), (''RETENTION:'', if lh_days h = 0 then ''INDEFINITE'' else int_str (lh_days h) @ '' days''),
      (''CREATED:'', day (lh_created h))] @ dated ''EXPIRES:'' (lh_expires h) @ dated ''RELEASED:'' (lh_released h))"

section \<open>Lemmas\<close>

lemma json_wf_activity [simp]: "json_wf (activity_json u n a st d)"
  by (simp add: activity_json_def)

fun add_activity :: "string \<times> string \<times> string \<times> string \<times> string \<Rightarrow> vault \<Rightarrow> vault" where
  "add_activity (u, n, a, st, d) s = push_activity (activity_json u n a st d) s"

fun activity_of :: "string \<times> string \<times> string \<times> string \<times> string \<Rightarrow> jsval" where
  "activity_of (u, n, a, st, d) = activity_json u n a st d"

lemma add_activity_alt: "add_activity e = push_activity (activity_of e)"
  by (cases e) (simp add: fun_eq_iff)

lemma json_wf_activity_of [simp]: "json_wf (activity_of e)"
  by (cases e) simp

lemma take_append_take: "take n (xs @ take n ys) = take n (xs @ ys)"
  by (simp add: min_def)

lemma empty_array: "parse_json ''[]'' = Some (JArr [])"
  by code_simp

lemma history_after: "v_history (fold add_activity es s) = take 50 (rev (map activity_of es) @ v_history s)"
  if "length (v_history s) \<le> 50"
  using that
proof (induction es arbitrary: s)
  case (Cons e es)
  let ?s = "push_activity (activity_of e) s"
  have "length (v_history ?s) \<le> 50" by (simp add: push_activity_def Let_def)
  then have "v_history (fold add_activity es ?s) = take 50 (rev (map activity_of es) @ v_history ?s)"
    by (rule Cons.IH)
  also have "v_history ?s = take 50 (activity_of e # v_history s)"
    by (simp add: push_activity_def Let_def)
  also have "take 50 (rev (map activity_of es) @ take 50 (activity_of e # v_history s)) =
      take 50 (rev (map activity_of es) @ activity_of e # v_history s)"
    by (rule take_append_take)
  finally show ?case by (simp add: add_activity_alt del: take_append)
qed simp

lemma stored_after_push: "list_all json_wf (v_history s) \<Longrightarrow> json_wf e \<Longrightarrow>
   stored_history (v_browser (push_activity e s)) = Some (v_history (push_activity e s))"
proof -
  assume "list_all json_wf (v_history s)" "json_wf e"
  then have wf: "json_wf (JArr (take 50 (e # v_history s)))"
    by (auto simp: list_all_iff dest!: in_set_takeD)
  have "stringify (JArr vs) \<noteq> []" for vs
    using stringify_nonempty by (metis length_greater_0_conv)
  then show ?thesis
    by (simp add: stored_history_def push_activity_def Let_def local.fetch_store parse_stringify [OF wf] del: take_Cons_numeral)
qed

lemma response_cases:
  "(\<forall>e. P (Inl e)) \<Longrightarrow> (\<forall>r. P (Inr r)) \<Longrightarrow> P x"
  by (cases x) simp_all

section \<open>Properties\<close>

text \<open>The activity history keeps the fifty latest entries, the newest first, and a reload of the page shows the
  same list.\<close>

theorem history_survives_reload:
  assumes "local_get b activity_key = None" and "open_vault i b = Some s"
  shows "v_history (fold add_activity es s) = take 50 (rev (map activity_of es)) \<and>
    map_option v_history (open_vault j (v_browser (fold add_activity es s))) = Some (v_history (fold add_activity es s))"
proof -
  have s0: "v_history s = []" "v_browser s = b"
    using assms by (auto simp: open_vault_def stored_history_def empty_array)
  have h: "v_history (fold add_activity es s) = take 50 (rev (map activity_of es))"
    using history_after [of s es] by (simp add: s0)
  have "stored_history (v_browser (fold add_activity es s)) = Some (v_history (fold add_activity es s))"
  proof (cases es rule: rev_cases)
    case Nil
    then show ?thesis using assms(1) by (simp add: s0 stored_history_def empty_array)
  next
    case (snoc es' e)
    have "list_all json_wf (v_history (fold add_activity es' s))"
      using history_after [of s es'] by (auto simp: s0 list_all_iff dest!: in_set_takeD)
    then show ?thesis by (simp add: snoc add_activity_alt stored_after_push)
  qed
  then show ?thesis by (simp add: h open_vault_def)
qed

theorem history_survives_reload_witness:
  "map_option v_history (open_vault None (v_browser (fold add_activity [(''1'', ''t'', ''Evidence downloaded'', ''success'', ''a.evtx'')]
     (the (open_vault None sample_browser))))) = Some [activity_json ''1'' ''t'' ''Evidence downloaded'' ''success'' ''a.evtx'']"
proof -
  have "local_get sample_browser activity_key = None" by (simp add: sample_browser_def local_get_def)
  moreover have "open_vault None sample_browser = Some (the (open_vault None sample_browser))"
    by (simp add: open_vault_def stored_history_def sample_browser_def local_get_def empty_array)
  ultimately show ?thesis
    using history_survives_reload [of sample_browser None "the (open_vault None sample_browser)"
        "[(''1'', ''t'', ''Evidence downloaded'', ''success'', ''a.evtx'')]" None] by auto
qed

text \<open>Every attempt to download an item leaves exactly one entry in the history, which says whether it failed, and
  releases the button; the file is saved exactly when no error is shown.\<close>

theorem download_is_logged:
  "let m = download_evidence resolve sign uuid now item; s' = final_state srv yes m w s; failed = (v_download_error s' \<noteq> None) in
    v_downloading s' = None \<and> (Download (vi_name item) \<in> set (effects_of srv yes m w s)) = (\<not> failed) \<and>
    v_history s' = take 50 (activity_json uuid now (if failed then ''Evidence download failed'' else ''Evidence downloaded'')
      (if failed then ''error'' else ''success'') (case v_download_error s' of Some e \<Rightarrow> e | None \<Rightarrow> vi_name item) # v_history s)"
  by (simp add: download_evidence_def fetch_export_def io_simps record_activity_def push_activity_def
      split: sum.split option.split prod.split)

text \<open>Tab and Shift+Tab never leave the detail panel: they go round its controls, and the one undoes the
  other.\<close>

theorem focus_goes_round:
  assumes "i < n"
  shows "((\<lambda>f. Option.bind f (panel_key n ''Tab'' False)) ^^ k) (Some i) = Some ((i + k) mod n) \<and>
    Option.bind (panel_key n ''Tab'' False i) (panel_key n ''Tab'' True) = Some i"
proof
  have step: "panel_key n ''Tab'' False j = Some ((j + 1) mod n)" if "j < n" for j
    using that by (auto simp: panel_key_def mod_Suc_eq)
  show "((\<lambda>f. Option.bind f (panel_key n ''Tab'' False)) ^^ k) (Some i) = Some ((i + k) mod n)"
  proof (induction k)
    case (Suc k)
    have "(i + k) mod n < n" using assms by simp
    then show ?case by (simp add: Suc step mod_Suc_eq)
  qed (use assms in simp)
  show "Option.bind (panel_key n ''Tab'' False i) (panel_key n ''Tab'' True) = Some i"
    using assms by (auto simp: panel_key_def)
qed

theorem focus_goes_round_witness:
  "((\<lambda>f. Option.bind f (panel_key 3 ''Tab'' False)) ^^ 4) (Some 1) = Some 2"
  using focus_goes_round [of 1 3 4] by simp

text \<open>The backend's two answers for a log that was tampered with.\<close>

definition hash_failure :: jserr where
  "hash_failure = http_error (stringify (JObj [(''detail'', JStr ''Chain-of-custody integrity check failed'')])) 409"

definition signature_failure :: jserr where
  "signature_failure = http_error (stringify (JObj [(''detail'', JStr ''Chain-of-custody signature check failed'')])) 409"

lemma detail_error:
  "http_error (stringify (JObj [(''detail'', JStr d)])) st = Error (stringify (JObj [(''detail'', JStr d), (''status'', JNum (int st))]))"
  by (simp add: http_error_def error_body_def parse_stringify obj_put_def)

lemma failure_texts:
  "str_includes (message_or d hash_failure) ''integrity''" "\<not> str_includes (message_or d signature_failure) ''integrity''"
  unfolding hash_failure_def signature_failure_def detail_error message_or.simps by code_simp+

text \<open>A custody log whose hash chain is broken is reported as an integrity failure; one with a forged
  signature is reported like any network error.\<close>

theorem forged_signature_not_reported:
  "has_integrity_error (final_state (stateless (\<lambda>_. Inl hash_failure)) yes load_custody w s) \<and>
   cu_error (final_state (stateless (\<lambda>_. Inl signature_failure)) yes load_custody w s) = Some ''Unable to load custody log.'' \<and>
   \<not> has_integrity_error (final_state (stateless (\<lambda>_. Inl signature_failure)) yes load_custody w s)"
proof -
  have m: "only_integrity d f hash_failure = message_or d hash_failure" "only_integrity d f signature_failure = f" for d f
    by (simp_all add: only_integrity_def failure_texts)
  have "str_includes (to_lower (message_or d hash_failure)) ''integrity''" for d
    unfolding hash_failure_def detail_error message_or.simps by code_simp
  moreover have "\<not> str_includes (to_lower ''Unable to load custody log.'') ''integrity''"
    by (simp add: str_includes_def char_eval)
  ultimately show ?thesis
    by (simp add: load_custody_def io_simps stateless_def has_integrity_error_def m)
qed

end
