(* ===== verification/VaultViews.thy ===== *)
theory VaultViews
  imports Vault Layout
begin

text \<open>
  What \<open>pages/EvidenceVault.tsx\<close>, \<open>ChainOfCustody.tsx\<close> and \<open>LegalHolds.tsx\<close> draw, and the events of the vault.  The
  data of the queries are arguments: the folders, the items of the case of the route (with the count that came with
  them), the holds.  \<open>day\<close> and \<open>time\<close> are \<open>toLocaleDateString\<close> and \<open>toLocaleTimeString\<close> of a date.
\<close>

section \<open>The vault: sectors and objects\<close>

record sector_button =
  sb_name :: string
  sb_date :: string
  sb_active :: bool
  sb_target :: string

definition sector_button_of :: "vault \<Rightarrow> vault_folder \<Rightarrow> sector_button" where
  "sector_button_of s f = \<lparr>sb_name = vf_incident f, sb_date = hd (split_at_char (CHR '' '') (vf_date f)),
     sb_active = (v_incident s = Some (vf_incident f)), sb_target = ''/evidence/'' @ vf_incident f\<rparr>"

definition sector_style :: "bool \<Rightarrow> string" where
  "sector_style active = (if active then ''border-primary/50 bg-primary/5 ring-1 ring-inset ring-primary/20''
     else ''border-transparent hover:border-border hover:bg-secondary/40'')"

datatype sectors = SectorSkeletons nat | NoSectors string | Sectors "sector_button list"

definition sectors_of :: "bool \<Rightarrow> vault_folder list \<Rightarrow> vault \<Rightarrow> nat \<times> sectors" where
  "sectors_of loading fs s = (length fs, if loading then SectorSkeletons 5 else if fs = [] then NoSectors ''No cases found''
     else Sectors (map (sector_button_of s) fs))"

text \<open>The heading; the count of the answer is shown when there is one.\<close>

record vault_header =
  vh_title :: string
  vh_facts :: "string list option"
  vh_search :: string
  vh_export :: string
  vh_export_disabled :: bool

definition vault_header_of :: "vault_folder list \<Rightarrow> int option \<Rightarrow> vault \<Rightarrow> vault_header" where
  "vault_header_of fs count s = \<lparr>
     vh_title = (case v_incident s of Some i \<Rightarrow> (if i \<noteq> [] then ''Sector: '' @ i else ''Select a Case Sector'') | None \<Rightarrow> ''Select a Case Sector''),
     vh_facts = map_option (\<lambda>f. [''Targets: 1'', int_str (case count of Some n \<Rightarrow> n | None \<Rightarrow> vf_files f) @ '' Objects'', vf_size f @ '' Total''])
       (active_folder s fs),
     vh_search = v_search s, vh_export = (if v_exporting s then ''PREPARING...'' else ''EXPORT CASE''),
     vh_export_disabled = (v_incident s = None \<or> v_incident s = Some [] \<or> v_exporting s)\<rparr>"

record object_row =
  or_name :: "string \<times> bool"
  or_type :: string
  or_badge :: "string \<times> string"
  or_hash :: "string \<times> bool"
  or_size :: string
  or_download_disabled :: bool

definition object_row_of :: "vault \<Rightarrow> vault_item \<Rightarrow> object_row" where
  "object_row_of s i = \<lparr>or_name = safe_text (Some (vi_name i)) (Some 50) False, or_type = vi_type i,
     or_badge = integrity_badge (vi_status i) [], or_hash = safe_text (Some (vi_hash i)) (Some 32) True, or_size = vi_size i,
     or_download_disabled = (v_downloading s = Some (vi_id i))\<rparr>"

definition object_columns :: "(string \<times> nat option) list" where
  "object_columns = [(''ARTIFACT NAME'', None), (''INTEGRITY'', Some 140), (''SHA-256 HASH'', None), (''SIZE'', Some 80), ([], Some 72)]"

record detail_panel =
  dt_name :: "string \<times> bool"
  dt_badge :: "string \<times> string"
  dt_facts :: "(string \<times> string) list"
  dt_hash :: "string \<times> bool"
  dt_button :: string
  dt_disabled :: bool

definition detail_panel_of :: "vault \<Rightarrow> detail_panel option" where
  "detail_panel_of s = map_option (\<lambda>i. \<lparr>dt_name = safe_text (Some (vi_name i)) None False, dt_badge = integrity_badge (vi_status i) [],
     dt_facts = [(''Type'', vi_type i), (''Size'', vi_size i), (''Collected at'', vi_collected i)],
     dt_hash = safe_text (Some (vi_hash i)) None True,
     dt_button = (if v_downloading s = Some (vi_id i) then ''PREPARING DOWNLOAD...'' else ''DOWNLOAD EVIDENCE''),
     dt_disabled = (v_downloading s = Some (vi_id i))\<rparr>) (v_selected s)"

definition transfer_activity :: "(string \<Rightarrow> string) \<Rightarrow> vault \<Rightarrow> string \<times> (string \<times> string \<times> string) list" where
  "transfer_activity time s = (''Transfer activity ('' @ nat_str (length (v_history s)) @ '')'',
     map (\<lambda>e. (if js_prop e ''status'' = Some (JStr ''error'') then ''text-destructive'' else ''text-muted-foreground'',
       text_prop e ''action'' @ '': '' @ text_prop e ''detail'', time (text_prop e ''timestamp''))) (shown_activity s))"

record vault_page =
  vp_sectors :: "nat \<times> sectors"
  vp_header :: vault_header
  vp_error :: "string option"
  vp_main :: vault_main
  vp_rows :: "object_row list"
  vp_detail :: "detail_panel option"
  vp_activity :: "string \<times> (string \<times> string \<times> string) list"

definition vault_page_of :: "(string \<Rightarrow> string) \<Rightarrow> bool \<Rightarrow> vault_folder list \<Rightarrow> int option \<Rightarrow> vault_item list \<Rightarrow> bool \<Rightarrow> bool \<Rightarrow> vault \<Rightarrow> vault_page" where
  "vault_page_of time loading_folders fs count items loading failed s = (let main = vault_main_of s fs items loading failed in
     \<lparr>vp_sectors = sectors_of loading_folders fs s, vp_header = vault_header_of fs count s, vp_error = v_download_error s, vp_main = main,
      vp_rows = (case main of VaultTable (TableRows n) \<Rightarrow> map (object_row_of s) (filtered_items (v_search s) items) | _ \<Rightarrow> []),
      vp_detail = detail_panel_of s, vp_activity = transfer_activity time s\<rparr>)"

section \<open>The events of the vault\<close>

datatype vault_event =
    TypeSearch string | TypeActivity string | ViewObject vault_item | CloseDetail | DismissError
  | DownloadRow vault_item | DownloadDetail | ExportClicked | OpenSector string | OpenCollection

text \<open>The buttons of a row exist for the filtered items only, the button of the panel for the selected one.\<close>

definition vault_handler :: "(string \<Rightarrow> string option) \<Rightarrow> (string \<Rightarrow> string \<Rightarrow> string) \<Rightarrow> string \<Rightarrow> string \<Rightarrow> vault_item list
    \<Rightarrow> vault_event \<Rightarrow> vault_io" where
  "vault_handler resolve sign uuid now items ev = Read (\<lambda>s0. case ev of
      TypeSearch t \<Rightarrow> Update (\<lambda>s. s\<lparr>v_search := t\<rparr>) Done
    | TypeActivity t \<Rightarrow> Update (\<lambda>s. s\<lparr>v_activity_query := t\<rparr>) Done
    | ViewObject i \<Rightarrow> (if i \<in> set (filtered_items (v_search s0) items) then Update (\<lambda>s. s\<lparr>v_selected := Some i\<rparr>) Done else Done)
    | CloseDetail \<Rightarrow> Update (\<lambda>s. s\<lparr>v_selected := None\<rparr>) Done
    | DismissError \<Rightarrow> Update (\<lambda>s. s\<lparr>v_download_error := None\<rparr>) Done
    | DownloadRow i \<Rightarrow> (if i \<in> set (filtered_items (v_search s0) items) \<and> v_downloading s0 \<noteq> Some (vi_id i)
        then download_evidence resolve sign uuid now i else Done)
    | DownloadDetail \<Rightarrow> (case v_selected s0 of Some i \<Rightarrow>
        (if v_downloading s0 \<noteq> Some (vi_id i) then download_evidence resolve sign uuid now i else Done) | None \<Rightarrow> Done)
    | ExportClicked \<Rightarrow> (if vh_export_disabled (vault_header_of [] None s0) then Done else export_case resolve sign uuid now)
    | OpenSector i \<Rightarrow> Emit (Navigate (''/evidence/'' @ i)) Done
    | OpenCollection \<Rightarrow> Emit (Navigate (''/incidents/'' @ (case v_incident s0 of Some i \<Rightarrow> i | None \<Rightarrow> ''null'') @ ''/collect'')) Done)"

text \<open>What holds of the page while the items of its case are there: the selected object is one of them.\<close>

definition vault_ok :: "string option \<Rightarrow> vault_item list \<Rightarrow> vault \<Rightarrow> bool" where
  "vault_ok inc items s \<longleftrightarrow> v_incident s = inc \<and> (case v_selected s of Some i \<Rightarrow> i \<in> set items | None \<Rightarrow> True)"

section \<open>Custody log and legal holds\<close>

record custody_row =
  cr_day :: string
  cr_time :: string
  cr_action :: "string \<times> string"
  cr_actor :: string
  cr_target :: string

definition custody_row_of :: "(string \<Rightarrow> string) \<Rightarrow> (string \<Rightarrow> string) \<Rightarrow> custody_entry \<Rightarrow> custody_row" where
  "custody_row_of day time e = \<lparr>cr_day = day (ce_timestamp e), cr_time = time (ce_timestamp e),
     cr_action = (action_color (ce_action e), ce_action e), cr_actor = ce_actor e, cr_target = ce_target e\<rparr>"

record custody_page =
  cp_error :: "string option"
  cp_hint :: "string option"
  cp_buttons :: "(string \<times> bool) list"
  cp_export :: "string \<times> bool"
  cp_count :: string
  cp_rows :: "custody_row list + string"
  cp_range :: "int \<times> int \<times> nat"

definition custody_page_of :: "(string \<Rightarrow> string) \<Rightarrow> (string \<Rightarrow> string) \<Rightarrow> pagination \<Rightarrow> custody \<Rightarrow> custody_page" where
  "custody_page_of day time p s = \<lparr>cp_error = (case cu_error s of Some m \<Rightarrow> (if m \<noteq> [] then Some m else None) | None \<Rightarrow> None),
     cp_hint = (if has_integrity_error s then Some ''Integrity verification failed. Review custody hashes before continuing.'' else None),
     cp_buttons = incident_buttons s, cp_export = (if cu_exporting s then ''EXPORTING'' else ''EXPORT'', cu_exporting s),
     cp_count = nat_str (length (filtered_log s)) @ '' ENTRIES'',
     cp_rows = (if custody_rows p s = [] then Inr ''No chain-of-custody entries available.'' else Inl (map (custody_row_of day time) (custody_rows p s))),
     cp_range = (start_item p, end_item (length (filtered_log s)) p, length (filtered_log s))\<rparr>"

record hold_view =
  hv_style :: string
  hv_icon :: string
  hv_status :: "string \<times> string"
  hv_id :: string
  hv_release :: "bool option"
  hv_reason :: string
  hv_rows :: "(string \<times> string) list"

definition hold_view_of :: "(string \<Rightarrow> string) \<Rightarrow> bool \<Rightarrow> bool \<Rightarrow> legal_hold \<Rightarrow> hold_view" where
  "hold_view_of day admin releasing h = (let active = (lh_status h = ''ACTIVE'') in
     \<lparr>hv_style = (if active then ''border-destructive/50 bg-destructive/5'' else ''border-border/40 opacity-60''),
      hv_icon = (if active then ''Lock'' else ''Unlock''),
      hv_status = (if active then ''text-destructive'' else ''text-muted-foreground'', lh_status h), hv_id = em_dash @ '' '' @ lh_id h,
      hv_release = (if release_offered admin h then Some releasing else None), hv_reason = lh_reason h, hv_rows = hold_rows day h\<rparr>)"

record hold_form_view =
  hf_reason :: string
  hf_custodian :: string
  hf_days :: string
  hf_button :: string
  hf_disabled :: bool

record holds_view =
  hw_new :: bool
  hw_form :: "hold_form_view option"
  hw_title :: string
  hw_status :: string
  hw_list :: "hold_view list + string"

definition holds_view_of :: "(string \<Rightarrow> string) \<Rightarrow> bool \<Rightarrow> bool \<Rightarrow> bool \<Rightarrow> bool \<Rightarrow> legal_hold list \<Rightarrow> holds_page \<Rightarrow> holds_view" where
  "holds_view_of day admin creating releasing loading hs s = \<lparr>hw_new = admin,
     hw_form = (if hp_show_form s then Some \<lparr>hf_reason = hp_reason s, hf_custodian = hp_custodian s, hf_days = hp_days s,
       hf_button = (if creating then ''CREATING...'' else ''CREATE HOLD''), hf_disabled = (\<not> create_hold_enabled creating s)\<rparr> else None),
     hw_title = holds_title hs, hw_status = (if 0 < length (active_holds hs) then ''offline'' else ''online''),
     hw_list = (if loading then Inr ''LOADING...''
       else if hs = [] then Inr ''No legal holds. Evidence is subject to standard retention policy.''
       else Inl (map (hold_view_of day admin releasing) hs))\<rparr>"

section \<open>Lemmas\<close>

lemma filtered_items_subset: "set (filtered_items t items) \<subseteq> set items"
  by (auto simp: filtered_items_def Let_def)

lemma download_body:
  "Request POST p (Some b) \<in> set (requests_of srv yes (download_evidence resolve sign uuid now i) w s) \<Longrightarrow> b = ExportItem (vi_id i)"
  by (auto simp: download_evidence_def fetch_export_def io_simps record_activity_def split: sum.splits option.splits if_splits prod.splits)

lemma export_body:
  "Request POST p (Some b) \<in> set (requests_of srv yes (export_case resolve sign uuid now) w s) \<Longrightarrow> \<exists>i. v_incident s = Some i \<and> b = ExportCase i"
  by (auto simp: export_case_def fetch_export_def io_simps record_activity_def split: sum.splits option.splits if_splits prod.splits)

lemma push_keeps [simp]:
  "v_incident (push_activity e s) = v_incident s" "v_selected (push_activity e s) = v_selected s"
  by (simp_all add: push_activity_def Let_def)

lemma download_keeps [simp]:
  "v_incident (final_state srv yes (download_evidence resolve sign uuid now i) w s) = v_incident s"
  "v_selected (final_state srv yes (download_evidence resolve sign uuid now i) w s) = v_selected s"
  by (simp_all add: download_evidence_def fetch_export_def io_simps record_activity_def split: sum.split option.split prod.split)

lemma export_keeps [simp]:
  "v_incident (final_state srv yes (export_case resolve sign uuid now) w s) = v_incident s"
  "v_selected (final_state srv yes (export_case resolve sign uuid now) w s) = v_selected s"
  by (simp_all add: export_case_def fetch_export_def io_simps record_activity_def split: sum.split option.split prod.split)

lemma vault_ok_handler: "vault_ok inc items s \<Longrightarrow> vault_ok inc items (final_state srv yes (vault_handler resolve sign uuid now items ev) w s)"
  using filtered_items_subset [of "v_search s" items] by (auto simp: vault_ok_def vault_handler_def split: vault_event.split option.splits)

lemma vault_ok_events:
  "vault_ok inc items s \<Longrightarrow>
   vault_ok inc items (fold (\<lambda>ev s. final_state srv yes (vault_handler resolve sign uuid now items ev) w s) evs s)"
  by (induction evs arbitrary: s) (simp_all add: vault_ok_handler)

text \<open>A download whose answer is read as a file sends its request and no other.\<close>

lemma file_requests:
  "requests_of srv yes (tryFinally (tryCatch (apiGet q (expect the_file (\<lambda>(st, body). if ok_response st then Emit (Download e) Done else Raise (g st body))))
     (\<lambda>x. Update (h x) Done)) (Update k Done)) w s = [Request GET q None]"
proof (cases "fst (srv w (Request GET q None))")
  case (Inr r)
  then show ?thesis by (cases r) (auto simp: io_simps split: prod.split)
qed (auto simp: io_simps split: prod.split)

lemma export_custody_requests:
  "requests_of srv yes (export_custody env enc) w s = [Request GET (custody_base env @ ''/chain-of-custody/export'' @ (case cu_selected s of
     Some i \<Rightarrow> (if i = [] then [] else ''?incident_id='' @ enc i) | None \<Rightarrow> [])) None]"
  unfolding export_custody_def requests_of_simps file_requests ..

section \<open>Theorems\<close>

text \<open>C20. Evidence does not leave its case.  Whatever has been done on the page since it was opened for a case, and as long
  as the server lists under a case only the objects of that case, every export it asks for is of an object of the
  case of the route, or of that case as a whole.\<close>

theorem exports_stay_in_case:
  assumes "open_vault (Some c) b = Some s0" and "\<forall>i \<in> set items. vi_incident i = c"
    and "s = fold (\<lambda>ev s. final_state srv yes (vault_handler resolve sign uuid now items ev) w s) evs s0"
    and "Request POST p (Some body) \<in> set (requests_of srv yes (vault_handler resolve sign uuid now items ev) w s)"
  shows "body = ExportCase c \<or> (\<exists>i \<in> set items. vi_incident i = c \<and> body = ExportItem (vi_id i))"
proof -
  have "vault_ok (Some c) items s0" using assms(1) by (auto simp: open_vault_def vault_ok_def)
  then have ok: "vault_ok (Some c) items s" unfolding assms(3) by (rule vault_ok_events)
  show ?thesis
    using assms(2,4) ok filtered_items_subset [of "v_search s" items]
    by (cases ev) (auto simp: vault_handler_def vault_ok_def dest!: download_body export_body split: if_splits option.splits)
qed

definition sample_item :: "string \<Rightarrow> vault_item" where
  "sample_item i = \<lparr>vi_id = i, vi_incident = ''c'', vi_name = i, vi_type = ''EVTX'', vi_size = ''1'', vi_status = ''LOCKED'', vi_hash = ''h'',
     vi_collected = ''t''\<rparr>"

definition sample_vault :: vault where
  "sample_vault = the (open_vault (Some ''c'') sample_browser)"

lemma sample_vault_open: "open_vault (Some ''c'') sample_browser = Some sample_vault"
  by (simp add: sample_vault_def open_vault_def stored_history_def sample_browser_def local_get_def empty_array)

lemma sample_vault_fields: "v_incident sample_vault = Some ''c''" "v_selected sample_vault = None" "v_search sample_vault = []"
    "v_downloading sample_vault = None" "v_exporting sample_vault = False" "v_download_error sample_vault = None"
  by (simp_all add: sample_vault_def open_vault_def stored_history_def sample_browser_def local_get_def empty_array)

lemma exports_stay_in_case_witness:
  "\<exists>body. Request POST ''/evidence/exports'' (Some body) \<in> set (requests_of (stateless (\<lambda>_. Inl type_error)) True
     (vault_handler Some (\<lambda>k u. u) ''u'' ''t'' [sample_item ''a''] (DownloadRow (sample_item ''a''))) () sample_vault)
   \<and> (body = ExportCase ''c'' \<or> (\<exists>i \<in> set [sample_item ''a'']. vi_incident i = ''c'' \<and> body = ExportItem (vi_id i)))"
proof -
  let ?b = "ExportItem ''a''"
  have "filtered_items [] [sample_item ''a''] = [sample_item ''a'']" by (simp add: filtered_items_def trim_def)
  then have r: "Request POST ''/evidence/exports'' (Some ?b) \<in> set (requests_of (stateless (\<lambda>_. Inl type_error)) True
     (vault_handler Some (\<lambda>k u. u) ''u'' ''t'' [sample_item ''a''] (DownloadRow (sample_item ''a''))) () sample_vault)"
    by (simp add: vault_handler_def sample_vault_fields download_evidence_def fetch_export_def io_simps sample_item_def)
  show ?thesis
    by (rule exI [of _ ?b], rule conjI [OF r], rule exports_stay_in_case [OF sample_vault_open _ _ r, where evs = "[]"])
      (simp_all add: sample_item_def)
qed

text \<open>Two downloads share one mark: when a download fails while a later one waits for its answer, the row of the later
  one works again and the failure is shown as the error of the page.\<close>

theorem late_failure_frees_other:
  assumes "settle (download_evidence resolve sign u1 t1 a) yes s = (s1, [Await rq1 k1])"
    and "settle (download_evidence resolve sign u2 t2 b) yes s1 = (s2, [Await rq2 k2])"
  shows "or_download_disabled (object_row_of s2 b)
    \<and> \<not> or_download_disabled (object_row_of (fst (settle (k1 (Inl e)) yes s2)) b)
    \<and> v_download_error (fst (settle (k1 (Inl e)) yes s2)) = Some (message_or ''Unable to download this evidence item.'' e)"
  using assms
  by (auto simp: download_evidence_def fetch_export_def io_simps object_row_of_def record_activity_def push_activity_def)

lemma late_failure_frees_other_witness:
  "\<exists>s1 rq1 k1 s2 rq2 k2. settle (download_evidence Some (\<lambda>k u. u) ''u'' ''t'' (sample_item ''a'')) True sample_vault = (s1, [Await rq1 k1])
     \<and> settle (download_evidence Some (\<lambda>k u. u) ''v'' ''t'' (sample_item ''b'')) True s1 = (s2, [Await rq2 k2])
     \<and> \<not> or_download_disabled (object_row_of (fst (settle (k1 (Inl type_error)) True s2)) (sample_item ''b''))"
proof -
  obtain s1 rq1 k1 where 1: "settle (download_evidence Some (\<lambda>k u. u) ''u'' ''t'' (sample_item ''a'')) True sample_vault = (s1, [Await rq1 k1])"
    by (simp add: download_evidence_def fetch_export_def io_simps)
  obtain s2 rq2 k2 where 2: "settle (download_evidence Some (\<lambda>k u. u) ''v'' ''t'' (sample_item ''b'')) True s1 = (s2, [Await rq2 k2])"
    by (simp add: download_evidence_def fetch_export_def io_simps)
  show ?thesis using late_failure_frees_other [OF 1 2] 1 2 by blast
qed

text \<open>A case without a folder: the page stands by for the choice of a case, though it names one, reads its items and
  lets the analyst export it.\<close>

theorem folderless_case_stands_by:
  assumes "v_incident s = Some i" and "i \<noteq> []" and "active_folder s fs = None" and "\<not> v_exporting s"
  shows "vp_main (vault_page_of time lf fs count items loading failed s) = VaultStandby
    \<and> vh_title (vp_header (vault_page_of time lf fs count items loading failed s)) = ''Sector: '' @ i
    \<and> \<not> vh_export_disabled (vp_header (vault_page_of time lf fs count items loading failed s))
    \<and> items_path enc s \<noteq> None"
  using assms by (simp add: vault_page_of_def Let_def vault_main_of_def vault_header_of_def items_path_def)

lemma folderless_case_stands_by_witness:
  "vp_main (vault_page_of (\<lambda>t. t) False [] None [] False False sample_vault) = VaultStandby
   \<and> items_path (\<lambda>t. t) sample_vault \<noteq> None"
  using folderless_case_stands_by [of sample_vault "''c''" "[]" "\<lambda>t. t" False None "[]" False False "\<lambda>t. t"]
  by (simp add: sample_vault_fields active_folder_def)

text \<open>The export of the custody log follows the chosen case and not the search: whatever is searched for, it asks for
  the same file.\<close>

theorem export_ignores_search:
  "requests_of srv yes (export_custody env enc) w (s\<lparr>cu_search := t\<rparr>) = requests_of srv yes (export_custody env enc) w s
   \<and> set (filtered_log (s\<lparr>cu_search := t\<rparr>)) \<subseteq> set (cu_log s)"
  by (auto simp: export_custody_requests filtered_log_def)

text \<open>The buttons of the custody log offer ALL and three cases at most: when the page was opened for another case, or
  more than three have entries, no button is lit though the log is filtered.\<close>

theorem chosen_case_unlit:
  assumes "cu_selected s = Some i" and "i \<notin> set (take 3 (custody_incidents s))"
  shows "\<forall>b \<in> set (cp_buttons (custody_page_of day time p s)). \<not> snd b"
  using assms by (auto simp: custody_page_of_def incident_buttons_def)

lemma chosen_case_unlit_witness:
  "\<forall>b \<in> set (cp_buttons (custody_page_of (\<lambda>t. t) (\<lambda>t. t) (initial_pagination 25) (initial_custody (Some ''INC-9'')))). \<not> snd b"
  using chosen_case_unlit [of "initial_custody (Some ''INC-9'')" "''INC-9''" "\<lambda>t. t" "\<lambda>t. t" "initial_pagination 25"]
  by (simp add: initial_custody_def custody_incidents_def)

text \<open>A legal hold may be created for a reason and a custodian of blanks and for a negative number of days.\<close>

theorem blank_hold_created:
  assumes "hp_show_form s" and "hp_reason s = '' ''" and "hp_custodian s = '' ''" and "hp_days s = ''-5''"
  shows "map_option hf_disabled (hw_form (holds_view_of day True False False False hs s)) = Some False
    \<and> requests_of srv yes (create_hold i) w s = [Request POST (''/platform/incidents/'' @ i @ ''/legal-holds'') (Some (NewHold '' '' '' '' (-5)))]"
proof -
  have "retention_of ''-5'' = -5"
    by (simp add: retention_of_def parse_int_def is_space_def is_digit_def starts_with_def digits_value_def)
  then show ?thesis using assms
    by (simp add: holds_view_of_def create_hold_enabled_def create_hold_def io_simps split: sum.split)
qed

lemma blank_hold_created_witness:
  "requests_of (stateless (\<lambda>_. Inr ())) True (create_hold ''INC-1'') ()
     \<lparr>hp_show_form = True, hp_reason = '' '', hp_custodian = '' '', hp_days = ''-5''\<rparr>
   = [Request POST ''/platform/incidents/INC-1/legal-holds'' (Some (NewHold '' '' '' '' (-5)))]"
  using blank_hold_created [where s = "\<lparr>hp_show_form = True, hp_reason = '' '', hp_custodian = '' '', hp_days = ''-5''\<rparr>"
      and srv = "stateless (\<lambda>_. Inr ())" and yes = True and w = "()" and i = "''INC-1''"]
  by simp

end
