(* ===== verification/Spec2Isabelle.thy ===== *)
theory Spec2Isabelle
  imports AdminViews AutomationViews CollectionSetup Console DashboardViews DetectionViews ExecutionViews FrameViews HubViews HuntViews HypothesisViews IncidentViews InspectorViews LateralMap Login Pivot ReportViews Roles SettingsTypes Tables TimelineViews VaultViews
begin

text \<open>
  A model of the web frontend of the DFIR collection kit (\<open>frontend/src\<close>), the part of the
  repository in which an analyst opens a case, chooses what to collect, follows the collection and
  examines what it brought.

  \<^bold>\<open>Parts and theories.\<close>
  The language and the browser:
  \<^item> \<open>Prelude\<close>: JavaScript strings, sets and objects, numbers rounded as the code rounds them, and the
    programs (\<open>io\<close>) that handlers are translated to; \<open>Json\<close>: \<open>JSON.stringify\<close> and \<open>JSON.parse\<close> with their
    round trip; \<open>Regex\<close>: backtracking matching for the patterns of the source; \<open>Browser\<close>: the two web
    storages and the location.
  What every page uses:
  \<^item> \<open>Api\<close>: \<open>lib/api.ts\<close>, the request function that every page calls; \<open>Hooks\<close>: \<open>use-toast.ts\<close>,
    \<open>usePagination.ts\<close> with \<open>TablePagination.tsx\<close>, \<open>useAdaptivePolling.ts\<close>, \<open>useDebounce.ts\<close>,
    \<open>use-mobile.tsx\<close>; \<open>Layout\<close>: \<open>AppLayout.tsx\<close>, \<open>AppSidebar.tsx\<close> and the components of \<open>common\<close>;
    \<open>Tables\<close>: \<open>VirtualizedDataTable.tsx\<close>, \<open>TimelineExplorer.tsx\<close>, \<open>PageErrorBoundary.tsx\<close> with the
    \<open>RouteBoundary\<close> of \<open>App.tsx\<close>.
  \<^item> \<open>Auth\<close>: \<open>lib/auth.ts\<close> (the stored session, its validity, logging out) and the routes and guards of
    \<open>App.tsx\<close>; \<open>Login\<close>: \<open>pages/Login.tsx\<close>, which stores the session, with the logout that the API client
    makes when a request of the login is answered with 401.
  The case and its collection:
  \<^item> \<open>Dashboard\<close>, \<open>IncidentHub\<close>, \<open>Report\<close>: the pages that show cases, with what they draw in
    \<open>DashboardViews\<close>, \<open>HubViews\<close>, \<open>ReportViews\<close>; \<open>Incidents\<close>, \<open>IncidentViews\<close>: \<open>CreateIncident.tsx\<close> and
    \<open>IncidentTemplates.tsx\<close>.
  \<^item> \<open>CollectionSetup\<close> and \<open>CollectionExecution\<close>: the two pages of a collection, the first of which navigates
    to the second; \<open>Processing\<close>: \<open>ProcessingStatus.tsx\<close>, and its tail of the log together with the runs of
    its poller and the log on the server; \<open>ExecutionViews\<close>: the execution page, the processing page
    and \<open>TerminalLog.tsx\<close> as drawn; \<open>Devices\<close>, \<open>Users\<close>, \<open>Hypotheses\<close>:
    \<open>Devices.tsx\<close>, \<open>UserManagement.tsx\<close>, \<open>HypothesisBuilder.tsx\<close>; \<open>HypothesisViews\<close>: the list and the form
    the last one draws.
  \<^item> \<open>Console\<close>: \<open>AgentConsole.tsx\<close>, the shell on an agent over a web socket; \<open>Automation\<close>:
    \<open>CustomModules.tsx\<close>, \<open>ScheduledCollections.tsx\<close>, \<open>SIEMExport.tsx\<close>, \<open>Collectors.tsx\<close>, with their controls and the
    requests these may send in \<open>AutomationViews\<close>.
  The analysis:
  \<^item> \<open>TimelineUtils\<close>, \<open>SuperTimeline\<close>, \<open>TimelinePanels\<close>, \<open>LateralMap\<close>: the super timeline with its search
    language, event identity, indicators, filters, annotations, export, table, inspector, comparison,
    storyline and lateral movement map; \<open>TimelineViews\<close>, \<open>InspectorViews\<close>: its filter panels, bookmarks,
    inspector and comparison as drawn.
  \<^item> \<open>Detections\<close>: \<open>SigmaHits.tsx\<close>, \<open>IOCMatches.tsx\<close>, \<open>YaraMatches.tsx\<close>, \<open>AttackChains.tsx\<close>, drawn in
    \<open>DetectionViews\<close>; \<open>Pivot\<close>: the
    search a detection opens, read back by the query language of the timeline.
  \<^item> \<open>Hunting\<close>: \<open>ThreatHuntLibrary.tsx\<close>, \<open>ThreatIntel.tsx\<close>, \<open>CorrelationView.tsx\<close>; \<open>Assistant\<close>:
    \<open>AIAnalysis.tsx\<close> with the indented JSON it prints; \<open>HuntViews\<close>: the library and the AI tabs as drawn.
  \<^item> \<open>Evidence\<close>: \<open>EvidenceContext.tsx\<close>, the pinned evidence of the two nested providers (of \<open>App.tsx\<close> and
    \<open>AppLayout.tsx\<close>) that share one key of the storage, and \<open>EvidenceWorkspace.tsx\<close>; \<open>Vault\<close>:
    \<open>EvidenceVault.tsx\<close>, \<open>ChainOfCustody.tsx\<close>, \<open>LegalHolds.tsx\<close>; \<open>VaultViews\<close>, \<open>FrameViews\<close>: these pages, the
    evidence panel, the header and the sidebar as drawn, with the events they take.
  The administration:
  \<^item> \<open>AdminSettings\<close>, \<open>AiConfig\<close>, \<open>SettingsTypes\<close>: \<open>AdminSettings.tsx\<close> with the settings endpoints of the
    backend it relies on, \<open>AdminViews\<close>: what its tabs and dialogs show and the events they take; \<open>AuditLog\<close>: its audit tab and \<open>AuditLog.tsx\<close>.
  This theory holds what spans components: the setup page handing its choice to the execution page, the
  polling hook driven by the execution page's poll, the API client's errors read by the login page, and
  the logout whose reason the login page looks for.

  \<^bold>\<open>State and handlers.\<close>
  The \<open>useState\<close> and \<open>useRef\<close> variables of a page are one record, and a handler is a program over it:
  \<open>Update\<close> is a state setter in its functional form, \<open>Await\<close> a call of the API client with the rest of
  the handler as its continuation (which gets a thrown error or a reply), \<open>Confirm\<close> a confirmation dialog,
  \<open>Emit\<close> an effect outside the page (a navigation, a toast, a cache invalidation) and \<open>Raise\<close> an
  exception.  \<open>tryCatch\<close>, \<open>tryFinally\<close>, \<open>both\<close> (\<open>Promise.all\<close>), \<open>all_settled\<close> and \<open>orElse\<close> (\<open>.catch\<close>)
  compose programs.  A value that a handler closes over from its render is read when the handler starts.

  A program is run in two ways.  \<open>final_state\<close>, \<open>requests_of\<close>, \<open>effects_of\<close> and \<open>outcome_of\<close> run one
  handler alone against a server, a function of its own state and the request.  \<open>reachable\<close> is the
  interleaving: any event may start its handler while others wait for replies, any waiting handler may
  be resumed with any reply or error, and the state is whatever the page holds by then.  Invariants
  (\<open>CollectionSetup.full_profile_selects_all\<close>, \<open>CollectionExecution.phases_stay_ordered\<close>) are over
  \<open>reachable\<close>, through the locale \<open>component_invariant\<close>, which each page with such an invariant interprets; its
  obligation is that every handler \<open>keeps\<close> the invariant between any two of its waits.
  \<open>Requests\<close> extends this locale to \<open>component_requests\<close>, the contract of what a page may send: under every
  interleaving each call that waits is one of the allowed requests.  It is interpreted on the custom modules, the
  schedules, the SIEM export, the collectors, the hunt library and a viewer's execution page, where the allowed
  requests depend on the role, and in \<open>Roles\<close> on the devices, the templates and the users page, where no request
  may name the own account.
  \<open>wp\<close> is a weakest precondition for programs over the answers that a request may get, with one rule per
  constructor and for the combinators its client uses; it carries \<open>Login.login_settles\<close>.  The other interfaces are \<open>json_store\<close> (a JSON value kept under a key;
  both web storages) and \<open>facet_control\<close> (a multiple choice in which nothing chosen means all; the host
  and the source filter of the timeline).

  A 401 also makes the API client clear the session and leave for the login page.  On the login page itself nothing is
  left, and \<open>Login\<close> models both; any other page sees a 401 as the error it throws, and is gone when the browser has
  left it.  A query that React Query sends for the data of a page is not among the requests of its handlers.

  \<^bold>\<open>Polling.\<close>
  A run of the effect in \<open>useAdaptivePolling.ts\<close> is a \<open>poller\<close>; the hook is the list of its runs, all but the last of
  them cancelled.  \<open>Hooks.polling_one_per_run\<close> is the invariant of every run, and \<open>Hooks.restarts_overlap\<close> shows that
  the polls of different runs overlap.  The tail of the log builds on it: \<open>tail_step\<close> has the runs of its poller, the
  waiting polls and a log that may be deleted.  \<open>Processing.log_tail_refines_channel\<close> is about the orderly steps, in which no run
  starts over a waiting poll and no log is deleted; \<open>Processing.no_line_lost\<close>, \<open>Processing.restart_repeats_lines\<close> and
  \<open>Processing.deleted_log_hides_lines\<close> say what is left without the one or the other.

  \<^bold>\<open>Values.\<close>
  A value of a known TypeScript type is a record, datatype or string; what comes from storage or from an
  event row and is inspected dynamically is a \<open>jsval\<close>, with \<open>truthy\<close> and \<open>js_prop\<close> as in JavaScript.
  Strings are lists of single-byte code units, case mapping is that of ASCII.  The 32-bit arithmetic of the
  event hash is on words of 32 bits.  Numbers that the code only adds and compares are integers; sizes
  and ratios are rationals or reals, without rounding errors of floating point.

  \<^bold>\<open>Bounds and fuel.\<close>
  The API client makes \<open>max_retries\<close> = 2 attempts, the loop's own bound.  The JSON parser takes
  fuel from the length of its text, which the round trip in \<open>Json\<close> shows to be enough for printed
  values; a repetition in a regular expression ends with the text.  The loop that reads the shared
  annotations has no bound in the code; \<open>SuperTimeline.annotations_read_ends\<close> shows that 10000 pages, the
  program's own limit on the entries it reads, are enough as long as the server does not send an
  empty page with a next cursor.

  \<^bold>\<open>Parameters.\<close>
  The backend is the server function; the clock, \<open>Date.parse\<close>, locale formatting, \<open>crypto.randomUUID\<close> and
  \<open>encodeURIComponent\<close> are arguments where a result depends on them.

  \<^bold>\<open>Not modelled.\<close>
  The JSX layout, styling, animations and sounds; the vendored interface kit under \<open>components/ui\<close>; React
  Router's matching and React Query's cache policy (a query delivers its result as an event); the drawing of
  the lateral movement map and of the login page's canvas; the Python backend beyond the settings
  endpoints and the reading of the processing log, and the Go agent, which the pages see as the server function only.
\<close>

section \<open>From the setup page to the execution page\<close>

text \<open>The navigation state as the execution page reads it: two of its four fields.\<close>

definition received_state :: "collect_state \<Rightarrow> collection_location_state" where
  "received_state st = \<lparr>ls_module_ids = Some (selected_module_ids st), ls_os_override = Some (nav_os_override st)\<rparr>"

definition collection_requests :: "('w, exec_reply, exec_body) server \<Rightarrow> 'w \<Rightarrow> string \<Rightarrow> int \<Rightarrow> setup_page
    \<Rightarrow> exec_body request list option" where
  "collection_requests srv w i now s = map_option (\<lambda>(path, st).
     requests_of srv True (start_collection False i (Some (received_state st)) now) w initial_execution)
     (handle_start_collection False i s)"

text \<open>C5. The devices an analyst picks are never sent: whatever is ticked on the setup page, none at all
  included (where the page says that the collection will not run), starting the collection sends the
  same requests, and the collection request names no device.\<close>

theorem device_choice_never_sent:
  assumes "selected s \<noteq> []"
  shows "collection_requests srv w i now (s\<lparr>selected_device_ids := picked\<rparr>) = collection_requests srv w i now s
    \<and> handle_start_collection False i (s\<lparr>selected_device_ids := []\<rparr>) \<noteq> None"
  using assms by (simp add: collection_requests_def handle_start_collection_def received_state_def
      active_os_def split: option.split)

theorem device_choice_never_sent_witness:
  "collection_requests (stateless (\<lambda>_. Inl NonError)) () ''i1'' 0 (loaded_page\<lparr>selected_device_ids := []\<rparr>) =
     collection_requests (stateless (\<lambda>_. Inl NonError)) () ''i1'' 0 loaded_page
   \<and> no_device_warning (loaded_page\<lparr>selected_device_ids := []\<rparr>) \<noteq> None"
proof -
  have "selected loaded_page \<noteq> []" by (simp add: loaded_page_eq)
  then show ?thesis
    using device_choice_never_sent [of loaded_page "stateless (\<lambda>_. Inl NonError)" "()" "''i1''" 0 "[]"]
    by (simp add: no_device_warning_def loaded_page_eq sample_devices_def)
qed

text \<open>A failed poll of a running collection does not back off: the execution page turns the failure
  into the fingerprint \<open>null\<close>, which differs from the status seen before, so the interval falls back to
  its minimum instead of growing.\<close>

theorem failed_poll_speeds_up:
  assumes "srv w (Request POST (''/incidents/'' @ i @ ''/collect/poll'') (Some CollectionExecution.EmptyBody)) = (Inl e, w')"
    and "outcome_of srv yes (handle_poll lt i now) w s = Inr fp"
    and "previous_fingerprint p = Some (Some st)" and "\<not> cancelled p"
  shows "poll_interval (poll_fulfilled initial maximum factor (Some fp) p) = poll_initial initial"
proof -
  have "fp = None" using assms(1,2) by (auto simp: handle_poll_def io_simps split: if_splits)
  then show ?thesis using assms(3,4) by (simp add: poll_fulfilled_def schedule_def Let_def)
qed

theorem failed_poll_speeds_up_witness:
  "poll_interval (poll_fulfilled (Some 2000) (Some 30000) None (Some None)
     \<lparr>cancelled = False, poll_timer = None, in_flight = 1,
      previous_fingerprint = Some (Some ''COLLECTION_IN_PROGRESS''), poll_interval = 30000\<rparr>) = 2000"
  using failed_poll_speeds_up [of "stateless (\<lambda>_. Inl NonError)" "()" "''i1''" NonError "()" True "\<lambda>t. t" 0
      "initial_execution\<lparr>started := True\<rparr>" None
      "\<lparr>cancelled = False, poll_timer = None, in_flight = 1,
        previous_fingerprint = Some (Some ''COLLECTION_IN_PROGRESS''), poll_interval = 30000\<rparr>"
      "''COLLECTION_IN_PROGRESS''" "Some 2000" "Some 30000" None]
  by (simp add: stateless_def handle_poll_def io_simps poll_initial_def)

section \<open>The API client and the login page\<close>

text \<open>C11. A wrong password: when the server answers a login with 401 (twice, since the client sends it twice),
  the message the login page shows is that the session expired, whatever detail the server sent.\<close>

theorem wrong_password_shown_as_expired:
  assumes "rq = Request POST ''/auth/login'' (Some credentials)"
    and "raw w (first_call env rq) = (Response 401 ra0 (Inr t0) js0, w1)"
    and "raw w1 (second_call env rq) = (Response 401 ra1 (Inr t1) js1, w2)"
  shows "(case fst (api_request raw env rq w) of Inl e \<Rightarrow> parse_error_message e = (''Session expired'', None) | Inr v \<Rightarrow> False)
    \<and> map fc_method (fetches (snd (snd (api_request raw env rq w)))) = [POST, POST]"
proof -
  have n: "\<not> ok_status 401" by (simp add: ok_status_def)
  have t: "try_block (Suc 0) (Response 401 ra1 (Inr t1) js1) = Threw (error_json ''Session expired'' 401)"
    by (simp add: try_block_def)
  have f: "final_error k (error_json ''Session expired'' 401) = error_json ''Session expired'' 401" for k
    by (simp add: error_json_def final_error_def)
  have p: "parse_error_message (error_json ''Session expired'' 401) = (''Session expired'', None)"
    by (simp add: error_json_def parse_error_message_def parse_stringify text_of_def)
  show ?thesis
    using api_request_retries(1,2) [OF assms(2) http_failure_not_settled [OF n] assms(3)] t f p assms(1)
    by (simp add: first_call_def second_call_def)
qed

definition always_401 :: "nat \<Rightarrow> fetch_call \<Rightarrow> nat fetch_result \<times> nat" where
  "always_401 n fc = (Response 401 None (Inr ''Invalid credentials'') (Inl type_error), Suc n)"

theorem wrong_password_shown_as_expired_witness:
  "case fst (api_request always_401 None (Request POST ''/auth/login'' (Some (JObj []))) 0) of
     Inl e \<Rightarrow> parse_error_message e = (''Session expired'', None) | Inr v \<Rightarrow> False"
  using wrong_password_shown_as_expired [where raw = always_401 and env = None and w = 0
      and rq = "Request POST ''/auth/login'' (Some (JObj []))"]
  by (simp add: always_401_def)

text \<open>The reason of an expired session is never shown: \<open>logout\<close> puts it in the query of the URL, and the
  login page reads it only from the navigation state and the local storage.\<close>

theorem expired_reason_not_shown:
  assumes "local_get b ''dfir_logout_reason'' = None" and "pathname b \<noteq> ''/login''"
  shows "location_search (logout (Some ''expired'') b) = ''?reason=expired'' \<and>
    logout_reason (read_logout_reason None now (initial_login info (logout (Some ''expired'') b))) = None"
proof -
  have "local_get (logout (Some ''expired'') b) ''dfir_logout_reason'' = None"
    using assms by (simp add: logout_def Let_def clear_stored_auth_def local_get_def local_remove_def
        session_remove_def assign_location_def)
  then show ?thesis
    using assms(2) by (simp add: read_logout_reason_def initial_login_def no_text_def Let_def)
      (simp add: logout_def clear_stored_auth_def assign_location_def)
qed

theorem expired_reason_not_shown_witness:
  "logout_reason (read_logout_reason None ''now'' (initial_login
     \<lparr>effective_type = None, downlink = None, rtt = None\<rparr> (logout (Some ''expired'') sample_browser))) = None"
proof -
  have "local_get sample_browser ''dfir_logout_reason'' = None" "pathname sample_browser \<noteq> ''/login''"
    by (simp_all add: sample_browser_def local_get_def)
  from expired_reason_not_shown [OF this] show ?thesis by blast
qed

end
